(* ===== verification/Prelude.thy ===== *)
theory Prelude
  imports Main "HOL-Library.Word" "HOL-Library.Monad_Syntax"
begin

text \<open>
  Shared vocabulary of the development: the C integer types as words, the C \<open>switch\<close> statement,
  checked array access, the three-way outcome of a C function that can fail, and the generic
  lemmas and hint collections the component theories build on.

  Undefined behaviour is a value.  An access outside an array, or through a null pointer, makes a
  checked access return \<open>None\<close>, and a loader that performs one returns \<open>UB\<close>; memory safety of a
  component is then a theorem that this value is never reached.
\<close>

unbundle bit_operations_syntax

section \<open>Integer types of the source\<close>

type_synonym u8 = "8 word"
type_synonym u16 = "16 word"
type_synonym u32 = "32 word"
type_synonym u64 = "64 word"

text \<open>\<open>shl\<close> and \<open>shr\<close> are the C operators \<open><<\<close> and \<open>>>\<close> on an unsigned value, for a shift count
  below the width (every count in the modelled code is).\<close>

abbreviation shl :: "'a::len word \<Rightarrow> nat \<Rightarrow> 'a word" where
  "shl x n \<equiv> push_bit n x"

abbreviation shr :: "'a::len word \<Rightarrow> nat \<Rightarrow> 'a word" where
  "shr x n \<equiv> drop_bit n x"

section \<open>Hint collections\<close>

named_theorems array_simps \<open>checked array access\<close>
named_theorems outcome_simps \<open>outcome monad\<close>
named_theorems word_bound \<open>upper bounds of extracted bit fields\<close>

section \<open>The C switch statement\<close>

text \<open>A switch whose labels are distinct constants selects the body of the matching label and the
  default body otherwise.  A body that several labels share is an entry of \<open>switch_in\<close>.\<close>

definition switch :: "'a \<Rightarrow> ('a \<times> 'b) list \<Rightarrow> 'b \<Rightarrow> 'b" where
  "switch x cs d = (case map_of cs x of None \<Rightarrow> d | Some y \<Rightarrow> y)"

fun switch_in :: "'a \<Rightarrow> ('a list \<times> 'b) list \<Rightarrow> 'b \<Rightarrow> 'b" where
  "switch_in x [] d = d"
| "switch_in x ((ls, y) # cs) d = (if x \<in> set ls then y else switch_in x cs d)"

lemma switch_Nil [simp]: "switch x [] d = d"
  by (simp add: switch_def)

lemma switch_Cons [simp]: "switch x ((l, y) # cs) d = (if x = l then y else switch x cs d)"
  by (simp add: switch_def)

lemma switch_append: "switch x (cs @ ds) d = switch x cs (switch x ds d)"
  by (simp add: switch_def map_add_def split: option.split)

text \<open>What holds of every body holds of the whole statement.\<close>

lemma switch_all: "P d \<Longrightarrow> list_all (\<lambda>(l, y). P y) cs \<Longrightarrow> P (switch x cs d)"
  by (induction cs) auto

lemma switch_in_all: "P d \<Longrightarrow> list_all (\<lambda>(ls, y). P y) cs \<Longrightarrow> P (switch_in x cs d)"
  by (induction cs) auto

text \<open>The same, knowing which label was taken.\<close>

lemma switch_all_at:
  "P x d \<Longrightarrow> list_all (\<lambda>(l, y). P l y) cs \<Longrightarrow> P x (switch x cs d)"
  by (induction cs) auto

section \<open>Checked array access\<close>

definition arr_get :: "'a list \<Rightarrow> nat \<Rightarrow> 'a option" where
  "arr_get xs i = (if i < length xs then Some (xs ! i) else None)"

definition arr_set :: "'a list \<Rightarrow> nat \<Rightarrow> 'a \<Rightarrow> 'a list option" where
  "arr_set xs i v = (if i < length xs then Some (xs[i := v]) else None)"

lemma arr_get_Some [array_simps]: "i < length xs \<Longrightarrow> arr_get xs i = Some (xs ! i)"
  by (simp add: arr_get_def)

lemma arr_set_Some [array_simps]: "i < length xs \<Longrightarrow> arr_set xs i v = Some (xs[i := v])"
  by (simp add: arr_set_def)

lemma arr_get_eq_Some_iff: "arr_get xs i = Some v \<longleftrightarrow> i < length xs \<and> v = xs ! i"
  by (auto simp: arr_get_def)

lemma arr_get_eq_None_iff: "arr_get xs i = None \<longleftrightarrow> length xs \<le> i"
  by (auto simp: arr_get_def)

lemma arr_set_eq_Some_iff: "arr_set xs i v = Some ys \<longleftrightarrow> i < length xs \<and> ys = xs[i := v]"
  by (auto simp: arr_set_def)

section \<open>Outcomes of functions that can fail\<close>

text \<open>\<open>UB\<close>: the execution performs an undefined access.  \<open>Err e\<close>: the function reports an error and
  returns false.  \<open>Ok v\<close>: it succeeds.\<close>

datatype ('e, 'a) outcome = UB | Err 'e | Ok 'a

primrec bind_out :: "('e, 'a) outcome \<Rightarrow> ('a \<Rightarrow> ('e, 'b) outcome) \<Rightarrow> ('e, 'b) outcome" where
  "bind_out UB f = UB"
| "bind_out (Err e) f = Err e"
| "bind_out (Ok x) f = f x"

definition check :: "bool \<Rightarrow> 'e \<Rightarrow> ('e, unit) outcome" where
  "check b e = (if b then Ok () else Err e)"

definition access :: "'a option \<Rightarrow> ('e, 'a) outcome" where
  "access x = (case x of None \<Rightarrow> UB | Some v \<Rightarrow> Ok v)"

lemma bind_out_Ok_iff [outcome_simps]:
  "bind_out m f = Ok y \<longleftrightarrow> (\<exists>x. m = Ok x \<and> f x = Ok y)"
  by (cases m) auto

lemma bind_out_UB_iff [outcome_simps]:
  "bind_out m f = UB \<longleftrightarrow> m = UB \<or> (\<exists>x. m = Ok x \<and> f x = UB)"
  by (cases m) auto

lemma bind_out_assoc: "bind_out (bind_out m f) g = bind_out m (\<lambda>x. bind_out (f x) g)"
  by (cases m) auto

lemma check_Ok_iff [outcome_simps]: "check b e = Ok u \<longleftrightarrow> b"
  by (auto simp: check_def)

lemma check_not_UB [simp]: "check b e \<noteq> UB"
  by (simp add: check_def)

lemma access_Some [simp]: "access (Some v) = Ok v"
  by (simp add: access_def)

lemma access_None [simp]: "access None = UB"
  by (simp add: access_def)

lemma access_Ok_iff [outcome_simps]: "access m = Ok v \<longleftrightarrow> m = Some v"
  by (cases m) auto

lemma access_UB_iff [outcome_simps]: "access m = UB \<longleftrightarrow> m = None"
  by (cases m) auto

section \<open>The C for loop\<close>

text \<open>\<open>for (i = a; i < b; ++i)\<close> is \<open>for_each [a..<b]\<close>; a body that fails ends it.\<close>

fun for_each :: "'i list \<Rightarrow> ('i \<Rightarrow> 's \<Rightarrow> 's option) \<Rightarrow> 's \<Rightarrow> 's option" where
  "for_each [] f s = Some s"
| "for_each (i # is) f s = do { s \<leftarrow> f i s; for_each is f s }"

lemma for_each_inv:
  assumes "P a s" "a \<le> b"
    and "\<And>i s. a \<le> i \<Longrightarrow> i < b \<Longrightarrow> P i s \<Longrightarrow> \<exists>s'. f i s = Some s' \<and> P (Suc i) s'"
  shows "\<exists>s'. for_each [a..<b] f s = Some s' \<and> P b s'"
  using assms
proof (induction "b - a" arbitrary: a s)
  case (Suc n)
  from Suc.hyps(2) have "a < b" by simp
  with Suc.prems obtain s1 where s1: "f a s = Some s1" "P (Suc a) s1"
    by blast
  moreover have "\<exists>s'. for_each [Suc a..<b] f s1 = Some s' \<and> P b s'"
    using Suc.hyps(2) Suc.prems(3) s1(2) \<open>a < b\<close> by (intro Suc.hyps(1)) auto
  ultimately show ?case
    using \<open>a < b\<close> by (simp add: upt_conv_Cons)
qed simp

text \<open>A loop that skips the indices from \<open>a\<close> on when there are none.\<close>

lemma for_each_empty [simp]: "b \<le> a \<Longrightarrow> for_each [a..<b] f s = Some s"
  by simp

section \<open>Bit fields of words\<close>

lemma unat_and_le_right: "unat (x AND y) \<le> unat (y :: 'a::len word)"
  using word_and_le1 [of x y] by (simp add: word_le_nat_alt)

lemma and_field_bound [word_bound]: "y < n \<Longrightarrow> x AND y < (n :: 'a::len word)"
  using word_and_le1 [of x y] by (rule order.strict_trans1)

text \<open>A field masked with \<open>m\<close> stays at most \<open>m\<close> when it is stored in a narrower variable.\<close>

lemma unat_ucast_and_le [word_bound]:
  "unat (ucast (x AND m :: 'a::len word) :: 'b::len word) \<le> unat m"
proof -
  have "unat (ucast (x AND m) :: 'b word) \<le> unat (x AND m)"
    by (simp add: unsigned_ucast_eq take_bit_nat_less_eq_self)
  also have "\<dots> \<le> unat m"
    by (rule unat_and_le_right)
  finally show ?thesis .
qed

text \<open>Word alignment of an address.\<close>

lemma word_aligned_iff: "(a :: u32) AND 3 = 0 \<longleftrightarrow> unat a mod 4 = 0"
proof -
  have "a AND 3 = take_bit 2 a"
    by (simp add: take_bit_eq_mask mask_numeral)
  then have "a AND 3 = a mod 4"
    by (simp add: take_bit_eq_mod)
  then show ?thesis
    by (simp add: word_unat_eq_iff unat_mod_distrib)
qed

end
