(* ===== verification/CTypes.thy ===== *)
theory CTypes
  imports Prelude
begin

text \<open>
  \<open>src/common/types.h\<close>: sign extension, byte swaps and the big-endian accessors every loader and
  the guest memory use.  A C pointer into a buffer is the buffer and an offset; an access that
  would leave the buffer is \<open>None\<close>.
\<close>

section \<open>Sign extension and byte swaps\<close>

definition sign_extend :: "u32 \<Rightarrow> nat \<Rightarrow> u32" where
  "sign_extend value bits = (let mask = shl 1 (bits - 1) in (value XOR mask) - mask)"

definition bswap16 :: "u16 \<Rightarrow> u16" where
  "bswap16 v = (shr v 8) OR (shl v 8)"

definition bswap32 :: "u32 \<Rightarrow> u32" where
  "bswap32 v =
     ((shr v 24) AND 0x000000FF) OR
     ((shr v 8) AND 0x0000FF00) OR
     ((shl v 8) AND 0x00FF0000) OR
     ((shl v 24) AND 0xFF000000)"

section \<open>Big-endian accessors\<close>

definition read_u8 :: "u8 list \<Rightarrow> nat \<Rightarrow> u8 option" where
  "read_u8 p i = arr_get p i"

definition read_be16 :: "u8 list \<Rightarrow> nat \<Rightarrow> u16 option" where
  "read_be16 p i = do {
     b0 \<leftarrow> read_u8 p i; b1 \<leftarrow> read_u8 p (i + 1);
     Some ((shl (ucast b0) 8) OR ucast b1) }"

definition read_be32 :: "u8 list \<Rightarrow> nat \<Rightarrow> u32 option" where
  "read_be32 p i = do {
     b0 \<leftarrow> read_u8 p i; b1 \<leftarrow> read_u8 p (i + 1);
     b2 \<leftarrow> read_u8 p (i + 2); b3 \<leftarrow> read_u8 p (i + 3);
     Some ((shl (ucast b0) 24) OR (shl (ucast b1) 16) OR (shl (ucast b2) 8) OR ucast b3) }"

definition read_be64 :: "u8 list \<Rightarrow> nat \<Rightarrow> u64 option" where
  "read_be64 p i = do {
     hi \<leftarrow> read_be32 p i; lo \<leftarrow> read_be32 p (i + 4);
     Some ((shl (ucast hi) 32) OR ucast lo) }"

definition write_u8 :: "u8 list \<Rightarrow> nat \<Rightarrow> u8 \<Rightarrow> u8 list option" where
  "write_u8 p i v = arr_set p i v"

definition write_be16 :: "u8 list \<Rightarrow> nat \<Rightarrow> u16 \<Rightarrow> u8 list option" where
  "write_be16 p i v = do {
     p \<leftarrow> write_u8 p i (ucast (shr v 8));
     write_u8 p (i + 1) (ucast v) }"

definition write_be32 :: "u8 list \<Rightarrow> nat \<Rightarrow> u32 \<Rightarrow> u8 list option" where
  "write_be32 p i v = do {
     p \<leftarrow> write_u8 p i (ucast (shr v 24));
     p \<leftarrow> write_u8 p (i + 1) (ucast (shr v 16));
     p \<leftarrow> write_u8 p (i + 2) (ucast (shr v 8));
     write_u8 p (i + 3) (ucast v) }"

definition write_be64 :: "u8 list \<Rightarrow> nat \<Rightarrow> u64 \<Rightarrow> u8 list option" where
  "write_be64 p i v = do {
     p \<leftarrow> write_be32 p i (ucast (shr v 32));
     write_be32 p (i + 4) (ucast v) }"

section \<open>Sign extension is the two's complement value of the field\<close>

lemma sign_extend_take_bit:
  assumes "m < 32"
  shows "sign_extend (take_bit (Suc m) v) (Suc m) = signed_take_bit m v"
proof -
  let ?x = "take_bit (Suc m) v"
  have flip: "?x XOR shl 1 m = flip_bit m ?x"
    by (simp add: flip_bit_eq_xor)
  have "flip_bit m ?x - 2 ^ m = ?x - 2 ^ Suc m * of_bool (bit v m)"
    by (simp add: flip_bit_eq_if set_bit_eq unset_bit_eq bit_take_bit_iff)
  then show ?thesis
    by (simp only: sign_extend_def Let_def diff_Suc_1 flip signed_take_bit_eq_take_bit_minus)
      (simp add: push_bit_of_1)
qed

text \<open>The integer a sign-extended field stands for.\<close>

lemma sint_sign_extend:
  assumes "m < 32"
  shows "sint (sign_extend (take_bit (Suc m) v) (Suc m)) = signed_take_bit m (uint v)"
proof -
  have "bit (sint (signed_take_bit m v)) k = bit (signed_take_bit m (uint v)) k" for k
    using assms by (auto simp: bit_simps min_def less_Suc_eq_le)
  then show ?thesis
    by (simp add: sign_extend_take_bit [OF assms] bit_eq_iff)
qed

section \<open>The accessors in closed form\<close>

definition be16 :: "u8 \<Rightarrow> u8 \<Rightarrow> u16" where
  "be16 b0 b1 = (shl (ucast b0) 8) OR ucast b1"

definition be32 :: "u8 \<Rightarrow> u8 \<Rightarrow> u8 \<Rightarrow> u8 \<Rightarrow> u32" where
  "be32 b0 b1 b2 b3 =
     (shl (ucast b0) 24) OR (shl (ucast b1) 16) OR (shl (ucast b2) 8) OR ucast b3"

lemma be16_bytes: "be16 (ucast (shr v 8)) (ucast v) = v"
  by (rule bit_word_eqI) (auto simp: be16_def bit_simps)

lemma be32_bytes:
  "be32 (ucast (shr v 24)) (ucast (shr v 16)) (ucast (shr v 8)) (ucast v) = v"
proof (rule bit_word_eqI)
  fix n assume n: "n < LENGTH(32)"
  consider "n < 8" | "8 \<le> n" "n < 16" | "16 \<le> n" "n < 24" | "24 \<le> n" by linarith
  then show "bit (be32 (ucast (shr v 24)) (ucast (shr v 16)) (ucast (shr v 8)) (ucast v)) n
    = bit v n"
    using n by cases (auto simp: be32_def bit_simps)
qed

lemma bytes_be16:
  "ucast (shr (be16 b0 b1) 8) = b0" "ucast (be16 b0 b1) = b1"
  by (rule bit_word_eqI, auto simp: be16_def bit_simps dest: bit_imp_le_length)+

lemma bytes_be32:
  "ucast (shr (be32 b0 b1 b2 b3) 24) = b0" "ucast (shr (be32 b0 b1 b2 b3) 16) = b1"
  "ucast (shr (be32 b0 b1 b2 b3) 8) = b2" "ucast (be32 b0 b1 b2 b3) = b3"
  by (rule bit_word_eqI, auto simp: be32_def bit_simps dest: bit_imp_le_length)+

lemma read_be16_eq:
  "read_be16 p i = (if i + 2 \<le> length p then Some (be16 (p ! i) (p ! (i + 1))) else None)"
  by (auto simp: read_be16_def read_u8_def arr_get_def be16_def bind_eq_None_conv)

lemma read_be32_eq:
  "read_be32 p i =
     (if i + 4 \<le> length p then Some (be32 (p ! i) (p ! (i + 1)) (p ! (i + 2)) (p ! (i + 3)))
      else None)"
  by (auto simp: read_be32_def read_u8_def arr_get_def be32_def bind_eq_None_conv)

lemma write_be16_eq:
  "write_be16 p i v =
     (if i + 2 \<le> length p then Some (p[i := ucast (shr v 8), i + 1 := ucast v]) else None)"
  by (auto simp: write_be16_def write_u8_def arr_set_def bind_eq_None_conv)

lemma write_be32_eq:
  "write_be32 p i v =
     (if i + 4 \<le> length p
      then Some (p[i := ucast (shr v 24), i + 1 := ucast (shr v 16),
                   i + 2 := ucast (shr v 8), i + 3 := ucast v])
      else None)"
  by (auto simp: write_be32_def write_u8_def arr_set_def bind_eq_None_conv)

section \<open>The interface of a fixed-width accessor\<close>

text \<open>
  What the memory, the loaders and the relocator rely on: the accessor is defined exactly inside
  the buffer, a read returns the value just written, a write touches its window only, and writing
  back the value read changes nothing.
\<close>

locale be_codec =
  fixes width :: nat
    and rd :: "u8 list \<Rightarrow> nat \<Rightarrow> 'a option"
    and wr :: "u8 list \<Rightarrow> nat \<Rightarrow> 'a \<Rightarrow> u8 list option"
  assumes width_pos: "0 < width"
    and rd_None: "rd p i = None \<longleftrightarrow> length p < i + width"
    and wr_None: "wr p i v = None \<longleftrightarrow> length p < i + width"
    and wr_length: "wr p i v = Some q \<Longrightarrow> length q = length p"
    and rd_wr: "wr p i v = Some q \<Longrightarrow> rd q i = Some v"
    and wr_frame: "wr p i v = Some q \<Longrightarrow> k < i \<or> i + width \<le> k \<Longrightarrow> q ! k = p ! k"
    and wr_rd: "rd p i = Some v \<Longrightarrow> wr p i v = Some p"
    and rd_window: "i + width \<le> length p \<Longrightarrow> i + width \<le> length q \<Longrightarrow>
       (\<And>k. i \<le> k \<Longrightarrow> k < i + width \<Longrightarrow> p ! k = q ! k) \<Longrightarrow> rd p i = rd q i"
begin

lemma rd_defined: "i + width \<le> length p \<Longrightarrow> \<exists>v. rd p i = Some v"
  using rd_None [of p i] by (cases "rd p i") auto

lemma wr_defined: "i + width \<le> length p \<Longrightarrow> \<exists>q. wr p i v = Some q"
  using wr_None [of p i v] by (cases "wr p i v") auto

lemma rd_bound: "rd p i = Some v \<Longrightarrow> i + width \<le> length p"
  using rd_None [of p i] by (cases "length p < i + width") auto

lemma wr_bound: "wr p i v = Some q \<Longrightarrow> i + width \<le> length p"
  using wr_None [of p i v] by (cases "length p < i + width") auto

text \<open>A read in a window disjoint from the write is unchanged.\<close>

lemma rd_disjoint:
  assumes wr: "wr p i v = Some q" and apart: "j + width \<le> i \<or> i + width \<le> j"
  shows "rd q j = rd p j"
proof (cases "j + width \<le> length p")
  case True
  with wr_length [OF wr] have "j + width \<le> length q" by simp
  then show ?thesis
    using True apart by (intro rd_window) (auto simp: wr_frame [OF wr])
next
  case False
  with wr_length [OF wr] rd_None [of p j] rd_None [of q j] show ?thesis by simp
qed

text \<open>The second of two writes at one offset wins.\<close>

lemma wr_inj:
  assumes "wr p i v = Some q" "wr p i v' = Some q" shows "v = v'"
  using rd_wr [OF assms(1)] rd_wr [OF assms(2)] by simp

end

lemma upd4_nth:
  "i + 4 \<le> length p \<Longrightarrow> p[i := a, i + 1 := b, i + 2 := c, i + 3 := d] ! k =
     (if k = i then a else if k = i + 1 then b else if k = i + 2 then c
      else if k = i + 3 then d else p ! k)"
  by (simp add: nth_list_update)

interpretation byte: be_codec 1 read_u8 write_u8
  by unfold_locales
    (auto simp: read_u8_def write_u8_def arr_get_def arr_set_def split: if_splits)

interpretation half: be_codec 2 read_be16 write_be16
proof (unfold_locales, goal_cases)
  case (7 p i v)
  then show ?case
    by (auto simp: read_be16_eq write_be16_eq bytes_be16 split: if_splits)
next
  case (8 i p q)
  from 8(3) [of i] 8(3) [of "Suc i"] 8 show ?case
    by (simp add: read_be16_eq)
qed (auto simp: read_be16_eq write_be16_eq be16_bytes nth_list_update split: if_splits)

interpretation single: be_codec 4 read_be32 write_be32
proof (unfold_locales, goal_cases)
  case (7 p i v)
  then show ?case
    by (auto simp: read_be32_eq write_be32_eq bytes_be32 split: if_splits)
next
  case (8 i p q)
  from 8(3) [of i] 8(3) [of "i + 1"] 8(3) [of "i + 2"] 8(3) [of "i + 3"] 8 show ?case
    by (simp add: read_be32_eq)
qed (auto simp: read_be32_eq write_be32_eq be32_bytes nth_list_update split: if_splits)

text \<open>The 64-bit accessor is two 32-bit ones; its laws come from theirs.\<close>

definition be64 :: "u32 \<Rightarrow> u32 \<Rightarrow> u64" where
  "be64 hi lo = (shl (ucast hi) 32) OR ucast lo"

lemma be64_words: "be64 (ucast (shr v 32)) (ucast v) = v"
  by (rule bit_word_eqI) (auto simp: be64_def bit_simps)

lemma words_be64: "ucast (shr (be64 hi lo) 32) = hi" "ucast (be64 hi lo) = lo"
  by (rule bit_word_eqI, auto simp: be64_def bit_simps dest: bit_imp_le_length)+

lemma read_be64_eq:
  "read_be64 p i = do { hi \<leftarrow> read_be32 p i; lo \<leftarrow> read_be32 p (i + 4); Some (be64 hi lo) }"
  by (simp add: read_be64_def be64_def)

lemma read_be64_Some_iff:
  "read_be64 p i = Some v \<longleftrightarrow>
     read_be32 p i = Some (ucast (shr v 32)) \<and> read_be32 p (i + 4) = Some (ucast v)"
  by (auto simp: read_be64_eq bind_eq_Some_conv words_be64 be64_words)

lemma write_be64_Some_iff:
  "write_be64 p i v = Some q \<longleftrightarrow>
     (\<exists>m. write_be32 p i (ucast (shr v 32)) = Some m \<and> write_be32 m (i + 4) (ucast v) = Some q)"
  by (auto simp: write_be64_def bind_eq_Some_conv)

interpretation double: be_codec 8 read_be64 write_be64
proof (unfold_locales, goal_cases)
  case (2 p i)
  then show ?case
    by (auto simp: read_be64_def bind_eq_None_conv single.rd_None)
next
  case (3 p i v)
  show ?case
  proof (cases "write_be32 p i (ucast (shr v 32))")
    case None
    then show ?thesis
      using single.wr_None [of p i "ucast (shr v 32)"] by (simp add: write_be64_def)
  next
    case (Some m)
    then show ?thesis
      using single.wr_bound [OF Some] single.wr_length [OF Some] single.wr_None [of m "i + 4"]
      by (auto simp: write_be64_def)
  qed
next
  case (4 p i v q)
  then show ?case by (auto simp: write_be64_Some_iff dest!: single.wr_length)
next
  case (5 p i v q)
  then obtain m where m: "write_be32 p i (ucast (shr v 32)) = Some m"
    and q: "write_be32 m (i + 4) (ucast v) = Some q"
    by (auto simp: write_be64_Some_iff)
  from single.rd_disjoint [OF q, of i] single.rd_wr [OF m] single.rd_wr [OF q] show ?case
    by (simp add: read_be64_Some_iff)
next
  case (6 p i v q k)
  then obtain m where "write_be32 p i (ucast (shr v 32)) = Some m"
    and "write_be32 m (i + 4) (ucast v) = Some q"
    by (auto simp: write_be64_Some_iff)
  from single.wr_frame [OF this(1), of k] single.wr_frame [OF this(2), of k] 6(2) show ?case
    by auto
next
  case (7 p i v)
  then show ?case by (auto simp: read_be64_Some_iff write_be64_Some_iff single.wr_rd)
next
  case (8 i p q)
  have "read_be32 p i = read_be32 q i" "read_be32 p (i + 4) = read_be32 q (i + 4)"
    using 8 by (intro single.rd_window; simp)+
  then show ?case by (simp add: read_be64_def)
qed simp

section \<open>Byte swaps are involutions\<close>

lemma bswap16_be16: "bswap16 (be16 b0 b1) = be16 b1 b0"
proof (rule bit_word_eqI)
  fix n assume n: "n < LENGTH(16)"
  consider "n < 8" | "8 \<le> n" "n < 16" using n by fastforce
  then show "bit (bswap16 (be16 b0 b1)) n = bit (be16 b1 b0) n"
    using n by cases (auto simp: bswap16_def be16_def bit_simps dest: bit_imp_le_length)
qed

lemma bswap16_bswap16: "bswap16 (bswap16 v) = v"
  using be16_bytes [of v] bswap16_be16 by metis

lemma byte_masks:
  "0xFF = (mask 8 :: u32)" "0xFF00 = (shl (mask 8) 8 :: u32)"
  "0xFF0000 = (shl (mask 8) 16 :: u32)" "0xFF000000 = (shl (mask 8) 24 :: u32)"
  by (simp_all add: mask_numeral)

lemma bswap32_be32: "bswap32 (be32 b0 b1 b2 b3) = be32 b3 b2 b1 b0"
proof (rule bit_word_eqI)
  fix n assume n: "n < LENGTH(32)"
  consider "n < 8" | "8 \<le> n" "n < 16" | "16 \<le> n" "n < 24" | "24 \<le> n" by linarith
  then show "bit (bswap32 (be32 b0 b1 b2 b3)) n = bit (be32 b3 b2 b1 b0) n"
    unfolding bswap32_def byte_masks
    using n by cases (auto simp: be32_def bit_simps dest: bit_imp_le_length)
qed

lemma bswap32_bswap32: "bswap32 (bswap32 v) = v"
  using be32_bytes [of v] bswap32_be32 by metis

section \<open>Properties\<close>

text \<open>\<open>sign_extend\<close> of a field of \<open>m + 1\<close> bits has the two's complement value of the
  field, for every width up to 32.\<close>

theorem sign_extend_value:
  assumes "m < 32"
  shows "sint (sign_extend (take_bit (Suc m) v) (Suc m)) = signed_take_bit m (uint v)"
  using assms by (rule sint_sign_extend)

theorem sign_extend_value_witness:
  "sint (sign_extend (take_bit (Suc 15) 0xFFFC) (Suc 15)) = signed_take_bit 15 (uint (0xFFFC :: u32))"
  by (rule sign_extend_value) simp

text \<open>A big-endian 64-bit write that stays in the buffer is read back, as one double
  word and as its two words, keeps the length of the buffer and changes no byte outside its window.\<close>

theorem be_write_read:
  assumes "write_be64 p i v = Some q"
  shows "read_be64 q i = Some v \<and> read_be32 q i = Some (ucast (shr v 32)) \<and>
    read_be32 q (i + 4) = Some (ucast v) \<and> length q = length p \<and>
    (\<forall>k. k < i \<or> i + 8 \<le> k \<longrightarrow> q ! k = p ! k)"
  using double.rd_wr [OF assms] double.wr_length [OF assms] double.wr_frame [OF assms]
    read_be64_Some_iff [of q i v]
  by simp

theorem be_write_read_witness:
  "read_be64 [1, 0x12, 0x34, 0x56, 0x78, 0x9A, 0xBC, 0xDE, 0xF0, 2] 1 = Some 0x123456789ABCDEF0"
  using be_write_read [of "[1, 0, 0, 0, 0, 0, 0, 0, 0, 2]" 1 "0x123456789ABCDEF0"
    "[1, 0x12, 0x34, 0x56, 0x78, 0x9A, 0xBC, 0xDE, 0xF0, 2]"]
  by (simp add: write_be64_def write_be32_eq)

end
