(* ===== verification/Opcode.thy ===== *)
theory Opcode
  imports Prelude
begin

text \<open>
  The opcode enumeration of \<open>src/frontend/decoder.h\<close> and the mnemonic table of
  \<open>src/frontend/decoder.c\<close>.

  A C enumeration is an integer type with named values, and the code relies on that: it compares
  opcodes with \<open><=\<close> (\<open>ppc_op_uses_fpu\<close>, the bound in \<open>ppc_op_name\<close>) and gets \<open>PPC_OP_UNKNOWN\<close>
  by clearing memory.  \<open>PPCOpcode\<close> therefore wraps the value of the enumerator, and each enumerator
  is an abbreviation for its value, in the order of the header.  (A datatype with 237 nullary
  constructors would also cost more than ten minutes of checking.)
\<close>

section \<open>The enumeration\<close>

datatype PPCOpcode = Opc (opc_num: nat)

abbreviation PPC_OP_UNKNOWN :: PPCOpcode where "PPC_OP_UNKNOWN \<equiv> Opc 0"
abbreviation PPC_OP_MULLI :: PPCOpcode where "PPC_OP_MULLI \<equiv> Opc 1"
abbreviation PPC_OP_SUBFIC :: PPCOpcode where "PPC_OP_SUBFIC \<equiv> Opc 2"
abbreviation PPC_OP_ADDI :: PPCOpcode where "PPC_OP_ADDI \<equiv> Opc 3"
abbreviation PPC_OP_ADDIC :: PPCOpcode where "PPC_OP_ADDIC \<equiv> Opc 4"
abbreviation PPC_OP_ADDIC_DOT :: PPCOpcode where "PPC_OP_ADDIC_DOT \<equiv> Opc 5"
abbreviation PPC_OP_ADDIS :: PPCOpcode where "PPC_OP_ADDIS \<equiv> Opc 6"
abbreviation PPC_OP_CMPI :: PPCOpcode where "PPC_OP_CMPI \<equiv> Opc 7"
abbreviation PPC_OP_CMPLI :: PPCOpcode where "PPC_OP_CMPLI \<equiv> Opc 8"
abbreviation PPC_OP_ORI :: PPCOpcode where "PPC_OP_ORI \<equiv> Opc 9"
abbreviation PPC_OP_ORIS :: PPCOpcode where "PPC_OP_ORIS \<equiv> Opc 10"
abbreviation PPC_OP_XORI :: PPCOpcode where "PPC_OP_XORI \<equiv> Opc 11"
abbreviation PPC_OP_XORIS :: PPCOpcode where "PPC_OP_XORIS \<equiv> Opc 12"
abbreviation PPC_OP_ANDI :: PPCOpcode where "PPC_OP_ANDI \<equiv> Opc 13"
abbreviation PPC_OP_ANDIS :: PPCOpcode where "PPC_OP_ANDIS \<equiv> Opc 14"
abbreviation PPC_OP_LWZ :: PPCOpcode where "PPC_OP_LWZ \<equiv> Opc 15"
abbreviation PPC_OP_LWZU :: PPCOpcode where "PPC_OP_LWZU \<equiv> Opc 16"
abbreviation PPC_OP_LBZ :: PPCOpcode where "PPC_OP_LBZ \<equiv> Opc 17"
abbreviation PPC_OP_LBZU :: PPCOpcode where "PPC_OP_LBZU \<equiv> Opc 18"
abbreviation PPC_OP_STW :: PPCOpcode where "PPC_OP_STW \<equiv> Opc 19"
abbreviation PPC_OP_STWU :: PPCOpcode where "PPC_OP_STWU \<equiv> Opc 20"
abbreviation PPC_OP_STB :: PPCOpcode where "PPC_OP_STB \<equiv> Opc 21"
abbreviation PPC_OP_STBU :: PPCOpcode where "PPC_OP_STBU \<equiv> Opc 22"
abbreviation PPC_OP_LHZ :: PPCOpcode where "PPC_OP_LHZ \<equiv> Opc 23"
abbreviation PPC_OP_LHZU :: PPCOpcode where "PPC_OP_LHZU \<equiv> Opc 24"
abbreviation PPC_OP_LHA :: PPCOpcode where "PPC_OP_LHA \<equiv> Opc 25"
abbreviation PPC_OP_LHAU :: PPCOpcode where "PPC_OP_LHAU \<equiv> Opc 26"
abbreviation PPC_OP_STH :: PPCOpcode where "PPC_OP_STH \<equiv> Opc 27"
abbreviation PPC_OP_STHU :: PPCOpcode where "PPC_OP_STHU \<equiv> Opc 28"
abbreviation PPC_OP_LMW :: PPCOpcode where "PPC_OP_LMW \<equiv> Opc 29"
abbreviation PPC_OP_STMW :: PPCOpcode where "PPC_OP_STMW \<equiv> Opc 30"
abbreviation PPC_OP_B :: PPCOpcode where "PPC_OP_B \<equiv> Opc 31"
abbreviation PPC_OP_BC :: PPCOpcode where "PPC_OP_BC \<equiv> Opc 32"
abbreviation PPC_OP_BCLR :: PPCOpcode where "PPC_OP_BCLR \<equiv> Opc 33"
abbreviation PPC_OP_BCCTR :: PPCOpcode where "PPC_OP_BCCTR \<equiv> Opc 34"
abbreviation PPC_OP_SC :: PPCOpcode where "PPC_OP_SC \<equiv> Opc 35"
abbreviation PPC_OP_RFI :: PPCOpcode where "PPC_OP_RFI \<equiv> Opc 36"
abbreviation PPC_OP_CRAND :: PPCOpcode where "PPC_OP_CRAND \<equiv> Opc 37"
abbreviation PPC_OP_CRANDC :: PPCOpcode where "PPC_OP_CRANDC \<equiv> Opc 38"
abbreviation PPC_OP_CREQV :: PPCOpcode where "PPC_OP_CREQV \<equiv> Opc 39"
abbreviation PPC_OP_CRNAND :: PPCOpcode where "PPC_OP_CRNAND \<equiv> Opc 40"
abbreviation PPC_OP_CRNOR :: PPCOpcode where "PPC_OP_CRNOR \<equiv> Opc 41"
abbreviation PPC_OP_CROR :: PPCOpcode where "PPC_OP_CROR \<equiv> Opc 42"
abbreviation PPC_OP_CRORC :: PPCOpcode where "PPC_OP_CRORC \<equiv> Opc 43"
abbreviation PPC_OP_CRXOR :: PPCOpcode where "PPC_OP_CRXOR \<equiv> Opc 44"
abbreviation PPC_OP_MCRF :: PPCOpcode where "PPC_OP_MCRF \<equiv> Opc 45"
abbreviation PPC_OP_MFCR :: PPCOpcode where "PPC_OP_MFCR \<equiv> Opc 46"
abbreviation PPC_OP_MTCRF :: PPCOpcode where "PPC_OP_MTCRF \<equiv> Opc 47"
abbreviation PPC_OP_MFSPR :: PPCOpcode where "PPC_OP_MFSPR \<equiv> Opc 48"
abbreviation PPC_OP_MTSPR :: PPCOpcode where "PPC_OP_MTSPR \<equiv> Opc 49"
abbreviation PPC_OP_MFTB :: PPCOpcode where "PPC_OP_MFTB \<equiv> Opc 50"
abbreviation PPC_OP_CMP :: PPCOpcode where "PPC_OP_CMP \<equiv> Opc 51"
abbreviation PPC_OP_CMPL :: PPCOpcode where "PPC_OP_CMPL \<equiv> Opc 52"
abbreviation PPC_OP_TWI :: PPCOpcode where "PPC_OP_TWI \<equiv> Opc 53"
abbreviation PPC_OP_TW :: PPCOpcode where "PPC_OP_TW \<equiv> Opc 54"
abbreviation PPC_OP_ADD :: PPCOpcode where "PPC_OP_ADD \<equiv> Opc 55"
abbreviation PPC_OP_ADDO :: PPCOpcode where "PPC_OP_ADDO \<equiv> Opc 56"
abbreviation PPC_OP_ADDC :: PPCOpcode where "PPC_OP_ADDC \<equiv> Opc 57"
abbreviation PPC_OP_ADDCO :: PPCOpcode where "PPC_OP_ADDCO \<equiv> Opc 58"
abbreviation PPC_OP_ADDE :: PPCOpcode where "PPC_OP_ADDE \<equiv> Opc 59"
abbreviation PPC_OP_ADDEO :: PPCOpcode where "PPC_OP_ADDEO \<equiv> Opc 60"
abbreviation PPC_OP_ADDME :: PPCOpcode where "PPC_OP_ADDME \<equiv> Opc 61"
abbreviation PPC_OP_ADDMEO :: PPCOpcode where "PPC_OP_ADDMEO \<equiv> Opc 62"
abbreviation PPC_OP_ADDZE :: PPCOpcode where "PPC_OP_ADDZE \<equiv> Opc 63"
abbreviation PPC_OP_ADDZEO :: PPCOpcode where "PPC_OP_ADDZEO \<equiv> Opc 64"
abbreviation PPC_OP_SUBF :: PPCOpcode where "PPC_OP_SUBF \<equiv> Opc 65"
abbreviation PPC_OP_SUBFO :: PPCOpcode where "PPC_OP_SUBFO \<equiv> Opc 66"
abbreviation PPC_OP_SUBFC :: PPCOpcode where "PPC_OP_SUBFC \<equiv> Opc 67"
abbreviation PPC_OP_SUBFCO :: PPCOpcode where "PPC_OP_SUBFCO \<equiv> Opc 68"
abbreviation PPC_OP_SUBFE :: PPCOpcode where "PPC_OP_SUBFE \<equiv> Opc 69"
abbreviation PPC_OP_SUBFEO :: PPCOpcode where "PPC_OP_SUBFEO \<equiv> Opc 70"
abbreviation PPC_OP_SUBFME :: PPCOpcode where "PPC_OP_SUBFME \<equiv> Opc 71"
abbreviation PPC_OP_SUBFMEO :: PPCOpcode where "PPC_OP_SUBFMEO \<equiv> Opc 72"
abbreviation PPC_OP_SUBFZE :: PPCOpcode where "PPC_OP_SUBFZE \<equiv> Opc 73"
abbreviation PPC_OP_SUBFZEO :: PPCOpcode where "PPC_OP_SUBFZEO \<equiv> Opc 74"
abbreviation PPC_OP_NEG :: PPCOpcode where "PPC_OP_NEG \<equiv> Opc 75"
abbreviation PPC_OP_NEGO :: PPCOpcode where "PPC_OP_NEGO \<equiv> Opc 76"
abbreviation PPC_OP_AND :: PPCOpcode where "PPC_OP_AND \<equiv> Opc 77"
abbreviation PPC_OP_ANDC :: PPCOpcode where "PPC_OP_ANDC \<equiv> Opc 78"
abbreviation PPC_OP_OR :: PPCOpcode where "PPC_OP_OR \<equiv> Opc 79"
abbreviation PPC_OP_ORC :: PPCOpcode where "PPC_OP_ORC \<equiv> Opc 80"
abbreviation PPC_OP_XOR :: PPCOpcode where "PPC_OP_XOR \<equiv> Opc 81"
abbreviation PPC_OP_NAND :: PPCOpcode where "PPC_OP_NAND \<equiv> Opc 82"
abbreviation PPC_OP_NOR :: PPCOpcode where "PPC_OP_NOR \<equiv> Opc 83"
abbreviation PPC_OP_EQV :: PPCOpcode where "PPC_OP_EQV \<equiv> Opc 84"
abbreviation PPC_OP_CNTLZW :: PPCOpcode where "PPC_OP_CNTLZW \<equiv> Opc 85"
abbreviation PPC_OP_EXTSB :: PPCOpcode where "PPC_OP_EXTSB \<equiv> Opc 86"
abbreviation PPC_OP_EXTSH :: PPCOpcode where "PPC_OP_EXTSH \<equiv> Opc 87"
abbreviation PPC_OP_SLW :: PPCOpcode where "PPC_OP_SLW \<equiv> Opc 88"
abbreviation PPC_OP_SRW :: PPCOpcode where "PPC_OP_SRW \<equiv> Opc 89"
abbreviation PPC_OP_SRAW :: PPCOpcode where "PPC_OP_SRAW \<equiv> Opc 90"
abbreviation PPC_OP_SRAWI :: PPCOpcode where "PPC_OP_SRAWI \<equiv> Opc 91"
abbreviation PPC_OP_RLWINM :: PPCOpcode where "PPC_OP_RLWINM \<equiv> Opc 92"
abbreviation PPC_OP_RLWNM :: PPCOpcode where "PPC_OP_RLWNM \<equiv> Opc 93"
abbreviation PPC_OP_RLWIMI :: PPCOpcode where "PPC_OP_RLWIMI \<equiv> Opc 94"
abbreviation PPC_OP_LWZX :: PPCOpcode where "PPC_OP_LWZX \<equiv> Opc 95"
abbreviation PPC_OP_LWZUX :: PPCOpcode where "PPC_OP_LWZUX \<equiv> Opc 96"
abbreviation PPC_OP_LBZX :: PPCOpcode where "PPC_OP_LBZX \<equiv> Opc 97"
abbreviation PPC_OP_LBZUX :: PPCOpcode where "PPC_OP_LBZUX \<equiv> Opc 98"
abbreviation PPC_OP_LHZX :: PPCOpcode where "PPC_OP_LHZX \<equiv> Opc 99"
abbreviation PPC_OP_LHZUX :: PPCOpcode where "PPC_OP_LHZUX \<equiv> Opc 100"
abbreviation PPC_OP_LHAX :: PPCOpcode where "PPC_OP_LHAX \<equiv> Opc 101"
abbreviation PPC_OP_LHAUX :: PPCOpcode where "PPC_OP_LHAUX \<equiv> Opc 102"
abbreviation PPC_OP_LWBRX :: PPCOpcode where "PPC_OP_LWBRX \<equiv> Opc 103"
abbreviation PPC_OP_LHBRX :: PPCOpcode where "PPC_OP_LHBRX \<equiv> Opc 104"
abbreviation PPC_OP_STWX :: PPCOpcode where "PPC_OP_STWX \<equiv> Opc 105"
abbreviation PPC_OP_STWUX :: PPCOpcode where "PPC_OP_STWUX \<equiv> Opc 106"
abbreviation PPC_OP_STBX :: PPCOpcode where "PPC_OP_STBX \<equiv> Opc 107"
abbreviation PPC_OP_STBUX :: PPCOpcode where "PPC_OP_STBUX \<equiv> Opc 108"
abbreviation PPC_OP_STHX :: PPCOpcode where "PPC_OP_STHX \<equiv> Opc 109"
abbreviation PPC_OP_STHUX :: PPCOpcode where "PPC_OP_STHUX \<equiv> Opc 110"
abbreviation PPC_OP_STWBRX :: PPCOpcode where "PPC_OP_STWBRX \<equiv> Opc 111"
abbreviation PPC_OP_STHBRX :: PPCOpcode where "PPC_OP_STHBRX \<equiv> Opc 112"
abbreviation PPC_OP_LSWI :: PPCOpcode where "PPC_OP_LSWI \<equiv> Opc 113"
abbreviation PPC_OP_LSWX :: PPCOpcode where "PPC_OP_LSWX \<equiv> Opc 114"
abbreviation PPC_OP_STSWI :: PPCOpcode where "PPC_OP_STSWI \<equiv> Opc 115"
abbreviation PPC_OP_STSWX :: PPCOpcode where "PPC_OP_STSWX \<equiv> Opc 116"
abbreviation PPC_OP_LWARX :: PPCOpcode where "PPC_OP_LWARX \<equiv> Opc 117"
abbreviation PPC_OP_STWCX :: PPCOpcode where "PPC_OP_STWCX \<equiv> Opc 118"
abbreviation PPC_OP_STFIWX :: PPCOpcode where "PPC_OP_STFIWX \<equiv> Opc 119"
abbreviation PPC_OP_LFS :: PPCOpcode where "PPC_OP_LFS \<equiv> Opc 120"
abbreviation PPC_OP_LFSU :: PPCOpcode where "PPC_OP_LFSU \<equiv> Opc 121"
abbreviation PPC_OP_LFD :: PPCOpcode where "PPC_OP_LFD \<equiv> Opc 122"
abbreviation PPC_OP_LFDU :: PPCOpcode where "PPC_OP_LFDU \<equiv> Opc 123"
abbreviation PPC_OP_STFS :: PPCOpcode where "PPC_OP_STFS \<equiv> Opc 124"
abbreviation PPC_OP_STFSU :: PPCOpcode where "PPC_OP_STFSU \<equiv> Opc 125"
abbreviation PPC_OP_STFD :: PPCOpcode where "PPC_OP_STFD \<equiv> Opc 126"
abbreviation PPC_OP_STFDU :: PPCOpcode where "PPC_OP_STFDU \<equiv> Opc 127"
abbreviation PPC_OP_LFSX :: PPCOpcode where "PPC_OP_LFSX \<equiv> Opc 128"
abbreviation PPC_OP_LFSUX :: PPCOpcode where "PPC_OP_LFSUX \<equiv> Opc 129"
abbreviation PPC_OP_LFDX :: PPCOpcode where "PPC_OP_LFDX \<equiv> Opc 130"
abbreviation PPC_OP_LFDUX :: PPCOpcode where "PPC_OP_LFDUX \<equiv> Opc 131"
abbreviation PPC_OP_STFSX :: PPCOpcode where "PPC_OP_STFSX \<equiv> Opc 132"
abbreviation PPC_OP_STFSUX :: PPCOpcode where "PPC_OP_STFSUX \<equiv> Opc 133"
abbreviation PPC_OP_STFDX :: PPCOpcode where "PPC_OP_STFDX \<equiv> Opc 134"
abbreviation PPC_OP_STFDUX :: PPCOpcode where "PPC_OP_STFDUX \<equiv> Opc 135"
abbreviation PPC_OP_FADDS :: PPCOpcode where "PPC_OP_FADDS \<equiv> Opc 136"
abbreviation PPC_OP_FSUBS :: PPCOpcode where "PPC_OP_FSUBS \<equiv> Opc 137"
abbreviation PPC_OP_FMULS :: PPCOpcode where "PPC_OP_FMULS \<equiv> Opc 138"
abbreviation PPC_OP_FDIVS :: PPCOpcode where "PPC_OP_FDIVS \<equiv> Opc 139"
abbreviation PPC_OP_FRES :: PPCOpcode where "PPC_OP_FRES \<equiv> Opc 140"
abbreviation PPC_OP_FMADDS :: PPCOpcode where "PPC_OP_FMADDS \<equiv> Opc 141"
abbreviation PPC_OP_FMSUBS :: PPCOpcode where "PPC_OP_FMSUBS \<equiv> Opc 142"
abbreviation PPC_OP_FNMADDS :: PPCOpcode where "PPC_OP_FNMADDS \<equiv> Opc 143"
abbreviation PPC_OP_FNMSUBS :: PPCOpcode where "PPC_OP_FNMSUBS \<equiv> Opc 144"
abbreviation PPC_OP_FADD :: PPCOpcode where "PPC_OP_FADD \<equiv> Opc 145"
abbreviation PPC_OP_FSUB :: PPCOpcode where "PPC_OP_FSUB \<equiv> Opc 146"
abbreviation PPC_OP_FMUL :: PPCOpcode where "PPC_OP_FMUL \<equiv> Opc 147"
abbreviation PPC_OP_FDIV :: PPCOpcode where "PPC_OP_FDIV \<equiv> Opc 148"
abbreviation PPC_OP_FRSQRTE :: PPCOpcode where "PPC_OP_FRSQRTE \<equiv> Opc 149"
abbreviation PPC_OP_FMADD :: PPCOpcode where "PPC_OP_FMADD \<equiv> Opc 150"
abbreviation PPC_OP_FMSUB :: PPCOpcode where "PPC_OP_FMSUB \<equiv> Opc 151"
abbreviation PPC_OP_FNMADD :: PPCOpcode where "PPC_OP_FNMADD \<equiv> Opc 152"
abbreviation PPC_OP_FNMSUB :: PPCOpcode where "PPC_OP_FNMSUB \<equiv> Opc 153"
abbreviation PPC_OP_FCTIW :: PPCOpcode where "PPC_OP_FCTIW \<equiv> Opc 154"
abbreviation PPC_OP_FCTIWZ :: PPCOpcode where "PPC_OP_FCTIWZ \<equiv> Opc 155"
abbreviation PPC_OP_FMR :: PPCOpcode where "PPC_OP_FMR \<equiv> Opc 156"
abbreviation PPC_OP_FNEG :: PPCOpcode where "PPC_OP_FNEG \<equiv> Opc 157"
abbreviation PPC_OP_FABS :: PPCOpcode where "PPC_OP_FABS \<equiv> Opc 158"
abbreviation PPC_OP_FNABS :: PPCOpcode where "PPC_OP_FNABS \<equiv> Opc 159"
abbreviation PPC_OP_FRSP :: PPCOpcode where "PPC_OP_FRSP \<equiv> Opc 160"
abbreviation PPC_OP_FSEL :: PPCOpcode where "PPC_OP_FSEL \<equiv> Opc 161"
abbreviation PPC_OP_FCMPU :: PPCOpcode where "PPC_OP_FCMPU \<equiv> Opc 162"
abbreviation PPC_OP_FCMPO :: PPCOpcode where "PPC_OP_FCMPO \<equiv> Opc 163"
abbreviation PPC_OP_MTFSB0 :: PPCOpcode where "PPC_OP_MTFSB0 \<equiv> Opc 164"
abbreviation PPC_OP_MTFSB1 :: PPCOpcode where "PPC_OP_MTFSB1 \<equiv> Opc 165"
abbreviation PPC_OP_MCRFS :: PPCOpcode where "PPC_OP_MCRFS \<equiv> Opc 166"
abbreviation PPC_OP_MFFS :: PPCOpcode where "PPC_OP_MFFS \<equiv> Opc 167"
abbreviation PPC_OP_MTFSF :: PPCOpcode where "PPC_OP_MTFSF \<equiv> Opc 168"
abbreviation PPC_OP_MTFSFI :: PPCOpcode where "PPC_OP_MTFSFI \<equiv> Opc 169"
abbreviation PPC_OP_PSQ_L :: PPCOpcode where "PPC_OP_PSQ_L \<equiv> Opc 170"
abbreviation PPC_OP_PSQ_LU :: PPCOpcode where "PPC_OP_PSQ_LU \<equiv> Opc 171"
abbreviation PPC_OP_PSQ_ST :: PPCOpcode where "PPC_OP_PSQ_ST \<equiv> Opc 172"
abbreviation PPC_OP_PSQ_STU :: PPCOpcode where "PPC_OP_PSQ_STU \<equiv> Opc 173"
abbreviation PPC_OP_PSQ_LX :: PPCOpcode where "PPC_OP_PSQ_LX \<equiv> Opc 174"
abbreviation PPC_OP_PSQ_LUX :: PPCOpcode where "PPC_OP_PSQ_LUX \<equiv> Opc 175"
abbreviation PPC_OP_PSQ_STX :: PPCOpcode where "PPC_OP_PSQ_STX \<equiv> Opc 176"
abbreviation PPC_OP_PSQ_STUX :: PPCOpcode where "PPC_OP_PSQ_STUX \<equiv> Opc 177"
abbreviation PPC_OP_PS_ADD :: PPCOpcode where "PPC_OP_PS_ADD \<equiv> Opc 178"
abbreviation PPC_OP_PS_SUB :: PPCOpcode where "PPC_OP_PS_SUB \<equiv> Opc 179"
abbreviation PPC_OP_PS_MUL :: PPCOpcode where "PPC_OP_PS_MUL \<equiv> Opc 180"
abbreviation PPC_OP_PS_DIV :: PPCOpcode where "PPC_OP_PS_DIV \<equiv> Opc 181"
abbreviation PPC_OP_PS_RES :: PPCOpcode where "PPC_OP_PS_RES \<equiv> Opc 182"
abbreviation PPC_OP_PS_RSQRTE :: PPCOpcode where "PPC_OP_PS_RSQRTE \<equiv> Opc 183"
abbreviation PPC_OP_PS_MADD :: PPCOpcode where "PPC_OP_PS_MADD \<equiv> Opc 184"
abbreviation PPC_OP_PS_MSUB :: PPCOpcode where "PPC_OP_PS_MSUB \<equiv> Opc 185"
abbreviation PPC_OP_PS_NMADD :: PPCOpcode where "PPC_OP_PS_NMADD \<equiv> Opc 186"
abbreviation PPC_OP_PS_NMSUB :: PPCOpcode where "PPC_OP_PS_NMSUB \<equiv> Opc 187"
abbreviation PPC_OP_PS_NEG :: PPCOpcode where "PPC_OP_PS_NEG \<equiv> Opc 188"
abbreviation PPC_OP_PS_ABS :: PPCOpcode where "PPC_OP_PS_ABS \<equiv> Opc 189"
abbreviation PPC_OP_PS_NABS :: PPCOpcode where "PPC_OP_PS_NABS \<equiv> Opc 190"
abbreviation PPC_OP_PS_MR :: PPCOpcode where "PPC_OP_PS_MR \<equiv> Opc 191"
abbreviation PPC_OP_PS_SUM0 :: PPCOpcode where "PPC_OP_PS_SUM0 \<equiv> Opc 192"
abbreviation PPC_OP_PS_SUM1 :: PPCOpcode where "PPC_OP_PS_SUM1 \<equiv> Opc 193"
abbreviation PPC_OP_PS_MULS0 :: PPCOpcode where "PPC_OP_PS_MULS0 \<equiv> Opc 194"
abbreviation PPC_OP_PS_MULS1 :: PPCOpcode where "PPC_OP_PS_MULS1 \<equiv> Opc 195"
abbreviation PPC_OP_PS_MADDS0 :: PPCOpcode where "PPC_OP_PS_MADDS0 \<equiv> Opc 196"
abbreviation PPC_OP_PS_MADDS1 :: PPCOpcode where "PPC_OP_PS_MADDS1 \<equiv> Opc 197"
abbreviation PPC_OP_PS_MERGE00 :: PPCOpcode where "PPC_OP_PS_MERGE00 \<equiv> Opc 198"
abbreviation PPC_OP_PS_MERGE01 :: PPCOpcode where "PPC_OP_PS_MERGE01 \<equiv> Opc 199"
abbreviation PPC_OP_PS_MERGE10 :: PPCOpcode where "PPC_OP_PS_MERGE10 \<equiv> Opc 200"
abbreviation PPC_OP_PS_MERGE11 :: PPCOpcode where "PPC_OP_PS_MERGE11 \<equiv> Opc 201"
abbreviation PPC_OP_PS_CMPU0 :: PPCOpcode where "PPC_OP_PS_CMPU0 \<equiv> Opc 202"
abbreviation PPC_OP_PS_CMPO0 :: PPCOpcode where "PPC_OP_PS_CMPO0 \<equiv> Opc 203"
abbreviation PPC_OP_PS_CMPU1 :: PPCOpcode where "PPC_OP_PS_CMPU1 \<equiv> Opc 204"
abbreviation PPC_OP_PS_CMPO1 :: PPCOpcode where "PPC_OP_PS_CMPO1 \<equiv> Opc 205"
abbreviation PPC_OP_PS_SEL :: PPCOpcode where "PPC_OP_PS_SEL \<equiv> Opc 206"
abbreviation PPC_OP_MULLW :: PPCOpcode where "PPC_OP_MULLW \<equiv> Opc 207"
abbreviation PPC_OP_MULLWO :: PPCOpcode where "PPC_OP_MULLWO \<equiv> Opc 208"
abbreviation PPC_OP_MULHW :: PPCOpcode where "PPC_OP_MULHW \<equiv> Opc 209"
abbreviation PPC_OP_MULHWU :: PPCOpcode where "PPC_OP_MULHWU \<equiv> Opc 210"
abbreviation PPC_OP_DIVW :: PPCOpcode where "PPC_OP_DIVW \<equiv> Opc 211"
abbreviation PPC_OP_DIVWO :: PPCOpcode where "PPC_OP_DIVWO \<equiv> Opc 212"
abbreviation PPC_OP_DIVWU :: PPCOpcode where "PPC_OP_DIVWU \<equiv> Opc 213"
abbreviation PPC_OP_DIVWUO :: PPCOpcode where "PPC_OP_DIVWUO \<equiv> Opc 214"
abbreviation PPC_OP_DCBZ :: PPCOpcode where "PPC_OP_DCBZ \<equiv> Opc 215"
abbreviation PPC_OP_DCBZ_L :: PPCOpcode where "PPC_OP_DCBZ_L \<equiv> Opc 216"
abbreviation PPC_OP_DCBST :: PPCOpcode where "PPC_OP_DCBST \<equiv> Opc 217"
abbreviation PPC_OP_DCBF :: PPCOpcode where "PPC_OP_DCBF \<equiv> Opc 218"
abbreviation PPC_OP_DCBTST :: PPCOpcode where "PPC_OP_DCBTST \<equiv> Opc 219"
abbreviation PPC_OP_DCBT :: PPCOpcode where "PPC_OP_DCBT \<equiv> Opc 220"
abbreviation PPC_OP_DCBI :: PPCOpcode where "PPC_OP_DCBI \<equiv> Opc 221"
abbreviation PPC_OP_ICBI :: PPCOpcode where "PPC_OP_ICBI \<equiv> Opc 222"
abbreviation PPC_OP_SYNC :: PPCOpcode where "PPC_OP_SYNC \<equiv> Opc 223"
abbreviation PPC_OP_EIEIO :: PPCOpcode where "PPC_OP_EIEIO \<equiv> Opc 224"
abbreviation PPC_OP_ISYNC :: PPCOpcode where "PPC_OP_ISYNC \<equiv> Opc 225"
abbreviation PPC_OP_MCRXR :: PPCOpcode where "PPC_OP_MCRXR \<equiv> Opc 226"
abbreviation PPC_OP_MFMSR :: PPCOpcode where "PPC_OP_MFMSR \<equiv> Opc 227"
abbreviation PPC_OP_MTMSR :: PPCOpcode where "PPC_OP_MTMSR \<equiv> Opc 228"
abbreviation PPC_OP_MFSR :: PPCOpcode where "PPC_OP_MFSR \<equiv> Opc 229"
abbreviation PPC_OP_MFSRIN :: PPCOpcode where "PPC_OP_MFSRIN \<equiv> Opc 230"
abbreviation PPC_OP_MTSR :: PPCOpcode where "PPC_OP_MTSR \<equiv> Opc 231"
abbreviation PPC_OP_MTSRIN :: PPCOpcode where "PPC_OP_MTSRIN \<equiv> Opc 232"
abbreviation PPC_OP_TLBIE :: PPCOpcode where "PPC_OP_TLBIE \<equiv> Opc 233"
abbreviation PPC_OP_TLBSYNC :: PPCOpcode where "PPC_OP_TLBSYNC \<equiv> Opc 234"
abbreviation PPC_OP_ECIWX :: PPCOpcode where "PPC_OP_ECIWX \<equiv> Opc 235"
abbreviation PPC_OP_ECOWX :: PPCOpcode where "PPC_OP_ECOWX \<equiv> Opc 236"

definition PPC_OP_COUNT :: nat where
  "PPC_OP_COUNT = 237"

text \<open>The order of the enumerators, on which range tests rely.\<close>

instantiation PPCOpcode :: linorder
begin

definition less_eq_PPCOpcode :: "PPCOpcode \<Rightarrow> PPCOpcode \<Rightarrow> bool" where
  "a \<le> b \<longleftrightarrow> opc_num a \<le> opc_num b"

definition less_PPCOpcode :: "PPCOpcode \<Rightarrow> PPCOpcode \<Rightarrow> bool" where
  "a < b \<longleftrightarrow> opc_num a < opc_num b"

instance
  by standard (auto simp: less_eq_PPCOpcode_def less_PPCOpcode_def PPCOpcode.expand)

end

definition ppc_op_uses_fpu :: "PPCOpcode \<Rightarrow> bool" where
  "ppc_op_uses_fpu op \<longleftrightarrow> op \<ge> PPC_OP_STFIWX \<and> op \<le> PPC_OP_PS_SEL"

lemma Opc_le_iff [simp]: "Opc m \<le> Opc n \<longleftrightarrow> m \<le> n"
  by (simp add: less_eq_PPCOpcode_def)

section \<open>Mnemonics\<close>

text \<open>The table is indexed by the enumerator; an entry that no initializer names is a null pointer.\<close>

definition opcode_names_int :: "(PPCOpcode \<times> string) list" where
  "opcode_names_int = [
     (PPC_OP_UNKNOWN, ''???''), (PPC_OP_MULLI, ''mulli''), (PPC_OP_SUBFIC, ''subfic''),
     (PPC_OP_ADDI, ''addi''), (PPC_OP_ADDIC, ''addic''), (PPC_OP_ADDIC_DOT, ''addic.''),
     (PPC_OP_ADDIS, ''addis''), (PPC_OP_CMPI, ''cmpi''), (PPC_OP_CMPLI, ''cmpli''),
     (PPC_OP_TWI, ''twi''), (PPC_OP_ORI, ''ori''), (PPC_OP_ORIS, ''oris''),
     (PPC_OP_XORI, ''xori''), (PPC_OP_XORIS, ''xoris''), (PPC_OP_ANDI, ''andi.''),
     (PPC_OP_ANDIS, ''andis.''), (PPC_OP_LWZ, ''lwz''), (PPC_OP_LWZU, ''lwzu''),
     (PPC_OP_LBZ, ''lbz''), (PPC_OP_LBZU, ''lbzu''), (PPC_OP_STW, ''stw''),
     (PPC_OP_STWU, ''stwu''), (PPC_OP_STB, ''stb''), (PPC_OP_STBU, ''stbu''),
     (PPC_OP_LHZ, ''lhz''), (PPC_OP_LHZU, ''lhzu''), (PPC_OP_LHA, ''lha''),
     (PPC_OP_LHAU, ''lhau''), (PPC_OP_STH, ''sth''), (PPC_OP_STHU, ''sthu''),
     (PPC_OP_LMW, ''lmw''), (PPC_OP_STMW, ''stmw''), (PPC_OP_B, ''b''),
     (PPC_OP_BC, ''bc''), (PPC_OP_BCLR, ''bclr''), (PPC_OP_BCCTR, ''bcctr''),
     (PPC_OP_SC, ''sc''), (PPC_OP_RFI, ''rfi''), (PPC_OP_CRAND, ''crand''),
     (PPC_OP_CRANDC, ''crandc''), (PPC_OP_CREQV, ''creqv''), (PPC_OP_CRNAND, ''crnand''),
     (PPC_OP_CRNOR, ''crnor''), (PPC_OP_CROR, ''cror''), (PPC_OP_CRORC, ''crorc''),
     (PPC_OP_CRXOR, ''crxor''), (PPC_OP_MCRF, ''mcrf''), (PPC_OP_MFCR, ''mfcr''),
     (PPC_OP_MTCRF, ''mtcrf''), (PPC_OP_MFSPR, ''mfspr''), (PPC_OP_MTSPR, ''mtspr''),
     (PPC_OP_MFTB, ''mftb''), (PPC_OP_CMP, ''cmp''), (PPC_OP_CMPL, ''cmpl''),
     (PPC_OP_TW, ''tw''), (PPC_OP_ADD, ''add''), (PPC_OP_ADDO, ''addo''),
     (PPC_OP_ADDC, ''addc''), (PPC_OP_ADDCO, ''addco''), (PPC_OP_ADDE, ''adde''),
     (PPC_OP_ADDEO, ''addeo''), (PPC_OP_ADDME, ''addme''), (PPC_OP_ADDMEO, ''addmeo''),
     (PPC_OP_ADDZE, ''addze''), (PPC_OP_ADDZEO, ''addzeo''), (PPC_OP_SUBF, ''subf''),
     (PPC_OP_SUBFO, ''subfo''), (PPC_OP_SUBFC, ''subfc''), (PPC_OP_SUBFCO, ''subfco''),
     (PPC_OP_SUBFE, ''subfe''), (PPC_OP_SUBFEO, ''subfeo''), (PPC_OP_SUBFME, ''subfme''),
     (PPC_OP_SUBFMEO, ''subfmeo''), (PPC_OP_SUBFZE, ''subfze''), (PPC_OP_SUBFZEO, ''subfzeo''),
     (PPC_OP_NEG, ''neg''), (PPC_OP_NEGO, ''nego''), (PPC_OP_AND, ''and''),
     (PPC_OP_ANDC, ''andc''), (PPC_OP_OR, ''or''), (PPC_OP_ORC, ''orc''),
     (PPC_OP_XOR, ''xor''), (PPC_OP_NAND, ''nand''), (PPC_OP_NOR, ''nor''),
     (PPC_OP_EQV, ''eqv''), (PPC_OP_CNTLZW, ''cntlzw''), (PPC_OP_EXTSB, ''extsb''),
     (PPC_OP_EXTSH, ''extsh''), (PPC_OP_SLW, ''slw''), (PPC_OP_SRW, ''srw''),
     (PPC_OP_SRAW, ''sraw''), (PPC_OP_SRAWI, ''srawi''), (PPC_OP_RLWINM, ''rlwinm''),
     (PPC_OP_RLWNM, ''rlwnm''), (PPC_OP_RLWIMI, ''rlwimi''), (PPC_OP_LWZX, ''lwzx''),
     (PPC_OP_LWZUX, ''lwzux''), (PPC_OP_LBZX, ''lbzx''), (PPC_OP_LBZUX, ''lbzux''),
     (PPC_OP_LHZX, ''lhzx''), (PPC_OP_LHZUX, ''lhzux''), (PPC_OP_LHAX, ''lhax''),
     (PPC_OP_LHAUX, ''lhaux''), (PPC_OP_LWBRX, ''lwbrx''), (PPC_OP_LHBRX, ''lhbrx''),
     (PPC_OP_STWX, ''stwx''), (PPC_OP_STWUX, ''stwux''), (PPC_OP_STBX, ''stbx''),
     (PPC_OP_STBUX, ''stbux''), (PPC_OP_STHX, ''sthx''), (PPC_OP_STHUX, ''sthux''),
     (PPC_OP_STWBRX, ''stwbrx''), (PPC_OP_STHBRX, ''sthbrx''), (PPC_OP_LSWI, ''lswi''),
     (PPC_OP_LSWX, ''lswx''), (PPC_OP_STSWI, ''stswi''), (PPC_OP_STSWX, ''stswx''),
     (PPC_OP_LWARX, ''lwarx''), (PPC_OP_STWCX, ''stwcx.''), (PPC_OP_STFIWX, ''stfiwx''),
     (PPC_OP_LFS, ''lfs''), (PPC_OP_LFSU, ''lfsu''), (PPC_OP_LFD, ''lfd''),
     (PPC_OP_LFDU, ''lfdu'')]"

definition opcode_names_fp_sys :: "(PPCOpcode \<times> string) list" where
  "opcode_names_fp_sys = [
     (PPC_OP_STFS, ''stfs''), (PPC_OP_STFSU, ''stfsu''), (PPC_OP_STFD, ''stfd''),
     (PPC_OP_STFDU, ''stfdu''), (PPC_OP_LFSX, ''lfsx''), (PPC_OP_LFSUX, ''lfsux''),
     (PPC_OP_LFDX, ''lfdx''), (PPC_OP_LFDUX, ''lfdux''), (PPC_OP_STFSX, ''stfsx''),
     (PPC_OP_STFSUX, ''stfsux''), (PPC_OP_STFDX, ''stfdx''), (PPC_OP_STFDUX, ''stfdux''),
     (PPC_OP_FADDS, ''fadds''), (PPC_OP_FSUBS, ''fsubs''), (PPC_OP_FMULS, ''fmuls''),
     (PPC_OP_FDIVS, ''fdivs''), (PPC_OP_FRES, ''fres''), (PPC_OP_FMADDS, ''fmadds''),
     (PPC_OP_FMSUBS, ''fmsubs''), (PPC_OP_FNMADDS, ''fnmadds''), (PPC_OP_FNMSUBS, ''fnmsubs''),
     (PPC_OP_FADD, ''fadd''), (PPC_OP_FSUB, ''fsub''), (PPC_OP_FMUL, ''fmul''),
     (PPC_OP_FDIV, ''fdiv''), (PPC_OP_FRSQRTE, ''frsqrte''), (PPC_OP_FMADD, ''fmadd''),
     (PPC_OP_FMSUB, ''fmsub''), (PPC_OP_FNMADD, ''fnmadd''), (PPC_OP_FNMSUB, ''fnmsub''),
     (PPC_OP_FCTIW, ''fctiw''), (PPC_OP_FCTIWZ, ''fctiwz''), (PPC_OP_FMR, ''fmr''),
     (PPC_OP_FNEG, ''fneg''), (PPC_OP_FABS, ''fabs''), (PPC_OP_FNABS, ''fnabs''),
     (PPC_OP_FRSP, ''frsp''), (PPC_OP_FSEL, ''fsel''), (PPC_OP_FCMPU, ''fcmpu''),
     (PPC_OP_FCMPO, ''fcmpo''), (PPC_OP_MTFSB0, ''mtfsb0''), (PPC_OP_MTFSB1, ''mtfsb1''),
     (PPC_OP_MCRFS, ''mcrfs''), (PPC_OP_MFFS, ''mffs''), (PPC_OP_MTFSF, ''mtfsf''),
     (PPC_OP_MTFSFI, ''mtfsfi''), (PPC_OP_PSQ_L, ''psq_l''), (PPC_OP_PSQ_LU, ''psq_lu''),
     (PPC_OP_PSQ_ST, ''psq_st''), (PPC_OP_PSQ_STU, ''psq_stu''), (PPC_OP_PSQ_LX, ''psq_lx''),
     (PPC_OP_PSQ_LUX, ''psq_lux''), (PPC_OP_PSQ_STX, ''psq_stx''), (PPC_OP_PSQ_STUX, ''psq_stux''),
     (PPC_OP_PS_ADD, ''ps_add''), (PPC_OP_PS_SUB, ''ps_sub''), (PPC_OP_PS_MUL, ''ps_mul''),
     (PPC_OP_PS_DIV, ''ps_div''), (PPC_OP_PS_RES, ''ps_res''), (PPC_OP_PS_RSQRTE, ''ps_rsqrte''),
     (PPC_OP_PS_MADD, ''ps_madd''), (PPC_OP_PS_MSUB, ''ps_msub''), (PPC_OP_PS_NMADD, ''ps_nmadd''),
     (PPC_OP_PS_NMSUB, ''ps_nmsub''), (PPC_OP_PS_NEG, ''ps_neg''), (PPC_OP_PS_ABS, ''ps_abs''),
     (PPC_OP_PS_NABS, ''ps_nabs''), (PPC_OP_PS_MR, ''ps_mr''), (PPC_OP_PS_SUM0, ''ps_sum0''),
     (PPC_OP_PS_SUM1, ''ps_sum1''), (PPC_OP_PS_MULS0, ''ps_muls0''), (PPC_OP_PS_MULS1, ''ps_muls1''),
     (PPC_OP_PS_MADDS0, ''ps_madds0''), (PPC_OP_PS_MADDS1, ''ps_madds1''), (PPC_OP_PS_MERGE00, ''ps_merge00''),
     (PPC_OP_PS_MERGE01, ''ps_merge01''), (PPC_OP_PS_MERGE10, ''ps_merge10''), (PPC_OP_PS_MERGE11, ''ps_merge11''),
     (PPC_OP_PS_CMPU0, ''ps_cmpu0''), (PPC_OP_PS_CMPO0, ''ps_cmpo0''), (PPC_OP_PS_CMPU1, ''ps_cmpu1''),
     (PPC_OP_PS_CMPO1, ''ps_cmpo1''), (PPC_OP_PS_SEL, ''ps_sel''), (PPC_OP_MULLW, ''mullw''),
     (PPC_OP_MULLWO, ''mullwo''), (PPC_OP_MULHW, ''mulhw''), (PPC_OP_MULHWU, ''mulhwu''),
     (PPC_OP_DIVW, ''divw''), (PPC_OP_DIVWO, ''divwo''), (PPC_OP_DIVWU, ''divwu''),
     (PPC_OP_DIVWUO, ''divwuo''), (PPC_OP_DCBZ, ''dcbz''), (PPC_OP_DCBZ_L, ''dcbz_l''),
     (PPC_OP_DCBST, ''dcbst''), (PPC_OP_DCBF, ''dcbf''), (PPC_OP_DCBTST, ''dcbtst''),
     (PPC_OP_DCBT, ''dcbt''), (PPC_OP_DCBI, ''dcbi''), (PPC_OP_ICBI, ''icbi''),
     (PPC_OP_SYNC, ''sync''), (PPC_OP_EIEIO, ''eieio''), (PPC_OP_ISYNC, ''isync''),
     (PPC_OP_MCRXR, ''mcrxr''), (PPC_OP_MFMSR, ''mfmsr''), (PPC_OP_MTMSR, ''mtmsr''),
     (PPC_OP_MFSR, ''mfsr''), (PPC_OP_MFSRIN, ''mfsrin''), (PPC_OP_MTSR, ''mtsr''),
     (PPC_OP_MTSRIN, ''mtsrin''), (PPC_OP_TLBIE, ''tlbie''), (PPC_OP_TLBSYNC, ''tlbsync''),
     (PPC_OP_ECIWX, ''eciwx''), (PPC_OP_ECOWX, ''ecowx'')]"

definition ppc_op_name :: "PPCOpcode \<Rightarrow> string option" where
  "ppc_op_name op =
     (if opc_num op \<ge> PPC_OP_COUNT then Some ''???''
      else map_of (opcode_names_int @ opcode_names_fp_sys) op)"

section \<open>The table has exactly one entry for each enumerator\<close>

abbreviation opcode_names :: "(PPCOpcode \<times> string) list" where
  "opcode_names \<equiv> opcode_names_int @ opcode_names_fp_sys"

lemmas opcode_names_defs = opcode_names_int_def opcode_names_fp_sys_def

lemma opcode_names_sorted: "sort (map (opc_num \<circ> fst) opcode_names) = [0..<237]"
proof -
  have "[0..<237] = 0 # Suc 0 # [2..<237]"
    by (simp add: upt_conv_Cons)
  then show ?thesis
    by (simp add: opcode_names_defs upt_conv_Cons)
qed

lemma opcode_names_keys: "map_of opcode_names op \<noteq> None \<longleftrightarrow> opc_num op < PPC_OP_COUNT"
proof -
  have "set (map (opc_num \<circ> fst) opcode_names) = {..<237}"
    using arg_cong [OF opcode_names_sorted, of set] by (simp add: atLeast0LessThan)
  then have "opc_num ` fst ` set opcode_names = {..<237}"
    by (simp only: set_map image_comp [symmetric])
  then have "op \<in> fst ` set opcode_names \<longleftrightarrow> opc_num op < 237"
    by (metis (no_types, lifting) PPCOpcode.expand image_iff lessThan_iff)
  then show ?thesis
    by (simp only: PPC_OP_COUNT_def map_of_eq_None_iff not_not)
qed

lemma opcode_names_entries:
  "list_all (\<lambda>(op, s). s \<noteq> [] \<and> (s = ''???'' \<longleftrightarrow> op = PPC_OP_UNKNOWN)) opcode_names"
  by (simp add: opcode_names_defs)

lemma opcode_names_distinct: "distinct (map snd opcode_names)"
  by (simp add: opcode_names_defs)

lemma map_of_inj_if_distinct_snd:
  assumes "distinct (map snd xs)" "map_of xs a = Some v" "map_of xs b = Some v"
  shows "a = b"
proof -
  have "(a, v) \<in> set xs" "(b, v) \<in> set xs"
    using assms(2,3) by (auto dest: map_of_SomeD)
  with assms(1) show ?thesis
    by (fastforce simp: distinct_map inj_on_def)
qed

lemma ppc_op_name_known:
  assumes "opc_num op < PPC_OP_COUNT"
  shows "\<exists>s. ppc_op_name op = Some s \<and> map_of opcode_names op = Some s"
proof -
  obtain s where "map_of opcode_names op = Some s"
    using assms opcode_names_keys [of op] by (metis not_None_eq)
  with assms show ?thesis
    by (simp only: ppc_op_name_def) simp
qed

section \<open>Properties\<close>

text \<open>The mnemonic determines the opcode: two opcodes of the enumeration with the
  same name are equal, and \<open>???\<close> names the unknown opcode only.\<close>

theorem ppc_op_name_unique:
  assumes "opc_num a < PPC_OP_COUNT" "opc_num b < PPC_OP_COUNT" "ppc_op_name a = ppc_op_name b"
  shows "a = b \<and> (ppc_op_name a = Some ''???'' \<longleftrightarrow> a = PPC_OP_UNKNOWN)"
proof -
  from ppc_op_name_known [OF assms(1)] obtain s where s: "ppc_op_name a = Some s" "map_of opcode_names a = Some s"
    by blast
  from ppc_op_name_known [OF assms(2)] obtain t where t: "ppc_op_name b = Some t" "map_of opcode_names b = Some t"
    by blast
  with assms(3) s(1) have "map_of opcode_names b = Some s"
    by (simp only: option.inject)
  then have "a = b"
    using map_of_inj_if_distinct_snd [OF opcode_names_distinct s(2)] by simp
  moreover have "s = ''???'' \<longleftrightarrow> a = PPC_OP_UNKNOWN"
    using opcode_names_entries map_of_SomeD [OF s(2)] by (auto simp only: list_all_iff prod.case)
  ultimately show ?thesis
    using s(1) by simp
qed

theorem ppc_op_name_unique_witness: "PPC_OP_ADDI = Opc (opc_num PPC_OP_ADDI)"
  using ppc_op_name_unique [of PPC_OP_ADDI "Opc (opc_num PPC_OP_ADDI)"] by (simp add: PPC_OP_COUNT_def)

end
