(* ===== verification/Inst.thy ===== *)
theory Inst
  imports CTypes Opcode
begin

text \<open>
  The instruction record, the field extraction macros and the decoding forms of
  \<open>src/frontend/decoder.h\<close> and \<open>src/frontend/decoder.c\<close>.  A form writes the operand fields of one
  instruction format into the record, or rejects the word by setting \<open>PPC_OP_UNKNOWN\<close>.
  The locale \<open>decode_form\<close> states what \<open>ppc_decode\<close> relies on in every form; it is interpreted on
  each of them.
\<close>

section \<open>The decoded instruction\<close>

record PPCInst =
  inst_op :: PPCOpcode
  inst_raw :: u32
  inst_address :: u32
  inst_embedded_data :: bool
  inst_rD :: u8
  inst_rA :: u8
  inst_rS :: u8
  inst_rB :: u8
  inst_rC :: u8
  inst_crfD :: u8
  inst_crfS :: u8
  inst_crm :: u8
  inst_fm :: u8
  inst_imm :: u8
  inst_nb :: u8
  inst_to :: u8
  inst_sr :: u8
  inst_l :: u8
  inst_w :: u8
  inst_i :: u8
  inst_bo :: u8
  inst_bi :: u8
  inst_mb :: u8
  inst_me :: u8
  inst_sh :: u8
  inst_simm :: u16 \<comment> \<open>\<open>s16\<close>: read with \<open>sint\<close> or \<open>scast\<close>\<close>
  inst_uimm :: u16
  inst_spr :: u16
  inst_branch_target :: u32
  inst_aa :: bool
  inst_lk :: bool
  inst_rc :: bool
  inst_oe :: bool

text \<open>The record \<open>memset\<close> leaves.\<close>

definition zero_inst :: PPCInst where
  "zero_inst =
    \<lparr>inst_op = PPC_OP_UNKNOWN, inst_raw = 0, inst_address = 0, inst_embedded_data = False,
     inst_rD = 0, inst_rA = 0, inst_rS = 0, inst_rB = 0, inst_rC = 0,
     inst_crfD = 0, inst_crfS = 0, inst_crm = 0, inst_fm = 0, inst_imm = 0, inst_nb = 0,
     inst_to = 0, inst_sr = 0, inst_l = 0, inst_w = 0, inst_i = 0, inst_bo = 0, inst_bi = 0,
     inst_mb = 0, inst_me = 0, inst_sh = 0, inst_simm = 0, inst_uimm = 0, inst_spr = 0,
     inst_branch_target = 0, inst_aa = False, inst_lk = False, inst_rc = False, inst_oe = False\<rparr>"

section \<open>Field extraction\<close>

definition PPC_PRIMARY :: "u32 \<Rightarrow> u32" where
  "PPC_PRIMARY raw = shr raw 26"
definition PPC_RD :: "u32 \<Rightarrow> u32" where
  "PPC_RD raw = shr raw 21 AND 0x1F"
definition PPC_RS :: "u32 \<Rightarrow> u32" where
  "PPC_RS raw = shr raw 21 AND 0x1F"
definition PPC_RA :: "u32 \<Rightarrow> u32" where
  "PPC_RA raw = shr raw 16 AND 0x1F"
definition PPC_RB :: "u32 \<Rightarrow> u32" where
  "PPC_RB raw = shr raw 11 AND 0x1F"
definition PPC_RC_REG :: "u32 \<Rightarrow> u32" where
  "PPC_RC_REG raw = shr raw 6 AND 0x1F"
definition PPC_BO :: "u32 \<Rightarrow> u32" where
  "PPC_BO raw = shr raw 21 AND 0x1F"
definition PPC_BI :: "u32 \<Rightarrow> u32" where
  "PPC_BI raw = shr raw 16 AND 0x1F"
definition PPC_XO :: "u32 \<Rightarrow> u32" where
  "PPC_XO raw = shr raw 1 AND 0x3FF"
definition PPC_A_XO :: "u32 \<Rightarrow> u32" where
  "PPC_A_XO raw = shr raw 1 AND 0x1F"
definition PPC_SPR :: "u32 \<Rightarrow> u32" where
  "PPC_SPR raw = (shr raw 16 AND 0x1F) OR (shr raw 6 AND 0x3E0)"
definition PPC_CRM :: "u32 \<Rightarrow> u32" where
  "PPC_CRM raw = shr raw 12 AND 0xFF"
definition PPC_MB :: "u32 \<Rightarrow> u32" where
  "PPC_MB raw = shr raw 6 AND 0x1F"
definition PPC_ME :: "u32 \<Rightarrow> u32" where
  "PPC_ME raw = shr raw 1 AND 0x1F"
definition PPC_SH :: "u32 \<Rightarrow> u32" where
  "PPC_SH raw = shr raw 11 AND 0x1F"
definition PPC_RC :: "u32 \<Rightarrow> bool" where
  "PPC_RC raw \<longleftrightarrow> raw AND 1 \<noteq> 0"
definition PPC_SIMM :: "u32 \<Rightarrow> u16" where
  "PPC_SIMM raw = ucast (raw AND 0xFFFF)"
definition PPC_UIMM :: "u32 \<Rightarrow> u16" where
  "PPC_UIMM raw = ucast (raw AND 0xFFFF)"

lemmas ppc_field_defs =
  PPC_PRIMARY_def PPC_RD_def PPC_RS_def PPC_RA_def PPC_RB_def PPC_RC_REG_def PPC_BO_def PPC_BI_def
  PPC_XO_def PPC_A_XO_def PPC_SPR_def PPC_CRM_def PPC_MB_def PPC_ME_def PPC_SH_def PPC_RC_def
  PPC_SIMM_def PPC_UIMM_def

section \<open>Decoding forms\<close>

definition reject :: "PPCInst \<Rightarrow> PPCInst" where
  "reject inst = inst\<lparr>inst_op := PPC_OP_UNKNOWN\<rparr>"

definition decode_d_rt_ra :: "PPCInst \<Rightarrow> PPCOpcode \<Rightarrow> u32 \<Rightarrow> PPCInst" where
  "decode_d_rt_ra inst op raw =
     inst\<lparr>inst_op := op, inst_rD := ucast (PPC_RD raw), inst_rA := ucast (PPC_RA raw),
          inst_simm := PPC_SIMM raw\<rparr>"

definition decode_d_rt_ra_update :: "PPCInst \<Rightarrow> PPCOpcode \<Rightarrow> u32 \<Rightarrow> PPCInst" where
  "decode_d_rt_ra_update inst op raw =
     (if PPC_RA raw = 0 \<or> PPC_RA raw = PPC_RD raw then reject inst
      else decode_d_rt_ra inst op raw)"

definition decode_d_frt_ra_update :: "PPCInst \<Rightarrow> PPCOpcode \<Rightarrow> u32 \<Rightarrow> PPCInst" where
  "decode_d_frt_ra_update inst op raw =
     (if PPC_RA raw = 0 then reject inst else decode_d_rt_ra inst op raw)"

definition decode_d_rs_ra :: "PPCInst \<Rightarrow> PPCOpcode \<Rightarrow> u32 \<Rightarrow> PPCInst" where
  "decode_d_rs_ra inst op raw =
     inst\<lparr>inst_op := op, inst_rS := ucast (PPC_RS raw), inst_rA := ucast (PPC_RA raw),
          inst_simm := PPC_SIMM raw\<rparr>"

definition decode_d_rs_ra_update :: "PPCInst \<Rightarrow> PPCOpcode \<Rightarrow> u32 \<Rightarrow> PPCInst" where
  "decode_d_rs_ra_update inst op raw =
     (if PPC_RA raw = 0 then reject inst else decode_d_rs_ra inst op raw)"

definition decode_x_rt_ra_rb :: "PPCInst \<Rightarrow> PPCOpcode \<Rightarrow> u32 \<Rightarrow> PPCInst" where
  "decode_x_rt_ra_rb inst op raw =
     inst\<lparr>inst_op := op, inst_rD := ucast (PPC_RD raw), inst_rA := ucast (PPC_RA raw),
          inst_rB := ucast (PPC_RB raw), inst_rc := PPC_RC raw\<rparr>"

definition decode_x_rt_ra_rb_norc :: "PPCInst \<Rightarrow> PPCOpcode \<Rightarrow> u32 \<Rightarrow> PPCInst" where
  "decode_x_rt_ra_rb_norc inst op raw =
     (if PPC_RC raw then reject inst else decode_x_rt_ra_rb inst op raw)"

definition decode_x_rt_ra_rb_update :: "PPCInst \<Rightarrow> PPCOpcode \<Rightarrow> u32 \<Rightarrow> PPCInst" where
  "decode_x_rt_ra_rb_update inst op raw =
     (if PPC_RC raw \<or> PPC_RA raw = 0 \<or> PPC_RA raw = PPC_RD raw then reject inst
      else decode_x_rt_ra_rb inst op raw)"

definition decode_x_frt_ra_rb_update :: "PPCInst \<Rightarrow> PPCOpcode \<Rightarrow> u32 \<Rightarrow> PPCInst" where
  "decode_x_frt_ra_rb_update inst op raw =
     (if PPC_RC raw \<or> PPC_RA raw = 0 then reject inst else decode_x_rt_ra_rb inst op raw)"

definition decode_xo_rt_ra_rb :: "PPCInst \<Rightarrow> PPCOpcode \<Rightarrow> u32 \<Rightarrow> PPCInst" where
  "decode_xo_rt_ra_rb inst op raw =
     (decode_x_rt_ra_rb inst op raw)\<lparr>inst_oe := (shr raw 10 AND 1 \<noteq> 0)\<rparr>"

definition decode_x_rs_ra_rb :: "PPCInst \<Rightarrow> PPCOpcode \<Rightarrow> u32 \<Rightarrow> PPCInst" where
  "decode_x_rs_ra_rb inst op raw =
     inst\<lparr>inst_op := op, inst_rS := ucast (PPC_RS raw), inst_rA := ucast (PPC_RA raw),
          inst_rB := ucast (PPC_RB raw), inst_rc := PPC_RC raw\<rparr>"

definition decode_x_rs_ra_rb_norc :: "PPCInst \<Rightarrow> PPCOpcode \<Rightarrow> u32 \<Rightarrow> PPCInst" where
  "decode_x_rs_ra_rb_norc inst op raw =
     (if PPC_RC raw then reject inst else decode_x_rs_ra_rb inst op raw)"

definition decode_x_rs_ra_rb_update :: "PPCInst \<Rightarrow> PPCOpcode \<Rightarrow> u32 \<Rightarrow> PPCInst" where
  "decode_x_rs_ra_rb_update inst op raw =
     (if PPC_RC raw \<or> PPC_RA raw = 0 then reject inst else decode_x_rs_ra_rb inst op raw)"

definition decode_a_frt_fra_frb_frc :: "PPCInst \<Rightarrow> PPCOpcode \<Rightarrow> u32 \<Rightarrow> PPCInst" where
  "decode_a_frt_fra_frb_frc inst op raw =
     inst\<lparr>inst_op := op, inst_rD := ucast (PPC_RD raw), inst_rA := ucast (PPC_RA raw),
          inst_rB := ucast (PPC_RB raw), inst_rC := ucast (PPC_RC_REG raw),
          inst_rc := PPC_RC raw\<rparr>"

definition decode_x_frt_frb :: "PPCInst \<Rightarrow> PPCOpcode \<Rightarrow> u32 \<Rightarrow> PPCInst" where
  "decode_x_frt_frb inst op raw =
     (if PPC_RA raw \<noteq> 0 then reject inst
      else inst\<lparr>inst_op := op, inst_rD := ucast (PPC_RD raw), inst_rB := ucast (PPC_RB raw),
                inst_rc := PPC_RC raw\<rparr>)"

definition decode_fcmp :: "PPCInst \<Rightarrow> PPCOpcode \<Rightarrow> u32 \<Rightarrow> PPCInst" where
  "decode_fcmp inst op raw =
     (if raw AND ((shl 3 21) OR 1) \<noteq> 0 then reject inst
      else inst\<lparr>inst_op := op, inst_crfD := ucast (shr raw 23 AND 0x7),
                inst_rA := ucast (PPC_RA raw), inst_rB := ucast (PPC_RB raw)\<rparr>)"

definition decode_cr_logical :: "PPCInst \<Rightarrow> PPCOpcode \<Rightarrow> u32 \<Rightarrow> PPCInst" where
  "decode_cr_logical inst op raw =
     (if PPC_RC raw then reject inst
      else inst\<lparr>inst_op := op, inst_rD := ucast (PPC_RD raw), inst_rA := ucast (PPC_RA raw),
                inst_rB := ucast (PPC_RB raw)\<rparr>)"

definition decode_mtfsb :: "PPCInst \<Rightarrow> PPCOpcode \<Rightarrow> u32 \<Rightarrow> PPCInst" where
  "decode_mtfsb inst op raw =
     (if PPC_RA raw \<noteq> 0 \<or> PPC_RB raw \<noteq> 0 then reject inst
      else inst\<lparr>inst_op := op, inst_rD := ucast (PPC_RD raw), inst_rc := PPC_RC raw\<rparr>)"

definition decode_xo_rt_ra :: "PPCInst \<Rightarrow> PPCOpcode \<Rightarrow> u32 \<Rightarrow> PPCInst" where
  "decode_xo_rt_ra inst op raw =
     inst\<lparr>inst_op := op, inst_rD := ucast (PPC_RD raw), inst_rA := ucast (PPC_RA raw),
          inst_rc := PPC_RC raw, inst_oe := (shr raw 10 AND 1 \<noteq> 0)\<rparr>"

definition decode_psq_d_rt_ra :: "PPCInst \<Rightarrow> PPCOpcode \<Rightarrow> u32 \<Rightarrow> PPCInst" where
  "decode_psq_d_rt_ra inst op raw =
     inst\<lparr>inst_op := op, inst_rD := ucast (PPC_RD raw), inst_rA := ucast (PPC_RA raw),
          inst_w := ucast (shr raw 15 AND 1), inst_i := ucast (shr raw 12 AND 7),
          inst_simm := ucast (sign_extend (raw AND 0x0FFF) 12)\<rparr>"

definition decode_psq_d_rt_ra_update :: "PPCInst \<Rightarrow> PPCOpcode \<Rightarrow> u32 \<Rightarrow> PPCInst" where
  "decode_psq_d_rt_ra_update inst op raw =
     (if PPC_RA raw = 0 then reject inst else decode_psq_d_rt_ra inst op raw)"

definition decode_psq_d_rs_ra :: "PPCInst \<Rightarrow> PPCOpcode \<Rightarrow> u32 \<Rightarrow> PPCInst" where
  "decode_psq_d_rs_ra inst op raw =
     inst\<lparr>inst_op := op, inst_rS := ucast (PPC_RS raw), inst_rA := ucast (PPC_RA raw),
          inst_w := ucast (shr raw 15 AND 1), inst_i := ucast (shr raw 12 AND 7),
          inst_simm := ucast (sign_extend (raw AND 0x0FFF) 12)\<rparr>"

definition decode_psq_d_rs_ra_update :: "PPCInst \<Rightarrow> PPCOpcode \<Rightarrow> u32 \<Rightarrow> PPCInst" where
  "decode_psq_d_rs_ra_update inst op raw =
     (if PPC_RA raw = 0 then reject inst else decode_psq_d_rs_ra inst op raw)"

definition decode_psq_x_rt_ra_rb :: "PPCInst \<Rightarrow> PPCOpcode \<Rightarrow> u32 \<Rightarrow> PPCInst" where
  "decode_psq_x_rt_ra_rb inst op raw =
     inst\<lparr>inst_op := op, inst_rD := ucast (PPC_RD raw), inst_rA := ucast (PPC_RA raw),
          inst_rB := ucast (PPC_RB raw), inst_w := ucast (shr raw 10 AND 1),
          inst_i := ucast (shr raw 7 AND 7)\<rparr>"

definition decode_psq_x_rt_ra_rb_norc :: "PPCInst \<Rightarrow> PPCOpcode \<Rightarrow> u32 \<Rightarrow> PPCInst" where
  "decode_psq_x_rt_ra_rb_norc inst op raw =
     (if PPC_RC raw then reject inst else decode_psq_x_rt_ra_rb inst op raw)"

definition decode_psq_x_rt_ra_rb_update :: "PPCInst \<Rightarrow> PPCOpcode \<Rightarrow> u32 \<Rightarrow> PPCInst" where
  "decode_psq_x_rt_ra_rb_update inst op raw =
     (if PPC_RC raw \<or> PPC_RA raw = 0 then reject inst else decode_psq_x_rt_ra_rb inst op raw)"

definition decode_psq_x_rs_ra_rb :: "PPCInst \<Rightarrow> PPCOpcode \<Rightarrow> u32 \<Rightarrow> PPCInst" where
  "decode_psq_x_rs_ra_rb inst op raw =
     inst\<lparr>inst_op := op, inst_rS := ucast (PPC_RS raw), inst_rA := ucast (PPC_RA raw),
          inst_rB := ucast (PPC_RB raw), inst_w := ucast (shr raw 10 AND 1),
          inst_i := ucast (shr raw 7 AND 7)\<rparr>"

definition decode_psq_x_rs_ra_rb_norc :: "PPCInst \<Rightarrow> PPCOpcode \<Rightarrow> u32 \<Rightarrow> PPCInst" where
  "decode_psq_x_rs_ra_rb_norc inst op raw =
     (if PPC_RC raw then reject inst else decode_psq_x_rs_ra_rb inst op raw)"

definition decode_psq_x_rs_ra_rb_update :: "PPCInst \<Rightarrow> PPCOpcode \<Rightarrow> u32 \<Rightarrow> PPCInst" where
  "decode_psq_x_rs_ra_rb_update inst op raw =
     (if PPC_RC raw \<or> PPC_RA raw = 0 then reject inst else decode_psq_x_rs_ra_rb inst op raw)"

lemmas decode_form_defs =
  decode_d_rt_ra_def decode_d_rt_ra_update_def decode_d_frt_ra_update_def decode_d_rs_ra_def
  decode_d_rs_ra_update_def decode_x_rt_ra_rb_def decode_x_rt_ra_rb_norc_def
  decode_x_rt_ra_rb_update_def decode_x_frt_ra_rb_update_def decode_xo_rt_ra_rb_def
  decode_x_rs_ra_rb_def decode_x_rs_ra_rb_norc_def decode_x_rs_ra_rb_update_def
  decode_a_frt_fra_frb_frc_def decode_x_frt_frb_def decode_fcmp_def decode_cr_logical_def
  decode_mtfsb_def decode_xo_rt_ra_def decode_psq_d_rt_ra_def decode_psq_d_rt_ra_update_def
  decode_psq_d_rs_ra_def decode_psq_d_rs_ra_update_def decode_psq_x_rt_ra_rb_def
  decode_psq_x_rt_ra_rb_norc_def decode_psq_x_rt_ra_rb_update_def decode_psq_x_rs_ra_rb_def
  decode_psq_x_rs_ra_rb_norc_def decode_psq_x_rs_ra_rb_update_def reject_def

section \<open>Register ranges of the string instructions\<close>

text \<open>\<open>for (u32 i = 0; i < count; i++) if (((u32)start + i) % 32u == reg) return true;\<close>\<close>

definition reg_in_wrapped_range :: "u8 \<Rightarrow> u32 \<Rightarrow> u8 \<Rightarrow> bool" where
  "reg_in_wrapped_range start count reg \<longleftrightarrow>
     list_ex (\<lambda>i. (ucast start + of_nat i) mod 32 = (ucast reg :: u32)) [0..<unat count]"

definition string_register_count :: "u8 \<Rightarrow> u32" where
  "string_register_count byte_count =
     (let count = (if byte_count \<noteq> 0 then ucast byte_count else 32) in (count + 3) div 4)"

section \<open>What every form guarantees\<close>

text \<open>The ranges of the operand fields.\<close>

definition wf_fields :: "PPCInst \<Rightarrow> bool" where
  "wf_fields inst \<longleftrightarrow>
     inst_rD inst < 32 \<and> inst_rA inst < 32 \<and> inst_rS inst < 32 \<and> inst_rB inst < 32 \<and>
     inst_rC inst < 32 \<and> inst_crfD inst < 8 \<and> inst_crfS inst < 8 \<and> inst_imm inst < 16 \<and>
     inst_nb inst < 32 \<and> inst_to inst < 32 \<and> inst_sr inst < 16 \<and> inst_l inst < 2 \<and>
     inst_w inst < 2 \<and> inst_i inst < 8 \<and> inst_bo inst < 32 \<and> inst_bi inst < 32 \<and>
     inst_mb inst < 32 \<and> inst_me inst < 32 \<and> inst_sh inst < 32 \<and> inst_spr inst < 1024"

lemma ucast_and_bounds [word_bound]:
  "(ucast (x AND 0x1F :: u32) :: u8) < 32" "(ucast (x AND 0xF :: u32) :: u8) < 16"
  "(ucast (x AND 7 :: u32) :: u8) < 8" "(ucast (x AND 1 :: u32) :: u8) < 2"
  using unat_ucast_and_le [where 'b = 8, of x 31] unat_ucast_and_le [where 'b = 8, of x 15]
    unat_ucast_and_le [where 'b = 8, of x 7] unat_ucast_and_le [where 'b = 8, of x 1]
  by (simp_all add: word_less_nat_alt)

lemma field_bounds [word_bound]:
  "(ucast (PPC_RD raw) :: u8) < 32" "(ucast (PPC_RS raw) :: u8) < 32"
  "(ucast (PPC_RA raw) :: u8) < 32" "(ucast (PPC_RB raw) :: u8) < 32"
  "(ucast (PPC_RC_REG raw) :: u8) < 32" "(ucast (PPC_BO raw) :: u8) < 32"
  "(ucast (PPC_BI raw) :: u8) < 32" "(ucast (PPC_MB raw) :: u8) < 32"
  "(ucast (PPC_ME raw) :: u8) < 32" "(ucast (PPC_SH raw) :: u8) < 32"
  by (simp_all add: ppc_field_defs word_bound)

lemma spr_bound [word_bound]: "(ucast (PPC_SPR raw) :: u16) < 1024"
proof -
  have m: "(0x1F :: u32) = mask 5" "(0x3E0 :: u32) = shl (mask 5) 5"
    by (simp_all add: mask_numeral)
  have "take_bit 10 (ucast (PPC_SPR raw)) = (ucast (PPC_SPR raw) :: u16)"
    unfolding PPC_SPR_def m by (rule bit_word_eqI) (auto simp: bit_simps)
  then have "unat (ucast (PPC_SPR raw) :: u16) = take_bit 10 (unat (ucast (PPC_SPR raw) :: u16))"
    by (metis unsigned_take_bit_eq)
  also have "\<dots> < 2 ^ 10"
    by (rule take_bit_nat_less_exp)
  finally show ?thesis
    by (simp add: word_less_nat_alt)
qed

lemma wf_fields_reject [simp]: "wf_fields (reject inst) = wf_fields inst"
  by (simp add: wf_fields_def reject_def)

text \<open>
  \<open>prepared\<close>: the record handed to a case body, nothing decoded yet.  \<open>decoded\<close>: what holds of every
  result; link bits and targets appear on branches only.
\<close>

definition prepared :: "u32 \<Rightarrow> u32 \<Rightarrow> PPCInst \<Rightarrow> bool" where
  "prepared raw address inst \<longleftrightarrow>
     inst_raw inst = raw \<and> inst_address inst = address \<and> \<not> inst_embedded_data inst \<and>
     wf_fields inst \<and> inst_op inst = PPC_OP_UNKNOWN \<and> \<not> inst_lk inst \<and> inst_branch_target inst = 0"

definition decoded :: "u32 \<Rightarrow> u32 \<Rightarrow> PPCInst \<Rightarrow> bool" where
  "decoded raw address inst \<longleftrightarrow>
     inst_raw inst = raw \<and> inst_address inst = address \<and> \<not> inst_embedded_data inst \<and>
     wf_fields inst \<and> opc_num (inst_op inst) < PPC_OP_COUNT \<and>
     (inst_lk inst \<longrightarrow>
        inst_op inst \<in> {PPC_OP_B, PPC_OP_BC, PPC_OP_BCLR, PPC_OP_BCCTR}) \<and>
     (inst_branch_target inst \<noteq> 0 \<longrightarrow> inst_op inst \<in> {PPC_OP_B, PPC_OP_BC})"

lemma prepared_reject: "prepared raw address inst \<Longrightarrow> decoded raw address (reject inst)"
  by (simp add: prepared_def decoded_def reject_def wf_fields_def PPC_OP_COUNT_def)

text \<open>\<open>decoded\<close> is kept by storing an operand within its range, and established from a prepared
  record by storing the opcode.\<close>

lemma decoded_op:
  "prepared raw address inst \<Longrightarrow> opc_num op < PPC_OP_COUNT \<Longrightarrow>
   decoded raw address (inst\<lparr>inst_op := op\<rparr>)"
  by (simp add: prepared_def decoded_def wf_fields_def)

lemma decoded_operand:
  assumes "decoded raw address inst"
  shows
    "x_rD < 32 \<Longrightarrow> decoded raw address (inst\<lparr>inst_rD := x_rD\<rparr>)"
    "x_rA < 32 \<Longrightarrow> decoded raw address (inst\<lparr>inst_rA := x_rA\<rparr>)"
    "x_rS < 32 \<Longrightarrow> decoded raw address (inst\<lparr>inst_rS := x_rS\<rparr>)"
    "x_rB < 32 \<Longrightarrow> decoded raw address (inst\<lparr>inst_rB := x_rB\<rparr>)"
    "x_rC < 32 \<Longrightarrow> decoded raw address (inst\<lparr>inst_rC := x_rC\<rparr>)"
    "x_crfD < 8 \<Longrightarrow> decoded raw address (inst\<lparr>inst_crfD := x_crfD\<rparr>)"
    "x_crfS < 8 \<Longrightarrow> decoded raw address (inst\<lparr>inst_crfS := x_crfS\<rparr>)"
    "x_imm < 16 \<Longrightarrow> decoded raw address (inst\<lparr>inst_imm := x_imm\<rparr>)"
    "x_nb < 32 \<Longrightarrow> decoded raw address (inst\<lparr>inst_nb := x_nb\<rparr>)"
    "x_to < 32 \<Longrightarrow> decoded raw address (inst\<lparr>inst_to := x_to\<rparr>)"
    "x_sr < 16 \<Longrightarrow> decoded raw address (inst\<lparr>inst_sr := x_sr\<rparr>)"
    "x_l < 2 \<Longrightarrow> decoded raw address (inst\<lparr>inst_l := x_l\<rparr>)"
    "x_w < 2 \<Longrightarrow> decoded raw address (inst\<lparr>inst_w := x_w\<rparr>)"
    "x_i < 8 \<Longrightarrow> decoded raw address (inst\<lparr>inst_i := x_i\<rparr>)"
    "x_bo < 32 \<Longrightarrow> decoded raw address (inst\<lparr>inst_bo := x_bo\<rparr>)"
    "x_bi < 32 \<Longrightarrow> decoded raw address (inst\<lparr>inst_bi := x_bi\<rparr>)"
    "x_mb < 32 \<Longrightarrow> decoded raw address (inst\<lparr>inst_mb := x_mb\<rparr>)"
    "x_me < 32 \<Longrightarrow> decoded raw address (inst\<lparr>inst_me := x_me\<rparr>)"
    "x_sh < 32 \<Longrightarrow> decoded raw address (inst\<lparr>inst_sh := x_sh\<rparr>)"
    "x_spr < 1024 \<Longrightarrow> decoded raw address (inst\<lparr>inst_spr := x_spr\<rparr>)"
    "decoded raw address (inst\<lparr>inst_crm := x_crm\<rparr>)"
    "decoded raw address (inst\<lparr>inst_fm := x_fm\<rparr>)"
    "decoded raw address (inst\<lparr>inst_simm := x_simm\<rparr>)"
    "decoded raw address (inst\<lparr>inst_uimm := x_uimm\<rparr>)"
    "decoded raw address (inst\<lparr>inst_rc := x_rc\<rparr>)"
    "decoded raw address (inst\<lparr>inst_oe := x_oe\<rparr>)"
    "decoded raw address (inst\<lparr>inst_aa := x_aa\<rparr>)"
  using assms by (simp_all add: decoded_def wf_fields_def)

text \<open>
  A form stores its opcode or rejects the word, keeps the operands in range, and leaves the fields
  alone that belong to the decoder itself or to branches.
\<close>

locale decode_form =
  fixes form :: "PPCInst \<Rightarrow> PPCOpcode \<Rightarrow> u32 \<Rightarrow> PPCInst"
  assumes form_op: "form inst op raw = reject inst \<or> inst_op (form inst op raw) = op"
    and form_raw: "inst_raw (form inst op raw) = inst_raw inst"
    and form_address: "inst_address (form inst op raw) = inst_address inst"
    and form_embedded: "inst_embedded_data (form inst op raw) = inst_embedded_data inst"
    and form_lk: "inst_lk (form inst op raw) = inst_lk inst"
    and form_target: "inst_branch_target (form inst op raw) = inst_branch_target inst"
    and form_fields: "wf_fields inst \<Longrightarrow> wf_fields (form inst op raw)"

begin

lemma form_decoded:
  assumes "prepared r a inst" "opc_num op < PPC_OP_COUNT"
  shows "decoded r a (form inst op raw)"
proof -
  have "opc_num (inst_op (form inst op raw)) < PPC_OP_COUNT"
    using form_op [of inst op raw] assms(2) by (auto simp: reject_def PPC_OP_COUNT_def)
  with assms show ?thesis
    by (simp add: prepared_def decoded_def form_raw form_address form_embedded form_lk form_target
      form_fields)
qed

text \<open>A form yields no opcode but its own.\<close>

lemma form_other:
  "op \<noteq> x \<Longrightarrow> x \<noteq> PPC_OP_UNKNOWN \<Longrightarrow> inst_op (form inst op raw) = x \<longleftrightarrow> False"
  using form_op [of inst op raw] by (auto simp: reject_def)

end

interpretation d_rt_ra: decode_form decode_d_rt_ra
  by unfold_locales (auto simp: decode_form_defs wf_fields_def word_bound)
interpretation d_rt_ra_update: decode_form decode_d_rt_ra_update
  by unfold_locales (auto simp: decode_form_defs wf_fields_def word_bound)
interpretation d_frt_ra_update: decode_form decode_d_frt_ra_update
  by unfold_locales (auto simp: decode_form_defs wf_fields_def word_bound)
interpretation d_rs_ra: decode_form decode_d_rs_ra
  by unfold_locales (auto simp: decode_form_defs wf_fields_def word_bound)
interpretation d_rs_ra_update: decode_form decode_d_rs_ra_update
  by unfold_locales (auto simp: decode_form_defs wf_fields_def word_bound)
interpretation x_rt_ra_rb: decode_form decode_x_rt_ra_rb
  by unfold_locales (auto simp: decode_form_defs wf_fields_def word_bound)
interpretation x_rt_ra_rb_norc: decode_form decode_x_rt_ra_rb_norc
  by unfold_locales (auto simp: decode_form_defs wf_fields_def word_bound)
interpretation x_rt_ra_rb_update: decode_form decode_x_rt_ra_rb_update
  by unfold_locales (auto simp: decode_form_defs wf_fields_def word_bound)
interpretation x_frt_ra_rb_update: decode_form decode_x_frt_ra_rb_update
  by unfold_locales (auto simp: decode_form_defs wf_fields_def word_bound)
interpretation xo_rt_ra_rb: decode_form decode_xo_rt_ra_rb
  by unfold_locales (auto simp: decode_form_defs wf_fields_def word_bound)
interpretation x_rs_ra_rb: decode_form decode_x_rs_ra_rb
  by unfold_locales (auto simp: decode_form_defs wf_fields_def word_bound)
interpretation x_rs_ra_rb_norc: decode_form decode_x_rs_ra_rb_norc
  by unfold_locales (auto simp: decode_form_defs wf_fields_def word_bound)
interpretation x_rs_ra_rb_update: decode_form decode_x_rs_ra_rb_update
  by unfold_locales (auto simp: decode_form_defs wf_fields_def word_bound)
interpretation a_frt_fra_frb_frc: decode_form decode_a_frt_fra_frb_frc
  by unfold_locales (auto simp: decode_form_defs wf_fields_def word_bound)
interpretation x_frt_frb: decode_form decode_x_frt_frb
  by unfold_locales (auto simp: decode_form_defs wf_fields_def word_bound)
interpretation fcmp: decode_form decode_fcmp
  by unfold_locales (auto simp: decode_form_defs wf_fields_def word_bound)
interpretation cr_logical: decode_form decode_cr_logical
  by unfold_locales (auto simp: decode_form_defs wf_fields_def word_bound)
interpretation mtfsb: decode_form decode_mtfsb
  by unfold_locales (auto simp: decode_form_defs wf_fields_def word_bound)
interpretation xo_rt_ra: decode_form decode_xo_rt_ra
  by unfold_locales (auto simp: decode_form_defs wf_fields_def word_bound)
interpretation psq_d_rt_ra: decode_form decode_psq_d_rt_ra
  by unfold_locales (auto simp: decode_form_defs wf_fields_def word_bound)
interpretation psq_d_rt_ra_update: decode_form decode_psq_d_rt_ra_update
  by unfold_locales (auto simp: decode_form_defs wf_fields_def word_bound)
interpretation psq_d_rs_ra: decode_form decode_psq_d_rs_ra
  by unfold_locales (auto simp: decode_form_defs wf_fields_def word_bound)
interpretation psq_d_rs_ra_update: decode_form decode_psq_d_rs_ra_update
  by unfold_locales (auto simp: decode_form_defs wf_fields_def word_bound)
interpretation psq_x_rt_ra_rb: decode_form decode_psq_x_rt_ra_rb
  by unfold_locales (auto simp: decode_form_defs wf_fields_def word_bound)
interpretation psq_x_rt_ra_rb_norc: decode_form decode_psq_x_rt_ra_rb_norc
  by unfold_locales (auto simp: decode_form_defs wf_fields_def word_bound)
interpretation psq_x_rt_ra_rb_update: decode_form decode_psq_x_rt_ra_rb_update
  by unfold_locales (auto simp: decode_form_defs wf_fields_def word_bound)
interpretation psq_x_rs_ra_rb: decode_form decode_psq_x_rs_ra_rb
  by unfold_locales (auto simp: decode_form_defs wf_fields_def word_bound)
interpretation psq_x_rs_ra_rb_norc: decode_form decode_psq_x_rs_ra_rb_norc
  by unfold_locales (auto simp: decode_form_defs wf_fields_def word_bound)
interpretation psq_x_rs_ra_rb_update: decode_form decode_psq_x_rs_ra_rb_update
  by unfold_locales (auto simp: decode_form_defs wf_fields_def word_bound)

lemmas forms_decoded =
  d_rt_ra.form_decoded d_rt_ra_update.form_decoded d_frt_ra_update.form_decoded
  d_rs_ra.form_decoded d_rs_ra_update.form_decoded x_rt_ra_rb.form_decoded
  x_rt_ra_rb_norc.form_decoded x_rt_ra_rb_update.form_decoded x_frt_ra_rb_update.form_decoded
  xo_rt_ra_rb.form_decoded x_rs_ra_rb.form_decoded x_rs_ra_rb_norc.form_decoded
  x_rs_ra_rb_update.form_decoded a_frt_fra_frb_frc.form_decoded x_frt_frb.form_decoded
  fcmp.form_decoded cr_logical.form_decoded mtfsb.form_decoded xo_rt_ra.form_decoded
  psq_d_rt_ra.form_decoded psq_d_rt_ra_update.form_decoded psq_d_rs_ra.form_decoded
  psq_d_rs_ra_update.form_decoded psq_x_rt_ra_rb.form_decoded psq_x_rt_ra_rb_norc.form_decoded
  psq_x_rt_ra_rb_update.form_decoded psq_x_rs_ra_rb.form_decoded psq_x_rs_ra_rb_norc.form_decoded
  psq_x_rs_ra_rb_update.form_decoded

lemmas forms_other =
  d_rt_ra.form_other d_rt_ra_update.form_other d_frt_ra_update.form_other d_rs_ra.form_other
  d_rs_ra_update.form_other x_rt_ra_rb.form_other x_rt_ra_rb_norc.form_other
  x_rt_ra_rb_update.form_other x_frt_ra_rb_update.form_other xo_rt_ra_rb.form_other
  x_rs_ra_rb.form_other x_rs_ra_rb_norc.form_other x_rs_ra_rb_update.form_other
  a_frt_fra_frb_frc.form_other x_frt_frb.form_other fcmp.form_other cr_logical.form_other
  mtfsb.form_other xo_rt_ra.form_other psq_d_rt_ra.form_other psq_d_rt_ra_update.form_other
  psq_d_rs_ra.form_other psq_d_rs_ra_update.form_other psq_x_rt_ra_rb.form_other
  psq_x_rt_ra_rb_norc.form_other psq_x_rt_ra_rb_update.form_other psq_x_rs_ra_rb.form_other
  psq_x_rs_ra_rb_norc.form_other psq_x_rs_ra_rb_update.form_other

end
