(* ===== verification/Decoder.thy ===== *)
theory Decoder
  imports Inst
begin

text \<open>
  \<open>ppc_decode\<close> of \<open>src/frontend/decoder.c\<close>: one definition per primary opcode group, in the
  order of the outer switch.  A table holds the case labels of one C switch with their bodies; every
  body is a function of the record prepared from the raw word, so a body that a switch does not
  select has no effect.
\<close>

text \<open>The record before the outer switch: cleared, then \<open>raw\<close> and \<open>address\<close> stored.\<close>

definition fresh :: "u32 \<Rightarrow> u32 \<Rightarrow> PPCInst" where
  "fresh raw address = zero_inst\<lparr>inst_raw := raw, inst_address := address\<rparr>"

section \<open>Primary opcode 4: paired singles\<close>

definition decode_4_cases :: "PPCInst \<Rightarrow> u32 \<Rightarrow> (u32 \<times> PPCInst) list" where
  "decode_4_cases inst raw = [
    (0, decode_fcmp inst PPC_OP_PS_CMPU0 raw),
    (18, decode_a_frt_fra_frb_frc inst PPC_OP_PS_DIV raw),
    (24, (if PPC_RA raw = 0 then decode_x_frt_frb inst PPC_OP_PS_RES raw else reject inst)),
    (26, (if PPC_RA raw = 0 then decode_x_frt_frb inst PPC_OP_PS_RSQRTE raw else reject inst)),
    (20, decode_a_frt_fra_frb_frc inst PPC_OP_PS_SUB raw),
    (21, decode_a_frt_fra_frb_frc inst PPC_OP_PS_ADD raw),
    (32, decode_fcmp inst PPC_OP_PS_CMPO0 raw),
    (40, decode_x_frt_frb inst PPC_OP_PS_NEG raw),
    (64, decode_fcmp inst PPC_OP_PS_CMPU1 raw),
    (72, decode_x_frt_frb inst PPC_OP_PS_MR raw),
    (96, decode_fcmp inst PPC_OP_PS_CMPO1 raw),
    (136, decode_x_frt_frb inst PPC_OP_PS_NABS raw),
    (264, decode_x_frt_frb inst PPC_OP_PS_ABS raw),
    (528, decode_a_frt_fra_frb_frc inst PPC_OP_PS_MERGE00 raw),
    (560, decode_a_frt_fra_frb_frc inst PPC_OP_PS_MERGE01 raw),
    (592, decode_a_frt_fra_frb_frc inst PPC_OP_PS_MERGE10 raw),
    (624, decode_a_frt_fra_frb_frc inst PPC_OP_PS_MERGE11 raw),
    (1014,
      (if PPC_RD raw = 0 \<and> \<not> PPC_RC raw
        then inst\<lparr>inst_op := PPC_OP_DCBZ_L, inst_rA := ucast (PPC_RA raw),
        inst_rB := ucast (PPC_RB raw)\<rparr> else reject inst))]"

definition decode_4_psq_cases :: "PPCInst \<Rightarrow> u32 \<Rightarrow> (u32 \<times> PPCInst) list" where
  "decode_4_psq_cases inst raw = [
    (6, decode_psq_x_rt_ra_rb_norc inst PPC_OP_PSQ_LX raw),
    (7, decode_psq_x_rs_ra_rb_norc inst PPC_OP_PSQ_STX raw),
    (38, decode_psq_x_rt_ra_rb_update inst PPC_OP_PSQ_LUX raw),
    (39, decode_psq_x_rs_ra_rb_update inst PPC_OP_PSQ_STUX raw)]"

definition decode_4_a_cases :: "PPCInst \<Rightarrow> u32 \<Rightarrow> (u32 \<times> PPCInst) list" where
  "decode_4_a_cases inst raw = [
    (10, decode_a_frt_fra_frb_frc inst PPC_OP_PS_SUM0 raw),
    (11, decode_a_frt_fra_frb_frc inst PPC_OP_PS_SUM1 raw),
    (12, decode_a_frt_fra_frb_frc inst PPC_OP_PS_MULS0 raw),
    (13, decode_a_frt_fra_frb_frc inst PPC_OP_PS_MULS1 raw),
    (14, decode_a_frt_fra_frb_frc inst PPC_OP_PS_MADDS0 raw),
    (15, decode_a_frt_fra_frb_frc inst PPC_OP_PS_MADDS1 raw),
    (23, decode_a_frt_fra_frb_frc inst PPC_OP_PS_SEL raw),
    (25, decode_a_frt_fra_frb_frc inst PPC_OP_PS_MUL raw),
    (28, decode_a_frt_fra_frb_frc inst PPC_OP_PS_MSUB raw),
    (29, decode_a_frt_fra_frb_frc inst PPC_OP_PS_MADD raw),
    (30, decode_a_frt_fra_frb_frc inst PPC_OP_PS_NMSUB raw),
    (31, decode_a_frt_fra_frb_frc inst PPC_OP_PS_NMADD raw)]"

definition decode_4 :: "PPCInst \<Rightarrow> u32 \<Rightarrow> PPCInst" where
  "decode_4 inst raw =
     (let xo = PPC_XO raw in
      switch xo (decode_4_cases inst raw)
        (let psxo = xo AND 0x3F in
         switch psxo (decode_4_psq_cases inst raw)
           (switch (PPC_A_XO raw) (decode_4_a_cases inst raw) (reject inst))))"

section \<open>Primary opcodes 3 and 7 to 15: trap, arithmetic and compare immediate\<close>

definition decode_imm_cases :: "PPCInst \<Rightarrow> u32 \<Rightarrow> (u32 \<times> PPCInst) list" where
  "decode_imm_cases inst raw = [
    (3,
      inst\<lparr>inst_op := PPC_OP_TWI, inst_to := ucast (PPC_RD raw),
        inst_rA := ucast (PPC_RA raw), inst_simm := PPC_SIMM raw\<rparr>),
    (7, decode_d_rt_ra inst PPC_OP_MULLI raw),
    (8, decode_d_rt_ra inst PPC_OP_SUBFIC raw),
    (10,
      (if shr raw 21 AND 1 \<noteq> 0 then reject inst
        else inst\<lparr>inst_op := PPC_OP_CMPLI, inst_crfD := ucast (shr raw 23 AND 0x7),
        inst_l := ucast (shr raw 21 AND 0x1), inst_rA := ucast (PPC_RA raw),
        inst_uimm := PPC_UIMM raw\<rparr>)),
    (11,
      (if shr raw 21 AND 1 \<noteq> 0 then reject inst
        else inst\<lparr>inst_op := PPC_OP_CMPI, inst_crfD := ucast (shr raw 23 AND 0x7),
        inst_l := ucast (shr raw 21 AND 0x1), inst_rA := ucast (PPC_RA raw),
        inst_simm := PPC_SIMM raw\<rparr>)),
    (12, decode_d_rt_ra inst PPC_OP_ADDIC raw),
    (13, (decode_d_rt_ra inst PPC_OP_ADDIC_DOT raw)\<lparr>inst_rc := True\<rparr>),
    (14, decode_d_rt_ra inst PPC_OP_ADDI raw),
    (15, decode_d_rt_ra inst PPC_OP_ADDIS raw)]"

section \<open>Primary opcodes 16 to 19: branches, system call, condition register\<close>

definition decode_bc :: "PPCInst \<Rightarrow> u32 \<Rightarrow> u32 \<Rightarrow> PPCInst" where
  "decode_bc inst raw address =
     (let inst = inst\<lparr>inst_op := PPC_OP_BC, inst_bo := ucast (PPC_BO raw),
                      inst_bi := ucast (PPC_BI raw), inst_aa := (shr raw 1 AND 1 \<noteq> 0),
                      inst_lk := (raw AND 1 \<noteq> 0)\<rparr>;
          displacement = sign_extend (raw AND 0x0000FFFC) 16
      in inst\<lparr>inst_branch_target :=
                (if inst_aa inst then displacement else address + displacement)\<rparr>)"

definition decode_sc :: "PPCInst \<Rightarrow> u32 \<Rightarrow> PPCInst" where
  "decode_sc inst raw =
     inst\<lparr>inst_op := (if raw = 0x44000002 then PPC_OP_SC else PPC_OP_UNKNOWN)\<rparr>"

definition decode_b :: "PPCInst \<Rightarrow> u32 \<Rightarrow> u32 \<Rightarrow> PPCInst" where
  "decode_b inst raw address =
     (let inst = inst\<lparr>inst_op := PPC_OP_B, inst_aa := (shr raw 1 AND 1 \<noteq> 0),
                      inst_lk := (raw AND 1 \<noteq> 0)\<rparr>;
          displacement = sign_extend (raw AND 0x03FFFFFC) 26
      in inst\<lparr>inst_branch_target :=
                (if inst_aa inst then displacement else address + displacement)\<rparr>)"

definition decode_19 :: "PPCInst \<Rightarrow> u32 \<Rightarrow> PPCInst" where
  "decode_19 inst raw =
     (let xo = PPC_XO raw in
      if xo = 0 then
        (if raw AND ((shl 3 21) OR (shl 0x7F 11) OR 1) \<noteq> 0 then reject inst
         else inst\<lparr>inst_op := PPC_OP_MCRF, inst_crfD := ucast (shr raw 23 AND 0x7),
                   inst_crfS := ucast (shr raw 18 AND 0x7)\<rparr>)
      else if raw = 0x4C000064 then inst\<lparr>inst_op := PPC_OP_RFI\<rparr>
      else if xo = 16 then
        inst\<lparr>inst_op := PPC_OP_BCLR, inst_bo := ucast (PPC_BO raw), inst_bi := ucast (PPC_BI raw),
             inst_lk := (raw AND 1 \<noteq> 0)\<rparr>
      else if raw = 0x4C00012C then inst\<lparr>inst_op := PPC_OP_ISYNC\<rparr>
      else if xo = 33 then decode_cr_logical inst PPC_OP_CRNOR raw
      else if xo = 129 then decode_cr_logical inst PPC_OP_CRANDC raw
      else if xo = 193 then decode_cr_logical inst PPC_OP_CRXOR raw
      else if xo = 225 then decode_cr_logical inst PPC_OP_CRNAND raw
      else if xo = 257 then decode_cr_logical inst PPC_OP_CRAND raw
      else if xo = 289 then decode_cr_logical inst PPC_OP_CREQV raw
      else if xo = 417 then decode_cr_logical inst PPC_OP_CRORC raw
      else if xo = 449 then decode_cr_logical inst PPC_OP_CROR raw
      else if xo = 528 then
        (if PPC_BO raw AND 4 = 0 then reject inst
         else inst\<lparr>inst_op := PPC_OP_BCCTR, inst_bo := ucast (PPC_BO raw),
                   inst_bi := ucast (PPC_BI raw), inst_lk := (raw AND 1 \<noteq> 0)\<rparr>)
      else reject inst)"

section \<open>Primary opcodes 20 to 29: rotates and logical immediates\<close>

definition decode_logical_cases :: "PPCInst \<Rightarrow> u32 \<Rightarrow> (u32 \<times> PPCInst) list" where
  "decode_logical_cases inst raw = [
    (20,
      inst\<lparr>inst_op := PPC_OP_RLWIMI, inst_rS := ucast (PPC_RS raw),
        inst_rA := ucast (PPC_RA raw), inst_sh := ucast (PPC_SH raw),
        inst_mb := ucast (PPC_MB raw), inst_me := ucast (PPC_ME raw), inst_rc := PPC_RC raw\<rparr>),
    (21,
      inst\<lparr>inst_op := PPC_OP_RLWINM, inst_rS := ucast (PPC_RS raw),
        inst_rA := ucast (PPC_RA raw), inst_sh := ucast (PPC_SH raw),
        inst_mb := ucast (PPC_MB raw), inst_me := ucast (PPC_ME raw), inst_rc := PPC_RC raw\<rparr>),
    (23,
      inst\<lparr>inst_op := PPC_OP_RLWNM, inst_rS := ucast (PPC_RS raw),
        inst_rA := ucast (PPC_RA raw), inst_rB := ucast (PPC_RB raw),
        inst_mb := ucast (PPC_MB raw), inst_me := ucast (PPC_ME raw), inst_rc := PPC_RC raw\<rparr>),
    (24,
      inst\<lparr>inst_op := PPC_OP_ORI, inst_rS := ucast (PPC_RS raw),
        inst_rA := ucast (PPC_RA raw), inst_uimm := PPC_UIMM raw\<rparr>),
    (25,
      inst\<lparr>inst_op := PPC_OP_ORIS, inst_rS := ucast (PPC_RS raw),
        inst_rA := ucast (PPC_RA raw), inst_uimm := PPC_UIMM raw\<rparr>),
    (26,
      inst\<lparr>inst_op := PPC_OP_XORI, inst_rS := ucast (PPC_RS raw),
        inst_rA := ucast (PPC_RA raw), inst_uimm := PPC_UIMM raw\<rparr>),
    (27,
      inst\<lparr>inst_op := PPC_OP_XORIS, inst_rS := ucast (PPC_RS raw),
        inst_rA := ucast (PPC_RA raw), inst_uimm := PPC_UIMM raw\<rparr>),
    (28,
      inst\<lparr>inst_op := PPC_OP_ANDI, inst_rS := ucast (PPC_RS raw),
        inst_rA := ucast (PPC_RA raw), inst_uimm := PPC_UIMM raw, inst_rc := True\<rparr>),
    (29,
      inst\<lparr>inst_op := PPC_OP_ANDIS, inst_rS := ucast (PPC_RS raw),
        inst_rA := ucast (PPC_RA raw), inst_uimm := PPC_UIMM raw, inst_rc := True\<rparr>)]"

section \<open>Primary opcode 31\<close>

text \<open>The first switch, on nine bits of the extended opcode, leaves the record as it is when no
  label fits or an operand that must be zero is not.\<close>

definition decode_31_xo9_cases :: "bool \<Rightarrow> PPCInst \<Rightarrow> u32 \<Rightarrow> (u32 \<times> PPCInst) list" where
  "decode_31_xo9_cases oe inst raw = [
    (8, decode_xo_rt_ra_rb inst (if oe then PPC_OP_SUBFCO else PPC_OP_SUBFC) raw),
    (10, decode_xo_rt_ra_rb inst (if oe then PPC_OP_ADDCO else PPC_OP_ADDC) raw),
    (40, decode_xo_rt_ra_rb inst (if oe then PPC_OP_SUBFO else PPC_OP_SUBF) raw),
    (104,
      (if PPC_RB raw = 0 then decode_xo_rt_ra inst (if oe then PPC_OP_NEGO
        else PPC_OP_NEG) raw else inst)),
    (136, decode_xo_rt_ra_rb inst (if oe then PPC_OP_SUBFEO else PPC_OP_SUBFE) raw),
    (138, decode_xo_rt_ra_rb inst (if oe then PPC_OP_ADDEO else PPC_OP_ADDE) raw),
    (200,
      (if PPC_RB raw = 0 then decode_xo_rt_ra inst (if oe then PPC_OP_SUBFZEO
        else PPC_OP_SUBFZE) raw else inst)),
    (202,
      (if PPC_RB raw = 0 then decode_xo_rt_ra inst (if oe then PPC_OP_ADDZEO
        else PPC_OP_ADDZE) raw else inst)),
    (232,
      (if PPC_RB raw = 0 then decode_xo_rt_ra inst (if oe then PPC_OP_SUBFMEO
        else PPC_OP_SUBFME) raw else inst)),
    (234,
      (if PPC_RB raw = 0 then decode_xo_rt_ra inst (if oe then PPC_OP_ADDMEO
        else PPC_OP_ADDME) raw else inst)),
    (235, decode_xo_rt_ra_rb inst (if oe then PPC_OP_MULLWO else PPC_OP_MULLW) raw),
    (266, decode_xo_rt_ra_rb inst (if oe then PPC_OP_ADDO else PPC_OP_ADD) raw),
    (459, decode_xo_rt_ra_rb inst (if oe then PPC_OP_DIVWUO else PPC_OP_DIVWU) raw),
    (491, decode_xo_rt_ra_rb inst (if oe then PPC_OP_DIVWO else PPC_OP_DIVW) raw)]"

definition decode_31_low_cases :: "PPCInst \<Rightarrow> u32 \<Rightarrow> (u32 \<times> PPCInst) list" where
  "decode_31_low_cases inst raw = [
    (0,
      (if shr raw 21 AND 1 \<noteq> 0 then reject inst
        else inst\<lparr>inst_op := PPC_OP_CMP, inst_crfD := ucast (shr raw 23 AND 0x7),
        inst_l := ucast (shr raw 21 AND 0x1), inst_rA := ucast (PPC_RA raw),
        inst_rB := ucast (PPC_RB raw)\<rparr>)),
    (4,
      (if \<not> PPC_RC raw then inst\<lparr>inst_op := PPC_OP_TW, inst_to := ucast (PPC_RD raw),
        inst_rA := ucast (PPC_RA raw), inst_rB := ucast (PPC_RB raw)\<rparr> else reject inst)),
    (11, decode_x_rt_ra_rb inst PPC_OP_MULHWU raw),
    (19,
      (if PPC_RA raw = 0 \<and> PPC_RB raw = 0 \<and> \<not> PPC_RC raw
        then inst\<lparr>inst_op := PPC_OP_MFCR, inst_rD := ucast (PPC_RD raw)\<rparr>
        else reject inst)),
    (20, (if \<not> PPC_RC raw then decode_x_rt_ra_rb inst PPC_OP_LWARX raw else reject inst)),
    (23, decode_x_rt_ra_rb_norc inst PPC_OP_LWZX raw),
    (24, decode_x_rs_ra_rb inst PPC_OP_SLW raw),
    (26, decode_x_rs_ra_rb inst PPC_OP_CNTLZW raw),
    (28, decode_x_rs_ra_rb inst PPC_OP_AND raw),
    (32,
      (if shr raw 21 AND 1 \<noteq> 0 then reject inst
        else inst\<lparr>inst_op := PPC_OP_CMPL, inst_crfD := ucast (shr raw 23 AND 0x7),
        inst_l := ucast (shr raw 21 AND 0x1), inst_rA := ucast (PPC_RA raw),
        inst_rB := ucast (PPC_RB raw)\<rparr>)),
    (54,
      (if PPC_RD raw = 0 \<and> \<not> PPC_RC raw
        then inst\<lparr>inst_op := PPC_OP_DCBST, inst_rA := ucast (PPC_RA raw),
        inst_rB := ucast (PPC_RB raw)\<rparr> else reject inst)),
    (55, decode_x_rt_ra_rb_update inst PPC_OP_LWZUX raw),
    (60, decode_x_rs_ra_rb inst PPC_OP_ANDC raw),
    (75, decode_x_rt_ra_rb inst PPC_OP_MULHW raw),
    (83,
      (if PPC_RA raw = 0 \<and> PPC_RB raw = 0 \<and> \<not> PPC_RC raw
        then inst\<lparr>inst_op := PPC_OP_MFMSR, inst_rD := ucast (PPC_RD raw)\<rparr>
        else reject inst)),
    (86,
      (if PPC_RD raw = 0 \<and> \<not> PPC_RC raw
        then inst\<lparr>inst_op := PPC_OP_DCBF, inst_rA := ucast (PPC_RA raw),
        inst_rB := ucast (PPC_RB raw)\<rparr> else reject inst)),
    (87, decode_x_rt_ra_rb_norc inst PPC_OP_LBZX raw),
    (119, decode_x_rt_ra_rb_update inst PPC_OP_LBZUX raw),
    (124, decode_x_rs_ra_rb inst PPC_OP_NOR raw),
    (144,
      (if raw AND ((shl 1 20) OR 1) = 0
        then inst\<lparr>inst_op := PPC_OP_MTCRF, inst_rS := ucast (PPC_RS raw),
        inst_crm := ucast (PPC_CRM raw)\<rparr> else reject inst)),
    (146,
      (if PPC_RA raw = 0 \<and> PPC_RB raw = 0 \<and> \<not> PPC_RC raw
        then inst\<lparr>inst_op := PPC_OP_MTMSR, inst_rS := ucast (PPC_RS raw)\<rparr>
        else reject inst)),
    (151, decode_x_rs_ra_rb_norc inst PPC_OP_STWX raw),
    (183, decode_x_rs_ra_rb_update inst PPC_OP_STWUX raw),
    (210,
      (if shr raw 20 AND 1 = 0 \<and> PPC_RB raw = 0 \<and> \<not> PPC_RC raw
        then inst\<lparr>inst_op := PPC_OP_MTSR, inst_rS := ucast (PPC_RS raw),
        inst_sr := ucast (PPC_RA raw AND 0xF)\<rparr> else reject inst)),
    (215, decode_x_rs_ra_rb_norc inst PPC_OP_STBX raw),
    (242,
      (if PPC_RA raw = 0 \<and> \<not> PPC_RC raw
        then inst\<lparr>inst_op := PPC_OP_MTSRIN, inst_rS := ucast (PPC_RS raw),
        inst_rB := ucast (PPC_RB raw)\<rparr> else reject inst)),
    (246,
      (if PPC_RD raw = 0 \<and> \<not> PPC_RC raw
        then inst\<lparr>inst_op := PPC_OP_DCBTST, inst_rA := ucast (PPC_RA raw),
        inst_rB := ucast (PPC_RB raw)\<rparr> else reject inst)),
    (247, decode_x_rs_ra_rb_update inst PPC_OP_STBUX raw),
    (278,
      (if PPC_RD raw = 0 \<and> \<not> PPC_RC raw
        then inst\<lparr>inst_op := PPC_OP_DCBT, inst_rA := ucast (PPC_RA raw),
        inst_rB := ucast (PPC_RB raw)\<rparr> else reject inst)),
    (279, decode_x_rt_ra_rb_norc inst PPC_OP_LHZX raw),
    (284, decode_x_rs_ra_rb inst PPC_OP_EQV raw),
    (306,
      (if PPC_RD raw = 0 \<and> PPC_RA raw = 0 \<and> \<not> PPC_RC raw
        then inst\<lparr>inst_op := PPC_OP_TLBIE, inst_rB := ucast (PPC_RB raw)\<rparr>
        else reject inst)),
    (310, (if \<not> PPC_RC raw then decode_x_rt_ra_rb inst PPC_OP_ECIWX raw else reject inst)),
    (311, decode_x_rt_ra_rb_update inst PPC_OP_LHZUX raw),
    (316, decode_x_rs_ra_rb inst PPC_OP_XOR raw)]"

definition decode_31_high_cases :: "PPCInst \<Rightarrow> u32 \<Rightarrow> (u32 \<times> PPCInst) list" where
  "decode_31_high_cases inst raw = [
    (339,
      (if \<not> PPC_RC raw then inst\<lparr>inst_op := PPC_OP_MFSPR,
        inst_rD := ucast (PPC_RD raw), inst_spr := ucast (PPC_SPR raw)\<rparr> else reject inst)),
    (371,
      (if \<not> PPC_RC raw then inst\<lparr>inst_op := PPC_OP_MFTB,
        inst_rD := ucast (PPC_RD raw), inst_spr := ucast (PPC_SPR raw)\<rparr> else reject inst)),
    (343, decode_x_rt_ra_rb_norc inst PPC_OP_LHAX raw),
    (375, decode_x_rt_ra_rb_update inst PPC_OP_LHAUX raw),
    (407, decode_x_rs_ra_rb_norc inst PPC_OP_STHX raw),
    (412, decode_x_rs_ra_rb inst PPC_OP_ORC raw),
    (438, (if \<not> PPC_RC raw then decode_x_rs_ra_rb inst PPC_OP_ECOWX raw else reject inst)),
    (439, decode_x_rs_ra_rb_update inst PPC_OP_STHUX raw),
    (444, decode_x_rs_ra_rb inst PPC_OP_OR raw),
    (470,
      (if PPC_RD raw = 0 \<and> \<not> PPC_RC raw
        then inst\<lparr>inst_op := PPC_OP_DCBI, inst_rA := ucast (PPC_RA raw),
        inst_rB := ucast (PPC_RB raw)\<rparr> else reject inst)),
    (467,
      (if \<not> PPC_RC raw then inst\<lparr>inst_op := PPC_OP_MTSPR,
        inst_rS := ucast (PPC_RS raw), inst_spr := ucast (PPC_SPR raw)\<rparr> else reject inst)),
    (476, decode_x_rs_ra_rb inst PPC_OP_NAND raw),
    (512,
      (if raw AND ((shl 3 21) OR (shl 0x1F 16) OR (shl 0x1F 11) OR 1) = 0
        then inst\<lparr>inst_op := PPC_OP_MCRXR,
        inst_crfD := ucast (shr raw 23 AND 7)\<rparr> else reject inst)),
    (533,
      (if \<not> PPC_RC raw \<and> PPC_RD raw \<noteq> PPC_RA raw \<and> PPC_RD raw \<noteq>
        PPC_RB raw then decode_x_rt_ra_rb inst PPC_OP_LSWX raw else reject inst)),
    (534, decode_x_rt_ra_rb_norc inst PPC_OP_LWBRX raw),
    (535, decode_x_rt_ra_rb_norc inst PPC_OP_LFSX raw),
    (536, decode_x_rs_ra_rb inst PPC_OP_SRW raw),
    (567, decode_x_frt_ra_rb_update inst PPC_OP_LFSUX raw),
    (597,
      (if \<not> PPC_RC raw \<and> \<not> reg_in_wrapped_range (ucast (PPC_RD raw))
        (string_register_count (ucast (PPC_RB raw))) (ucast (PPC_RA raw))
        then inst\<lparr>inst_op := PPC_OP_LSWI, inst_rD := ucast (PPC_RD raw),
        inst_rA := ucast (PPC_RA raw), inst_nb := ucast (PPC_RB raw)\<rparr> else reject inst)),
    (598,
      (if raw AND 0xFF9FFFFF = 0x7C0004AC then inst\<lparr>inst_op := PPC_OP_SYNC\<rparr>
        else reject inst)),
    (599, decode_x_rt_ra_rb_norc inst PPC_OP_LFDX raw),
    (631, decode_x_frt_ra_rb_update inst PPC_OP_LFDUX raw),
    (595,
      (if shr raw 20 AND 1 = 0 \<and> PPC_RB raw = 0 \<and> \<not> PPC_RC raw
        then inst\<lparr>inst_op := PPC_OP_MFSR, inst_rD := ucast (PPC_RD raw),
        inst_sr := ucast (PPC_RA raw AND 0xF)\<rparr> else reject inst)),
    (661, (if \<not> PPC_RC raw then decode_x_rs_ra_rb inst PPC_OP_STSWX raw else reject inst)),
    (662, decode_x_rs_ra_rb_norc inst PPC_OP_STWBRX raw),
    (659,
      (if PPC_RA raw = 0 \<and> \<not> PPC_RC raw
        then inst\<lparr>inst_op := PPC_OP_MFSRIN, inst_rD := ucast (PPC_RD raw),
        inst_rB := ucast (PPC_RB raw)\<rparr> else reject inst)),
    (663, decode_x_rs_ra_rb_norc inst PPC_OP_STFSX raw),
    (695, decode_x_rs_ra_rb_update inst PPC_OP_STFSUX raw),
    (727, decode_x_rs_ra_rb_norc inst PPC_OP_STFDX raw),
    (759, decode_x_rs_ra_rb_update inst PPC_OP_STFDUX raw),
    (725,
      (if \<not> PPC_RC raw then inst\<lparr>inst_op := PPC_OP_STSWI,
        inst_rS := ucast (PPC_RS raw), inst_rA := ucast (PPC_RA raw),
        inst_nb := ucast (PPC_RB raw)\<rparr> else reject inst)),
    (790, decode_x_rt_ra_rb_norc inst PPC_OP_LHBRX raw),
    (792, decode_x_rs_ra_rb inst PPC_OP_SRAW raw),
    (824,
      inst\<lparr>inst_op := PPC_OP_SRAWI, inst_rS := ucast (PPC_RS raw),
        inst_rA := ucast (PPC_RA raw), inst_sh := ucast (PPC_SH raw), inst_rc := PPC_RC raw\<rparr>),
    (918, decode_x_rs_ra_rb_norc inst PPC_OP_STHBRX raw),
    (922, decode_x_rs_ra_rb inst PPC_OP_EXTSH raw),
    (954, decode_x_rs_ra_rb inst PPC_OP_EXTSB raw),
    (982,
      (if PPC_RD raw = 0 \<and> \<not> PPC_RC raw
        then inst\<lparr>inst_op := PPC_OP_ICBI, inst_rA := ucast (PPC_RA raw),
        inst_rB := ucast (PPC_RB raw)\<rparr> else reject inst)),
    (150,
      (if PPC_RC raw then (decode_x_rs_ra_rb inst PPC_OP_STWCX raw)\<lparr>inst_rc :=
        True\<rparr> else reject inst)),
    (854, (if raw = 0x7C0006AC then inst\<lparr>inst_op := PPC_OP_EIEIO\<rparr> else reject inst)),
    (566, (if raw = 0x7C00046C then inst\<lparr>inst_op := PPC_OP_TLBSYNC\<rparr> else reject inst)),
    (983, (if \<not> PPC_RC raw then decode_x_rs_ra_rb inst PPC_OP_STFIWX raw else reject inst)),
    (1014,
      (if PPC_RD raw = 0 \<and> \<not> PPC_RC raw
        then inst\<lparr>inst_op := PPC_OP_DCBZ, inst_rA := ucast (PPC_RA raw),
        inst_rB := ucast (PPC_RB raw)\<rparr> else reject inst))]"

definition decode_31 :: "PPCInst \<Rightarrow> u32 \<Rightarrow> PPCInst" where
  "decode_31 inst raw =
     (let xo = PPC_XO raw; xo9 = xo AND 0x1FF; oe = (shr raw 10 AND 1 \<noteq> 0);
          inst = switch xo9 (decode_31_xo9_cases oe inst raw) inst
      in if inst_op inst \<noteq> PPC_OP_UNKNOWN then inst
         else switch xo (decode_31_low_cases inst raw @ decode_31_high_cases inst raw)
                (reject inst))"

section \<open>Primary opcodes 32 to 61: loads and stores\<close>

definition decode_memory_cases :: "PPCInst \<Rightarrow> u32 \<Rightarrow> (u32 \<times> PPCInst) list" where
  "decode_memory_cases inst raw = [
    (32, decode_d_rt_ra inst PPC_OP_LWZ raw),
    (33, decode_d_rt_ra_update inst PPC_OP_LWZU raw),
    (34, decode_d_rt_ra inst PPC_OP_LBZ raw),
    (35, decode_d_rt_ra_update inst PPC_OP_LBZU raw),
    (36, decode_d_rs_ra inst PPC_OP_STW raw),
    (37, decode_d_rs_ra_update inst PPC_OP_STWU raw),
    (38, decode_d_rs_ra inst PPC_OP_STB raw),
    (39, decode_d_rs_ra_update inst PPC_OP_STBU raw),
    (40, decode_d_rt_ra inst PPC_OP_LHZ raw),
    (41, decode_d_rt_ra_update inst PPC_OP_LHZU raw),
    (42, decode_d_rt_ra inst PPC_OP_LHA raw),
    (43, decode_d_rt_ra_update inst PPC_OP_LHAU raw),
    (44, decode_d_rs_ra inst PPC_OP_STH raw),
    (45, decode_d_rs_ra_update inst PPC_OP_STHU raw),
    (46, decode_d_rt_ra inst PPC_OP_LMW raw),
    (47, decode_d_rs_ra inst PPC_OP_STMW raw),
    (48, decode_d_rt_ra inst PPC_OP_LFS raw),
    (49, decode_d_frt_ra_update inst PPC_OP_LFSU raw),
    (50, decode_d_rt_ra inst PPC_OP_LFD raw),
    (51, decode_d_frt_ra_update inst PPC_OP_LFDU raw),
    (52, decode_d_rs_ra inst PPC_OP_STFS raw),
    (53, decode_d_rs_ra_update inst PPC_OP_STFSU raw),
    (54, decode_d_rs_ra inst PPC_OP_STFD raw),
    (55, decode_d_rs_ra_update inst PPC_OP_STFDU raw),
    (56, decode_psq_d_rt_ra inst PPC_OP_PSQ_L raw),
    (57, decode_psq_d_rt_ra_update inst PPC_OP_PSQ_LU raw),
    (60, decode_psq_d_rs_ra inst PPC_OP_PSQ_ST raw),
    (61, decode_psq_d_rs_ra_update inst PPC_OP_PSQ_STU raw)]"

section \<open>Primary opcodes 59 and 63: floating point\<close>

definition decode_59_cases :: "PPCInst \<Rightarrow> u32 \<Rightarrow> (u32 \<times> PPCInst) list" where
  "decode_59_cases inst raw = [
    (18, decode_a_frt_fra_frb_frc inst PPC_OP_FDIVS raw),
    (20, decode_a_frt_fra_frb_frc inst PPC_OP_FSUBS raw),
    (21, decode_a_frt_fra_frb_frc inst PPC_OP_FADDS raw),
    (24,
      (if PPC_RA raw = 0 \<and> PPC_RC_REG raw = 0
        then decode_x_frt_frb inst PPC_OP_FRES raw else reject inst)),
    (25, decode_a_frt_fra_frb_frc inst PPC_OP_FMULS raw),
    (28, decode_a_frt_fra_frb_frc inst PPC_OP_FMSUBS raw),
    (29, decode_a_frt_fra_frb_frc inst PPC_OP_FMADDS raw),
    (30, decode_a_frt_fra_frb_frc inst PPC_OP_FNMSUBS raw),
    (31, decode_a_frt_fra_frb_frc inst PPC_OP_FNMADDS raw)]"

definition decode_63_cases :: "PPCInst \<Rightarrow> u32 \<Rightarrow> (u32 \<times> PPCInst) list" where
  "decode_63_cases inst raw = [
    (0, decode_fcmp inst PPC_OP_FCMPU raw),
    (12, decode_x_frt_frb inst PPC_OP_FRSP raw),
    (14, (if PPC_RA raw = 0 then decode_x_frt_frb inst PPC_OP_FCTIW raw else reject inst)),
    (15, (if PPC_RA raw = 0 then decode_x_frt_frb inst PPC_OP_FCTIWZ raw else reject inst)),
    (32, decode_fcmp inst PPC_OP_FCMPO raw),
    (38, decode_mtfsb inst PPC_OP_MTFSB1 raw),
    (40, decode_x_frt_frb inst PPC_OP_FNEG raw),
    (64,
      (if raw AND ((shl 3 21) OR (shl 0x7F 11) OR 1) \<noteq> 0 then reject inst
        else inst\<lparr>inst_op := PPC_OP_MCRFS, inst_crfD := ucast (shr raw 23 AND 7),
        inst_crfS := ucast (shr raw 18 AND 7)\<rparr>)),
    (70, decode_mtfsb inst PPC_OP_MTFSB0 raw),
    (72, decode_x_frt_frb inst PPC_OP_FMR raw),
    (136, decode_x_frt_frb inst PPC_OP_FNABS raw),
    (134,
      (if raw AND ((shl 0x7F 16) OR (shl 1 11)) \<noteq> 0 then reject inst
        else inst\<lparr>inst_op := PPC_OP_MTFSFI, inst_crfD := ucast (shr raw 23 AND 7),
        inst_imm := ucast (shr raw 12 AND 0xF), inst_rc := PPC_RC raw\<rparr>)),
    (264, decode_x_frt_frb inst PPC_OP_FABS raw),
    (583,
      (if PPC_RA raw \<noteq> 0 \<or> PPC_RB raw \<noteq> 0 then reject inst
        else inst\<lparr>inst_op := PPC_OP_MFFS, inst_rD := ucast (PPC_RD raw),
        inst_rc := PPC_RC raw\<rparr>)),
    (711,
      (if raw AND ((shl 1 25) OR (shl 1 16)) \<noteq> 0 then reject inst
        else inst\<lparr>inst_op := PPC_OP_MTFSF, inst_fm := ucast (shr raw 17 AND 0xFF),
        inst_rB := ucast (PPC_RB raw), inst_rc := PPC_RC raw\<rparr>))]"

definition decode_63_a_cases :: "PPCInst \<Rightarrow> u32 \<Rightarrow> (u32 \<times> PPCInst) list" where
  "decode_63_a_cases inst raw = [
    (18, decode_a_frt_fra_frb_frc inst PPC_OP_FDIV raw),
    (20, decode_a_frt_fra_frb_frc inst PPC_OP_FSUB raw),
    (21, decode_a_frt_fra_frb_frc inst PPC_OP_FADD raw),
    (23, decode_a_frt_fra_frb_frc inst PPC_OP_FSEL raw),
    (25, decode_a_frt_fra_frb_frc inst PPC_OP_FMUL raw),
    (26,
      (if PPC_RA raw = 0 \<and> PPC_RC_REG raw = 0
        then decode_x_frt_frb inst PPC_OP_FRSQRTE raw else reject inst)),
    (28, decode_a_frt_fra_frb_frc inst PPC_OP_FMSUB raw),
    (29, decode_a_frt_fra_frb_frc inst PPC_OP_FMADD raw),
    (30, decode_a_frt_fra_frb_frc inst PPC_OP_FNMSUB raw),
    (31, decode_a_frt_fra_frb_frc inst PPC_OP_FNMADD raw)]"

definition decode_63 :: "PPCInst \<Rightarrow> u32 \<Rightarrow> PPCInst" where
  "decode_63 inst raw =
     switch (PPC_XO raw) (decode_63_cases inst raw)
       (switch (PPC_A_XO raw) (decode_63_a_cases inst raw) (reject inst))"

section \<open>The decoder\<close>

definition decode_primary_cases :: "PPCInst \<Rightarrow> u32 \<Rightarrow> u32 \<Rightarrow> (u32 \<times> PPCInst) list" where
  "decode_primary_cases inst raw address =
     [(4, decode_4 inst raw),
      (16, decode_bc inst raw address),
      (17, decode_sc inst raw),
      (18, decode_b inst raw address),
      (19, decode_19 inst raw),
      (31, decode_31 inst raw),
      (59, switch (PPC_A_XO raw) (decode_59_cases inst raw) (reject inst)),
      (63, decode_63 inst raw)] @
     decode_imm_cases inst raw @ decode_logical_cases inst raw @ decode_memory_cases inst raw"

definition ppc_decode :: "u32 \<Rightarrow> u32 \<Rightarrow> PPCInst" where
  "ppc_decode raw address =
     (let inst = fresh raw address in
      switch (PPC_PRIMARY raw) (decode_primary_cases inst raw address) (reject inst))"
section \<open>Case analysis over the decoder\<close>

text \<open>
  A property of the result is proved once for each table entry, knowing the label that selected it.
\<close>

abbreviation labelled :: "u32 \<Rightarrow> (PPCInst \<Rightarrow> bool) \<Rightarrow> (u32 \<times> PPCInst) list \<Rightarrow> bool" where
  "labelled x Q cs \<equiv> list_all (\<lambda>(l, y). x = l \<longrightarrow> Q y) cs"

lemma switch_labelled: "labelled x Q cs \<Longrightarrow> Q d \<Longrightarrow> Q (switch x cs d)"
  by (induction cs) auto

lemma labelled_True: "list_all (\<lambda>(l, y). Q y) cs \<Longrightarrow> labelled x Q cs"
  by (auto simp: list_all_iff)

lemma labelled_append: "labelled x Q (cs @ ds) \<longleftrightarrow> labelled x Q cs \<and> labelled x Q ds"
  by simp

text \<open>The first switch on opcode 31 decodes an instruction or changes nothing.\<close>

lemma decode_31_xo9_decides:
  "labelled xo (\<lambda>y. y = inst \<or> inst_op y \<noteq> PPC_OP_UNKNOWN) (decode_31_xo9_cases oe inst raw)"
  unfolding decode_31_xo9_cases_def list.pred_inject prod.case
  by (simp add: decode_xo_rt_ra_rb_def decode_x_rt_ra_rb_def decode_xo_rt_ra_def)

lemma decode_31_cases:
  assumes op: "inst_op inst = PPC_OP_UNKNOWN"
    and xo9: "labelled (PPC_XO raw AND 0x1FF) Q (decode_31_xo9_cases (shr raw 10 AND 1 \<noteq> 0) inst raw)"
    and xo: "labelled (PPC_XO raw) Q (decode_31_low_cases inst raw)"
      "labelled (PPC_XO raw) Q (decode_31_high_cases inst raw)"
    and rej: "Q (reject inst)"
  shows "Q (decode_31 inst raw)"
proof -
  let ?cs = "decode_31_xo9_cases (shr raw 10 AND 1 \<noteq> 0) inst raw"
  let ?y = "switch (PPC_XO raw AND 0x1FF) ?cs inst"
  let ?z = "switch (PPC_XO raw) (decode_31_low_cases inst raw @ decode_31_high_cases inst raw)
    (reject inst)"
  have "reject inst = inst"
    using op by (simp add: reject_def)
  with rej have "Q inst" by (simp only:)
  with xo9 have y: "Q ?y"
    by (rule switch_labelled)
  have "labelled (PPC_XO raw) Q (decode_31_low_cases inst raw @ decode_31_high_cases inst raw)"
    using xo by (simp only: list_all_append simp_thms)
  then have z: "Q ?z"
    using rej by (rule switch_labelled)
  have "?y = inst \<or> inst_op ?y \<noteq> PPC_OP_UNKNOWN"
    by (rule switch_labelled [OF decode_31_xo9_decides]) (rule disjI1 [OF refl])
  then have "decode_31 inst raw = ?y \<or> decode_31 inst raw = ?z"
    using op by (elim disjE) (simp_all only: decode_31_def Let_def if_True if_False simp_thms)
  then show ?thesis
    using y z by (elim disjE) (simp_all only:)
qed

lemma ppc_decode_cases:
  fixes raw address :: u32
  assumes rej: "Q (reject (fresh raw address))"
    and "labelled (PPC_PRIMARY raw) Q (decode_imm_cases (fresh raw address) raw)"
    and "labelled (PPC_PRIMARY raw) Q (decode_logical_cases (fresh raw address) raw)"
    and "labelled (PPC_PRIMARY raw) Q (decode_memory_cases (fresh raw address) raw)"
    and "PPC_PRIMARY raw = 4 \<Longrightarrow> labelled (PPC_XO raw) Q (decode_4_cases (fresh raw address) raw)"
    and "PPC_PRIMARY raw = 4 \<Longrightarrow> labelled (PPC_XO raw AND 0x3F) Q (decode_4_psq_cases (fresh raw address) raw)"
    and "PPC_PRIMARY raw = 4 \<Longrightarrow> labelled (PPC_A_XO raw) Q (decode_4_a_cases (fresh raw address) raw)"
    and "PPC_PRIMARY raw = 16 \<Longrightarrow> Q (decode_bc (fresh raw address) raw address)"
    and "PPC_PRIMARY raw = 17 \<Longrightarrow> Q (decode_sc (fresh raw address) raw)"
    and "PPC_PRIMARY raw = 18 \<Longrightarrow> Q (decode_b (fresh raw address) raw address)"
    and "PPC_PRIMARY raw = 19 \<Longrightarrow> Q (decode_19 (fresh raw address) raw)"
    and "PPC_PRIMARY raw = 31 \<Longrightarrow> labelled (PPC_XO raw AND 0x1FF) Q
           (decode_31_xo9_cases (shr raw 10 AND 1 \<noteq> 0) (fresh raw address) raw)"
    and "PPC_PRIMARY raw = 31 \<Longrightarrow> labelled (PPC_XO raw) Q (decode_31_low_cases (fresh raw address) raw)"
    and "PPC_PRIMARY raw = 31 \<Longrightarrow> labelled (PPC_XO raw) Q (decode_31_high_cases (fresh raw address) raw)"
    and "PPC_PRIMARY raw = 59 \<Longrightarrow> labelled (PPC_A_XO raw) Q (decode_59_cases (fresh raw address) raw)"
    and "PPC_PRIMARY raw = 63 \<Longrightarrow> labelled (PPC_XO raw) Q (decode_63_cases (fresh raw address) raw)"
    and "PPC_PRIMARY raw = 63 \<Longrightarrow> labelled (PPC_A_XO raw) Q (decode_63_a_cases (fresh raw address) raw)"
  shows "Q (ppc_decode raw address)"
proof -
  let ?i = "fresh raw address"
  have op: "inst_op ?i = PPC_OP_UNKNOWN"
    by (simp add: fresh_def zero_inst_def)
  have "PPC_PRIMARY raw = 31 \<Longrightarrow> Q (decode_31 ?i raw)"
    by (rule decode_31_cases [where Q = Q, OF op]; intro assms)
  moreover have "PPC_PRIMARY raw = 4 \<Longrightarrow> Q (decode_4 ?i raw)"
    unfolding decode_4_def Let_def by (intro switch_labelled [where Q = Q] assms)
  moreover have "PPC_PRIMARY raw = 63 \<Longrightarrow> Q (decode_63 ?i raw)"
    unfolding decode_63_def by (intro switch_labelled [where Q = Q] assms)
  moreover have "PPC_PRIMARY raw = 59 \<Longrightarrow>
      Q (switch (PPC_A_XO raw) (decode_59_cases ?i raw) (reject ?i))"
    by (intro switch_labelled [where Q = Q] assms)
  ultimately have "labelled (PPC_PRIMARY raw) Q (decode_primary_cases ?i raw address)"
    unfolding decode_primary_cases_def labelled_append list.pred_inject prod.case
    by (intro conjI impI TrueI assms list.pred_inject(1))
  then show ?thesis
    unfolding ppc_decode_def Let_def using rej by (rule switch_labelled)
qed

section \<open>Every result is well formed\<close>

lemma prepared_decoded: "prepared raw address inst \<Longrightarrow> decoded raw address inst"
  by (simp add: prepared_def decoded_def PPC_OP_COUNT_def)

lemma prepared_fresh: "prepared raw address (fresh raw address)"
  by (simp add: prepared_def fresh_def zero_inst_def wf_fields_def)

lemma fresh_simps [simp]:
  "inst_op (fresh raw address) = PPC_OP_UNKNOWN" "inst_lk (fresh raw address) = False"
  "inst_raw (fresh raw address) = raw" "inst_address (fresh raw address) = address"
  by (simp_all add: fresh_def zero_inst_def)

lemma decoded_branches:
  assumes "prepared raw address inst"
  shows "decoded raw address (decode_bc inst w a)" "decoded raw address (decode_sc inst w)"
    "decoded raw address (decode_b inst w a)" "decoded raw address (decode_19 inst w)"
proof -
  have wf: "wf_fields (inst\<lparr>inst_bo := ucast (PPC_BO w), inst_bi := ucast (PPC_BI w)\<rparr>)"
    using assms by (simp add: prepared_def wf_fields_def word_bound)
  show "decoded raw address (decode_bc inst w a)" "decoded raw address (decode_sc inst w)"
    "decoded raw address (decode_b inst w a)"
    using assms wf
    by (simp_all add: decode_bc_def decode_sc_def decode_b_def Let_def prepared_def decoded_def
      wf_fields_def PPC_OP_COUNT_def)
  have lk: "decoded raw address (inst\<lparr>inst_op := x, inst_bo := ucast (PPC_BO w),
      inst_bi := ucast (PPC_BI w), inst_lk := l\<rparr>)" if "x \<in> {PPC_OP_BCLR, PPC_OP_BCCTR}" for x l
    using assms wf that by (auto simp: prepared_def decoded_def wf_fields_def PPC_OP_COUNT_def)
  show "decoded raw address (decode_19 inst w)"
    using assms
    by (simp add: decode_19_def Let_def lk forms_decoded prepared_reject decoded_op
      decoded_operand word_bound PPC_OP_COUNT_def)
qed

lemmas decoded_intros =
  forms_decoded prepared_reject prepared_decoded decoded_op decoded_operand decoded_branches
  word_bound

lemma ppc_decode_decoded: "decoded raw address (ppc_decode raw address)"
proof (rule ppc_decode_cases)
  note prepared_fresh [of raw address, simp] and PPC_OP_COUNT_def [simp] and decoded_intros [simp]
  let ?i = "fresh raw address"
  show "decoded raw address (reject ?i)" by simp
  show "decoded raw address (decode_bc ?i raw address)" by simp
  show "decoded raw address (decode_sc ?i raw)" by simp
  show "decoded raw address (decode_b ?i raw address)" by simp
  show "decoded raw address (decode_19 ?i raw)" by simp
qed (rule labelled_True,
    simp only: decode_imm_cases_def decode_logical_cases_def decode_memory_cases_def
      decode_4_cases_def decode_4_psq_cases_def decode_4_a_cases_def decode_31_xo9_cases_def
      decode_31_low_cases_def decode_31_high_cases_def decode_59_cases_def decode_63_cases_def
      decode_63_a_cases_def list.pred_inject prod.case,
    intro conjI TrueI; simp add: decoded_intros prepared_fresh PPC_OP_COUNT_def)+

section \<open>Where the control transfers come from\<close>

text \<open>The four opcodes that leave straight-line execution unconditionally of an operand register are
  decoded from one primary opcode, or from one word.\<close>

definition origin :: "u32 \<Rightarrow> PPCInst \<Rightarrow> bool" where
  "origin raw inst \<longleftrightarrow>
     (inst_op inst = PPC_OP_B \<longrightarrow> PPC_PRIMARY raw = 18) \<and>
     (inst_op inst = PPC_OP_BC \<longrightarrow> PPC_PRIMARY raw = 16) \<and>
     (inst_op inst = PPC_OP_SC \<longrightarrow> raw = 0x44000002) \<and>
     (inst_op inst = PPC_OP_RFI \<longrightarrow> raw = 0x4C000064) \<and>
     (inst_op inst = PPC_OP_BCLR \<longrightarrow> PPC_PRIMARY raw = 19 \<and> PPC_XO raw = 16) \<and>
     (inst_op inst = PPC_OP_BCCTR \<longrightarrow> PPC_PRIMARY raw = 19 \<and> PPC_XO raw = 528 \<and> PPC_BO raw AND 4 \<noteq> 0)"

lemma origin_reject [simp]: "origin raw (reject inst)"
  by (simp add: origin_def reject_def)

lemma ppc_decode_origin: "origin raw (ppc_decode raw address)"
proof (rule ppc_decode_cases [where Q = "origin raw"])
  let ?i = "fresh raw address"
  show "origin raw (reject ?i)" by simp
  show "origin raw (decode_bc ?i raw address)" if "PPC_PRIMARY raw = 16"
    using that by (simp add: origin_def decode_bc_def Let_def)
  show "origin raw (decode_sc ?i raw)"
    by (simp add: origin_def decode_sc_def)
  show "origin raw (decode_b ?i raw address)" if "PPC_PRIMARY raw = 18"
    using that by (simp add: origin_def decode_b_def Let_def)
  show "origin raw (decode_19 ?i raw)" if "PPC_PRIMARY raw = 19"
    using that by (simp add: origin_def decode_19_def Let_def forms_other reject_def)
qed (rule labelled_True,
    simp only: decode_imm_cases_def decode_logical_cases_def decode_memory_cases_def
      decode_4_cases_def decode_4_psq_cases_def decode_4_a_cases_def decode_31_xo9_cases_def
      decode_31_low_cases_def decode_31_high_cases_def decode_59_cases_def decode_63_cases_def
      decode_63_a_cases_def list.pred_inject prod.case,
    intro conjI TrueI; simp add: origin_def forms_other reject_def)+

section \<open>Primary opcodes that select one body\<close>

lemma ppc_decode_b:
  "PPC_PRIMARY raw = 18 \<Longrightarrow> ppc_decode raw address = decode_b (fresh raw address) raw address"
  by (simp add: ppc_decode_def decode_primary_cases_def Let_def)

lemma ppc_decode_bc:
  "PPC_PRIMARY raw = 16 \<Longrightarrow> ppc_decode raw address = decode_bc (fresh raw address) raw address"
  by (simp add: ppc_decode_def decode_primary_cases_def Let_def)

lemma ppc_decode_op_B: "inst_op (ppc_decode raw address) = PPC_OP_B \<longleftrightarrow> PPC_PRIMARY raw = 18"
proof
  show "PPC_PRIMARY raw = 18" if "inst_op (ppc_decode raw address) = PPC_OP_B"
    using ppc_decode_origin [of raw address] that by (simp only: origin_def simp_thms)
  show "inst_op (ppc_decode raw address) = PPC_OP_B" if "PPC_PRIMARY raw = 18"
    using that by (simp add: ppc_decode_b decode_b_def Let_def)
qed

lemma ppc_decode_op_BC: "inst_op (ppc_decode raw address) = PPC_OP_BC \<longleftrightarrow> PPC_PRIMARY raw = 16"
proof
  show "PPC_PRIMARY raw = 16" if "inst_op (ppc_decode raw address) = PPC_OP_BC"
    using ppc_decode_origin [of raw address] that by (simp only: origin_def simp_thms)
  show "inst_op (ppc_decode raw address) = PPC_OP_BC" if "PPC_PRIMARY raw = 16"
    using that by (simp add: ppc_decode_bc decode_bc_def Let_def)
qed

section \<open>Update forms\<close>

text \<open>The load with update opcodes on integer registers, and all the opcodes that write \<open>rA\<close> back.\<close>

definition int_update_loads :: "PPCOpcode list" where
  "int_update_loads = [PPC_OP_LWZU, PPC_OP_LBZU, PPC_OP_LHZU, PPC_OP_LHAU,
     PPC_OP_LWZUX, PPC_OP_LBZUX, PPC_OP_LHZUX, PPC_OP_LHAUX]"

definition update_ops :: "PPCOpcode list" where
  "update_ops = int_update_loads @
     [PPC_OP_STWU, PPC_OP_STBU, PPC_OP_STHU, PPC_OP_STWUX, PPC_OP_STBUX, PPC_OP_STHUX,
      PPC_OP_LFSU, PPC_OP_LFDU, PPC_OP_STFSU, PPC_OP_STFDU,
      PPC_OP_LFSUX, PPC_OP_LFDUX, PPC_OP_STFSUX, PPC_OP_STFDUX,
      PPC_OP_PSQ_LU, PPC_OP_PSQ_STU, PPC_OP_PSQ_LUX, PPC_OP_PSQ_STUX]"

definition update_guarded :: "PPCInst \<Rightarrow> bool" where
  "update_guarded inst \<longleftrightarrow>
     (inst_op inst \<in> set update_ops \<longrightarrow> inst_rA inst \<noteq> 0) \<and>
     (inst_op inst \<in> set int_update_loads \<longrightarrow> inst_rA inst \<noteq> inst_rD inst)"

text \<open>The eight bit operand of a five bit field determines the field.\<close>

lemma ucast_field_inject:
  "(ucast (x AND 0x1F :: u32) :: u8) = ucast (y AND 0x1F :: u32) \<longleftrightarrow> x AND 0x1F = y AND 0x1F"
  "(ucast (x AND 0x1F :: u32) :: u8) = 0 \<longleftrightarrow> x AND 0x1F = 0"
proof -
  have small: "unat (ucast (z AND 0x1F :: u32) :: u8) = unat (z AND 0x1F)" for z
  proof -
    have "unat (z AND 0x1F) < 2 ^ 8"
      using unat_and_le_right [of z 31] by simp
    then show ?thesis
      by (simp add: unsigned_ucast_eq take_bit_nat_eq_self)
  qed
  show "(ucast (x AND 0x1F :: u32) :: u8) = ucast (y AND 0x1F :: u32) \<longleftrightarrow> x AND 0x1F = y AND 0x1F"
    by (simp only: word_unat_eq_iff small)
  show "(ucast (x AND 0x1F :: u32) :: u8) = 0 \<longleftrightarrow> x AND 0x1F = 0"
    by (simp only: word_unat_eq_iff small unsigned_0)
qed

lemma ucast_reg_inject:
  "(ucast (PPC_RA raw) :: u8) = 0 \<longleftrightarrow> PPC_RA raw = 0"
  "(ucast (PPC_RA raw) :: u8) = ucast (PPC_RD raw) \<longleftrightarrow> PPC_RA raw = PPC_RD raw"
  by (simp_all only: ppc_field_defs ucast_field_inject)

lemma update_guarded_reject [simp]: "update_guarded (reject inst)"
  by (simp add: update_guarded_def update_ops_def int_update_loads_def reject_def)

text \<open>A form that does not guard is used for no update opcode; the guarded ones reject the word
  their opcode does not allow.\<close>

lemma ppc_decode_update_guarded: "update_guarded (ppc_decode raw address)"
proof (rule ppc_decode_cases [where Q = update_guarded])
  let ?i = "fresh raw address"
  note update_guarded_def [simp] update_ops_def [simp] int_update_loads_def [simp]
  show "update_guarded (reject ?i)" by (rule update_guarded_reject)
  show "update_guarded (decode_bc ?i raw address)"
    by (simp add: decode_bc_def Let_def)
  show "update_guarded (decode_sc ?i raw)"
    by (simp add: decode_sc_def)
  show "update_guarded (decode_b ?i raw address)"
    by (simp add: decode_b_def Let_def)
  show "update_guarded (decode_19 ?i raw)"
    by (simp add: decode_19_def decode_cr_logical_def Let_def reject_def)
qed (rule labelled_True,
    simp only: decode_imm_cases_def decode_logical_cases_def decode_memory_cases_def
      decode_4_cases_def decode_4_psq_cases_def decode_4_a_cases_def decode_31_xo9_cases_def
      decode_31_low_cases_def decode_31_high_cases_def decode_59_cases_def decode_63_cases_def
      decode_63_a_cases_def list.pred_inject prod.case,
    intro conjI TrueI; simp add: update_guarded_def update_ops_def int_update_loads_def
      decode_form_defs ucast_reg_inject)+

section \<open>Properties\<close>

text \<open>C1 Every word decodes to a well-formed instruction: word and address are recorded, the
  opcode is one of the enumeration, every operand field is within its range, a link bit appears on
  branches only and a target on direct branches only.\<close>

theorem ppc_decode_wf: "decoded raw address (ppc_decode raw address)"
  by (rule ppc_decode_decoded)


text \<open>An update form never decodes with \<open>rA = 0\<close>, and an integer load with update
  never with \<open>rA = rD\<close>: the forms the architecture calls invalid are rejected.\<close>

theorem ppc_decode_updates: "update_guarded (ppc_decode raw address)"
  by (rule ppc_decode_update_guarded)

end
