(* ===== verification/Encode.thy ===== *)
theory Encode
  imports Decoder
begin

text \<open>
  The instruction formats of the PowerPC architecture as encoders, and the round trips through
  \<open>ppc_decode\<close>: encoding the operands of an instruction and decoding the word gives exactly these
  operands and the opcode the architecture assigns.  The tables list the encodings the architecture
  gives to the opcodes of each format; they are the specification \<open>ppc_decode\<close> is checked against.
\<close>

section \<open>Encoders\<close>

definition enc_D :: "6 word \<Rightarrow> 5 word \<Rightarrow> 5 word \<Rightarrow> u16 \<Rightarrow> u32" where
  "enc_D p d a imm = shl (ucast p) 26 OR shl (ucast d) 21 OR shl (ucast a) 16 OR ucast imm"

definition enc_X :: "6 word \<Rightarrow> 5 word \<Rightarrow> 5 word \<Rightarrow> 5 word \<Rightarrow> 10 word \<Rightarrow> bool \<Rightarrow> u32" where
  "enc_X p d a b xo rc = shl (ucast p) 26 OR shl (ucast d) 21 OR shl (ucast a) 16 OR
     shl (ucast b) 11 OR shl (ucast xo) 1 OR of_bool rc"

definition enc_I :: "24 word \<Rightarrow> bool \<Rightarrow> bool \<Rightarrow> u32" where
  "enc_I li aa lk = shl 18 26 OR shl (ucast li) 2 OR of_bool aa * 2 OR of_bool lk"

definition enc_B :: "5 word \<Rightarrow> 5 word \<Rightarrow> 14 word \<Rightarrow> bool \<Rightarrow> bool \<Rightarrow> u32" where
  "enc_B bo bi bd aa lk = shl 16 26 OR shl (ucast bo) 21 OR shl (ucast bi) 16 OR
     shl (ucast bd) 2 OR of_bool aa * 2 OR of_bool lk"

section \<open>Encodings of the architecture\<close>

definition d_rt_forms :: "(6 word \<times> PPCOpcode) list" where
  "d_rt_forms = [
    (7, PPC_OP_MULLI), (8, PPC_OP_SUBFIC), (12, PPC_OP_ADDIC), (14, PPC_OP_ADDI),
    (15, PPC_OP_ADDIS), (32, PPC_OP_LWZ), (34, PPC_OP_LBZ), (40, PPC_OP_LHZ), (42, PPC_OP_LHA),
    (46, PPC_OP_LMW), (48, PPC_OP_LFS), (50, PPC_OP_LFD)]"

definition d_rs_forms :: "(6 word \<times> PPCOpcode) list" where
  "d_rs_forms = [
    (36, PPC_OP_STW), (38, PPC_OP_STB), (44, PPC_OP_STH), (47, PPC_OP_STMW), (52, PPC_OP_STFS),
    (54, PPC_OP_STFD)]"

definition x_rs_forms :: "(10 word \<times> PPCOpcode) list" where
  "x_rs_forms = [
    (24, PPC_OP_SLW), (26, PPC_OP_CNTLZW), (28, PPC_OP_AND), (60, PPC_OP_ANDC),
    (124, PPC_OP_NOR), (284, PPC_OP_EQV), (316, PPC_OP_XOR), (412, PPC_OP_ORC), (444, PPC_OP_OR),
    (476, PPC_OP_NAND), (536, PPC_OP_SRW), (792, PPC_OP_SRAW), (922, PPC_OP_EXTSH),
    (954, PPC_OP_EXTSB)]"

text \<open>The memory forms have no record bit.\<close>

definition x_load_forms :: "(10 word \<times> PPCOpcode) list" where
  "x_load_forms = [
    (23, PPC_OP_LWZX), (87, PPC_OP_LBZX), (279, PPC_OP_LHZX), (343, PPC_OP_LHAX),
    (534, PPC_OP_LWBRX), (535, PPC_OP_LFSX), (599, PPC_OP_LFDX), (790, PPC_OP_LHBRX)]"

definition x_store_forms :: "(10 word \<times> PPCOpcode) list" where
  "x_store_forms = [
    (151, PPC_OP_STWX), (215, PPC_OP_STBX), (407, PPC_OP_STHX), (662, PPC_OP_STWBRX),
    (663, PPC_OP_STFSX), (727, PPC_OP_STFDX), (918, PPC_OP_STHBRX)]"

text \<open>Arithmetic: the opcode without and with the overflow bit, which is the top bit of the
  extended opcode.\<close>

definition xo_forms :: "(10 word \<times> PPCOpcode) list" where
  "xo_forms = [
    (8, PPC_OP_SUBFC), (10, PPC_OP_ADDC), (40, PPC_OP_SUBF), (136, PPC_OP_SUBFE),
    (138, PPC_OP_ADDE), (235, PPC_OP_MULLW), (266, PPC_OP_ADD), (459, PPC_OP_DIVWU),
    (491, PPC_OP_DIVW),
    (520, PPC_OP_SUBFCO), (522, PPC_OP_ADDCO), (552, PPC_OP_SUBFO), (648, PPC_OP_SUBFEO),
    (650, PPC_OP_ADDEO), (747, PPC_OP_MULLWO), (778, PPC_OP_ADDO), (971, PPC_OP_DIVWUO),
    (1003, PPC_OP_DIVWO)]"

section \<open>Fields of the encodings\<close>

lemma and_fields:
  "x AND 0x1F = take_bit 5 (x :: u32)" "x AND 0x3FF = take_bit 10 x" "x AND 0xFFFF = take_bit 16 x"
  by (simp_all add: take_bit_eq_mask mask_numeral)

lemma fields_enc_D [simp]:
  "PPC_PRIMARY (enc_D p d a imm) = ucast p" "PPC_RD (enc_D p d a imm) = ucast d"
  "PPC_RS (enc_D p d a imm) = ucast d" "PPC_RA (enc_D p d a imm) = ucast a"
  "PPC_SIMM (enc_D p d a imm) = imm" "PPC_UIMM (enc_D p d a imm) = imm"
  unfolding ppc_field_defs enc_D_def and_fields
  by (rule bit_word_eqI; auto simp: bit_simps simp del: push_bit_Suc drop_bit_Suc One_nat_def dest: bit_imp_le_length)+

lemma bit_enc_X:
  "bit (enc_X p d a b xo rc) n \<longleftrightarrow>
     (if n < 1 then rc else if n < 11 then bit xo (n - 1) else if n < 16 then bit b (n - 11)
      else if n < 21 then bit a (n - 16) else if n < 26 then bit d (n - 21)
      else bit p (n - 26))"
proof -
  have high: "\<not> bit p (n - 26)" if "32 \<le> n"
    using that bit_imp_le_length [of p "n - 26"] by auto
  have out: "26 \<le> n \<Longrightarrow> \<not> bit d (n - 21)" "21 \<le> n \<Longrightarrow> \<not> bit a (n - 16)"
    "16 \<le> n \<Longrightarrow> \<not> bit b (n - 11)" "11 \<le> n \<Longrightarrow> \<not> bit xo (n - 1)"
    using bit_imp_le_length [of d "n - 21"] bit_imp_le_length [of a "n - 16"]
      bit_imp_le_length [of b "n - 11"] bit_imp_le_length [of xo "n - 1"] by auto
  have eq: "bit (enc_X p d a b xo rc) n \<longleftrightarrow> n < 32 \<and>
     (26 \<le> n \<and> bit p (n - 26) \<or> 21 \<le> n \<and> bit d (n - 21) \<or> 16 \<le> n \<and> bit a (n - 16) \<or>
      11 \<le> n \<and> bit b (n - 11) \<or> 1 \<le> n \<and> bit xo (n - 1) \<or> n = 0 \<and> rc)"
    by (cases "n < 32") (simp_all add: enc_X_def bit_simps less_imp_diff_less
      del: push_bit_Suc drop_bit_Suc One_nat_def)
  consider "n < 1" | "1 \<le> n" "n < 11" | "11 \<le> n" "n < 16" | "16 \<le> n" "n < 21"
    | "21 \<le> n" "n < 26" | "26 \<le> n" "n < 32" | "32 \<le> n"
    by linarith
  then show ?thesis
    unfolding eq by cases (use high out in simp_all)
qed

lemma fields_enc_X [simp]:
  "PPC_PRIMARY (enc_X p d a b xo rc) = ucast p" "PPC_RD (enc_X p d a b xo rc) = ucast d"
  "PPC_RS (enc_X p d a b xo rc) = ucast d" "PPC_RA (enc_X p d a b xo rc) = ucast a"
  "PPC_RB (enc_X p d a b xo rc) = ucast b" "PPC_XO (enc_X p d a b xo rc) = ucast xo"
  unfolding ppc_field_defs and_fields
  by (rule bit_word_eqI; auto simp: bit_simps bit_enc_X
    simp del: push_bit_Suc drop_bit_Suc One_nat_def dest: bit_imp_le_length)+

lemma rc_enc_X [simp]: "PPC_RC (enc_X p d a b xo rc) = rc"
  using bit_enc_X [of p d a b xo rc 0]
  by (simp add: PPC_RC_def and_one_eq bit_0 odd_iff_mod_2_eq_one)

lemma oe_enc_X: "shr (enc_X p d a b xo rc) 10 AND 1 = ucast (shr xo 9 AND 1)"
proof -
  have one: "(1 :: u32) = mask 1" "(1 :: 10 word) = mask 1"
    by (simp_all add: mask_numeral)
  show ?thesis
    unfolding one
    by (rule bit_word_eqI) (auto simp: bit_simps bit_enc_X
      simp del: push_bit_Suc drop_bit_Suc One_nat_def)
qed

lemma ucast_reg [simp]: "(ucast (ucast (x :: 5 word) :: u32) :: u8) = ucast x"
  by (rule bit_word_eqI) (auto simp: bit_simps dest: bit_imp_le_length)

section \<open>Selecting a case body\<close>

lemma switch_at: "(x, y) \<in> set cs \<Longrightarrow> distinct (map fst cs) \<Longrightarrow> switch x cs d = y"
  by (simp add: switch_def)

lemma switch_none: "x \<notin> set (map fst cs) \<Longrightarrow> switch x cs d = d"
  by (induction cs) auto

text \<open>The labels of each C switch are distinct.\<close>

lemma primary_labels:
  "map fst (decode_primary_cases inst raw address) =
    [4, 16, 17, 18, 19, 31, 59, 63, 3, 7, 8, 10, 11, 12, 13, 14, 15, 20, 21, 23, 24, 25, 26, 27, 28,
     29, 32, 33, 34, 35, 36, 37, 38, 39, 40, 41, 42, 43, 44, 45, 46, 47, 48, 49, 50, 51, 52, 53, 54,
     55, 56, 57, 60, 61]"
  by (simp only: decode_primary_cases_def decode_imm_cases_def decode_logical_cases_def
    decode_memory_cases_def append.simps list.map fst_conv)

lemma distinct_primary: "distinct (map fst (decode_primary_cases inst raw address))"
  unfolding primary_labels by simp

lemma low_high_labels:
  "map fst (decode_31_low_cases inst raw @ decode_31_high_cases inst raw) =
    [0, 4, 11, 19, 20, 23, 24, 26, 28, 32, 54, 55, 60, 75, 83, 86, 87, 119, 124, 144, 146, 151, 183,
     210, 215, 242, 246, 247, 278, 279, 284, 306, 310, 311, 316, 339, 371, 343, 375, 407, 412, 438,
     439, 444, 470, 467, 476, 512, 533, 534, 535, 536, 567, 597, 598, 599, 631, 595, 661, 662, 659,
     663, 695, 727, 759, 725, 790, 792, 824, 918, 922, 954, 982, 150, 854, 566, 983, 1014]"
  by (simp only: decode_31_low_cases_def decode_31_high_cases_def append.simps list.map fst_conv)

lemma distinct_low_high:
  "distinct (map fst (decode_31_low_cases inst raw @ decode_31_high_cases inst raw))"
  unfolding low_high_labels by simp

lemma xo9_labels:
  "map fst (decode_31_xo9_cases oe inst raw) =
     [8, 10, 40, 104, 136, 138, 200, 202, 232, 234, 235, 266, 459, 491]"
  by (simp only: decode_31_xo9_cases_def list.map fst_conv)

lemma distinct_xo9: "distinct (map fst (decode_31_xo9_cases oe inst raw))"
  unfolding xo9_labels by simp

section \<open>D format\<close>

lemma ppc_decode_primary:
  "(PPC_PRIMARY raw, y) \<in> set (decode_primary_cases (fresh raw address) raw address) \<Longrightarrow>
   ppc_decode raw address = y"
  unfolding ppc_decode_def Let_def by (rule switch_at [OF _ distinct_primary])

lemma d_rt_entries:
  "list_all (\<lambda>(p, op). (ucast p, decode_d_rt_ra inst op raw) \<in> set (decode_primary_cases inst raw address))
     d_rt_forms"
  unfolding d_rt_forms_def list.pred_inject prod.case decode_primary_cases_def decode_imm_cases_def
    decode_memory_cases_def
  by simp

lemma d_rs_entries:
  "list_all (\<lambda>(p, op). (ucast p, decode_d_rs_ra inst op raw) \<in> set (decode_primary_cases inst raw address))
     d_rs_forms"
  unfolding d_rs_forms_def list.pred_inject prod.case decode_primary_cases_def decode_imm_cases_def
    decode_memory_cases_def
  by simp

lemma decode_enc_D_rt:
  assumes "(p, op) \<in> set d_rt_forms"
  shows "ppc_decode (enc_D p d a imm) address =
    (fresh (enc_D p d a imm) address)
      \<lparr>inst_op := op, inst_rD := ucast d, inst_rA := ucast a, inst_simm := imm\<rparr>"
proof -
  have "ppc_decode (enc_D p d a imm) address =
      decode_d_rt_ra (fresh (enc_D p d a imm) address) op (enc_D p d a imm)"
    using assms d_rt_entries [of "fresh (enc_D p d a imm) address" "enc_D p d a imm" address]
    by (intro ppc_decode_primary) (auto simp: list_all_iff)
  then show ?thesis
    by (simp add: decode_d_rt_ra_def)
qed

lemma decode_enc_D_rs:
  assumes "(p, op) \<in> set d_rs_forms"
  shows "ppc_decode (enc_D p d a imm) address =
    (fresh (enc_D p d a imm) address)
      \<lparr>inst_op := op, inst_rS := ucast d, inst_rA := ucast a, inst_simm := imm\<rparr>"
proof -
  have "ppc_decode (enc_D p d a imm) address =
      decode_d_rs_ra (fresh (enc_D p d a imm) address) op (enc_D p d a imm)"
    using assms d_rs_entries [of "fresh (enc_D p d a imm) address" "enc_D p d a imm" address]
    by (intro ppc_decode_primary) (auto simp: list_all_iff)
  then show ?thesis
    by (simp add: decode_d_rs_ra_def)
qed

section \<open>X and XO format\<close>

lemma ppc_decode_31: "PPC_PRIMARY raw = 31 \<Longrightarrow> ppc_decode raw address = decode_31 (fresh raw address) raw"
  by (rule ppc_decode_primary) (simp add: decode_primary_cases_def)

text \<open>The nine bit switch does not take a word that belongs to the ten bit one.\<close>

lemma ppc_decode_31_xo:
  assumes "PPC_PRIMARY raw = 31"
    and "(PPC_XO raw, y) \<in> set (decode_31_low_cases (fresh raw address) raw @
           decode_31_high_cases (fresh raw address) raw)"
    and "PPC_XO raw AND 0x1FF \<notin> set (map fst (decode_31_xo9_cases oe inst raw))"
  shows "ppc_decode raw address = y"
proof -
  have "switch (PPC_XO raw AND 0x1FF) (decode_31_xo9_cases (shr raw 10 AND 1 \<noteq> 0) (fresh raw address) raw)
      (fresh raw address) = fresh raw address"
    using assms(3) by (intro switch_none) (simp only: xo9_labels not_False_eq_True)
  moreover have "switch (PPC_XO raw) (decode_31_low_cases (fresh raw address) raw @
      decode_31_high_cases (fresh raw address) raw) (reject (fresh raw address)) = y"
    using assms(2) distinct_low_high by (rule switch_at)
  ultimately show ?thesis
    by (simp only: ppc_decode_31 [OF assms(1)] decode_31_def Let_def fresh_simps simp_thms if_False)
qed

definition x_entries :: "(PPCInst \<Rightarrow> PPCOpcode \<Rightarrow> u32 \<Rightarrow> PPCInst) \<Rightarrow> (10 word \<times> PPCOpcode) list \<Rightarrow>
    PPCInst \<Rightarrow> u32 \<Rightarrow> bool" where
  "x_entries form tab inst raw \<longleftrightarrow>
     list_all (\<lambda>(xo, op). (ucast xo :: u32) AND 0x1FF \<notin>
        {8, 10, 40, 104, 136, 138, 200, 202, 232, 234, 235, 266, 459, 491} \<and>
        (ucast xo, form inst op raw) \<in> set (decode_31_low_cases inst raw @
          decode_31_high_cases inst raw)) tab"

lemma x_entries:
  "x_entries decode_x_rs_ra_rb x_rs_forms inst raw"
  "x_entries decode_x_rt_ra_rb_norc x_load_forms inst raw"
  "x_entries decode_x_rs_ra_rb_norc x_store_forms inst raw"
  unfolding x_entries_def x_rs_forms_def x_load_forms_def x_store_forms_def list.pred_inject
    prod.case decode_31_low_cases_def decode_31_high_cases_def append.simps
  by (intro conjI TrueI; simp)+

lemma decode_enc_X:
  assumes "x_entries form tab (fresh (enc_X 31 d a b xo rc) address) (enc_X 31 d a b xo rc)"
    and "(xo, op) \<in> set tab"
  shows "ppc_decode (enc_X 31 d a b xo rc) address =
    form (fresh (enc_X 31 d a b xo rc) address) op (enc_X 31 d a b xo rc)"
proof (rule ppc_decode_31_xo)
  show "PPC_PRIMARY (enc_X 31 d a b xo rc) = 31" by simp
qed (use assms in \<open>auto simp: x_entries_def list_all_iff xo9_labels\<close>)

lemma decode_enc_X_logical:
  assumes "(xo, op) \<in> set x_rs_forms"
  shows "ppc_decode (enc_X 31 d a b xo rc) address =
    (fresh (enc_X 31 d a b xo rc) address)
      \<lparr>inst_op := op, inst_rS := ucast d, inst_rA := ucast a, inst_rB := ucast b, inst_rc := rc\<rparr>"
  by (simp add: decode_enc_X [OF x_entries(1) assms] decode_x_rs_ra_rb_def)

text \<open>A memory form with the reserved record bit set is rejected.\<close>

lemma decode_enc_X_load:
  assumes "(xo, op) \<in> set x_load_forms"
  shows "ppc_decode (enc_X 31 d a b xo rc) address =
    (if rc then fresh (enc_X 31 d a b xo rc) address
     else (fresh (enc_X 31 d a b xo rc) address)
       \<lparr>inst_op := op, inst_rD := ucast d, inst_rA := ucast a, inst_rB := ucast b\<rparr>)"
  by (simp add: decode_enc_X [OF x_entries(2) assms] decode_x_rt_ra_rb_norc_def
    decode_x_rt_ra_rb_def reject_def fresh_def zero_inst_def)

lemma decode_enc_X_store:
  assumes "(xo, op) \<in> set x_store_forms"
  shows "ppc_decode (enc_X 31 d a b xo rc) address =
    (if rc then fresh (enc_X 31 d a b xo rc) address
     else (fresh (enc_X 31 d a b xo rc) address)
       \<lparr>inst_op := op, inst_rS := ucast d, inst_rA := ucast a, inst_rB := ucast b\<rparr>)"
  by (simp add: decode_enc_X [OF x_entries(3) assms] decode_x_rs_ra_rb_norc_def
    decode_x_rs_ra_rb_def reject_def fresh_def zero_inst_def)

lemma xo_entries:
  "list_all (\<lambda>(xo, op). op \<noteq> PPC_OP_UNKNOWN \<and> (ucast xo AND 0x1FF, decode_xo_rt_ra_rb inst op raw)
     \<in> set (decode_31_xo9_cases (xo AND 0x200 \<noteq> 0) inst raw)) xo_forms"
  unfolding xo_forms_def list.pred_inject prod.case decode_31_xo9_cases_def
  by (intro conjI TrueI; simp)

lemma oe_top: "ucast (shr xo 9 AND 1) \<noteq> (0 :: u32) \<longleftrightarrow> xo AND 0x200 \<noteq> (0 :: 10 word)"
proof -
  have "(0x200 :: 10 word) = push_bit 9 1"
    by simp
  then have "xo AND 0x200 \<noteq> 0 \<longleftrightarrow> bit xo 9"
    by (simp only: bit_iff_and_push_bit_not_eq_0)
  moreover have "ucast (shr xo 9 AND 1) \<noteq> (0 :: u32) \<longleftrightarrow> bit xo 9"
    by (simp add: and_one_eq mod2_eq_if bit_iff_odd_drop_bit)
  ultimately show ?thesis by simp
qed

lemma decode_enc_XO:
  assumes "(xo, op) \<in> set xo_forms"
  shows "ppc_decode (enc_X 31 d a b xo rc) address =
    (fresh (enc_X 31 d a b xo rc) address)
      \<lparr>inst_op := op, inst_rD := ucast d, inst_rA := ucast a, inst_rB := ucast b, inst_rc := rc,
       inst_oe := (xo AND 0x200 \<noteq> 0)\<rparr>"
proof -
  let ?raw = "enc_X 31 d a b xo rc"
  let ?i = "fresh ?raw address"
  have oe: "(shr ?raw 10 AND 1 \<noteq> 0) = (xo AND 0x200 \<noteq> 0)"
    by (simp only: oe_enc_X oe_top)
  have "op \<noteq> PPC_OP_UNKNOWN" and mem: "(ucast xo AND 0x1FF, decode_xo_rt_ra_rb ?i op ?raw)
      \<in> set (decode_31_xo9_cases (xo AND 0x200 \<noteq> 0) ?i ?raw)"
    using assms xo_entries [of ?i ?raw] by (auto simp: list_all_iff)
  moreover have body: "decode_xo_rt_ra_rb ?i op ?raw = ?i\<lparr>inst_op := op, inst_rD := ucast d,
      inst_rA := ucast a, inst_rB := ucast b, inst_rc := rc, inst_oe := (xo AND 0x200 \<noteq> 0)\<rparr>"
    by (simp add: decode_xo_rt_ra_rb_def decode_x_rt_ra_rb_def oe_enc_X oe_top)
  moreover have "switch (PPC_XO ?raw AND 0x1FF)
      (decode_31_xo9_cases (shr ?raw 10 AND 1 \<noteq> 0) ?i ?raw) ?i = decode_xo_rt_ra_rb ?i op ?raw"
    unfolding oe fields_enc_X by (rule switch_at [OF mem distinct_xo9])
  ultimately have "decode_31 ?i ?raw = decode_xo_rt_ra_rb ?i op ?raw"
    by (simp only: decode_31_def Let_def) simp
  then show ?thesis
    by (simp only: ppc_decode_31 fields_enc_X body) (simp add: ppc_decode_31 body)
qed

section \<open>Branches\<close>

lemma and_one_bit: "x AND 1 \<noteq> 0 \<longleftrightarrow> bit (x :: u32) 0" "bit (shr x 1) 0 \<longleftrightarrow> bit x 1"
  by (simp_all add: and_one_eq mod2_eq_if bit_drop_bit_eq bit_0)

lemma bit_enc_I:
  "bit (enc_I li aa lk) n \<longleftrightarrow>
     (if n < 1 then lk else if n < 2 then aa else if n < 26 then bit li (n - 2)
      else n < 32 \<and> bit (18 :: u32) (n - 26))"
proof -
  have out: "26 \<le> n \<Longrightarrow> \<not> bit li (n - 2)"
    using bit_imp_le_length [of li "n - 2"] by auto
  have aa2: "of_bool aa * 2 = (shl (of_bool aa) 1 :: u32)"
    by simp
  have "bit (enc_I li aa lk) n \<longleftrightarrow> n < 32 \<and>
     (26 \<le> n \<and> bit (18 :: u32) (n - 26) \<or> 2 \<le> n \<and> bit li (n - 2) \<or> n = 1 \<and> aa \<or> n = 0 \<and> lk)"
    unfolding enc_I_def aa2
    by (cases "n < 32") (auto simp: bit_simps less_imp_diff_less
      simp del: push_bit_Suc drop_bit_Suc One_nat_def push_bit_numeral)
  moreover consider "n = 0" | "n = 1" | "2 \<le> n" "n < 26" | "26 \<le> n"
    by linarith
  ultimately show ?thesis
    by cases (use out in auto)
qed

lemma bit_enc_B:
  "bit (enc_B bo bi bd aa lk) n \<longleftrightarrow>
     (if n < 1 then lk else if n < 2 then aa else if n < 16 then bit bd (n - 2)
      else if n < 21 then bit bi (n - 16) else if n < 26 then bit bo (n - 21)
      else n < 32 \<and> bit (16 :: u32) (n - 26))"
proof -
  have out: "16 \<le> n \<Longrightarrow> \<not> bit bd (n - 2)" "21 \<le> n \<Longrightarrow> \<not> bit bi (n - 16)"
    "26 \<le> n \<Longrightarrow> \<not> bit bo (n - 21)"
    using bit_imp_le_length [of bd "n - 2"] bit_imp_le_length [of bi "n - 16"]
      bit_imp_le_length [of bo "n - 21"] by auto
  have aa2: "of_bool aa * 2 = (shl (of_bool aa) 1 :: u32)"
    by simp
  have eq: "bit (enc_B bo bi bd aa lk) n \<longleftrightarrow> n < 32 \<and>
     (26 \<le> n \<and> bit (16 :: u32) (n - 26) \<or> 21 \<le> n \<and> bit bo (n - 21) \<or> 16 \<le> n \<and> bit bi (n - 16) \<or>
      2 \<le> n \<and> bit bd (n - 2) \<or> n = 1 \<and> aa \<or> n = 0 \<and> lk)"
    unfolding enc_B_def aa2
    by (cases "n < 32") (auto simp: bit_simps less_imp_diff_less
      simp del: push_bit_Suc drop_bit_Suc One_nat_def push_bit_numeral)
  consider "n = 0" | "n = 1" | "2 \<le> n" "n < 16" | "16 \<le> n" "n < 21" | "21 \<le> n" "n < 26"
    | "26 \<le> n"
    by linarith
  then show ?thesis
    unfolding eq by cases (use out in simp_all)
qed

lemma bit_primary: "bit (18 :: u32) n \<Longrightarrow> n < 6" "bit (16 :: u32) n \<Longrightarrow> n < 6"
proof -
  have "(18 :: u32) = take_bit 6 18" "(16 :: u32) = take_bit 6 16"
    by simp_all
  then show "bit (18 :: u32) n \<Longrightarrow> n < 6" "bit (16 :: u32) n \<Longrightarrow> n < 6"
    by (metis bit_take_bit_iff)+
qed

lemma fields_enc_I:
  "PPC_PRIMARY (enc_I li aa lk) = 18" "shr (enc_I li aa lk) 1 AND 1 \<noteq> 0 \<longleftrightarrow> aa"
  "enc_I li aa lk AND 1 \<noteq> 0 \<longleftrightarrow> lk"
proof -
  show "PPC_PRIMARY (enc_I li aa lk) = 18"
    unfolding PPC_PRIMARY_def
    by (rule bit_word_eqI) (use bit_primary in \<open>auto simp: bit_drop_bit_eq bit_enc_I\<close>)
qed (simp_all only: and_one_bit bit_enc_I, simp_all)

lemma fields_enc_B:
  "PPC_PRIMARY (enc_B bo bi bd aa lk) = 16" "shr (enc_B bo bi bd aa lk) 1 AND 1 \<noteq> 0 \<longleftrightarrow> aa"
  "enc_B bo bi bd aa lk AND 1 \<noteq> 0 \<longleftrightarrow> lk" "PPC_BO (enc_B bo bi bd aa lk) = ucast bo"
  "PPC_BI (enc_B bo bi bd aa lk) = ucast bi"
proof -
  show "PPC_PRIMARY (enc_B bo bi bd aa lk) = 16"
    unfolding PPC_PRIMARY_def
    by (rule bit_word_eqI) (use bit_primary in \<open>auto simp: bit_drop_bit_eq bit_enc_B\<close>)
  show "PPC_BO (enc_B bo bi bd aa lk) = ucast bo" "PPC_BI (enc_B bo bi bd aa lk) = ucast bi"
    unfolding ppc_field_defs and_fields
    by (rule bit_word_eqI; auto simp: bit_simps bit_enc_B
      simp del: push_bit_Suc drop_bit_Suc One_nat_def dest: bit_imp_le_length)+
qed (simp_all only: and_one_bit bit_enc_B, simp_all)

lemma disp_enc_I: "sign_extend (enc_I li aa lk AND 0x03FFFFFC) 26 = shl (scast li) 2"
proof -
  have m: "(0x03FFFFFC :: u32) = shl (mask 24) 2"
    by (simp add: mask_numeral)
  have "enc_I li aa lk AND 0x03FFFFFC = take_bit (Suc 25) (shl (ucast li) 2)"
    unfolding m by (rule bit_word_eqI) (auto simp: bit_and_iff bit_take_bit_iff bit_push_bit_iff
      bit_mask_iff bit_ucast_iff bit_enc_I)
  then have "sign_extend (enc_I li aa lk AND 0x03FFFFFC) 26 = signed_take_bit 25 (shl (ucast li) 2)"
    using sign_extend_take_bit [of 25 "shl (ucast li) 2"] by simp
  also have "\<dots> = shl (scast li) 2"
    by (rule bit_word_eqI) (auto simp: bit_simps min_def)
  finally show ?thesis .
qed

lemma disp_enc_B: "sign_extend (enc_B bo bi bd aa lk AND 0xFFFC) 16 = shl (scast bd) 2"
proof -
  have m: "(0xFFFC :: u32) = shl (mask 14) 2"
    by (simp add: mask_numeral)
  have "enc_B bo bi bd aa lk AND 0xFFFC = take_bit (Suc 15) (shl (ucast bd) 2)"
    unfolding m by (rule bit_word_eqI) (auto simp: bit_and_iff bit_take_bit_iff bit_push_bit_iff
      bit_mask_iff bit_ucast_iff bit_enc_B)
  then have "sign_extend (enc_B bo bi bd aa lk AND 0xFFFC) 16 = signed_take_bit 15 (shl (ucast bd) 2)"
    using sign_extend_take_bit [of 15 "shl (ucast bd) 2"] by simp
  also have "\<dots> = shl (scast bd) 2"
    by (rule bit_word_eqI) (auto simp: bit_simps min_def)
  finally show ?thesis .
qed

lemma decode_enc_I:
  "ppc_decode (enc_I li aa lk) address =
    (fresh (enc_I li aa lk) address)\<lparr>inst_op := PPC_OP_B, inst_aa := aa, inst_lk := lk,
      inst_branch_target := (if aa then shl (scast li) 2 else address + shl (scast li) 2)\<rparr>"
  by (simp only: ppc_decode_b fields_enc_I decode_b_def Let_def disp_enc_I) simp

lemma decode_enc_B:
  "ppc_decode (enc_B bo bi bd aa lk) address =
    (fresh (enc_B bo bi bd aa lk) address)\<lparr>inst_op := PPC_OP_BC, inst_bo := ucast bo,
      inst_bi := ucast bi, inst_aa := aa, inst_lk := lk,
      inst_branch_target := (if aa then shl (scast bd) 2 else address + shl (scast bd) 2)\<rparr>"
  by (simp only: ppc_decode_bc fields_enc_B decode_bc_def Let_def disp_enc_B) simp

section \<open>Properties\<close>



text \<open>C17 Round trip of the branch formats: the decoded target is the sign-extended
  word displacement, added to the address of the instruction unless the absolute bit is set.\<close>

theorem ppc_decode_enc_branch:
  "ppc_decode (enc_I li aa lk) address =
    (fresh (enc_I li aa lk) address)\<lparr>inst_op := PPC_OP_B, inst_aa := aa, inst_lk := lk,
      inst_branch_target := (if aa then shl (scast li) 2 else address + shl (scast li) 2)\<rparr> \<and>
   ppc_decode (enc_B bo bi bd aa lk) address =
    (fresh (enc_B bo bi bd aa lk) address)\<lparr>inst_op := PPC_OP_BC, inst_bo := ucast bo,
      inst_bi := ucast bi, inst_aa := aa, inst_lk := lk,
      inst_branch_target := (if aa then shl (scast bd) 2 else address + shl (scast bd) 2)\<rparr>"
  using decode_enc_I decode_enc_B by blast

end
