(* ===== verification/CpuState.thy ===== *)
theory CpuState
  imports CTypes
begin

text \<open>
  \<open>src/cpu/cpu.h\<close> and the first part of \<open>src/cpu/cpu.c\<close>: the machine state, its life cycle and the
  translation of guest addresses to host memory.

  The two memories are byte lists behind a pointer that may be null.  The host callbacks of the C
  structure are the record \<open>host\<close>; a callback is an arbitrary function of the machine state, and an
  unset one is \<open>None\<close>.  Calls of the write journal are appended to the ghost field \<open>journal\<close>.
  Floating point registers hold their bit patterns.
\<close>

section \<open>Constants\<close>

definition GC_MAIN_RAM_SIZE :: u32 where "GC_MAIN_RAM_SIZE = 24 * 1024 * 1024"
definition GC_RAM_BASE :: u32 where "GC_RAM_BASE = 0x80000000"
definition GC_RAM_UNCACHED :: u32 where "GC_RAM_UNCACHED = 0xC0000000"
definition WII_MEM2_SIZE :: u32 where "WII_MEM2_SIZE = 64 * 1024 * 1024"
definition WII_MEM2_BASE :: u32 where "WII_MEM2_BASE = 0x90000000"
definition WII_MEM2_UNCACHED :: u32 where "WII_MEM2_UNCACHED = 0xD0000000"

definition PPC_EXC_PROGRAM :: u32 where "PPC_EXC_PROGRAM = 0x00000001"
definition PPC_EXC_DSI :: u32 where "PPC_EXC_DSI = 0x00000002"
definition PPC_EXC_ALIGNMENT :: u32 where "PPC_EXC_ALIGNMENT = 0x00000004"
definition PPC_EXC_SYSTEM_CALL :: u32 where "PPC_EXC_SYSTEM_CALL = 0x00000008"
definition PPC_EXC_MACHINE_CHECK :: u32 where "PPC_EXC_MACHINE_CHECK = 0x00000010"
definition PPC_EXC_FP_UNAVAILABLE :: u32 where "PPC_EXC_FP_UNAVAILABLE = 0x00000020"

definition PPC_PROGRAM_ILLEGAL :: u32 where "PPC_PROGRAM_ILLEGAL = 0x00080000"
definition PPC_PROGRAM_PRIV :: u32 where "PPC_PROGRAM_PRIV = 0x00040000"
definition PPC_PROGRAM_TRAP :: u32 where "PPC_PROGRAM_TRAP = 0x00020000"
definition PPC_DSI_EAR_DISABLED :: u32 where "PPC_DSI_EAR_DISABLED = 0x00100000"

definition PPC_VECTOR_MACHINE_CHECK :: u32 where "PPC_VECTOR_MACHINE_CHECK = 0x00200"
definition PPC_VECTOR_DSI :: u32 where "PPC_VECTOR_DSI = 0x00300"
definition PPC_VECTOR_ALIGNMENT :: u32 where "PPC_VECTOR_ALIGNMENT = 0x00600"
definition PPC_VECTOR_PROGRAM :: u32 where "PPC_VECTOR_PROGRAM = 0x00700"
definition PPC_VECTOR_FP_UNAVAILABLE :: u32 where "PPC_VECTOR_FP_UNAVAILABLE = 0x00800"
definition PPC_VECTOR_SYSTEM_CALL :: u32 where "PPC_VECTOR_SYSTEM_CALL = 0x00C00"

definition PPC_HID2_LSQE :: u32 where "PPC_HID2_LSQE = 0x80000000"
definition PPC_HID2_PSE :: u32 where "PPC_HID2_PSE = 0x20000000"
definition PPC_HID2_LCE :: u32 where "PPC_HID2_LCE = 0x10000000"
definition PPC_HID2_DCHERR :: u32 where "PPC_HID2_DCHERR = 0x00800000"
definition PPC_HID2_DCHEE :: u32 where "PPC_HID2_DCHEE = 0x00080000"
definition PPC_GEKKO_PVR :: u32 where "PPC_GEKKO_PVR = 0x00083214"

lemmas memory_map_defs =
  GC_RAM_BASE_def GC_RAM_UNCACHED_def WII_MEM2_BASE_def WII_MEM2_UNCACHED_def

section \<open>The machine state\<close>

record CPUState =
  gpr :: "u32 list"
  fpr :: "u64 list"
  ps1 :: "u64 list"
  pc :: u32
  lr :: u32
  ctr :: u32
  cr :: u32
  xer :: u32
  fpscr :: u32
  msr :: u32
  srr0 :: u32
  srr1 :: u32
  dar :: u32
  dsisr :: u32
  ear :: u32
  hid2 :: u32
  timebase :: u64
  sr :: "u32 list"
  gqr :: "u32 list"
  exception :: u32
  program_exception :: u32
  tlb_last_vps :: u32
  tlb_last_index :: u32
  tlb_invalidate_count :: u32
  external_addr :: u32
  external_value :: u32
  external_rid :: u8
  external_read_count :: u8
  external_write_count :: u8
  reserve_addr :: u32
  reserve_valid :: bool
  locked_cache_tag :: "u32 list"
  locked_cache_valid :: "bool list"
  ram :: "u8 list option"
  ram_size :: u32
  downcount :: u64 \<comment> \<open>\<open>s64\<close>\<close>
  cycle_budget :: u64 \<comment> \<open>\<open>s64\<close>\<close>
  mem2 :: "u8 list option"
  mem2_size :: u32
  journal :: "(u32 \<times> u32) list" \<comment> \<open>calls made to \<open>g_mem_write_journal\<close>\<close>

record host =
  external_read :: "(CPUState \<Rightarrow> u32 \<Rightarrow> u8 \<Rightarrow> u64 \<times> CPUState) option"
  external_write :: "(CPUState \<Rightarrow> u32 \<Rightarrow> u64 \<Rightarrow> u8 \<Rightarrow> CPUState) option"
  external_read32 :: "(CPUState \<Rightarrow> u32 \<Rightarrow> u8 \<Rightarrow> u32 \<times> CPUState) option"
  external_write32 :: "(CPUState \<Rightarrow> u32 \<Rightarrow> u32 \<Rightarrow> u8 \<Rightarrow> CPUState) option"
  instruction_fallback :: "(CPUState \<Rightarrow> u32 \<Rightarrow> u32 \<Rightarrow> CPUState) option"
  host_call :: "(CPUState \<Rightarrow> u32 \<Rightarrow> bool \<times> CPUState) option"
  spr_read :: "(CPUState \<Rightarrow> u16 \<Rightarrow> u32 \<Rightarrow> u32 \<times> CPUState) option"
  spr_write :: "(CPUState \<Rightarrow> u16 \<Rightarrow> u32 \<Rightarrow> u32 \<Rightarrow> CPUState) option"
  cache_control :: "(CPUState \<Rightarrow> u8 \<Rightarrow> u32 \<Rightarrow> u32 \<Rightarrow> CPUState) option"
  mem_write_journal :: bool \<comment> \<open>\<open>g_mem_write_journal\<close> is set\<close>

definition no_host :: host where
  "no_host = \<lparr>external_read = None, external_write = None, external_read32 = None,
     external_write32 = None, instruction_fallback = None, host_call = None, spr_read = None,
     spr_write = None, cache_control = None, mem_write_journal = False\<rparr>"

definition ppc_set_mem_write_journal :: "bool \<Rightarrow> host \<Rightarrow> host" where
  "ppc_set_mem_write_journal fn h = h\<lparr>mem_write_journal := fn\<rparr>"

text \<open>\<open>memset(cpu, 0, sizeof(*cpu))\<close>; the journal is no part of the structure.\<close>

definition zero_cpu :: "(u32 \<times> u32) list \<Rightarrow> CPUState" where
  "zero_cpu log =
    \<lparr>gpr = replicate 32 0, fpr = replicate 32 0, ps1 = replicate 32 0, pc = 0, lr = 0, ctr = 0,
     cr = 0, xer = 0, fpscr = 0, msr = 0, srr0 = 0, srr1 = 0, dar = 0, dsisr = 0, ear = 0,
     hid2 = 0, timebase = 0, sr = replicate 16 0, gqr = replicate 8 0, exception = 0,
     program_exception = 0, tlb_last_vps = 0, tlb_last_index = 0, tlb_invalidate_count = 0,
     external_addr = 0, external_value = 0, external_rid = 0, external_read_count = 0,
     external_write_count = 0, reserve_addr = 0, reserve_valid = False,
     locked_cache_tag = replicate 512 0, locked_cache_valid = replicate 512 False,
     ram = None, ram_size = 0, downcount = 0, cycle_budget = 0, mem2 = None, mem2_size = 0,
     journal = log\<rparr>"

section \<open>Life cycle\<close>

text \<open>\<open>alloc\<close> tells whether \<open>calloc\<close> succeeds.\<close>

definition cpu_init :: "bool \<Rightarrow> (u32 \<times> u32) list \<Rightarrow> bool \<times> CPUState" where
  "cpu_init alloc log =
     (let cpu = (zero_cpu log)\<lparr>ram_size := GC_MAIN_RAM_SIZE\<rparr>;
          cpu = cpu\<lparr>ram := (if alloc then Some (replicate (unat (ram_size cpu)) 0) else None)\<rparr>
      in if ram cpu = None then (False, cpu) else (True, cpu))"

definition cpu_alloc_mem2 :: "bool \<Rightarrow> CPUState \<Rightarrow> u32 \<Rightarrow> bool \<times> CPUState" where
  "cpu_alloc_mem2 alloc cpu sz =
     (let cpu = cpu\<lparr>mem2 := None, mem2_size := 0\<rparr> in
      if sz = 0 then (True, cpu)
      else let cpu = cpu\<lparr>mem2 := (if alloc then Some (replicate (unat sz) 0) else None)\<rparr>
           in if mem2 cpu = None then (False, cpu) else (True, cpu\<lparr>mem2_size := sz\<rparr>))"

definition cpu_free :: "CPUState \<Rightarrow> CPUState" where
  "cpu_free cpu =
     (let cpu = (if ram cpu \<noteq> None then cpu\<lparr>ram := None\<rparr> else cpu)
      in if mem2 cpu \<noteq> None then cpu\<lparr>mem2 := None, mem2_size := 0\<rparr> else cpu)"

text \<open>\<open>memset\<close> on a host buffer: undefined when it leaves the buffer.\<close>

definition clear_bytes :: "u8 list \<Rightarrow> nat \<Rightarrow> u8 list option" where
  "clear_bytes bs n = (if n \<le> length bs then Some (replicate n 0 @ drop n bs) else None)"

definition cpu_reset :: "CPUState \<Rightarrow> CPUState option" where
  "cpu_reset cpu = do {
     let fresh = (zero_cpu (journal cpu))
       \<lparr>ram := ram cpu, ram_size := ram_size cpu, mem2 := mem2 cpu, mem2_size := mem2_size cpu\<rparr>;
     fresh \<leftarrow> (case ram fresh of None \<Rightarrow> Some fresh
       | Some bs \<Rightarrow> do { bs \<leftarrow> clear_bytes bs (unat (ram_size fresh)); Some (fresh\<lparr>ram := Some bs\<rparr>) });
     (case mem2 fresh of None \<Rightarrow> Some fresh
       | Some bs \<Rightarrow> do { bs \<leftarrow> clear_bytes bs (unat (mem2_size fresh)); Some (fresh\<lparr>mem2 := Some bs\<rparr>) })
   }"

section \<open>Guest addresses\<close>

text \<open>A host pointer is one of the two memories and an offset into it.\<close>

datatype region = RAM | MEM2

primrec mem_bytes :: "CPUState \<Rightarrow> region \<Rightarrow> u8 list option" where
  "mem_bytes cpu RAM = ram cpu"
| "mem_bytes cpu MEM2 = mem2 cpu"

primrec put_bytes :: "CPUState \<Rightarrow> region \<Rightarrow> u8 list \<Rightarrow> CPUState" where
  "put_bytes cpu RAM bs = cpu\<lparr>ram := Some bs\<rparr>"
| "put_bytes cpu MEM2 bs = cpu\<lparr>mem2 := Some bs\<rparr>"

text \<open>Adding an offset to a null pointer is undefined.\<close>

definition host_ptr :: "CPUState \<Rightarrow> region \<Rightarrow> u32 \<Rightarrow> (region \<times> u32) option" where
  "host_ptr cpu r offset = (if mem_bytes cpu r = None then None else Some (r, offset))"

definition resolve_addr :: "CPUState \<Rightarrow> u32 \<Rightarrow> ((region \<times> u32) option \<times> u32) option" where
  "resolve_addr cpu addr =
     (if GC_RAM_BASE \<le> addr \<and> addr < GC_RAM_BASE + ram_size cpu then
        let offset = addr - GC_RAM_BASE
        in do { p \<leftarrow> host_ptr cpu RAM offset; Some (Some p, ram_size cpu - offset) }
      else if GC_RAM_UNCACHED \<le> addr \<and> addr < GC_RAM_UNCACHED + ram_size cpu then
        let offset = addr - GC_RAM_UNCACHED
        in do { p \<leftarrow> host_ptr cpu RAM offset; Some (Some p, ram_size cpu - offset) }
      else if mem2 cpu \<noteq> None \<and> mem2_size cpu \<noteq> 0 \<and>
              WII_MEM2_BASE \<le> addr \<and> addr < WII_MEM2_BASE + mem2_size cpu then
        let offset = addr - WII_MEM2_BASE
        in do { p \<leftarrow> host_ptr cpu MEM2 offset; Some (Some p, mem2_size cpu - offset) }
      else if mem2 cpu \<noteq> None \<and> mem2_size cpu \<noteq> 0 \<and>
              WII_MEM2_UNCACHED \<le> addr \<and> addr < WII_MEM2_UNCACHED + mem2_size cpu then
        let offset = addr - WII_MEM2_UNCACHED
        in do { p \<leftarrow> host_ptr cpu MEM2 offset; Some (Some p, mem2_size cpu - offset) }
      else Some (None, 0))"

definition clear_matching_reservation :: "CPUState \<Rightarrow> u32 \<Rightarrow> CPUState" where
  "clear_matching_reservation cpu addr =
     (let ra = reserve_addr cpu AND NOT 0x40000000;
          store_addr = addr AND NOT 0x40000000
      in if reserve_valid cpu \<and> (ra XOR store_addr) AND NOT 31 = 0
         then cpu\<lparr>reserve_valid := False\<rparr> else cpu)"

section \<open>The memory invariant\<close>

text \<open>Both buffers have the length the size field says.  \<open>layout_ok\<close>: the four windows of the
  memory map do not run into each other.\<close>

definition buf_ok :: "u8 list option \<Rightarrow> u32 \<Rightarrow> bool" where
  "buf_ok b sz = (case b of None \<Rightarrow> False | Some bs \<Rightarrow> length bs = unat sz)"

definition wf_mem :: "CPUState \<Rightarrow> bool" where
  "wf_mem cpu \<longleftrightarrow>
     buf_ok (ram cpu) (ram_size cpu) \<and>
     (if mem2 cpu = None then mem2_size cpu = 0 else buf_ok (mem2 cpu) (mem2_size cpu))"

definition layout_ok :: "CPUState \<Rightarrow> bool" where
  "layout_ok cpu \<longleftrightarrow> ram_size cpu \<le> 0x10000000 \<and> mem2_size cpu \<le> 0x2FFFFFFF"

definition wf_regs :: "CPUState \<Rightarrow> bool" where
  "wf_regs cpu \<longleftrightarrow> length (gpr cpu) = 32 \<and> length (fpr cpu) = 32 \<and> length (ps1 cpu) = 32 \<and>
     length (sr cpu) = 16 \<and> length (gqr cpu) = 8 \<and> length (locked_cache_tag cpu) = 512 \<and>
     length (locked_cache_valid cpu) = 512"

lemma buf_ok_simps [simp]:
  "buf_ok (Some bs) n \<longleftrightarrow> length bs = unat n" "buf_ok None n \<longleftrightarrow> False"
  by (simp_all add: buf_ok_def)

lemma buf_okE:
  assumes "buf_ok b n" obtains bs where "b = Some bs" "length bs = unat n"
  using assms by (auto simp: buf_ok_def split: option.splits)

lemma wf_regs_zero: "wf_regs (zero_cpu log)"
  by (simp add: wf_regs_def zero_cpu_def)

lemma cpu_init_ok: "cpu_init True log = (True, cpu) \<Longrightarrow> wf_mem cpu \<and> layout_ok cpu \<and> wf_regs cpu"
  by (auto simp: cpu_init_def Let_def wf_mem_def layout_ok_def wf_regs_def zero_cpu_def
    GC_MAIN_RAM_SIZE_def)

lemma cpu_alloc_mem2_ok:
  "wf_mem cpu \<Longrightarrow> wf_mem (snd (cpu_alloc_mem2 alloc cpu sz))"
  by (auto simp: cpu_alloc_mem2_def Let_def wf_mem_def)

text \<open>A reset keeps the buffers and their sizes, zeroes them, and zeroes everything else.\<close>

lemma cpu_reset_eq:
  assumes "wf_mem cpu"
  shows "cpu_reset cpu = Some ((zero_cpu (journal cpu))
    \<lparr>ram := Some (replicate (unat (ram_size cpu)) 0), ram_size := ram_size cpu,
     mem2 := map_option (\<lambda>bs. replicate (unat (mem2_size cpu)) 0) (mem2 cpu),
     mem2_size := mem2_size cpu\<rparr>)"
proof -
  from assms obtain bs where "ram cpu = Some bs" "length bs = unat (ram_size cpu)"
    by (auto simp: wf_mem_def elim: buf_okE)
  then show ?thesis
    using assms by (cases "mem2 cpu") (auto simp: cpu_reset_def clear_bytes_def wf_mem_def)
qed

section \<open>Properties\<close>

text \<open>An initialised machine satisfies the memory invariant and the layout of the memory
  map; allocating the second memory keeps the invariant whether or not the allocation succeeds; a
  reset keeps both buffers and their sizes, zeroes them and zeroes every register.\<close>

theorem cpu_lifecycle:
  assumes "cpu_init True log = (True, cpu)"
  shows "wf_mem cpu \<and> layout_ok cpu \<and> wf_regs cpu \<and>
    (let cpu' = snd (cpu_alloc_mem2 alloc cpu sz) in wf_mem cpu' \<and>
      cpu_reset cpu' = Some ((zero_cpu (journal cpu'))
        \<lparr>ram := Some (replicate (unat (ram_size cpu')) 0), ram_size := ram_size cpu',
         mem2 := map_option (\<lambda>bs. replicate (unat (mem2_size cpu')) 0) (mem2 cpu'),
         mem2_size := mem2_size cpu'\<rparr>))"
  using cpu_init_ok [OF assms] cpu_alloc_mem2_ok [of cpu alloc sz] cpu_reset_eq
  by (simp add: Let_def)

theorem cpu_lifecycle_witness: "wf_mem (snd (cpu_init True []))"
  using cpu_lifecycle [of "[]" "snd (cpu_init True [])"] by (simp add: cpu_init_def Let_def)

end
