(* ===== verification/CpuMem.thy ===== *)
theory CpuMem
  imports CpuState
begin

text \<open>
  The guest memory accesses of \<open>src/cpu/cpu.c\<close>.  An access is \<open>None\<close> when the C code would leave a
  host buffer.  The locale \<open>guest_port\<close> states what a fixed-width access pair does on a resolved and
  on an unresolved address; everything the processor relies on is proved in it once and holds of
  the four widths by interpretation.
\<close>

section \<open>The accesses\<close>

text \<open>\<open>if (g_mem_write_journal && host >= cpu->ram && host < cpu->ram + cpu->ram_size)\<close>: the write
  lies in the main memory.\<close>

definition journal_write :: "host \<Rightarrow> CPUState \<Rightarrow> region \<Rightarrow> u32 \<Rightarrow> u32 \<Rightarrow> CPUState" where
  "journal_write h cpu r offset bytes =
     (if mem_write_journal h \<and> r = RAM then cpu\<lparr>journal := journal cpu @ [(offset, bytes)]\<rparr> else cpu)"

definition mem_read64 :: "host \<Rightarrow> CPUState \<Rightarrow> u32 \<Rightarrow> (u64 \<times> CPUState) option" where
  "mem_read64 h cpu addr = do {
     (host, avail) \<leftarrow> resolve_addr cpu addr;
     if host = None \<or> avail < 8 then
       (case external_read h of
          Some f \<Rightarrow> let (v, cpu) = f cpu addr 8 in Some (v, cpu)
        | None \<Rightarrow> Some (0, cpu))
     else do {
       (r, offset) \<leftarrow> host;
       bs \<leftarrow> mem_bytes cpu r;
       v \<leftarrow> read_be64 bs (unat offset);
       Some (v, cpu) } }"

definition mem_write64 :: "host \<Rightarrow> CPUState \<Rightarrow> u32 \<Rightarrow> u64 \<Rightarrow> CPUState option" where
  "mem_write64 h cpu addr value = do {
     (host, avail) \<leftarrow> resolve_addr cpu addr;
     if host = None \<or> avail < 8 then
       (case external_write h of
          Some f \<Rightarrow> Some (f cpu addr value 8)
        | None \<Rightarrow> Some cpu)
     else do {
       (r, offset) \<leftarrow> host;
       let cpu = clear_matching_reservation cpu addr;
       let cpu = journal_write h cpu r offset 8;
       bs \<leftarrow> mem_bytes cpu r;
       bs \<leftarrow> write_be64 bs (unat offset) value;
       Some (put_bytes cpu r bs) } }"

definition mem_read32 :: "host \<Rightarrow> CPUState \<Rightarrow> u32 \<Rightarrow> (u32 \<times> CPUState) option" where
  "mem_read32 h cpu addr = do {
     (host, avail) \<leftarrow> resolve_addr cpu addr;
     if host = None \<or> avail < 4 then
       (case external_read h of
          Some f \<Rightarrow> let (v, cpu) = f cpu addr 4 in Some (ucast v, cpu)
        | None \<Rightarrow> Some (0, cpu))
     else do {
       (r, offset) \<leftarrow> host;
       bs \<leftarrow> mem_bytes cpu r;
       v \<leftarrow> read_be32 bs (unat offset);
       Some (v, cpu) } }"

definition mem_write32 :: "host \<Rightarrow> CPUState \<Rightarrow> u32 \<Rightarrow> u32 \<Rightarrow> CPUState option" where
  "mem_write32 h cpu addr value = do {
     (host, avail) \<leftarrow> resolve_addr cpu addr;
     if host = None \<or> avail < 4 then
       (case external_write h of
          Some f \<Rightarrow> Some (f cpu addr (ucast value) 4)
        | None \<Rightarrow> Some cpu)
     else do {
       (r, offset) \<leftarrow> host;
       let cpu = clear_matching_reservation cpu addr;
       let cpu = journal_write h cpu r offset 4;
       bs \<leftarrow> mem_bytes cpu r;
       bs \<leftarrow> write_be32 bs (unat offset) value;
       Some (put_bytes cpu r bs) } }"

definition mem_read16 :: "host \<Rightarrow> CPUState \<Rightarrow> u32 \<Rightarrow> (u16 \<times> CPUState) option" where
  "mem_read16 h cpu addr = do {
     (host, avail) \<leftarrow> resolve_addr cpu addr;
     if host = None \<or> avail < 2 then
       (case external_read h of
          Some f \<Rightarrow> let (v, cpu) = f cpu addr 2 in Some (ucast v, cpu)
        | None \<Rightarrow> Some (0, cpu))
     else do {
       (r, offset) \<leftarrow> host;
       bs \<leftarrow> mem_bytes cpu r;
       v \<leftarrow> read_be16 bs (unat offset);
       Some (v, cpu) } }"

definition mem_write16 :: "host \<Rightarrow> CPUState \<Rightarrow> u32 \<Rightarrow> u16 \<Rightarrow> CPUState option" where
  "mem_write16 h cpu addr value = do {
     (host, avail) \<leftarrow> resolve_addr cpu addr;
     if host = None \<or> avail < 2 then
       (case external_write h of
          Some f \<Rightarrow> Some (f cpu addr (ucast value) 2)
        | None \<Rightarrow> Some cpu)
     else do {
       (r, offset) \<leftarrow> host;
       let cpu = clear_matching_reservation cpu addr;
       let cpu = journal_write h cpu r offset 2;
       bs \<leftarrow> mem_bytes cpu r;
       bs \<leftarrow> write_be16 bs (unat offset) value;
       Some (put_bytes cpu r bs) } }"

definition mem_read8 :: "host \<Rightarrow> CPUState \<Rightarrow> u32 \<Rightarrow> (u8 \<times> CPUState) option" where
  "mem_read8 h cpu addr = do {
     (host, avail) \<leftarrow> resolve_addr cpu addr;
     if host = None then
       (case external_read h of
          Some f \<Rightarrow> let (v, cpu) = f cpu addr 1 in Some (ucast v, cpu)
        | None \<Rightarrow> Some (0, cpu))
     else do {
       (r, offset) \<leftarrow> host;
       bs \<leftarrow> mem_bytes cpu r;
       v \<leftarrow> read_u8 bs (unat offset);
       Some (v, cpu) } }"

definition mem_write8 :: "host \<Rightarrow> CPUState \<Rightarrow> u32 \<Rightarrow> u8 \<Rightarrow> CPUState option" where
  "mem_write8 h cpu addr value = do {
     (host, avail) \<leftarrow> resolve_addr cpu addr;
     if host = None then
       (case external_write h of
          Some f \<Rightarrow> Some (f cpu addr (ucast value) 1)
        | None \<Rightarrow> Some cpu)
     else do {
       (r, offset) \<leftarrow> host;
       let cpu = clear_matching_reservation cpu addr;
       let cpu = journal_write h cpu r offset 1;
       bs \<leftarrow> mem_bytes cpu r;
       bs \<leftarrow> write_u8 bs (unat offset) value;
       Some (put_bytes cpu r bs) } }"

section \<open>Address resolution\<close>

lemma resolve_addr_total:
  assumes "wf_mem cpu" shows "\<exists>host avail. resolve_addr cpu addr = Some (host, avail)"
proof -
  from assms obtain bs where "ram cpu = Some bs"
    by (auto simp: wf_mem_def elim: buf_okE)
  then show ?thesis
    by (simp add: resolve_addr_def host_ptr_def Let_def)
qed

text \<open>A window that does not wrap around leaves room behind the offset.\<close>

lemma window_avail:
  fixes base sz addr :: u32
  assumes "base \<le> addr" "addr < base + sz"
  shows "unat (addr - base) + unat (sz - (addr - base)) = unat sz" "0 < sz - (addr - base)"
    "unat (addr - base) < unat sz"
proof -
  have "addr - base < sz"
    using assms by uint_arith
  then show "unat (addr - base) + unat (sz - (addr - base)) = unat sz"
    "0 < sz - (addr - base)" "unat (addr - base) < unat sz"
    by unat_arith+
qed

definition mem_size :: "CPUState \<Rightarrow> region \<Rightarrow> u32" where
  "mem_size cpu r = (case r of RAM \<Rightarrow> ram_size cpu | MEM2 \<Rightarrow> mem2_size cpu)"

lemma resolve_addr_avail:
  assumes "resolve_addr cpu addr = Some (Some (r, offset), avail)"
  shows "unat offset + unat avail = unat (mem_size cpu r)" "0 < avail"
    "unat offset < unat (mem_size cpu r)" "mem_bytes cpu r \<noteq> None"
proof -
  have *: "unat offset + unat avail = unat (mem_size cpu r) \<and> 0 < avail \<and>
      unat offset < unat (mem_size cpu r) \<and> mem_bytes cpu r \<noteq> None"
    using assms window_avail [of _ addr "ram_size cpu"] window_avail [of _ addr "mem2_size cpu"]
    by (auto simp: resolve_addr_def host_ptr_def Let_def mem_size_def split: if_splits)
  then show "unat offset + unat avail = unat (mem_size cpu r)" "0 < avail"
    "unat offset < unat (mem_size cpu r)" "mem_bytes cpu r \<noteq> None" by simp_all
qed

text \<open>Resolution depends on the buffers' presence and sizes only.\<close>

lemma resolve_addr_cong:
  assumes "ram cpu' = None \<longleftrightarrow> ram cpu = None" "mem2 cpu' = None \<longleftrightarrow> mem2 cpu = None"
    and "ram_size cpu' = ram_size cpu" "mem2_size cpu' = mem2_size cpu"
  shows "resolve_addr cpu' a = resolve_addr cpu a"
proof -
  have "host_ptr cpu' r off = host_ptr cpu r off" for r off
    using assms by (cases r) (simp_all add: host_ptr_def)
  then show ?thesis
    using assms by (simp only: resolve_addr_def Let_def)
qed

text \<open>Neither clearing a reservation nor the journal touches the memories.\<close>

lemma bookkeeping_simps [simp]:
  "mem_bytes (clear_matching_reservation cpu a) r = mem_bytes cpu r"
  "mem_bytes (journal_write h cpu r' off n) r = mem_bytes cpu r"
  "mem_size (clear_matching_reservation cpu a) r = mem_size cpu r"
  "mem_size (journal_write h cpu r' off n) r = mem_size cpu r"
  "reserve_valid (journal_write h cpu r' off n) = reserve_valid cpu"
  "reserve_addr (journal_write h cpu r' off n) = reserve_addr cpu"
  "reserve_addr (clear_matching_reservation cpu a) = reserve_addr cpu"
  "journal (clear_matching_reservation cpu a) = journal cpu"
  by (cases r; simp add: clear_matching_reservation_def journal_write_def Let_def mem_size_def)+

lemma put_bytes_simps [simp]:
  "mem_bytes (put_bytes cpu r bs) r' = (if r' = r then Some bs else mem_bytes cpu r')"
  "mem_size (put_bytes cpu r bs) r' = mem_size cpu r'"
  "reserve_valid (put_bytes cpu r bs) = reserve_valid cpu"
  "reserve_addr (put_bytes cpu r bs) = reserve_addr cpu"
  "journal (put_bytes cpu r bs) = journal cpu"
  by (cases r; cases r'; simp add: mem_size_def)+

lemma wf_mem_iff:
  "wf_mem cpu \<longleftrightarrow> buf_ok (mem_bytes cpu RAM) (mem_size cpu RAM) \<and>
     (if mem_bytes cpu MEM2 = None then mem_size cpu MEM2 = 0
      else buf_ok (mem_bytes cpu MEM2) (mem_size cpu MEM2))"
  by (simp add: wf_mem_def mem_size_def)

lemma wf_mem_bytes:
  "wf_mem cpu \<Longrightarrow> mem_bytes cpu r \<noteq> None \<Longrightarrow>
   \<exists>bs. mem_bytes cpu r = Some bs \<and> length bs = unat (mem_size cpu r)"
  by (cases r) (auto simp: wf_mem_def mem_size_def)

text \<open>The state a store leaves: \<open>bs\<close> is the new contents of region \<open>r\<close>.\<close>

definition stored :: "host \<Rightarrow> CPUState \<Rightarrow> u32 \<Rightarrow> region \<Rightarrow> u32 \<Rightarrow> u32 \<Rightarrow> u8 list \<Rightarrow> CPUState" where
  "stored h cpu addr r offset bytes bs =
     put_bytes (journal_write h (clear_matching_reservation cpu addr) r offset bytes) r bs"

lemma wf_mem_stored:
  assumes "wf_mem cpu" "mem_bytes cpu r = Some bs" "length bs' = length bs"
  shows "wf_mem (stored h cpu addr r offset n bs')"
  using assms by (cases r) (auto simp: wf_mem_iff stored_def simp del: put_bytes.simps mem_bytes.simps)

lemma resolve_stored:
  assumes "mem_bytes cpu r \<noteq> None"
  shows "resolve_addr (stored h cpu addr r offset n bs) a = resolve_addr cpu a"
  using assms
  by (cases r) (auto intro!: resolve_addr_cong
    simp: stored_def journal_write_def clear_matching_reservation_def Let_def)

section \<open>The interface of a fixed-width access pair\<close>

text \<open>The access at \<open>addr\<close> is served by \<open>n\<close> bytes at offset \<open>off\<close> of region \<open>r\<close>.\<close>

definition mapped :: "nat \<Rightarrow> CPUState \<Rightarrow> u32 \<Rightarrow> region \<Rightarrow> u32 \<Rightarrow> bool" where
  "mapped n cpu addr r off \<longleftrightarrow>
     (case resolve_addr cpu addr of Some (Some (r', off'), avail) \<Rightarrow> r' = r \<and> off' = off \<and> n \<le> unat avail
      | _ \<Rightarrow> False)"

lemma mapped_iff:
  "mapped n cpu addr r off \<longleftrightarrow>
     (\<exists>avail. resolve_addr cpu addr = Some (Some (r, off), avail) \<and> n \<le> unat avail)"
  by (auto simp: mapped_def split: option.splits)

lemma mapped_unique: "mapped n cpu a r off \<Longrightarrow> mapped n cpu a r' off' \<Longrightarrow> r' = r \<and> off' = off"
  by (auto simp: mapped_iff)

lemma mapped_inside: "mapped n cpu addr r off \<Longrightarrow> unat off + n \<le> unat (mem_size cpu r)"
  by (auto simp: mapped_iff dest!: resolve_addr_avail(1))

lemma mappedE:
  assumes "mapped n cpu addr r off"
  obtains avail where "resolve_addr cpu addr = Some (Some (r, off), avail)" "n \<le> unat avail"
  using assms by (auto simp: mapped_iff)

text \<open>The host serves what is not mapped, and keeps the memory invariant.\<close>

definition host_ok :: "host \<Rightarrow> bool" where
  "host_ok h \<longleftrightarrow>
     (\<forall>f. external_write h = Some f \<longrightarrow> (\<forall>cpu a v n. wf_mem cpu \<longrightarrow> wf_mem (f cpu a v n)))"

locale guest_port = be_codec width peek poke
  for width :: nat and peek :: "u8 list \<Rightarrow> nat \<Rightarrow> 'a option"
    and poke :: "u8 list \<Rightarrow> nat \<Rightarrow> 'a \<Rightarrow> u8 list option" +
  fixes load :: "host \<Rightarrow> CPUState \<Rightarrow> u32 \<Rightarrow> ('a \<times> CPUState) option"
    and store :: "host \<Rightarrow> CPUState \<Rightarrow> u32 \<Rightarrow> 'a \<Rightarrow> CPUState option"
    and narrow :: "u64 \<Rightarrow> 'a" and widen :: "'a \<Rightarrow> u64"
  assumes load_hit: "resolve_addr cpu a = Some (Some (r, off), avail) \<Longrightarrow> width \<le> unat avail \<Longrightarrow>
      load h cpu a = do { bs \<leftarrow> mem_bytes cpu r; v \<leftarrow> peek bs (unat off); Some (v, cpu) }"
    and load_miss: "resolve_addr cpu a = Some (p, avail) \<Longrightarrow> p = None \<or> unat avail < width \<Longrightarrow>
      load h cpu a = Some (case external_read h of None \<Rightarrow> (narrow 0, cpu)
        | Some f \<Rightarrow> (narrow (fst (f cpu a (of_nat width))), snd (f cpu a (of_nat width))))"
    and store_hit: "resolve_addr cpu a = Some (Some (r, off), avail) \<Longrightarrow> width \<le> unat avail \<Longrightarrow>
      store h cpu a v = do { bs \<leftarrow> mem_bytes cpu r; bs \<leftarrow> poke bs (unat off) v;
        Some (stored h cpu a r off (of_nat width) bs) }"
    and store_miss: "resolve_addr cpu a = Some (p, avail) \<Longrightarrow> p = None \<or> unat avail < width \<Longrightarrow>
      store h cpu a v = Some (case external_write h of None \<Rightarrow> cpu
        | Some f \<Rightarrow> f cpu a (widen v) (of_nat width))"
begin

text \<open>No access of a well-formed machine leaves its buffers, whatever the address.\<close>

lemma load_total:
  assumes wf: "wf_mem cpu" shows "\<exists>v cpu'. load h cpu a = Some (v, cpu')"
proof -
  obtain p avail where res: "resolve_addr cpu a = Some (p, avail)"
    using resolve_addr_total [OF wf] by blast
  show ?thesis
  proof (cases "p = None \<or> unat avail < width")
    case True
    then show ?thesis
      by (simp add: load_miss [OF res] split: option.split)
  next
    case False
    then obtain r off where p: "p = Some (r, off)" by auto
    note av = resolve_addr_avail [OF res [unfolded p]]
    obtain bs where bs: "mem_bytes cpu r = Some bs" "length bs = unat (mem_size cpu r)"
      using wf_mem_bytes [OF wf av(4)] by blast
    obtain v where "peek bs (unat off) = Some v"
      using rd_defined [of "unat off" bs] bs av(1) False by auto
    then show ?thesis
      using False bs load_hit [OF res [unfolded p]] by simp
  qed
qed

lemma store_cases:
  assumes wf: "wf_mem cpu"
  obtains (hit) r off bs bs' where "mapped width cpu a r off" "mem_bytes cpu r = Some bs"
      "poke bs (unat off) v = Some bs'" "store h cpu a v = Some (stored h cpu a r off (of_nat width) bs')"
  | (miss) "\<And>r off. \<not> mapped width cpu a r off"
      "store h cpu a v = Some (case external_write h of None \<Rightarrow> cpu
        | Some f \<Rightarrow> f cpu a (widen v) (of_nat width))"
proof -
  obtain p avail where res: "resolve_addr cpu a = Some (p, avail)"
    using resolve_addr_total [OF wf] by blast
  show thesis
  proof (cases "p = None \<or> unat avail < width")
    case True
    then show thesis
      using store_miss [OF res] by (intro miss) (auto simp: mapped_iff res)
  next
    case False
    then obtain r off where p: "p = Some (r, off)" by auto
    note av = resolve_addr_avail [OF res [unfolded p]]
    obtain bs where bs: "mem_bytes cpu r = Some bs" "length bs = unat (mem_size cpu r)"
      using wf_mem_bytes [OF wf av(4)] by blast
    obtain bs' where "poke bs (unat off) v = Some bs'"
      using wr_defined [of "unat off" bs] bs av(1) False by auto
    then show thesis
      using False bs store_hit [OF res [unfolded p]] res p by (intro hit) (auto simp: mapped_iff)
  qed
qed

lemma store_total: "wf_mem cpu \<Longrightarrow> \<exists>cpu'. store h cpu a v = Some cpu'"
  by (erule store_cases [of cpu a v h]) auto

lemma store_wf:
  assumes "wf_mem cpu" "host_ok h" "store h cpu a v = Some cpu'"
  shows "wf_mem cpu'"
  using assms(1)
proof (cases rule: store_cases [of cpu a v h])
  case hit
  then show ?thesis
    using assms wf_mem_stored wr_length by fastforce
next
  case miss
  then show ?thesis
    using assms by (auto simp: host_ok_def split: option.splits)
qed

text \<open>A mapped store is seen by every load the same bytes serve.\<close>

lemma load_after_store:
  assumes wf: "wf_mem cpu" and a: "mapped width cpu a r off" and b: "mapped width cpu b r off"
    and st: "store h cpu a v = Some cpu'"
  shows "load h cpu' b = Some (v, cpu')"
  using wf
proof (cases rule: store_cases [of cpu a v h])
  case (hit r' off' bs bs')
  have same: "r' = r" "off' = off"
    using mapped_unique [OF a hit(1)] by simp_all
  have cpu': "cpu' = stored h cpu a r off (of_nat width) bs'"
    using st hit(4) same by simp
  from b obtain avail where res: "resolve_addr cpu b = Some (Some (r, off), avail)"
    and av: "width \<le> unat avail"
    by (rule mappedE)
  have "resolve_addr cpu' b = Some (Some (r, off), avail)"
    using res hit(2) same by (simp add: cpu' resolve_stored)
  moreover have "peek bs' (unat off) = Some v"
    using rd_wr hit(3) same by simp
  moreover have "mem_bytes cpu' r = Some bs'"
    by (simp add: cpu' stored_def)
  ultimately show ?thesis
    using load_hit av by simp
next
  case miss
  with a show ?thesis by simp
qed

text \<open>It changes nothing outside its own bytes.\<close>

lemma load_frame:
  assumes wf: "wf_mem cpu" and a: "mapped width cpu a r off" and b: "mapped width cpu b r' off'"
    and apart: "r \<noteq> r' \<or> unat off' + width \<le> unat off \<or> unat off + width \<le> unat off'"
    and st: "store h cpu a v = Some cpu'" and ld: "load h cpu b = Some (w, cpu)"
  shows "load h cpu' b = Some (w, cpu')"
  using wf
proof (cases rule: store_cases [of cpu a v h])
  case (hit r2 off2 bs bs')
  have same: "r2 = r" "off2 = off"
    using mapped_unique [OF a hit(1)] by simp_all
  have cpu': "cpu' = stored h cpu a r off (of_nat width) bs'"
    using st hit(4) same by simp
  from b obtain avail where res: "resolve_addr cpu b = Some (Some (r', off'), avail)"
    and av: "width \<le> unat avail"
    by (rule mappedE)
  have res': "resolve_addr cpu' b = Some (Some (r', off'), avail)"
    using res hit(2) same by (simp add: cpu' resolve_stored)
  from ld obtain cs where cs: "mem_bytes cpu r' = Some cs" "peek cs (unat off') = Some w"
    by (auto simp: load_hit [OF res av] bind_eq_Some_conv)
  show ?thesis
  proof (cases "r' = r")
    case True
    then have "cs = bs"
      using cs hit(2) same by simp
    then have "peek bs' (unat off') = Some w"
      using rd_disjoint [OF hit(3), of "unat off'"] cs apart True same by auto
    then show ?thesis
      using True load_hit [OF res' av] by (simp add: cpu' stored_def)
  next
    case False
    then show ?thesis
      using cs load_hit [OF res' av] by (simp add: cpu' stored_def)
  qed
next
  case miss
  with a show ?thesis by simp
qed

lemma store_mapped:
  assumes wf: "wf_mem cpu" and a: "mapped width cpu a r off" and st: "store h cpu a v = Some cpu'"
  obtains bs bs' where "mem_bytes cpu r = Some bs" "poke bs (unat off) v = Some bs'"
    "cpu' = stored h cpu a r off (of_nat width) bs'"
  using wf
proof (cases rule: store_cases [of cpu a v h])
  case (hit r2 off2 bs bs')
  have "r2 = r" "off2 = off"
    using mapped_unique [OF a hit(1)] by simp_all
  then show thesis
    using that [of bs bs'] st hit by simp
next
  case miss
  with a show thesis by simp
qed

text \<open>It keeps the memory invariant, whatever the host, and the map itself.\<close>

lemma store_keeps:
  assumes wf: "wf_mem cpu" and a: "mapped width cpu a r off" and st: "store h cpu a v = Some cpu'"
  shows "wf_mem cpu'" "mapped m cpu' b r' off' \<longleftrightarrow> mapped m cpu b r' off'"
    "layout_ok cpu' \<longleftrightarrow> layout_ok cpu"
proof -
  obtain bs bs' where b: "mem_bytes cpu r = Some bs" "poke bs (unat off) v = Some bs'"
    "cpu' = stored h cpu a r off (of_nat width) bs'"
    using store_mapped [OF wf a st] .
  show "wf_mem cpu'"
    unfolding b(3) using wf b(1) wr_length [OF b(2)] by (rule wf_mem_stored)
  show "mapped m cpu' b r' off' \<longleftrightarrow> mapped m cpu b r' off'"
    using b(1) by (simp only: mapped_def b(3)) (simp add: resolve_stored)
  show "layout_ok cpu' \<longleftrightarrow> layout_ok cpu"
    unfolding b(3)
    by (cases r) (simp_all add: layout_ok_def stored_def journal_write_def
      clear_matching_reservation_def Let_def)
qed

text \<open>It clears the reservation of its line and no other, and is reported to the journal exactly
  when it lies in the main memory.\<close>

lemma store_bookkeeping:
  assumes wf: "wf_mem cpu" and a: "mapped width cpu a r off" and st: "store h cpu a v = Some cpu'"
  shows "reserve_valid cpu' \<longleftrightarrow> reserve_valid cpu \<and>
      ((reserve_addr cpu AND NOT 0x40000000) XOR (a AND NOT 0x40000000)) AND NOT 31 \<noteq> 0"
    and "journal cpu' = journal cpu @
      (if mem_write_journal h \<and> r = RAM then [(off, of_nat width)] else [])"
proof -
  obtain bs bs' where cpu': "cpu' = stored h cpu a r off (of_nat width) bs'"
    using store_mapped [OF wf a st] .
  show "reserve_valid cpu' \<longleftrightarrow> reserve_valid cpu \<and>
      ((reserve_addr cpu AND NOT 0x40000000) XOR (a AND NOT 0x40000000)) AND NOT 31 \<noteq> 0"
    by (auto simp: cpu' stored_def clear_matching_reservation_def Let_def)
  show "journal cpu' = journal cpu @
      (if mem_write_journal h \<and> r = RAM then [(off, of_nat width)] else [])"
    by (simp add: cpu' stored_def journal_write_def)
qed

end

text \<open>A resolved pointer has at least one byte behind it, which is all an 8-bit access needs.\<close>

lemma resolve_addr_one: "resolve_addr cpu a = Some (p, avail) \<Longrightarrow> unat avail < 1 \<Longrightarrow> p = None"
  using resolve_addr_avail(2) [of cpu a _ _ avail] by (cases p) (auto simp: word_less_nat_alt)

interpretation port8: guest_port 1 read_u8 write_u8 mem_read8 mem_write8 ucast ucast
proof (unfold_locales, goal_cases)
  case (2 cpu a p avail h)
  then show ?case
    using resolve_addr_one [of cpu a p avail]
    by (auto simp: mem_read8_def split: option.splits prod.splits)
next
  case (4 cpu a p avail h v)
  then show ?case
    using resolve_addr_one [of cpu a p avail]
    by (auto simp: mem_write8_def split: option.splits prod.splits)
qed (simp_all add: mem_read8_def mem_write8_def stored_def Let_def)

lemma avail_less:
  "unat (avail :: u32) < 2 \<longleftrightarrow> avail < 2" "unat avail < 4 \<longleftrightarrow> avail < 4" "unat avail < 8 \<longleftrightarrow> avail < 8"
  "2 \<le> unat avail \<longleftrightarrow> \<not> avail < 2" "4 \<le> unat avail \<longleftrightarrow> \<not> avail < 4" "8 \<le> unat avail \<longleftrightarrow> \<not> avail < 8"
  by (simp_all add: word_less_nat_alt not_less)

interpretation port16: guest_port 2 read_be16 write_be16 mem_read16 mem_write16 ucast ucast
  by unfold_locales (auto simp: mem_read16_def mem_write16_def stored_def Let_def avail_less
    split: option.splits prod.splits)

interpretation port32: guest_port 4 read_be32 write_be32 mem_read32 mem_write32 ucast ucast
  by unfold_locales (auto simp: mem_read32_def mem_write32_def stored_def Let_def avail_less
    split: option.splits prod.splits)

interpretation port64: guest_port 8 read_be64 write_be64 mem_read64 mem_write64 "\<lambda>v. v" "\<lambda>v. v"
  by unfold_locales (auto simp: mem_read64_def mem_write64_def stored_def Let_def avail_less
    split: option.splits prod.splits)

section \<open>The uncached mirror\<close>

text \<open>The two mirrors of a memory are one: an address of a cached window and the uncached address
  \<open>0x40000000\<close> above resolve to the same bytes.\<close>

lemma unat_add_bounded:
  "unat (x :: u32) + unat y < 4294967296 \<Longrightarrow> unat (x + y) = unat x + unat y"
  by (subst unat_add_lem [THEN iffD1]) simp_all

lemma resolve_mirror:
  assumes "layout_ok cpu" "0x80000000 \<le> a" "a < 0xC0000000"
  shows "resolve_addr cpu (a + 0x40000000) = resolve_addr cpu a"
proof -
  let ?b = "a + 0x40000000"
  have ram_sz: "ram_size cpu \<le> 0x10000000" and mem2_sz: "mem2_size cpu \<le> 0x2FFFFFFF"
    using assms by (simp_all add: layout_ok_def)
  have bounds: "unat (ram_size cpu) \<le> 0x10000000" "unat (mem2_size cpu) \<le> 0x2FFFFFFF"
    "0x80000000 \<le> unat a" "unat a < 0xC0000000"
    using assms ram_sz mem2_sz by (simp_all add: word_le_nat_alt word_less_nat_alt)
  have sums: "unat ?b = unat a + 0x40000000"
    "unat (0x80000000 + ram_size cpu) = 0x80000000 + unat (ram_size cpu)"
    "unat (0xC0000000 + ram_size cpu) = 0xC0000000 + unat (ram_size cpu)"
    "unat (0x90000000 + mem2_size cpu) = 0x90000000 + unat (mem2_size cpu)"
    "unat (0xD0000000 + mem2_size cpu) = 0xD0000000 + unat (mem2_size cpu)"
    using bounds by (simp_all add: unat_add_bounded)
  note as_nat = word_le_nat_alt word_less_nat_alt sums
  have a: "\<not> (0xC0000000 \<le> a)" "\<not> (0xD0000000 \<le> a)"
    using bounds unfolding as_nat by simp_all
  have b: "\<not> (?b < 0x80000000 + ram_size cpu)" "\<not> (?b < 0x90000000 + mem2_size cpu)"
    using bounds unfolding as_nat by simp_all
  have w: "(0xC0000000 \<le> ?b \<and> ?b < 0xC0000000 + ram_size cpu) =
      (0x80000000 \<le> a \<and> a < 0x80000000 + ram_size cpu)"
    "(0xD0000000 \<le> ?b \<and> ?b < 0xD0000000 + mem2_size cpu) =
      (0x90000000 \<le> a \<and> a < 0x90000000 + mem2_size cpu)"
    unfolding as_nat by simp_all
  have o: "?b - 0xC0000000 = a - 0x80000000" "?b - 0xD0000000 = a - 0x90000000"
    by simp_all
  show ?thesis
    unfolding resolve_addr_def memory_map_defs w o Let_def
    using a b by (cases "mem2 cpu") simp_all
qed

lemma mapped_mirror:
  "layout_ok cpu \<Longrightarrow> 0x80000000 \<le> a \<Longrightarrow> a < 0xC0000000 \<Longrightarrow>
   mapped n cpu (a + 0x40000000) r off \<longleftrightarrow> mapped n cpu a r off"
  by (simp only: mapped_def resolve_mirror)

text \<open>Where the windows are.\<close>

lemma mapped_ram:
  assumes "wf_mem cpu" "unat off + n \<le> unat (ram_size cpu)" "0 < n" "layout_ok cpu"
  shows "mapped n cpu (GC_RAM_BASE + off) RAM off"
proof -
  from assms obtain bs where "ram cpu = Some bs"
    by (auto simp: wf_mem_def elim: buf_okE)
  moreover have lt: "off < ram_size cpu" "unat (ram_size cpu) \<le> 0x10000000"
    using assms by (simp_all add: word_less_nat_alt layout_ok_def word_le_nat_alt)
  moreover have "unat (0x80000000 + off) = 0x80000000 + unat off"
    "unat (0x80000000 + ram_size cpu) = 0x80000000 + unat (ram_size cpu)"
    using lt by (simp_all add: unat_add_bounded word_less_nat_alt)
  then have "0x80000000 \<le> 0x80000000 + off" "0x80000000 + off < 0x80000000 + ram_size cpu"
    using lt by (simp_all add: word_le_nat_alt word_less_nat_alt)
  moreover have "n \<le> unat (ram_size cpu - off)"
    using assms lt by (simp add: unat_sub word_le_nat_alt)
  ultimately show ?thesis
    by (simp add: mapped_iff resolve_addr_def host_ptr_def GC_RAM_BASE_def)
qed

section \<open>Properties\<close>

text \<open>C15 On a machine that satisfies the memory invariant no guest access, of any width at
  any address, leaves a host buffer, and every store keeps the invariant.\<close>

theorem mem_access_safe:
  assumes "wf_mem cpu" "host_ok h"
  shows "(\<exists>r. mem_read8 h cpu a = Some r) \<and> (\<exists>r. mem_read16 h cpu a = Some r) \<and>
    (\<exists>r. mem_read32 h cpu a = Some r) \<and> (\<exists>r. mem_read64 h cpu a = Some r) \<and>
    (\<exists>c. mem_write8 h cpu a v8 = Some c \<and> wf_mem c) \<and>
    (\<exists>c. mem_write16 h cpu a v16 = Some c \<and> wf_mem c) \<and>
    (\<exists>c. mem_write32 h cpu a v32 = Some c \<and> wf_mem c) \<and>
    (\<exists>c. mem_write64 h cpu a v64 = Some c \<and> wf_mem c)"
  using assms port8.load_total port16.load_total port32.load_total port64.load_total
    port8.store_total [of cpu h a v8] port16.store_total [of cpu h a v16]
    port32.store_total [of cpu h a v32] port64.store_total [of cpu h a v64]
    port8.store_wf [OF assms] port16.store_wf [OF assms] port32.store_wf [OF assms]
    port64.store_wf [OF assms]
  by meson

text \<open>A machine with 64 bytes of main memory.\<close>

definition small_cpu :: CPUState where
  "small_cpu = (zero_cpu [])\<lparr>ram := Some (replicate 64 0), ram_size := 64\<rparr>"

lemma small_cpu_ok: "wf_mem small_cpu" "layout_ok small_cpu" "wf_regs small_cpu" "host_ok no_host"
  by (simp_all add: small_cpu_def wf_mem_def layout_ok_def wf_regs_def zero_cpu_def host_ok_def
    no_host_def)

theorem mem_access_safe_witness: "\<exists>r. mem_read32 no_host small_cpu 0x8000003E = Some r"
  using mem_access_safe [OF small_cpu_ok(1,4), of "0x8000003E"] by blast

text \<open>C21 What is stored through a cached address is read back through it and through the
  uncached mirror \<open>0x40000000\<close> above, and the other way round.\<close>

theorem mem_mirror_coherent:
  assumes "wf_mem cpu" "layout_ok cpu" "0x80000000 \<le> a" "a < 0xC0000000" "mapped 4 cpu a r off"
    and "mem_write32 h cpu a v = Some c1" "mem_write32 h cpu (a + 0x40000000) v = Some c2"
  shows "mem_read32 h c1 a = Some (v, c1) \<and> mem_read32 h c1 (a + 0x40000000) = Some (v, c1) \<and>
    mem_read32 h c2 a = Some (v, c2) \<and> mem_read32 h c2 (a + 0x40000000) = Some (v, c2)"
proof -
  have m: "mapped 4 cpu (a + 0x40000000) r off"
    using assms by (simp add: mapped_mirror)
  show ?thesis
    using port32.load_after_store [OF assms(1,5) _ assms(6)] port32.load_after_store [OF assms(1) m _ assms(7)]
      m assms(5) by blast
qed

lemma small_cpu_mapped: "mapped 4 small_cpu 0x80000010 RAM 0x10"
  using mapped_ram [OF small_cpu_ok(1), of "0x10" 4] small_cpu_ok(2)
  by (simp add: small_cpu_def GC_RAM_BASE_def)

theorem mem_mirror_coherent_witness:
  "\<exists>c. mem_write32 no_host small_cpu 0x80000010 7 = Some c \<and> mem_read32 no_host c 0xC0000010 = Some (7, c)"
proof -
  obtain c1 c2 where "mem_write32 no_host small_cpu 0x80000010 7 = Some c1"
    "mem_write32 no_host small_cpu (0x80000010 + 0x40000000) 7 = Some c2"
    using port32.store_total [OF small_cpu_ok(1)] by blast
  then show ?thesis
    using mem_mirror_coherent [OF small_cpu_ok(1,2) _ _ small_cpu_mapped, of no_host 7 c1 c2] by simp
qed

text \<open>C22 A mapped store changes no word apart from its own bytes, clears the reservation
  exactly when it starts in the reserved line (in either mirror), and is reported to the journal
  exactly when it lies in the main memory.\<close>

theorem mem_store_frame:
  assumes "wf_mem cpu" "mapped 4 cpu a r off" "mem_write32 h cpu a v = Some cpu'"
    and "mapped 4 cpu b r' off'" "mem_read32 h cpu b = Some (w, cpu)"
    and "r \<noteq> r' \<or> unat off' + 4 \<le> unat off \<or> unat off + 4 \<le> unat off'"
  shows "mem_read32 h cpu' b = Some (w, cpu') \<and>
    (reserve_valid cpu' \<longleftrightarrow> reserve_valid cpu \<and>
      ((reserve_addr cpu AND NOT 0x40000000) XOR (a AND NOT 0x40000000)) AND NOT 31 \<noteq> 0) \<and>
    journal cpu' = journal cpu @ (if mem_write_journal h \<and> r = RAM then [(off, 4)] else [])"
  using port32.load_frame [OF assms(1,2,4,6,3,5)] port32.store_bookkeeping [OF assms(1,2,3)] by simp

theorem mem_store_frame_witness:
  "\<exists>c. mem_write32 no_host small_cpu 0x80000010 7 = Some c \<and> mem_read32 no_host c 0x80000014 = Some (0, c)"
proof -
  obtain c where c: "mem_write32 no_host small_cpu 0x80000010 7 = Some c"
    using port32.store_total [OF small_cpu_ok(1)] by blast
  have m: "mapped 4 small_cpu 0x80000014 RAM 0x14"
    using mapped_ram [OF small_cpu_ok(1), of "0x14" 4] small_cpu_ok(2)
    by (simp add: small_cpu_def GC_RAM_BASE_def)
  have "mem_read32 no_host small_cpu 0x80000014 = Some (0, small_cpu)"
    by (simp add: mem_read32_def resolve_addr_def host_ptr_def small_cpu_def zero_cpu_def
      GC_RAM_BASE_def read_be32_eq be32_def)
  then show ?thesis
    using mem_store_frame [OF small_cpu_ok(1) small_cpu_mapped c m] c by simp
qed


end
