(* ===== verification/CpuExc.thy ===== *)
theory CpuExc
  imports CpuMem
begin

text \<open>
  The exception, register and control operations of \<open>src/cpu/cpu.c\<close>: exception entry and return,
  the special purpose registers, the reservation store, the locked cache, external access, string
  loads, the trap condition and the status bits of \<open>FPSCR\<close>.
\<close>

section \<open>The machine state register\<close>

definition PPC_BIT :: "nat \<Rightarrow> u32" where "PPC_BIT n = shl 1 (31 - n)"

definition PPC_MSR_RFI_MASK :: u32 where "PPC_MSR_RFI_MASK = 0x87C0FFFF"
definition PPC_MSR_POW :: u32 where "PPC_MSR_POW = PPC_BIT 13"
definition PPC_MSR_ILE :: u32 where "PPC_MSR_ILE = PPC_BIT 15"
definition PPC_MSR_EE :: u32 where "PPC_MSR_EE = PPC_BIT 16"
definition PPC_MSR_PR :: u32 where "PPC_MSR_PR = PPC_BIT 17"
definition PPC_MSR_FP :: u32 where "PPC_MSR_FP = PPC_BIT 18"
definition PPC_MSR_ME :: u32 where "PPC_MSR_ME = PPC_BIT 19"
definition PPC_MSR_FE0 :: u32 where "PPC_MSR_FE0 = PPC_BIT 20"
definition PPC_MSR_SE :: u32 where "PPC_MSR_SE = PPC_BIT 21"
definition PPC_MSR_BE :: u32 where "PPC_MSR_BE = PPC_BIT 22"
definition PPC_MSR_FE1 :: u32 where "PPC_MSR_FE1 = PPC_BIT 23"
definition PPC_MSR_IP :: u32 where "PPC_MSR_IP = PPC_BIT 25"
definition PPC_MSR_IR :: u32 where "PPC_MSR_IR = PPC_BIT 26"
definition PPC_MSR_DR :: u32 where "PPC_MSR_DR = PPC_BIT 27"
definition PPC_MSR_PM :: u32 where "PPC_MSR_PM = PPC_BIT 29"
definition PPC_MSR_RI :: u32 where "PPC_MSR_RI = PPC_BIT 30"
definition PPC_MSR_LE :: u32 where "PPC_MSR_LE = PPC_BIT 31"
definition PPC_EAR_ENABLE :: u32 where "PPC_EAR_ENABLE = 0x80000000"
definition PPC_SRR1_MACHINE_CHECK_DCBZL :: u32 where "PPC_SRR1_MACHINE_CHECK_DCBZL = PPC_BIT 10"

lemmas msr_defs =
  PPC_BIT_def PPC_MSR_RFI_MASK_def PPC_MSR_POW_def PPC_MSR_ILE_def PPC_MSR_EE_def PPC_MSR_PR_def
  PPC_MSR_FP_def PPC_MSR_ME_def PPC_MSR_FE0_def PPC_MSR_SE_def PPC_MSR_BE_def PPC_MSR_FE1_def
  PPC_MSR_IP_def PPC_MSR_IR_def PPC_MSR_DR_def PPC_MSR_PM_def PPC_MSR_RI_def PPC_MSR_LE_def

definition exception_vector_address :: "u32 \<Rightarrow> u32 \<Rightarrow> u32" where
  "exception_vector_address m vector = (if m AND PPC_MSR_IP \<noteq> 0 then 0xFFF00000 else 0) + vector"

definition exception_msr :: "u32 \<Rightarrow> u32 \<Rightarrow> u32" where
  "exception_msr old_msr exc =
     (let clear = PPC_MSR_POW OR PPC_MSR_EE OR PPC_MSR_PR OR PPC_MSR_FP OR
                  PPC_MSR_FE0 OR PPC_MSR_SE OR PPC_MSR_BE OR PPC_MSR_FE1 OR
                  PPC_MSR_IR OR PPC_MSR_DR OR PPC_MSR_PM OR PPC_MSR_RI OR PPC_MSR_LE;
          clear = (if exc AND PPC_EXC_MACHINE_CHECK \<noteq> 0 then clear OR PPC_MSR_ME else clear);
          next_msr = old_msr AND NOT clear
      in if old_msr AND PPC_MSR_ILE \<noteq> 0 then next_msr OR PPC_MSR_LE else next_msr)"

section \<open>Exceptions\<close>

definition ppc_take_exception :: "CPUState \<Rightarrow> u32 \<Rightarrow> u32 \<Rightarrow> u32 \<Rightarrow> u32 \<Rightarrow> CPUState" where
  "ppc_take_exception cpu exc vector srr0' srr1_info =
     (let old_msr = msr cpu;
          cpu = cpu\<lparr>srr0 := srr0', srr1 := (old_msr AND PPC_MSR_RFI_MASK) OR srr1_info,
                    exception := exception cpu OR exc, msr := exception_msr old_msr exc\<rparr>
      in cpu\<lparr>pc := exception_vector_address (msr cpu) vector\<rparr>)"

definition ppc_program_exception :: "CPUState \<Rightarrow> u32 \<Rightarrow> u32 \<Rightarrow> CPUState" where
  "ppc_program_exception cpu cause cia =
     ppc_take_exception (cpu\<lparr>program_exception := program_exception cpu OR cause\<rparr>)
       PPC_EXC_PROGRAM PPC_VECTOR_PROGRAM cia cause"

definition ppc_fp_available :: "CPUState \<Rightarrow> u32 \<Rightarrow> bool \<times> CPUState" where
  "ppc_fp_available cpu cia =
     (if msr cpu AND PPC_MSR_FP \<noteq> 0 then (True, cpu)
      else (False, ppc_take_exception cpu PPC_EXC_FP_UNAVAILABLE PPC_VECTOR_FP_UNAVAILABLE cia 0))"

definition ppc_fp_available_inline :: "CPUState \<Rightarrow> u32 \<Rightarrow> bool \<times> CPUState" where
  "ppc_fp_available_inline cpu cia =
     (if msr cpu AND 0x00002000 \<noteq> 0 then (True, cpu) else ppc_fp_available cpu cia)"

definition ppc_fallback_instruction :: "host \<Rightarrow> CPUState \<Rightarrow> u32 \<Rightarrow> u32 \<Rightarrow> CPUState" where
  "ppc_fallback_instruction h cpu raw cia =
     (case instruction_fallback h of Some f \<Rightarrow> f cpu raw cia
      | None \<Rightarrow> ppc_program_exception cpu PPC_PROGRAM_ILLEGAL cia)"

definition ppc_host_call :: "host \<Rightarrow> CPUState \<Rightarrow> u32 \<Rightarrow> bool \<times> CPUState" where
  "ppc_host_call h cpu address =
     (case host_call h of Some f \<Rightarrow> f cpu address | None \<Rightarrow> (False, cpu))"

definition ppc_native_region_available :: "host \<Rightarrow> CPUState \<Rightarrow> u32 \<Rightarrow> u32 \<Rightarrow> bool \<times> CPUState" where
  "ppc_native_region_available h cpu start end =
     (case host_call h of None \<Rightarrow> (True, cpu)
      | Some call \<Rightarrow>
          let saved_addr = external_addr cpu;
              saved_value = external_value cpu;
              saved_rid = external_rid cpu;
              cpu = cpu\<lparr>external_addr := start, external_value := end, external_rid := 0xFE\<rparr>;
              (blocked, cpu) = call cpu 0xFFFFFFFC;
              handled = (external_rid cpu = 0xFF);
              cpu = cpu\<lparr>external_addr := saved_addr, external_value := saved_value,
                        external_rid := saved_rid\<rparr>
          in (handled \<and> \<not> blocked, cpu))"

definition ppc_system_call_exception :: "CPUState \<Rightarrow> u32 \<Rightarrow> CPUState" where
  "ppc_system_call_exception cpu cia =
     ppc_take_exception cpu PPC_EXC_SYSTEM_CALL PPC_VECTOR_SYSTEM_CALL (cia + 4) 0"

definition ppc_dsi_exception :: "CPUState \<Rightarrow> u32 \<Rightarrow> u32 \<Rightarrow> u32 \<Rightarrow> CPUState" where
  "ppc_dsi_exception cpu ea cia dsisr' =
     ppc_take_exception (cpu\<lparr>dar := ea, dsisr := dsisr'\<rparr>) PPC_EXC_DSI PPC_VECTOR_DSI cia 0"

definition ppc_alignment_exception :: "CPUState \<Rightarrow> u32 \<Rightarrow> u32 \<Rightarrow> CPUState" where
  "ppc_alignment_exception cpu ea cia =
     ppc_take_exception (cpu\<lparr>dar := ea\<rparr>) PPC_EXC_ALIGNMENT PPC_VECTOR_ALIGNMENT cia 0"

definition ppc_rfi :: "CPUState \<Rightarrow> u32 \<Rightarrow> CPUState" where
  "ppc_rfi cpu cia =
     (if msr cpu AND PPC_MSR_PR \<noteq> 0 then ppc_program_exception cpu PPC_PROGRAM_PRIV cia
      else let cpu = cpu\<lparr>msr := (msr cpu AND NOT PPC_MSR_RFI_MASK) OR (srr1 cpu AND PPC_MSR_RFI_MASK)\<rparr>;
               cpu = cpu\<lparr>msr := msr cpu AND NOT PPC_MSR_POW\<rparr>
           in cpu\<lparr>pc := srr0 cpu AND NOT 3\<rparr>)"

section \<open>Integer flags\<close>

definition ppc_add_overflowed :: "u32 \<Rightarrow> u32 \<Rightarrow> u32 \<Rightarrow> bool" where
  "ppc_add_overflowed a b result \<longleftrightarrow> shr ((a XOR result) AND (b XOR result)) 31 \<noteq> 0"

definition ppc_set_xer_ov :: "CPUState \<Rightarrow> bool \<Rightarrow> CPUState" where
  "ppc_set_xer_ov cpu ov =
     (let cpu = cpu\<lparr>xer := (xer cpu AND NOT 0x40000000) OR (if ov then 0x40000000 else 0)\<rparr>
      in if ov then cpu\<lparr>xer := xer cpu OR 0x80000000\<rparr> else cpu)"

definition ppc_trap_condition :: "u8 \<Rightarrow> u32 \<Rightarrow> u32 \<Rightarrow> bool" where
  "ppc_trap_condition to a b \<longleftrightarrow>
     (sint a < sint b \<and> to AND 0x10 \<noteq> 0) \<or>
     (sint b < sint a \<and> to AND 0x08 \<noteq> 0) \<or>
     (sint a = sint b \<and> to AND 0x04 \<noteq> 0) \<or>
     (a < b \<and> to AND 0x02 \<noteq> 0) \<or>
     (b < a \<and> to AND 0x01 \<noteq> 0)"

section \<open>Special purpose registers\<close>

definition ppc_mftb :: "CPUState \<Rightarrow> u16 \<Rightarrow> u32 \<Rightarrow> u32 \<times> CPUState" where
  "ppc_mftb cpu tbr cia =
     (if tbr = 268 then (ucast (timebase cpu), cpu)
      else if tbr = 269 then (ucast (shr (timebase cpu) 32), cpu)
      else (0, ppc_program_exception cpu PPC_PROGRAM_ILLEGAL cia))"

definition SPR_READ :: u8 where "SPR_READ = 1"
definition SPR_WRITE :: u8 where "SPR_WRITE = 2"
definition SPR_STORAGE :: u8 where "SPR_STORAGE = 4"
definition SPR_RW :: u8 where "SPR_RW = SPR_READ OR SPR_WRITE OR SPR_STORAGE"
definition SPR_RO :: u8 where "SPR_RO = SPR_READ OR SPR_STORAGE"

text \<open>The table \<open>ppc_spr_access[1024]\<close>, entries not named are zero.\<close>

definition ppc_spr_access :: "u16 \<Rightarrow> u8" where
  "ppc_spr_access spr =
     (if spr = 287 then SPR_RO
      else if spr \<in> {22, 25, 272, 273, 274, 275} then SPR_RW
      else if 528 \<le> spr \<and> spr \<le> 543 then SPR_RW
      else if 921 \<le> spr \<and> spr \<le> 923 then SPR_RW
      else if 936 \<le> spr \<and> spr \<le> 942 then SPR_READ OR SPR_WRITE
      else if 952 \<le> spr \<and> spr \<le> 958 then SPR_RW
      else if spr \<in> {1008, 1009, 1010, 1013, 1017, 1019, 1020, 1021, 1022} then SPR_RW
      else 0)"

text \<open>The two switches return a value for a register of the machine state, \<open>None\<close> otherwise.
  \<open>cpu->gqr[spr - 912]\<close> is in range for the labels that reach it.\<close>

definition mfspr_cases :: "CPUState \<Rightarrow> u16 \<Rightarrow> u32 option" where
  "mfspr_cases cpu spr =
     (if spr = 1 then Some (xer cpu) else if spr = 8 then Some (lr cpu)
      else if spr = 9 then Some (ctr cpu) else if spr = 18 then Some (dsisr cpu)
      else if spr = 19 then Some (dar cpu) else if spr = 26 then Some (srr0 cpu)
      else if spr = 27 then Some (srr1 cpu) else if spr = 282 then Some (ear cpu)
      else if 912 \<le> spr \<and> spr \<le> 919 then Some (gqr cpu ! unat (spr - 912))
      else if spr = 920 then Some (hid2 cpu) else None)"

definition ppc_mfspr :: "host \<Rightarrow> CPUState \<Rightarrow> u16 \<Rightarrow> u32 \<Rightarrow> u32 \<times> CPUState" where
  "ppc_mfspr h cpu spr cia =
     (if msr cpu AND PPC_MSR_PR \<noteq> 0 \<and> spr \<noteq> 1 \<and> spr \<noteq> 8 \<and> spr \<noteq> 9 \<and> spr \<noteq> 268 \<and> spr \<noteq> 269
      then (0, ppc_program_exception cpu PPC_PROGRAM_PRIV cia)
      else case mfspr_cases cpu spr of Some v \<Rightarrow> (v, cpu)
      | None \<Rightarrow>
          if spr = 287 then
            (case spr_read h of Some f \<Rightarrow> f cpu spr cia | None \<Rightarrow> (PPC_GEKKO_PVR, cpu))
          else (case spr_read h of
            Some f \<Rightarrow> if spr < 1024 \<and> ppc_spr_access spr AND SPR_READ \<noteq> 0 then f cpu spr cia
              else (0, ppc_program_exception cpu PPC_PROGRAM_ILLEGAL cia)
          | None \<Rightarrow> (0, ppc_program_exception cpu PPC_PROGRAM_ILLEGAL cia)))"

definition mtspr_cases :: "CPUState \<Rightarrow> u16 \<Rightarrow> u32 \<Rightarrow> CPUState option" where
  "mtspr_cases cpu spr value =
     (if spr = 1 then Some (cpu\<lparr>xer := value\<rparr>) else if spr = 8 then Some (cpu\<lparr>lr := value\<rparr>)
      else if spr = 9 then Some (cpu\<lparr>ctr := value\<rparr>) else if spr = 18 then Some (cpu\<lparr>dsisr := value\<rparr>)
      else if spr = 19 then Some (cpu\<lparr>dar := value\<rparr>) else if spr = 26 then Some (cpu\<lparr>srr0 := value\<rparr>)
      else if spr = 27 then Some (cpu\<lparr>srr1 := value\<rparr>) else if spr = 282 then Some (cpu\<lparr>ear := value\<rparr>)
      else if spr = 284 then
        Some (cpu\<lparr>timebase := (timebase cpu AND 0xFFFFFFFF00000000) OR ucast value\<rparr>)
      else if spr = 285 then
        Some (cpu\<lparr>timebase := (shl (ucast value) 32) OR (timebase cpu AND 0xFFFFFFFF)\<rparr>)
      else if 912 \<le> spr \<and> spr \<le> 919 then Some (cpu\<lparr>gqr := (gqr cpu)[unat (spr - 912) := value]\<rparr>)
      else if spr = 920 then Some (cpu\<lparr>hid2 := value\<rparr>) else None)"

definition ppc_mtspr :: "host \<Rightarrow> CPUState \<Rightarrow> u16 \<Rightarrow> u32 \<Rightarrow> u32 \<Rightarrow> CPUState" where
  "ppc_mtspr h cpu spr value cia =
     (if msr cpu AND PPC_MSR_PR \<noteq> 0 \<and> spr \<noteq> 1 \<and> spr \<noteq> 8 \<and> spr \<noteq> 9
      then ppc_program_exception cpu PPC_PROGRAM_PRIV cia
      else case mtspr_cases cpu spr value of Some cpu \<Rightarrow> cpu
      | None \<Rightarrow>
          (case spr_write h of
            Some f \<Rightarrow> if spr < 1024 \<and> ppc_spr_access spr AND SPR_WRITE \<noteq> 0 then f cpu spr value cia
              else ppc_program_exception cpu PPC_PROGRAM_ILLEGAL cia
          | None \<Rightarrow> ppc_program_exception cpu PPC_PROGRAM_ILLEGAL cia))"

section \<open>String loads\<close>

text \<open>\<open>for (u32 i = 0; i < count; i++) if (((first + i) & 31u) == reg) return true;\<close>\<close>

definition wrapped_register_range_contains :: "u8 \<Rightarrow> u32 \<Rightarrow> u8 \<Rightarrow> bool" where
  "wrapped_register_range_contains first count reg \<longleftrightarrow>
     list_ex (\<lambda>i. (ucast first + of_nat i) AND 31 = (ucast reg :: u32)) [0..<unat count]"

text \<open>The loop of \<open>ppc_lswx\<close> from byte \<open>n\<close> on, \<open>k\<close> bytes left.\<close>

fun lswx_loop :: "host \<Rightarrow> CPUState \<Rightarrow> u8 \<Rightarrow> u32 \<Rightarrow> nat \<Rightarrow> nat \<Rightarrow> CPUState option" where
  "lswx_loop h cpu rD ea n 0 = Some cpu"
| "lswx_loop h cpu rD ea n (Suc k) = do {
     let reg = unat ((ucast rD + of_nat n div 4) AND 31 :: u32);
     cpu \<leftarrow> (if (of_nat n :: u32) AND 3 = 0
       then do { g \<leftarrow> arr_set (gpr cpu) reg 0; Some (cpu\<lparr>gpr := g\<rparr>) } else Some cpu);
     (v, cpu) \<leftarrow> mem_read8 h cpu (ea + of_nat n);
     old \<leftarrow> arr_get (gpr cpu) reg;
     g \<leftarrow> arr_set (gpr cpu) reg (old OR shl (ucast v) (24 - 8 * (n mod 4)));
     lswx_loop h (cpu\<lparr>gpr := g\<rparr>) rD ea (n + 1) k }"

definition ppc_lswx :: "host \<Rightarrow> CPUState \<Rightarrow> u8 \<Rightarrow> u8 \<Rightarrow> u8 \<Rightarrow> u32 \<Rightarrow> CPUState option" where
  "ppc_lswx h cpu rD rA rB cia =
     (let count = xer cpu AND 0x7F;
          reg_count = (count + 3) div 4
      in if wrapped_register_range_contains rD reg_count rA \<or>
            wrapped_register_range_contains rD reg_count rB
         then Some (ppc_program_exception cpu PPC_PROGRAM_ILLEGAL cia)
         else do {
           a \<leftarrow> (if rA \<noteq> 0 then arr_get (gpr cpu) (unat rA) else Some 0);
           b \<leftarrow> arr_get (gpr cpu) (unat rB);
           lswx_loop h cpu rD (a + b) 0 (unat count) })"

section \<open>Cache and external control\<close>

definition ppc_cache_control :: "host \<Rightarrow> CPUState \<Rightarrow> u8 \<Rightarrow> u32 \<Rightarrow> u32 \<Rightarrow> CPUState" where
  "ppc_cache_control h cpu operation ea cia =
     (if operation = 2 \<and> msr cpu AND PPC_MSR_PR \<noteq> 0
      then ppc_program_exception cpu PPC_PROGRAM_PRIV cia
      else case cache_control h of Some f \<Rightarrow> f cpu operation ea cia | None \<Rightarrow> cpu)"

text \<open>\<open>for (u32 i = 0; i < 32; i += 4) mem_write32(cpu, block + i, 0);\<close>\<close>

fun zero_block :: "host \<Rightarrow> CPUState \<Rightarrow> u32 \<Rightarrow> nat \<Rightarrow> CPUState option" where
  "zero_block h cpu addr 0 = Some cpu"
| "zero_block h cpu addr (Suc k) = do {
     cpu \<leftarrow> mem_write32 h cpu addr 0; zero_block h cpu (addr + 4) k }"

definition ppc_dcbz_l :: "host \<Rightarrow> CPUState \<Rightarrow> u32 \<Rightarrow> u32 \<Rightarrow> CPUState option" where
  "ppc_dcbz_l h cpu ea cia =
     (if msr cpu AND PPC_MSR_PR \<noteq> 0 then Some (ppc_program_exception cpu PPC_PROGRAM_PRIV cia)
      else if hid2 cpu AND PPC_HID2_LCE = 0
      then Some (ppc_program_exception cpu PPC_PROGRAM_ILLEGAL cia)
      else
        let block = ea AND NOT 31;
            slot = unat (shr block 5 AND 511)
        in do {
          valid \<leftarrow> arr_get (locked_cache_valid cpu) slot;
          tag \<leftarrow> arr_get (locked_cache_tag cpu) slot;
          let hit = (valid \<and> tag = block);
          let first_hit_error = (hit \<and> hid2 cpu AND PPC_HID2_DCHERR = 0);
          cpu \<leftarrow> (if hit then
              let cpu = cpu\<lparr>hid2 := hid2 cpu OR PPC_HID2_DCHERR\<rparr>
              in Some (if first_hit_error \<and> hid2 cpu AND PPC_HID2_DCHEE \<noteq> 0 \<and>
                          msr cpu AND PPC_MSR_EE \<noteq> 0 \<and> msr cpu AND PPC_MSR_ME \<noteq> 0
                       then ppc_take_exception cpu PPC_EXC_MACHINE_CHECK PPC_VECTOR_MACHINE_CHECK
                              cia PPC_SRR1_MACHINE_CHECK_DCBZL
                       else cpu)
            else do {
              vs \<leftarrow> arr_set (locked_cache_valid cpu) slot True;
              ts \<leftarrow> arr_set (locked_cache_tag cpu) slot block;
              Some (cpu\<lparr>locked_cache_valid := vs, locked_cache_tag := ts\<rparr>) });
          zero_block h cpu block 8 })"

definition ppc_eciwx :: "host \<Rightarrow> CPUState \<Rightarrow> u32 \<Rightarrow> u32 \<Rightarrow> u32 \<times> CPUState" where
  "ppc_eciwx h cpu ea cia =
     (if ear cpu AND PPC_EAR_ENABLE = 0
      then (0, ppc_dsi_exception cpu ea cia PPC_DSI_EAR_DISABLED)
      else if ea AND 3 \<noteq> 0 then (0, ppc_alignment_exception cpu ea cia)
      else
        let rid = ucast (ear cpu AND 0xF);
            cpu = cpu\<lparr>external_addr := ea, external_rid := rid,
                      external_read_count := external_read_count cpu + 1\<rparr>
        in case external_read32 h of Some f \<Rightarrow> f cpu ea rid | None \<Rightarrow> (0, cpu))"

definition ppc_ecowx :: "host \<Rightarrow> CPUState \<Rightarrow> u32 \<Rightarrow> u32 \<Rightarrow> u32 \<Rightarrow> CPUState" where
  "ppc_ecowx h cpu ea value cia =
     (if ear cpu AND PPC_EAR_ENABLE = 0 then ppc_dsi_exception cpu ea cia PPC_DSI_EAR_DISABLED
      else if ea AND 3 \<noteq> 0 then ppc_alignment_exception cpu ea cia
      else
        let rid = ucast (ear cpu AND 0xF);
            cpu = cpu\<lparr>external_addr := ea, external_value := value, external_rid := rid,
                      external_write_count := external_write_count cpu + 1\<rparr>
        in case external_write32 h of Some f \<Rightarrow> f cpu ea value rid | None \<Rightarrow> cpu)"

definition ppc_tlbie :: "CPUState \<Rightarrow> u32 \<Rightarrow> u32 \<Rightarrow> CPUState" where
  "ppc_tlbie cpu ea cia =
     (if msr cpu AND PPC_MSR_PR \<noteq> 0 then ppc_program_exception cpu PPC_PROGRAM_PRIV cia
      else cpu\<lparr>tlb_last_vps := shr ea 12 AND 0xFFFF, tlb_last_index := shr ea 12 AND 0x3F,
               tlb_invalidate_count := tlb_invalidate_count cpu + 1\<rparr>)"

section \<open>The conditional store\<close>

definition ppc_stwcx_op :: "host \<Rightarrow> CPUState \<Rightarrow> u8 \<Rightarrow> u32 \<Rightarrow> u32 \<Rightarrow> CPUState option" where
  "ppc_stwcx_op h cpu s ea cia =
     (if ea AND 3 \<noteq> 0 then Some (ppc_alignment_exception cpu ea cia)
      else
        let so = shr (xer cpu) 31 AND 1;
            success = (reserve_valid cpu \<and> ea = reserve_addr cpu)
        in do {
          cpu \<leftarrow> (if success then do {
              v \<leftarrow> arr_get (gpr cpu) (unat s);
              cpu \<leftarrow> mem_write32 h cpu ea v;
              Some (cpu\<lparr>reserve_valid := False\<rparr>) }
            else Some cpu);
          Some (cpu\<lparr>cr := (cr cpu AND 0x0FFFFFFF) OR
                         shl ((if success then 2 else 0) OR so) 28\<rparr>) })"

section \<open>Status bits of the floating point unit\<close>

definition ppc_fpscr_updated :: "CPUState \<Rightarrow> CPUState" where
  "ppc_fpscr_updated cpu =
     (let vx_any = 0x01F80700;
          any_e = 0x000000F8;
          f = fpscr cpu;
          f = (f AND NOT 0x20000000) OR (if f AND vx_any \<noteq> 0 then 0x20000000 else 0);
          f = (f AND NOT 0x40000000) OR (if shr f 22 AND f AND any_e \<noteq> 0 then 0x40000000 else 0)
      in cpu\<lparr>fpscr := f\<rparr>)"

definition set_fp_exception :: "CPUState \<Rightarrow> u32 \<Rightarrow> CPUState" where
  "set_fp_exception cpu b =
     (let cpu = (if fpscr cpu AND b \<noteq> b then cpu\<lparr>fpscr := fpscr cpu OR 0x80000000\<rparr> else cpu)
      in ppc_fpscr_updated (cpu\<lparr>fpscr := fpscr cpu OR b\<rparr>))"

text \<open>The host rounding mode and flush-to-zero control of \<open>ppc_fpscr_control_updated\<close>: the first
  is the index into \<open>rounding\<close> handed to \<open>fesetround\<close>, the second whether \<open>0x8040\<close> is set in the
  control register.\<close>

definition ppc_fpscr_control_updated :: "CPUState \<Rightarrow> (u32 \<times> bool) \<times> CPUState" where
  "ppc_fpscr_control_updated cpu =
     (let cpu = ppc_fpscr_updated cpu
      in ((fpscr cpu AND 3, fpscr cpu AND 4 \<noteq> 0), cpu))"

text \<open>The shift of \<open>0x80000000u >> bit\<close> is defined for a bit number below the width.\<close>

definition ppc_mtfsb0_op :: "CPUState \<Rightarrow> u8 \<Rightarrow> ((u32 \<times> bool) \<times> CPUState) option" where
  "ppc_mtfsb0_op cpu b =
     (if b < 32
      then Some (ppc_fpscr_control_updated
        (cpu\<lparr>fpscr := fpscr cpu AND NOT (shr 0x80000000 (unat b))\<rparr>))
      else None)"

definition ppc_mtfsb1_op :: "CPUState \<Rightarrow> u8 \<Rightarrow> ((u32 \<times> bool) \<times> CPUState) option" where
  "ppc_mtfsb1_op cpu b =
     (if b < 32
      then let m = shr 0x80000000 (unat b)
           in Some (ppc_fpscr_control_updated
                (if m AND 0x01F80700 \<noteq> 0 then set_fp_exception cpu m
                 else cpu\<lparr>fpscr := fpscr cpu OR m\<rparr>))
      else None)"

definition set_fprf :: "CPUState \<Rightarrow> u32 \<Rightarrow> CPUState" where
  "set_fprf cpu value =
     cpu\<lparr>fpscr := (fpscr cpu AND NOT (shl 0x1F 12)) OR (shl (value AND 0x1F) 12)\<rparr>"

definition FPSCR_FR :: u32 where "FPSCR_FR = 0x00040000"
definition FPSCR_FI :: u32 where "FPSCR_FI = 0x00020000"

definition clear_fi_fr :: "CPUState \<Rightarrow> CPUState" where
  "clear_fi_fr cpu = cpu\<lparr>fpscr := fpscr cpu AND NOT (FPSCR_FI OR FPSCR_FR)\<rparr>"

section \<open>Exception entry and return\<close>

definition EXC_CLEAR :: u32 where "EXC_CLEAR = 0x0004EF37"

lemma exception_msr_eq:
  "exception_msr m exc =
     (let n = m AND NOT (if exc AND 0x10 \<noteq> 0 then EXC_CLEAR OR 0x1000 else EXC_CLEAR)
      in if m AND 0x00010000 \<noteq> 0 then n OR 1 else n)"
  by (simp add: exception_msr_def msr_defs PPC_EXC_MACHINE_CHECK_def EXC_CLEAR_def Let_def)

lemma exception_msr_pr: "exception_msr m exc AND PPC_MSR_PR = 0"
  by (simp add: exception_msr_eq EXC_CLEAR_def msr_defs Let_def and.assoc bit.conj_disj_distrib2)

text \<open>Outside the bits that \<open>rfi\<close> restores, exception entry clears \<open>MSR[POW]\<close> and nothing else.\<close>

lemma exception_msr_unmasked:
  "exception_msr m exc AND NOT PPC_MSR_RFI_MASK = m AND NOT PPC_MSR_RFI_MASK AND NOT PPC_MSR_POW"
  by (simp add: exception_msr_eq EXC_CLEAR_def msr_defs Let_def and.assoc bit.conj_disj_distrib2)

lemma take_exception_rfi:
  fixes cpu exc vector srr0' info cia
  defines "entered \<equiv> ppc_take_exception cpu exc vector srr0' info"
  shows "msr (ppc_rfi entered cia) = (msr cpu OR (info AND PPC_MSR_RFI_MASK)) AND NOT PPC_MSR_POW"
    and "pc (ppc_rfi entered cia) = srr0' AND NOT 3"
proof -
  let ?M = PPC_MSR_RFI_MASK
  have msr: "msr entered = exception_msr (msr cpu) exc"
    and srr: "srr1 entered = (msr cpu AND ?M) OR info" "srr0 entered = srr0'"
    by (simp_all add: entered_def ppc_take_exception_def Let_def)
  have split: "(x AND NOT ?M AND NOT PPC_MSR_POW) OR ((x AND ?M) OR info) AND ?M =
      (x OR (info AND ?M)) AND NOT PPC_MSR_POW" for x
  proof (rule bit_word_eqI)
    fix n
    have "?M AND PPC_MSR_POW = 0"
      by (simp add: msr_defs)
    then have "\<not> (bit ?M n \<and> bit PPC_MSR_POW n)"
      by (metis bit_and_iff bit_0_eq bot_apply bot_bool_def)
    then show "bit ((x AND NOT ?M AND NOT PPC_MSR_POW) OR ((x AND ?M) OR info) AND ?M) n =
        bit ((x OR (info AND ?M)) AND NOT PPC_MSR_POW) n" if "n < LENGTH(32)"
      using that by (auto simp: bit_and_iff bit_or_iff bit_not_iff)
  qed
  show "msr (ppc_rfi entered cia) = (msr cpu OR (info AND ?M)) AND NOT PPC_MSR_POW"
    using split [of "msr cpu"]
    by (simp add: ppc_rfi_def Let_def msr srr exception_msr_pr exception_msr_unmasked)
  show "pc (ppc_rfi entered cia) = srr0' AND NOT 3"
    by (simp add: ppc_rfi_def Let_def msr srr exception_msr_pr)
qed

section \<open>The integer flags\<close>

lemma sint_range32: "- 2147483648 \<le> sint (x :: u32)" "sint (x :: u32) < 2147483648"
  using sint_range_size [of x] by (simp_all add: word_size)

lemma bit_sign32: "bit (x :: u32) 31 \<longleftrightarrow> sint x < 0"
  using bit_last_iff [of x] by simp

lemma top_bit32: "shr (x :: u32) 31 \<noteq> 0 \<longleftrightarrow> bit x 31"
proof -
  have "shr x 31 = of_bool (bit x 31)"
  proof (rule bit_word_eqI)
    fix n
    have "bit x (31 + n) \<longleftrightarrow> n = 0 \<and> bit x 31"
      using bit_imp_le_length [of x "31 + n"] by (cases n) auto
    then show "bit (shr x 31) n = bit (of_bool (bit x 31) :: u32) n"
      by (auto simp: bit_drop_bit_eq bit_of_bool_iff)
  qed
  then show ?thesis by simp
qed

lemma sint_plus_cases:
  "sint (a + b :: u32) \<in> {sint a + sint b, sint a + sint b - 4294967296, sint a + sint b + 4294967296}"
proof -
  have "(word_of_int (sint (a + b)) :: u32) = word_of_int (sint a + sint b)"
    by simp
  then have "4294967296 dvd sint (a + b) - (sint a + sint b)"
    by (simp only: word_of_int_eq_iff take_bit_int_def mod_eq_dvd_iff) simp
  then obtain k where "sint (a + b) - (sint a + sint b) = 4294967296 * k"
    by (elim dvdE)
  moreover from this have "- 2 < k" "k < 2"
    using sint_range32 [of a] sint_range32 [of b] sint_range32 [of "a + b"] by linarith+
  then have "k = - 1 \<or> k = 0 \<or> k = 1"
    by linarith
  ultimately show ?thesis
    by auto
qed

lemma add_overflowed_iff:
  "ppc_add_overflowed a b (a + b) \<longleftrightarrow> \<not> (- (2 ^ 31) \<le> sint a + sint b \<and> sint a + sint b < 2 ^ 31)"
proof -
  let ?v = "(a XOR (a + b)) AND (b XOR (a + b))"
  have "ppc_add_overflowed a b (a + b) \<longleftrightarrow> bit ?v 31"
    by (simp only: ppc_add_overflowed_def top_bit32)
  also have "\<dots> \<longleftrightarrow> (sint a < 0) \<noteq> (sint (a + b) < 0) \<and> (sint b < 0) \<noteq> (sint (a + b) < 0)"
    unfolding bit_and_iff bit_xor_iff unfolding bit_sign32 by simp
  finally show ?thesis
    using sint_plus_cases [of a b] sint_range32 [of a] sint_range32 [of b] sint_range32 [of "a + b"]
    by auto
qed

text \<open>The \<open>TO\<close> bits a pair of operands satisfies: one of less, greater and equal as signed values,
  and at most one of less and greater as unsigned values.\<close>

definition trap_mask :: "u32 \<Rightarrow> u32 \<Rightarrow> u8" where
  "trap_mask a b =
     (if sint a < sint b then 16 else if sint b < sint a then 8 else 4) OR
     (if a < b then 2 else if b < a then 1 else 0)"

lemma trap_condition_iff: "ppc_trap_condition to a b \<longleftrightarrow> to AND trap_mask a b \<noteq> 0"
proof -
  have or: "to AND (x OR y) \<noteq> 0 \<longleftrightarrow> to AND x \<noteq> 0 \<or> to AND y \<noteq> 0" for x y
    by (auto simp: bit.conj_disj_distrib or_eq_0_iff)
  show ?thesis
    unfolding ppc_trap_condition_def trap_mask_def or by auto
qed

lemma xer_ov_eq:
  "xer (ppc_set_xer_ov cpu ov) =
     (if ov then xer cpu OR 0xC0000000 else xer cpu AND NOT 0x40000000)"
proof -
  have "(x AND NOT 0x40000000) OR 0x40000000 = x OR 0x40000000" for x :: u32
    by (simp add: bit.disj_conj_distrib2 del: bit.compl_eq_compl_iff) 
  then show ?thesis
    by (simp add: ppc_set_xer_ov_def Let_def or.assoc)
qed

section \<open>The interface of the register file\<close>

text \<open>What a client of the special purpose registers relies on: a register reads back the value
  written to it, and a write changes no other register.\<close>

locale spr_file =
  fixes regs :: "'k set"
    and get :: "'s \<Rightarrow> 'k \<Rightarrow> 'v option"
    and put :: "'s \<Rightarrow> 'k \<Rightarrow> 'v \<Rightarrow> 's option"
    and valid :: "'s \<Rightarrow> bool"
  assumes put_defined: "k \<in> regs \<Longrightarrow> valid s \<Longrightarrow> \<exists>s'. put s k v = Some s' \<and> valid s'"
    and get_put: "k \<in> regs \<Longrightarrow> valid s \<Longrightarrow> put s k v = Some s' \<Longrightarrow> get s' k = Some v"
    and get_put_other: "k \<in> regs \<Longrightarrow> k' \<noteq> k \<Longrightarrow> valid s \<Longrightarrow> put s k v = Some s' \<Longrightarrow> get s' k' = get s k'"
begin

text \<open>A sequence of writes leaves in each register the last value written to it.\<close>

fun put_all :: "'s \<Rightarrow> ('k \<times> 'v) list \<Rightarrow> 's option" where
  "put_all s [] = Some s"
| "put_all s ((k, v) # ws) = do { s \<leftarrow> put s k v; put_all s ws }"

lemma get_put_all:
  assumes "fst ` set ws \<subseteq> regs" "valid s"
  shows "\<exists>s'. put_all s ws = Some s' \<and> valid s' \<and>
    (\<forall>k. get s' k = (case map_of (rev ws) k of None \<Rightarrow> get s k | Some v \<Rightarrow> Some v))"
  using assms
proof (induction ws arbitrary: s)
  case Nil
  then show ?case by simp
next
  case (Cons w ws)
  obtain k v where w: "w = (k, v)" by (cases w)
  with Cons.prems have k: "k \<in> regs" and ws: "fst ` set ws \<subseteq> regs" by auto
  obtain s1 where s1: "put s k v = Some s1" "valid s1"
    using put_defined [OF k Cons.prems(2)] by blast
  obtain s' where s': "put_all s1 ws = Some s'" "valid s'"
    "\<And>k. get s' k = (case map_of (rev ws) k of None \<Rightarrow> get s1 k | Some v \<Rightarrow> Some v)"
    using Cons.IH [OF ws s1(2)] by blast
  have "get s' j = (case map_of (rev (w # ws)) j of None \<Rightarrow> get s j | Some v \<Rightarrow> Some v)" for j
    using get_put [OF k Cons.prems(2) s1(1)] get_put_other [OF k _ Cons.prems(2) s1(1), of j]
    by (cases "j = k") (auto simp: s'(3) w map_add_def split: option.split)
  with s' s1(1) w show ?case by auto
qed

end

text \<open>The registers of the machine state that both switches name.\<close>

definition state_sprs :: "u16 set" where
  "state_sprs = {1, 8, 9, 18, 19, 26, 27, 282, 920} \<union> {k. 912 \<le> k \<and> k \<le> 919}"

lemma gqr_index:
  assumes "912 \<le> k" "k \<le> (919 :: u16)"
  shows "unat (k - 912) < 8" "mfspr_cases cpu k = Some (gqr cpu ! unat (k - 912))"
    "mtspr_cases cpu k v = Some (cpu\<lparr>gqr := (gqr cpu)[unat (k - 912) := v]\<rparr>)"
proof -
  have nat: "912 \<le> unat k" "unat k \<le> 919"
    using assms by (simp_all add: word_le_nat_alt)
  then show "unat (k - 912) < 8"
    by (simp add: unat_sub word_le_nat_alt)
  have "k \<noteq> 1" "k \<noteq> 8" "k \<noteq> 9" "k \<noteq> 18" "k \<noteq> 19" "k \<noteq> 26" "k \<noteq> 27" "k \<noteq> 282" "k \<noteq> 284" "k \<noteq> 285"
    using nat by auto
  then show "mfspr_cases cpu k = Some (gqr cpu ! unat (k - 912))"
    "mtspr_cases cpu k v = Some (cpu\<lparr>gqr := (gqr cpu)[unat (k - 912) := v]\<rparr>)"
    using assms by (simp_all only: mfspr_cases_def mtspr_cases_def) simp_all
qed

text \<open>A read depends on the register's own field.\<close>

lemma mfspr_cases_cong:
  assumes "k = 1 \<Longrightarrow> xer s' = xer s" "k = 8 \<Longrightarrow> lr s' = lr s" "k = 9 \<Longrightarrow> ctr s' = ctr s"
    "k = 18 \<Longrightarrow> dsisr s' = dsisr s" "k = 19 \<Longrightarrow> dar s' = dar s" "k = 26 \<Longrightarrow> srr0 s' = srr0 s"
    "k = 27 \<Longrightarrow> srr1 s' = srr1 s" "k = 282 \<Longrightarrow> ear s' = ear s" "k = 920 \<Longrightarrow> hid2 s' = hid2 s"
    "912 \<le> k \<Longrightarrow> k \<le> 919 \<Longrightarrow> gqr s' ! unat (k - 912) = gqr s ! unat (k - 912)"
  shows "mfspr_cases s' k = mfspr_cases s k"
  unfolding mfspr_cases_def using assms by (intro if_cong refl arg_cong [of _ _ Some]; blast)

lemma mfspr_cases_scalar:
  "mfspr_cases cpu 1 = Some (xer cpu)" "mfspr_cases cpu 8 = Some (lr cpu)"
  "mfspr_cases cpu 9 = Some (ctr cpu)" "mfspr_cases cpu 18 = Some (dsisr cpu)"
  "mfspr_cases cpu 19 = Some (dar cpu)" "mfspr_cases cpu 26 = Some (srr0 cpu)"
  "mfspr_cases cpu 27 = Some (srr1 cpu)" "mfspr_cases cpu 282 = Some (ear cpu)"
  "mfspr_cases cpu 920 = Some (hid2 cpu)"
  by (simp_all add: mfspr_cases_def)

lemma mtspr_cases_scalar:
  "mtspr_cases cpu 1 v = Some (cpu\<lparr>xer := v\<rparr>)" "mtspr_cases cpu 8 v = Some (cpu\<lparr>lr := v\<rparr>)"
  "mtspr_cases cpu 9 v = Some (cpu\<lparr>ctr := v\<rparr>)" "mtspr_cases cpu 18 v = Some (cpu\<lparr>dsisr := v\<rparr>)"
  "mtspr_cases cpu 19 v = Some (cpu\<lparr>dar := v\<rparr>)" "mtspr_cases cpu 26 v = Some (cpu\<lparr>srr0 := v\<rparr>)"
  "mtspr_cases cpu 27 v = Some (cpu\<lparr>srr1 := v\<rparr>)" "mtspr_cases cpu 282 v = Some (cpu\<lparr>ear := v\<rparr>)"
  "mtspr_cases cpu 920 v = Some (cpu\<lparr>hid2 := v\<rparr>)"
  by (simp_all add: mtspr_cases_def)

text \<open>A register other than the written one: each selector of the read keeps its value or is the
  selector of the label that was written.\<close>

lemma mfspr_cases_other:
  assumes "k' \<noteq> k" "k \<in> {1, 8, 9, 18, 19, 26, 27, 282, 920 :: u16}" "mtspr_cases s k v = Some s'"
  shows "mfspr_cases s' k' = mfspr_cases s k'"
proof -
  have s': "s' = the (mtspr_cases s k v)"
    using assms(3) by simp
  show ?thesis
    by (rule mfspr_cases_cong; use assms(1,2) in \<open>auto simp: s' mtspr_cases_scalar\<close>)
qed

interpretation sprs: spr_file state_sprs mfspr_cases mtspr_cases "\<lambda>cpu. length (gqr cpu) = 8"
proof (unfold_locales, goal_cases)
  case (1 k s v)
  then show ?case
    by (auto simp: state_sprs_def mtspr_cases_scalar gqr_index)
next
  case (2 k s v s')
  then show ?case
    by (auto simp: state_sprs_def mtspr_cases_scalar mfspr_cases_scalar gqr_index)
next
  case (3 k k' s v s')
  show ?case
  proof (cases "k \<in> {1, 8, 9, 18, 19, 26, 27, 282, 920}")
    case True
    with 3 show ?thesis by (intro mfspr_cases_other)
  next
    case False
    with 3 have k: "912 \<le> k" "k \<le> 919" by (auto simp: state_sprs_def)
    have "s' = s\<lparr>gqr := (gqr s)[unat (k - 912) := v]\<rparr>"
      using 3 by (simp add: gqr_index [OF k])
    moreover have "k' - 912 \<noteq> k - 912"
      using 3(2) by simp
    then have "unat (k' - 912) \<noteq> unat (k - 912)"
      by (simp only: word_unat_eq_iff not_False_eq_True)
    ultimately show ?thesis
      by (intro mfspr_cases_cong) simp_all
  qed
qed

text \<open>In supervisor state the registers of the machine state are read and written through
  \<open>ppc_mfspr\<close> and \<open>ppc_mtspr\<close> without an exception.\<close>

definition supervisor :: "CPUState \<Rightarrow> bool" where
  "supervisor cpu \<longleftrightarrow> msr cpu AND PPC_MSR_PR = 0"

lemma mfspr_supervisor:
  "supervisor cpu \<Longrightarrow> mfspr_cases cpu spr = Some v \<Longrightarrow> ppc_mfspr h cpu spr cia = (v, cpu)"
  by (simp add: ppc_mfspr_def supervisor_def)

lemma mtspr_supervisor:
  "supervisor cpu \<Longrightarrow> mtspr_cases cpu spr v = Some cpu' \<Longrightarrow> ppc_mtspr h cpu spr v cia = cpu'"
  by (simp add: ppc_mtspr_def supervisor_def)

lemma mtspr_cases_msr: "mtspr_cases cpu spr v = Some cpu' \<Longrightarrow> msr cpu' = msr cpu"
  by (auto simp: mtspr_cases_def split: if_splits)

lemma mfspr_mtspr:
  assumes "supervisor cpu" "length (gqr cpu) = 8" "spr \<in> state_sprs"
  shows "ppc_mfspr h (ppc_mtspr h cpu spr v cia) spr cia' = (v, ppc_mtspr h cpu spr v cia)"
proof -
  obtain cpu' where c: "mtspr_cases cpu spr v = Some cpu'"
    using sprs.put_defined [OF assms(3,2)] by blast
  have "supervisor cpu'"
    using assms(1) mtspr_cases_msr [OF c] by (simp add: supervisor_def)
  then show ?thesis
    using sprs.get_put [OF assms(3,2) c] mtspr_supervisor [OF assms(1) c]
    by (simp add: mfspr_supervisor)
qed

lemma mfspr_mtspr_other:
  assumes "supervisor cpu" "length (gqr cpu) = 8" "spr \<in> state_sprs" "spr' \<in> state_sprs" "spr' \<noteq> spr"
  shows "fst (ppc_mfspr h (ppc_mtspr h cpu spr v cia) spr' cia') = fst (ppc_mfspr h cpu spr' cia')"
proof -
  obtain cpu' where c: "mtspr_cases cpu spr v = Some cpu'"
    using sprs.put_defined [OF assms(3,2)] by blast
  obtain w where w: "mfspr_cases cpu spr' = Some w"
    using assms(4) by (auto simp: state_sprs_def mfspr_cases_scalar gqr_index)
  have "supervisor cpu'"
    using assms(1) mtspr_cases_msr [OF c] by (simp add: supervisor_def)
  then show ?thesis
    using sprs.get_put_other [OF assms(3,5,2) c] mtspr_supervisor [OF assms(1) c] w assms(1)
    by (simp add: mfspr_supervisor)
qed

text \<open>In problem state every other register is a privileged instruction exception, for reads and
  writes, and the access has no other effect.\<close>

lemma spr_privilege:
  assumes "\<not> supervisor cpu" "spr \<notin> {1, 8, 9}"
  shows "ppc_mtspr h cpu spr v cia = ppc_program_exception cpu PPC_PROGRAM_PRIV cia"
    and "spr \<notin> {268, 269} \<Longrightarrow>
      ppc_mfspr h cpu spr cia = (0, ppc_program_exception cpu PPC_PROGRAM_PRIV cia)"
  using assms by (simp_all add: ppc_mtspr_def ppc_mfspr_def supervisor_def)

text \<open>The time base is written in halves and read in halves.\<close>

lemma timebase_halves:
  fixes cpu h hi lo cia
  assumes "supervisor cpu"
  defines "cpu' \<equiv> ppc_mtspr h (ppc_mtspr h cpu 285 hi cia) 284 lo cia"
  shows "ppc_mftb cpu' 268 cia' = (lo, cpu')" "ppc_mftb cpu' 269 cia' = (hi, cpu')"
proof -
  let ?t = "((shl (ucast hi) 32 OR timebase cpu AND 0xFFFFFFFF) AND 0xFFFFFFFF00000000) OR ucast lo :: u64"
  have m: "(0xFFFFFFFF :: u64) = mask 32" "(0xFFFFFFFF00000000 :: u64) = shl (mask 32) 32"
    by (simp_all add: mask_numeral)
  have tb: "timebase cpu' = ?t"
    using assms(1) by (simp add: cpu'_def ppc_mtspr_def mtspr_cases_def supervisor_def)
  have "ucast ?t = lo" "ucast (shr ?t 32) = hi"
    unfolding m by (rule bit_word_eqI; auto simp: bit_simps dest: bit_imp_le_length)+
  then show "ppc_mftb cpu' 268 cia' = (lo, cpu')" "ppc_mftb cpu' 269 cia' = (hi, cpu')"
    by (simp_all add: ppc_mftb_def tb)
qed

section \<open>Every operation stays inside the machine\<close>

text \<open>What the host callbacks must keep.\<close>

definition sane :: "CPUState \<Rightarrow> bool" where
  "sane cpu \<longleftrightarrow> wf_mem cpu \<and> wf_regs cpu"

definition host_sane :: "host \<Rightarrow> bool" where
  "host_sane h \<longleftrightarrow>
     (\<forall>f. external_write h = Some f \<longrightarrow> (\<forall>cpu a v n. sane cpu \<longrightarrow> sane (f cpu a v n))) \<and>
     (\<forall>f. external_read h = Some f \<longrightarrow> (\<forall>cpu a n. sane cpu \<longrightarrow> sane (snd (f cpu a n))))"

lemma sane_take_exception [simp]: "sane (ppc_take_exception cpu exc vec s i) = sane cpu"
  by (simp add: sane_def wf_mem_def wf_regs_def ppc_take_exception_def Let_def)

lemma sane_program_exception [simp]: "sane (ppc_program_exception cpu cause cia) = sane cpu"
  by (simp add: ppc_program_exception_def) (simp add: sane_def wf_mem_def wf_regs_def)

lemma sane_alignment_exception [simp]: "sane (ppc_alignment_exception cpu ea cia) = sane cpu"
  by (simp add: ppc_alignment_exception_def) (simp add: sane_def wf_mem_def wf_regs_def)

lemma wf_regs_stored [simp]: "wf_regs (stored h cpu a r off n bs) = wf_regs cpu"
  by (cases r) (simp_all add: stored_def wf_regs_def journal_write_def clear_matching_reservation_def
    Let_def)

lemma mem_write32_sane:
  assumes "sane cpu" "host_sane h"
  shows "\<exists>cpu'. mem_write32 h cpu a v = Some cpu' \<and> sane cpu'"
proof -
  from assms(1) have "wf_mem cpu" by (simp add: sane_def)
  then show ?thesis
  proof (cases rule: port32.store_cases [of cpu a v h])
    case (hit r off bs bs')
    then have "sane (stored h cpu a r off (of_nat 4) bs')"
      using assms(1) wf_mem_stored [of cpu r bs bs'] single.wr_length [of bs _ v bs']
      by (simp add: sane_def)
    with hit show ?thesis by blast
  next
    case miss
    then show ?thesis
      using assms by (auto simp: host_sane_def split: option.split)
  qed
qed

lemma mem_read8_sane:
  assumes "sane cpu" "host_sane h"
  shows "\<exists>v cpu'. mem_read8 h cpu a = Some (v, cpu') \<and> sane cpu'"
proof -
  from assms(1) have wf: "wf_mem cpu" by (simp add: sane_def)
  obtain p avail where res: "resolve_addr cpu a = Some (p, avail)"
    using resolve_addr_total [OF wf] by blast
  obtain v cpu' where ld: "mem_read8 h cpu a = Some (v, cpu')"
    using port8.load_total [OF wf] by blast
  have "sane cpu'"
  proof (cases p)
    case None
    with ld assms show ?thesis
      by (auto simp: port8.load_miss [OF res] host_sane_def split: option.splits)
  next
    case (Some q)
    with ld assms(1) show ?thesis
      by (auto simp: mem_read8_def res bind_eq_Some_conv split: prod.splits)
  qed
  with ld show ?thesis by blast
qed

lemma zero_block_sane:
  "sane cpu \<Longrightarrow> host_sane h \<Longrightarrow> \<exists>cpu'. zero_block h cpu a k = Some cpu' \<and> sane cpu'"
proof (induction k arbitrary: cpu a)
  case (Suc k)
  from mem_write32_sane [OF Suc.prems, of a 0] Suc.IH Suc.prems(2) show ?case
    by fastforce
qed simp

lemma slot_bound: "unat (x AND 511 :: u32) < 512"
  using unat_and_le_right [of x 511] by simp

lemma dcbz_l_sane:
  assumes "sane cpu" "host_sane h"
  shows "\<exists>cpu'. ppc_dcbz_l h cpu ea cia = Some cpu' \<and> sane cpu'"
proof -
  let ?slot = "unat (shr (ea AND NOT 31) 5 AND 511)"
  have len: "?slot < length (locked_cache_valid cpu)" "?slot < length (locked_cache_tag cpu)"
    using assms(1) slot_bound by (simp_all add: sane_def wf_regs_def)
  have upd: "sane (cpu\<lparr>hid2 := x\<rparr>)"
    "sane (cpu\<lparr>locked_cache_valid := (locked_cache_valid cpu)[?slot := b],
               locked_cache_tag := (locked_cache_tag cpu)[?slot := t]\<rparr>)" for x b t
    using assms(1) by (simp_all add: sane_def wf_mem_def wf_regs_def)
  show ?thesis
    using assms len upd zero_block_sane [OF _ assms(2)]
    by (simp add: ppc_dcbz_l_def Let_def arr_get_Some arr_set_Some)
qed

lemma stwcx_sane:
  assumes "sane cpu" "host_sane h" "s < 32"
  shows "\<exists>cpu'. ppc_stwcx_op h cpu s ea cia = Some cpu' \<and> sane cpu'"
proof -
  have gpr: "arr_get (gpr cpu) (unat s) = Some (gpr cpu ! unat s)"
    using assms by (simp add: arr_get_Some sane_def wf_regs_def word_less_nat_alt)
  obtain cpu1 where w: "mem_write32 h cpu ea (gpr cpu ! unat s) = Some cpu1" "sane cpu1"
    using mem_write32_sane [OF assms(1,2)] by blast
  have "sane (c\<lparr>cr := x\<rparr>) = sane c" "sane (c\<lparr>reserve_valid := b\<rparr>) = sane c" for c x b
    by (simp_all add: sane_def wf_mem_def wf_regs_def)
  note upd = this
  show ?thesis
  proof (cases "reserve_valid cpu \<and> ea = reserve_addr cpu")
    case True
    then have "reserve_addr cpu = ea" by simp
    with True w assms(1) show ?thesis
      by (simp add: ppc_stwcx_op_def Let_def gpr upd)
  next
    case False
    with assms(1) show ?thesis
      by (auto simp: ppc_stwcx_op_def Let_def upd)
  qed
qed

lemma lswx_loop_sane:
  "sane cpu \<Longrightarrow> host_sane h \<Longrightarrow> \<exists>cpu'. lswx_loop h cpu rD ea n k = Some cpu' \<and> sane cpu'"
proof (induction k arbitrary: cpu n)
  case (Suc k)
  let ?reg = "unat ((ucast rD + of_nat n div 4) AND 31 :: u32)"
  have reg: "?reg < 32"
    using unat_and_le_right [of "ucast rD + of_nat n div 4" "31 :: u32"] by simp
  have upd: "sane c \<Longrightarrow> sane (c\<lparr>gpr := (gpr c)[?reg := x]\<rparr>)" and len: "sane c \<Longrightarrow> length (gpr c) = 32"
    for c x by (simp_all add: sane_def wf_mem_def wf_regs_def)
  define c1 where "c1 = (if (of_nat n :: u32) AND 3 = 0 then cpu\<lparr>gpr := (gpr cpu)[?reg := 0]\<rparr> else cpu)"
  have c1: "sane c1"
    using Suc.prems(1) upd by (simp add: c1_def)
  obtain v c2 where c2: "mem_read8 h c1 (ea + of_nat n) = Some (v, c2)" "sane c2"
    using mem_read8_sane [OF c1 Suc.prems(2)] by blast
  have "(if (of_nat n :: u32) AND 3 = 0
      then do { g \<leftarrow> arr_set (gpr cpu) ?reg 0; Some (cpu\<lparr>gpr := g\<rparr>) } else Some cpu) = Some c1"
    using reg len [OF Suc.prems(1)] by (simp add: c1_def arr_set_Some)
  with c2 reg len [OF c2(2)] Suc.IH [OF upd [OF c2(2)] Suc.prems(2)] show ?case
    by (simp add: arr_get_Some arr_set_Some Let_def)
qed simp

lemma lswx_sane:
  assumes "sane cpu" "host_sane h" "rA < 32" "rB < 32"
  shows "\<exists>cpu'. ppc_lswx h cpu rD rA rB cia = Some cpu' \<and> sane cpu'"
proof -
  have gpr: "arr_get (gpr cpu) (unat rA) = Some (gpr cpu ! unat rA)"
    "arr_get (gpr cpu) (unat rB) = Some (gpr cpu ! unat rB)"
    using assms by (simp_all add: arr_get_Some sane_def wf_regs_def word_less_nat_alt)
  show ?thesis
    using assms(1) lswx_loop_sane [OF assms(1,2)] by (simp add: ppc_lswx_def Let_def gpr)
qed

section \<open>The conditional store\<close>

text \<open>Success is exactly a live reservation of this very word; it stores, consumes the reservation
  and sets \<open>CR0[EQ]\<close>.  Failure changes nothing but \<open>CR0\<close>.\<close>

lemma stwcx_cases:
  assumes "ea AND 3 = 0"
  shows "reserve_valid cpu \<and> ea = reserve_addr cpu \<Longrightarrow> ppc_stwcx_op h cpu s ea cia = Some cpu' \<Longrightarrow>
      \<exists>v c. arr_get (gpr cpu) (unat s) = Some v \<and> mem_write32 h cpu ea v = Some c \<and>
        cpu' = c\<lparr>reserve_valid := False,
                 cr := (cr c AND 0x0FFFFFFF) OR shl (2 OR (shr (xer cpu) 31 AND 1)) 28\<rparr>"
    and "\<not> (reserve_valid cpu \<and> ea = reserve_addr cpu) \<Longrightarrow> ppc_stwcx_op h cpu s ea cia =
      Some (cpu\<lparr>cr := (cr cpu AND 0x0FFFFFFF) OR shl (shr (xer cpu) 31 AND 1) 28\<rparr>)"
  using assms by (auto simp: ppc_stwcx_op_def Let_def bind_eq_Some_conv)

text \<open>A second conditional store without a new reservation always fails.\<close>

lemma stwcx_consumes:
  assumes "ea AND 3 = 0" "ppc_stwcx_op h cpu s ea cia = Some cpu'" "reserve_valid cpu \<longrightarrow> ea = reserve_addr cpu"
  shows "\<not> reserve_valid cpu'"
  using assms by (cases "reserve_valid cpu") (auto dest: stwcx_cases(1) simp: stwcx_cases(2))

section \<open>The host query\<close>

lemma native_region_restores:
  assumes "ppc_native_region_available h cpu start end = (b, cpu')"
  shows "external_addr cpu' = external_addr cpu" "external_value cpu' = external_value cpu"
    "external_rid cpu' = external_rid cpu"
  using assms by (auto simp: ppc_native_region_available_def Let_def split: option.splits prod.splits)

section \<open>The summary bits of FPSCR\<close>

text \<open>\<open>VX\<close> says whether an invalid operation bit is set, \<open>FEX\<close> whether an enabled exception is.\<close>

definition fpscr_ok :: "u32 \<Rightarrow> bool" where
  "fpscr_ok f \<longleftrightarrow>
     (f AND 0x20000000 \<noteq> 0 \<longleftrightarrow> f AND 0x01F80700 \<noteq> 0) \<and>
     (f AND 0x40000000 \<noteq> 0 \<longleftrightarrow> shr f 22 AND f AND 0xF8 \<noteq> 0)"

lemma fpscr_updated_ok: "fpscr_ok (fpscr (ppc_fpscr_updated cpu))"
proof -
  have ok: "fpscr_ok (let f = (f AND NOT 0x20000000) OR (if f AND 0x01F80700 \<noteq> 0 then 0x20000000 else 0)
    in (f AND NOT 0x40000000) OR (if shr f 22 AND f AND 0xF8 \<noteq> 0 then 0x40000000 else 0))" for f
  proof -
    have numerals: "numeral m AND (f AND numeral n) = f AND (numeral m AND numeral n)" for m n
      by (rule and.left_commute)
    show ?thesis
      by (simp add: fpscr_ok_def Let_def bit.conj_disj_distrib2 and.assoc numerals)
  qed
  show ?thesis
    using ok [of "fpscr cpu"] by (simp add: ppc_fpscr_updated_def Let_def)
qed

lemma set_fp_exception_ok: "fpscr_ok (fpscr (set_fp_exception cpu b))"
  unfolding set_fp_exception_def Let_def by (rule fpscr_updated_ok)

lemma mtfsb_ok:
  assumes "b < 32"
  shows "\<exists>mode cpu'. ppc_mtfsb0_op cpu b = Some (mode, cpu') \<and> fpscr_ok (fpscr cpu')"
    and "\<exists>mode cpu'. ppc_mtfsb1_op cpu b = Some (mode, cpu') \<and> fpscr_ok (fpscr cpu')"
  using assms by (simp_all add: ppc_mtfsb0_op_def ppc_mtfsb1_op_def ppc_fpscr_control_updated_def
    Let_def fpscr_updated_ok)

lemma fprf_fi_fr_ok:
  "fpscr_ok (fpscr (set_fprf cpu v)) \<longleftrightarrow> fpscr_ok (fpscr cpu)"
  "fpscr_ok (fpscr (clear_fi_fr cpu)) \<longleftrightarrow> fpscr_ok (fpscr cpu)"
proof -
  have numerals: "numeral m AND (f AND numeral n) = f AND (numeral m AND numeral n)"
    for m n and f :: u32
    by (rule and.left_commute)
  have field: "shl (v AND 0x1F) 12 = shl v 12 AND 0x1F000"
    by (simp add: push_bit_and)
  have shifted: "shr (shl v 12) 22 AND (f AND 0) = 0" for f :: u32
    by simp
  show "fpscr_ok (fpscr (set_fprf cpu v)) \<longleftrightarrow> fpscr_ok (fpscr cpu)"
    "fpscr_ok (fpscr (clear_fi_fr cpu)) \<longleftrightarrow> fpscr_ok (fpscr cpu)"
    by (simp_all add: set_fprf_def clear_fi_fr_def FPSCR_FI_def FPSCR_FR_def fpscr_ok_def field
      bit.conj_disj_distrib2 and.assoc numerals)
qed

section \<open>The locked cache zeroes its block\<close>

lemma zero_block_reads:
  assumes "wf_mem cpu" "unat off + 4 * k < 2 ^ 32"
    and "\<And>i. i < k \<Longrightarrow> mapped 4 cpu (a + 4 * of_nat i) r (off + 4 * of_nat i)"
    and "zero_block h cpu a k = Some cpu'"
  shows "\<forall>i < k. mem_read32 h cpu' (a + 4 * of_nat i) = Some (0, cpu')"
    and "mapped 4 cpu b r off' \<Longrightarrow> unat off' + 4 \<le> unat off \<Longrightarrow> mem_read32 h cpu b = Some (w, cpu) \<Longrightarrow>
      mem_read32 h cpu' b = Some (w, cpu')"
  using assms
proof (induction k arbitrary: cpu a off b off' w)
  case 0
  { case 1 then show ?case by simp next case 2 then show ?case by simp }
next
  case (Suc k)
  have step: "\<exists>cpu1. mem_write32 h cpu a 0 = Some cpu1 \<and> wf_mem cpu1 \<and>
      zero_block h cpu1 (a + 4) k = Some cpu' \<and> mem_read32 h cpu1 a = Some (0, cpu1) \<and>
      mapped 4 cpu1 a r off \<and>
      (\<forall>i < k. mapped 4 cpu1 (a + 4 + 4 * of_nat i) r (off + 4 + 4 * of_nat i))"
    if "wf_mem cpu" and maps: "\<And>i. i < Suc k \<Longrightarrow> mapped 4 cpu (a + 4 * of_nat i) r (off + 4 * of_nat i)"
      and z: "zero_block h cpu a (Suc k) = Some cpu'" for cpu a off
  proof -
    from z obtain cpu1 where c: "mem_write32 h cpu a 0 = Some cpu1"
      "zero_block h cpu1 (a + 4) k = Some cpu'"
      by (auto simp: bind_eq_Some_conv)
    have m: "mapped 4 cpu a r off" using maps [of 0] by simp
    note keeps = port32.store_keeps [OF that(1) m c(1)]
    have "mapped 4 cpu1 (a + 4 + 4 * of_nat i) r (off + 4 + 4 * of_nat i)" if "i < k" for i
      using maps [of "Suc i"] that by (simp add: keeps algebra_simps)
    with c keeps m port32.load_after_store [OF that(1) m m c(1)] show ?thesis by auto
  qed
  have up: "unat (off + 4) = unat off + 4" if "unat off + 4 * Suc k < 2 ^ 32" for off :: u32
    using that by (subst unat_add_bounded) simp_all
  { case 1
    from step [OF 1(1) 1(3,4)] obtain cpu1 where c: "mem_write32 h cpu a 0 = Some cpu1" "wf_mem cpu1"
      "zero_block h cpu1 (a + 4) k = Some cpu'" "mem_read32 h cpu1 a = Some (0, cpu1)"
      "mapped 4 cpu1 a r off"
      "\<And>i. i < k \<Longrightarrow> mapped 4 cpu1 (a + 4 + 4 * of_nat i) r (off + 4 + 4 * of_nat i)" by blast
    have off: "unat (off + 4) + 4 * k < 2 ^ 32" "unat off + 4 \<le> unat (off + 4)"
      using 1(2) up [OF 1(2)] by simp_all
    have "mem_read32 h cpu' (a + 4 + 4 * of_nat i) = Some (0, cpu')" if "i < k" for i
      using Suc.IH(1) [OF c(2) off(1) c(6) c(3)] that by blast
    moreover have "mem_read32 h cpu' a = Some (0, cpu')"
      using Suc.IH(2) [OF c(5) off(2) c(4) c(2) off(1) c(6) c(3)] .
    ultimately show ?case
      by (auto simp: less_Suc_eq_0_disj algebra_simps)
  next
    case 2
    from step [OF 2(4) 2(6,7)] obtain cpu1 where c: "mem_write32 h cpu a 0 = Some cpu1" "wf_mem cpu1"
      "zero_block h cpu1 (a + 4) k = Some cpu'"
      "\<And>i. i < k \<Longrightarrow> mapped 4 cpu1 (a + 4 + 4 * of_nat i) r (off + 4 + 4 * of_nat i)" by blast
    have m: "mapped 4 cpu a r off" using 2(6) [of 0] by simp
    have off: "unat (off + 4) + 4 * k < 2 ^ 32" "unat off' + 4 \<le> unat (off + 4)"
      using 2(2,5) up [OF 2(5)] by simp_all
    have "mem_read32 h cpu1 b = Some (w, cpu1)"
      using 2(2) by (intro port32.load_frame [OF 2(4) m 2(1) _ c(1) 2(3)]) simp
    moreover have "mapped 4 cpu1 b r off'"
      using 2(1) port32.store_keeps(2) [OF 2(4) m c(1)] by blast
    ultimately show ?case
      using Suc.IH(2) [OF _ off(2) _ c(2) off(1) c(4) c(3)] by blast
  }
qed

section \<open>Properties\<close>

text \<open>C25 Taking any exception and returning from it resumes at the saved address,
  word aligned, with the machine state register as it was, less \<open>POW\<close> and with those information bits
  of \<open>SRR1\<close> that lie in the restored field.\<close>

theorem exception_rfi_roundtrip:
  "msr (ppc_rfi (ppc_take_exception cpu exc vector srr0' info) cia) =
     (msr cpu OR (info AND PPC_MSR_RFI_MASK)) AND NOT PPC_MSR_POW \<and>
   pc (ppc_rfi (ppc_take_exception cpu exc vector srr0' info) cia) = srr0' AND NOT 3 \<and>
   supervisor (ppc_take_exception cpu exc vector srr0' info)"
  using take_exception_rfi [of cpu exc vector srr0' info cia] exception_msr_pr
  by (simp add: supervisor_def ppc_take_exception_def Let_def)

text \<open>\<open>ppc_add_overflowed\<close> detects exactly the sums that leave the signed 32-bit range,
  and setting the overflow flag also sets the summary flag, which clearing it leaves alone.\<close>

theorem add_overflow_exact:
  "(ppc_add_overflowed a b (a + b) \<longleftrightarrow>
      \<not> (- (2 ^ 31) \<le> sint a + sint b \<and> sint a + sint b < 2 ^ 31)) \<and>
   xer (ppc_set_xer_ov cpu ov) =
     (if ov then xer cpu OR 0xC0000000 else xer cpu AND NOT 0x40000000)"
  using add_overflowed_iff xer_ov_eq by blast

text \<open>A trap fires exactly when the \<open>TO\<close> field names a relation its operands
  satisfy; \<open>TO = 31\<close> always traps and \<open>TO = 0\<close> never does.\<close>

theorem trap_condition_exact:
  "(ppc_trap_condition to a b \<longleftrightarrow> to AND trap_mask a b \<noteq> 0) \<and>
   ppc_trap_condition 31 a b \<and> \<not> ppc_trap_condition 0 a b"
proof -
  have "ppc_trap_condition 31 a b"
    by (auto simp: ppc_trap_condition_def)
  then show ?thesis
    using trap_condition_iff by (simp add: ppc_trap_condition_def)
qed



text \<open>The time base written in two halves is read in the same halves.\<close>

theorem timebase_roundtrip:
  assumes "supervisor cpu"
  shows "fst (ppc_mftb (ppc_mtspr h (ppc_mtspr h cpu 285 hi cia) 284 lo cia) 268 cia') = lo \<and>
    fst (ppc_mftb (ppc_mtspr h (ppc_mtspr h cpu 285 hi cia) 284 lo cia) 269 cia') = hi"
  using timebase_halves [OF assms] by simp

theorem timebase_roundtrip_witness:
  "fst (ppc_mftb (ppc_mtspr no_host (ppc_mtspr no_host small_cpu 285 5 0) 284 6 0) 269 0) = 5"
  using timebase_roundtrip [of small_cpu] by (simp add: small_cpu_def zero_cpu_def supervisor_def)

text \<open>C27 The locked cache, the conditional store and the string load never leave the machine's
  arrays or host buffers, and keep the machine well formed, whatever host callbacks keep it so.\<close>

theorem cpu_ops_safe:
  assumes "sane cpu" "host_sane h" "rA < 32" "rB < 32" "s < 32"
  shows "(\<exists>c. ppc_dcbz_l h cpu ea cia = Some c \<and> sane c) \<and>
    (\<exists>c. ppc_stwcx_op h cpu s ea cia = Some c \<and> sane c) \<and>
    (\<exists>c. ppc_lswx h cpu rD rA rB cia = Some c \<and> sane c)"
  using dcbz_l_sane [OF assms(1,2)] stwcx_sane [OF assms(1,2,5)] lswx_sane [OF assms(1-4)] by blast

lemma small_cpu_sane: "sane small_cpu" "host_sane no_host"
  using small_cpu_ok by (simp_all add: sane_def host_sane_def no_host_def)

theorem cpu_ops_safe_witness: "\<exists>c. ppc_lswx no_host (small_cpu\<lparr>xer := 5\<rparr>) 31 4 5 0 = Some c"
proof -
  have "sane (small_cpu\<lparr>xer := 5\<rparr>)"
    using small_cpu_sane(1) by (simp add: sane_def wf_mem_def wf_regs_def)
  then show ?thesis
    using cpu_ops_safe [of "small_cpu\<lparr>xer := 5\<rparr>" no_host 4 5 0] small_cpu_sane(2) by fastforce
qed





text \<open>Raising an exception bit and setting or clearing any bit of \<open>FPSCR\<close> leave the two summary
  bits consistent: \<open>VX\<close> with the invalid operation bits, \<open>FEX\<close> with the enabled exceptions; writing the
  result class or clearing the inexact bits does not disturb them.\<close>

theorem fpscr_summary:
  assumes "b < 32"
  shows "(\<exists>mode c. ppc_mtfsb0_op cpu b = Some (mode, c) \<and> fpscr_ok (fpscr c)) \<and>
    (\<exists>mode c. ppc_mtfsb1_op cpu b = Some (mode, c) \<and> fpscr_ok (fpscr c)) \<and>
    fpscr_ok (fpscr (set_fp_exception cpu x)) \<and>
    (fpscr_ok (fpscr cpu) \<longrightarrow> fpscr_ok (fpscr (set_fprf cpu v)) \<and> fpscr_ok (fpscr (clear_fi_fr cpu)))"
  using mtfsb_ok [OF assms] set_fp_exception_ok fprf_fi_fr_ok by blast

theorem fpscr_summary_witness: "\<exists>mode c. ppc_mtfsb1_op small_cpu 7 = Some (mode, c) \<and> fpscr_ok (fpscr c)"
  using fpscr_summary [of 7 small_cpu] by simp

text \<open>The query of the host for a native region leaves the three mailbox fields of
  the machine as they were, whatever the host does to them.\<close>

theorem native_region_transparent:
  assumes "ppc_native_region_available h cpu start end = (b, cpu')"
  shows "external_addr cpu' = external_addr cpu \<and> external_value cpu' = external_value cpu \<and>
    external_rid cpu' = external_rid cpu"
  using native_region_restores [OF assms] by simp

theorem native_region_transparent_witness:
  "external_rid (snd (ppc_native_region_available
     (no_host\<lparr>host_call := Some (\<lambda>c a. (False, c\<lparr>external_rid := 0xFF\<rparr>))\<rparr>) small_cpu 0 4)) = 0"
proof -
  let ?h = "no_host\<lparr>host_call := Some (\<lambda>c a. (False, c\<lparr>external_rid := 0xFF\<rparr>))\<rparr>"
  obtain b c where r: "ppc_native_region_available ?h small_cpu 0 4 = (b, c)"
    by (cases "ppc_native_region_available ?h small_cpu 0 4")
  have "external_rid small_cpu = 0"
    by (simp add: small_cpu_def zero_cpu_def)
  then show ?thesis
    using native_region_transparent [OF r] r by simp
qed

end
