(* ===== verification/Dol.thy ===== *)
theory Dol
  imports CTypes
begin

text \<open>
  \<open>src/frontend/container/dol.c\<close>: the GameCube executable loader.  The file system and the allocator
  are the record \<open>file_env\<close>; every read of the file buffer is checked, so that an access outside it
  would make the loader return \<open>UB\<close>.  \<open>validate_dol_layout\<close> is proved equivalent to the declarative
  layout \<open>dol_layout\<close>.
\<close>

section \<open>Files\<close>

record file_env =
  openable :: bool
  contents :: "u8 list"
  can_alloc :: "nat \<Rightarrow> bool" \<comment> \<open>whether the allocation with this number succeeds\<close>
  read_all :: bool

section \<open>Range checks\<close>

definition range_fits :: "u32 \<Rightarrow> u32 \<Rightarrow> u32 \<Rightarrow> bool" where
  "range_fits offset sz limit \<longleftrightarrow> offset \<le> limit \<and> sz \<le> limit - offset"

definition address_in_range :: "u32 \<Rightarrow> u32 \<Rightarrow> u32 \<Rightarrow> bool" where
  "address_in_range address base sz \<longleftrightarrow> sz \<noteq> 0 \<and> base \<le> address \<and> address - base < sz"

text \<open>The checks mean what they would over the integers: no wrap-around passes them.\<close>

lemma range_fits_iff: "range_fits offset sz limit \<longleftrightarrow> unat offset + unat sz \<le> unat limit"
proof -
  have "unat (limit - offset) = unat limit - unat offset" if "offset \<le> limit"
    using that by (simp add: unat_sub)
  then show ?thesis
    by (auto simp: range_fits_def word_le_nat_alt)
qed

lemma address_in_range_iff:
  "address_in_range address base sz \<longleftrightarrow> unat base \<le> unat address \<and> unat address < unat base + unat sz"
proof -
  have "unat (address - base) = unat address - unat base" if "base \<le> address"
    using that by (simp add: unat_sub)
  then show ?thesis
    by (auto simp: address_in_range_def word_le_nat_alt word_less_nat_alt unat_eq_0)
qed

section \<open>The DOL header\<close>

definition DOL_HEADER_SIZE :: nat where "DOL_HEADER_SIZE = 0x100"
definition DOL_NUM_TEXT :: nat where "DOL_NUM_TEXT = 7"
definition DOL_NUM_DATA :: nat where "DOL_NUM_DATA = 11"

record DOLHeader =
  text_offsets :: "u32 list"
  data_offsets :: "u32 list"
  text_addresses :: "u32 list"
  data_addresses :: "u32 list"
  text_sizes :: "u32 list"
  data_sizes :: "u32 list"
  bss_address :: u32
  dol_bss_size :: u32
  dol_entry_point :: u32

record DOLFile =
  dol_header :: DOLHeader
  dol_file_data :: "u8 list option"
  dol_file_size :: u32

datatype dol_error =
    Dol_cannot_open | Dol_too_small | Dol_no_memory | Dol_read_failed
  | Dol_section_outside bool nat \<comment> \<open>text or data, index\<close>
  | Dol_entry_misaligned | Dol_size_misaligned nat | Dol_entry_outside

section \<open>Validation\<close>

definition validate_section_range ::
    "bool \<Rightarrow> nat \<Rightarrow> u32 \<Rightarrow> u32 \<Rightarrow> u32 \<Rightarrow> (dol_error, unit) outcome" where
  "validate_section_range is_text i offset sz file_size =
     (if sz = 0 then Ok ()
      else if \<not> range_fits offset sz file_size then Err (Dol_section_outside is_text i)
      else Ok ())"

text \<open>The two loops, from section \<open>i\<close> on; \<open>n\<close> sections are left.\<close>

fun validate_text_loop :: "DOLFile \<Rightarrow> nat \<Rightarrow> nat \<Rightarrow> bool \<Rightarrow> (dol_error, bool) outcome" where
  "validate_text_loop dol i 0 entry_in_text = Ok entry_in_text"
| "validate_text_loop dol i (Suc n) entry_in_text =
     (let offset = text_offsets (dol_header dol) ! i;
          address = text_addresses (dol_header dol) ! i;
          sz = text_sizes (dol_header dol) ! i
      in bind_out (validate_section_range True i offset sz (dol_file_size dol)) (\<lambda>_.
         bind_out (check (sz AND 3 = 0) (Dol_size_misaligned i)) (\<lambda>_.
         validate_text_loop dol (i + 1) n
           (if address_in_range (dol_entry_point (dol_header dol)) address sz then True
            else entry_in_text))))"

fun validate_data_loop :: "DOLFile \<Rightarrow> nat \<Rightarrow> nat \<Rightarrow> (dol_error, unit) outcome" where
  "validate_data_loop dol i 0 = Ok ()"
| "validate_data_loop dol i (Suc n) =
     bind_out (validate_section_range False i (data_offsets (dol_header dol) ! i)
        (data_sizes (dol_header dol) ! i) (dol_file_size dol)) (\<lambda>_.
     validate_data_loop dol (i + 1) n)"

definition validate_dol_layout :: "DOLFile \<Rightarrow> (dol_error, unit) outcome" where
  "validate_dol_layout dol =
     bind_out (check (dol_entry_point (dol_header dol) AND 3 = 0) Dol_entry_misaligned) (\<lambda>_.
     bind_out (validate_text_loop dol 0 DOL_NUM_TEXT False) (\<lambda>entry_in_text.
     bind_out (validate_data_loop dol 0 DOL_NUM_DATA) (\<lambda>_.
     check entry_in_text Dol_entry_outside)))"

section \<open>Loading\<close>

text \<open>\<open>for (i = 0; i < n; i++) field[i] = read_be32(h + base + i * 4);\<close>\<close>

definition read_be32_array :: "u8 list \<Rightarrow> nat \<Rightarrow> nat \<Rightarrow> u32 list option" where
  "read_be32_array h base n = those (map (\<lambda>i. read_be32 h (base + i * 4)) [0..<n])"

definition parse_dol_header :: "u8 list \<Rightarrow> DOLHeader option" where
  "parse_dol_header h = do {
     text_offs \<leftarrow> read_be32_array h 0x00 DOL_NUM_TEXT;
     data_offs \<leftarrow> read_be32_array h 0x1C DOL_NUM_DATA;
     text_addrs \<leftarrow> read_be32_array h 0x48 DOL_NUM_TEXT;
     data_addrs \<leftarrow> read_be32_array h 0x64 DOL_NUM_DATA;
     text_szs \<leftarrow> read_be32_array h 0x90 DOL_NUM_TEXT;
     data_szs \<leftarrow> read_be32_array h 0xAC DOL_NUM_DATA;
     bss_a \<leftarrow> read_be32 h 0xD8;
     bss_s \<leftarrow> read_be32 h 0xDC;
     entry \<leftarrow> read_be32 h 0xE0;
     Some \<lparr>text_offsets = text_offs, data_offsets = data_offs, text_addresses = text_addrs,
           data_addresses = data_addrs, text_sizes = text_szs, data_sizes = data_szs,
           bss_address = bss_a, dol_bss_size = bss_s, dol_entry_point = entry\<rparr> }"

definition dol_load :: "file_env \<Rightarrow> (dol_error, DOLFile) outcome" where
  "dol_load env =
     bind_out (check (openable env) Dol_cannot_open) (\<lambda>_.
     let sz = length (contents env) in
     bind_out (check (DOL_HEADER_SIZE \<le> sz) Dol_too_small) (\<lambda>_.
     bind_out (check (can_alloc env 0) Dol_no_memory) (\<lambda>_.
     bind_out (check (read_all env) Dol_read_failed) (\<lambda>_.
     let h = contents env in
     bind_out (access (parse_dol_header h)) (\<lambda>hdr.
     let dol = \<lparr>dol_header = hdr, dol_file_data = Some h, dol_file_size = of_nat sz\<rparr> in
     bind_out (validate_dol_layout dol) (\<lambda>_. Ok dol))))))"

definition dol_free :: "DOLFile \<Rightarrow> DOLFile" where
  "dol_free dol =
     (let dol = (if dol_file_data dol \<noteq> None then dol\<lparr>dol_file_data := None\<rparr> else dol)
      in dol\<lparr>dol_file_size := 0\<rparr>)"

text \<open>The section accessors return the offset of the section in the file buffer; \<open>None\<close> is the null
  pointer.\<close>

definition dol_get_text_section :: "DOLFile \<Rightarrow> int \<Rightarrow> u32 option" where
  "dol_get_text_section dol index =
     (if index < 0 \<or> int DOL_NUM_TEXT \<le> index then None
      else if text_sizes (dol_header dol) ! nat index = 0 then None
      else if \<not> range_fits (text_offsets (dol_header dol) ! nat index)
                (text_sizes (dol_header dol) ! nat index) (dol_file_size dol) then None
      else Some (text_offsets (dol_header dol) ! nat index))"

definition dol_get_data_section :: "DOLFile \<Rightarrow> int \<Rightarrow> u32 option" where
  "dol_get_data_section dol index =
     (if index < 0 \<or> int DOL_NUM_DATA \<le> index then None
      else if data_sizes (dol_header dol) ! nat index = 0 then None
      else if \<not> range_fits (data_offsets (dol_header dol) ! nat index)
                (data_sizes (dol_header dol) ! nat index) (dol_file_size dol) then None
      else Some (data_offsets (dol_header dol) ! nat index))"

section \<open>The layout a valid file has\<close>

definition in_file :: "u32 \<Rightarrow> u32 \<Rightarrow> u32 \<Rightarrow> bool" where
  "in_file offset sz limit \<longleftrightarrow> sz = 0 \<or> unat offset + unat sz \<le> unat limit"

definition dol_layout :: "DOLFile \<Rightarrow> bool" where
  "dol_layout dol \<longleftrightarrow>
     (let h = dol_header dol in
      dol_entry_point h AND 3 = 0 \<and>
      (\<forall>i < 7. in_file (text_offsets h ! i) (text_sizes h ! i) (dol_file_size dol) \<and>
               text_sizes h ! i AND 3 = 0) \<and>
      (\<forall>i < 11. in_file (data_offsets h ! i) (data_sizes h ! i) (dol_file_size dol)) \<and>
      (\<exists>i < 7. address_in_range (dol_entry_point h) (text_addresses h ! i) (text_sizes h ! i)))"

lemma validate_section_range_iff:
  "validate_section_range t i offset sz limit = Ok u \<longleftrightarrow> in_file offset sz limit"
  by (auto simp: validate_section_range_def in_file_def range_fits_iff)

lemma validate_section_range_not_UB [simp]: "validate_section_range t i offset sz limit \<noteq> UB"
  by (simp add: validate_section_range_def)

text \<open>One step of a counting loop splits off its first index.\<close>

lemma range_step:
  "(\<forall>j. i \<le> j \<and> j < Suc (i + n) \<longrightarrow> P j) \<longleftrightarrow> P i \<and> (\<forall>j. Suc i \<le> j \<and> j < Suc (i + n) \<longrightarrow> P j)"
  "(\<exists>j. i \<le> j \<and> j < Suc (i + n) \<and> P j) \<longleftrightarrow> P i \<or> (\<exists>j. Suc i \<le> j \<and> j < Suc (i + n) \<and> P j)"
proof -
  have "i \<le> j \<and> j < Suc (i + n) \<longleftrightarrow> j = i \<or> Suc i \<le> j \<and> j < Suc (i + n)" for j
    by auto
  then show
    "(\<forall>j. i \<le> j \<and> j < Suc (i + n) \<longrightarrow> P j) \<longleftrightarrow> P i \<and> (\<forall>j. Suc i \<le> j \<and> j < Suc (i + n) \<longrightarrow> P j)"
    "(\<exists>j. i \<le> j \<and> j < Suc (i + n) \<and> P j) \<longleftrightarrow> P i \<or> (\<exists>j. Suc i \<le> j \<and> j < Suc (i + n) \<and> P j)"
    by (metis, metis)
qed

lemma validate_text_loop_iff:
  "validate_text_loop dol i n found = Ok b \<longleftrightarrow>
     (\<forall>j. i \<le> j \<and> j < i + n \<longrightarrow>
        in_file (text_offsets (dol_header dol) ! j) (text_sizes (dol_header dol) ! j)
          (dol_file_size dol) \<and>
        text_sizes (dol_header dol) ! j AND 3 = 0) \<and>
     b = (found \<or> (\<exists>j. i \<le> j \<and> j < i + n \<and>
        address_in_range (dol_entry_point (dol_header dol)) (text_addresses (dol_header dol) ! j)
          (text_sizes (dol_header dol) ! j)))"
proof (induction n arbitrary: i found)
  case (Suc n)
  show ?case
    by (auto simp: Let_def outcome_simps validate_section_range_iff Suc.IH range_step)
qed auto

lemma validate_data_loop_iff:
  "validate_data_loop dol i n = Ok () \<longleftrightarrow>
     (\<forall>j. i \<le> j \<and> j < i + n \<longrightarrow>
        in_file (data_offsets (dol_header dol) ! j) (data_sizes (dol_header dol) ! j)
          (dol_file_size dol))"
proof (induction n arbitrary: i)
  case (Suc n)
  show ?case
    by (auto simp: outcome_simps validate_section_range_iff Suc.IH range_step)
qed auto

lemma validate_dol_layout_iff: "validate_dol_layout dol = Ok u \<longleftrightarrow> dol_layout dol"
  by (auto simp: validate_dol_layout_def dol_layout_def Let_def outcome_simps
    validate_text_loop_iff validate_data_loop_iff DOL_NUM_TEXT_def DOL_NUM_DATA_def)

lemma validate_text_loop_not_UB: "validate_text_loop dol i n found \<noteq> UB"
  by (induction n arbitrary: i found) (simp_all add: Let_def outcome_simps)

lemma validate_data_loop_not_UB: "validate_data_loop dol i n \<noteq> UB"
  by (induction n arbitrary: i) (simp_all add: outcome_simps)

lemma validate_dol_layout_not_UB: "validate_dol_layout dol \<noteq> UB"
  by (simp add: validate_dol_layout_def outcome_simps validate_text_loop_not_UB
    validate_data_loop_not_UB)

section \<open>Loading is safe and establishes the layout\<close>

lemma those_map_Some: "(\<And>x. x \<in> set xs \<Longrightarrow> f x = Some (g x)) \<Longrightarrow> those (map f xs) = Some (map g xs)"
  by (induction xs) auto

lemma read_be32_array_eq:
  "base + 4 * n \<le> length h \<Longrightarrow>
   read_be32_array h base n = Some (map (\<lambda>i. the (read_be32 h (base + i * 4))) [0..<n])"
  unfolding read_be32_array_def
  by (rule those_map_Some) (auto simp: read_be32_eq)

lemma parse_dol_header_defined: "DOL_HEADER_SIZE \<le> length h \<Longrightarrow> \<exists>hdr. parse_dol_header h = Some hdr"
  by (simp add: parse_dol_header_def read_be32_array_eq read_be32_eq DOL_HEADER_SIZE_def
    DOL_NUM_TEXT_def DOL_NUM_DATA_def)

lemma dol_load_not_UB: "dol_load env \<noteq> UB"
  using parse_dol_header_defined [of "contents env"]
  by (auto simp: dol_load_def Let_def outcome_simps validate_dol_layout_not_UB)

lemma dol_load_Ok_iff:
  "dol_load env = Ok dol \<longleftrightarrow>
     openable env \<and> DOL_HEADER_SIZE \<le> length (contents env) \<and> can_alloc env 0 \<and> read_all env \<and>
     (\<exists>hdr. parse_dol_header (contents env) = Some hdr \<and>
        dol = \<lparr>dol_header = hdr, dol_file_data = Some (contents env),
               dol_file_size = of_nat (length (contents env))\<rparr> \<and> dol_layout dol)"
  by (auto simp: dol_load_def Let_def outcome_simps validate_dol_layout_iff)

text \<open>A section the accessors return lies in the file buffer.\<close>

lemma unat_of_nat_le: "unat (of_nat n :: u32) \<le> n"
  by (simp add: unat_of_nat)

lemma dol_section_in_buffer:
  assumes "dol_load env = Ok dol" "i < 7" "text_sizes (dol_header dol) ! i \<noteq> 0"
  shows "\<exists>off. dol_get_text_section dol (int i) = Some off \<and>
    unat off + unat (text_sizes (dol_header dol) ! i) \<le> length (contents env)"
proof -
  have "in_file (text_offsets (dol_header dol) ! i) (text_sizes (dol_header dol) ! i) (dol_file_size dol)"
    and "dol_file_size dol = of_nat (length (contents env))"
    using assms(1,2) by (auto simp: dol_load_Ok_iff dol_layout_def Let_def)
  then show ?thesis
    using assms(2,3) unat_of_nat_le [of "length (contents env)"]
    by (auto simp: dol_get_text_section_def DOL_NUM_TEXT_def in_file_def range_fits_iff)
qed

section \<open>Properties\<close>

text \<open>C23 Loading a DOL never reads outside the file buffer, whatever the file, and accepts it
  exactly when it can be read and has the declarative layout.\<close>

theorem dol_load_safe:
  "dol_load env \<noteq> UB \<and>
   (dol_load env = Ok dol \<longleftrightarrow>
     openable env \<and> 0x100 \<le> length (contents env) \<and> can_alloc env 0 \<and> read_all env \<and>
     (\<exists>hdr. parse_dol_header (contents env) = Some hdr \<and>
        dol = \<lparr>dol_header = hdr, dol_file_data = Some (contents env),
               dol_file_size = of_nat (length (contents env))\<rparr> \<and> dol_layout dol))"
  using dol_load_not_UB dol_load_Ok_iff by (simp add: DOL_HEADER_SIZE_def)

text \<open>C24 Every nonempty text section of a loaded DOL is found by its accessor and lies
  inside the file buffer.\<close>

theorem dol_sections_in_buffer:
  assumes "dol_load env = Ok dol" "i < 7" "text_sizes (dol_header dol) ! i \<noteq> 0"
  shows "\<exists>off. dol_get_text_section dol (int i) = Some off \<and>
    unat off + unat (text_sizes (dol_header dol) ! i) \<le> length (contents env)"
  using assms by (rule dol_section_in_buffer)

text \<open>A file with one text section of eight bytes at offset 0x100, loaded at 0x80003100.\<close>

definition tiny_dol :: file_env where
  "tiny_dol = \<lparr>openable = True,
     contents = (replicate 264 0)[2 := 1, 0x48 := 0x80, 0x4A := 0x31, 0x93 := 8, 0xE0 := 0x80, 0xE2 := 0x31],
     can_alloc = (\<lambda>_. True), read_all = True\<rparr>"

lemma tiny_dol_loads: "case dol_load tiny_dol of Ok dol \<Rightarrow> text_sizes (dol_header dol) ! 0 = 8 | _ \<Rightarrow> False"
  by code_simp

theorem dol_sections_in_buffer_witness:
  "\<exists>dol off. dol_load tiny_dol = Ok dol \<and> dol_get_text_section dol 0 = Some off"
proof -
  obtain dol where d: "dol_load tiny_dol = Ok dol" "text_sizes (dol_header dol) ! 0 = 8"
    using tiny_dol_loads by (cases "dol_load tiny_dol") auto
  show ?thesis
    using dol_sections_in_buffer [OF d(1), of 0] d by auto
qed

end
