(* ===== verification/Rel.thy ===== *)
theory Rel
  imports Dol
begin

text \<open>
  \<open>src/frontend/container/rel.c\<close>: the relocatable module loader.  Loading reads the header and the
  section table, copies the sections and lays out the zero-initialised ones; relocation interprets
  the relocation stream of every import and patches the copied section bytes.

  \<open>data\<close> and \<open>owned_data\<close> of a section are always one pointer, the field \<open>sec_data\<close>.  The file
  system, the allocator and \<open>range_fits\<close>, of which \<open>rel.c\<close> has its own copy, are those of theory
  \<open>Dol\<close>.  Allocation 0 is the file buffer, 1 the section array, \<open>2 + i\<close> the data of section \<open>i\<close>.
\<close>

section \<open>Data\<close>

record RELSection =
  sec_index :: u32
  sec_offset :: u32
  sec_address :: u32
  sec_size :: u32
  sec_executable :: bool
  sec_bss :: bool
  sec_data :: "u8 list option"

record RELFile =
  rel_file_data :: "u8 list"
  rel_file_size :: u32
  rel_module_id :: u32
  rel_version :: u32
  rel_bss_size :: u32
  rel_fix_size :: u32
  rel_base_address :: u32
  rel_entry_point :: u32
  rel_prolog_section :: u32
  rel_epilog_section :: u32
  rel_unresolved_section :: u32
  rel_prolog_offset :: u32
  rel_epilog_offset :: u32
  rel_unresolved_offset :: u32
  rel_import_count :: u32
  rel_relocation_count :: u32
  rel_relocation_offset :: u32
  rel_import_offset :: u32
  rel_import_size :: u32
  rel_section_count :: u32
  rel_sections :: "RELSection list"

text \<open>The module map; the C pointer to it, and the module pointer of an entry, may be null.\<close>

type_synonym RELModuleMap = "(u32 \<times> RELFile option) list option"

datatype rel_error =
    Rel_base_misaligned | Rel_cannot_open | Rel_too_small | Rel_no_memory | Rel_read_failed
  | Rel_fix_size | Rel_section_table | Rel_bss_overflow | Rel_section_outside nat
  | Rel_section_misaligned nat | Rel_address_overflow | Rel_no_executable
  | Rel_entry_section | Rel_entry_not_code | Rel_entry_offset
  | Rel_bad_section | Rel_outside_section | Rel_no_module | Rel_patch_outside
  | Rel_target_misaligned | Rel_delta | Rel_unsupported u8 | Rel_import_table | Rel_import_cursor
  | Rel_offset_overflow | Rel_no_end

definition REL_HEADER_MIN_SIZE :: nat where "REL_HEADER_MIN_SIZE = 0x40"
definition REL_SECTION_ENTRY_SIZE :: u32 where "REL_SECTION_ENTRY_SIZE = 8"
definition REL_IMPORT_ENTRY_SIZE :: u32 where "REL_IMPORT_ENTRY_SIZE = 8"
definition REL_RELOCATION_ENTRY_SIZE :: u32 where "REL_RELOCATION_ENTRY_SIZE = 8"
definition REL_MAX_SECTION_COUNT :: u32 where "REL_MAX_SECTION_COUNT = 4096"

abbreviation R_PPC_NONE :: u8 where "R_PPC_NONE \<equiv> 0"
abbreviation R_PPC_ADDR32 :: u8 where "R_PPC_ADDR32 \<equiv> 1"
abbreviation R_PPC_ADDR24 :: u8 where "R_PPC_ADDR24 \<equiv> 2"
abbreviation R_PPC_ADDR16 :: u8 where "R_PPC_ADDR16 \<equiv> 3"
abbreviation R_PPC_ADDR16_LO :: u8 where "R_PPC_ADDR16_LO \<equiv> 4"
abbreviation R_PPC_ADDR16_HI :: u8 where "R_PPC_ADDR16_HI \<equiv> 5"
abbreviation R_PPC_ADDR16_HA :: u8 where "R_PPC_ADDR16_HA \<equiv> 6"
abbreviation R_PPC_ADDR14 :: u8 where "R_PPC_ADDR14 \<equiv> 7"
abbreviation R_PPC_ADDR14_BRTAKEN :: u8 where "R_PPC_ADDR14_BRTAKEN \<equiv> 8"
abbreviation R_PPC_ADDR14_BRNTAKEN :: u8 where "R_PPC_ADDR14_BRNTAKEN \<equiv> 9"
abbreviation R_PPC_REL24 :: u8 where "R_PPC_REL24 \<equiv> 10"
abbreviation R_PPC_REL14 :: u8 where "R_PPC_REL14 \<equiv> 11"
abbreviation R_DOLPHIN_NOP :: u8 where "R_DOLPHIN_NOP \<equiv> 201"
abbreviation R_DOLPHIN_SECTION :: u8 where "R_DOLPHIN_SECTION \<equiv> 202"
abbreviation R_DOLPHIN_END :: u8 where "R_DOLPHIN_END \<equiv> 203"

lemmas rel_consts = REL_SECTION_ENTRY_SIZE_def REL_IMPORT_ENTRY_SIZE_def
  REL_RELOCATION_ENTRY_SIZE_def REL_MAX_SECTION_COUNT_def

section \<open>Checked arithmetic\<close>

definition align_up_u32 :: "u32 \<Rightarrow> u32 \<Rightarrow> u32 option" where
  "align_up_u32 value alignment =
     (if alignment \<le> 1 then Some value
      else let result = (ucast value + ucast alignment - 1) div ucast alignment * ucast alignment :: u64
           in if 0xFFFFFFFF < result then None else Some (ucast result))"

definition add_u32_checked :: "u32 \<Rightarrow> u32 \<Rightarrow> u32 option" where
  "add_u32_checked a b = (if 0xFFFFFFFF - a < b then None else Some (a + b))"

definition or_fail :: "'a option \<Rightarrow> 'e \<Rightarrow> ('e, 'a) outcome" where
  "or_fail x e = (case x of None \<Rightarrow> Err e | Some v \<Rightarrow> Ok v)"

section \<open>Sections and targets\<close>

definition section_has_file_data :: "RELSection \<Rightarrow> bool" where
  "section_has_file_data s \<longleftrightarrow> sec_size s \<noteq> 0 \<and> \<not> sec_bss s"

definition section_address_at :: "RELFile \<Rightarrow> u32 \<Rightarrow> u32 \<Rightarrow> (rel_error, u32) outcome" where
  "section_address_at rel section_index offset =
     bind_out (check (section_index < rel_section_count rel) Rel_bad_section) (\<lambda>_.
     bind_out (access (arr_get (rel_sections rel) (unat section_index))) (\<lambda>s.
     bind_out (check (\<not> (sec_size s = 0 \<or> sec_size s < offset)) Rel_outside_section) (\<lambda>_.
     or_fail (add_u32_checked (sec_address s) offset) Rel_address_overflow)))"

definition validate_entry :: "RELFile \<Rightarrow> u32 \<Rightarrow> u32 \<Rightarrow> (rel_error, unit) outcome" where
  "validate_entry rel section_index offset =
     (if section_index = 0 then Ok ()
      else
        bind_out (check (section_index < rel_section_count rel) Rel_entry_section) (\<lambda>_.
        bind_out (access (arr_get (rel_sections rel) (unat section_index))) (\<lambda>s.
        bind_out (check (\<not> (\<not> sec_executable s \<or> sec_bss s \<or> sec_data s = None)) Rel_entry_not_code) (\<lambda>_.
        check (\<not> (offset AND 3 \<noteq> 0 \<or> sec_size s \<le> offset)) Rel_entry_offset))))"

definition find_module :: "RELModuleMap \<Rightarrow> u32 \<Rightarrow> RELFile option" where
  "find_module modules module_id =
     (case modules of None \<Rightarrow> None
      | Some entries \<Rightarrow>
          (case find (\<lambda>e. fst e = module_id) entries of None \<Rightarrow> None | Some e \<Rightarrow> snd e))"

definition relocation_target ::
    "RELFile \<Rightarrow> RELModuleMap \<Rightarrow> u32 \<Rightarrow> u8 \<Rightarrow> u32 \<Rightarrow> (rel_error, u32) outcome" where
  "relocation_target rel modules import_module section_index symbol_offset =
     (if import_module = 0 then Ok symbol_offset
      else if import_module \<noteq> rel_module_id rel then
        (case find_module modules import_module of
           None \<Rightarrow> Err Rel_no_module
         | Some imported \<Rightarrow> section_address_at imported (ucast section_index) symbol_offset)
      else section_address_at rel (ucast section_index) symbol_offset)"

section \<open>Patching\<close>

definition require_patch_range :: "RELSection \<Rightarrow> u32 \<Rightarrow> u32 \<Rightarrow> (rel_error, unit) outcome" where
  "require_patch_range s offset patch_size =
     check (\<not> (\<not> section_has_file_data s \<or> sec_size s < offset \<or> sec_size s - offset < patch_size))
       Rel_patch_outside"

definition check_rel_delta :: "int \<Rightarrow> int \<Rightarrow> int \<Rightarrow> (rel_error, unit) outcome" where
  "check_rel_delta delta lo hi = check (\<not> (delta AND 3 \<noteq> 0 \<or> delta < lo \<or> hi < delta)) Rel_delta"

text \<open>Stores through \<open>patch = section->owned_data + offset\<close>; \<open>patch_word\<close> rewrites the word there.\<close>

definition patch_word :: "RELSection \<Rightarrow> u32 \<Rightarrow> (u32 \<Rightarrow> u32) \<Rightarrow> (rel_error, RELSection) outcome" where
  "patch_word s offset f =
     access (do { bs \<leftarrow> sec_data s; w \<leftarrow> read_be32 bs (unat offset);
       bs \<leftarrow> write_be32 bs (unat offset) (f w); Some (s\<lparr>sec_data := Some bs\<rparr>) })"

definition patch_half :: "RELSection \<Rightarrow> u32 \<Rightarrow> u16 \<Rightarrow> (rel_error, RELSection) outcome" where
  "patch_half s offset v =
     access (do { bs \<leftarrow> sec_data s; bs \<leftarrow> write_be16 bs (unat offset) v;
       Some (s\<lparr>sec_data := Some bs\<rparr>) })"

definition apply_relocation ::
    "RELSection \<Rightarrow> u32 \<Rightarrow> u32 \<Rightarrow> u8 \<Rightarrow> u32 \<Rightarrow> (rel_error, RELSection) outcome" where
  "apply_relocation s offset patch_address type target =
     (if type = R_PPC_NONE then Ok s
      else
        let patch_size = (if R_PPC_ADDR16 \<le> type \<and> type \<le> R_PPC_ADDR16_HA then 2 else 4) in
        bind_out (require_patch_range s offset patch_size) (\<lambda>_.
        if type = R_PPC_ADDR32 then patch_word s offset (\<lambda>w. target)
        else if type = R_PPC_ADDR24 then
          bind_out (check (target AND 3 = 0) Rel_target_misaligned) (\<lambda>_.
          patch_word s offset (\<lambda>w. (w AND 0xFC000003) OR (target AND 0x03FFFFFC)))
        else if type = R_PPC_ADDR16 \<or> type = R_PPC_ADDR16_LO then patch_half s offset (ucast target)
        else if type = R_PPC_ADDR16_HI then patch_half s offset (ucast (shr target 16))
        else if type = R_PPC_ADDR16_HA then patch_half s offset (ucast (shr (target + 0x8000) 16))
        else if type = R_PPC_ADDR14 \<or> type = R_PPC_ADDR14_BRTAKEN \<or> type = R_PPC_ADDR14_BRNTAKEN then
          bind_out (check (target AND 3 = 0) Rel_target_misaligned) (\<lambda>_.
          patch_word s offset (\<lambda>w. (w AND 0xFFFF0003) OR (target AND 0x0000FFFC)))
        else if type = R_PPC_REL24 then
          let delta = sint (target - patch_address) in
          bind_out (check_rel_delta delta (- 0x02000000) 0x01FFFFFC) (\<lambda>_.
          patch_word s offset (\<lambda>w. (w AND 0xFC000003) OR (word_of_int delta AND 0x03FFFFFC)))
        else if type = R_PPC_REL14 then
          let delta = sint (target - patch_address) in
          bind_out (check_rel_delta delta (- 0x8000) 0x7FFC) (\<lambda>_.
          patch_word s offset (\<lambda>w. (w AND 0xFFFF0003) OR (word_of_int delta AND 0x0000FFFC)))
        else Err (Rel_unsupported type)))"

section \<open>The relocation stream\<close>

text \<open>The fields of an entry: offset delta, type, section and symbol offset.\<close>

definition read_reloc_entry :: "u8 list \<Rightarrow> nat \<Rightarrow> (u16 \<times> u8 \<times> u8 \<times> u32) option" where
  "read_reloc_entry data cursor = do {
     offset_delta \<leftarrow> read_be16 data cursor;
     type \<leftarrow> read_u8 data (cursor + 2);
     section_index \<leftarrow> read_u8 data (cursor + 3);
     symbol_offset \<leftarrow> read_be32 data (cursor + 4);
     Some (offset_delta, type, section_index, symbol_offset) }"

text \<open>An entry that patches.\<close>

definition reloc_patch :: "RELModuleMap \<Rightarrow> u32 \<Rightarrow> RELFile \<Rightarrow> u32 \<Rightarrow> u32 \<Rightarrow> u8 \<Rightarrow> u8 \<Rightarrow> u32 \<Rightarrow>
    (rel_error, RELFile) outcome" where
  "reloc_patch modules import_module rel current_section current_offset type section_index symbol_offset =
     bind_out (check (current_section < rel_section_count rel) Rel_bad_section) (\<lambda>_.
     bind_out (relocation_target rel modules import_module section_index symbol_offset) (\<lambda>target.
     bind_out (section_address_at rel current_section current_offset) (\<lambda>patch_address.
     bind_out (access (arr_get (rel_sections rel) (unat current_section))) (\<lambda>s.
     bind_out (apply_relocation s current_offset patch_address type target) (\<lambda>s.
     bind_out (access (arr_set (rel_sections rel) (unat current_section) s)) (\<lambda>ss.
     Ok (rel\<lparr>rel_sections := ss, rel_relocation_count := rel_relocation_count rel + 1\<rparr>)))))))"

text \<open>One entry of the stream: the new module, section and offset, or \<open>None\<close> at the end mark.\<close>

definition reloc_step :: "RELModuleMap \<Rightarrow> u32 \<Rightarrow> RELFile \<Rightarrow> u32 \<Rightarrow> u32 \<Rightarrow> u32 \<Rightarrow>
    (rel_error, (RELFile \<times> u32 \<times> u32) option) outcome" where
  "reloc_step modules import_module rel cursor current_section current_offset =
     bind_out (access (read_reloc_entry (rel_file_data rel) (unat cursor)))
     (\<lambda>(offset_delta, type, section_index, symbol_offset).
     if type = R_DOLPHIN_SECTION then
       bind_out (check (ucast section_index < rel_section_count rel) Rel_bad_section) (\<lambda>_.
       Ok (Some (rel, ucast section_index, 0)))
     else if type = R_DOLPHIN_END then Ok None
     else
       bind_out (or_fail (add_u32_checked current_offset (ucast offset_delta)) Rel_offset_overflow)
       (\<lambda>current_offset.
       if type = R_DOLPHIN_NOP then Ok (Some (rel, current_section, current_offset))
       else bind_out (reloc_patch modules import_module rel current_section current_offset type
              section_index symbol_offset) (\<lambda>rel. Ok (Some (rel, current_section, current_offset)))))"

lemma bind_out_cong [fundef_cong]:
  "m = m' \<Longrightarrow> (\<And>x. m' = Ok x \<Longrightarrow> f x = g x) \<Longrightarrow> bind_out m f = bind_out m' g"
  by (cases m') simp_all

lemma or_fail_simps [outcome_simps]:
  "or_fail x e = Ok v \<longleftrightarrow> x = Some v" "or_fail x e = UB \<longleftrightarrow> False"
  by (simp_all add: or_fail_def split: option.split)

lemma reloc_patch_Ok:
  assumes "reloc_patch modules im rel cs co ty si so = Ok rel'"
  obtains target pa s s' where "relocation_target rel modules im si so = Ok target"
    "section_address_at rel cs co = Ok pa" "cs < rel_section_count rel"
    "unat cs < length (rel_sections rel)" "s = rel_sections rel ! unat cs"
    "apply_relocation s co pa ty target = Ok s'"
    "rel' = rel\<lparr>rel_sections := (rel_sections rel)[unat cs := s'],
                rel_relocation_count := rel_relocation_count rel + 1\<rparr>"
  using assms
  by (auto simp: reloc_patch_def outcome_simps arr_get_eq_Some_iff arr_set_eq_Some_iff)

text \<open>A step keeps the module, or patches one section of it.\<close>

lemma reloc_step_Ok:
  assumes "reloc_step modules im rel c cs co = Ok (Some (rel', cs', co'))"
  obtains (keep) "rel' = rel"
  | (patch) ty si so where "reloc_patch modules im rel cs co' ty si so = Ok rel'" "cs' = cs"
proof -
  from assms obtain od ty si so where
    e: "(if ty = R_DOLPHIN_SECTION then
       bind_out (check (ucast si < rel_section_count rel) Rel_bad_section) (\<lambda>_.
       Ok (Some (rel, ucast si, 0)))
     else if ty = R_DOLPHIN_END then Ok None
     else
       bind_out (or_fail (add_u32_checked co (ucast (od :: u16))) Rel_offset_overflow)
       (\<lambda>co. if ty = R_DOLPHIN_NOP then Ok (Some (rel, cs, co))
       else bind_out (reloc_patch modules im rel cs co ty si so) (\<lambda>rel. Ok (Some (rel, cs, co)))))
     = Ok (Some (rel', cs', co'))"
    unfolding reloc_step_def bind_out_Ok_iff by (auto simp only: prod.case)
  then show thesis
    by (cases "ty = R_DOLPHIN_SECTION"; cases "ty = R_DOLPHIN_END"; cases "ty = R_DOLPHIN_NOP")
      (auto simp: outcome_simps intro: keep patch)
qed

lemma reloc_step_file_size:
  assumes "reloc_step modules im rel c s off = Ok (Some (rel', s', off'))"
  shows "rel_file_size rel' = rel_file_size rel \<and> rel_file_data rel' = rel_file_data rel"
  using assms by (cases rule: reloc_step_Ok) (auto elim: reloc_patch_Ok)

function reloc_loop :: "RELModuleMap \<Rightarrow> u32 \<Rightarrow> RELFile \<Rightarrow> u32 \<Rightarrow> u32 \<Rightarrow> u32 \<Rightarrow>
    (rel_error, bool \<times> RELFile) outcome" where
  "reloc_loop modules im rel cursor s off =
     (if range_fits cursor REL_RELOCATION_ENTRY_SIZE (rel_file_size rel) then
        bind_out (reloc_step modules im rel cursor s off) (\<lambda>r. case r of
          None \<Rightarrow> Ok (True, rel)
        | Some (rel', s', off') \<Rightarrow>
            reloc_loop modules im rel' (cursor + REL_RELOCATION_ENTRY_SIZE) s' off')
      else Ok (False, rel))"
  by pat_completeness auto

lemma cursor_advances:
  assumes "range_fits cursor 8 fsize"
  shows "unat (cursor + 8) = unat cursor + 8" "unat (cursor + 8) \<le> unat fsize"
proof -
  have "unat cursor + 8 \<le> unat fsize"
    using assms by (simp add: range_fits_iff)
  moreover have "unat fsize < 2 ^ 32"
    using unsigned_less [of fsize] by simp
  ultimately have "unat cursor + unat (8 :: u32) < 2 ^ 32" by simp
  then show "unat (cursor + 8) = unat cursor + 8"
    by (subst unat_add_lem [THEN iffD1]) simp_all
  with \<open>unat cursor + 8 \<le> unat fsize\<close> show "unat (cursor + 8) \<le> unat fsize" by simp
qed

text \<open>The loop ends: the cursor moves towards the end of the file.\<close>

termination reloc_loop
proof (relation "measure (\<lambda>(modules, im, rel, cursor, s, off). unat (rel_file_size rel) - unat cursor)")
  fix modules im rel cursor s off r p rel' q s' off'
  assume fits: "range_fits cursor REL_RELOCATION_ENTRY_SIZE (rel_file_size rel)"
    and step: "reloc_step modules im rel cursor s off = Ok r" "r = Some p" "(rel', q) = p" "(s', off') = q"
  have "rel_file_size rel' = rel_file_size rel"
    using step reloc_step_file_size by blast
  then show "((modules, im, rel', cursor + REL_RELOCATION_ENTRY_SIZE, s', off'), modules, im, rel, cursor, s, off)
      \<in> measure (\<lambda>(modules, im, rel, cursor, s, off). unat (rel_file_size rel) - unat cursor)"
    using cursor_advances [of cursor "rel_file_size rel"] fits by (simp add: rel_consts)
qed simp

declare reloc_loop.simps [simp del]

section \<open>The import table\<close>

text \<open>The imports from number \<open>i\<close> on; \<open>n\<close> are left.\<close>

fun import_loop :: "RELModuleMap \<Rightarrow> RELFile \<Rightarrow> nat \<Rightarrow> nat \<Rightarrow> (rel_error, RELFile) outcome" where
  "import_loop modules rel i 0 = Ok rel"
| "import_loop modules rel i (Suc n) =
     (let entry = unat (rel_import_offset rel) + unat (of_nat i * REL_IMPORT_ENTRY_SIZE) in
      bind_out (access (read_be32 (rel_file_data rel) entry)) (\<lambda>import_module.
      bind_out (access (read_be32 (rel_file_data rel) (entry + 4))) (\<lambda>cursor.
      bind_out (check (range_fits cursor REL_RELOCATION_ENTRY_SIZE (rel_file_size rel) \<and>
                       rel_relocation_offset rel \<le> cursor) Rel_import_cursor) (\<lambda>_.
      bind_out (reloc_loop modules import_module rel cursor 0 0) (\<lambda>(saw_end, rel).
      bind_out (check saw_end Rel_no_end) (\<lambda>_.
      import_loop modules rel (i + 1) n))))))"

definition rel_apply_relocations :: "RELModuleMap \<Rightarrow> RELFile \<Rightarrow> (rel_error, RELFile) outcome" where
  "rel_apply_relocations modules rel =
     (let rel = rel\<lparr>rel_relocation_count := 0\<rparr> in
      if rel_import_size rel = 0 then Ok rel
      else
        bind_out (check (rel_import_size rel mod REL_IMPORT_ENTRY_SIZE = 0 \<and>
                         range_fits (rel_import_offset rel) (rel_import_size rel) (rel_file_size rel))
                   Rel_import_table) (\<lambda>_.
        let rel = rel\<lparr>rel_import_count := rel_import_size rel div REL_IMPORT_ENTRY_SIZE\<rparr> in
        import_loop modules rel 0 (unat (rel_import_count rel))))"

section \<open>Loading the image\<close>

definition zero_rel :: RELFile where
  "zero_rel =
    \<lparr>rel_file_data = [], rel_file_size = 0, rel_module_id = 0, rel_version = 0, rel_bss_size = 0,
     rel_fix_size = 0, rel_base_address = 0, rel_entry_point = 0, rel_prolog_section = 0,
     rel_epilog_section = 0, rel_unresolved_section = 0, rel_prolog_offset = 0,
     rel_epilog_offset = 0, rel_unresolved_offset = 0, rel_import_count = 0,
     rel_relocation_count = 0, rel_relocation_offset = 0, rel_import_offset = 0,
     rel_import_size = 0, rel_section_count = 0, rel_sections = []\<rparr>"

definition zero_section :: RELSection where
  "zero_section = \<lparr>sec_index = 0, sec_offset = 0, sec_address = 0, sec_size = 0,
     sec_executable = False, sec_bss = False, sec_data = None\<rparr>"

definition read_file :: "file_env \<Rightarrow> (rel_error, RELFile) outcome" where
  "read_file env =
     bind_out (check (openable env) Rel_cannot_open) (\<lambda>_.
     bind_out (check (REL_HEADER_MIN_SIZE \<le> length (contents env)) Rel_too_small) (\<lambda>_.
     bind_out (check (can_alloc env 0) Rel_no_memory) (\<lambda>_.
     bind_out (check (read_all env) Rel_read_failed) (\<lambda>_.
     Ok (zero_rel\<lparr>rel_file_data := contents env,
                  rel_file_size := of_nat (length (contents env))\<rparr>)))))"

text \<open>The header fields; the pair holds \<open>section_info_offset\<close> and \<open>bss_alignment\<close>.\<close>

definition parse_rel_header :: "u32 \<Rightarrow> RELFile \<Rightarrow> (RELFile \<times> u32 \<times> u32) option" where
  "parse_rel_header base rel = do {
     let h = rel_file_data rel;
     let fsize = rel_file_size rel;
     module_id \<leftarrow> read_be32 h 0x00;
     section_count \<leftarrow> read_be32 h 0x0C;
     section_info_offset \<leftarrow> read_be32 h 0x10;
     version \<leftarrow> read_be32 h 0x1C;
     bss_sz \<leftarrow> read_be32 h 0x20;
     relocation_offset \<leftarrow> read_be32 h 0x24;
     import_offset \<leftarrow> read_be32 h 0x28;
     import_size \<leftarrow> read_be32 h 0x2C;
     prolog_section \<leftarrow> read_u8 h 0x30;
     epilog_section \<leftarrow> read_u8 h 0x31;
     unresolved_section \<leftarrow> read_u8 h 0x32;
     prolog_offset \<leftarrow> read_be32 h 0x34;
     epilog_offset \<leftarrow> read_be32 h 0x38;
     unresolved_offset \<leftarrow> read_be32 h 0x3C;
     bss_alignment \<leftarrow> (if 0x48 \<le> fsize then read_be32 h 0x44 else Some 4);
     fix_size \<leftarrow> (if 3 \<le> version \<and> 0x4C \<le> fsize then read_be32 h 0x48 else Some fsize);
     Some (rel\<lparr>rel_module_id := module_id, rel_version := version, rel_bss_size := bss_sz,
               rel_fix_size := fix_size, rel_base_address := base,
               rel_prolog_section := ucast prolog_section, rel_epilog_section := ucast epilog_section,
               rel_unresolved_section := ucast unresolved_section,
               rel_prolog_offset := prolog_offset, rel_epilog_offset := epilog_offset,
               rel_unresolved_offset := unresolved_offset,
               rel_relocation_offset := relocation_offset, rel_import_offset := import_offset,
               rel_import_size := import_size, rel_section_count := section_count\<rparr>,
           section_info_offset, bss_alignment) }"

text \<open>\<open>memcpy\<close> of \<open>n\<close> bytes at \<open>offset\<close>.\<close>

definition copy_bytes :: "u8 list \<Rightarrow> nat \<Rightarrow> nat \<Rightarrow> u8 list option" where
  "copy_bytes bs offset n =
     (if offset + n \<le> length bs then Some (take n (drop offset bs)) else None)"

text \<open>One section: the filled-in section, the BSS cursor behind it, and whether it counts as
  executable.\<close>

definition load_section :: "file_env \<Rightarrow> RELFile \<Rightarrow> u32 \<Rightarrow> u32 \<Rightarrow> nat \<Rightarrow> u32 \<Rightarrow>
    (rel_error, RELSection \<times> u32 \<times> bool) outcome" where
  "load_section env rel section_info_offset bss_alignment i bss_cursor =
     (let entry = unat section_info_offset + unat (of_nat i * REL_SECTION_ENTRY_SIZE) in
      bind_out (access (read_be32 (rel_file_data rel) entry)) (\<lambda>raw_offset.
      bind_out (access (read_be32 (rel_file_data rel) (entry + 4))) (\<lambda>sz.
      let offset = raw_offset AND NOT 1;
          executable = (raw_offset AND 1 \<noteq> 0);
          s = zero_section\<lparr>sec_index := of_nat i, sec_offset := offset, sec_size := sz,
                sec_executable := executable, sec_bss := (sz \<noteq> 0 \<and> offset = 0 \<and> \<not> executable)\<rparr>
      in
      if sz = 0 then Ok (s, bss_cursor, False)
      else if sec_bss s then
        bind_out (or_fail (add_u32_checked bss_cursor sz) Rel_bss_overflow) (\<lambda>next_bss.
        bind_out (or_fail (align_up_u32 next_bss (if bss_alignment \<noteq> 0 then bss_alignment else 4))
                    Rel_bss_overflow) (\<lambda>next_bss.
        Ok (s\<lparr>sec_address := bss_cursor\<rparr>, next_bss, False)))
      else
        bind_out (check (range_fits offset sz (rel_file_size rel)) (Rel_section_outside i)) (\<lambda>_.
        bind_out (check (\<not> (executable \<and> (sz AND 3 \<noteq> 0 \<or> offset AND 3 \<noteq> 0)))
                    (Rel_section_misaligned i)) (\<lambda>_.
        bind_out (or_fail (add_u32_checked (rel_base_address rel) offset) Rel_address_overflow) (\<lambda>address.
        bind_out (check (can_alloc env (2 + i)) Rel_no_memory) (\<lambda>_.
        bind_out (access (copy_bytes (rel_file_data rel) (unat offset) (unat sz))) (\<lambda>bs.
        Ok (s\<lparr>sec_address := address, sec_data := Some bs\<rparr>, bss_cursor, executable)))))))))"

fun section_loop :: "file_env \<Rightarrow> RELFile \<Rightarrow> u32 \<Rightarrow> u32 \<Rightarrow> nat \<Rightarrow> nat \<Rightarrow> u32 \<Rightarrow> u32 \<Rightarrow>
    (rel_error, RELFile \<times> u32) outcome" where
  "section_loop env rel info al i 0 bss_cursor executable_count = Ok (rel, executable_count)"
| "section_loop env rel info al i (Suc n) bss_cursor executable_count =
     bind_out (load_section env rel info al i bss_cursor) (\<lambda>(s, bss_cursor, counts).
     bind_out (access (arr_set (rel_sections rel) i s)) (\<lambda>ss.
     section_loop env (rel\<lparr>rel_sections := ss\<rparr>) info al (i + 1) n bss_cursor
       (if counts then executable_count + 1 else executable_count)))"

text \<open>The section array and the layout of the sections.\<close>

definition place_sections :: "file_env \<Rightarrow> u32 \<Rightarrow> RELFile \<Rightarrow> u32 \<Rightarrow> u32 \<Rightarrow> (rel_error, RELFile \<times> u32) outcome" where
  "place_sections env base rel section_info_offset bss_alignment =
     bind_out (check (can_alloc env 1) Rel_no_memory) (\<lambda>_.
     let rel = rel\<lparr>rel_sections := replicate (unat (rel_section_count rel)) zero_section\<rparr> in
     bind_out (or_fail (add_u32_checked base (rel_fix_size rel)) Rel_bss_overflow) (\<lambda>bss_start.
     bind_out (or_fail (align_up_u32 bss_start (if bss_alignment \<noteq> 0 then bss_alignment else 4))
                 Rel_bss_overflow) (\<lambda>bss_cursor.
     section_loop env rel section_info_offset bss_alignment 0
       (unat (rel_section_count rel)) bss_cursor 0)))"

text \<open>The checks behind the section loop and the entry point.\<close>

definition resolve_entries :: "RELFile \<Rightarrow> u32 \<Rightarrow> (rel_error, RELFile) outcome" where
  "resolve_entries rel executable_count =
     bind_out (check (executable_count \<noteq> 0) Rel_no_executable) (\<lambda>_.
     bind_out (validate_entry rel (rel_prolog_section rel) (rel_prolog_offset rel)) (\<lambda>_.
     bind_out (validate_entry rel (rel_epilog_section rel) (rel_epilog_offset rel)) (\<lambda>_.
     bind_out (validate_entry rel (rel_unresolved_section rel) (rel_unresolved_offset rel)) (\<lambda>_.
     if rel_prolog_section rel \<noteq> 0 then
       bind_out (section_address_at rel (rel_prolog_section rel) (rel_prolog_offset rel)) (\<lambda>entry.
       Ok (rel\<lparr>rel_entry_point := entry\<rparr>))
     else Ok rel))))"

definition rel_load_image :: "file_env \<Rightarrow> u32 \<Rightarrow> (rel_error, RELFile) outcome" where
  "rel_load_image env base =
     bind_out (check (base AND 3 = 0) Rel_base_misaligned) (\<lambda>_.
     bind_out (read_file env) (\<lambda>rel.
     bind_out (access (parse_rel_header base rel)) (\<lambda>(rel, section_info_offset, bss_alignment).
     bind_out (check (\<not> (rel_fix_size rel = 0 \<or> rel_file_size rel < rel_fix_size rel)) Rel_fix_size) (\<lambda>_.
     bind_out (check (\<not> (rel_section_count rel = 0 \<or> REL_MAX_SECTION_COUNT < rel_section_count rel \<or>
                 \<not> range_fits section_info_offset
                     (rel_section_count rel * REL_SECTION_ENTRY_SIZE) (rel_file_size rel)))
                 Rel_section_table) (\<lambda>_.
     bind_out (place_sections env base rel section_info_offset bss_alignment) (\<lambda>(rel, executable_count).
     resolve_entries rel executable_count))))))"

definition rel_load :: "file_env \<Rightarrow> u32 \<Rightarrow> (rel_error, RELFile) outcome" where
  "rel_load env base =
     bind_out (rel_load_image env base) (\<lambda>rel.
     rel_apply_relocations (Some [(rel_module_id rel, Some rel)]) rel)"

definition rel_free :: "RELFile \<Rightarrow> RELFile" where
  "rel_free rel = zero_rel"

section \<open>The module invariant\<close>

text \<open>A section with file data owns exactly its bytes.\<close>

definition wf_section :: "RELSection \<Rightarrow> bool" where
  "wf_section s \<longleftrightarrow> (section_has_file_data s \<longrightarrow>
     (case sec_data s of None \<Rightarrow> False | Some bs \<Rightarrow> length bs = unat (sec_size s)))"

definition wf_rel :: "RELFile \<Rightarrow> bool" where
  "wf_rel rel \<longleftrightarrow>
     unat (rel_file_size rel) \<le> length (rel_file_data rel) \<and>
     length (rel_sections rel) = unat (rel_section_count rel) \<and>
     list_all wf_section (rel_sections rel)"

text \<open>What an imported module contributes: its section table.\<close>

definition wf_modules :: "RELModuleMap \<Rightarrow> bool" where
  "wf_modules modules \<longleftrightarrow>
     (case modules of None \<Rightarrow> True
      | Some es \<Rightarrow> list_all (\<lambda>(i, m). case m of None \<Rightarrow> True
          | Some r \<Rightarrow> length (rel_sections r) = unat (rel_section_count r)) es)"

text \<open>The part of a section that relocation leaves alone.\<close>

definition same_frame :: "RELSection \<Rightarrow> RELSection \<Rightarrow> bool" where
  "same_frame s s' \<longleftrightarrow> s'\<lparr>sec_data := None\<rparr> = s\<lparr>sec_data := None\<rparr>"

lemma section_address_at_not_UB:
  "length (rel_sections rel) = unat (rel_section_count rel) \<Longrightarrow> section_address_at rel i off \<noteq> UB"
  by (auto simp: section_address_at_def outcome_simps arr_get_eq_None_iff word_less_nat_alt)

lemma find_module_wf:
  assumes "wf_modules modules" "find_module modules i = Some r"
  shows "length (rel_sections r) = unat (rel_section_count r)"
proof -
  from assms(2) obtain es e where es: "modules = Some es" "find (\<lambda>e. fst e = i) es = Some e" "snd e = Some r"
    by (auto simp: find_module_def split: option.splits)
  then have "e \<in> set es"
    by (auto simp: find_Some_iff)
  with assms(1) es show ?thesis
    by (cases e) (fastforce simp: wf_modules_def list_all_iff)
qed

lemma relocation_target_not_UB:
  "wf_rel rel \<Longrightarrow> wf_modules modules \<Longrightarrow> relocation_target rel modules im si so \<noteq> UB"
  by (auto simp: relocation_target_def wf_rel_def section_address_at_not_UB find_module_wf
    split: option.split)

section \<open>Relocation is safe and patches one section\<close>

lemma wf_section_data:
  assumes "wf_section s" "section_has_file_data s"
  obtains bs where "sec_data s = Some bs" "length bs = unat (sec_size s)"
  using assms by (auto simp: wf_section_def split: option.splits)

lemma require_patch_range_iff:
  "require_patch_range s off n = Ok u \<longleftrightarrow>
     section_has_file_data s \<and> unat off + unat n \<le> unat (sec_size s)"
proof -
  have "unat (sec_size s - off) = unat (sec_size s) - unat off" if "off \<le> sec_size s"
    using that by (simp add: unat_sub)
  then show ?thesis
    by (auto simp: require_patch_range_def outcome_simps not_less word_le_nat_alt)
qed

lemma patch_word_defined:
  assumes "wf_section s" "section_has_file_data s" "unat off + 4 \<le> unat (sec_size s)"
  shows "\<exists>bs w bs'. sec_data s = Some bs \<and> read_be32 bs (unat off) = Some w \<and>
    write_be32 bs (unat off) (f w) = Some bs' \<and> length bs' = length bs \<and>
    patch_word s off f = Ok (s\<lparr>sec_data := Some bs'\<rparr>)"
proof -
  obtain bs where bs: "sec_data s = Some bs" "length bs = unat (sec_size s)"
    using wf_section_data [OF assms(1,2)] .
  obtain w where w: "read_be32 bs (unat off) = Some w"
    using single.rd_defined [of "unat off" bs] bs(2) assms(3) by auto
  obtain bs' where bs': "write_be32 bs (unat off) (f w) = Some bs'"
    using single.wr_defined [of "unat off" bs "f w"] bs(2) assms(3) by auto
  from bs(1) w bs' single.wr_length [OF bs'] show ?thesis
    by (simp add: patch_word_def)
qed

lemma patch_half_defined:
  assumes "wf_section s" "section_has_file_data s" "unat off + 2 \<le> unat (sec_size s)"
  shows "\<exists>bs bs'. sec_data s = Some bs \<and> write_be16 bs (unat off) v = Some bs' \<and>
    length bs' = length bs \<and> patch_half s off v = Ok (s\<lparr>sec_data := Some bs'\<rparr>)"
proof -
  obtain bs where bs: "sec_data s = Some bs" "length bs = unat (sec_size s)"
    using wf_section_data [OF assms(1,2)] .
  obtain bs' where bs': "write_be16 bs (unat off) v = Some bs'"
    using half.wr_defined [of "unat off" bs v] bs(2) assms(3) by auto
  from bs(1) bs' half.wr_length [OF bs'] show ?thesis
    by (simp add: patch_half_def)
qed

text \<open>A relocation keeps the frame of its section and the length of its data.\<close>

definition patched :: "RELSection \<Rightarrow> (rel_error, RELSection) outcome \<Rightarrow> bool" where
  "patched s r \<longleftrightarrow> (case r of UB \<Rightarrow> False | Err e \<Rightarrow> True
     | Ok s' \<Rightarrow> same_frame s s' \<and> (wf_section s \<longrightarrow> wf_section s'))"

lemma patched_data:
  "sec_data s = Some bs \<Longrightarrow> length bs' = length bs \<Longrightarrow> patched s (Ok (s\<lparr>sec_data := Some bs'\<rparr>))"
  by (auto simp: patched_def same_frame_def wf_section_def section_has_file_data_def)

lemma patched_bind:
  "m \<noteq> UB \<Longrightarrow> (\<And>x. m = Ok x \<Longrightarrow> patched s (f x)) \<Longrightarrow> patched s (bind_out m f)"
  by (cases m) (simp_all add: patched_def)

lemma patched_if:
  "(b \<Longrightarrow> patched s x) \<Longrightarrow> (\<not> b \<Longrightarrow> patched s y) \<Longrightarrow> patched s (if b then x else y)"
  by simp

lemma apply_relocation_patched:
  assumes wf: "wf_section s"
  shows "patched s (apply_relocation s off pa type target)"
proof -
  let ?n = "if R_PPC_ADDR16 \<le> type \<and> type \<le> R_PPC_ADDR16_HA then 2 else 4 :: u32"
  have word: "patched s (patch_word s off f)"
    if "require_patch_range s off ?n = Ok u" "\<not> (R_PPC_ADDR16 \<le> type \<and> type \<le> R_PPC_ADDR16_HA)" for f u
  proof -
    have r: "section_has_file_data s" "unat off + 4 \<le> unat (sec_size s)"
      using that by (simp_all add: require_patch_range_iff)
    show ?thesis
      using patch_word_defined [OF wf r, of f] patched_data by auto
  qed
  have half: "patched s (patch_half s off v)" if "require_patch_range s off ?n = Ok u"
      "R_PPC_ADDR16 \<le> type \<and> type \<le> R_PPC_ADDR16_HA" for v u
  proof -
    have r: "section_has_file_data s" "unat off + 2 \<le> unat (sec_size s)"
      using that by (simp_all add: require_patch_range_iff)
    show ?thesis
      using patch_half_defined [OF wf r, of v] patched_data by auto
  qed
  have err: "patched s (Err e)" for e
    by (simp add: patched_def)
  have range: "require_patch_range s off ?n \<noteq> UB"
    by (simp add: require_patch_range_def)
  have delta: "check_rel_delta d lo hi \<noteq> UB" for d lo hi
    by (simp add: check_rel_delta_def)
  show ?thesis
    unfolding apply_relocation_def Let_def
    by (rule patched_if patched_bind range delta check_not_UB err | rule word half, assumption, (auto simp: word_le_nat_alt; fail)
      | (simp add: patched_def same_frame_def; fail))+
qed

lemma wf_rel_section:
  "wf_rel rel \<Longrightarrow> i < length (rel_sections rel) \<Longrightarrow> wf_section (rel_sections rel ! i)"
  by (simp add: wf_rel_def list_all_length)

lemma reloc_patch_not_UB:
  assumes wf: "wf_rel rel" "wf_modules modules"
  shows "reloc_patch modules im rel cs co ty si so \<noteq> UB"
proof -
  have len: "length (rel_sections rel) = unat (rel_section_count rel)"
    using wf(1) by (simp add: wf_rel_def)
  have "apply_relocation (rel_sections rel ! unat cs) co pa ty target \<noteq> UB"
    if "cs < rel_section_count rel" for pa target
    using apply_relocation_patched [OF wf_rel_section [OF wf(1)], of "unat cs" co pa ty target] that len
    by (auto simp: patched_def word_less_nat_alt)
  then show ?thesis
    using relocation_target_not_UB [OF wf] section_address_at_not_UB [OF len] len
    by (auto simp: reloc_patch_def outcome_simps arr_get_eq_None_iff arr_get_eq_Some_iff
      arr_set_def word_less_nat_alt)
qed

lemma reloc_step_not_UB:
  assumes wf: "wf_rel rel" "wf_modules modules" and fits: "range_fits c 8 (rel_file_size rel)"
  shows "reloc_step modules im rel c cs co \<noteq> UB"
proof -
  have "unat c + 8 \<le> length (rel_file_data rel)"
    using fits wf(1) by (simp add: range_fits_iff wf_rel_def)
  then obtain e where "read_reloc_entry (rel_file_data rel) (unat c) = Some e"
    by (simp add: read_reloc_entry_def read_be16_eq read_be32_eq read_u8_def arr_get_Some)
  then show ?thesis
    using reloc_patch_not_UB [OF wf]
    by (cases e) (auto simp: reloc_step_def outcome_simps)
qed

text \<open>What relocation keeps of a module: everything but the counter and the section bytes.\<close>

definition rel_frame :: "RELFile \<Rightarrow> RELFile" where
  "rel_frame rel = rel\<lparr>rel_relocation_count := 0, rel_import_count := 0,
     rel_sections := map (\<lambda>s. s\<lparr>sec_data := None\<rparr>) (rel_sections rel)\<rparr>"

lemma reloc_patch_keeps:
  assumes wf: "wf_rel rel" and ok: "reloc_patch modules im rel cs co ty si so = Ok rel'"
  shows "wf_rel rel'" "rel_frame rel' = rel_frame rel"
proof -
  from ok obtain target pa s s' where h: "relocation_target rel modules im si so = Ok target" "section_address_at rel cs co = Ok pa"
    "cs < rel_section_count rel" "unat cs < length (rel_sections rel)" "s = rel_sections rel ! unat cs"
    "apply_relocation s co pa ty target = Ok s'"
    "rel' = rel\<lparr>rel_sections := (rel_sections rel)[unat cs := s'],
                rel_relocation_count := rel_relocation_count rel + 1\<rparr>"
    by (rule reloc_patch_Ok)
  have s: "wf_section s"
    unfolding h(5) using wf h(4) by (rule wf_rel_section)
  have s': "same_frame s s'" "wf_section s'"
    using apply_relocation_patched [OF s, of co pa ty target] s by (simp_all add: h(6) patched_def)
  show "wf_rel rel'"
    using wf s'(2) by (auto simp: wf_rel_def h(7) list_all_iff dest!: set_update_subset_insert [THEN subsetD])
  have "map (\<lambda>s. s\<lparr>sec_data := None\<rparr>) ((rel_sections rel)[unat cs := s']) =
      (map (\<lambda>s. s\<lparr>sec_data := None\<rparr>) (rel_sections rel))[unat cs := s\<lparr>sec_data := None\<rparr>]"
    using s'(1) by (simp add: map_update same_frame_def)
  also have "\<dots> = map (\<lambda>s. s\<lparr>sec_data := None\<rparr>) (rel_sections rel)"
    by (simp only: h(5) map_update [symmetric] list_update_id)
  finally show "rel_frame rel' = rel_frame rel"
    by (simp add: rel_frame_def h(7))
qed

lemma reloc_step_keeps:
  assumes wf: "wf_rel rel" and ok: "reloc_step modules im rel c cs co = Ok (Some (rel', cs', co'))"
  shows "wf_rel rel' \<and> rel_frame rel' = rel_frame rel"
  using ok by (cases rule: reloc_step_Ok) (use wf reloc_patch_keeps in blast)+

lemma reloc_loop_safe:
  "wf_rel rel \<Longrightarrow> wf_modules modules \<Longrightarrow>
   reloc_loop modules im rel c cs co \<noteq> UB \<and>
   (\<forall>b rel'. reloc_loop modules im rel c cs co = Ok (b, rel') \<longrightarrow>
      wf_rel rel' \<and> rel_frame rel' = rel_frame rel)"
proof (induction modules im rel c cs co rule: reloc_loop.induct)
  case (1 modules im rel c cs co)
  show ?case
  proof (cases "range_fits c REL_RELOCATION_ENTRY_SIZE (rel_file_size rel)")
    case False
    then show ?thesis
      using "1.prems" by (simp add: reloc_loop.simps [of modules im rel c])
  next
    case True
    have not_UB: "reloc_step modules im rel c cs co \<noteq> UB"
      using reloc_step_not_UB [OF "1.prems"] True by (simp add: rel_consts)
    show ?thesis
    proof (cases "reloc_step modules im rel c cs co")
      case (Ok r)
      show ?thesis
      proof (cases r)
        case None
        then show ?thesis
          using True Ok "1.prems" by (simp add: reloc_loop.simps [of modules im rel c])
      next
        case (Some p)
        obtain rel1 cs1 co1 where p: "p = (rel1, cs1, co1)" by (cases p)
        have keeps: "wf_rel rel1" "rel_frame rel1 = rel_frame rel"
          using reloc_step_keeps [OF "1.prems"(1)] Ok Some p by blast+
        show ?thesis
          using "1.IH" [OF True Ok Some p [symmetric] refl keeps(1) "1.prems"(2)] keeps(2) True Ok Some p
          by (simp add: reloc_loop.simps [of modules im rel c])
      qed
    qed (use not_UB True in \<open>simp_all add: reloc_loop.simps [of modules im rel c]\<close>)
  qed
qed

lemma rel_frame_fields:
  assumes "rel_frame rel' = rel_frame rel"
  shows "rel_file_size rel' = rel_file_size rel" "rel_file_data rel' = rel_file_data rel"
    "rel_import_offset rel' = rel_import_offset rel" "rel_import_size rel' = rel_import_size rel"
    "rel_section_count rel' = rel_section_count rel" "rel_module_id rel' = rel_module_id rel"
proof -
  have "f (rel_frame rel') = f (rel_frame rel)" for f :: "RELFile \<Rightarrow> 'z"
    using assms by simp
  from this [of rel_file_size] this [of rel_import_offset] this [of rel_import_size]
    this [of rel_section_count] this [of rel_module_id]
  show "rel_file_size rel' = rel_file_size rel" 
    "rel_import_offset rel' = rel_import_offset rel" "rel_import_size rel' = rel_import_size rel"
    "rel_section_count rel' = rel_section_count rel" "rel_module_id rel' = rel_module_id rel"
    by (simp_all add: rel_frame_def)
  have "rel_file_data (rel_frame rel') = rel_file_data (rel_frame rel)"
    using assms by simp
  then show "rel_file_data rel' = rel_file_data rel"
    by (simp add: rel_frame_def)
qed

section \<open>The import table and the whole loader\<close>

text \<open>The byte offset of entry \<open>i\<close> of a table inside the file does not wrap.\<close>

lemma table_offset:
  assumes "8 * i \<le> unat (fsize :: u32)" shows "unat (of_nat i * (8 :: u32)) = i * 8"
proof -
  have "unat fsize < 2 ^ 32"
    using unsigned_less [of fsize] by simp
  then have "i * 8 < 2 ^ 32"
    using assms by simp
  then show ?thesis
    by (simp add: unat_word_ariths unat_of_nat mod_mult_left_eq)
qed

lemma import_loop_safe:
  assumes "wf_rel rel" "wf_modules modules"
    and "unat (rel_import_offset rel) + 8 * (i + n) \<le> unat (rel_file_size rel)"
  shows "import_loop modules rel i n \<noteq> UB \<and>
    (\<forall>rel'. import_loop modules rel i n = Ok rel' \<longrightarrow> wf_rel rel' \<and> rel_frame rel' = rel_frame rel)"
  using assms
proof (induction n arbitrary: rel i)
  case (Suc n)
  let ?e = "unat (rel_import_offset rel) + unat (of_nat i * REL_IMPORT_ENTRY_SIZE)"
  have "unat (of_nat i * (8 :: u32)) = i * 8"
    by (rule table_offset [of _ "rel_file_size rel"]) (use Suc.prems(3) in simp)
  then have e: "?e + 8 \<le> length (rel_file_data rel)"
    using Suc.prems(1,3) by (simp add: wf_rel_def rel_consts)
  obtain im where im: "read_be32 (rel_file_data rel) ?e = Some im"
    using single.rd_defined [of ?e "rel_file_data rel"] e by auto
  obtain c where c: "read_be32 (rel_file_data rel) (?e + 4) = Some c"
    using single.rd_defined [of "?e + 4" "rel_file_data rel"] e by auto
  have loop: "reloc_loop modules im rel c 0 0 \<noteq> UB"
    "\<And>b rel'. reloc_loop modules im rel c 0 0 = Ok (b, rel') \<Longrightarrow> wf_rel rel' \<and> rel_frame rel' = rel_frame rel"
    using reloc_loop_safe [OF Suc.prems(1,2)] by blast+
  show ?case
  proof (cases "range_fits c REL_RELOCATION_ENTRY_SIZE (rel_file_size rel) \<and> rel_relocation_offset rel \<le> c")
    case False
    then show ?thesis by (auto simp: Let_def im c check_def)
  next
    case True
    show ?thesis
    proof (cases "reloc_loop modules im rel c 0 0")
      case (Ok r)
      obtain b rel1 where r: "r = (b, rel1)" by (cases r)
      have k: "wf_rel rel1" "rel_frame rel1 = rel_frame rel"
        using loop(2) Ok r by simp_all
      have "unat (rel_import_offset rel1) + 8 * (i + 1 + n) \<le> unat (rel_file_size rel1)"
        using Suc.prems(3) rel_frame_fields [OF k(2)] by simp
      then show ?thesis
        using Suc.IH [OF k(1) Suc.prems(2), of "i + 1"] k(2) True Ok r
        by (cases b) (simp_all add: Let_def im c check_def)
    qed (use True loop(1) in \<open>simp_all add: Let_def im c check_def\<close>)
  qed
qed simp

lemma rel_apply_relocations_safe:
  assumes "wf_rel rel" "wf_modules modules"
  shows "rel_apply_relocations modules rel \<noteq> UB"
    and "rel_apply_relocations modules rel = Ok rel' \<Longrightarrow> wf_rel rel' \<and> rel_frame rel' = rel_frame rel"
proof -
  let ?r = "rel\<lparr>rel_relocation_count := 0\<rparr>"
  let ?r1 = "?r\<lparr>rel_import_count := rel_import_size rel div REL_IMPORT_ENTRY_SIZE\<rparr>"
  have wf: "wf_rel ?r" "wf_rel ?r1" and fr: "rel_frame ?r = rel_frame rel" "rel_frame ?r1 = rel_frame rel"
    using assms(1) by (simp_all add: wf_rel_def rel_frame_def)
  have bound: "unat (rel_import_offset ?r1) + 8 * (0 + unat (rel_import_count ?r1)) \<le> unat (rel_file_size ?r1)"
    if "range_fits (rel_import_offset rel) (rel_import_size rel) (rel_file_size rel)"
  proof -
    have "unat (rel_import_size rel div 8) = unat (rel_import_size rel) div 8"
      by (simp add: unat_div)
    then show ?thesis
      using that by (simp add: range_fits_iff rel_consts)
  qed
  show "rel_apply_relocations modules rel \<noteq> UB"
    using import_loop_safe [OF wf(2) assms(2) bound]
    by (auto simp: rel_apply_relocations_def Let_def outcome_simps)
  show "rel_apply_relocations modules rel = Ok rel' \<Longrightarrow> wf_rel rel' \<and> rel_frame rel' = rel_frame rel"
    using import_loop_safe [OF wf(2) assms(2) bound] wf fr
    by (auto simp: rel_apply_relocations_def Let_def outcome_simps split: if_splits)
qed

lemma copy_bytes_length: "copy_bytes bs off n = Some cs \<Longrightarrow> length cs = n"
  by (auto simp: copy_bytes_def split: if_splits)

text \<open>One loaded section: no access leaves the file, the section is well formed, and a section with
  file data holds exactly the bytes of the file at its offset.\<close>

lemma load_section_safe:
  assumes data: "unat (rel_file_size rel) \<le> length (rel_file_data rel)"
    and entry: "unat info + unat (of_nat i * REL_SECTION_ENTRY_SIZE) + 8 \<le> length (rel_file_data rel)"
  shows "load_section env rel info al i cur \<noteq> UB"
    and "load_section env rel info al i cur = Ok (s, cur', b) \<Longrightarrow>
      wf_section s \<and> (b \<longrightarrow> section_has_file_data s \<and> sec_executable s) \<and>
      (section_has_file_data s \<longrightarrow> unat (sec_offset s) + unat (sec_size s) \<le> unat (rel_file_size rel) \<and>
         sec_data s = Some (take (unat (sec_size s)) (drop (unat (sec_offset s)) (rel_file_data rel))) \<and>
         sec_address s = rel_base_address rel + sec_offset s \<and>
         (sec_executable s \<longrightarrow> sec_size s AND 3 = 0 \<and> sec_offset s AND 3 = 0))"
proof -
  let ?e = "unat info + unat (of_nat i * REL_SECTION_ENTRY_SIZE)"
  obtain raw sz where r: "read_be32 (rel_file_data rel) ?e = Some raw"
    "read_be32 (rel_file_data rel) (?e + 4) = Some sz"
    using single.rd_defined [of ?e "rel_file_data rel"] single.rd_defined [of "?e + 4" "rel_file_data rel"]
      entry by auto
  have copy: "copy_bytes (rel_file_data rel) (unat off) (unat sz) =
      Some (take (unat sz) (drop (unat off) (rel_file_data rel)))"
    if "range_fits off sz (rel_file_size rel)" for off
    using that data by (simp add: copy_bytes_def range_fits_iff)
  have len: "min (length (rel_file_data rel) - unat off) (unat sz) = unat sz"
    if "unat off + unat sz \<le> unat (rel_file_size rel)" for off :: u32
    using that data by simp
  show "load_section env rel info al i cur \<noteq> UB"
    by (auto simp: load_section_def Let_def r outcome_simps copy)
  show "wf_section s \<and> (b \<longrightarrow> section_has_file_data s \<and> sec_executable s) \<and>
      (section_has_file_data s \<longrightarrow> unat (sec_offset s) + unat (sec_size s) \<le> unat (rel_file_size rel) \<and>
         sec_data s = Some (take (unat (sec_size s)) (drop (unat (sec_offset s)) (rel_file_data rel))) \<and>
         sec_address s = rel_base_address rel + sec_offset s \<and>
         (sec_executable s \<longrightarrow> sec_size s AND 3 = 0 \<and> sec_offset s AND 3 = 0))"
    if "load_section env rel info al i cur = Ok (s, cur', b)"
    using that
    by (auto simp: load_section_def Let_def r outcome_simps copy len wf_section_def
      section_has_file_data_def zero_section_def add_u32_checked_def range_fits_iff split: if_splits)
qed

lemma section_loop_safe:
  assumes "unat (rel_file_size rel) \<le> length (rel_file_data rel)"
    and "unat info + 8 * (i + n) \<le> unat (rel_file_size rel)"
    and "i + n = length (rel_sections rel)"
  shows "section_loop env rel info al i n cur ec \<noteq> UB"
  using assms
proof (induction n arbitrary: rel i cur ec)
  case (Suc n)
  have "unat (of_nat i * (8 :: u32)) = i * 8"
    by (rule table_offset [of _ "rel_file_size rel"]) (use Suc.prems(2) in simp)
  then have e: "unat info + unat (of_nat i * REL_SECTION_ENTRY_SIZE) + 8 \<le> length (rel_file_data rel)"
    using Suc.prems(1,2) by (simp add: rel_consts)
  have i: "i < length (rel_sections rel)"
    using Suc.prems(3) by simp
  show ?case
  proof (cases "load_section env rel info al i cur")
    case UB
    then show ?thesis using load_section_safe(1) [OF Suc.prems(1) e] by simp
  next
    case (Ok r)
    obtain s c b where r: "r = (s, c, b)" by (cases r)
    have "section_loop env (rel\<lparr>rel_sections := (rel_sections rel)[i := s]\<rparr>) info al (i + 1) n c k \<noteq> UB" for k
      using Suc.prems by (intro Suc.IH) simp_all
    then show ?thesis
      using Ok r i by (simp add: arr_set_Some)
  qed simp
qed simp

text \<open>What the section loop establishes of the table, from section \<open>i\<close> on.\<close>

definition loaded_section :: "RELFile \<Rightarrow> RELSection \<Rightarrow> bool" where
  "loaded_section rel s \<longleftrightarrow> wf_section s \<and>
     (section_has_file_data s \<longrightarrow> unat (sec_offset s) + unat (sec_size s) \<le> unat (rel_file_size rel) \<and>
        sec_data s = Some (take (unat (sec_size s)) (drop (unat (sec_offset s)) (rel_file_data rel))) \<and>
        sec_address s = rel_base_address rel + sec_offset s \<and>
        (sec_executable s \<longrightarrow> sec_size s AND 3 = 0 \<and> sec_offset s AND 3 = 0))"

lemma loaded_section_update [simp]:
  "loaded_section (rel\<lparr>rel_sections := ss\<rparr>) = loaded_section rel"
  by (rule ext) (simp add: loaded_section_def)

lemma section_loop_Ok:
  assumes "unat (rel_file_size rel) \<le> length (rel_file_data rel)"
    and "unat info + 8 * (i + n) \<le> unat (rel_file_size rel)"
    and "i + n = length (rel_sections rel)"
    and "list_all (loaded_section rel) (take i (rel_sections rel))"
    and "section_loop env rel info al i n cur ec = Ok (rel', ec')"
  shows "\<exists>ss. rel' = rel\<lparr>rel_sections := ss\<rparr> \<and> length ss = length (rel_sections rel) \<and>
    list_all (loaded_section rel) ss"
  using assms
proof (induction n arbitrary: rel i cur ec)
  case 0
  then show ?case by (intro exI [of _ "rel_sections rel"]) simp
next
  case (Suc n)
  have "unat (of_nat i * (8 :: u32)) = i * 8"
    by (rule table_offset [of _ "rel_file_size rel"]) (use Suc.prems(2) in simp)
  then have e: "unat info + unat (of_nat i * REL_SECTION_ENTRY_SIZE) + 8 \<le> length (rel_file_data rel)"
    using Suc.prems(1,2) by (simp add: rel_consts)
  have i: "i < length (rel_sections rel)"
    using Suc.prems(3) by simp
  from Suc.prems(5) obtain s cur1 b where ls: "load_section env rel info al i cur = Ok (s, cur1, b)"
    and rest: "section_loop env (rel\<lparr>rel_sections := (rel_sections rel)[i := s]\<rparr>) info al (i + 1) n cur1
      (if b then ec + 1 else ec) = Ok (rel', ec')"
    using i by (auto simp: outcome_simps arr_set_Some)
  have "loaded_section rel s"
    using load_section_safe(2) [OF Suc.prems(1) e ls] by (simp add: loaded_section_def)
  then have pre: "list_all (loaded_section (rel\<lparr>rel_sections := (rel_sections rel)[i := s]\<rparr>))
      (take (i + 1) (rel_sections (rel\<lparr>rel_sections := (rel_sections rel)[i := s]\<rparr>)))"
    using Suc.prems(4) i by (simp add: take_Suc_conv_app_nth)
  have "\<exists>ss. rel' = (rel\<lparr>rel_sections := (rel_sections rel)[i := s]\<rparr>)\<lparr>rel_sections := ss\<rparr> \<and>
      length ss = length (rel_sections (rel\<lparr>rel_sections := (rel_sections rel)[i := s]\<rparr>)) \<and>
      list_all (loaded_section (rel\<lparr>rel_sections := (rel_sections rel)[i := s]\<rparr>)) ss"
    using Suc.prems(1-3) by (intro Suc.IH [OF _ _ _ pre rest]) simp_all
  then show ?case by simp
qed

section \<open>The loader never leaves the file, and what a loaded module looks like\<close>

lemma parse_rel_header_defined:
  assumes "0x40 \<le> length (rel_file_data rel)" "unat (rel_file_size rel) \<le> length (rel_file_data rel)"
  shows "\<exists>r info al. parse_rel_header base rel = Some (r, info, al)"
proof -
  have al: "\<exists>x. (if 0x48 \<le> rel_file_size rel then read_be32 (rel_file_data rel) 0x44 else Some 4) = Some x"
    using assms(2) by (auto simp: read_be32_eq word_le_nat_alt)
  have fx: "\<exists>x. (if 3 \<le> v \<and> 0x4C \<le> rel_file_size rel then read_be32 (rel_file_data rel) 0x48
      else Some (rel_file_size rel)) = Some x" for v :: u32
    using assms(2) by (auto simp: read_be32_eq word_le_nat_alt)
  obtain a where a: "(if 0x48 \<le> rel_file_size rel then read_be32 (rel_file_data rel) 0x44 else Some 4) = Some a"
    using al by blast
  have f: "(if 3 \<le> v \<and> 0x4C \<le> rel_file_size rel then read_be32 (rel_file_data rel) 0x48
      else Some (rel_file_size rel)) = Some (the (if 3 \<le> v \<and> 0x4C \<le> rel_file_size rel
        then read_be32 (rel_file_data rel) 0x48 else Some (rel_file_size rel)))" for v :: u32
    using fx [of v] by auto
  have words: "read_be32 (rel_file_data rel) k = Some (the (read_be32 (rel_file_data rel) k))" if "k \<le> 0x3C" for k
    using assms(1) that by (simp add: read_be32_eq)
  have bytes: "read_u8 (rel_file_data rel) k = Some (the (read_u8 (rel_file_data rel) k))" if "k < 0x40" for k
    using assms(1) that by (simp add: read_u8_def arr_get_Some)
  show ?thesis
    unfolding parse_rel_header_def Let_def a
    by (subst words, simp, subst bind.bind_lunit | subst bytes, simp, subst bind.bind_lunit
      | subst f, subst bind.bind_lunit | subst bind.bind_lunit)+ simp
qed

lemma parse_rel_header_keeps:
  "parse_rel_header base rel = Some (r, info, al) \<Longrightarrow>
   rel_file_data r = rel_file_data rel \<and> rel_file_size r = rel_file_size rel \<and> rel_base_address r = base"
  by (auto simp: parse_rel_header_def Let_def bind_eq_Some_conv)

lemma validate_entry_not_UB:
  "length (rel_sections rel) = unat (rel_section_count rel) \<Longrightarrow> validate_entry rel i off \<noteq> UB"
  by (auto simp: validate_entry_def outcome_simps arr_get_eq_None_iff word_less_nat_alt)

text \<open>A header whose section table was checked: everything the section loop needs.\<close>

lemma table_checked:
  assumes "rel_section_count rel \<le> REL_MAX_SECTION_COUNT"
    and "range_fits info (rel_section_count rel * REL_SECTION_ENTRY_SIZE) (rel_file_size rel)"
  shows "unat info + 8 * unat (rel_section_count rel) \<le> unat (rel_file_size rel)"
proof -
  have "unat (rel_section_count rel) \<le> 4096"
    using assms(1) by (simp add: rel_consts word_le_nat_alt)
  then have "unat (rel_section_count rel * 8) = unat (rel_section_count rel) * 8"
    by (simp add: unat_word_ariths)
  then show ?thesis
    using assms(2) by (simp add: range_fits_iff rel_consts)
qed

lemma place_sections_safe:
  assumes "unat (rel_file_size rel) \<le> length (rel_file_data rel)"
    and "unat info + 8 * unat (rel_section_count rel) \<le> unat (rel_file_size rel)"
  shows "place_sections env base rel info al \<noteq> UB"
    and "place_sections env base rel info al = Ok (rel', ec) \<Longrightarrow>
      \<exists>ss. rel' = rel\<lparr>rel_sections := ss\<rparr> \<and> length ss = unat (rel_section_count rel) \<and>
        list_all (loaded_section rel) ss"
proof -
  let ?r = "rel\<lparr>rel_sections := replicate (unat (rel_section_count rel)) zero_section\<rparr>"
  have pre: "unat (rel_file_size ?r) \<le> length (rel_file_data ?r)"
    "unat info + 8 * (0 + unat (rel_section_count rel)) \<le> unat (rel_file_size ?r)"
    "0 + unat (rel_section_count rel) = length (rel_sections ?r)"
    "list_all (loaded_section ?r) (take 0 (rel_sections ?r))"
    using assms by simp_all
  show "place_sections env base rel info al \<noteq> UB"
    using section_loop_safe [OF pre(1-3)] by (auto simp: place_sections_def Let_def outcome_simps)
  assume "place_sections env base rel info al = Ok (rel', ec)"
  then obtain cur where "section_loop env ?r info al 0 (unat (rel_section_count rel)) cur 0 = Ok (rel', ec)"
    by (auto simp: place_sections_def Let_def outcome_simps)
  from section_loop_Ok [OF pre this] show
    "\<exists>ss. rel' = rel\<lparr>rel_sections := ss\<rparr> \<and> length ss = unat (rel_section_count rel) \<and>
        list_all (loaded_section rel) ss"
    by auto
qed

lemma resolve_entries_safe:
  assumes "length (rel_sections rel) = unat (rel_section_count rel)"
  shows "resolve_entries rel ec \<noteq> UB"
  using assms validate_entry_not_UB [OF assms] section_address_at_not_UB [OF assms]
  by (auto simp: resolve_entries_def outcome_simps)

lemma resolve_entries_Ok:
  assumes "resolve_entries rel ec = Ok rel'"
  shows "validate_entry rel (rel_prolog_section rel) (rel_prolog_offset rel) = Ok ()"
    and "rel' = rel \<and> rel_prolog_section rel = 0 \<or>
      (\<exists>e. rel' = rel\<lparr>rel_entry_point := e\<rparr> \<and> rel_prolog_section rel \<noteq> 0 \<and>
        section_address_at rel (rel_prolog_section rel) (rel_prolog_offset rel) = Ok e)"
  using assms by (auto simp: resolve_entries_def outcome_simps split: if_splits)

lemma read_file_simps:
  "read_file env \<noteq> UB"
  "read_file env = Ok rel \<Longrightarrow> 0x40 \<le> length (rel_file_data rel) \<and> rel_file_data rel = contents env \<and>
     rel_file_size rel = of_nat (length (contents env)) \<and> unat (rel_file_size rel) \<le> length (rel_file_data rel)"
  by (auto simp: read_file_def outcome_simps REL_HEADER_MIN_SIZE_def unat_of_nat_le)

lemma rel_load_image_not_UB: "rel_load_image env base \<noteq> UB"
proof
  assume ub: "rel_load_image env base = UB"
  then obtain rel where rel: "read_file env = Ok rel"
    by (auto simp only: rel_load_image_def bind_out_UB_iff check_not_UB read_file_simps)
  note rf = read_file_simps(2) [OF rel]
  obtain r info al where hdr: "parse_rel_header base rel = Some (r, info, al)"
    using parse_rel_header_defined rf by blast
  note keeps = parse_rel_header_keeps [OF hdr]
  have "(rel_section_count r \<le> REL_MAX_SECTION_COUNT \<and>
      range_fits info (rel_section_count r * REL_SECTION_ENTRY_SIZE) (rel_file_size r)) \<and>
      bind_out (place_sections env base r info al) (\<lambda>(rel, ec). resolve_entries rel ec) = UB"
    using ub by (simp add: rel_load_image_def rel hdr check_def split: if_splits)
  moreover from this have "unat info + 8 * unat (rel_section_count r) \<le> unat (rel_file_size r)"
    using table_checked by blast
  moreover have "unat (rel_file_size r) \<le> length (rel_file_data r)"
    using rf keeps by (simp add: unat_of_nat_le)
  ultimately show False
    using place_sections_safe [of r info env base al] resolve_entries_safe
    by (fastforce simp: bind_out_UB_iff)
qed

text \<open>A loaded module: its sections come from the file and its entry point, when it has one, is an
  instruction of an executable section.\<close>

definition loaded_rel :: "file_env \<Rightarrow> u32 \<Rightarrow> RELFile \<Rightarrow> bool" where
  "loaded_rel env base rel \<longleftrightarrow> wf_rel rel \<and> base AND 3 = 0 \<and>
     rel_file_data rel = contents env \<and> rel_base_address rel = base \<and>
     list_all (loaded_section rel) (rel_sections rel) \<and>
     validate_entry rel (rel_prolog_section rel) (rel_prolog_offset rel) = Ok () \<and>
     (rel_prolog_section rel \<noteq> 0 \<longrightarrow>
        section_address_at rel (rel_prolog_section rel) (rel_prolog_offset rel) = Ok (rel_entry_point rel))"

lemma entry_point_irrelevant [simp]:
  "validate_entry (rel\<lparr>rel_entry_point := e\<rparr>) = validate_entry rel"
  "section_address_at (rel\<lparr>rel_entry_point := e\<rparr>) = section_address_at rel"
  "loaded_section (rel\<lparr>rel_entry_point := e\<rparr>) = loaded_section rel"
  by (simp_all add: fun_eq_iff validate_entry_def section_address_at_def loaded_section_def)

lemma rel_load_image_Ok:
  assumes ok: "rel_load_image env base = Ok rel'"
  shows "loaded_rel env base rel'"
proof -
  from ok obtain rel where rel: "read_file env = Ok rel"
    by (auto simp only: rel_load_image_def bind_out_Ok_iff)
  note rf = read_file_simps(2) [OF rel]
  obtain r info al where hdr: "parse_rel_header base rel = Some (r, info, al)"
    using parse_rel_header_defined rf by blast
  note keeps = parse_rel_header_keeps [OF hdr]
  have *: "base AND 3 = 0 \<and> (rel_section_count r \<le> REL_MAX_SECTION_COUNT \<and>
      range_fits info (rel_section_count r * REL_SECTION_ENTRY_SIZE) (rel_file_size r)) \<and>
      bind_out (place_sections env base r info al) (\<lambda>(rel, ec). resolve_entries rel ec) = Ok rel'"
    using ok by (simp add: rel_load_image_def rel hdr check_def split: if_splits)
  then have table: "unat info + 8 * unat (rel_section_count r) \<le> unat (rel_file_size r)"
    using table_checked by blast
  have data: "unat (rel_file_size r) \<le> length (rel_file_data r)"
    using rf keeps by (simp add: unat_of_nat_le)
  from * obtain r2 ec where r2: "place_sections env base r info al = Ok (r2, ec)"
    "resolve_entries r2 ec = Ok rel'"
    by (auto simp: bind_out_Ok_iff)
  obtain ss where ss: "r2 = r\<lparr>rel_sections := ss\<rparr>" "length ss = unat (rel_section_count r)"
    "list_all (loaded_section r) ss"
    using place_sections_safe(2) [OF data table r2(1)] by blast
  have "wf_rel r2"
    using ss data by (auto simp: wf_rel_def list_all_iff loaded_section_def)
  then show ?thesis
    using resolve_entries_Ok [OF r2(2)] * ss rf keeps
    by (auto simp: loaded_rel_def wf_rel_def)
qed

lemma rel_load_not_UB: "rel_load env base \<noteq> UB"
proof (cases "rel_load_image env base")
  case (Ok rel)
  then have "wf_rel rel"
    using rel_load_image_Ok [OF Ok] by (simp add: loaded_rel_def)
  moreover have "wf_modules (Some [(rel_module_id rel, Some rel)])"
    using \<open>wf_rel rel\<close> by (simp add: wf_modules_def wf_rel_def)
  ultimately show ?thesis
    using rel_apply_relocations_safe(1) Ok by (simp add: rel_load_def)
qed (use rel_load_image_not_UB in \<open>simp_all add: rel_load_def\<close>)

section \<open>Properties\<close>

text \<open>A module with one executable section of one instruction, \<open>b .\<close>, and one import that patches it with
  \<open>R_PPC_REL24\<close> to the address 0x81001008.\<close>

definition tiny_rel :: file_env where
  "tiny_rel = \<lparr>openable = True,
     contents = (replicate 0x6C 0)[0x03 := 5, 0x0F := 1, 0x13 := 0x40, 0x1F := 1, 0x27 := 0x54,
       0x2B := 0x4C, 0x2F := 8, 0x43 := 0x49, 0x47 := 4, 0x48 := 0x48, 0x53 := 0x54,
       0x56 := 202, 0x5E := 10, 0x60 := 0x81, 0x62 := 0x10, 0x63 := 8, 0x66 := 203],
     can_alloc = (\<lambda>_. True), read_all = True\<rparr>"

lemma tiny_rel_loads:
  "case rel_load_image tiny_rel 0x81000000 of Ok rel \<Rightarrow> length (rel_sections rel) = 1 | _ \<Rightarrow> False"
  "case rel_load tiny_rel 0x81000000 of
     Ok rel \<Rightarrow> rel_relocation_count rel = 1 \<and> map sec_data (rel_sections rel) = [Some [0x48, 0, 0x0F, 0xC0]]
   | _ \<Rightarrow> False"
  by code_simp+

text \<open>C12 Loading and relocating a module never accesses memory outside its buffers, whatever the
  file, and a loaded image has its sections inside the file, its code word aligned and its entry
  point, when there is one, on an instruction of an executable section.\<close>

theorem rel_load_safe:
  "rel_load env base \<noteq> UB \<and> (rel_load_image env base = Ok rel \<longrightarrow> loaded_rel env base rel)"
  using rel_load_not_UB rel_load_image_Ok by blast

theorem rel_load_safe_witness: "\<exists>rel. rel_load_image tiny_rel 0x81000000 = Ok rel \<and> wf_rel rel"
proof -
  obtain rel where r: "rel_load_image tiny_rel 0x81000000 = Ok rel"
    using tiny_rel_loads(1) by (cases "rel_load_image tiny_rel 0x81000000") auto
  then show ?thesis
    using rel_load_safe [of tiny_rel "0x81000000" rel] by (simp add: loaded_rel_def)
qed

text \<open>C20 Relocating a well-formed module against any modules never accesses memory
  outside its buffers and changes nothing of it but the bytes of its sections and its two counters.\<close>

theorem rel_relocation_frame:
  assumes "wf_rel rel" "wf_modules modules"
  shows "rel_apply_relocations modules rel \<noteq> UB \<and>
    (\<forall>rel'. rel_apply_relocations modules rel = Ok rel' \<longrightarrow> wf_rel rel' \<and> rel_frame rel' = rel_frame rel)"
  using rel_apply_relocations_safe [OF assms] by blast

theorem rel_relocation_frame_witness:
  "\<exists>rel rel'. rel_load_image tiny_rel 0x81000000 = Ok rel \<and>
     rel_apply_relocations (Some [(rel_module_id rel, Some rel)]) rel = Ok rel' \<and> wf_rel rel'"
proof -
  obtain rel' where l: "rel_load tiny_rel 0x81000000 = Ok rel'"
    using tiny_rel_loads(2) by (cases "rel_load tiny_rel 0x81000000") auto
  then obtain rel where r: "rel_load_image tiny_rel 0x81000000 = Ok rel"
    "rel_apply_relocations (Some [(rel_module_id rel, Some rel)]) rel = Ok rel'"
    by (auto simp: rel_load_def outcome_simps)
  have wf: "wf_rel rel"
    using rel_load_image_Ok [OF r(1)] by (simp add: loaded_rel_def)
  then have "wf_modules (Some [(rel_module_id rel, Some rel)])"
    by (simp add: wf_modules_def wf_rel_def)
  then show ?thesis
    using rel_relocation_frame [OF wf] r by blast
qed

text \<open>The two halves a compiler loads with \<open>addis\<close> and \<open>addi\<close>.\<close>

lemma ha_lo_recombine:
  fixes target :: u32
  shows "shl (ucast (ucast (shr (target + 0x8000) 16) :: u16) :: u32) 16 + scast (ucast target :: u16) = target"
proof -
  let ?x = "target + 0x8000"
  have hi: "shl (ucast (ucast (shr ?x 16) :: u16) :: u32) 16 = ?x - take_bit 16 ?x"
  proof -
    have "shl (ucast (ucast (shr ?x 16) :: u16) :: u32) 16 = ?x AND NOT (mask 16)"
      by (rule bit_word_eqI) (auto simp: bit_simps)
    also have "\<dots> = ?x - take_bit 16 ?x"
    proof -
      have "(?x AND NOT (mask 16)) + take_bit 16 ?x = (?x AND NOT (mask 16)) OR take_bit 16 ?x"
        by (rule disjunctive_add_eq_or) (rule bit_word_eqI, auto simp: bit_simps)
      also have "\<dots> = ?x"
        by (rule bit_word_eqI) (auto simp: bit_simps)
      finally show ?thesis by (simp add: algebra_simps)
    qed
    finally show ?thesis .
  qed
  have lo: "scast (ucast target :: u16) = take_bit 16 ?x - 0x8000"
  proof -
    have "sint (ucast target :: u16) = take_bit 16 (uint target + 2 ^ 15) - 2 ^ 15"
      by (simp add: sint_uint signed_take_bit_eq_take_bit_shift unsigned_ucast_eq take_bit_eq_mod mod_simps)
    moreover have "uint (take_bit 16 ?x) = take_bit 16 (uint target + 2 ^ 15)"
      unfolding unsigned_take_bit_eq uint_word_ariths(1)
      by (simp add: take_bit_eq_mod mod_mod_cancel)
    ultimately have "(word_of_int (sint (ucast target :: u16)) :: u32) = word_of_int (uint (take_bit 16 ?x) - 0x8000)"
      by simp
    then show ?thesis
      by (simp add: of_int_sint)
  qed
  show ?thesis
    unfolding hi lo by simp
qed

lemma patch_half_reads:
  assumes "patch_half s off v = Ok s'"
  shows "\<exists>bs'. sec_data s' = Some bs' \<and> read_be16 bs' (unat off) = Some v"
  using assms by (auto simp: patch_half_def outcome_simps bind_eq_Some_conv half.rd_wr)

text \<open>The halves written by \<open>R_PPC_ADDR16_HA\<close> and \<open>R_PPC_ADDR16_LO\<close> for one target make up
  the target again when the second one is added sign extended.\<close>

theorem rel_ha_lo_pair:
  assumes "apply_relocation s off pa R_PPC_ADDR16_HA target = Ok s1"
    and "apply_relocation t off' pa' R_PPC_ADDR16_LO target = Ok t1"
  shows "\<exists>bs bs' ha lo. sec_data s1 = Some bs \<and> read_be16 bs (unat off) = Some ha \<and>
    sec_data t1 = Some bs' \<and> read_be16 bs' (unat off') = Some lo \<and>
    shl (ucast ha) 16 + scast lo = target"
proof -
  have "patch_half s off (ucast (shr (target + 0x8000) 16)) = Ok s1"
    using assms(1) by (simp add: apply_relocation_def outcome_simps)
  moreover have "patch_half t off' (ucast target) = Ok t1"
    using assms(2) by (simp add: apply_relocation_def outcome_simps)
  ultimately show ?thesis
    using patch_half_reads ha_lo_recombine [of target] by meson
qed

theorem rel_ha_lo_pair_witness:
  "\<exists>bs. sec_data (zero_section\<lparr>sec_size := 4, sec_data := Some [0x80, 0x13, 0x9A, 0xBC]\<rparr>) = Some bs \<and>
    (\<exists>ha. read_be16 bs 0 = Some ha \<and> shl (ucast ha) 16 + scast (0x9ABC :: u16) = (0x80129ABC :: u32))"
proof -
  let ?s = "\<lambda>bs. zero_section\<lparr>sec_size := 4, sec_data := Some bs\<rparr>"
  have "apply_relocation (?s [0, 0, 0x9A, 0xBC]) 0 0x81000000 R_PPC_ADDR16_HA 0x80129ABC = Ok (?s [0x80, 0x13, 0x9A, 0xBC])"
    "apply_relocation (?s [0x80, 0x13, 0, 0]) 2 0x81000000 R_PPC_ADDR16_LO 0x80129ABC = Ok (?s [0x80, 0x13, 0x9A, 0xBC])"
    "read_be16 [0x80, 0x13, 0x9A, 0xBC] (unat (2 :: u32)) = Some 0x9ABC"
    by code_simp+
  from rel_ha_lo_pair [OF this(1,2)] this(3) show ?thesis
    by auto
qed

end
