(* ===== verification/Embedded.thy ===== *)
theory Embedded
  imports Decoder
begin

text \<open>
  \<open>src/analysis/embedded_data.c\<close>, the code section record of \<open>src/analysis/code_section.h\<close>, and the
  section decoding loop of \<open>src/app/pipeline.c\<close>, which flags a word as embedded data when it
  decodes to no instruction and looks like data.
\<close>

datatype EmbeddedDataMode = EMBEDDED_DATA_NONE | EMBEDDED_DATA_DOL | EMBEDDED_DATA_RPX

definition rpx_embedded_data_word :: "u32 \<Rightarrow> bool" where
  "rpx_embedded_data_word raw \<longleftrightarrow> raw = 0x00400000 \<or> raw = 0x00600000"

text \<open>The four bytes from the most significant one, and the loop over them.\<close>

definition word_bytes :: "u32 \<Rightarrow> u8 list" where
  "word_bytes raw = [ucast (shr raw 24), ucast (shr raw 16), ucast (shr raw 8), ucast raw]"

fun text_loop :: "u8 list \<Rightarrow> nat \<Rightarrow> nat option" where
  "text_loop [] printable = Some printable"
| "text_loop (b # bs) printable =
     (if 0x20 \<le> b \<and> b \<le> 0x7E then text_loop bs (printable + 1)
      else if b \<noteq> 0 then None
      else text_loop bs printable)"

definition word_bytes_are_text :: "u32 \<Rightarrow> bool" where
  "word_bytes_are_text raw \<longleftrightarrow>
     (case text_loop (word_bytes raw) 0 of None \<Rightarrow> False | Some printable \<Rightarrow> 3 \<le> printable)"

definition dol_embedded_data_word :: "u32 \<Rightarrow> bool" where
  "dol_embedded_data_word raw \<longleftrightarrow>
     (if raw = 0 then True else if shr raw 26 = 0 then True
      else if word_bytes_are_text raw then True else False)"

definition embedded_data_word :: "EmbeddedDataMode \<Rightarrow> u32 \<Rightarrow> bool" where
  "embedded_data_word mode raw =
     (case mode of EMBEDDED_DATA_DOL \<Rightarrow> dol_embedded_data_word raw
      | EMBEDDED_DATA_RPX \<Rightarrow> rpx_embedded_data_word raw
      | EMBEDDED_DATA_NONE \<Rightarrow> False)"

section \<open>Code sections\<close>

record LoadedCodeSection =
  cs_label :: string
  cs_name :: string
  cs_data :: "u8 list option"
  cs_index :: u32
  cs_file_offset :: u32
  cs_address :: u32
  cs_size :: u32
  cs_mode :: EmbeddedDataMode

definition decode_word :: "EmbeddedDataMode \<Rightarrow> u32 \<Rightarrow> u32 \<Rightarrow> PPCInst" where
  "decode_word mode raw address =
     (let inst = ppc_decode raw address in
      if inst_op inst = PPC_OP_UNKNOWN \<and> embedded_data_word mode raw
      then inst\<lparr>inst_embedded_data := True\<rparr> else inst)"

text \<open>The decoding loop over the \<open>size / 4\<close> words of a section; \<open>None\<close> outside the section data.\<close>

fun decode_words :: "EmbeddedDataMode \<Rightarrow> u8 list \<Rightarrow> u32 \<Rightarrow> nat \<Rightarrow> nat \<Rightarrow> PPCInst list option" where
  "decode_words mode bs address i 0 = Some []"
| "decode_words mode bs address i (Suc n) = do {
     raw \<leftarrow> read_be32 bs (i * 4);
     rest \<leftarrow> decode_words mode bs address (i + 1) n;
     Some (decode_word mode raw (address + of_nat i * 4) # rest) }"

definition decode_section :: "LoadedCodeSection \<Rightarrow> PPCInst list option" where
  "decode_section s = do {
     bs \<leftarrow> cs_data s;
     decode_words (cs_mode s) bs (cs_address s) 0 (unat (cs_size s div 4)) }"

text \<open>\<open>llvm_decode_at\<close>: the first section that holds the address decodes it.\<close>

fun llvm_decode_at :: "LoadedCodeSection list \<Rightarrow> u32 \<Rightarrow> PPCInst option option" where
  "llvm_decode_at [] address = Some None"
| "llvm_decode_at (s # ss) address =
     (let end = cs_address s + cs_size s in
      if cs_data s = None \<or> address < cs_address s \<or> end \<le> address \<or>
         (address - cs_address s) AND 3 \<noteq> 0 then llvm_decode_at ss address
      else do {
        bs \<leftarrow> cs_data s;
        raw \<leftarrow> read_be32 bs (unat (address - cs_address s));
        Some (Some (decode_word (cs_mode s) raw address)) })"

section \<open>Lemmas\<close>

text \<open>A word of text: every byte printable or null, at most one of them null.\<close>

definition printable :: "u8 \<Rightarrow> bool" where
  "printable b \<longleftrightarrow> 0x20 \<le> b \<and> b \<le> 0x7E"

lemma text_loop_eq:
  "text_loop bs n =
     (if \<forall>b \<in> set bs. printable b \<or> b = 0 then Some (n + length (filter printable bs)) else None)"
  by (induction bs arbitrary: n) (auto simp: printable_def)

lemma word_bytes_are_text_iff:
  "word_bytes_are_text raw \<longleftrightarrow> (\<forall>b \<in> set (word_bytes raw). printable b \<or> b = 0) \<and>
     3 \<le> length (filter printable (word_bytes raw))"
  by (simp add: word_bytes_are_text_def text_loop_eq)

lemma decode_word_op [simp]: "inst_op (decode_word mode raw a) = inst_op (ppc_decode raw a)"
  by (simp add: decode_word_def Let_def)

lemma decode_word_unflagged:
  "(decode_word mode raw a)\<lparr>inst_embedded_data := False\<rparr> = ppc_decode raw a"
  using ppc_decode_decoded [of raw a] by (simp add: decode_word_def Let_def decoded_def)

lemma decode_word_flag:
  "inst_embedded_data (decode_word mode raw a) \<longleftrightarrow>
     inst_op (ppc_decode raw a) = PPC_OP_UNKNOWN \<and> embedded_data_word mode raw"
  using ppc_decode_decoded [of raw a] by (simp add: decode_word_def Let_def decoded_def)

lemma decode_words_eq:
  assumes "4 * (i + n) \<le> length bs"
  shows "decode_words mode bs a i n =
    Some (map (\<lambda>k. decode_word mode (be32 (bs ! (4 * k)) (bs ! (4 * k + 1)) (bs ! (4 * k + 2)) (bs ! (4 * k + 3)))
      (a + of_nat k * 4)) [i..<i + n])"
  using assms
proof (induction n arbitrary: i)
  case (Suc n)
  have "[i..<i + Suc n] = i # [Suc i..<Suc i + n]"
    by (simp add: upt_conv_Cons)
  then show ?case
    using Suc.prems Suc.IH [of "Suc i"] by (simp add: read_be32_eq mult.commute)
qed simp

section \<open>Properties\<close>

text \<open>C34 Decoding a section whose data is present gives one instruction for each word, at
  its address, and the embedded data flag never replaces an instruction: it is set only on words
  that decode to none and that look like data in the mode of the section.\<close>

theorem decode_section_exact:
  assumes "cs_data s = Some bs" "unat (cs_size s) \<le> length bs"
  shows "\<exists>insts. decode_section s = Some insts \<and> length insts = unat (cs_size s div 4) \<and>
    (\<forall>i < length insts. \<exists>raw. read_be32 bs (4 * i) = Some raw \<and>
       (insts ! i)\<lparr>inst_embedded_data := False\<rparr> = ppc_decode raw (cs_address s + of_nat i * 4) \<and>
       (inst_embedded_data (insts ! i) \<longleftrightarrow>
          inst_op (ppc_decode raw (cs_address s + of_nat i * 4)) = PPC_OP_UNKNOWN \<and>
          embedded_data_word (cs_mode s) raw))"
proof -
  let ?n = "unat (cs_size s div 4)"
  have n: "4 * (0 + ?n) \<le> length bs"
    using assms(2) by (simp add: unat_div)
  show ?thesis
    using decode_words_eq [OF n, of "cs_mode s" "cs_address s"] n
    by (simp add: decode_section_def assms(1) read_be32_eq decode_word_unflagged decode_word_flag)
qed

theorem decode_section_exact_witness:
  "\<exists>inst. decode_section \<lparr>cs_label = ''text'', cs_name = ''text0'', cs_data = Some [0x38, 0x60, 0, 1], cs_index = 0,
     cs_file_offset = 0, cs_address = 0x80003100, cs_size = 4, cs_mode = EMBEDDED_DATA_DOL\<rparr> = Some [inst]"
proof -
  let ?s = "\<lparr>cs_label = ''text'', cs_name = ''text0'', cs_data = Some [0x38, 0x60, 0, 1], cs_index = 0,
     cs_file_offset = 0, cs_address = 0x80003100, cs_size = 4, cs_mode = EMBEDDED_DATA_DOL\<rparr> :: LoadedCodeSection"
  obtain insts where "decode_section ?s = Some insts" "length insts = 1"
    using decode_section_exact [of ?s "[0x38, 0x60, 0, 1]"] by auto
  then show ?thesis
    by (auto simp: length_Suc_conv)
qed

text \<open>A word of a DOL counts as data exactly when its primary opcode is zero or its bytes
  are text: printable or null, at most one null.\<close>

theorem dol_data_words:
  "dol_embedded_data_word raw \<longleftrightarrow> PPC_PRIMARY raw = 0 \<or>
     (\<forall>b \<in> set (word_bytes raw). printable b \<or> b = 0) \<and> length (filter (\<lambda>b. \<not> printable b) (word_bytes raw)) \<le> 1"
proof -
  have "length (filter printable (word_bytes raw)) + length (filter (\<lambda>b. \<not> printable b) (word_bytes raw)) = 4"
    using sum_length_filter_compl [of printable "word_bytes raw"] by (simp add: word_bytes_def)
  then have "word_bytes_are_text raw \<longleftrightarrow> (\<forall>b \<in> set (word_bytes raw). printable b \<or> b = 0) \<and>
      length (filter (\<lambda>b. \<not> printable b) (word_bytes raw)) \<le> 1"
    unfolding word_bytes_are_text_iff by linarith
  then show ?thesis
    by (auto simp: dol_embedded_data_word_def PPC_PRIMARY_def)
qed

theorem dol_data_words_witness: "dol_embedded_data_word 0x54657374"
proof -
  have "word_bytes 0x54657374 = [0x54, 0x65, 0x73, 0x74]"
    by code_simp
  then show ?thesis
    using dol_data_words [of "0x54657374"] by (simp add: printable_def)
qed

end
