(* ===== verification/Smc.thy ===== *)
theory Smc
  imports Embedded
begin

text \<open>
  \<open>src/analysis/smc.c\<close>: the analysis that reports instructions which may patch code.  It scans a
  section once, tracks general registers whose value is a known constant, and notes \<open>icbi\<close> and
  every store whose known address lies in a DOL code section.

  \<open>gpr_step\<close> is the reference: what the architecture lets an instruction do to the general
  registers.  The tracker is sound for it, except for the opcodes \<open>untracked\<close> lists.
\<close>

section \<open>Noting addresses\<close>

record SMCRange =
  range_start :: u32
  range_end :: u32

record SMCAnalysis =
  smc_possible :: bool
  smc_allocation_failed :: bool
  smc_range_capacity :: u32
  smc_ranges :: "SMCRange list" \<comment> \<open>its length is \<open>range_count\<close>\<close>

definition smc_analysis_free :: "SMCAnalysis \<Rightarrow> SMCAnalysis" where
  "smc_analysis_free smc = smc\<lparr>smc_ranges := [], smc_range_capacity := 0\<rparr>"

text \<open>\<open>alloc\<close>: whether the next \<open>realloc\<close> succeeds.\<close>

definition smc_append :: "bool \<Rightarrow> SMCAnalysis \<Rightarrow> u32 \<Rightarrow> SMCAnalysis" where
  "smc_append alloc smc addr =
     (if smc_range_capacity smc \<le> of_nat (length (smc_ranges smc)) then
        if \<not> alloc then smc\<lparr>smc_allocation_failed := True\<rparr>
        else smc\<lparr>smc_range_capacity :=
                   (if smc_range_capacity smc \<noteq> 0 then smc_range_capacity smc * 2 else 16),
                 smc_ranges := smc_ranges smc @ [\<lparr>range_start = addr, range_end = addr\<rparr>]\<rparr>
      else smc\<lparr>smc_ranges := smc_ranges smc @ [\<lparr>range_start = addr, range_end = addr\<rparr>]\<rparr>)"

definition smc_note :: "bool \<Rightarrow> SMCAnalysis \<Rightarrow> u32 \<Rightarrow> SMCAnalysis" where
  "smc_note alloc smc addr =
     (let smc = smc\<lparr>smc_possible := True\<rparr> in
      if smc_ranges smc \<noteq> [] then
        let l = last (smc_ranges smc) in
        if range_start l \<le> addr \<and> addr \<le> range_end l + 4 then
          if range_end l < addr
          then smc\<lparr>smc_ranges := butlast (smc_ranges smc) @ [l\<lparr>range_end := addr\<rparr>]\<rparr>
          else smc
        else smc_append alloc smc addr
      else smc_append alloc smc addr)"

section \<open>Stores and their targets\<close>

fun code_range_overlaps :: "LoadedCodeSection list \<Rightarrow> u32 \<Rightarrow> u32 \<Rightarrow> bool" where
  "code_range_overlaps [] address sz = False"
| "code_range_overlaps (s # ss) address sz =
     (let begin = ucast address :: u64;
          end = begin + ucast (if sz \<noteq> 0 then sz else 1);
          section_begin = ucast (cs_address s) :: u64;
          section_end = section_begin + ucast (cs_size s)
      in
      if cs_mode s \<noteq> EMBEDDED_DATA_DOL then code_range_overlaps ss address sz
      else if cs_size s = 0 then code_range_overlaps ss address sz
      else if begin < section_end \<and> section_begin < end then True
      else code_range_overlaps ss address sz)"

record KnownReg =
  kr_known :: bool
  kr_value :: u32

abbreviation unknown_reg :: KnownReg where
  "unknown_reg \<equiv> \<lparr>kr_known = False, kr_value = 0\<rparr>"

text \<open>Address of a D-form and of an indexed access; \<open>None\<close> outside the register array, \<open>Some None\<close>
  when the address is not known.\<close>

definition known_dform_ea :: "KnownReg list \<Rightarrow> PPCInst \<Rightarrow> u32 option option" where
  "known_dform_ea regs inst =
     (if inst_rA inst = 0 then Some (Some (scast (inst_simm inst)))
      else do {
        r \<leftarrow> arr_get regs (unat (inst_rA inst));
        Some (if \<not> kr_known r then None else Some (kr_value r + scast (inst_simm inst))) })"

definition known_indexed_ea :: "KnownReg list \<Rightarrow> PPCInst \<Rightarrow> u32 option option" where
  "known_indexed_ea regs inst = do {
     base \<leftarrow> (if inst_rA inst \<noteq> 0 then do {
         r \<leftarrow> arr_get regs (unat (inst_rA inst));
         Some (if \<not> kr_known r then None else Some (kr_value r)) }
       else Some (Some 0));
     case base of None \<Rightarrow> Some None
     | Some base \<Rightarrow> do {
         r \<leftarrow> arr_get regs (unat (inst_rB inst));
         Some (if \<not> kr_known r then None else Some (base + kr_value r)) } }"

definition store_size_for_inst :: "PPCInst \<Rightarrow> u32 option" where
  "store_size_for_inst inst = switch_in (inst_op inst) [
     ([PPC_OP_STB, PPC_OP_STBU, PPC_OP_STBX, PPC_OP_STBUX], Some 1),
     ([PPC_OP_STH, PPC_OP_STHU, PPC_OP_STHX, PPC_OP_STHUX, PPC_OP_STHBRX], Some 2),
     ([PPC_OP_STW, PPC_OP_STWU, PPC_OP_STWX, PPC_OP_STWUX, PPC_OP_STWBRX, PPC_OP_STWCX,
       PPC_OP_STFIWX, PPC_OP_STFS, PPC_OP_STFSU, PPC_OP_STFSX, PPC_OP_STFSUX, PPC_OP_PSQ_ST,
       PPC_OP_PSQ_STU, PPC_OP_PSQ_STX, PPC_OP_PSQ_STUX], Some 4),
     ([PPC_OP_STFD, PPC_OP_STFDU, PPC_OP_STFDX, PPC_OP_STFDUX], Some 8),
     ([PPC_OP_STMW], Some ((32 - ucast (inst_rS inst)) * 4)),
     ([PPC_OP_STSWI], Some (if inst_nb inst \<noteq> 0 then ucast (inst_nb inst) else 32)),
     ([PPC_OP_STSWX], Some 1),
     ([PPC_OP_DCBZ, PPC_OP_DCBZ_L], Some 32)] None"

definition inst_has_dform_ea :: "PPCOpcode \<Rightarrow> bool" where
  "inst_has_dform_ea op \<longleftrightarrow> op \<in> set [PPC_OP_STW, PPC_OP_STWU, PPC_OP_STB, PPC_OP_STBU, PPC_OP_STH,
     PPC_OP_STHU, PPC_OP_STMW, PPC_OP_STSWI, PPC_OP_STFS, PPC_OP_STFSU, PPC_OP_STFD, PPC_OP_STFDU,
     PPC_OP_PSQ_ST, PPC_OP_PSQ_STU]"

definition inst_has_indexed_ea :: "PPCOpcode \<Rightarrow> bool" where
  "inst_has_indexed_ea op \<longleftrightarrow> op \<in> set [PPC_OP_STWX, PPC_OP_STWUX, PPC_OP_STBX, PPC_OP_STBUX,
     PPC_OP_STHX, PPC_OP_STHUX, PPC_OP_STWBRX, PPC_OP_STHBRX, PPC_OP_STSWX, PPC_OP_STWCX,
     PPC_OP_STFIWX, PPC_OP_STFSX, PPC_OP_STFSUX, PPC_OP_STFDX, PPC_OP_STFDUX, PPC_OP_PSQ_STX,
     PPC_OP_PSQ_STUX, PPC_OP_DCBZ, PPC_OP_DCBZ_L]"

definition smc_inst_targets_code ::
    "LoadedCodeSection list \<Rightarrow> PPCInst \<Rightarrow> KnownReg list \<Rightarrow> bool option" where
  "smc_inst_targets_code sections inst regs =
     (case store_size_for_inst inst of None \<Rightarrow> Some False
      | Some sz \<Rightarrow> do {
          ea \<leftarrow> (if inst_has_dform_ea (inst_op inst) then known_dform_ea regs inst
                else if inst_has_indexed_ea (inst_op inst) then known_indexed_ea regs inst
                else Some None);
          Some (case ea of None \<Rightarrow> False | Some ea \<Rightarrow> code_range_overlaps sections ea sz) })"

section \<open>Tracking constants\<close>

definition clear_reg :: "KnownReg list \<Rightarrow> u8 \<Rightarrow> KnownReg list option" where
  "clear_reg regs reg = arr_set regs (unat reg) unknown_reg"

definition set_reg :: "KnownReg list \<Rightarrow> u8 \<Rightarrow> u32 \<Rightarrow> KnownReg list option" where
  "set_reg regs reg value = arr_set regs (unat reg) \<lparr>kr_known = True, kr_value = value\<rparr>"

text \<open>The body of the two immediate additions and of the four logical immediates.\<close>

definition track_add :: "KnownReg list \<Rightarrow> PPCInst \<Rightarrow> u32 \<Rightarrow> KnownReg list option" where
  "track_add regs inst imm =
     (if inst_rA inst = 0 then set_reg regs (inst_rD inst) imm
      else do {
        r \<leftarrow> arr_get regs (unat (inst_rA inst));
        if kr_known r then set_reg regs (inst_rD inst) (kr_value r + imm)
        else clear_reg regs (inst_rD inst) })"

definition track_logical :: "KnownReg list \<Rightarrow> PPCInst \<Rightarrow> (u32 \<Rightarrow> u32) \<Rightarrow> KnownReg list option" where
  "track_logical regs inst f = do {
     r \<leftarrow> arr_get regs (unat (inst_rS inst));
     if kr_known r then set_reg regs (inst_rA inst) (f (kr_value r))
     else clear_reg regs (inst_rA inst) }"

definition track_base :: "KnownReg list \<Rightarrow> PPCInst \<Rightarrow> u32 option option \<Rightarrow> KnownReg list option" where
  "track_base regs inst ea = do {
     ea \<leftarrow> ea;
     case ea of Some ea \<Rightarrow> set_reg regs (inst_rA inst) ea | None \<Rightarrow> clear_reg regs (inst_rA inst) }"

fun clear_from :: "KnownReg list \<Rightarrow> u32 \<Rightarrow> nat \<Rightarrow> KnownReg list option" where
  "clear_from regs r 0 = Some regs"
| "clear_from regs r (Suc n) = do { regs \<leftarrow> clear_reg regs (ucast r); clear_from regs (r + 1) n }"

definition update_known_regs :: "KnownReg list \<Rightarrow> PPCInst \<Rightarrow> KnownReg list option" where
  "update_known_regs regs inst = switch_in (inst_op inst) [
     ([PPC_OP_ADDI], track_add regs inst (scast (inst_simm inst))),
     ([PPC_OP_ADDIS], track_add regs inst (shl (scast (inst_simm inst)) 16)),
     ([PPC_OP_ORI], track_logical regs inst (\<lambda>v. v OR ucast (inst_uimm inst))),
     ([PPC_OP_ORIS], track_logical regs inst (\<lambda>v. v OR shl (ucast (inst_uimm inst)) 16)),
     ([PPC_OP_XORI], track_logical regs inst (\<lambda>v. v XOR ucast (inst_uimm inst))),
     ([PPC_OP_XORIS], track_logical regs inst (\<lambda>v. v XOR shl (ucast (inst_uimm inst)) 16)),
     ([PPC_OP_LWZ, PPC_OP_LBZ, PPC_OP_LHZ, PPC_OP_LHA, PPC_OP_LWZX, PPC_OP_LBZX, PPC_OP_LHZX,
       PPC_OP_LHAX, PPC_OP_LWBRX, PPC_OP_LHBRX, PPC_OP_LWARX], clear_reg regs (inst_rD inst)),
     ([PPC_OP_LWZU, PPC_OP_LBZU, PPC_OP_LHZU, PPC_OP_LHAU],
       do { regs \<leftarrow> track_base regs inst (known_dform_ea regs inst); clear_reg regs (inst_rD inst) }),
     ([PPC_OP_LWZUX, PPC_OP_LBZUX, PPC_OP_LHZUX, PPC_OP_LHAUX],
       do { regs \<leftarrow> track_base regs inst (known_indexed_ea regs inst); clear_reg regs (inst_rD inst) }),
     ([PPC_OP_STWU, PPC_OP_STBU, PPC_OP_STHU], track_base regs inst (known_dform_ea regs inst)),
     ([PPC_OP_STWUX, PPC_OP_STBUX, PPC_OP_STHUX, PPC_OP_STFSUX, PPC_OP_STFDUX, PPC_OP_PSQ_STUX],
       track_base regs inst (known_indexed_ea regs inst)),
     ([PPC_OP_MFCR, PPC_OP_MFSPR, PPC_OP_MFTB, PPC_OP_MFMSR, PPC_OP_MFSR, PPC_OP_MFSRIN,
       PPC_OP_MULLI, PPC_OP_SUBFIC, PPC_OP_ADD, PPC_OP_ADDO, PPC_OP_ADDC, PPC_OP_ADDCO,
       PPC_OP_ADDE, PPC_OP_ADDEO, PPC_OP_ADDME, PPC_OP_ADDMEO, PPC_OP_ADDZE, PPC_OP_ADDZEO,
       PPC_OP_SUBF, PPC_OP_SUBFO, PPC_OP_SUBFC, PPC_OP_SUBFCO, PPC_OP_SUBFE, PPC_OP_SUBFEO,
       PPC_OP_SUBFME, PPC_OP_SUBFMEO, PPC_OP_SUBFZE, PPC_OP_SUBFZEO, PPC_OP_NEG, PPC_OP_NEGO,
       PPC_OP_MULLW, PPC_OP_MULLWO, PPC_OP_MULHW, PPC_OP_MULHWU, PPC_OP_DIVW, PPC_OP_DIVWO,
       PPC_OP_DIVWU, PPC_OP_DIVWUO], clear_reg regs (inst_rD inst)),
     ([PPC_OP_AND, PPC_OP_ANDC, PPC_OP_OR, PPC_OP_ORC, PPC_OP_XOR, PPC_OP_NAND, PPC_OP_NOR,
       PPC_OP_EQV, PPC_OP_CNTLZW, PPC_OP_EXTSB, PPC_OP_EXTSH, PPC_OP_SLW, PPC_OP_SRW, PPC_OP_SRAW,
       PPC_OP_SRAWI, PPC_OP_RLWINM, PPC_OP_RLWNM, PPC_OP_RLWIMI], clear_reg regs (inst_rA inst)),
     ([PPC_OP_LMW], clear_from regs (ucast (inst_rD inst)) (32 - unat (inst_rD inst)))]
     (Some regs)"

section \<open>The scan\<close>

text \<open>One instruction of the loop, and the loop.  \<open>al\<close> says of every position whether a \<open>realloc\<close> there
  succeeds.\<close>

definition smc_step :: "(nat \<Rightarrow> bool) \<Rightarrow> LoadedCodeSection list \<Rightarrow> nat \<Rightarrow> PPCInst \<Rightarrow>
    KnownReg list \<times> SMCAnalysis \<Rightarrow> (KnownReg list \<times> SMCAnalysis) option" where
  "smc_step al sections i inst st =
     (let (regs, smc) = st in
      if inst_embedded_data inst \<or> inst_op inst = PPC_OP_UNKNOWN then Some (regs, smc)
      else do {
        hit \<leftarrow> (if inst_op inst = PPC_OP_ICBI then Some True
                else smc_inst_targets_code sections inst regs);
        regs' \<leftarrow> update_known_regs regs inst;
        Some (regs', if hit then smc_note (al i) smc (inst_address inst) else smc) })"

fun smc_loop :: "(nat \<Rightarrow> bool) \<Rightarrow> LoadedCodeSection list \<Rightarrow> nat \<Rightarrow> PPCInst list \<Rightarrow>
    KnownReg list \<times> SMCAnalysis \<Rightarrow> (KnownReg list \<times> SMCAnalysis) option" where
  "smc_loop al sections i [] st = Some st"
| "smc_loop al sections i (inst # insts) st = do {
     st \<leftarrow> smc_step al sections i inst st;
     smc_loop al sections (i + 1) insts st }"

definition analyze_smc_section :: "(nat \<Rightarrow> bool) \<Rightarrow> LoadedCodeSection list \<Rightarrow> PPCInst list \<Rightarrow>
    SMCAnalysis \<Rightarrow> SMCAnalysis option" where
  "analyze_smc_section al sections insts smc =
     map_option snd (smc_loop al sections 0 insts (replicate 32 unknown_reg, smc))"

section \<open>The architecture's effect on the general registers\<close>

text \<open>Which register fields name a destination: by the instruction set, independently of the tracker.\<close>

datatype gpr_operand = NoDest | DestD | DestA | DestAD | DestMultiple | DestString

definition gpr_dest :: "PPCOpcode \<Rightarrow> gpr_operand" where
  "gpr_dest op = switch_in op [
     ([PPC_OP_MULLI, PPC_OP_SUBFIC, PPC_OP_ADDI, PPC_OP_ADDIC, PPC_OP_ADDIC_DOT, PPC_OP_ADDIS,
       PPC_OP_LWZ, PPC_OP_LBZ, PPC_OP_LHZ, PPC_OP_LHA, PPC_OP_MFCR, PPC_OP_MFSPR, PPC_OP_MFTB,
       PPC_OP_ADD, PPC_OP_ADDO, PPC_OP_ADDC, PPC_OP_ADDCO, PPC_OP_ADDE, PPC_OP_ADDEO, PPC_OP_ADDME,
       PPC_OP_ADDMEO, PPC_OP_ADDZE, PPC_OP_ADDZEO, PPC_OP_SUBF, PPC_OP_SUBFO, PPC_OP_SUBFC,
       PPC_OP_SUBFCO, PPC_OP_SUBFE, PPC_OP_SUBFEO, PPC_OP_SUBFME, PPC_OP_SUBFMEO, PPC_OP_SUBFZE,
       PPC_OP_SUBFZEO, PPC_OP_NEG, PPC_OP_NEGO, PPC_OP_LWZX, PPC_OP_LBZX, PPC_OP_LHZX, PPC_OP_LHAX,
       PPC_OP_LWBRX, PPC_OP_LHBRX, PPC_OP_LWARX, PPC_OP_MULLW, PPC_OP_MULLWO, PPC_OP_MULHW,
       PPC_OP_MULHWU, PPC_OP_DIVW, PPC_OP_DIVWO, PPC_OP_DIVWU, PPC_OP_DIVWUO, PPC_OP_MFMSR,
       PPC_OP_MFSR, PPC_OP_MFSRIN, PPC_OP_ECIWX], DestD),
     ([PPC_OP_ORI, PPC_OP_ORIS, PPC_OP_XORI, PPC_OP_XORIS, PPC_OP_ANDI, PPC_OP_ANDIS, PPC_OP_AND,
       PPC_OP_ANDC, PPC_OP_OR, PPC_OP_ORC, PPC_OP_XOR, PPC_OP_NAND, PPC_OP_NOR, PPC_OP_EQV,
       PPC_OP_CNTLZW, PPC_OP_EXTSB, PPC_OP_EXTSH, PPC_OP_SLW, PPC_OP_SRW, PPC_OP_SRAW, PPC_OP_SRAWI,
       PPC_OP_RLWINM, PPC_OP_RLWNM, PPC_OP_RLWIMI, PPC_OP_STWU, PPC_OP_STBU, PPC_OP_STHU,
       PPC_OP_STWUX, PPC_OP_STBUX, PPC_OP_STHUX, PPC_OP_LFSU, PPC_OP_LFDU, PPC_OP_STFSU, PPC_OP_STFDU,
       PPC_OP_LFSUX, PPC_OP_LFDUX, PPC_OP_STFSUX, PPC_OP_STFDUX, PPC_OP_PSQ_LU, PPC_OP_PSQ_STU,
       PPC_OP_PSQ_LUX, PPC_OP_PSQ_STUX], DestA),
     ([PPC_OP_LWZU, PPC_OP_LBZU, PPC_OP_LHZU, PPC_OP_LHAU, PPC_OP_LWZUX, PPC_OP_LBZUX,
       PPC_OP_LHZUX, PPC_OP_LHAUX], DestAD),
     ([PPC_OP_LMW], DestMultiple),
     ([PPC_OP_LSWI, PPC_OP_LSWX], DestString)] NoDest"

definition gpr_written :: "PPCInst \<Rightarrow> nat set" where
  "gpr_written inst =
     (case gpr_dest (inst_op inst) of
        NoDest \<Rightarrow> {} | DestD \<Rightarrow> {unat (inst_rD inst)} | DestA \<Rightarrow> {unat (inst_rA inst)}
      | DestAD \<Rightarrow> {unat (inst_rA inst), unat (inst_rD inst)}
      | DestMultiple \<Rightarrow> {r. unat (inst_rD inst) \<le> r} | DestString \<Rightarrow> UNIV)"

definition base_value :: "PPCInst \<Rightarrow> u32 list \<Rightarrow> u32" where
  "base_value inst g = (if inst_rA inst = 0 then 0 else g ! unat (inst_rA inst))"

text \<open>The effective address of a storage access: displacement or index form.\<close>

definition d_update_ops :: "PPCOpcode list" where
  "d_update_ops = [PPC_OP_LWZU, PPC_OP_LBZU, PPC_OP_LHZU, PPC_OP_LHAU, PPC_OP_STWU, PPC_OP_STBU,
     PPC_OP_STHU, PPC_OP_LFSU, PPC_OP_LFDU, PPC_OP_STFSU, PPC_OP_STFDU, PPC_OP_PSQ_LU, PPC_OP_PSQ_STU]"

definition x_update_ops :: "PPCOpcode list" where
  "x_update_ops = [PPC_OP_LWZUX, PPC_OP_LBZUX, PPC_OP_LHZUX, PPC_OP_LHAUX, PPC_OP_STWUX,
     PPC_OP_STBUX, PPC_OP_STHUX, PPC_OP_LFSUX, PPC_OP_LFDUX, PPC_OP_STFSUX, PPC_OP_STFDUX,
     PPC_OP_PSQ_LUX, PPC_OP_PSQ_STUX]"

definition d_ea :: "PPCInst \<Rightarrow> u32 list \<Rightarrow> u32" where
  "d_ea inst g = base_value inst g + scast (inst_simm inst)"

definition x_ea :: "PPCInst \<Rightarrow> u32 list \<Rightarrow> u32" where
  "x_ea inst g = base_value inst g + g ! unat (inst_rB inst)"

text \<open>The general registers before and after an instruction: nothing but the destinations changes,
  and the constant-forming and update instructions leave these values.\<close>

definition gpr_step :: "PPCInst \<Rightarrow> u32 list \<Rightarrow> u32 list \<Rightarrow> bool" where
  "gpr_step inst g g' \<longleftrightarrow>
     length g' = 32 \<and> (\<forall>r < 32. r \<notin> gpr_written inst \<longrightarrow> g' ! r = g ! r) \<and>
     (inst_op inst = PPC_OP_ADDI \<longrightarrow> g' ! unat (inst_rD inst) = d_ea inst g) \<and>
     (inst_op inst = PPC_OP_ADDIS \<longrightarrow>
        g' ! unat (inst_rD inst) = base_value inst g + shl (scast (inst_simm inst)) 16) \<and>
     (inst_op inst = PPC_OP_ORI \<longrightarrow>
        g' ! unat (inst_rA inst) = g ! unat (inst_rS inst) OR ucast (inst_uimm inst)) \<and>
     (inst_op inst = PPC_OP_ORIS \<longrightarrow>
        g' ! unat (inst_rA inst) = g ! unat (inst_rS inst) OR shl (ucast (inst_uimm inst)) 16) \<and>
     (inst_op inst = PPC_OP_XORI \<longrightarrow>
        g' ! unat (inst_rA inst) = g ! unat (inst_rS inst) XOR ucast (inst_uimm inst)) \<and>
     (inst_op inst = PPC_OP_XORIS \<longrightarrow>
        g' ! unat (inst_rA inst) = g ! unat (inst_rS inst) XOR shl (ucast (inst_uimm inst)) 16) \<and>
     (inst_op inst \<in> set d_update_ops \<and> (gpr_dest (inst_op inst) = DestAD \<longrightarrow> inst_rA inst \<noteq> inst_rD inst) \<longrightarrow>
        g' ! unat (inst_rA inst) = d_ea inst g) \<and>
     (inst_op inst \<in> set x_update_ops \<and> (gpr_dest (inst_op inst) = DestAD \<longrightarrow> inst_rA inst \<noteq> inst_rD inst) \<longrightarrow>
        g' ! unat (inst_rA inst) = x_ea inst g)"

text \<open>Opcodes that write a general register and that \<open>update_known_regs\<close> lets fall through.\<close>

definition untracked :: "PPCOpcode list" where
  "untracked = [PPC_OP_ADDIC, PPC_OP_ADDIC_DOT, PPC_OP_ANDI, PPC_OP_ANDIS, PPC_OP_LSWI, PPC_OP_LSWX,
     PPC_OP_ECIWX, PPC_OP_LFSU, PPC_OP_LFDU, PPC_OP_LFSUX, PPC_OP_LFDUX, PPC_OP_STFSU, PPC_OP_STFDU,
     PPC_OP_PSQ_LU, PPC_OP_PSQ_LUX, PPC_OP_PSQ_STU]"

section \<open>Soundness of the tracker\<close>

definition agrees :: "KnownReg list \<Rightarrow> u32 list \<Rightarrow> bool" where
  "agrees regs g \<longleftrightarrow> length regs = 32 \<and> length g = 32 \<and>
     (\<forall>i < 32. kr_known (regs ! i) \<longrightarrow> g ! i = kr_value (regs ! i))"

text \<open>What a step of the tracker has to establish.\<close>

definition tracks :: "KnownReg list option \<Rightarrow> u32 list \<Rightarrow> bool" where
  "tracks r g \<longleftrightarrow> (\<exists>regs. r = Some regs \<and> agrees regs g)"

lemma reg_index: "(r :: u8) < 32 \<Longrightarrow> unat r < 32"
  by (simp add: word_less_nat_alt)

lemma wf_reg [intro]:
  "wf_fields inst \<Longrightarrow> inst_rD inst < 32" "wf_fields inst \<Longrightarrow> inst_rA inst < 32"
  "wf_fields inst \<Longrightarrow> inst_rS inst < 32" "wf_fields inst \<Longrightarrow> inst_rB inst < 32"
  by (simp_all add: wf_fields_def)

lemma tracks_clear_reg:
  assumes "agrees regs g" "r < 32" "length g' = 32"
    and "\<And>i. i < 32 \<Longrightarrow> i \<noteq> unat r \<Longrightarrow> g' ! i = g ! i"
  shows "tracks (clear_reg regs r) g'"
  using assms reg_index [OF assms(2)]
  by (auto simp: tracks_def clear_reg_def agrees_def arr_set_Some nth_list_update)

lemma tracks_set_reg:
  assumes "agrees regs g" "r < 32" "length g' = 32" "g' ! unat r = v"
    and "\<And>i. i < 32 \<Longrightarrow> i \<noteq> unat r \<Longrightarrow> g' ! i = g ! i"
  shows "tracks (set_reg regs r v) g'"
  using assms reg_index [OF assms(2)]
  by (auto simp: tracks_def set_reg_def agrees_def arr_set_Some nth_list_update)

text \<open>An address is either unknown or the effective address.\<close>

definition ea_sound :: "u32 option option \<Rightarrow> u32 \<Rightarrow> bool" where
  "ea_sound r v \<longleftrightarrow> r = Some None \<or> r = Some (Some v)"

lemma known_ea_sound:
  assumes "agrees regs g" "wf_fields inst"
  shows "ea_sound (known_dform_ea regs inst) (d_ea inst g)"
    and "ea_sound (known_indexed_ea regs inst) (x_ea inst g)"
proof -
  have "unat (inst_rA inst) < 32" "unat (inst_rB inst) < 32"
    using assms(2) by (simp_all add: reg_index wf_reg)
  then show "ea_sound (known_dform_ea regs inst) (d_ea inst g)"
    "ea_sound (known_indexed_ea regs inst) (x_ea inst g)"
    using assms(1)
    by (auto simp: ea_sound_def known_dform_ea_def known_indexed_ea_def agrees_def d_ea_def x_ea_def
      base_value_def arr_get_Some)
qed

lemma tracks_base:
  assumes "agrees regs g" "wf_fields inst" "ea_sound ea v" "length g' = 32"
    and "\<And>i. i < 32 \<Longrightarrow> i \<noteq> unat (inst_rA inst) \<Longrightarrow> g' ! i = g ! i"
    and "g' ! unat (inst_rA inst) = v"
  shows "tracks (track_base regs inst ea) g'"
  using assms(3) tracks_set_reg [OF assms(1) _ assms(4,6,5)] tracks_clear_reg [OF assms(1) _ assms(4,5)]
    wf_reg(2) [OF assms(2)]
  by (auto simp: ea_sound_def track_base_def)

text \<open>A load with update: the base register, then the loaded one.\<close>

lemma tracks_base_clear:
  assumes ag: "agrees regs g" and wf: "wf_fields inst" and ea: "ea_sound ea v" and len: "length g' = 32"
    and keep: "\<And>i. i < 32 \<Longrightarrow> i \<noteq> unat (inst_rA inst) \<Longrightarrow> i \<noteq> unat (inst_rD inst) \<Longrightarrow> g' ! i = g ! i"
    and v: "inst_rA inst \<noteq> inst_rD inst \<Longrightarrow> g' ! unat (inst_rA inst) = v"
  shows "tracks (do { regs \<leftarrow> track_base regs inst ea; clear_reg regs (inst_rD inst) }) g'"
proof -
  let ?m = "g[unat (inst_rA inst) := v]"
  have a: "unat (inst_rA inst) < 32" "length g = 32"
    using wf ag by (simp_all add: reg_index wf_reg agrees_def)
  then have "tracks (track_base regs inst ea) ?m"
    using tracks_base [OF ag wf ea, of ?m] by simp
  then obtain regs1 where r: "track_base regs inst ea = Some regs1" "agrees regs1 ?m"
    by (auto simp: tracks_def)
  have "tracks (clear_reg regs1 (inst_rD inst)) g'"
    using wf_reg(1) [OF wf] len keep v a
    by (intro tracks_clear_reg [OF r(2)]) (auto simp: nth_list_update word_unat_eq_iff)
  then show ?thesis
    by (simp add: r(1))
qed

lemma tracks_add:
  assumes "agrees regs g" "wf_fields inst" "length g' = 32"
    and "\<And>i. i < 32 \<Longrightarrow> i \<noteq> unat (inst_rD inst) \<Longrightarrow> g' ! i = g ! i"
    and "g' ! unat (inst_rD inst) = base_value inst g + imm"
  shows "tracks (track_add regs inst imm) g'"
proof -
  have a: "unat (inst_rA inst) < 32" and d: "inst_rD inst < 32"
    using assms(2) by (simp_all add: reg_index wf_reg)
  then have r: "arr_get regs (unat (inst_rA inst)) = Some (regs ! unat (inst_rA inst))"
    "kr_known (regs ! unat (inst_rA inst)) \<Longrightarrow> g ! unat (inst_rA inst) = kr_value (regs ! unat (inst_rA inst))"
    using assms(1) by (simp_all add: agrees_def arr_get_Some)
  show ?thesis
    using tracks_set_reg [OF assms(1) d assms(3) _ assms(4)] tracks_clear_reg [OF assms(1) d assms(3,4)]
      assms(5) r
    by (cases "kr_known (regs ! unat (inst_rA inst))"; cases "inst_rA inst = 0")
      (simp_all add: track_add_def base_value_def)
qed

lemma tracks_logical:
  assumes "agrees regs g" "wf_fields inst" "length g' = 32"
    and "\<And>i. i < 32 \<Longrightarrow> i \<noteq> unat (inst_rA inst) \<Longrightarrow> g' ! i = g ! i"
    and "g' ! unat (inst_rA inst) = f (g ! unat (inst_rS inst))"
  shows "tracks (track_logical regs inst f) g'"
proof -
  have s: "unat (inst_rS inst) < 32" and d: "inst_rA inst < 32"
    using assms(2) by (simp_all add: reg_index wf_reg)
  then have r: "arr_get regs (unat (inst_rS inst)) = Some (regs ! unat (inst_rS inst))"
    "kr_known (regs ! unat (inst_rS inst)) \<Longrightarrow> g ! unat (inst_rS inst) = kr_value (regs ! unat (inst_rS inst))"
    using assms(1) by (simp_all add: agrees_def arr_get_Some)
  show ?thesis
    using tracks_set_reg [OF assms(1) d assms(3) _ assms(4)] tracks_clear_reg [OF assms(1) d assms(3,4)]
      assms(5) r
    by (cases "kr_known (regs ! unat (inst_rS inst))") (simp_all add: track_logical_def)
qed

text \<open>\<open>lmw\<close> clears the registers from \<open>rD\<close> to 31.\<close>

lemma clear_from_eq:
  "unat r + n = 32 \<Longrightarrow> length regs = 32 \<Longrightarrow>
   clear_from regs r n = Some (take (unat r) regs @ replicate n unknown_reg)"
proof (induction n arbitrary: r regs)
  case (Suc n)
  have u: "unat (ucast r :: u8) = unat r"
    using Suc.prems(1) by (simp add: unsigned_ucast_eq take_bit_nat_eq_self)
  have n: "unat (r + 1) = Suc (unat r)"
    using Suc.prems(1) by (simp add: unat_word_ariths)
  have "clear_reg regs (ucast r) = Some (regs[unat r := unknown_reg])"
    using Suc.prems by (simp add: clear_reg_def u arr_set_Some)
  moreover have "take (Suc (unat r)) (regs[unat r := unknown_reg]) = take (unat r) regs @ [unknown_reg]"
    using Suc.prems by (simp add: take_Suc_conv_app_nth)
  ultimately show ?case
    using Suc.IH [of "r + 1" "regs[unat r := unknown_reg]"] Suc.prems by (simp add: n)
qed simp

lemma tracks_clear_from:
  assumes "agrees regs g" "wf_fields inst" "length g' = 32"
    and "\<And>i. i < unat (inst_rD inst) \<Longrightarrow> g' ! i = g ! i"
  shows "tracks (clear_from regs (ucast (inst_rD inst)) (32 - unat (inst_rD inst))) g'"
proof -
  have d: "unat (inst_rD inst) < 32"
    using assms(2) by (simp add: reg_index wf_reg)
  then have "unat (ucast (inst_rD inst) :: u32) = unat (inst_rD inst)"
    using d by (simp add: unsigned_ucast_eq take_bit_nat_eq_self)
  then show ?thesis
    using d assms clear_from_eq [of "ucast (inst_rD inst)" "32 - unat (inst_rD inst)" regs]
    by (auto simp: tracks_def agrees_def nth_append)
qed

text \<open>The destination field of the instructions each case of the tracker handles.\<close>

lemma dest_groups:
  "list_all (\<lambda>op. gpr_dest op = DestD) [PPC_OP_LWZ, PPC_OP_LBZ, PPC_OP_LHZ, PPC_OP_LHA, PPC_OP_LWZX,
     PPC_OP_LBZX, PPC_OP_LHZX, PPC_OP_LHAX, PPC_OP_LWBRX, PPC_OP_LHBRX, PPC_OP_LWARX]"
  "list_all (\<lambda>op. gpr_dest op = DestAD \<and> op \<in> set d_update_ops)
     [PPC_OP_LWZU, PPC_OP_LBZU, PPC_OP_LHZU, PPC_OP_LHAU]"
  "list_all (\<lambda>op. gpr_dest op = DestAD \<and> op \<in> set x_update_ops)
     [PPC_OP_LWZUX, PPC_OP_LBZUX, PPC_OP_LHZUX, PPC_OP_LHAUX]"
  "list_all (\<lambda>op. gpr_dest op = DestA \<and> op \<in> set d_update_ops) [PPC_OP_STWU, PPC_OP_STBU, PPC_OP_STHU]"
  "list_all (\<lambda>op. gpr_dest op = DestA \<and> op \<in> set x_update_ops)
     [PPC_OP_STWUX, PPC_OP_STBUX, PPC_OP_STHUX, PPC_OP_STFSUX, PPC_OP_STFDUX, PPC_OP_PSQ_STUX]"
  "list_all (\<lambda>op. gpr_dest op = DestD) [PPC_OP_MFCR, PPC_OP_MFSPR, PPC_OP_MFTB, PPC_OP_MFMSR,
     PPC_OP_MFSR, PPC_OP_MFSRIN,
     PPC_OP_MULLI, PPC_OP_SUBFIC, PPC_OP_ADD, PPC_OP_ADDO, PPC_OP_ADDC, PPC_OP_ADDCO,
     PPC_OP_ADDE, PPC_OP_ADDEO, PPC_OP_ADDME, PPC_OP_ADDMEO, PPC_OP_ADDZE, PPC_OP_ADDZEO,
     PPC_OP_SUBF, PPC_OP_SUBFO, PPC_OP_SUBFC, PPC_OP_SUBFCO, PPC_OP_SUBFE, PPC_OP_SUBFEO,
     PPC_OP_SUBFME, PPC_OP_SUBFMEO, PPC_OP_SUBFZE, PPC_OP_SUBFZEO, PPC_OP_NEG, PPC_OP_NEGO,
     PPC_OP_MULLW, PPC_OP_MULLWO, PPC_OP_MULHW, PPC_OP_MULHWU, PPC_OP_DIVW, PPC_OP_DIVWO,
     PPC_OP_DIVWU, PPC_OP_DIVWUO]"
  "list_all (\<lambda>op. gpr_dest op = DestA) [PPC_OP_AND, PPC_OP_ANDC, PPC_OP_OR, PPC_OP_ORC, PPC_OP_XOR,
     PPC_OP_NAND, PPC_OP_NOR, PPC_OP_EQV, PPC_OP_CNTLZW, PPC_OP_EXTSB, PPC_OP_EXTSH, PPC_OP_SLW,
     PPC_OP_SRW, PPC_OP_SRAW, PPC_OP_SRAWI, PPC_OP_RLWINM, PPC_OP_RLWNM, PPC_OP_RLWIMI]"
  "gpr_dest PPC_OP_ADDI = DestD" "gpr_dest PPC_OP_ADDIS = DestD" "gpr_dest PPC_OP_ORI = DestA"
  "gpr_dest PPC_OP_ORIS = DestA" "gpr_dest PPC_OP_XORI = DestA" "gpr_dest PPC_OP_XORIS = DestA"
  "gpr_dest PPC_OP_LMW = DestMultiple"
  by code_simp+

text \<open>A property of every case body, each under its labels, and of the default without them.\<close>

lemma switch_in_cases:
  assumes "list_all (\<lambda>(ls, y). x \<in> set ls \<longrightarrow> P y) cs"
    and "x \<notin> set (concat (map fst cs)) \<Longrightarrow> P d"
  shows "P (switch_in x cs d)"
  using assms by (induction cs) auto

lemma update_known_regs_tracks:
  assumes ag: "agrees regs g" and wf: "wf_fields inst" and step: "gpr_step inst g g'"
    and tracked: "inst_op inst \<notin> set untracked"
  shows "tracks (update_known_regs regs inst) g'"
proof -
  have len: "length g' = 32" and keep: "\<And>i. i < 32 \<Longrightarrow> i \<notin> gpr_written inst \<Longrightarrow> g' ! i = g ! i"
    using step by (simp_all add: gpr_step_def)
  let ?op = "inst_op inst"
  note ea = known_ea_sound [OF ag wf]
  have dest: "?op \<in> set ops \<Longrightarrow> list_all Q ops \<Longrightarrow> Q ?op" for ops Q
    by (simp add: list_all_iff)
  have D: "tracks (clear_reg regs (inst_rD inst)) g'" if "gpr_dest ?op = DestD"
    using tracks_clear_reg [OF ag _ len] wf keep that by (auto simp: gpr_written_def)
  have A: "tracks (clear_reg regs (inst_rA inst)) g'" if "gpr_dest ?op = DestA"
    using tracks_clear_reg [OF ag _ len] wf keep that by (auto simp: gpr_written_def)
  have AD: "tracks (do { regs \<leftarrow> track_base regs inst e; clear_reg regs (inst_rD inst) }) g'"
    if "gpr_dest ?op = DestAD" "ea_sound e v" "inst_rA inst \<noteq> inst_rD inst \<Longrightarrow> g' ! unat (inst_rA inst) = v" for e v
    using tracks_base_clear [OF ag wf that(2) len] keep that(1,3) by (auto simp: gpr_written_def)
  have U: "tracks (track_base regs inst e) g'"
    if "gpr_dest ?op = DestA" "ea_sound e v" "g' ! unat (inst_rA inst) = v" for e v
    using tracks_base [OF ag wf that(2) len] keep that(1,3) by (auto simp: gpr_written_def)
  have I: "tracks (track_add regs inst imm) g'"
    if "gpr_dest ?op = DestD" "g' ! unat (inst_rD inst) = base_value inst g + imm" for imm
    using tracks_add [OF ag wf len] keep that by (auto simp: gpr_written_def)
  have L: "tracks (track_logical regs inst f) g'"
    if "gpr_dest ?op = DestA" "g' ! unat (inst_rA inst) = f (g ! unat (inst_rS inst))" for f
    using tracks_logical [OF ag wf len] keep that by (auto simp: gpr_written_def)
  have M: "tracks (clear_from regs (ucast (inst_rD inst)) (32 - unat (inst_rD inst))) g'"
    if "gpr_dest ?op = DestMultiple"
    using tracks_clear_from [OF ag wf len] keep that reg_index [OF wf_reg(1) [OF wf]]
    by (auto simp: gpr_written_def)
  show ?thesis
    unfolding update_known_regs_def
  proof (rule switch_in_cases, unfold list.pred_inject prod.case, intro conjI impI, goal_cases)
    case 1
    then show ?case
      using step by (intro I) (simp_all add: dest_groups gpr_step_def d_ea_def)
  next
    case 2
    then show ?case
      using step by (intro I) (simp_all add: dest_groups gpr_step_def)
  next
    case 7
    then show ?case by (intro D dest [OF _ dest_groups(1)])
  next
    case 8
    from dest [OF this dest_groups(2)] show ?case
      using step ea(1) by (intro AD) (auto simp: gpr_step_def)
  next
    case 9
    from dest [OF this dest_groups(3)] show ?case
      using step ea(2) by (intro AD) (auto simp: gpr_step_def)
  next
    case 10
    from dest [OF this dest_groups(4)] show ?case
      using step ea(1) by (intro U) (auto simp: gpr_step_def)
  next
    case 11
    from dest [OF this dest_groups(5)] show ?case
      using step ea(2) by (intro U) (auto simp: gpr_step_def)
  next
    case 12
    then show ?case by (intro D dest [OF _ dest_groups(6)])
  next
    case 13
    then show ?case by (intro A dest [OF _ dest_groups(7)])
  next
    case 14
    then show ?case by (intro M) (simp add: dest_groups)
  next
    case 16
    then have "gpr_dest ?op = NoDest"
      using tracked by (simp add: gpr_dest_def untracked_def)
    then have "\<And>i. i < 32 \<Longrightarrow> g' ! i = g ! i"
      using keep by (simp add: gpr_written_def)
    then show ?case
      using ag len by (simp add: tracks_def agrees_def)
  qed (use step in \<open>auto intro!: L simp: dest_groups gpr_step_def\<close>)
qed

section \<open>The reported ranges\<close>

text \<open>The word addresses the ranges cover, and the shape of the range list.\<close>

definition range_words :: "SMCRange \<Rightarrow> u32 set" where
  "range_words r = {a. a AND 3 = 0 \<and> range_start r \<le> a \<and> a \<le> range_end r}"

definition reported :: "SMCAnalysis \<Rightarrow> u32 set" where
  "reported smc = (\<Union>r \<in> set (smc_ranges smc). range_words r)"

definition wf_smc :: "SMCAnalysis \<Rightarrow> bool" where
  "wf_smc smc \<longleftrightarrow> (\<forall>r \<in> set (smc_ranges smc).
     range_start r AND 3 = 0 \<and> range_end r AND 3 = 0 \<and> range_start r \<le> range_end r)"

text \<open>The word behind an aligned one.\<close>

lemma next_word:
  fixes a e :: u32
  assumes "a AND 3 = 0" "e AND 3 = 0" "e < a" "a \<le> e + 4"
  shows "unat a = unat e + 4"
proof -
  have "unat e < unat a" "unat a \<le> unat (e + 4)" "unat a mod 4 = 0" "unat e mod 4 = 0"
    using assms by (simp_all add: word_aligned_iff word_less_nat_alt word_le_nat_alt)
  moreover have "unat (e + 4) \<le> unat e + 4"
    by (simp add: unat_word_ariths)
  ultimately show ?thesis
    by presburger
qed

lemma unat_lt_of_neq: "(x :: u32) \<le> a \<Longrightarrow> x \<noteq> a \<Longrightarrow> unat x < unat a"
  by (simp add: word_less_nat_alt [symmetric])

lemma range_words_extend:
  assumes "range_end r AND 3 = 0" "a AND 3 = 0" "range_start r \<le> range_end r"
    and "range_end r < a" "a \<le> range_end r + 4"
  shows "range_words (r\<lparr>range_end := a\<rparr>) = insert a (range_words r)"
proof -
  have n: "unat a = unat (range_end r) + 4"
    using next_word [OF assms(2,1,4,5)] .
  have "x \<le> range_end r" if "x AND 3 = 0" "x \<le> a" "x \<noteq> a" for x
  proof -
    have "unat x < unat a" "unat x mod 4 = 0" "unat (range_end r) mod 4 = 0"
      using that assms(1) word_aligned_iff unat_lt_of_neq by blast+
    then have "unat x \<le> unat (range_end r)"
      using n by presburger
    then show ?thesis
      by (simp add: word_le_nat_alt)
  qed
  then show ?thesis
    using assms by (auto simp: range_words_def)
qed

lemma append_reported:
  assumes "wf_smc smc" "a AND 3 = 0"
  shows "wf_smc (smc_append alloc smc a) \<and> (\<not> smc_allocation_failed (smc_append alloc smc a) \<longrightarrow>
    reported (smc_append alloc smc a) = insert a (reported smc))"
proof -
  have "range_words \<lparr>range_start = a, range_end = a\<rparr> = {a}"
    using assms(2) by (auto simp: range_words_def)
  then show ?thesis
    using assms by (auto simp: smc_append_def wf_smc_def reported_def)
qed

lemma note_reported:
  assumes wf: "wf_smc smc" and a: "a AND 3 = 0"
  shows "wf_smc (smc_note alloc smc a) \<and> (\<not> smc_allocation_failed (smc_note alloc smc a) \<longrightarrow>
    reported (smc_note alloc smc a) = insert a (reported smc))"
proof -
  let ?s = "smc\<lparr>smc_possible := True\<rparr>"
  have s: "wf_smc ?s" "reported ?s = reported smc"
    using wf by (simp_all add: wf_smc_def reported_def)
  show ?thesis
  proof (cases "smc_ranges smc \<noteq> [] \<and> range_start (last (smc_ranges smc)) \<le> a \<and>
      a \<le> range_end (last (smc_ranges smc)) + 4")
    case False
    then have "smc_note alloc smc a = smc_append alloc ?s a"
      by (auto simp: smc_note_def Let_def)
    then show ?thesis
      using append_reported [OF s(1) a] s(2) by simp
  next
    case True
    define l where "l = last (smc_ranges smc)"
    obtain rs where rs: "smc_ranges smc = rs @ [l]"
      using True by (metis append_butlast_last_id l_def)
    have lwf: "range_end l AND 3 = 0" "range_start l \<le> range_end l"
      using wf by (simp_all add: wf_smc_def rs)
    show ?thesis
    proof (cases "range_end l < a")
      case in_next: True
      then have "smc_note alloc smc a = ?s\<lparr>smc_ranges := rs @ [l\<lparr>range_end := a\<rparr>]\<rparr>"
        using True by (simp add: smc_note_def Let_def rs)
      then show ?thesis
        using wf a in_next True lwf range_words_extend [OF lwf(1) a lwf(2) in_next]
        by (auto simp: wf_smc_def reported_def rs)
    next
      case False
      then have "smc_note alloc smc a = ?s" and "a \<in> range_words l"
        using True a by (simp_all add: smc_note_def Let_def rs range_words_def)
      then show ?thesis
        using s by (auto simp: reported_def rs)
    qed
  qed
qed

lemma note_failed: "smc_allocation_failed smc \<Longrightarrow> smc_allocation_failed (smc_note alloc smc a)"
  by (simp add: smc_note_def smc_append_def Let_def)

section \<open>The report of a straight run\<close>

text \<open>An instruction that patches code: it invalidates the instruction cache, or stores into a code
  section at its effective address.\<close>

definition patches_code :: "LoadedCodeSection list \<Rightarrow> PPCInst \<Rightarrow> u32 list \<Rightarrow> bool" where
  "patches_code sections inst g \<longleftrightarrow> inst_op inst = PPC_OP_ICBI \<or>
     (\<exists>sz. store_size_for_inst inst = Some sz \<and>
       (inst_has_dform_ea (inst_op inst) \<and> code_range_overlaps sections (d_ea inst g) sz \<or>
        inst_has_indexed_ea (inst_op inst) \<and> code_range_overlaps sections (x_ea inst g) sz))"

lemma targets_code_sound:
  assumes "agrees regs g" "wf_fields inst"
  shows "\<exists>b. smc_inst_targets_code sections inst regs = Some b \<and> (b \<longrightarrow> patches_code sections inst g)"
  using known_ea_sound [OF assms]
  by (auto simp: smc_inst_targets_code_def patches_code_def ea_sound_def split: option.split)

text \<open>The registers before every instruction of a run that takes the instructions in order.\<close>

fun straight_run :: "PPCInst list \<Rightarrow> u32 list list \<Rightarrow> bool" where
  "straight_run [] gs = True"
| "straight_run (inst # insts) gs \<longleftrightarrow>
     (case gs of g # g' # gs' \<Rightarrow> gpr_step inst g g' \<and> straight_run insts (g' # gs') | _ \<Rightarrow> False)"

text \<open>The addresses of the instructions that patch code in the run, and those of \<open>icbi\<close>.\<close>

definition patchers :: "LoadedCodeSection list \<Rightarrow> PPCInst list \<Rightarrow> u32 list list \<Rightarrow> u32 set" where
  "patchers sections insts gs =
     {inst_address inst | inst g. (inst, g) \<in> set (zip insts gs) \<and> patches_code sections inst g}"

definition icbis :: "PPCInst list \<Rightarrow> u32 set" where
  "icbis insts = {inst_address inst | inst. inst \<in> set insts \<and> \<not> inst_embedded_data inst \<and>
     inst_op inst = PPC_OP_ICBI}"

definition tracked_inst :: "PPCInst \<Rightarrow> bool" where
  "tracked_inst inst \<longleftrightarrow> wf_fields inst \<and> inst_address inst AND 3 = 0 \<and> inst_op inst \<notin> set untracked \<and>
     (inst_embedded_data inst \<longrightarrow> inst_op inst = PPC_OP_UNKNOWN)"

lemma unknown_keeps:
  assumes "agrees regs g" "gpr_step inst g g'" "inst_op inst = PPC_OP_UNKNOWN"
  shows "agrees regs g'"
proof -
  have "gpr_written inst = {}"
    using assms(3) by (simp add: gpr_written_def gpr_dest_def)
  then show ?thesis
    using assms(1,2) by (simp add: agrees_def gpr_step_def)
qed

text \<open>The report grew by the addresses \<open>lo\<close> at least and \<open>hi\<close> at most, unless memory ran out.\<close>

definition grows :: "u32 set \<Rightarrow> u32 set \<Rightarrow> SMCAnalysis \<Rightarrow> SMCAnalysis \<Rightarrow> bool" where
  "grows lo hi smc smc' \<longleftrightarrow> wf_smc smc' \<and>
     (smc_allocation_failed smc \<longrightarrow> smc_allocation_failed smc') \<and>
     (\<not> smc_allocation_failed smc' \<longrightarrow>
        reported smc \<union> lo \<subseteq> reported smc' \<and> reported smc' \<subseteq> reported smc \<union> hi)"

lemma grows_refl: "wf_smc smc \<Longrightarrow> grows {} hi smc smc"
  by (auto simp: grows_def)

lemma grows_trans: "grows lo hi a b \<Longrightarrow> grows lo' hi' b c \<Longrightarrow> grows (lo \<union> lo') (hi \<union> hi') a c"
  unfolding grows_def by blast

lemma grows_note:
  assumes "wf_smc smc" "a AND 3 = 0" "lo \<subseteq> {a}" "a \<in> hi"
  shows "grows lo hi smc (smc_note alloc smc a)"
  using note_reported [OF assms(1,2), of alloc] note_failed [of smc alloc a] assms(3,4)
  by (auto simp: grows_def)

text \<open>One instruction: the tracker stays sound, the report grows by at most a patching address, and by
  the address of an \<open>icbi\<close>.\<close>

lemma smc_step_sound:
  assumes ag: "agrees regs g" and t: "tracked_inst inst" and st: "gpr_step inst g g'" and wf: "wf_smc smc"
  shows "\<exists>regs' smc'. smc_step al sections i inst (regs, smc) = Some (regs', smc') \<and> agrees regs' g' \<and>
    grows (icbis [inst]) (patchers sections [inst] [g]) smc smc'"
proof (cases "inst_op inst = PPC_OP_UNKNOWN")
  case True
  then have "smc_step al sections i inst (regs, smc) = Some (regs, smc)" "icbis [inst] = {}"
    by (auto simp: smc_step_def icbis_def)
  then show ?thesis
    using unknown_keeps [OF ag st True] grows_refl [OF wf] by auto
next
  case False
  obtain regs' where r: "update_known_regs regs inst = Some regs'" "agrees regs' g'"
    using update_known_regs_tracks [OF ag _ st] t by (auto simp: tracked_inst_def tracks_def)
  obtain b where b: "smc_inst_targets_code sections inst regs = Some b" "b \<longrightarrow> patches_code sections inst g"
    using targets_code_sound [OF ag, of inst sections] t by (auto simp: tracked_inst_def)
  let ?hit = "inst_op inst = PPC_OP_ICBI \<or> b"
  let ?smc = "if ?hit then smc_note (al i) smc (inst_address inst) else smc"
  have "smc_step al sections i inst (regs, smc) = Some (regs', ?smc)"
    using False t r(1) b(1) by (auto simp: smc_step_def tracked_inst_def)
  moreover have "grows (icbis [inst]) (patchers sections [inst] [g]) smc ?smc"
  proof (cases ?hit)
    case True
    then have "inst_address inst \<in> patchers sections [inst] [g]" "icbis [inst] \<subseteq> {inst_address inst}"
      using b(2) by (auto simp: patchers_def patches_code_def icbis_def)
    then show ?thesis
      using True grows_note [OF wf] t by (simp add: tracked_inst_def)
  next
    case False
    then have "icbis [inst] = {}"
      by (simp add: icbis_def)
    then show ?thesis
      using False grows_refl [OF wf] by simp
  qed
  ultimately show ?thesis
    using r(2) by blast
qed

lemma patchers_Cons:
  "patchers sections (inst # insts) (g # gs) = patchers sections [inst] [g] \<union> patchers sections insts gs"
  by (auto simp: patchers_def)

lemma icbis_Cons: "icbis (inst # insts) = icbis [inst] \<union> icbis insts"
  by (auto simp: icbis_def)

lemma smc_loop_sound:
  "straight_run insts (g # gs) \<Longrightarrow> list_all tracked_inst insts \<Longrightarrow> agrees regs g \<Longrightarrow> wf_smc smc \<Longrightarrow>
   \<exists>regs' smc'. smc_loop al sections i insts (regs, smc) = Some (regs', smc') \<and>
     grows (icbis insts) (patchers sections insts (g # gs)) smc smc'"
proof (induction insts arbitrary: i g gs regs smc)
  case Nil
  have "icbis [] = {}"
    by (simp add: icbis_def)
  then show ?case
    using Nil.prems(4) by (simp add: grows_refl)
next
  case (Cons inst insts)
  obtain g' gs' where gs: "gs = g' # gs'" "gpr_step inst g g'" "straight_run insts (g' # gs')"
    using Cons.prems(1) by (cases gs) simp_all
  have t: "tracked_inst inst" "list_all tracked_inst insts"
    using Cons.prems(2) by simp_all
  obtain regs1 smc1 where s: "smc_step al sections i inst (regs, smc) = Some (regs1, smc1)" "agrees regs1 g'"
    "grows (icbis [inst]) (patchers sections [inst] [g]) smc smc1"
    using smc_step_sound [OF Cons.prems(3) t(1) gs(2) Cons.prems(4)] by blast
  have "wf_smc smc1"
    using s(3) by (simp add: grows_def)
  then obtain regs2 smc2 where
    l: "smc_loop al sections (Suc i) insts (regs1, smc1) = Some (regs2, smc2)"
      "grows (icbis insts) (patchers sections insts (g' # gs')) smc1 smc2"
    using Cons.IH [OF gs(3) t(2) s(2), of smc1 "Suc i"] by blast
  then show ?case
    using s(1) grows_trans [OF s(3) l(2)]
    by (simp add: gs(1) patchers_Cons [of sections inst insts] icbis_Cons [of inst insts])
qed

section \<open>Properties\<close>

text \<open>C32 Whenever the constants the tracker holds are those in the general registers,
  an instruction with its fields in range, whose effect on the registers is that of the architecture,
  leaves them so, for every opcode but the sixteen that write a register behind the tracker's back;
  the tracker never leaves its array.\<close>

theorem smc_tracker_sound:
  assumes "agrees regs g" "wf_fields inst" "gpr_step inst g g'" "inst_op inst \<notin> set untracked"
  shows "\<exists>regs'. update_known_regs regs inst = Some regs' \<and> agrees regs' g'"
  using update_known_regs_tracks [OF assms] by (simp add: tracks_def)

text \<open>\<open>lis r3,0x8000\<close> in registers that are all zero and all known to be.\<close>

definition lis_r3 :: PPCInst where
  "lis_r3 = zero_inst\<lparr>inst_op := PPC_OP_ADDIS, inst_raw := 0x3C608000, inst_address := 0x80003100,
     inst_rD := 3, inst_simm := 0x8000\<rparr>"

definition zero_regs :: "u32 list" where
  "zero_regs = replicate 32 0"

lemma lis_r3_step: "gpr_step lis_r3 zero_regs (zero_regs[3 := 0x80000000])"
  by (simp add: gpr_step_def lis_r3_def zero_inst_def zero_regs_def gpr_written_def gpr_dest_def
    d_update_ops_def x_update_ops_def base_value_def)

lemma lis_r3_wf: "wf_fields lis_r3" "inst_op lis_r3 \<notin> set untracked"
  by (simp_all add: lis_r3_def zero_inst_def wf_fields_def untracked_def)

theorem smc_tracker_sound_witness:
  "\<exists>regs. update_known_regs (replicate 32 unknown_reg) lis_r3 = Some regs \<and> agrees regs (zero_regs[3 := 0x80000000])"
proof -
  have "agrees (replicate 32 unknown_reg) zero_regs"
    by (simp add: agrees_def zero_regs_def)
  from smc_tracker_sound [OF this lis_r3_wf(1) lis_r3_step lis_r3_wf(2)] show ?thesis .
qed

text \<open>The tracker does not forget the destination of \<open>addic\<close>: it goes on holding zero
  for \<open>r3\<close> after \<open>addic r3,r3,1\<close>.\<close>

theorem smc_addic_stale:
  "let inst = ppc_decode 0x30630001 0x80003100;
       regs = (replicate 32 unknown_reg)[3 := \<lparr>kr_known = True, kr_value = 0\<rparr>];
       g = replicate 32 0; g' = g[3 := 1]
   in inst_op inst = PPC_OP_ADDIC \<and> agrees regs g \<and> gpr_step inst g g' \<and>
      update_known_regs regs inst = Some regs \<and> \<not> agrees regs g'"
proof -
  have i: "ppc_decode 0x30630001 0x80003100 = zero_inst\<lparr>inst_op := PPC_OP_ADDIC, inst_raw := 0x30630001,
      inst_address := 0x80003100, inst_rD := 3, inst_rA := 3, inst_simm := 1\<rparr>"
    by code_simp
  show ?thesis
    unfolding Let_def i
    by (auto simp: agrees_def gpr_step_def gpr_written_def gpr_dest_def update_known_regs_def zero_inst_def
      d_update_ops_def x_update_ops_def nth_list_update)
qed

text \<open>C33 When a section runs in order and uses none of the untracked opcodes, the analysis
  reports, beyond what was reported before, the address of every \<open>icbi\<close> and of nothing but
  instructions that patch code: \<open>icbi\<close> and stores that reach a DOL code section at the effective
  address they have in the run, unless memory ran out.\<close>

theorem smc_report_sound:
  assumes "straight_run insts (g # gs)" "length g = 32" "list_all tracked_inst insts" "wf_smc smc"
  shows "\<exists>smc'. analyze_smc_section al sections insts smc = Some smc' \<and> wf_smc smc' \<and>
    (\<not> smc_allocation_failed smc' \<longrightarrow> reported smc \<union> icbis insts \<subseteq> reported smc' \<and>
      reported smc' \<subseteq> reported smc \<union> patchers sections insts (g # gs))"
proof -
  have "agrees (replicate 32 unknown_reg) g"
    using assms(2) by (simp add: agrees_def)
  from smc_loop_sound [OF assms(1,3) this assms(4), of al sections 0] show ?thesis
    by (auto simp: analyze_smc_section_def grows_def)
qed

text \<open>\<open>lis r3,0x8000\<close> and \<open>stw r4,0(r3)\<close> in a section that holds the stored word.\<close>

definition stw_r4 :: PPCInst where
  "stw_r4 = zero_inst\<lparr>inst_op := PPC_OP_STW, inst_raw := 0x90830000, inst_address := 0x80003104,
     inst_rS := 4, inst_rA := 3\<rparr>"

definition patching_section :: LoadedCodeSection where
  "patching_section = \<lparr>cs_label = ''text'', cs_name = ''text0'', cs_data = None, cs_index = 0, cs_file_offset = 0,
     cs_address = 0x80000000, cs_size = 0x4000, cs_mode = EMBEDDED_DATA_DOL\<rparr>"

theorem smc_report_sound_witness:
  "\<exists>smc'. analyze_smc_section (\<lambda>_. True) [patching_section] [lis_r3, stw_r4]
      \<lparr>smc_possible = False, smc_allocation_failed = False, smc_range_capacity = 0, smc_ranges = []\<rparr> = Some smc' \<and>
    wf_smc smc'"
proof -
  let ?g = "zero_regs[3 := 0x80000000]"
  have "gpr_step stw_r4 ?g ?g"
    by (simp add: gpr_step_def stw_r4_def zero_inst_def zero_regs_def gpr_written_def gpr_dest_def
      d_update_ops_def x_update_ops_def)
  then have "straight_run [lis_r3, stw_r4] [zero_regs, ?g, ?g]"
    using lis_r3_step by simp
  moreover have "list_all tracked_inst [lis_r3, stw_r4]"
    by (simp add: tracked_inst_def wf_fields_def lis_r3_def stw_r4_def zero_inst_def untracked_def)
  ultimately show ?thesis
    using smc_report_sound [of "[lis_r3, stw_r4]" zero_regs "[?g, ?g]"
      "\<lparr>smc_possible = False, smc_allocation_failed = False, smc_range_capacity = 0, smc_ranges = []\<rparr>"
      "\<lambda>_. True" "[patching_section]"]
    by (auto simp: zero_regs_def wf_smc_def)
qed

end
