(* ===== verification/Cfg.thy ===== *)
theory Cfg
  imports Inst
begin

text \<open>
  \<open>src/backend/c_cfg.c\<close>: the control flow facts the C backend emits a function with.  Block leaders,
  the cycles charged at every leader, the calls' return points, the instructions that need not
  store the program counter, and the loops that can be emitted as C loops.

  \<open>insts\<close> holds exactly the \<open>count\<close> instructions of the function; a \<open>u8\<close> flag is a truth value.  The
  builder is \<open>None\<close> when it would leave an array.
\<close>

section \<open>Classes of instructions\<close>

definition instruction_uses_fallback :: "PPCInst \<Rightarrow> bool" where
  "instruction_uses_fallback inst = switch_in (inst_op inst) [
     ([PPC_OP_DCBST, PPC_OP_DCBF, PPC_OP_DCBI, PPC_OP_ICBI, PPC_OP_UNKNOWN], True),
     ([PPC_OP_MFSPR], inst_spr inst \<notin> set [1, 8, 9, 26, 27, 268, 269, 282, 912, 913, 914, 915, 916,
        917, 918, 919, 920]),
     ([PPC_OP_MTSPR], inst_spr inst \<notin> set [1, 8, 9, 26, 27, 282, 912, 913, 914, 915, 916, 917, 918,
        919, 920])] False"

definition instruction_ends_block :: "PPCInst \<Rightarrow> bool" where
  "instruction_ends_block inst \<longleftrightarrow>
     (if inst_op inst \<in> set [PPC_OP_B, PPC_OP_BC, PPC_OP_BCLR, PPC_OP_BCCTR, PPC_OP_SC, PPC_OP_RFI]
      then True else instruction_uses_fallback inst)"

definition instruction_cycles :: "PPCInst \<Rightarrow> u32" where
  "instruction_cycles inst =
     (if inst_embedded_data inst \<or> instruction_uses_fallback inst then 0
      else switch_in (inst_op inst) [
        ([PPC_OP_MULLI], 3),
        ([PPC_OP_SC, PPC_OP_RFI, PPC_OP_TW], 2),
        ([PPC_OP_LMW, PPC_OP_STMW], 11),
        ([PPC_OP_MULLW, PPC_OP_MULLWO, PPC_OP_MULHW, PPC_OP_MULHWU], 5),
        ([PPC_OP_DIVW, PPC_OP_DIVWO, PPC_OP_DIVWU, PPC_OP_DIVWUO], 40),
        ([PPC_OP_DCBZ], 5),
        ([PPC_OP_DCBTST, PPC_OP_DCBT], 2),
        ([PPC_OP_MFSR, PPC_OP_MFSRIN], 3),
        ([PPC_OP_MTSPR], 2),
        ([PPC_OP_SYNC], 3),
        ([PPC_OP_MTFSB0, PPC_OP_MTFSB1, PPC_OP_MTFSF, PPC_OP_MTFSFI], 3),
        ([PPC_OP_FDIVS], 17),
        ([PPC_OP_FDIV], 31),
        ([PPC_OP_PS_DIV], 17),
        ([PPC_OP_PS_RSQRTE], 2)] 1)"

definition instruction_is_pc_transparent :: "PPCInst \<Rightarrow> bool" where
  "instruction_is_pc_transparent inst \<longleftrightarrow> inst_op inst \<in> set [PPC_OP_MULLI, PPC_OP_SUBFIC, PPC_OP_ADDI,
     PPC_OP_ADDIC, PPC_OP_ADDIC_DOT, PPC_OP_ADDIS, PPC_OP_CMPI, PPC_OP_CMPLI, PPC_OP_CMP, PPC_OP_CMPL,
     PPC_OP_ORI, PPC_OP_ORIS, PPC_OP_XORI, PPC_OP_XORIS, PPC_OP_ANDI, PPC_OP_ANDIS, PPC_OP_ADD,
     PPC_OP_ADDC, PPC_OP_ADDE, PPC_OP_ADDME, PPC_OP_ADDZE, PPC_OP_SUBF, PPC_OP_SUBFC, PPC_OP_SUBFE,
     PPC_OP_SUBFME, PPC_OP_SUBFZE, PPC_OP_NEG, PPC_OP_AND, PPC_OP_ANDC, PPC_OP_OR, PPC_OP_ORC,
     PPC_OP_XOR, PPC_OP_NAND, PPC_OP_NOR, PPC_OP_EQV, PPC_OP_CNTLZW, PPC_OP_EXTSB, PPC_OP_EXTSH,
     PPC_OP_SLW, PPC_OP_SRW, PPC_OP_SRAW, PPC_OP_SRAWI, PPC_OP_RLWINM, PPC_OP_RLWNM, PPC_OP_RLWIMI,
     PPC_OP_MULLW, PPC_OP_MULHW, PPC_OP_MULHWU, PPC_OP_DIVW, PPC_OP_DIVWU, PPC_OP_CRAND,
     PPC_OP_CRANDC, PPC_OP_CREQV, PPC_OP_CRNAND, PPC_OP_CRNOR, PPC_OP_CROR, PPC_OP_CRORC,
     PPC_OP_CRXOR, PPC_OP_MCRF, PPC_OP_MFCR, PPC_OP_MTCRF, PPC_OP_B, PPC_OP_BC]"

definition instruction_is_outlinable :: "PPCInst \<Rightarrow> bool" where
  "instruction_is_outlinable inst \<longleftrightarrow>
     (if instruction_is_pc_transparent inst then True
      else inst_op inst \<in> set [PPC_OP_LWZ, PPC_OP_LWZU, PPC_OP_LBZ, PPC_OP_LBZU, PPC_OP_LHZ,
        PPC_OP_LHZU, PPC_OP_LHA, PPC_OP_LHAU, PPC_OP_STW, PPC_OP_STWU, PPC_OP_STB, PPC_OP_STBU,
        PPC_OP_STH, PPC_OP_STHU, PPC_OP_LWZX, PPC_OP_LWZUX, PPC_OP_LBZX, PPC_OP_LBZUX, PPC_OP_LHZX,
        PPC_OP_LHZUX, PPC_OP_LHAX, PPC_OP_LHAUX, PPC_OP_LWBRX, PPC_OP_LHBRX, PPC_OP_STWX,
        PPC_OP_STWUX, PPC_OP_STBX, PPC_OP_STBUX, PPC_OP_STHX, PPC_OP_STHUX, PPC_OP_STWBRX,
        PPC_OP_STHBRX])"

section \<open>The graph\<close>

record CFunctionCFG =
  cfg_count :: u32
  leaders :: "bool list"
  block_cycles :: "u32 list"
  materialize_pc :: "bool list"
  return_targets :: "bool list"
  loop_ends :: "u32 list"

definition UINT32_MAX :: u32 where "UINT32_MAX = 0xFFFFFFFF"

definition c_function_cfg_contains :: "CFunctionCFG \<Rightarrow> u32 \<Rightarrow> u32 \<Rightarrow> bool" where
  "c_function_cfg_contains cfg function_address address \<longleftrightarrow>
     (let end = function_address + cfg_count cfg * 4 in
      function_address \<le> address \<and> address < end \<and> (address - function_address) AND 3 = 0)"

definition c_function_cfg_destroy :: "CFunctionCFG \<Rightarrow> CFunctionCFG" where
  "c_function_cfg_destroy cfg = \<lparr>cfg_count = 0, leaders = [], block_cycles = [], materialize_pc = [],
     return_targets = [], loop_ends = []\<rparr>"

text \<open>The index of a branch target.\<close>

definition target_index :: "u32 \<Rightarrow> PPCInst \<Rightarrow> nat" where
  "target_index function_address inst = unat ((inst_branch_target inst - function_address) div 4)"

text \<open>The first loop: leaders and return targets.\<close>

definition scan_body :: "PPCInst list \<Rightarrow> u32 \<Rightarrow> nat \<Rightarrow> CFunctionCFG \<Rightarrow> CFunctionCFG option" where
  "scan_body insts function_address i cfg = do {
     inst \<leftarrow> arr_get insts i;
     if inst_embedded_data inst then Some cfg
     else do {
       cfg \<leftarrow> (if instruction_ends_block inst \<and> i + 1 < length insts
              then do { l \<leftarrow> arr_set (leaders cfg) (i + 1) True; Some (cfg\<lparr>leaders := l\<rparr>) }
              else Some cfg);
       cfg \<leftarrow> (if inst_lk inst \<and> i + 1 < length insts
              then do { t \<leftarrow> arr_set (return_targets cfg) (i + 1) True; Some (cfg\<lparr>return_targets := t\<rparr>) }
              else Some cfg);
       if (inst_op inst = PPC_OP_B \<or> inst_op inst = PPC_OP_BC) \<and>
          c_function_cfg_contains cfg function_address (inst_branch_target inst)
       then do { l \<leftarrow> arr_set (leaders cfg) (target_index function_address inst) True;
                 Some (cfg\<lparr>leaders := l\<rparr>) }
       else Some cfg } }"

text \<open>The cycles of the block from \<open>j\<close> on; the loop ends at a block end, the last instruction or in
  front of a leader.\<close>

function block_loop :: "PPCInst list \<Rightarrow> bool list \<Rightarrow> nat \<Rightarrow> u32 \<Rightarrow> u32 option" where
  "block_loop insts ls j acc =
     (if j < length insts then
        let acc = acc + instruction_cycles (insts ! j) in
        if instruction_ends_block (insts ! j) \<or> j + 1 = length insts then Some acc
        else do {
          l \<leftarrow> arr_get ls (j + 1);
          if l then Some acc else block_loop insts ls (j + 1) acc }
      else Some acc)"
  by pat_completeness auto
termination
  by (relation "measure (\<lambda>(insts, ls, j, acc). length insts - j)") auto

declare block_loop.simps [simp del]

definition cycles_body :: "PPCInst list \<Rightarrow> nat \<Rightarrow> CFunctionCFG \<Rightarrow> CFunctionCFG option" where
  "cycles_body insts i cfg = do {
     l \<leftarrow> arr_get (leaders cfg) i;
     if \<not> l then Some cfg
     else do {
       old \<leftarrow> arr_get (block_cycles cfg) i;
       v \<leftarrow> block_loop insts (leaders cfg) i old;
       bc \<leftarrow> arr_set (block_cycles cfg) i v;
       Some (cfg\<lparr>block_cycles := bc\<rparr>) } }"

text \<open>A conjunction over the instructions \<open>a\<close> to \<open>b - 1\<close>.\<close>

definition all_insts :: "(PPCInst \<Rightarrow> bool) \<Rightarrow> PPCInst list \<Rightarrow> nat \<Rightarrow> nat \<Rightarrow> bool option" where
  "all_insts P insts a b = for_each [a..<b] (\<lambda>i acc. do { inst \<leftarrow> arr_get insts i; Some (acc \<and> P inst) }) True"

definition reads_time_base :: "PPCInst \<Rightarrow> bool" where
  "reads_time_base inst \<longleftrightarrow> inst_op inst = PPC_OP_MFTB \<or>
     (inst_op inst = PPC_OP_MFSPR \<and> (inst_spr inst = 268 \<or> inst_spr inst = 269))"

definition c_function_cfg_can_loop_directly :: "CFunctionCFG \<Rightarrow> PPCInst list \<Rightarrow> u32 \<Rightarrow> nat \<Rightarrow> bool option" where
  "c_function_cfg_can_loop_directly cfg insts function_address branch_index = do {
     branch \<leftarrow> arr_get insts branch_index;
     if (inst_op branch \<noteq> PPC_OP_B \<and> inst_op branch \<noteq> PPC_OP_BC) \<or> inst_lk branch \<or>
        \<not> c_function_cfg_contains cfg function_address (inst_branch_target branch) \<or>
        inst_branch_target branch > inst_address branch
     then Some False
     else all_insts (\<lambda>inst. \<not> reads_time_base inst) insts (target_index function_address branch)
            (branch_index + 1) }"

text \<open>The third loop: direct loops.\<close>

definition loop_body :: "PPCInst list \<Rightarrow> u32 \<Rightarrow> nat \<Rightarrow> CFunctionCFG \<Rightarrow> CFunctionCFG option" where
  "loop_body insts function_address last_index cfg = do {
     direct \<leftarrow> c_function_cfg_can_loop_directly cfg insts function_address last_index;
     if \<not> direct then Some cfg
     else do {
       branch \<leftarrow> arr_get insts last_index;
       let first = target_index function_address branch;
       m \<leftarrow> for_each [first..<last_index + 1] (\<lambda>i m. do {
              inst \<leftarrow> arr_get insts i;
              if instruction_is_pc_transparent inst then arr_set m i False else Some m })
            (materialize_pc cfg);
       let cfg = cfg\<lparr>materialize_pc := m\<rparr>;
       straight_line \<leftarrow> all_insts (\<lambda>inst. \<not> instruction_ends_block inst) insts first last_index;
       outlinable \<leftarrow> all_insts instruction_is_outlinable insts first (last_index + 1);
       if straight_line \<and> outlinable \<and> first < last_index
       then do { le \<leftarrow> arr_set (loop_ends cfg) first (of_nat last_index); Some (cfg\<lparr>loop_ends := le\<rparr>) }
       else Some cfg } }"

definition c_function_cfg_build :: "bool \<Rightarrow> PPCInst list \<Rightarrow> u32 \<Rightarrow> (bool \<times> CFunctionCFG) option" where
  "c_function_cfg_build alloc insts function_address =
     (let count = length insts;
          n = (if count \<noteq> 0 then count else 1);
          cfg = \<lparr>cfg_count = of_nat count, leaders = replicate n False, block_cycles = replicate n 0,
                 materialize_pc = replicate n True, return_targets = replicate n False,
                 loop_ends = replicate n UINT32_MAX\<rparr>
      in
      if \<not> alloc then Some (False, c_function_cfg_destroy cfg)
      else do {
        cfg \<leftarrow> (if count \<noteq> 0 then do { l \<leftarrow> arr_set (leaders cfg) 0 True; Some (cfg\<lparr>leaders := l\<rparr>) }
               else Some cfg);
        cfg \<leftarrow> for_each [0..<count] (scan_body insts function_address) cfg;
        cfg \<leftarrow> for_each [0..<count] (cycles_body insts) cfg;
        cfg \<leftarrow> for_each [0..<count] (loop_body insts function_address) cfg;
        Some (True, cfg) })"


section \<open>Indices\<close>

text \<open>The arrays of a graph over \<open>insts\<close>.\<close>

definition dims :: "PPCInst list \<Rightarrow> CFunctionCFG \<Rightarrow> bool" where
  "dims insts cfg \<longleftrightarrow> cfg_count cfg = of_nat (length insts) \<and>
     length (leaders cfg) = length insts \<and> length (block_cycles cfg) = length insts \<and>
     length (materialize_pc cfg) = length insts \<and> length (return_targets cfg) = length insts \<and>
     length (loop_ends cfg) = length insts"

text \<open>The addresses of the function: those of its instructions, unless its end wraps around.\<close>

definition in_function :: "PPCInst list \<Rightarrow> u32 \<Rightarrow> u32 \<Rightarrow> nat \<Rightarrow> bool" where
  "in_function insts fa a k \<longleftrightarrow> k < length insts \<and> unat a = unat fa + 4 * k \<and>
     unat fa + 4 * length insts < 2 ^ 32"

lemma contains_iff:
  assumes n: "4 * length insts < 2 ^ 32" and c: "cfg_count cfg = of_nat (length insts)"
  shows "c_function_cfg_contains cfg fa a \<longleftrightarrow> (\<exists>k. in_function insts fa a k)"
proof -
  have "unat (cfg_count cfg) = length insts"
    using n by (simp add: c unat_of_nat take_bit_nat_eq_self)
  then have "unat (cfg_count cfg * 4) = 4 * length insts"
    using n by (simp add: unat_word_ariths(2) mult.commute)
  then have e: "unat (fa + cfg_count cfg * 4) = (unat fa + 4 * length insts) mod 2 ^ 32"
    by (simp add: unat_word_ariths(1))
  have sub: "unat (a - fa) = unat a - unat fa" if "fa \<le> a"
    using that by (simp add: unat_sub)
  have fa: "unat fa < 2 ^ 32"
    using unsigned_less [of fa] by simp
  show ?thesis
  proof (cases "unat fa + 4 * length insts < 2 ^ 32")
    case True
    then have "unat (fa + cfg_count cfg * 4) = unat fa + 4 * length insts"
      by (simp add: e)
    note fend = this
    have "c_function_cfg_contains cfg fa a \<longleftrightarrow>
        unat fa \<le> unat a \<and> unat a < unat fa + 4 * length insts \<and> (unat a - unat fa) mod 4 = 0"
    proof (cases "fa \<le> a")
      case True
      then show ?thesis
        using sub [OF True] fend
        unfolding c_function_cfg_contains_def Let_def word_aligned_iff word_less_nat_alt word_le_nat_alt by simp
    next
      case False
      then show ?thesis
        by (simp add: c_function_cfg_contains_def word_le_nat_alt)
    qed
    also have "\<dots> \<longleftrightarrow> (\<exists>k < length insts. unat a = unat fa + 4 * k)"
    proof
      assume h: "unat fa \<le> unat a \<and> unat a < unat fa + 4 * length insts \<and> (unat a - unat fa) mod 4 = 0"
      then obtain k where "unat a - unat fa = 4 * k"
        by (metis mod_0_imp_dvd dvdE)
      then have "k < length insts \<and> unat a = unat fa + 4 * k"
        using h by linarith
      then show "\<exists>k < length insts. unat a = unat fa + 4 * k" by blast
    qed auto
    finally show ?thesis
      using True by (auto simp: in_function_def)
  next
    case False
    have "(unat fa + 4 * length insts) mod 2 ^ 32 = unat fa + 4 * length insts - 2 ^ 32"
      using False n fa by (simp add: le_mod_geq not_less)
    then have "(unat fa + 4 * length insts) mod 2 ^ 32 < unat fa"
      using False n fa by linarith
    then have "fa + cfg_count cfg * 4 < fa"
      by (simp only: word_less_nat_alt e)
    then have "\<not> c_function_cfg_contains cfg fa a"
      by (auto simp: c_function_cfg_contains_def Let_def)
    then show ?thesis
      using False by (simp add: in_function_def)
  qed
qed

lemma target_index_eq:
  assumes "in_function insts fa (inst_branch_target inst) k"
  shows "target_index fa inst = k"
proof -
  have "fa \<le> inst_branch_target inst"
    using assms by (simp add: in_function_def word_le_nat_alt)
  then have "unat (inst_branch_target inst - fa) = 4 * k"
    using assms by (simp add: in_function_def unat_sub)
  then show ?thesis
    by (simp add: target_index_def unat_div)
qed

lemma all_insts_eq:
  assumes "b \<le> length insts"
  shows "all_insts P insts a b = Some (\<forall>i. a \<le> i \<and> i < b \<longrightarrow> P (insts ! i))"
proof (cases "a \<le> b")
  case True
  have "\<exists>s. for_each [a..<b] (\<lambda>i acc. do { inst \<leftarrow> arr_get insts i; Some (acc \<and> P inst) }) True = Some s \<and>
      s = (\<forall>i. a \<le> i \<and> i < b \<longrightarrow> P (insts ! i))"
  proof (rule for_each_inv [where P = "\<lambda>j s. s = (\<forall>i. a \<le> i \<and> i < j \<longrightarrow> P (insts ! i))", OF _ True])
    fix j s assume "a \<le> j" "j < b" "s = (\<forall>i. a \<le> i \<and> i < j \<longrightarrow> P (insts ! i))"
    then show "\<exists>s'. (do { inst \<leftarrow> arr_get insts j; Some (s \<and> P inst) }) = Some s' \<and>
        s' = (\<forall>i. a \<le> i \<and> i < Suc j \<longrightarrow> P (insts ! i))"
      using assms by (auto simp: arr_get_Some less_Suc_eq)
  qed auto
  then show ?thesis
    by (simp add: all_insts_def)
qed (auto simp: all_insts_def)

section \<open>Leaders and return targets\<close>

text \<open>A branch of the function at \<open>j\<close> to its instruction \<open>k\<close>; an instruction that ends its block
  in front of \<open>k\<close>; a call that returns to \<open>k\<close>.\<close>

definition branches_to :: "PPCInst list \<Rightarrow> u32 \<Rightarrow> nat \<Rightarrow> nat \<Rightarrow> bool" where
  "branches_to insts fa j k \<longleftrightarrow>
     (inst_op (insts ! j) = PPC_OP_B \<or> inst_op (insts ! j) = PPC_OP_BC) \<and>
     in_function insts fa (inst_branch_target (insts ! j)) k"

definition leads :: "PPCInst list \<Rightarrow> u32 \<Rightarrow> nat \<Rightarrow> nat \<Rightarrow> bool" where
  "leads insts fa j k \<longleftrightarrow> \<not> inst_embedded_data (insts ! j) \<and>
     (k = j + 1 \<and> instruction_ends_block (insts ! j) \<or> branches_to insts fa j k)"

definition returns_to :: "PPCInst list \<Rightarrow> nat \<Rightarrow> nat \<Rightarrow> bool" where
  "returns_to insts j k \<longleftrightarrow> k = j + 1 \<and> \<not> inst_embedded_data (insts ! j) \<and> inst_lk (insts ! j)"

text \<open>The invariant of the first loop.\<close>

definition scanned :: "PPCInst list \<Rightarrow> u32 \<Rightarrow> CFunctionCFG \<Rightarrow> nat \<Rightarrow> CFunctionCFG \<Rightarrow> bool" where
  "scanned insts fa cfg0 i cfg \<longleftrightarrow> dims insts cfg \<and>
     (\<forall>k < length insts. leaders cfg ! k \<longleftrightarrow> k = 0 \<or> (\<exists>j < i. leads insts fa j k)) \<and>
     (\<forall>k < length insts. return_targets cfg ! k \<longleftrightarrow> (\<exists>j < i. returns_to insts j k)) \<and>
     block_cycles cfg = block_cycles cfg0 \<and> materialize_pc cfg = materialize_pc cfg0 \<and>
     loop_ends cfg = loop_ends cfg0"

lemma set_flag:
  assumes "length fs = n" "k < n" "\<And>x. x < n \<Longrightarrow> fs ! x \<longleftrightarrow> P x"
  shows "\<exists>fs'. arr_set fs k True = Some fs' \<and> length fs' = n \<and> (\<forall>x < n. fs' ! x \<longleftrightarrow> P x \<or> x = k)"
  using assms by (auto simp: arr_set_Some nth_list_update)

lemma scan_body_inv:
  assumes n: "4 * length insts < 2 ^ 32" and i: "i < length insts" and inv: "scanned insts fa cfg0 i cfg"
  shows "\<exists>cfg'. scan_body insts fa i cfg = Some cfg' \<and> scanned insts fa cfg0 (Suc i) cfg'"
proof -
  let ?inst = "insts ! i" and ?n = "length insts"
  have d: "dims insts cfg" and l: "\<And>k. k < ?n \<Longrightarrow> leaders cfg ! k \<longleftrightarrow> k = 0 \<or> (\<exists>j < i. leads insts fa j k)"
    and r: "\<And>k. k < ?n \<Longrightarrow> return_targets cfg ! k \<longleftrightarrow> (\<exists>j < i. returns_to insts j k)"
    using inv by (simp_all add: scanned_def)
  have get: "arr_get insts i = Some ?inst"
    using i by (simp add: arr_get_Some)
  have c: "c_function_cfg_contains cfg' fa a \<longleftrightarrow> (\<exists>k. in_function insts fa a k)"
    if "cfg_count cfg' = cfg_count cfg" for cfg' a
    using contains_iff [OF n] that d by (simp add: dims_def)
  show ?thesis
  proof (cases "inst_embedded_data ?inst")
    case True
    then have "\<not> leads insts fa i k" "\<not> returns_to insts i k" for k
      by (simp_all add: leads_def returns_to_def)
    then show ?thesis
      using inv True get by (simp add: scan_body_def scanned_def less_Suc_eq ex_disj_distrib conj_disj_distribR)
  next
    case False
    define cfg1 where "cfg1 = (if instruction_ends_block ?inst \<and> i + 1 < ?n
      then cfg\<lparr>leaders := (leaders cfg)[i + 1 := True]\<rparr> else cfg)"
    define cfg2 where "cfg2 = (if inst_lk ?inst \<and> i + 1 < ?n
      then cfg1\<lparr>return_targets := (return_targets cfg1)[i + 1 := True]\<rparr> else cfg1)"
    have d2: "dims insts cfg2" "cfg_count cfg2 = cfg_count cfg"
      using d by (simp_all add: cfg2_def cfg1_def dims_def)
    have l2: "leaders cfg2 ! k \<longleftrightarrow> leaders cfg ! k \<or> instruction_ends_block ?inst \<and> k = i + 1" if "k < ?n" for k
      using that d by (auto simp: cfg2_def cfg1_def dims_def nth_list_update)
    have r2: "return_targets cfg2 ! k \<longleftrightarrow> return_targets cfg ! k \<or> returns_to insts i k" if "k < ?n" for k
      using that d False by (auto simp: cfg2_def cfg1_def dims_def nth_list_update returns_to_def)
    have rest: "block_cycles cfg2 = block_cycles cfg0" "materialize_pc cfg2 = materialize_pc cfg0"
      "loop_ends cfg2 = loop_ends cfg0"
      using inv by (simp_all add: cfg2_def cfg1_def scanned_def)
    have two: "scan_body insts fa i cfg =
        (if (inst_op ?inst = PPC_OP_B \<or> inst_op ?inst = PPC_OP_BC) \<and>
            c_function_cfg_contains cfg2 fa (inst_branch_target ?inst)
         then do { l \<leftarrow> arr_set (leaders cfg2) (target_index fa ?inst) True; Some (cfg2\<lparr>leaders := l\<rparr>) }
         else Some cfg2)"
      using False d by (simp add: scan_body_def get cfg2_def cfg1_def dims_def arr_set_Some)
    have split: "(\<exists>j < Suc i. Q j) \<longleftrightarrow> (\<exists>j < i. Q j) \<or> Q i" for Q
      by (auto simp: less_Suc_eq)
    show ?thesis
    proof (cases "\<exists>k. branches_to insts fa i k")
      case True
      then obtain k where k: "branches_to insts fa i k" by blast
      then have t: "in_function insts fa (inst_branch_target ?inst) k" "target_index fa ?inst = k" "k < ?n"
        by (auto simp: branches_to_def target_index_eq in_function_def)
      have uniq: "branches_to insts fa i x \<longleftrightarrow> x = k" for x
        using k by (auto simp: branches_to_def in_function_def)
      have "scan_body insts fa i cfg = Some (cfg2\<lparr>leaders := (leaders cfg2)[k := True]\<rparr>)"
        using two k t d2(1) c [OF d2(2)] by (auto simp: branches_to_def dims_def arr_set_Some)
      moreover have "scanned insts fa cfg0 (Suc i) (cfg2\<lparr>leaders := (leaders cfg2)[k := True]\<rparr>)"
        using d2(1) l2 r2 l r rest False t(3)
        by (auto simp: scanned_def dims_def nth_list_update leads_def uniq split)
      ultimately show ?thesis by blast
    next
      case no: False
      then have "scan_body insts fa i cfg = Some cfg2"
        using two c [OF d2(2)] by (auto simp: branches_to_def)
      moreover have "scanned insts fa cfg0 (Suc i) cfg2"
        using d2(1) l2 r2 l r rest False no by (auto simp: scanned_def leads_def split)
      ultimately show ?thesis by blast
    qed
  qed
qed


section \<open>Blocks\<close>

text \<open>\<open>[j, e)\<close> is the block of \<open>j\<close>: it ends behind its first block end, in front of the next leader,
  or at the end of the function.\<close>

definition block :: "PPCInst list \<Rightarrow> bool list \<Rightarrow> nat \<Rightarrow> nat \<Rightarrow> bool" where
  "block insts ls j e \<longleftrightarrow> j < e \<and> e \<le> length insts \<and>
     (\<forall>k. j < k \<and> k < e \<longrightarrow> \<not> ls ! k \<and> \<not> instruction_ends_block (insts ! (k - 1))) \<and>
     (e = length insts \<or> ls ! e \<or> instruction_ends_block (insts ! (e - 1)))"

definition cycles_between :: "PPCInst list \<Rightarrow> nat \<Rightarrow> nat \<Rightarrow> u32" where
  "cycles_between insts j e = (\<Sum>k = j..<e. instruction_cycles (insts ! k))"

lemma block_step:
  assumes "block insts ls (Suc j) e" "j + 1 < length insts"
    "\<not> ls ! (j + 1)" "\<not> instruction_ends_block (insts ! j)"
  shows "block insts ls j e"
  unfolding block_def
proof (intro conjI allI impI)
  fix k assume k: "j < k \<and> k < e"
  show "\<not> ls ! k" "\<not> instruction_ends_block (insts ! (k - 1))"
    using assms k by (cases "k = j + 1"; simp add: block_def)+
qed (use assms in \<open>auto simp: block_def\<close>)

lemma block_loop_block:
  "j < length insts \<Longrightarrow> length ls = length insts \<Longrightarrow>
   \<exists>e. block insts ls j e \<and> block_loop insts ls j acc = Some (acc + cycles_between insts j e)"
proof (induction "length insts - j" arbitrary: j acc)
  case (Suc d)
  let ?acc = "acc + instruction_cycles (insts ! j)"
  have cons: "cycles_between insts j e = instruction_cycles (insts ! j) + cycles_between insts (Suc j) e"
    if "j < e" for e
    using that by (simp add: cycles_between_def sum.atLeast_Suc_lessThan)
  have none: "cycles_between insts (Suc j) (Suc j) = 0"
    by (simp add: cycles_between_def)
  show ?case
  proof (cases "instruction_ends_block (insts ! j) \<or> j + 1 = length insts \<or> ls ! (j + 1)")
    case True
    then have "block_loop insts ls j acc = Some ?acc"
      using Suc.prems by (subst block_loop.simps) (auto simp: arr_get_def Let_def)
    moreover have "block insts ls j (Suc j)"
      using True Suc.prems by (auto simp: block_def)
    ultimately show ?thesis
      using cons [of "Suc j"] none by auto
  next
    case False
    then have j: "Suc j < length insts"
      using Suc.prems by simp
    have step: "block_loop insts ls j acc = block_loop insts ls (Suc j) ?acc"
      using False Suc.prems j by (subst block_loop.simps) (simp add: arr_get_Some Let_def)
    have "d = length insts - Suc j"
      using Suc.hyps(2) by simp
    then obtain e where e: "block insts ls (Suc j) e"
      "block_loop insts ls (Suc j) ?acc = Some (?acc + cycles_between insts (Suc j) e)"
      using Suc.hyps(1) [OF _ j Suc.prems(2), of ?acc] by blast
    moreover have "j < e"
      using e(1) by (simp add: block_def)
    ultimately show ?thesis
      using False j step block_step [OF e(1)] cons [of e] by (auto simp: add.assoc)
  qed
qed simp

text \<open>The invariant of the second loop: what every array slot in front of \<open>i\<close> holds.\<close>

definition charged :: "PPCInst list \<Rightarrow> bool list \<Rightarrow> nat \<Rightarrow> u32 \<Rightarrow> bool" where
  "charged insts ls k c \<longleftrightarrow>
     (if ls ! k then \<exists>e. block insts ls k e \<and> c = cycles_between insts k e else c = 0)"

definition counted :: "PPCInst list \<Rightarrow> CFunctionCFG \<Rightarrow> nat \<Rightarrow> CFunctionCFG \<Rightarrow> bool" where
  "counted insts cfg0 i cfg \<longleftrightarrow>
     cfg = cfg0\<lparr>block_cycles := block_cycles cfg\<rparr> \<and> length (block_cycles cfg) = length insts \<and>
     (\<forall>k < i. charged insts (leaders cfg0) k (block_cycles cfg ! k)) \<and>
     (\<forall>k. i \<le> k \<and> k < length insts \<longrightarrow> block_cycles cfg ! k = 0)"

lemma cycles_body_inv:
  assumes d: "dims insts cfg0" and i: "i < length insts" and inv: "counted insts cfg0 i cfg"
  shows "\<exists>cfg'. cycles_body insts i cfg = Some cfg' \<and> counted insts cfg0 (Suc i) cfg'"
proof -
  let ?ls = "leaders cfg0"
  have cfg: "cfg = cfg0\<lparr>block_cycles := block_cycles cfg\<rparr>" "length (block_cycles cfg) = length insts"
    "block_cycles cfg ! i = 0"
    using inv i by (simp_all add: counted_def)
  have ls: "leaders cfg = ?ls" "length ?ls = length insts"
    by (subst cfg(1), simp) (use d in \<open>simp add: dims_def\<close>)
  show ?thesis
  proof (cases "?ls ! i")
    case False
    then have "cycles_body insts i cfg = Some cfg"
      using i ls by (simp add: cycles_body_def arr_get_Some)
    moreover have "counted insts cfg0 (Suc i) cfg"
      using inv False cfg(3) by (auto simp: counted_def charged_def less_Suc_eq)
    ultimately show ?thesis by blast
  next
    case True
    obtain e where e: "block insts ?ls i e" "block_loop insts ?ls i 0 = Some (0 + cycles_between insts i e)"
      using block_loop_block [OF i ls(2)] by blast
    let ?cfg = "cfg\<lparr>block_cycles := (block_cycles cfg)[i := cycles_between insts i e]\<rparr>"
    have "cycles_body insts i cfg = Some ?cfg"
      using i ls True e(2) cfg by (simp add: cycles_body_def arr_get_Some arr_set_Some)
    moreover have "?cfg = cfg0\<lparr>block_cycles := block_cycles ?cfg\<rparr>"
      by (subst cfg(1)) simp
    then have "counted insts cfg0 (Suc i) ?cfg"
      using inv True e(1) i cfg(2)
      unfolding counted_def by (auto simp: charged_def less_Suc_eq nth_list_update)
    ultimately show ?thesis by blast
  qed
qed

text \<open>When every block end is followed by a leader, the blocks of the leaders cover the function.\<close>

lemma blocks_cover:
  assumes len: "length bc = length insts"
    and bc: "\<And>k. k < length insts \<Longrightarrow> charged insts ls k (bc ! k)"
    and lead: "\<And>k. k < length insts \<Longrightarrow> 0 < k \<Longrightarrow> instruction_ends_block (insts ! (k - 1)) \<Longrightarrow> ls ! k"
  shows "i = length insts \<or> i < length insts \<and> ls ! i \<Longrightarrow>
    (\<Sum>k = i..<length insts. bc ! k) = cycles_between insts i (length insts)"
proof (induction "length insts - i" arbitrary: i rule: less_induct)
  case less
  show ?case
  proof (cases "i = length insts")
    case False
    then have i: "i < length insts" "ls ! i"
      using less.prems by simp_all
    obtain e where e: "block insts ls i e" "bc ! i = cycles_between insts i e"
      using bc [OF i(1)] i(2) by (auto simp: charged_def)
    have b: "i < e" "e \<le> length insts"
      using e(1) by (simp_all add: block_def)
    have zero: "bc ! k = 0" if "k \<in> {Suc i..<e}" for k
      using bc [of k] that e(1) b by (auto simp: charged_def block_def)
    have ih: "(\<Sum>k = e..<length insts. bc ! k) = cycles_between insts e (length insts)"
      using e(1) b lead [of e] by (intro less.hyps) (auto simp: block_def)
    have "(\<Sum>k = i..<length insts. bc ! k) = (\<Sum>k = i..<e. bc ! k) + (\<Sum>k = e..<length insts. bc ! k)"
      using b by (simp add: sum.atLeastLessThan_concat)
    also have "(\<Sum>k = i..<e. bc ! k) = bc ! i"
      using b zero by (simp add: sum.atLeast_Suc_lessThan)
    also have "bc ! i + (\<Sum>k = e..<length insts. bc ! k) = cycles_between insts i (length insts)"
      using b by (simp add: e(2) ih cycles_between_def sum.atLeastLessThan_concat)
    finally show ?thesis .
  qed (simp add: cycles_between_def)
qed

section \<open>Direct loops\<close>

text \<open>A branch back that may become a C loop, and one whose body may be emitted as one.\<close>

definition direct_loop :: "PPCInst list \<Rightarrow> u32 \<Rightarrow> nat \<Rightarrow> nat \<Rightarrow> bool" where
  "direct_loop insts fa f l \<longleftrightarrow> l < length insts \<and> branches_to insts fa l f \<and> \<not> inst_lk (insts ! l) \<and>
     inst_branch_target (insts ! l) \<le> inst_address (insts ! l) \<and>
     (\<forall>i. f \<le> i \<and> i \<le> l \<longrightarrow> \<not> reads_time_base (insts ! i))"

definition outlined :: "PPCInst list \<Rightarrow> u32 \<Rightarrow> nat \<Rightarrow> nat \<Rightarrow> bool" where
  "outlined insts fa f l \<longleftrightarrow> direct_loop insts fa f l \<and> f < l \<and>
     (\<forall>i. f \<le> i \<and> i < l \<longrightarrow> \<not> instruction_ends_block (insts ! i)) \<and>
     (\<forall>i. f \<le> i \<and> i \<le> l \<longrightarrow> instruction_is_outlinable (insts ! i))"

lemma can_loop_directly_eq:
  assumes n: "4 * length insts < 2 ^ 32" and d: "cfg_count cfg = of_nat (length insts)" and l: "l < length insts"
  shows "c_function_cfg_can_loop_directly cfg insts fa l = Some (\<exists>f. direct_loop insts fa f l)"
proof -
  let ?b = "insts ! l"
  have c: "c_function_cfg_contains cfg fa a \<longleftrightarrow> (\<exists>k. in_function insts fa a k)" for a
    using contains_iff [OF n d] .
  show ?thesis
  proof (cases "\<exists>f. branches_to insts fa l f \<and> \<not> inst_lk ?b \<and> inst_branch_target ?b \<le> inst_address ?b")
    case True
    then obtain f where f: "branches_to insts fa l f" "\<not> inst_lk ?b" "inst_branch_target ?b \<le> inst_address ?b"
      by blast
    have uniq: "branches_to insts fa l x \<longleftrightarrow> x = f" for x
      using f(1) by (auto simp: branches_to_def in_function_def)
    have t: "target_index fa ?b = f" "\<exists>k. in_function insts fa (inst_branch_target ?b) k"
      using f(1) by (auto simp: branches_to_def target_index_eq)
    have "c_function_cfg_can_loop_directly cfg insts fa l =
        all_insts (\<lambda>inst. \<not> reads_time_base inst) insts f (l + 1)"
      using f t c l by (auto simp: c_function_cfg_can_loop_directly_def branches_to_def arr_get_Some)
    also have "\<dots> = Some (\<forall>i. f \<le> i \<and> i < l + 1 \<longrightarrow> \<not> reads_time_base (insts ! i))"
      using l by (intro all_insts_eq) simp
    also have "\<dots> = Some (\<exists>f. direct_loop insts fa f l)"
      using f l by (simp add: direct_loop_def uniq less_Suc_eq_le)
    finally show ?thesis .
  next
    case False
    then show ?thesis
      using c l by (auto simp: c_function_cfg_can_loop_directly_def branches_to_def arr_get_Some
        direct_loop_def not_less)
  qed
qed

text \<open>The invariant of the third loop.\<close>

definition looped :: "PPCInst list \<Rightarrow> u32 \<Rightarrow> CFunctionCFG \<Rightarrow> nat \<Rightarrow> CFunctionCFG \<Rightarrow> bool" where
  "looped insts fa cfg0 i cfg \<longleftrightarrow>
     cfg = cfg0\<lparr>materialize_pc := materialize_pc cfg, loop_ends := loop_ends cfg\<rparr> \<and> dims insts cfg \<and>
     (\<forall>k < length insts. materialize_pc cfg ! k \<longleftrightarrow>
        \<not> (instruction_is_pc_transparent (insts ! k) \<and>
           (\<exists>l < i. \<exists>f. direct_loop insts fa f l \<and> f \<le> k \<and> k \<le> l))) \<and>
     (\<forall>f < length insts. loop_ends cfg ! f \<noteq> UINT32_MAX \<longrightarrow> outlined insts fa f (unat (loop_ends cfg ! f))) \<and>
     (\<forall>f < length insts. loop_ends cfg ! f = UINT32_MAX \<longrightarrow> \<not> (\<exists>l < i. outlined insts fa f l))"

text \<open>Marking the transparent instructions of a loop.\<close>

lemma mark_loop:
  assumes len: "length m = length insts" and l: "l < length insts"
  shows "\<exists>m'. for_each [f..<l + 1] (\<lambda>i m. do { inst \<leftarrow> arr_get insts i;
            if instruction_is_pc_transparent inst then arr_set m i False else Some m }) m = Some m' \<and>
    length m' = length insts \<and>
    (\<forall>k < length insts. m' ! k \<longleftrightarrow>
       m ! k \<and> \<not> (instruction_is_pc_transparent (insts ! k) \<and> f \<le> k \<and> k \<le> l))"
proof (cases "f \<le> l + 1")
  case True
  define P where "P j m' \<longleftrightarrow> length m' = length insts \<and> (\<forall>k < length insts. m' ! k \<longleftrightarrow>
       m ! k \<and> \<not> (instruction_is_pc_transparent (insts ! k) \<and> f \<le> k \<and> k < j))" for j m'
  have "\<exists>m'. for_each [f..<l + 1] (\<lambda>i m. do { inst \<leftarrow> arr_get insts i;
            if instruction_is_pc_transparent inst then arr_set m i False else Some m }) m = Some m' \<and>
      P (l + 1) m'"
  proof (rule for_each_inv [OF _ True])
    fix i m1 assume i: "f \<le> i" "i < l + 1" and p: "P i m1"
    then have "i < length insts" using l by simp
    then show "\<exists>m'. (do { inst \<leftarrow> arr_get insts i;
        if instruction_is_pc_transparent inst then arr_set m1 i False else Some m1 }) = Some m' \<and> P (Suc i) m'"
      using p i by (auto simp: P_def arr_get_Some arr_set_Some nth_list_update less_Suc_eq)
  qed (auto simp: P_def len)
  then show ?thesis
    by (simp add: P_def less_Suc_eq_le)
next
  case False
  then show ?thesis
    using len by auto
qed


lemma loop_body_inv:
  assumes n: "4 * length insts < 2 ^ 32" and i: "i < length insts" and inv: "looped insts fa cfg0 i cfg"
  shows "\<exists>cfg'. loop_body insts fa i cfg = Some cfg' \<and> looped insts fa cfg0 (Suc i) cfg'"
proof -
  let ?n = "length insts"
  have d: "dims insts cfg" and cfg: "cfg = cfg0\<lparr>materialize_pc := materialize_pc cfg, loop_ends := loop_ends cfg\<rparr>"
    using inv by (simp_all add: looped_def)
  have len: "length (materialize_pc cfg) = ?n" "length (loop_ends cfg) = ?n" "cfg_count cfg = of_nat ?n"
    using d by (simp_all add: dims_def)
  have direct: "c_function_cfg_can_loop_directly cfg insts fa i = Some (\<exists>f. direct_loop insts fa f i)"
    using can_loop_directly_eq [OF n len(3) i] .
  show ?thesis
  proof (cases "\<exists>f. direct_loop insts fa f i")
    case False
    then have "loop_body insts fa i cfg = Some cfg"
      by (simp add: loop_body_def direct)
    moreover have "looped insts fa cfg0 (Suc i) cfg"
      using inv False by (auto simp: looped_def less_Suc_eq outlined_def)
    ultimately show ?thesis by blast
  next
    case True
    then obtain f where f: "direct_loop insts fa f i" by blast
    then have t: "target_index fa (insts ! i) = f" "f < ?n"
      by (auto simp: direct_loop_def branches_to_def target_index_eq in_function_def)
    have uniq: "direct_loop insts fa x i \<longleftrightarrow> x = f" for x
      using f by (auto simp: direct_loop_def branches_to_def in_function_def)
    obtain m where m: "for_each [f..<i + 1] (\<lambda>i m. do { inst \<leftarrow> arr_get insts i;
            if instruction_is_pc_transparent inst then arr_set m i False else Some m }) (materialize_pc cfg) = Some m"
      "length m = ?n" "\<And>k. k < ?n \<Longrightarrow> m ! k \<longleftrightarrow> materialize_pc cfg ! k \<and>
         \<not> (instruction_is_pc_transparent (insts ! k) \<and> f \<le> k \<and> k \<le> i)"
      using mark_loop [OF len(1) i, of f] by blast
    let ?cfg1 = "cfg\<lparr>materialize_pc := m\<rparr>"
    let ?cfg2 = "if outlined insts fa f i
      then ?cfg1\<lparr>loop_ends := (loop_ends cfg)[f := of_nat i]\<rparr> else ?cfg1"
    have "outlined insts fa f i \<longleftrightarrow> (\<forall>k. f \<le> k \<and> k < i \<longrightarrow> \<not> instruction_ends_block (insts ! k)) \<and>
        (\<forall>k. f \<le> k \<and> k < i + 1 \<longrightarrow> instruction_is_outlinable (insts ! k)) \<and> f < i"
      using f by (auto simp: outlined_def less_Suc_eq_le)
    then have body: "loop_body insts fa i cfg = Some ?cfg2"
      using i True m(1) t len by (auto simp: loop_body_def direct arr_get_Some arr_set_Some all_insts_eq Let_def
        del: upt_Suc)
    have idx: "unat (of_nat i :: u32) = i" "(of_nat i :: u32) \<noteq> UINT32_MAX"
    proof -
      show u: "unat (of_nat i :: u32) = i"
        using i n by (simp add: unat_of_nat take_bit_nat_eq_self)
      show "(of_nat i :: u32) \<noteq> UINT32_MAX"
        using u i n by (auto simp: UINT32_MAX_def)
    qed
    have "looped insts fa cfg0 (Suc i) ?cfg2"
      unfolding looped_def
    proof (intro conjI)
      show "?cfg2 = cfg0\<lparr>materialize_pc := materialize_pc ?cfg2, loop_ends := loop_ends ?cfg2\<rparr>"
        by (subst (1 2) cfg) simp
      show "dims insts ?cfg2"
        using d m(2) by (simp add: dims_def)
      show "\<forall>k < ?n. materialize_pc ?cfg2 ! k \<longleftrightarrow> \<not> (instruction_is_pc_transparent (insts ! k) \<and>
           (\<exists>l < Suc i. \<exists>f. direct_loop insts fa f l \<and> f \<le> k \<and> k \<le> l))"
        using inv m(3) by (auto simp: looped_def less_Suc_eq uniq)
      show "\<forall>x < ?n. loop_ends ?cfg2 ! x \<noteq> UINT32_MAX \<longrightarrow> outlined insts fa x (unat (loop_ends ?cfg2 ! x))"
        using inv len(2) t(2) idx by (auto simp: looped_def nth_list_update)
      show "\<forall>x < ?n. loop_ends ?cfg2 ! x = UINT32_MAX \<longrightarrow> \<not> (\<exists>l < Suc i. outlined insts fa x l)"
        using inv len(2) t(2) idx uniq by (auto simp: looped_def nth_list_update less_Suc_eq outlined_def)
    qed
    then show ?thesis
      using body by blast
  qed
qed

section \<open>The graph that is built\<close>

definition cfg_correct :: "PPCInst list \<Rightarrow> u32 \<Rightarrow> CFunctionCFG \<Rightarrow> bool" where
  "cfg_correct insts fa cfg \<longleftrightarrow> dims insts cfg \<and>
     (\<forall>k < length insts. leaders cfg ! k \<longleftrightarrow> k = 0 \<or> (\<exists>j < length insts. leads insts fa j k)) \<and>
     (\<forall>k < length insts. return_targets cfg ! k \<longleftrightarrow> (\<exists>j < length insts. returns_to insts j k)) \<and>
     (\<forall>k < length insts. charged insts (leaders cfg) k (block_cycles cfg ! k)) \<and>
     (\<forall>k < length insts. materialize_pc cfg ! k \<longleftrightarrow>
        \<not> (instruction_is_pc_transparent (insts ! k) \<and>
           (\<exists>l < length insts. \<exists>f. direct_loop insts fa f l \<and> f \<le> k \<and> k \<le> l))) \<and>
     (\<forall>f < length insts. loop_ends cfg ! f \<noteq> UINT32_MAX \<longrightarrow> outlined insts fa f (unat (loop_ends cfg ! f))) \<and>
     (\<forall>f < length insts. loop_ends cfg ! f = UINT32_MAX \<longrightarrow> \<not> (\<exists>l < length insts. outlined insts fa f l))"

lemma c_function_cfg_build_correct:
  assumes n: "4 * length insts < 2 ^ 32" and ne: "insts \<noteq> []"
  shows "\<exists>cfg. c_function_cfg_build True insts fa = Some (True, cfg) \<and> cfg_correct insts fa cfg"
proof -
  let ?n = "length insts"
  let ?c0 = "\<lparr>cfg_count = of_nat ?n, leaders = (replicate ?n False)[0 := True], block_cycles = replicate ?n 0,
      materialize_pc = replicate ?n True, return_targets = replicate ?n False,
      loop_ends = replicate ?n UINT32_MAX\<rparr>"
  have c0: "scanned insts fa ?c0 0 ?c0"
    using ne by (auto simp: scanned_def dims_def nth_list_update)
  obtain c1 where c1: "for_each [0..<?n] (scan_body insts fa) ?c0 = Some c1" "scanned insts fa ?c0 ?n c1"
    using for_each_inv [of "scanned insts fa ?c0" 0 ?c0 ?n "scan_body insts fa"] c0 scan_body_inv [OF n] by blast
  have d1: "dims insts c1" "block_cycles c1 = replicate ?n 0" "materialize_pc c1 = replicate ?n True"
    "loop_ends c1 = replicate ?n UINT32_MAX"
    using c1(2) by (simp_all add: scanned_def)
  have s1: "counted insts c1 0 c1"
    using d1 by (simp add: counted_def dims_def)
  obtain c2 where c2: "for_each [0..<?n] (cycles_body insts) c1 = Some c2" "counted insts c1 ?n c2"
    using for_each_inv [of "counted insts c1" 0 c1 ?n "cycles_body insts"] s1 cycles_body_inv [OF d1(1)] by blast
  have e2: "c2 = c1\<lparr>block_cycles := block_cycles c2\<rparr>"
    using c2(2) by (simp add: counted_def)
  have l2: "leaders c2 = leaders c1" "return_targets c2 = return_targets c1"
    "materialize_pc c2 = replicate ?n True" "loop_ends c2 = replicate ?n UINT32_MAX" "cfg_count c2 = cfg_count c1"
    by (subst e2, simp add: d1)+
  have d2: "dims insts c2"
    using d1(1) c2(2) by (simp add: dims_def l2 counted_def)
  have s2: "looped insts fa c2 0 c2"
    using d2 by (auto simp: looped_def l2(3,4))
  obtain c3 where c3: "for_each [0..<?n] (loop_body insts fa) c2 = Some c3" "looped insts fa c2 ?n c3"
    using for_each_inv [of "looped insts fa c2" 0 c2 ?n "loop_body insts fa"] s2 loop_body_inv [OF n] by blast
  have e3: "c3 = c2\<lparr>materialize_pc := materialize_pc c3, loop_ends := loop_ends c3\<rparr>"
    using c3(2) by (simp add: looped_def)
  have l3: "leaders c3 = leaders c1" "return_targets c3 = return_targets c1" "block_cycles c3 = block_cycles c2"
    by (subst e3, simp add: l2)+
  have "c_function_cfg_build True insts fa = Some (True, c3)"
    using ne c1(1) c2(1) c3(1) by (simp add: c_function_cfg_build_def Let_def arr_set_Some)
  moreover have "cfg_correct insts fa c3"
    using c1(2) c2(2) c3(2) by (simp add: cfg_correct_def l3 scanned_def counted_def looped_def)
  ultimately show ?thesis by blast
qed

section \<open>Properties\<close>

text \<open>C35 For every function below 4 GB the builder stays inside its arrays and computes
  exactly: the leaders are the first instruction, the instructions behind a block end and the targets
  of the function's own branches; the return targets are the instructions behind a call; every leader
  is charged the cycles of its block and no other instruction is charged; the program counter need
  not be stored at exactly the transparent instructions of direct loops; and a loop is outlined
  exactly when one of its closing branches meets the conditions.\<close>

theorem cfg_build_exact:
  assumes "4 * length insts < 2 ^ 32" "insts \<noteq> []"
  shows "\<exists>cfg. c_function_cfg_build True insts fa = Some (True, cfg) \<and> cfg_correct insts fa cfg"
  using assms by (rule c_function_cfg_build_correct)

text \<open>\<open>addi r3,r3,1\<close> and a conditional branch back to it.\<close>

definition tiny_loop :: "PPCInst list" where
  "tiny_loop = [zero_inst\<lparr>inst_op := PPC_OP_ADDI, inst_address := 0x80003100, inst_rD := 3, inst_rA := 3, inst_simm := 1\<rparr>,
     zero_inst\<lparr>inst_op := PPC_OP_BC, inst_address := 0x80003104, inst_bo := 16, inst_branch_target := 0x80003100\<rparr>]"

theorem cfg_build_exact_witness:
  "\<exists>cfg. c_function_cfg_build True tiny_loop 0x80003100 = Some (True, cfg) \<and> leaders cfg ! 0"
proof -
  have "4 * length tiny_loop < 2 ^ 32" "tiny_loop \<noteq> []"
    by (simp_all add: tiny_loop_def)
  from cfg_build_exact [OF this, of "0x80003100"] show ?thesis
    by (auto simp: cfg_correct_def tiny_loop_def)
qed

text \<open>C36 In a function without embedded data no cycle is lost or charged twice: the
  cycles charged at the leaders add up to those of all instructions.\<close>

theorem cfg_cycles_conserved:
  assumes "4 * length insts < 2 ^ 32" "insts \<noteq> []" "list_all (\<lambda>inst. \<not> inst_embedded_data inst) insts"
  shows "\<exists>cfg. c_function_cfg_build True insts fa = Some (True, cfg) \<and>
    sum_list (block_cycles cfg) = sum_list (map instruction_cycles insts)"
proof -
  obtain cfg where cfg: "c_function_cfg_build True insts fa = Some (True, cfg)" "cfg_correct insts fa cfg"
    using c_function_cfg_build_correct [OF assms(1,2)] by blast
  have "leaders cfg ! k" if "k < length insts" "0 < k" "instruction_ends_block (insts ! (k - 1))" for k
  proof -
    have "leads insts fa (k - 1) k"
      using that assms(3) by (auto simp: leads_def list_all_length)
    then show ?thesis
      using cfg(2) that by (auto simp: cfg_correct_def intro!: exI [of _ "k - 1"])
  qed
  then have "(\<Sum>k = 0..<length insts. block_cycles cfg ! k) = cycles_between insts 0 (length insts)"
    using cfg(2) assms(2) by (intro blocks_cover [where ls = "leaders cfg"]) (auto simp: cfg_correct_def dims_def)
  moreover have "length (block_cycles cfg) = length insts"
    using cfg(2) by (simp add: cfg_correct_def dims_def)
  ultimately have "sum_list (block_cycles cfg) = sum_list (map instruction_cycles insts)"
    by (simp add: sum_list_sum_nth cycles_between_def)
  then show ?thesis
    using cfg(1) by blast
qed

theorem cfg_cycles_conserved_witness:
  "\<exists>cfg. c_function_cfg_build True tiny_loop 0x80003100 = Some (True, cfg) \<and> sum_list (block_cycles cfg) = 2"
proof -
  have "4 * length tiny_loop < 2 ^ 32" "tiny_loop \<noteq> []" "list_all (\<lambda>inst. \<not> inst_embedded_data inst) tiny_loop"
    by (simp_all add: tiny_loop_def zero_inst_def)
  moreover have "sum_list (map instruction_cycles tiny_loop) = 2"
    by code_simp
  ultimately show ?thesis
    using cfg_cycles_conserved [of tiny_loop "0x80003100"] by simp
qed

text \<open>The addresses the graph takes for the function's own are those of its
  instructions, and none when the function reaches up to the end of the address space.\<close>

theorem cfg_contains_exact:
  fixes insts :: "PPCInst list"
  assumes "4 * length insts < 2 ^ 32" "cfg_count cfg = of_nat (length insts)"
  shows "c_function_cfg_contains cfg fa a \<longleftrightarrow>
    unat fa + 4 * length insts < 2 ^ 32 \<and> (\<exists>k < length insts. unat a = unat fa + 4 * k)"
  using contains_iff [OF assms] by (auto simp: in_function_def)

theorem cfg_contains_exact_witness:
  "c_function_cfg_contains \<lparr>cfg_count = 2, leaders = [], block_cycles = [], materialize_pc = [],
     return_targets = [], loop_ends = []\<rparr> 0x80003100 0x80003104"
  using cfg_contains_exact [of tiny_loop "\<lparr>cfg_count = 2, leaders = [], block_cycles = [], materialize_pc = [],
     return_targets = [], loop_ends = []\<rparr>" "0x80003100" "0x80003104"]
  by (auto simp: tiny_loop_def intro!: exI [of _ 1])

text \<open>A loop of three instructions whose second one is the target of a later branch.\<close>

definition entered_loop :: "PPCInst list" where
  "entered_loop = [
     zero_inst\<lparr>inst_op := PPC_OP_ADDI, inst_address := 0x80003100, inst_rD := 3, inst_rA := 3, inst_simm := 1\<rparr>,
     zero_inst\<lparr>inst_op := PPC_OP_ADDI, inst_address := 0x80003104, inst_rD := 4, inst_rA := 4, inst_simm := 1\<rparr>,
     zero_inst\<lparr>inst_op := PPC_OP_BC, inst_address := 0x80003108, inst_bo := 16, inst_branch_target := 0x80003100\<rparr>,
     zero_inst\<lparr>inst_op := PPC_OP_B, inst_address := 0x8000310C, inst_branch_target := 0x80003104\<rparr>]"


end
