(* ===== verification/Rpx.thy ===== *)
theory Rpx
  imports Dol
begin

text \<open>
  \<open>src/frontend/container/rpx.c\<close>: the Wii U executable loader.  The file buffer, the section names and
  the data of a section are byte lists; a null pointer is \<open>None\<close>.  zlib is a parameter: the function
  \<open>uncompress\<close>, or none in a build without it.  Allocation 0 is the file buffer, 1 the section headers,
  2 the section names, \<open>3 + i\<close> the data of section \<open>i\<close>.
\<close>

section \<open>Data\<close>

text \<open>\<open>measurable\<close>: \<open>fseek\<close> and \<open>ftell\<close> succeed.  \<open>uncompress\<close> takes the source and the capacity and
  returns the bytes written when its status is \<open>Z_OK\<close>.\<close>

record rpx_env = file_env +
  measurable :: bool
  uncompress :: "(u8 list \<Rightarrow> nat \<Rightarrow> u8 list option) option"

record RPXSectionHeader =
  sh_name_offset :: u32
  sh_type :: u32
  sh_flags :: u32
  sh_address :: u32
  sh_offset :: u32
  sh_size :: u32
  sh_link :: u32
  sh_info :: u32
  sh_alignment :: u32
  sh_entry_size :: u32

record RPXCodeSection =
  code_name :: "u8 list"
  code_offset :: u32
  code_address :: u32
  code_size :: u32
  code_flags :: u32
  code_compressed :: bool
  code_data :: "u8 list option"
  code_owned :: bool \<comment> \<open>\<open>owned_data\<close> is not null\<close>

record RPXFile =
  rpx_file_data :: "u8 list"
  rpx_file_size :: u32
  rpx_entry_point :: u32
  rpx_section_count :: u16
  rpx_code_sections :: "RPXCodeSection list" \<comment> \<open>the first \<open>code_section_count\<close> of them\<close>

datatype rpx_error =
    Rpx_cannot_open | Rpx_cannot_measure | Rpx_too_small | Rpx_no_memory | Rpx_read_failed
  | Rpx_not_elf | Rpx_not_rpl | Rpx_entry_misaligned | Rpx_section_table | Rpx_table_outside
  | Rpx_section_outside "u8 list option" | Rpx_no_size_word "u8 list option"
  | Rpx_decompress "u8 list option" | Rpx_no_zlib "u8 list option"
  | Rpx_index_outside nat | Rpx_too_many | Rpx_size_misaligned "u8 list option"
  | Rpx_no_code | Rpx_entry_outside

definition ELF_HEADER_SIZE :: nat where "ELF_HEADER_SIZE = 52"
definition ELF_SECTION_SIZE :: u16 where "ELF_SECTION_SIZE = 40"
definition ELF_TYPE_RPL :: u16 where "ELF_TYPE_RPL = 0xfe01"
definition ELF_MACHINE_PPC :: u16 where "ELF_MACHINE_PPC = 20"
definition SHF_EXECINSTR :: u32 where "SHF_EXECINSTR = 0x00000004"
definition SHF_RPL_ZLIB :: u32 where "SHF_RPL_ZLIB = 0x08000000"
definition SHT_PROGBITS :: u32 where "SHT_PROGBITS = 1"
definition SHT_NOBITS :: u32 where "SHT_NOBITS = 8"
definition RPX_MAX_CODE_SECTIONS :: nat where "RPX_MAX_CODE_SECTIONS = 64"

lemmas rpx_consts = ELF_HEADER_SIZE_def ELF_SECTION_SIZE_def RPX_MAX_CODE_SECTIONS_def

section \<open>Names\<close>

text \<open>The C string at an offset of the names; its end is searched below \<open>names_size\<close>.\<close>

fun name_end :: "u8 list option \<Rightarrow> nat \<Rightarrow> nat \<Rightarrow> (rpx_error, bool) outcome" where
  "name_end names i 0 = Ok False"
| "name_end names i (Suc n) =
     bind_out (access (case names of None \<Rightarrow> None | Some ns \<Rightarrow> arr_get ns i)) (\<lambda>b.
     if b = 0 then Ok True else name_end names (i + 1) n)"

definition section_name_at :: "u8 list option \<Rightarrow> u32 \<Rightarrow> u32 \<Rightarrow> (rpx_error, u8 list option) outcome" where
  "section_name_at names names_size offset =
     (if offset \<ge> names_size then Ok None
      else bind_out (name_end names (unat offset) (unat names_size - unat offset)) (\<lambda>found.
        if found then Ok (Some (takeWhile (\<lambda>b. b \<noteq> 0) (drop (unat offset) (the names)))) else Ok None))"

text \<open>``<anonymous>''\<close>

definition anonymous :: "u8 list" where
  "anonymous = [0x3c, 0x61, 0x6e, 0x6f, 0x6e, 0x79, 0x6d, 0x6f, 0x75, 0x73, 0x3e]"

definition copy_section_name :: "nat \<Rightarrow> u8 list option \<Rightarrow> u8 list" where
  "copy_section_name out_size name =
     take (out_size - 1) (case name of None \<Rightarrow> anonymous | Some n \<Rightarrow> if n = [] then anonymous else n)"

section \<open>Section data\<close>

definition slice :: "u8 list \<Rightarrow> nat \<Rightarrow> nat \<Rightarrow> u8 list option" where
  "slice bytes offset n = (if offset + n \<le> length bytes then Some (take n (drop offset bytes)) else None)"

text \<open>The part of \<open>decode_section_bytes\<close> under \<open>DOLRECOMP_HAVE_ZLIB\<close>.\<close>

definition decompress :: "rpx_env \<Rightarrow> u8 list \<Rightarrow> u32 \<Rightarrow> u8 list option \<Rightarrow> (rpx_error, u8 list) outcome" where
  "decompress env src decoded_size name =
     (case uncompress env of
        None \<Rightarrow> Err (Rpx_no_zlib name)
      | Some f \<Rightarrow>
          (case f src (unat decoded_size) of
             None \<Rightarrow> Err (Rpx_decompress name)
           | Some d \<Rightarrow> if length d \<noteq> unat decoded_size then Err (Rpx_decompress name) else Ok d))"

lemma decompress_not_UB [simp]: "decompress env src n name \<noteq> UB"
  by (simp add: decompress_def split: option.split)

lemma decompress_Ok: "decompress env src n name = Ok d \<Longrightarrow> length d = unat n"
  by (simp add: decompress_def split: option.splits if_splits)

text \<open>The data pointer, the size and whether the data is owned.\<close>

definition decode_section_bytes ::
    "rpx_env \<Rightarrow> nat \<Rightarrow> RPXFile \<Rightarrow> RPXSectionHeader \<Rightarrow> u8 list option \<Rightarrow>
     (rpx_error, u8 list option \<times> u32 \<times> bool) outcome" where
  "decode_section_bytes env k rpx s name =
     (if sh_type s = SHT_NOBITS then Ok (None, sh_size s, False)
      else
        bind_out (check (range_fits (sh_offset s) (sh_size s) (rpx_file_size rpx)) (Rpx_section_outside name)) (\<lambda>_.
        if sh_flags s AND SHF_RPL_ZLIB = 0 then
          bind_out (access (slice (rpx_file_data rpx) (unat (sh_offset s)) (unat (sh_size s)))) (\<lambda>d.
          Ok (Some d, sh_size s, False))
        else
          bind_out (check (\<not> sh_size s < 4) (Rpx_no_size_word name)) (\<lambda>_.
          bind_out (access (read_be32 (rpx_file_data rpx) (unat (sh_offset s)))) (\<lambda>decoded_size.
          bind_out (check (can_alloc env k) Rpx_no_memory) (\<lambda>_.
          bind_out (access (slice (rpx_file_data rpx) (unat (sh_offset s) + 4) (unat (sh_size s) - 4))) (\<lambda>src.
          bind_out (decompress env src decoded_size name) (\<lambda>d.
          Ok (Some d, decoded_size, True))))))))"

text \<open>The product is a 32-bit one; pointers are not bounded.\<close>

definition read_section_header :: "u8 list \<Rightarrow> u32 \<Rightarrow> u16 \<Rightarrow> u16 \<Rightarrow> RPXSectionHeader option" where
  "read_section_header bytes table_offset entry_size index = do {
     let header = unat table_offset + unat (ucast index * ucast entry_size :: u32);
     name_offset \<leftarrow> read_be32 bytes (header + 0);
     type \<leftarrow> read_be32 bytes (header + 4);
     flags \<leftarrow> read_be32 bytes (header + 8);
     addr \<leftarrow> read_be32 bytes (header + 12);
     offset \<leftarrow> read_be32 bytes (header + 16);
     sz \<leftarrow> read_be32 bytes (header + 20);
     link \<leftarrow> read_be32 bytes (header + 24);
     info \<leftarrow> read_be32 bytes (header + 28);
     alignment \<leftarrow> read_be32 bytes (header + 32);
     entry \<leftarrow> read_be32 bytes (header + 36);
     Some \<lparr>sh_name_offset = name_offset, sh_type = type, sh_flags = flags, sh_address = addr,
       sh_offset = offset, sh_size = sz, sh_link = link, sh_info = info, sh_alignment = alignment,
       sh_entry_size = entry\<rparr>
   }"

section \<open>Loading\<close>

text \<open>The file up to the section headers: opening, reading, and the checks of the ELF header.\<close>

definition read_elf :: "rpx_env \<Rightarrow> (rpx_error, RPXFile) outcome" where
  "read_elf env =
     bind_out (check (openable env) Rpx_cannot_open) (\<lambda>_.
     bind_out (check (measurable env) Rpx_cannot_measure) (\<lambda>_.
     let sz = length (contents env) in
     bind_out (check (ELF_HEADER_SIZE \<le> sz) Rpx_too_small) (\<lambda>_.
     bind_out (check (can_alloc env 0) Rpx_no_memory) (\<lambda>_.
     bind_out (check (read_all env) Rpx_read_failed) (\<lambda>_.
     let h = contents env in
     bind_out (access (slice h 0 7)) (\<lambda>ident.
     bind_out (check (ident = [0x7f, 0x45, 0x4c, 0x46, 1, 2, 1]) Rpx_not_elf) (\<lambda>_.
     bind_out (access (read_be16 h 16)) (\<lambda>type.
     bind_out (access (read_be16 h 18)) (\<lambda>machine.
     bind_out (check (type = ELF_TYPE_RPL \<and> machine = ELF_MACHINE_PPC) Rpx_not_rpl) (\<lambda>_.
     bind_out (access (read_be32 h 24)) (\<lambda>entry.
     bind_out (check (entry AND 3 = 0) Rpx_entry_misaligned) (\<lambda>_.
     bind_out (access (read_be16 h 48)) (\<lambda>count.
     Ok \<lparr>rpx_file_data = h, rpx_file_size = of_nat sz, rpx_entry_point = entry,
       rpx_section_count = count, rpx_code_sections = []\<rparr>)))))))))))))"

text \<open>The section headers and the index of the names section.\<close>

definition read_headers :: "rpx_env \<Rightarrow> RPXFile \<Rightarrow> (rpx_error, RPXSectionHeader list \<times> u16) outcome" where
  "read_headers env rpx =
     (let h = rpx_file_data rpx in
     bind_out (access (read_be32 h 32)) (\<lambda>section_offset.
     bind_out (access (read_be16 h 46)) (\<lambda>entry_size.
     bind_out (access (read_be16 h 50)) (\<lambda>names_index.
     bind_out (check (entry_size = ELF_SECTION_SIZE \<and> names_index < rpx_section_count rpx) Rpx_section_table) (\<lambda>_.
     let table_size = ucast entry_size * ucast (rpx_section_count rpx) :: u32 in
     bind_out (check (range_fits section_offset table_size (rpx_file_size rpx)) Rpx_table_outside) (\<lambda>_.
     bind_out (check (can_alloc env 1) Rpx_no_memory) (\<lambda>_.
     bind_out (access (those (map (\<lambda>i. read_section_header h section_offset entry_size (of_nat i))
         [0..<unat (rpx_section_count rpx)]))) (\<lambda>sections.
     Ok (sections, names_index)))))))))"

text \<open>One section of the loop.\<close>

definition load_rpx_section ::
    "rpx_env \<Rightarrow> u8 list option \<Rightarrow> u32 \<Rightarrow> nat \<Rightarrow> RPXSectionHeader \<Rightarrow> RPXFile \<Rightarrow> (rpx_error, RPXFile) outcome" where
  "load_rpx_section env names names_size i s rpx =
     bind_out (section_name_at names names_size (sh_name_offset s)) (\<lambda>name.
     bind_out (check (\<not> (sh_type s \<noteq> SHT_NOBITS \<and> sh_size s \<noteq> 0 \<and>
        \<not> range_fits (sh_offset s) (sh_size s) (rpx_file_size rpx))) (Rpx_index_outside i)) (\<lambda>_.
     if sh_type s = SHT_PROGBITS \<and> sh_flags s AND SHF_EXECINSTR \<noteq> 0 \<and> sh_size s \<noteq> 0 then
       bind_out (check (length (rpx_code_sections rpx) < RPX_MAX_CODE_SECTIONS) Rpx_too_many) (\<lambda>_.
       bind_out (decode_section_bytes env (3 + i) rpx s name) (\<lambda>(data, decoded_size, owned).
       bind_out (check (decoded_size AND 3 = 0) (Rpx_size_misaligned name)) (\<lambda>_.
       Ok (rpx\<lparr>rpx_code_sections := rpx_code_sections rpx @
         [\<lparr>code_name = copy_section_name 64 name, code_offset = sh_offset s, code_address = sh_address s,
           code_size = decoded_size, code_flags = sh_flags s, code_compressed = (sh_flags s AND SHF_RPL_ZLIB \<noteq> 0),
           code_data = data, code_owned = owned\<rparr>]\<rparr>))))
     else Ok rpx))"

fun load_rpx_sections ::
    "rpx_env \<Rightarrow> u8 list option \<Rightarrow> u32 \<Rightarrow> nat \<Rightarrow> RPXSectionHeader list \<Rightarrow> RPXFile \<Rightarrow> (rpx_error, RPXFile) outcome" where
  "load_rpx_sections env names names_size i [] rpx = Ok rpx"
| "load_rpx_sections env names names_size i (s # ss) rpx =
     bind_out (load_rpx_section env names names_size i s rpx) (load_rpx_sections env names names_size (i + 1) ss)"

definition entry_in_code :: "RPXFile \<Rightarrow> bool" where
  "entry_in_code rpx \<longleftrightarrow>
     list_ex (\<lambda>s. address_in_range (rpx_entry_point rpx) (code_address s) (code_size s)) (rpx_code_sections rpx)"

text \<open>``<section-names>''\<close>

definition section_names_label :: "u8 list" where
  "section_names_label = [0x3c, 0x73, 0x65, 0x63, 0x74, 0x69, 0x6f, 0x6e, 0x2d, 0x6e, 0x61, 0x6d, 0x65, 0x73, 0x3e]"

definition rpx_load :: "rpx_env \<Rightarrow> (rpx_error, RPXFile) outcome" where
  "rpx_load env =
     bind_out (read_elf env) (\<lambda>rpx.
     bind_out (read_headers env rpx) (\<lambda>(sections, names_index).
     bind_out (access (arr_get sections (unat names_index))) (\<lambda>names_section.
     bind_out (decode_section_bytes env 2 rpx names_section (Some section_names_label)) (\<lambda>(names, names_size, owned).
     bind_out (load_rpx_sections env names names_size 0 sections rpx) (\<lambda>rpx.
     bind_out (check (rpx_code_sections rpx \<noteq> []) Rpx_no_code) (\<lambda>_.
     bind_out (check (entry_in_code rpx) Rpx_entry_outside) (\<lambda>_.
     Ok rpx)))))))"

section \<open>Safety of the parts\<close>

text \<open>Names that are there are as long as their size.\<close>

definition names_ok :: "u8 list option \<Rightarrow> u32 \<Rightarrow> bool" where
  "names_ok names sz \<longleftrightarrow> (\<exists>ns. names = Some ns \<and> length ns = unat sz)"

lemma name_end_not_UB: "i + n \<le> length ns \<Longrightarrow> name_end (Some ns) i n \<noteq> UB"
  by (induction n arbitrary: i) (simp_all add: outcome_simps arr_get_def)

lemma section_name_at_not_UB: "names_ok names sz \<Longrightarrow> section_name_at names sz offset \<noteq> UB"
  by (auto simp: section_name_at_def names_ok_def outcome_simps name_end_not_UB word_le_nat_alt word_less_nat_alt)

text \<open>The file buffer has at least the recorded size.\<close>

definition file_ok :: "RPXFile \<Rightarrow> bool" where
  "file_ok rpx \<longleftrightarrow> unat (rpx_file_size rpx) \<le> length (rpx_file_data rpx)"

lemma decode_section_bytes_not_UB:
  assumes "file_ok rpx"
  shows "decode_section_bytes env k rpx s name \<noteq> UB"
proof -
  let ?o = "unat (sh_offset s)" and ?n = "unat (sh_size s)"
  have fits: "?o + ?n \<le> length (rpx_file_data rpx)" if "range_fits (sh_offset s) (sh_size s) (rpx_file_size rpx)"
    using that assms by (simp add: range_fits_iff file_ok_def)
  have four: "4 \<le> ?n" if "\<not> sh_size s < 4"
    using that by (simp add: word_less_nat_alt not_less)
  have "slice (rpx_file_data rpx) ?o ?n \<noteq> None"
    "\<not> sh_size s < 4 \<longrightarrow> read_be32 (rpx_file_data rpx) ?o \<noteq> None \<and> slice (rpx_file_data rpx) (?o + 4) (?n - 4) \<noteq> None"
    if "range_fits (sh_offset s) (sh_size s) (rpx_file_size rpx)"
    using fits [OF that] four by (fastforce simp: slice_def read_be32_eq)+
  then show ?thesis
    by (auto simp: decode_section_bytes_def outcome_simps)
qed

text \<open>What a section decodes to.\<close>

definition section_data_ok :: "RPXFile \<Rightarrow> RPXSectionHeader \<Rightarrow> u8 list option \<times> u32 \<times> bool \<Rightarrow> bool" where
  "section_data_ok rpx s r = (case r of (d, n, owned) \<Rightarrow>
     if sh_type s = SHT_NOBITS then d = None
     else names_ok d n \<and> (sh_flags s AND SHF_RPL_ZLIB = 0 \<longrightarrow>
       n = sh_size s \<and> d = slice (rpx_file_data rpx) (unat (sh_offset s)) (unat (sh_size s))))"

lemma decode_section_bytes_Ok:
  assumes "decode_section_bytes env k rpx s name = Ok r"
  shows "section_data_ok rpx s r"
  using assms
  by (auto simp: decode_section_bytes_def section_data_ok_def outcome_simps names_ok_def slice_def
    split: if_splits dest: decompress_Ok)

text \<open>A code section of the loaded file.\<close>

definition code_ok :: "RPXFile \<Rightarrow> RPXCodeSection \<Rightarrow> bool" where
  "code_ok rpx s \<longleftrightarrow> code_size s AND 3 = 0 \<and> names_ok (code_data s) (code_size s) \<and> length (code_name s) < 64 \<and>
     (\<not> code_compressed s \<longrightarrow>
        code_data s = slice (rpx_file_data rpx) (unat (code_offset s)) (unat (code_size s)))"

lemma copy_section_name_length: "0 < n \<Longrightarrow> length (copy_section_name n name) < n"
  by (simp add: copy_section_name_def)

lemma load_rpx_section_not_UB:
  "file_ok rpx \<Longrightarrow> names_ok names sz \<Longrightarrow> load_rpx_section env names sz i s rpx \<noteq> UB"
  by (auto simp: load_rpx_section_def outcome_simps section_name_at_not_UB decode_section_bytes_not_UB)

lemma load_rpx_section_Ok:
  assumes "load_rpx_section env names sz i s rpx = Ok rpx'"
  obtains cs where "rpx' = rpx\<lparr>rpx_code_sections := rpx_code_sections rpx @ cs\<rparr>" "list_all (code_ok rpx) cs"
    "length (rpx_code_sections rpx) \<le> 64 \<Longrightarrow> length (rpx_code_sections rpx') \<le> 64"
proof (cases "sh_type s = SHT_PROGBITS \<and> sh_flags s AND SHF_EXECINSTR \<noteq> 0 \<and> sh_size s \<noteq> 0")
  case True
  then obtain name data n owned where d: "decode_section_bytes env (3 + i) rpx s name = Ok (data, n, owned)"
    "n AND 3 = 0" "length (rpx_code_sections rpx) < 64"
    "rpx' = rpx\<lparr>rpx_code_sections := rpx_code_sections rpx @
         [\<lparr>code_name = copy_section_name 64 name, code_offset = sh_offset s, code_address = sh_address s,
           code_size = n, code_flags = sh_flags s, code_compressed = (sh_flags s AND SHF_RPL_ZLIB \<noteq> 0),
           code_data = data, code_owned = owned\<rparr>]\<rparr>"
    using assms by (auto simp: load_rpx_section_def outcome_simps RPX_MAX_CODE_SECTIONS_def)
  have "section_data_ok rpx s (data, n, owned)"
    using d(1) by (rule decode_section_bytes_Ok)
  moreover have "sh_type s \<noteq> SHT_NOBITS"
    using True by (simp add: SHT_PROGBITS_def SHT_NOBITS_def)
  ultimately show thesis
    using d by (intro that [OF d(4)]) (auto simp: section_data_ok_def code_ok_def copy_section_name_length)
next
  case False
  with assms have "rpx' = rpx" by (auto simp: load_rpx_section_def outcome_simps split: if_splits)
  with that [of "[]"] show thesis by simp
qed

lemma load_rpx_sections_not_UB:
  "file_ok rpx \<Longrightarrow> names_ok names sz \<Longrightarrow> load_rpx_sections env names sz i ss rpx \<noteq> UB"
proof (induction ss arbitrary: i rpx)
  case (Cons s ss)
  have "file_ok rpx'" if "load_rpx_section env names sz i s rpx = Ok rpx'" for rpx'
    using that Cons.prems(1) by (elim load_rpx_section_Ok) (simp add: file_ok_def)
  with Cons show ?case
    by (auto simp: outcome_simps load_rpx_section_not_UB)
qed simp

lemma load_rpx_sections_Ok:
  assumes "load_rpx_sections env names sz i ss rpx = Ok rpx'" "length (rpx_code_sections rpx) \<le> 64"
  shows "\<exists>cs. rpx' = rpx\<lparr>rpx_code_sections := rpx_code_sections rpx @ cs\<rparr> \<and> list_all (code_ok rpx) cs \<and>
    length (rpx_code_sections rpx') \<le> 64"
  using assms
proof (induction ss arbitrary: i rpx)
  case Nil
  then show ?case by (auto intro: exI [of _ "[]"])
next
  case (Cons s ss)
  then obtain rpx1 where 1: "load_rpx_section env names sz i s rpx = Ok rpx1"
    "load_rpx_sections env names sz (i + 1) ss rpx1 = Ok rpx'"
    by (auto simp: outcome_simps)
  then obtain cs where cs: "rpx1 = rpx\<lparr>rpx_code_sections := rpx_code_sections rpx @ cs\<rparr>" "list_all (code_ok rpx) cs"
    "length (rpx_code_sections rpx1) \<le> 64"
    using Cons.prems(2) by (elim load_rpx_section_Ok) simp
  obtain ds where "rpx' = rpx1\<lparr>rpx_code_sections := rpx_code_sections rpx1 @ ds\<rparr>" "list_all (code_ok rpx1) ds"
    "length (rpx_code_sections rpx') \<le> 64"
    using Cons.IH [OF 1(2) cs(3)] by blast
  with cs show ?case
    by (intro exI [of _ "cs @ ds"]) (auto simp: code_ok_def list_all_iff)
qed

lemma read_elf_not_UB: "read_elf env \<noteq> UB"
  by (auto simp: read_elf_def Let_def outcome_simps slice_def read_be16_eq read_be32_eq ELF_HEADER_SIZE_def)

lemma read_elf_Ok:
  "read_elf env = Ok rpx \<Longrightarrow> file_ok rpx \<and> 52 \<le> length (rpx_file_data rpx) \<and> rpx_code_sections rpx = [] \<and>
     rpx_file_data rpx = contents env \<and> rpx_entry_point rpx AND 3 = 0"
  by (auto simp: read_elf_def Let_def outcome_simps file_ok_def unat_of_nat ELF_HEADER_SIZE_def)

lemma those_None: "those xs = None \<longleftrightarrow> None \<in> set xs"
  by (induction xs) (auto split: option.splits)

lemma those_length: "those xs = Some ys \<Longrightarrow> length ys = length xs"
  by (induction xs arbitrary: ys) (auto split: option.splits)

text \<open>The table fits, so every header does; the 32-bit product does not wrap.\<close>

lemma section_offset:
  assumes "i < unat (n :: u16)"
  shows "unat (ucast (of_nat i :: u16) * ucast (40 :: u16) :: u32) = 40 * i" "unat (ucast (40 :: u16) * ucast n :: u32) = 40 * unat n"
proof -
  have n: "unat n < 2 ^ 16" using unsigned_less [of n] by simp
  with assms have "i < 2 ^ 16" by simp
  then have "unat (of_nat i :: u16) = i" by (simp add: unat_of_nat)
  then have "unat (ucast (of_nat i :: u16) :: u32) = i" using \<open>i < 2 ^ 16\<close> by (simp add: unsigned_ucast_eq take_bit_nat_eq_self)
  then show "unat (ucast (of_nat i :: u16) * ucast (40 :: u16) :: u32) = 40 * i"
    using \<open>i < 2 ^ 16\<close> by (simp add: unat_word_ariths)
  show "unat (ucast (40 :: u16) * ucast n :: u32) = 40 * unat n"
    using n by (simp add: unat_word_ariths unsigned_ucast_eq take_bit_nat_eq_self)
qed

lemma read_section_header_defined:
  "unat off + 40 * unat (n :: u16) \<le> length h \<Longrightarrow> i < unat n \<Longrightarrow> read_section_header h off 40 (of_nat i) \<noteq> None"
  using section_offset(1) [of i n] by (auto simp: read_section_header_def Let_def read_be32_eq)

lemma read_headers_not_UB:
  assumes "file_ok rpx" "52 \<le> length (rpx_file_data rpx)"
  shows "read_headers env rpx \<noteq> UB"
proof -
  have "those (map (\<lambda>i. read_section_header (rpx_file_data rpx) off 40 (of_nat i)) [0..<unat (rpx_section_count rpx)]) \<noteq> None"
    if "range_fits off (ucast (40 :: u16) * ucast (rpx_section_count rpx)) (rpx_file_size rpx)" "k < rpx_section_count rpx" for off k
  proof -
    have "0 < unat (rpx_section_count rpx)" using that(2) by (simp add: word_less_nat_alt)
    then have "unat off + 40 * unat (rpx_section_count rpx) \<le> length (rpx_file_data rpx)"
      using that(1) assms(1) section_offset(2) [of 0] by (simp add: range_fits_iff file_ok_def)
    then have "read_section_header (rpx_file_data rpx) off 40 (of_nat i) \<noteq> None" if "i < unat (rpx_section_count rpx)" for i
      using read_section_header_defined that by blast
    then show ?thesis
      by (simp add: those_None image_iff eq_commute [of None])
  qed
  then show ?thesis
    using assms(2) by (auto simp: read_headers_def Let_def outcome_simps read_be16_eq read_be32_eq ELF_SECTION_SIZE_def)
qed

lemma read_headers_Ok:
  "read_headers env rpx = Ok (ss, k) \<Longrightarrow> length ss = unat (rpx_section_count rpx) \<and> unat k < length ss"
  by (auto simp: read_headers_def Let_def outcome_simps word_less_nat_alt dest: those_length)

text \<open>The loaded file.\<close>

definition rpx_ok :: "u8 list \<Rightarrow> RPXFile \<Rightarrow> bool" where
  "rpx_ok bytes rpx \<longleftrightarrow> rpx_file_data rpx = bytes \<and> rpx_entry_point rpx AND 3 = 0 \<and> entry_in_code rpx \<and>
     rpx_code_sections rpx \<noteq> [] \<and> length (rpx_code_sections rpx) \<le> 64 \<and> list_all (code_ok rpx) (rpx_code_sections rpx)"

text \<open>The names section has no bits in the file.\<close>

definition names_without_bits :: "rpx_env \<Rightarrow> bool" where
  "names_without_bits env \<longleftrightarrow> (case read_elf env of
     Ok rpx \<Rightarrow> (case read_headers env rpx of Ok (ss, k) \<Rightarrow> sh_type (ss ! unat k) = SHT_NOBITS | _ \<Rightarrow> False) | _ \<Rightarrow> False)"

lemma rpx_load_not_UB:
  assumes "\<not> names_without_bits env"
  shows "rpx_load env \<noteq> UB"
proof
  assume ub: "rpx_load env = UB"
  then obtain rpx where 1: "read_elf env = Ok rpx"
    by (auto simp: rpx_load_def outcome_simps read_elf_not_UB)
  note f = read_elf_Ok [OF 1]
  obtain ss k where 2: "read_headers env rpx = Ok (ss, k)"
    using ub f by (auto simp: rpx_load_def outcome_simps 1 read_headers_not_UB)
  note h = read_headers_Ok [OF 2]
  have bits: "sh_type (ss ! unat k) \<noteq> SHT_NOBITS"
    using assms by (simp add: names_without_bits_def 1 2)
  obtain names n owned where 3: "decode_section_bytes env 2 rpx (ss ! unat k) (Some section_names_label) = Ok (names, n, owned)"
    "load_rpx_sections env names n 0 ss rpx = UB"
    using ub f h by (auto simp: rpx_load_def outcome_simps 1 2 arr_get_def decode_section_bytes_not_UB)
  have "names_ok names n"
    using decode_section_bytes_Ok [OF 3(1)] bits by (simp add: section_data_ok_def)
  then show False
    using load_rpx_sections_not_UB f 3(2) by blast
qed

lemma rpx_load_Ok:
  assumes "rpx_load env = Ok rpx"
  shows "rpx_ok (contents env) rpx"
proof -
  obtain rpx0 names n ss where l: "read_elf env = Ok rpx0" "load_rpx_sections env names n 0 ss rpx0 = Ok rpx"
    "rpx_code_sections rpx \<noteq> []" "entry_in_code rpx"
    using assms by (auto simp: rpx_load_def outcome_simps)
  note f = read_elf_Ok [OF l(1)]
  obtain cs where "rpx = rpx0\<lparr>rpx_code_sections := cs\<rparr>" "list_all (code_ok rpx0) cs" "length (rpx_code_sections rpx) \<le> 64"
    using load_rpx_sections_Ok [OF l(2)] f by auto
  then show ?thesis
    using f l(3,4) by (auto simp: rpx_ok_def code_ok_def list_all_iff)
qed

text \<open>A file with one section of names and one of eight bytes of code, and one whose names have no bits.\<close>

definition elf_header :: "u8 \<Rightarrow> u8 list" where
  "elf_header count = [0x7f, 0x45, 0x4c, 0x46, 1, 2, 1] @ replicate 9 0 @ [0xfe, 1, 0, 20, 0, 0, 0, 1, 2, 0, 0, 0] @
     replicate 7 0 @ [52] @ replicate 10 0 @ [0, 40, 0, count, 0, 0]"

definition rpx_file :: "u8 list \<Rightarrow> rpx_env" where
  "rpx_file bytes = \<lparr>openable = True, contents = bytes, can_alloc = (\<lambda>_. True), read_all = True,
     measurable = True, uncompress = None\<rparr>"

definition tiny_rpx :: rpx_env where
  "tiny_rpx = rpx_file (elf_header 2 @
     [0, 0, 0, 0, 0, 0, 0, 3, 0, 0, 0, 0, 0, 0, 0, 0, 0, 0, 0, 132, 0, 0, 0, 6] @ replicate 16 0 @
     [0, 0, 0, 0, 0, 0, 0, 1, 0, 0, 0, 4, 2, 0, 0, 0, 0, 0, 0, 138, 0, 0, 0, 8] @ replicate 16 0 @
     [0x2e, 0x74, 0x65, 0x78, 0x74, 0] @ [0x60, 0, 0, 0, 0x4e, 0x80, 0, 0x20])"

definition null_names_rpx :: rpx_env where
  "null_names_rpx = rpx_file (elf_header 1 @ [0, 0, 0, 0, 0, 0, 0, 8] @ replicate 14 0 @ [0, 8] @ replicate 16 0)"

section \<open>Properties\<close>

text \<open>C13 Loading an RPX reads outside a buffer only when the section of the section names is
  one without bits in the file; whenever it succeeds the file has between one and 64 code sections, the
  entry point is in one of them, and the bytes of each are its size, a multiple of four, and are those of
  the file where it is not compressed.\<close>

theorem rpx_load_safe:
  "(\<not> names_without_bits env \<longrightarrow> rpx_load env \<noteq> UB) \<and> (rpx_load env = Ok rpx \<longrightarrow> rpx_ok (contents env) rpx)"
  using rpx_load_not_UB rpx_load_Ok by blast

theorem rpx_load_safe_witness:
  "case rpx_load tiny_rpx of Ok rpx \<Rightarrow> rpx_ok (contents tiny_rpx) rpx \<and> code_name (hd (rpx_code_sections rpx)) = [0x2e, 0x74, 0x65, 0x78, 0x74]
   | _ \<Rightarrow> False"
proof -
  have "case rpx_load tiny_rpx of Ok rpx \<Rightarrow> code_name (hd (rpx_code_sections rpx)) = [0x2e, 0x74, 0x65, 0x78, 0x74] | _ \<Rightarrow> False"
    "\<not> names_without_bits tiny_rpx"
    by code_simp+
  then show ?thesis
    using rpx_load_safe [of tiny_rpx] by (cases "rpx_load tiny_rpx") simp_all
qed


end
