(* ===== verification/DolIR.thy ===== *)
theory DolIR
  imports CTypes
begin

text \<open>
  \<open>src/ir/dolir.h\<close>, \<open>src/ir/dolir.c\<close> and \<open>src/ir/dolir_effects.c\<close>: the intermediate representation of
  the native back end, the functions that grow it, its verifier and the masks of the machine state an
  instruction uses and defines.

  A value is its number; number 0 is no value.  Pointers into the arrays of a module are the arrays'
  elements, passed and returned.  \<open>realloc\<close> is the only way an operation of this component fails; the
  outcomes of its successive calls are the field \<open>allocs\<close> of the heap.  The operands of an
  instruction are the list of its \<open>operand_count\<close> first entries.
\<close>

section \<open>Types, state slots and operations\<close>

type_synonym DolIRValue = nat
type_synonym DolIRStateSlot = nat

abbreviation (input) DOLIR_NO_VALUE :: DolIRValue where "DOLIR_NO_VALUE \<equiv> 0"
abbreviation (input) DOLIR_NO_BLOCK :: u32 where "DOLIR_NO_BLOCK \<equiv> 0xFFFFFFFF"

datatype DolIRType =
    DOLIR_TYPE_VOID | DOLIR_TYPE_I1 | DOLIR_TYPE_I8 | DOLIR_TYPE_I16 | DOLIR_TYPE_I32
  | DOLIR_TYPE_I64 | DOLIR_TYPE_F32 | DOLIR_TYPE_F64 | DOLIR_TYPE_V2F32 | DOLIR_TYPE_V2F64

abbreviation (input) DOLIR_STATE_GPR0 :: DolIRStateSlot where "DOLIR_STATE_GPR0 \<equiv> 0"
abbreviation (input) DOLIR_STATE_GPR31 :: DolIRStateSlot where "DOLIR_STATE_GPR31 \<equiv> 31"
abbreviation (input) DOLIR_STATE_FPR0 :: DolIRStateSlot where "DOLIR_STATE_FPR0 \<equiv> 32"
abbreviation (input) DOLIR_STATE_FPR31 :: DolIRStateSlot where "DOLIR_STATE_FPR31 \<equiv> 63"
abbreviation (input) DOLIR_STATE_PS1_0 :: DolIRStateSlot where "DOLIR_STATE_PS1_0 \<equiv> 64"
abbreviation (input) DOLIR_STATE_PS1_31 :: DolIRStateSlot where "DOLIR_STATE_PS1_31 \<equiv> 95"
abbreviation (input) DOLIR_STATE_PC :: DolIRStateSlot where "DOLIR_STATE_PC \<equiv> 96"
abbreviation (input) DOLIR_STATE_LR :: DolIRStateSlot where "DOLIR_STATE_LR \<equiv> 97"
abbreviation (input) DOLIR_STATE_CTR :: DolIRStateSlot where "DOLIR_STATE_CTR \<equiv> 98"
abbreviation (input) DOLIR_STATE_CR :: DolIRStateSlot where "DOLIR_STATE_CR \<equiv> 99"
abbreviation (input) DOLIR_STATE_CR0 :: DolIRStateSlot where "DOLIR_STATE_CR0 \<equiv> 100"
abbreviation (input) DOLIR_STATE_CR7 :: DolIRStateSlot where "DOLIR_STATE_CR7 \<equiv> 107"
abbreviation (input) DOLIR_STATE_XER :: DolIRStateSlot where "DOLIR_STATE_XER \<equiv> 108"
abbreviation (input) DOLIR_STATE_XER_CA :: DolIRStateSlot where "DOLIR_STATE_XER_CA \<equiv> 109"
abbreviation (input) DOLIR_STATE_XER_OV :: DolIRStateSlot where "DOLIR_STATE_XER_OV \<equiv> 110"
abbreviation (input) DOLIR_STATE_XER_SO :: DolIRStateSlot where "DOLIR_STATE_XER_SO \<equiv> 111"
abbreviation (input) DOLIR_STATE_FPSCR :: DolIRStateSlot where "DOLIR_STATE_FPSCR \<equiv> 112"
abbreviation (input) DOLIR_STATE_MSR :: DolIRStateSlot where "DOLIR_STATE_MSR \<equiv> 113"
abbreviation (input) DOLIR_STATE_SRR0 :: DolIRStateSlot where "DOLIR_STATE_SRR0 \<equiv> 114"
abbreviation (input) DOLIR_STATE_SRR1 :: DolIRStateSlot where "DOLIR_STATE_SRR1 \<equiv> 115"
abbreviation (input) DOLIR_STATE_DAR :: DolIRStateSlot where "DOLIR_STATE_DAR \<equiv> 116"
abbreviation (input) DOLIR_STATE_DSISR :: DolIRStateSlot where "DOLIR_STATE_DSISR \<equiv> 117"
abbreviation (input) DOLIR_STATE_EAR :: DolIRStateSlot where "DOLIR_STATE_EAR \<equiv> 118"
abbreviation (input) DOLIR_STATE_HID2 :: DolIRStateSlot where "DOLIR_STATE_HID2 \<equiv> 119"
abbreviation (input) DOLIR_STATE_TIMEBASE :: DolIRStateSlot where "DOLIR_STATE_TIMEBASE \<equiv> 120"
abbreviation (input) DOLIR_STATE_SR0 :: DolIRStateSlot where "DOLIR_STATE_SR0 \<equiv> 121"
abbreviation (input) DOLIR_STATE_SR15 :: DolIRStateSlot where "DOLIR_STATE_SR15 \<equiv> 136"
abbreviation (input) DOLIR_STATE_GQR0 :: DolIRStateSlot where "DOLIR_STATE_GQR0 \<equiv> 137"
abbreviation (input) DOLIR_STATE_GQR7 :: DolIRStateSlot where "DOLIR_STATE_GQR7 \<equiv> 144"
abbreviation (input) DOLIR_STATE_EXCEPTION :: DolIRStateSlot where "DOLIR_STATE_EXCEPTION \<equiv> 145"
abbreviation (input) DOLIR_STATE_PROGRAM_EXCEPTION :: DolIRStateSlot where "DOLIR_STATE_PROGRAM_EXCEPTION \<equiv> 146"
abbreviation (input) DOLIR_STATE_RESERVE_ADDR :: DolIRStateSlot where "DOLIR_STATE_RESERVE_ADDR \<equiv> 147"
abbreviation (input) DOLIR_STATE_RESERVE_VALID :: DolIRStateSlot where "DOLIR_STATE_RESERVE_VALID \<equiv> 148"
abbreviation (input) DOLIR_STATE_DOWNCOUNT :: DolIRStateSlot where "DOLIR_STATE_DOWNCOUNT \<equiv> 149"
abbreviation (input) DOLIR_STATE_COUNT :: DolIRStateSlot where "DOLIR_STATE_COUNT \<equiv> 150"

definition DOLIR_STATE_MASK_WORDS :: nat where
  "DOLIR_STATE_MASK_WORDS = (DOLIR_STATE_COUNT + 63) div 64"

datatype DolIROp =
    DOLIR_OP_PHI | DOLIR_OP_CONSTANT | DOLIR_OP_STATE_READ | DOLIR_OP_STATE_WRITE
  | DOLIR_OP_ADD | DOLIR_OP_SUB | DOLIR_OP_MUL | DOLIR_OP_UDIV | DOLIR_OP_SDIV
  | DOLIR_OP_AND | DOLIR_OP_OR | DOLIR_OP_XOR | DOLIR_OP_NOT | DOLIR_OP_SHL | DOLIR_OP_LSHR
  | DOLIR_OP_ASHR | DOLIR_OP_ROTL | DOLIR_OP_CLZ | DOLIR_OP_BSWAP | DOLIR_OP_TRUNC
  | DOLIR_OP_ZEXT | DOLIR_OP_SEXT | DOLIR_OP_BITCAST | DOLIR_OP_ICMP_EQ | DOLIR_OP_ICMP_NE
  | DOLIR_OP_ICMP_ULT | DOLIR_OP_ICMP_ULE | DOLIR_OP_ICMP_SLT | DOLIR_OP_ICMP_SLE
  | DOLIR_OP_FCMP_OEQ | DOLIR_OP_FCMP_OLT | DOLIR_OP_FCMP_OGE | DOLIR_OP_SELECT
  | DOLIR_OP_FADD | DOLIR_OP_FSUB | DOLIR_OP_FMUL | DOLIR_OP_FDIV | DOLIR_OP_FNEG
  | DOLIR_OP_FABS | DOLIR_OP_FPTRUNC | DOLIR_OP_FPEXT | DOLIR_OP_VECTOR_BUILD
  | DOLIR_OP_VECTOR_EXTRACT | DOLIR_OP_VECTOR_SHUFFLE | DOLIR_OP_GUEST_LOAD
  | DOLIR_OP_GUEST_STORE | DOLIR_OP_HELPER_CALL

abbreviation (input) DOLIR_HELPER_FALLBACK_INSTRUCTION :: u32 where "DOLIR_HELPER_FALLBACK_INSTRUCTION \<equiv> 0"
abbreviation (input) DOLIR_HELPER_FP_AVAILABLE :: u32 where "DOLIR_HELPER_FP_AVAILABLE \<equiv> 1"
abbreviation (input) DOLIR_HELPER_SYSTEM_CALL :: u32 where "DOLIR_HELPER_SYSTEM_CALL \<equiv> 2"
abbreviation (input) DOLIR_HELPER_RFI :: u32 where "DOLIR_HELPER_RFI \<equiv> 3"
abbreviation (input) DOLIR_HELPER_PROGRAM_EXCEPTION :: u32 where "DOLIR_HELPER_PROGRAM_EXCEPTION \<equiv> 4"
abbreviation (input) DOLIR_HELPER_FPSCR_UPDATED :: u32 where "DOLIR_HELPER_FPSCR_UPDATED \<equiv> 5"
abbreviation (input) DOLIR_HELPER_PSQ_LOAD :: u32 where "DOLIR_HELPER_PSQ_LOAD \<equiv> 6"
abbreviation (input) DOLIR_HELPER_PSQ_STORE :: u32 where "DOLIR_HELPER_PSQ_STORE \<equiv> 7"
abbreviation (input) DOLIR_HELPER_DCBZ_L :: u32 where "DOLIR_HELPER_DCBZ_L \<equiv> 8"
abbreviation (input) DOLIR_HELPER_ECIWX :: u32 where "DOLIR_HELPER_ECIWX \<equiv> 9"
abbreviation (input) DOLIR_HELPER_ECOWX :: u32 where "DOLIR_HELPER_ECOWX \<equiv> 10"
abbreviation (input) DOLIR_HELPER_TLBIE :: u32 where "DOLIR_HELPER_TLBIE \<equiv> 11"
abbreviation (input) DOLIR_HELPER_MEMORY_FENCE :: u32 where "DOLIR_HELPER_MEMORY_FENCE \<equiv> 12"
abbreviation (input) DOLIR_HELPER_EXACT_FLOAT :: u32 where "DOLIR_HELPER_EXACT_FLOAT \<equiv> 13"
abbreviation (input) DOLIR_HELPER_STORE_CONDITIONAL :: u32 where "DOLIR_HELPER_STORE_CONDITIONAL \<equiv> 14"
abbreviation (input) DOLIR_HELPER_FPSCR_BIT :: u32 where "DOLIR_HELPER_FPSCR_BIT \<equiv> 15"
abbreviation (input) DOLIR_HELPER_SPR_READ :: u32 where "DOLIR_HELPER_SPR_READ \<equiv> 16"
abbreviation (input) DOLIR_HELPER_SPR_WRITE :: u32 where "DOLIR_HELPER_SPR_WRITE \<equiv> 17"
abbreviation (input) DOLIR_HELPER_LSWX :: u32 where "DOLIR_HELPER_LSWX \<equiv> 18"
abbreviation (input) DOLIR_HELPER_CACHE_CONTROL :: u32 where "DOLIR_HELPER_CACHE_CONTROL \<equiv> 19"
abbreviation (input) DOLIR_HELPER_EXACT_PAIRED :: u32 where "DOLIR_HELPER_EXACT_PAIRED \<equiv> 20"
abbreviation (input) DOLIR_HELPER_TIMEBASE_READ :: u32 where "DOLIR_HELPER_TIMEBASE_READ \<equiv> 21"
abbreviation (input) DOLIR_HELPER_TIMEBASE_WRITE :: u32 where "DOLIR_HELPER_TIMEBASE_WRITE \<equiv> 22"

abbreviation (input) DOLIR_PROGRAM_TRAP :: u64 where "DOLIR_PROGRAM_TRAP \<equiv> 131072"
abbreviation (input) DOLIR_PROGRAM_PRIV :: u64 where "DOLIR_PROGRAM_PRIV \<equiv> 262144"

abbreviation (input) DOLIR_EXACT_FRES :: u64 where "DOLIR_EXACT_FRES \<equiv> 0"
abbreviation (input) DOLIR_EXACT_FRSQRTE :: u64 where "DOLIR_EXACT_FRSQRTE \<equiv> 1"
abbreviation (input) DOLIR_EXACT_FMADD :: u64 where "DOLIR_EXACT_FMADD \<equiv> 2"
abbreviation (input) DOLIR_EXACT_FMSUB :: u64 where "DOLIR_EXACT_FMSUB \<equiv> 3"
abbreviation (input) DOLIR_EXACT_FNMADD :: u64 where "DOLIR_EXACT_FNMADD \<equiv> 4"
abbreviation (input) DOLIR_EXACT_FNMSUB :: u64 where "DOLIR_EXACT_FNMSUB \<equiv> 5"
abbreviation (input) DOLIR_EXACT_FMADDS :: u64 where "DOLIR_EXACT_FMADDS \<equiv> 6"
abbreviation (input) DOLIR_EXACT_FMSUBS :: u64 where "DOLIR_EXACT_FMSUBS \<equiv> 7"
abbreviation (input) DOLIR_EXACT_FNMADDS :: u64 where "DOLIR_EXACT_FNMADDS \<equiv> 8"
abbreviation (input) DOLIR_EXACT_FNMSUBS :: u64 where "DOLIR_EXACT_FNMSUBS \<equiv> 9"
abbreviation (input) DOLIR_EXACT_FCTIW :: u64 where "DOLIR_EXACT_FCTIW \<equiv> 10"
abbreviation (input) DOLIR_EXACT_FCTIWZ :: u64 where "DOLIR_EXACT_FCTIWZ \<equiv> 11"
abbreviation (input) DOLIR_EXACT_FCMPU :: u64 where "DOLIR_EXACT_FCMPU \<equiv> 12"
abbreviation (input) DOLIR_EXACT_FCMPO :: u64 where "DOLIR_EXACT_FCMPO \<equiv> 13"
abbreviation (input) DOLIR_EXACT_FADDS :: u64 where "DOLIR_EXACT_FADDS \<equiv> 14"
abbreviation (input) DOLIR_EXACT_FSUBS :: u64 where "DOLIR_EXACT_FSUBS \<equiv> 15"
abbreviation (input) DOLIR_EXACT_FMULS :: u64 where "DOLIR_EXACT_FMULS \<equiv> 16"
abbreviation (input) DOLIR_EXACT_FDIVS :: u64 where "DOLIR_EXACT_FDIVS \<equiv> 17"
abbreviation (input) DOLIR_EXACT_FADD :: u64 where "DOLIR_EXACT_FADD \<equiv> 18"
abbreviation (input) DOLIR_EXACT_FSUB :: u64 where "DOLIR_EXACT_FSUB \<equiv> 19"
abbreviation (input) DOLIR_EXACT_FMUL :: u64 where "DOLIR_EXACT_FMUL \<equiv> 20"
abbreviation (input) DOLIR_EXACT_FDIV :: u64 where "DOLIR_EXACT_FDIV \<equiv> 21"
abbreviation (input) DOLIR_EXACT_FRSP :: u64 where "DOLIR_EXACT_FRSP \<equiv> 22"

abbreviation (input) DOLIR_EXACT_PS_ADD :: u64 where "DOLIR_EXACT_PS_ADD \<equiv> 0"
abbreviation (input) DOLIR_EXACT_PS_SUB :: u64 where "DOLIR_EXACT_PS_SUB \<equiv> 1"
abbreviation (input) DOLIR_EXACT_PS_MUL :: u64 where "DOLIR_EXACT_PS_MUL \<equiv> 2"
abbreviation (input) DOLIR_EXACT_PS_DIV :: u64 where "DOLIR_EXACT_PS_DIV \<equiv> 3"
abbreviation (input) DOLIR_EXACT_PS_MADD :: u64 where "DOLIR_EXACT_PS_MADD \<equiv> 4"
abbreviation (input) DOLIR_EXACT_PS_MSUB :: u64 where "DOLIR_EXACT_PS_MSUB \<equiv> 5"
abbreviation (input) DOLIR_EXACT_PS_NMADD :: u64 where "DOLIR_EXACT_PS_NMADD \<equiv> 6"
abbreviation (input) DOLIR_EXACT_PS_NMSUB :: u64 where "DOLIR_EXACT_PS_NMSUB \<equiv> 7"
abbreviation (input) DOLIR_EXACT_PS_MADDS0 :: u64 where "DOLIR_EXACT_PS_MADDS0 \<equiv> 8"
abbreviation (input) DOLIR_EXACT_PS_MADDS1 :: u64 where "DOLIR_EXACT_PS_MADDS1 \<equiv> 9"
abbreviation (input) DOLIR_EXACT_PS_SUM0 :: u64 where "DOLIR_EXACT_PS_SUM0 \<equiv> 10"
abbreviation (input) DOLIR_EXACT_PS_SUM1 :: u64 where "DOLIR_EXACT_PS_SUM1 \<equiv> 11"
abbreviation (input) DOLIR_EXACT_PS_MULS0 :: u64 where "DOLIR_EXACT_PS_MULS0 \<equiv> 12"
abbreviation (input) DOLIR_EXACT_PS_MULS1 :: u64 where "DOLIR_EXACT_PS_MULS1 \<equiv> 13"
abbreviation (input) DOLIR_EXACT_PS_RES :: u64 where "DOLIR_EXACT_PS_RES \<equiv> 14"
abbreviation (input) DOLIR_EXACT_PS_RSQRTE :: u64 where "DOLIR_EXACT_PS_RSQRTE \<equiv> 15"
abbreviation (input) DOLIR_EXACT_PS_CMPU0 :: u64 where "DOLIR_EXACT_PS_CMPU0 \<equiv> 16"
abbreviation (input) DOLIR_EXACT_PS_CMPO0 :: u64 where "DOLIR_EXACT_PS_CMPO0 \<equiv> 17"
abbreviation (input) DOLIR_EXACT_PS_CMPU1 :: u64 where "DOLIR_EXACT_PS_CMPU1 \<equiv> 18"
abbreviation (input) DOLIR_EXACT_PS_CMPO1 :: u64 where "DOLIR_EXACT_PS_CMPO1 \<equiv> 19"

abbreviation (input) DOLIR_EFFECT_NONE :: u32 where "DOLIR_EFFECT_NONE \<equiv> 0"
abbreviation (input) DOLIR_EFFECT_READ_STATE :: u32 where "DOLIR_EFFECT_READ_STATE \<equiv> 1"
abbreviation (input) DOLIR_EFFECT_WRITE_STATE :: u32 where "DOLIR_EFFECT_WRITE_STATE \<equiv> 2"
abbreviation (input) DOLIR_EFFECT_READ_MEMORY :: u32 where "DOLIR_EFFECT_READ_MEMORY \<equiv> 4"
abbreviation (input) DOLIR_EFFECT_WRITE_MEMORY :: u32 where "DOLIR_EFFECT_WRITE_MEMORY \<equiv> 8"
abbreviation (input) DOLIR_EFFECT_MAY_EXIT :: u32 where "DOLIR_EFFECT_MAY_EXIT \<equiv> 16"
abbreviation (input) DOLIR_EFFECT_MAY_RAISE :: u32 where "DOLIR_EFFECT_MAY_RAISE \<equiv> 32"
abbreviation (input) DOLIR_EFFECT_BARRIER :: u32 where "DOLIR_EFFECT_BARRIER \<equiv> 64"

datatype DolIRAddressDomain =
    DOLIR_ADDRESS_UNKNOWN | DOLIR_ADDRESS_GUEST_DATA | DOLIR_ADDRESS_MEM1
  | DOLIR_ADDRESS_MEM2 | DOLIR_ADDRESS_PHYSICAL | DOLIR_ADDRESS_MMIO | DOLIR_ADDRESS_FIFO

datatype DolIRTerminatorKind =
    DOLIR_TERM_NONE | DOLIR_TERM_FALLTHROUGH | DOLIR_TERM_BRANCH | DOLIR_TERM_COND_BRANCH
  | DOLIR_TERM_INDIRECT | DOLIR_TERM_RETURN | DOLIR_TERM_SIDE_EXIT | DOLIR_TERM_FALLBACK
  | DOLIR_TERM_SYSTEM_CALL | DOLIR_TERM_RFI

section \<open>Instructions, blocks, functions, modules\<close>

record DolIRInstruction =
  ir_op :: DolIROp
  ir_type :: DolIRType
  ir_result :: DolIRValue
  ir_operands :: "DolIRValue list" \<comment> \<open>\<open>operands[0 .. operand_count - 1]\<close>\<close>
  ir_aux :: u32
  ir_immediate :: u64
  ir_guest_pc :: u32
  ir_effects :: u32
  ir_state_uses :: "u64 list"
  ir_state_defs :: "u64 list"
  ir_address_domain :: DolIRAddressDomain
  ir_address_lower :: u32
  ir_address_upper :: u32
  ir_exact_fp :: bool

record DolIRTerminator =
  term_kind :: DolIRTerminatorKind
  term_condition :: DolIRValue
  term_target_value :: DolIRValue
  term_targets :: "u32 \<times> u32"
  term_target_addresses :: "u32 \<times> u32"
  term_guest_pc :: u32
  term_raw :: u32
  term_linked :: bool

record DolIRBlock =
  blk_guest_address :: u32
  blk_raw :: u32
  blk_cycle_cost :: u32
  blk_instructions :: "DolIRInstruction list"
  blk_capacity :: u32
  blk_terminator :: DolIRTerminator

record DolIRFunction =
  fn_name :: string
  fn_guest_start :: u32
  fn_guest_end :: u32
  fn_blocks :: "DolIRBlock list"
  fn_block_capacity :: u32
  fn_value_types :: "DolIRType list"
  fn_value_capacity :: u32

record DolIRModule =
  mod_functions :: "DolIRFunction list"
  mod_capacity :: u32

definition zero_instruction :: DolIRInstruction where
  "zero_instruction =
    \<lparr>ir_op = DOLIR_OP_PHI, ir_type = DOLIR_TYPE_VOID, ir_result = DOLIR_NO_VALUE, ir_operands = [],
     ir_aux = 0, ir_immediate = 0, ir_guest_pc = 0, ir_effects = 0,
     ir_state_uses = replicate DOLIR_STATE_MASK_WORDS 0,
     ir_state_defs = replicate DOLIR_STATE_MASK_WORDS 0,
     ir_address_domain = DOLIR_ADDRESS_UNKNOWN, ir_address_lower = 0, ir_address_upper = 0,
     ir_exact_fp = False\<rparr>"

definition zero_terminator :: DolIRTerminator where
  "zero_terminator =
    \<lparr>term_kind = DOLIR_TERM_NONE, term_condition = DOLIR_NO_VALUE,
     term_target_value = DOLIR_NO_VALUE, term_targets = (0, 0), term_target_addresses = (0, 0),
     term_guest_pc = 0, term_raw = 0, term_linked = False\<rparr>"

definition empty_block :: DolIRBlock where
  "empty_block =
    \<lparr>blk_guest_address = 0, blk_raw = 0, blk_cycle_cost = 0, blk_instructions = [],
     blk_capacity = 0, blk_terminator = zero_terminator\<rparr>"

definition zero_function :: DolIRFunction where
  "zero_function =
    \<lparr>fn_name = [], fn_guest_start = 0, fn_guest_end = 0, fn_blocks = [], fn_block_capacity = 0,
     fn_value_types = [], fn_value_capacity = 0\<rparr>"

text \<open>\<open>dolir_module_init\<close> and, since freeing the arrays leaves the same record,
  \<open>dolir_module_free\<close>.\<close>

definition dolir_module_init :: DolIRModule where
  "dolir_module_init = \<lparr>mod_functions = [], mod_capacity = 0\<rparr>"

section \<open>The state masks\<close>

text \<open>A slot outside the ms is an undefined access.\<close>

definition mark :: "u64 list \<Rightarrow> DolIRStateSlot \<Rightarrow> u64 list option" where
  "mark ms slot = do {
     word \<leftarrow> arr_get ms (slot div 64);
     arr_set ms (slot div 64) (word OR shl 1 (slot mod 64))
   }"

definition dolir_state_mask_test :: "u64 list \<Rightarrow> DolIRStateSlot \<Rightarrow> bool option" where
  "dolir_state_mask_test ms slot = do {
     word \<leftarrow> arr_get ms (slot div 64);
     Some (word AND shl 1 (slot mod 64) \<noteq> 0)
   }"

definition uses_slot :: "DolIRStateSlot \<Rightarrow> DolIRInstruction \<Rightarrow> DolIRInstruction option" where
  "uses_slot slot i = do { m \<leftarrow> mark (ir_state_uses i) slot; Some (i\<lparr>ir_state_uses := m\<rparr>) }"

definition defines_slot :: "DolIRStateSlot \<Rightarrow> DolIRInstruction \<Rightarrow> DolIRInstruction option" where
  "defines_slot slot i = do { m \<leftarrow> mark (ir_state_defs i) slot; Some (i\<lparr>ir_state_defs := m\<rparr>) }"

definition use_pair :: "nat \<Rightarrow> DolIRInstruction \<Rightarrow> DolIRInstruction option" where
  "use_pair reg i = do {
     i \<leftarrow> uses_slot (DOLIR_STATE_FPR0 + reg) i;
     uses_slot (DOLIR_STATE_PS1_0 + reg) i
   }"

definition define_pair :: "nat \<Rightarrow> DolIRInstruction \<Rightarrow> DolIRInstruction option" where
  "define_pair reg i = do {
     i \<leftarrow> defines_slot (DOLIR_STATE_FPR0 + reg) i;
     defines_slot (DOLIR_STATE_PS1_0 + reg) i
   }"

text \<open>The byte of a descriptor at a bit position.\<close>

definition desc_byte :: "u64 \<Rightarrow> nat \<Rightarrow> nat" where
  "desc_byte descriptor n = unat (shr descriptor n AND 0xFF)"

definition exact_float :: "DolIRInstruction \<Rightarrow> DolIRInstruction option" where
  "exact_float i =
     (let descriptor = ir_immediate i;
          op = descriptor AND 0xFF;
          d = desc_byte descriptor 8;
          a = desc_byte descriptor 16;
          b = desc_byte descriptor 24;
          c = desc_byte descriptor 32;
          crfd = desc_byte descriptor 40;
          i = i\<lparr>ir_exact_fp := True\<rparr>
      in do {
        i \<leftarrow> uses_slot DOLIR_STATE_FPSCR i;
        i \<leftarrow> defines_slot DOLIR_STATE_FPSCR i;
        if op = DOLIR_EXACT_FCMPU \<or> op = DOLIR_EXACT_FCMPO then do {
          i \<leftarrow> uses_slot (DOLIR_STATE_FPR0 + a) i;
          i \<leftarrow> uses_slot (DOLIR_STATE_FPR0 + b) i;
          i \<leftarrow> uses_slot (DOLIR_STATE_CR0 + crfd) i;
          defines_slot (DOLIR_STATE_CR0 + crfd) i
        } else do {
          i \<leftarrow> defines_slot (DOLIR_STATE_FPR0 + d) i;
          i \<leftarrow> (if op = DOLIR_EXACT_FRES \<or>
                   (DOLIR_EXACT_FADDS \<le> op \<and> op \<le> DOLIR_EXACT_FDIVS) \<or>
                   op = DOLIR_EXACT_FRSP \<or>
                   (DOLIR_EXACT_FMADDS \<le> op \<and> op \<le> DOLIR_EXACT_FNMSUBS)
                then defines_slot (DOLIR_STATE_PS1_0 + d) i else Some i);
          if op = DOLIR_EXACT_FRES \<or> op = DOLIR_EXACT_FRSQRTE \<or> op = DOLIR_EXACT_FCTIW \<or>
             op = DOLIR_EXACT_FCTIWZ \<or> op = DOLIR_EXACT_FRSP then
            uses_slot (DOLIR_STATE_FPR0 + b) i
          else if op = DOLIR_EXACT_FMULS \<or> op = DOLIR_EXACT_FMUL then do {
            i \<leftarrow> uses_slot (DOLIR_STATE_FPR0 + a) i;
            uses_slot (DOLIR_STATE_FPR0 + c) i
          } else do {
            i \<leftarrow> uses_slot (DOLIR_STATE_FPR0 + a) i;
            i \<leftarrow> uses_slot (DOLIR_STATE_FPR0 + b) i;
            if DOLIR_EXACT_FMADD \<le> op \<and> op \<le> DOLIR_EXACT_FNMSUBS then
              uses_slot (DOLIR_STATE_FPR0 + c) i
            else Some i
          }
        }
      })"

definition exact_paired :: "DolIRInstruction \<Rightarrow> DolIRInstruction option" where
  "exact_paired i =
     (let descriptor = ir_immediate i;
          op = descriptor AND 0xFF;
          d = desc_byte descriptor 8;
          a = desc_byte descriptor 16;
          b = desc_byte descriptor 24;
          c = desc_byte descriptor 32;
          crfd = desc_byte descriptor 40;
          i = i\<lparr>ir_exact_fp := True\<rparr>
      in do {
        i \<leftarrow> uses_slot DOLIR_STATE_FPSCR i;
        i \<leftarrow> defines_slot DOLIR_STATE_FPSCR i;
        if DOLIR_EXACT_PS_CMPU0 \<le> op then do {
          i \<leftarrow> use_pair a i;
          i \<leftarrow> use_pair b i;
          i \<leftarrow> uses_slot (DOLIR_STATE_CR0 + crfd) i;
          defines_slot (DOLIR_STATE_CR0 + crfd) i
        } else do {
          i \<leftarrow> define_pair d i;
          if op = DOLIR_EXACT_PS_RES \<or> op = DOLIR_EXACT_PS_RSQRTE then use_pair b i
          else do {
            i \<leftarrow> use_pair a i;
            if op = DOLIR_EXACT_PS_MUL \<or> op = DOLIR_EXACT_PS_MULS0 \<or> op = DOLIR_EXACT_PS_MULS1 then
              use_pair c i
            else do {
              i \<leftarrow> use_pair b i;
              if DOLIR_EXACT_PS_MADD \<le> op \<and> op \<le> DOLIR_EXACT_PS_SUM1 then use_pair c i
              else Some i
            }
          }
        }
      })"

definition helper_effects :: "DolIRInstruction \<Rightarrow> DolIRInstruction option" where
  "helper_effects i =
     switch_in (ir_aux i)
      [([DOLIR_HELPER_FP_AVAILABLE], do {
          i \<leftarrow> uses_slot DOLIR_STATE_MSR i;
          i \<leftarrow> uses_slot DOLIR_STATE_EXCEPTION i;
          defines_slot DOLIR_STATE_EXCEPTION i }),
       ([DOLIR_HELPER_PROGRAM_EXCEPTION], do {
          i \<leftarrow> uses_slot DOLIR_STATE_EXCEPTION i;
          i \<leftarrow> defines_slot DOLIR_STATE_EXCEPTION i;
          defines_slot DOLIR_STATE_SRR1 i }),
       ([DOLIR_HELPER_CACHE_CONTROL], uses_slot DOLIR_STATE_MSR i),
       ([DOLIR_HELPER_EXACT_FLOAT], exact_float i),
       ([DOLIR_HELPER_EXACT_PAIRED], exact_paired i),
       ([DOLIR_HELPER_PSQ_LOAD, DOLIR_HELPER_PSQ_STORE],
          let reg = unat (ir_immediate i AND 0xFF);
              gqr = unat (shr (ir_immediate i) 9 AND 7)
          in do {
            i \<leftarrow> uses_slot (DOLIR_STATE_GQR0 + gqr) i;
            i \<leftarrow> uses_slot DOLIR_STATE_HID2 i;
            i \<leftarrow> use_pair reg i;
            if ir_aux i = DOLIR_HELPER_PSQ_LOAD then define_pair reg i
            else do {
              i \<leftarrow> uses_slot DOLIR_STATE_RESERVE_ADDR i;
              i \<leftarrow> uses_slot DOLIR_STATE_RESERVE_VALID i;
              defines_slot DOLIR_STATE_RESERVE_VALID i
            } }),
       ([DOLIR_HELPER_STORE_CONDITIONAL], do {
          i \<leftarrow> uses_slot DOLIR_STATE_CR0 i;
          i \<leftarrow> defines_slot DOLIR_STATE_CR0 i;
          i \<leftarrow> uses_slot DOLIR_STATE_RESERVE_ADDR i;
          i \<leftarrow> uses_slot DOLIR_STATE_RESERVE_VALID i;
          defines_slot DOLIR_STATE_RESERVE_VALID i }),
       ([DOLIR_HELPER_FPSCR_UPDATED, DOLIR_HELPER_FPSCR_BIT], do {
          i \<leftarrow> uses_slot DOLIR_STATE_FPSCR i;
          defines_slot DOLIR_STATE_FPSCR i }),
       ([DOLIR_HELPER_LSWX], do {
          i \<leftarrow> uses_slot DOLIR_STATE_XER i;
          for_each [0..<32] (\<lambda>reg i. do {
            i \<leftarrow> uses_slot (DOLIR_STATE_GPR0 + reg) i;
            defines_slot (DOLIR_STATE_GPR0 + reg) i }) i })]
      (Some i)"

definition dolir_populate_effects :: "DolIRInstruction \<Rightarrow> DolIRInstruction option" where
  "dolir_populate_effects i = do {
     let i = i\<lparr>ir_state_uses := replicate DOLIR_STATE_MASK_WORDS 0,
               ir_state_defs := replicate DOLIR_STATE_MASK_WORDS 0,
               ir_exact_fp := False\<rparr>;
     i \<leftarrow> (if ir_op i = DOLIR_OP_STATE_READ then uses_slot (unat (ir_aux i)) i
           else if ir_op i = DOLIR_OP_STATE_WRITE then defines_slot (unat (ir_aux i)) i
           else if ir_op i = DOLIR_OP_HELPER_CALL then helper_effects i
           else Some i);
     if ir_op i = DOLIR_OP_GUEST_STORE then do {
       i \<leftarrow> uses_slot DOLIR_STATE_RESERVE_ADDR i;
       i \<leftarrow> uses_slot DOLIR_STATE_RESERVE_VALID i;
       defines_slot DOLIR_STATE_RESERVE_VALID i
     } else Some i
   }"

section \<open>Growing the arrays\<close>

record heap =
  allocs :: "nat \<Rightarrow> bool" \<comment> \<open>whether the n-th call of \<open>realloc\<close> succeeds\<close>
  tick :: nat

definition realloc_ok :: "heap \<Rightarrow> bool \<times> heap" where
  "realloc_ok h = (allocs h (tick h), h\<lparr>tick := Suc (tick h)\<rparr>)"

text \<open>The result, the new capacity and the heap.\<close>

definition grow_array :: "u32 \<Rightarrow> u32 \<Rightarrow> heap \<Rightarrow> bool \<times> u32 \<times> heap" where
  "grow_array capacity count h =
     (if count < capacity then (True, capacity, h)
      else let next = (if capacity \<noteq> 0 then capacity * 2 else 16);
               (resized, h) = realloc_ok h
           in if \<not> resized then (False, capacity, h) else (True, next, h))"

text \<open>A function that could not allocate its value types stays in the module.\<close>

definition dolir_add_function ::
    "DolIRModule \<Rightarrow> string \<Rightarrow> u32 \<Rightarrow> u32 \<Rightarrow> heap \<Rightarrow> DolIRFunction option \<times> DolIRModule \<times> heap" where
  "dolir_add_function m name guest_start guest_end h =
     (let (ok, cap, h) = grow_array (mod_capacity m) (of_nat (length (mod_functions m))) h;
          m = m\<lparr>mod_capacity := cap\<rparr>
      in if \<not> ok then (None, m, h)
         else let f = zero_function\<lparr>fn_name := take 63 name, fn_guest_start := guest_start,
                                    fn_guest_end := guest_end\<rparr>;
                  (ok, cap, h) = grow_array (fn_value_capacity f) 0 h;
                  f = f\<lparr>fn_value_capacity := cap\<rparr>
              in if \<not> ok then (None, m\<lparr>mod_functions := mod_functions m @ [f]\<rparr>, h)
                 else let f = f\<lparr>fn_value_types := [DOLIR_TYPE_VOID]\<rparr>
                      in (Some f, m\<lparr>mod_functions := mod_functions m @ [f]\<rparr>, h))"

definition dolir_add_block :: "DolIRFunction \<Rightarrow> u32 \<Rightarrow> heap \<Rightarrow> bool \<times> DolIRFunction \<times> heap" where
  "dolir_add_block f guest_address h =
     (let (ok, cap, h) = grow_array (fn_block_capacity f) (of_nat (length (fn_blocks f))) h;
          f = f\<lparr>fn_block_capacity := cap\<rparr>
      in if \<not> ok then (False, f, h)
         else (True,
               f\<lparr>fn_blocks := fn_blocks f @
                   [empty_block\<lparr>blk_guest_address := guest_address,
                      blk_terminator := zero_terminator\<lparr>term_targets := (DOLIR_NO_BLOCK, DOLIR_NO_BLOCK)\<rparr>\<rparr>]\<rparr>,
               h))"

text \<open>The instruction \<open>dolir_append\<close> fills in; \<open>None\<close> when its effects leave the masks.\<close>

definition new_instruction ::
    "DolIROp \<Rightarrow> DolIRType \<Rightarrow> DolIRValue \<Rightarrow> DolIRValue list \<Rightarrow> u64 \<Rightarrow> u32 \<Rightarrow> u32 \<Rightarrow> u32 \<Rightarrow>
     DolIRInstruction option" where
  "new_instruction op ty result operands immediate aux guest_pc effects =
     dolir_populate_effects
       (zero_instruction\<lparr>ir_op := op, ir_type := ty, ir_result := result, ir_operands := operands,
          ir_immediate := immediate, ir_aux := aux, ir_guest_pc := guest_pc,
          ir_effects := effects\<rparr>)"

definition dolir_append ::
    "DolIRFunction \<Rightarrow> DolIRBlock \<Rightarrow> heap \<Rightarrow> DolIROp \<Rightarrow> DolIRType \<Rightarrow> DolIRValue list \<Rightarrow> u64 \<Rightarrow> u32 \<Rightarrow>
     u32 \<Rightarrow> u32 \<Rightarrow> (DolIRValue \<times> DolIRFunction \<times> DolIRBlock \<times> heap) option" where
  "dolir_append f blk h op ty operands immediate aux guest_pc effects =
     (if length operands > 4 then Some (DOLIR_NO_VALUE, f, blk, h)
      else let (ok, cap, h) = grow_array (blk_capacity blk) (of_nat (length (blk_instructions blk))) h;
               blk = blk\<lparr>blk_capacity := cap\<rparr>
           in if \<not> ok then Some (DOLIR_NO_VALUE, f, blk, h)
              else if ty \<noteq> DOLIR_TYPE_VOID then
                let (ok, cap, h) = grow_array (fn_value_capacity f) (of_nat (length (fn_value_types f))) h;
                    f = f\<lparr>fn_value_capacity := cap\<rparr>
                in if \<not> ok then Some (DOLIR_NO_VALUE, f, blk, h)
                   else let result = length (fn_value_types f);
                            f = f\<lparr>fn_value_types := fn_value_types f @ [ty]\<rparr>
                        in do {
                          i \<leftarrow> new_instruction op ty result operands immediate aux guest_pc effects;
                          Some (result, f, blk\<lparr>blk_instructions := blk_instructions blk @ [i]\<rparr>, h)
                        }
              else do {
                i \<leftarrow> new_instruction op ty DOLIR_NO_VALUE operands immediate aux guest_pc effects;
                Some (DOLIR_NO_VALUE, f, blk\<lparr>blk_instructions := blk_instructions blk @ [i]\<rparr>, h)
              })"

definition dolir_constant ::
    "DolIRFunction \<Rightarrow> DolIRBlock \<Rightarrow> heap \<Rightarrow> DolIRType \<Rightarrow> u64 \<Rightarrow> u32 \<Rightarrow>
     (DolIRValue \<times> DolIRFunction \<times> DolIRBlock \<times> heap) option" where
  "dolir_constant f blk h ty bits guest_pc =
     dolir_append f blk h DOLIR_OP_CONSTANT ty [] bits 0 guest_pc DOLIR_EFFECT_NONE"

definition dolir_state_type :: "DolIRStateSlot \<Rightarrow> DolIRType" where
  "dolir_state_type slot =
     (if DOLIR_STATE_FPR0 \<le> slot \<and> slot \<le> DOLIR_STATE_PS1_31 then DOLIR_TYPE_F64
      else if slot = DOLIR_STATE_TIMEBASE \<or> slot = DOLIR_STATE_DOWNCOUNT then DOLIR_TYPE_I64
      else if slot = DOLIR_STATE_RESERVE_VALID \<or> slot = DOLIR_STATE_XER_CA \<or>
              slot = DOLIR_STATE_XER_OV \<or> slot = DOLIR_STATE_XER_SO then DOLIR_TYPE_I1
      else DOLIR_TYPE_I32)"

definition dolir_state_read ::
    "DolIRFunction \<Rightarrow> DolIRBlock \<Rightarrow> heap \<Rightarrow> DolIRStateSlot \<Rightarrow> u32 \<Rightarrow>
     (DolIRValue \<times> DolIRFunction \<times> DolIRBlock \<times> heap) option" where
  "dolir_state_read f blk h slot guest_pc =
     dolir_append f blk h DOLIR_OP_STATE_READ (dolir_state_type slot) [] 0 (of_nat slot) guest_pc
       DOLIR_EFFECT_READ_STATE"

text \<open>The result tells whether the block holds any instruction.\<close>

definition dolir_state_write ::
    "DolIRFunction \<Rightarrow> DolIRBlock \<Rightarrow> heap \<Rightarrow> DolIRStateSlot \<Rightarrow> DolIRValue \<Rightarrow> u32 \<Rightarrow>
     (bool \<times> DolIRFunction \<times> DolIRBlock \<times> heap) option" where
  "dolir_state_write f blk h slot v guest_pc = do {
     (_, f, blk, h) \<leftarrow> dolir_append f blk h DOLIR_OP_STATE_WRITE DOLIR_TYPE_VOID [v] 0 (of_nat slot)
       guest_pc DOLIR_EFFECT_WRITE_STATE;
     Some (blk_instructions blk \<noteq> [], f, blk, h)
   }"

section \<open>Names\<close>

primrec dolir_type_name :: "DolIRType \<Rightarrow> string" where
  "dolir_type_name DOLIR_TYPE_VOID = ''void''"
| "dolir_type_name DOLIR_TYPE_I1 = ''i1''"
| "dolir_type_name DOLIR_TYPE_I8 = ''i8''"
| "dolir_type_name DOLIR_TYPE_I16 = ''i16''"
| "dolir_type_name DOLIR_TYPE_I32 = ''i32''"
| "dolir_type_name DOLIR_TYPE_I64 = ''i64''"
| "dolir_type_name DOLIR_TYPE_F32 = ''f32''"
| "dolir_type_name DOLIR_TYPE_F64 = ''f64''"
| "dolir_type_name DOLIR_TYPE_V2F32 = ''v2f32''"
| "dolir_type_name DOLIR_TYPE_V2F64 = ''v2f64''"

primrec dolir_op_name :: "DolIROp \<Rightarrow> string" where
  "dolir_op_name DOLIR_OP_PHI = ''phi''"
| "dolir_op_name DOLIR_OP_CONSTANT = ''const''"
| "dolir_op_name DOLIR_OP_STATE_READ = ''state.read''"
| "dolir_op_name DOLIR_OP_STATE_WRITE = ''state.write''"
| "dolir_op_name DOLIR_OP_ADD = ''add''"
| "dolir_op_name DOLIR_OP_SUB = ''sub''"
| "dolir_op_name DOLIR_OP_MUL = ''mul''"
| "dolir_op_name DOLIR_OP_UDIV = ''udiv''"
| "dolir_op_name DOLIR_OP_SDIV = ''sdiv''"
| "dolir_op_name DOLIR_OP_AND = ''and''"
| "dolir_op_name DOLIR_OP_OR = ''or''"
| "dolir_op_name DOLIR_OP_XOR = ''xor''"
| "dolir_op_name DOLIR_OP_NOT = ''not''"
| "dolir_op_name DOLIR_OP_SHL = ''shl''"
| "dolir_op_name DOLIR_OP_LSHR = ''lshr''"
| "dolir_op_name DOLIR_OP_ASHR = ''ashr''"
| "dolir_op_name DOLIR_OP_ROTL = ''rotl''"
| "dolir_op_name DOLIR_OP_CLZ = ''clz''"
| "dolir_op_name DOLIR_OP_BSWAP = ''bswap''"
| "dolir_op_name DOLIR_OP_TRUNC = ''trunc''"
| "dolir_op_name DOLIR_OP_ZEXT = ''zext''"
| "dolir_op_name DOLIR_OP_SEXT = ''sext''"
| "dolir_op_name DOLIR_OP_BITCAST = ''bitcast''"
| "dolir_op_name DOLIR_OP_ICMP_EQ = ''icmp.eq''"
| "dolir_op_name DOLIR_OP_ICMP_NE = ''icmp.ne''"
| "dolir_op_name DOLIR_OP_ICMP_ULT = ''icmp.ult''"
| "dolir_op_name DOLIR_OP_ICMP_ULE = ''icmp.ule''"
| "dolir_op_name DOLIR_OP_ICMP_SLT = ''icmp.slt''"
| "dolir_op_name DOLIR_OP_ICMP_SLE = ''icmp.sle''"
| "dolir_op_name DOLIR_OP_FCMP_OEQ = ''fcmp.oeq''"
| "dolir_op_name DOLIR_OP_FCMP_OLT = ''fcmp.olt''"
| "dolir_op_name DOLIR_OP_FCMP_OGE = ''fcmp.oge''"
| "dolir_op_name DOLIR_OP_SELECT = ''select''"
| "dolir_op_name DOLIR_OP_FADD = ''fadd''"
| "dolir_op_name DOLIR_OP_FSUB = ''fsub''"
| "dolir_op_name DOLIR_OP_FMUL = ''fmul''"
| "dolir_op_name DOLIR_OP_FDIV = ''fdiv''"
| "dolir_op_name DOLIR_OP_FNEG = ''fneg''"
| "dolir_op_name DOLIR_OP_FABS = ''fabs''"
| "dolir_op_name DOLIR_OP_FPTRUNC = ''fptrunc''"
| "dolir_op_name DOLIR_OP_FPEXT = ''fpext''"
| "dolir_op_name DOLIR_OP_VECTOR_BUILD = ''vector.build''"
| "dolir_op_name DOLIR_OP_VECTOR_EXTRACT = ''vector.extract''"
| "dolir_op_name DOLIR_OP_VECTOR_SHUFFLE = ''vector.shuffle''"
| "dolir_op_name DOLIR_OP_GUEST_LOAD = ''guest.load''"
| "dolir_op_name DOLIR_OP_GUEST_STORE = ''guest.store''"
| "dolir_op_name DOLIR_OP_HELPER_CALL = ''helper.call''"

primrec dolir_address_domain_name :: "DolIRAddressDomain \<Rightarrow> string" where
  "dolir_address_domain_name DOLIR_ADDRESS_UNKNOWN = ''unknown''"
| "dolir_address_domain_name DOLIR_ADDRESS_GUEST_DATA = ''guest-data''"
| "dolir_address_domain_name DOLIR_ADDRESS_MEM1 = ''mem1''"
| "dolir_address_domain_name DOLIR_ADDRESS_MEM2 = ''mem2''"
| "dolir_address_domain_name DOLIR_ADDRESS_PHYSICAL = ''physical''"
| "dolir_address_domain_name DOLIR_ADDRESS_MMIO = ''mmio''"
| "dolir_address_domain_name DOLIR_ADDRESS_FIFO = ''fifo''"

section \<open>The verifier\<close>

text \<open>The diagnostics it prints are left out; the domain and the operand count of the model's
  instructions are in range by their types.\<close>

definition instruction_ok :: "nat \<Rightarrow> DolIRInstruction \<Rightarrow> bool" where
  "instruction_ok value_count i =
     (\<not> (ir_result i \<ge> value_count \<or> length (ir_operands i) > 4) \<and>
      list_all (\<lambda>v. \<not> (v = DOLIR_NO_VALUE \<or> v \<ge> value_count)) (ir_operands i) \<and>
      \<not> ((ir_op i = DOLIR_OP_STATE_READ \<or> ir_op i = DOLIR_OP_STATE_WRITE) \<and>
         unat (ir_aux i) \<ge> DOLIR_STATE_COUNT) \<and>
      \<not> (ir_address_domain i \<noteq> DOLIR_ADDRESS_UNKNOWN \<and> ir_address_lower i > ir_address_upper i))"

definition target_ok :: "nat \<Rightarrow> u32 \<Rightarrow> bool" where
  "target_ok block_count target \<longleftrightarrow>
     \<not> (target \<noteq> DOLIR_NO_BLOCK \<and> unat target \<ge> block_count)"

definition block_ok :: "nat \<Rightarrow> nat \<Rightarrow> DolIRBlock \<Rightarrow> bool" where
  "block_ok value_count block_count blk =
     (term_kind (blk_terminator blk) \<noteq> DOLIR_TERM_NONE \<and>
      list_all (instruction_ok value_count) (blk_instructions blk) \<and>
      target_ok block_count (fst (term_targets (blk_terminator blk))) \<and>
      target_ok block_count (snd (term_targets (blk_terminator blk))))"

definition verify_function :: "DolIRFunction \<Rightarrow> bool" where
  "verify_function f =
     (\<not> (fn_guest_start f \<ge> fn_guest_end f \<or> fn_blocks f = []) \<and>
      list_all (block_ok (length (fn_value_types f)) (length (fn_blocks f))) (fn_blocks f))"

definition dolir_verify :: "DolIRModule \<Rightarrow> bool" where
  "dolir_verify m = (mod_functions m \<noteq> [] \<and> list_all verify_function (mod_functions m))"

section \<open>Laws of the masks\<close>

definition mask_has :: "u64 list \<Rightarrow> nat \<Rightarrow> bool" where
  "mask_has ms slot \<longleftrightarrow> slot div 64 < length ms \<and> bit (ms ! (slot div 64)) (slot mod 64)"

lemma and_one_shl: "(w AND shl 1 n \<noteq> 0) = bit w n" if "n < LENGTH('a)" for w :: "'a::len word"
proof -
  have "w AND shl 1 n = (if bit w n then shl 1 n else 0)"
    by (rule bit_word_eqI) (auto simp: bit_simps)
  moreover have "(shl 1 n :: 'a word) \<noteq> 0"
    using that by (metis bit_0_eq bit_push_bit_iff bit_1_iff bot_apply bot_bool_def diff_self_eq_0 le_refl possible_bit_word)
  ultimately show ?thesis by simp
qed

lemma mask_test_iff:
  assumes "slot < 64 * length ms"
  shows "dolir_state_mask_test ms slot = Some (mask_has ms slot)"
proof -
  have "slot div 64 < length ms" using assms by (simp add: div_less_iff_less_mult mult.commute)
  then show ?thesis
    by (simp add: dolir_state_mask_test_def array_simps and_one_shl mask_has_def del: push_bit_of_1)
qed

lemma mark_has:
  assumes "slot < 64 * length ms"
  shows "\<exists>ms'. mark ms slot = Some ms' \<and> length ms' = length ms \<and>
    (\<forall>s. mask_has ms' s \<longleftrightarrow> s = slot \<or> mask_has ms s)"
proof -
  have *: "slot div 64 < length ms" using assms by (simp add: div_less_iff_less_mult mult.commute)
  let ?m = "ms[slot div 64 := ms ! (slot div 64) OR shl 1 (slot mod 64)]"
  have "mask_has ?m s \<longleftrightarrow> s = slot \<or> mask_has ms s" for s
  proof (cases "s div 64 = slot div 64")
    case True
    then have "(s mod 64 = slot mod 64) = (s = slot)"
      by (metis div_mult_mod_eq)
    then show ?thesis using True *
      by (auto simp: mask_has_def bit_simps)
  next
    case False
    then have "s \<noteq> slot" by auto
    with False show ?thesis by (simp add: mask_has_def)
  qed
  then show ?thesis using * by (simp add: mark_def array_simps)
qed

end
