(* ===== verification/Lower.thy ===== *)
theory Lower
  imports DolIR Decoder "HOL-Library.State_Monad"
begin

text \<open>
  \<open>src/ir/dolir_builder.c\<close>: the lowering of decoded instructions to the intermediate representation.

  The C structure \<open>Builder\<close> is the state of the state monad: the function, the block being filled, the
  heap, and a flag that some step was undefined (a register mask that never closes, effects outside
  the state masks).  \<open>b->inst\<close> is the first argument of every operation.  C leaves the order in which
  the arguments of a call are evaluated open; the model takes them from left to right.
\<close>

section \<open>The builder\<close>

record Builder =
  b_function :: DolIRFunction
  b_block :: DolIRBlock
  b_heap :: heap
  b_undefined :: bool

type_synonym 'a lowering = "(Builder, 'a) state"

abbreviation ret :: "'a \<Rightarrow> 'a lowering" where "ret \<equiv> State_Monad.return"

text \<open>An operation of the representation on the function and block of the builder.\<close>

definition on_block ::
    "'a \<Rightarrow> (DolIRFunction \<Rightarrow> DolIRBlock \<Rightarrow> heap \<Rightarrow> ('a \<times> DolIRFunction \<times> DolIRBlock \<times> heap) option) \<Rightarrow>
     'a lowering" where
  "on_block dflt act = State (\<lambda>b.
     if b_undefined b then (dflt, b)
     else case act (b_function b) (b_block b) (b_heap b) of
         None \<Rightarrow> (dflt, b\<lparr>b_undefined := True\<rparr>)
       | Some (v, f, blk, h) \<Rightarrow> (v, b\<lparr>b_function := f, b_block := blk, b_heap := h\<rparr>))"

definition set_term :: "(DolIRTerminator \<Rightarrow> DolIRTerminator) \<Rightarrow> unit lowering" where
  "set_term upd = State (\<lambda>b. ((), if b_undefined b then b
     else b\<lparr>b_block := (b_block b)\<lparr>blk_terminator := upd (blk_terminator (b_block b))\<rparr>\<rparr>))"

definition get_function :: "DolIRFunction lowering" where
  "get_function = State (\<lambda>b. (b_function b, b))"

text \<open>A computation outside the builder that may not return.\<close>

definition outside :: "u32 option \<Rightarrow> u32 lowering" where
  "outside x = State (\<lambda>b. case x of None \<Rightarrow> (0, b\<lparr>b_undefined := True\<rparr>) | Some v \<Rightarrow> (v, b))"

fun loop_m :: "'i list \<Rightarrow> ('i \<Rightarrow> unit lowering) \<Rightarrow> unit lowering" where
  "loop_m [] f = ret ()"
| "loop_m (i # is) f = do { f i; loop_m is f }"

fun fold_m :: "('i \<Rightarrow> 'v \<Rightarrow> 'v lowering) \<Rightarrow> 'i list \<Rightarrow> 'v \<Rightarrow> 'v lowering" where
  "fold_m f [] v = ret v"
| "fold_m f (i # is) v = do { v \<leftarrow> f i v; fold_m f is v }"

section \<open>Emitting instructions\<close>

definition emit :: "PPCInst \<Rightarrow> DolIROp \<Rightarrow> DolIRType \<Rightarrow> DolIRValue list \<Rightarrow> u64 \<Rightarrow> u32 \<Rightarrow> u32 \<Rightarrow> DolIRValue lowering" where
  "emit i op ty operands immediate aux effects =
     on_block DOLIR_NO_VALUE (\<lambda>f blk h. dolir_append f blk h op ty operands immediate aux (inst_address i) effects)"

definition constant_value :: "PPCInst \<Rightarrow> DolIRType \<Rightarrow> u64 \<Rightarrow> DolIRValue lowering" where
  "constant_value i ty bits =
     on_block DOLIR_NO_VALUE (\<lambda>f blk h. dolir_constant f blk h ty bits (inst_address i))"

definition c32 :: "PPCInst \<Rightarrow> u32 \<Rightarrow> DolIRValue lowering" where
  "c32 i v = constant_value i DOLIR_TYPE_I32 (ucast v)"

definition c64 :: "PPCInst \<Rightarrow> u64 \<Rightarrow> DolIRValue lowering" where
  "c64 i v = constant_value i DOLIR_TYPE_I64 v"

definition c1 :: "PPCInst \<Rightarrow> bool \<Rightarrow> DolIRValue lowering" where
  "c1 i v = constant_value i DOLIR_TYPE_I1 (of_bool v)"

definition read_slot :: "PPCInst \<Rightarrow> DolIRStateSlot \<Rightarrow> DolIRValue lowering" where
  "read_slot i slot =
     on_block DOLIR_NO_VALUE (\<lambda>f blk h. dolir_state_read f blk h slot (inst_address i))"

text \<open>The result of \<open>dolir_state_write\<close> is dropped.\<close>

definition write_slot :: "PPCInst \<Rightarrow> DolIRStateSlot \<Rightarrow> DolIRValue \<Rightarrow> unit lowering" where
  "write_slot i slot v = do {
     _ \<leftarrow> on_block False (\<lambda>f blk h. dolir_state_write f blk h slot v (inst_address i));
     ret ()
   }"

definition get_gpr :: "PPCInst \<Rightarrow> u8 \<Rightarrow> DolIRValue lowering" where
  "get_gpr i reg = read_slot i (DOLIR_STATE_GPR0 + unat reg)"

definition set_gpr :: "PPCInst \<Rightarrow> u8 \<Rightarrow> DolIRValue \<Rightarrow> unit lowering" where
  "set_gpr i reg v = write_slot i (DOLIR_STATE_GPR0 + unat reg) v"

definition get_fpr :: "PPCInst \<Rightarrow> u8 \<Rightarrow> DolIRValue lowering" where
  "get_fpr i reg = read_slot i (DOLIR_STATE_FPR0 + unat reg)"

definition get_ps1 :: "PPCInst \<Rightarrow> u8 \<Rightarrow> DolIRValue lowering" where
  "get_ps1 i reg = read_slot i (DOLIR_STATE_PS1_0 + unat reg)"

definition set_fpr :: "PPCInst \<Rightarrow> u8 \<Rightarrow> DolIRValue \<Rightarrow> unit lowering" where
  "set_fpr i reg v = write_slot i (DOLIR_STATE_FPR0 + unat reg) v"

definition set_ps1 :: "PPCInst \<Rightarrow> u8 \<Rightarrow> DolIRValue \<Rightarrow> unit lowering" where
  "set_ps1 i reg v = write_slot i (DOLIR_STATE_PS1_0 + unat reg) v"

text \<open>A second operand that is no value makes the instruction unary.\<close>

definition emit_op :: "PPCInst \<Rightarrow> DolIROp \<Rightarrow> DolIRType \<Rightarrow> DolIRValue \<Rightarrow> DolIRValue \<Rightarrow> DolIRValue lowering" where
  "emit_op i op ty a c = emit i op ty (if c \<noteq> 0 then [a, c] else [a]) 0 0 DOLIR_EFFECT_NONE"

definition binary :: "PPCInst \<Rightarrow> DolIROp \<Rightarrow> DolIRType \<Rightarrow> DolIRValue \<Rightarrow> DolIRValue \<Rightarrow> DolIRValue lowering" where
  "binary i op ty a c = emit_op i op ty a c"

definition unary :: "PPCInst \<Rightarrow> DolIROp \<Rightarrow> DolIRType \<Rightarrow> DolIRValue \<Rightarrow> DolIRValue lowering" where
  "unary i op ty a = emit_op i op ty a 0"

definition select_value :: "PPCInst \<Rightarrow> DolIRType \<Rightarrow> DolIRValue \<Rightarrow> DolIRValue \<Rightarrow> DolIRValue \<Rightarrow> DolIRValue lowering" where
  "select_value i ty condition yes no =
     emit i DOLIR_OP_SELECT ty [condition, yes, no] 0 0 DOLIR_EFFECT_NONE"

definition trunc_value :: "PPCInst \<Rightarrow> DolIRType \<Rightarrow> DolIRValue \<Rightarrow> DolIRValue lowering" where
  "trunc_value i ty v = unary i DOLIR_OP_TRUNC ty v"

definition zext_value :: "PPCInst \<Rightarrow> DolIRType \<Rightarrow> DolIRValue \<Rightarrow> DolIRValue lowering" where
  "zext_value i ty v = unary i DOLIR_OP_ZEXT ty v"

definition sext_value :: "PPCInst \<Rightarrow> DolIRType \<Rightarrow> DolIRValue \<Rightarrow> DolIRValue lowering" where
  "sext_value i ty v = unary i DOLIR_OP_SEXT ty v"

text \<open>\<open>binary(b, op, type, v, c32(b, k))\<close>, which the code writes throughout.\<close>

definition binary_c32 :: "PPCInst \<Rightarrow> DolIROp \<Rightarrow> DolIRValue \<Rightarrow> u32 \<Rightarrow> DolIRValue lowering" where
  "binary_c32 i op v k = do { c \<leftarrow> c32 i k; binary i op DOLIR_TYPE_I32 v c }"

definition insert_masked :: "PPCInst \<Rightarrow> DolIRValue \<Rightarrow> DolIRValue \<Rightarrow> u32 \<Rightarrow> DolIRValue lowering" where
  "insert_masked i original v m = do {
     kept \<leftarrow> binary_c32 i DOLIR_OP_AND original (NOT m);
     incoming \<leftarrow> binary_c32 i DOLIR_OP_AND v m;
     binary i DOLIR_OP_OR DOLIR_TYPE_I32 kept incoming
   }"

section \<open>Rotate masks\<close>

text \<open>The loop runs until \<open>bit = me\<close>, which a last bit above 31 never is.\<close>

partial_function (option) mask_loop :: "u8 \<Rightarrow> u8 \<Rightarrow> u32 \<Rightarrow> u32 option" where
  "mask_loop b me m =
     (let m = m OR shr 0x80000000 (unat b)
      in if b = me then Some m else mask_loop ((b + 1) AND 31) me m)"

definition ppc_mask32 :: "u8 \<Rightarrow> u8 \<Rightarrow> u32 option" where
  "ppc_mask32 mb me = mask_loop mb me 0"

section \<open>Condition and exception registers\<close>

definition cr_field_slot :: "u8 \<Rightarrow> DolIRStateSlot" where
  "cr_field_slot field = DOLIR_STATE_CR0 + unat field"

definition read_cr_field :: "PPCInst \<Rightarrow> u8 \<Rightarrow> DolIRValue lowering" where
  "read_cr_field i field = read_slot i (cr_field_slot field)"

definition write_cr_field :: "PPCInst \<Rightarrow> u8 \<Rightarrow> DolIRValue \<Rightarrow> unit lowering" where
  "write_cr_field i field v = do {
     v \<leftarrow> binary_c32 i DOLIR_OP_AND v 0xF;
     write_slot i (cr_field_slot field) v
   }"

definition pack_cr :: "PPCInst \<Rightarrow> DolIRValue lowering" where
  "pack_cr i = do {
     packed \<leftarrow> c32 i 0;
     fold_m (\<lambda>field packed. do {
       v \<leftarrow> read_cr_field i (of_nat field);
       v \<leftarrow> binary_c32 i DOLIR_OP_SHL v (28 - 4 * of_nat field);
       binary i DOLIR_OP_OR DOLIR_TYPE_I32 packed v }) [0..<8] packed
   }"

definition pack_xer :: "PPCInst \<Rightarrow> DolIRValue lowering" where
  "pack_xer i = do {
     v \<leftarrow> read_slot i DOLIR_STATE_XER;
     packed \<leftarrow> binary_c32 i DOLIR_OP_AND v (NOT 0xE0000000);
     fold_m (\<lambda>(slot, shift) packed. do {
       bit \<leftarrow> read_slot i slot;
       bit \<leftarrow> zext_value i DOLIR_TYPE_I32 bit;
       bit \<leftarrow> binary_c32 i DOLIR_OP_SHL bit shift;
       binary i DOLIR_OP_OR DOLIR_TYPE_I32 packed bit })
       [(DOLIR_STATE_XER_CA, 29), (DOLIR_STATE_XER_OV, 30), (DOLIR_STATE_XER_SO, 31)] packed
   }"

definition unpack_xer :: "PPCInst \<Rightarrow> DolIRValue \<Rightarrow> unit lowering" where
  "unpack_xer i packed = do {
     v \<leftarrow> binary_c32 i DOLIR_OP_AND packed (NOT 0xE0000000);
     write_slot i DOLIR_STATE_XER v;
     v \<leftarrow> binary_c32 i DOLIR_OP_LSHR packed 29;
     v \<leftarrow> trunc_value i DOLIR_TYPE_I1 v;
     write_slot i DOLIR_STATE_XER_CA v;
     v \<leftarrow> binary_c32 i DOLIR_OP_LSHR packed 30;
     v \<leftarrow> trunc_value i DOLIR_TYPE_I1 v;
     write_slot i DOLIR_STATE_XER_OV v;
     v \<leftarrow> binary_c32 i DOLIR_OP_LSHR packed 31;
     v \<leftarrow> trunc_value i DOLIR_TYPE_I1 v;
     write_slot i DOLIR_STATE_XER_SO v
   }"

text \<open>\<open>select_value(b, I32, condition, c32(b, yes), c32(b, no))\<close>\<close>

definition select_c32 :: "PPCInst \<Rightarrow> DolIRValue \<Rightarrow> u32 \<Rightarrow> u32 \<Rightarrow> DolIRValue lowering" where
  "select_c32 i condition yes no = do {
     y \<leftarrow> c32 i yes;
     n \<leftarrow> c32 i no;
     select_value i DOLIR_TYPE_I32 condition y n
   }"

definition set_cr_field :: "PPCInst \<Rightarrow> u8 \<Rightarrow> DolIRValue \<Rightarrow> DolIRValue \<Rightarrow> bool \<Rightarrow> unit lowering" where
  "set_cr_field i field lhs rhs is_signed = do {
     let lt_op = (if is_signed then DOLIR_OP_ICMP_SLT else DOLIR_OP_ICMP_ULT);
     lt \<leftarrow> binary i lt_op DOLIR_TYPE_I1 lhs rhs;
     gt \<leftarrow> binary i lt_op DOLIR_TYPE_I1 rhs lhs;
     eq \<leftarrow> binary i DOLIR_OP_ICMP_EQ DOLIR_TYPE_I1 lhs rhs;
     bits \<leftarrow> select_c32 i lt 8 0;
     v \<leftarrow> select_c32 i gt 4 0;
     bits \<leftarrow> binary i DOLIR_OP_OR DOLIR_TYPE_I32 bits v;
     v \<leftarrow> select_c32 i eq 2 0;
     bits \<leftarrow> binary i DOLIR_OP_OR DOLIR_TYPE_I32 bits v;
     so \<leftarrow> read_slot i DOLIR_STATE_XER_SO;
     so \<leftarrow> zext_value i DOLIR_TYPE_I32 so;
     bits \<leftarrow> binary i DOLIR_OP_OR DOLIR_TYPE_I32 bits so;
     write_cr_field i field bits
   }"

definition set_cr0 :: "PPCInst \<Rightarrow> DolIRValue \<Rightarrow> unit lowering" where
  "set_cr0 i v = do { z \<leftarrow> c32 i 0; set_cr_field i 0 v z True }"

definition set_cr1_from_fpscr :: "PPCInst \<Rightarrow> unit lowering" where
  "set_cr1_from_fpscr i = do {
     v \<leftarrow> read_slot i DOLIR_STATE_FPSCR;
     v \<leftarrow> binary_c32 i DOLIR_OP_LSHR v 28;
     bits \<leftarrow> binary_c32 i DOLIR_OP_AND v 0xF;
     write_cr_field i 1 bits
   }"

definition fpscr_updated :: "PPCInst \<Rightarrow> unit lowering" where
  "fpscr_updated i = do {
     _ \<leftarrow> emit i DOLIR_OP_HELPER_CALL DOLIR_TYPE_VOID [] 0 DOLIR_HELPER_FPSCR_UPDATED
       (DOLIR_EFFECT_READ_STATE OR DOLIR_EFFECT_WRITE_STATE OR DOLIR_EFFECT_BARRIER);
     ret ()
   }"

abbreviation (input) raising :: u32 where
  "raising \<equiv> DOLIR_EFFECT_MAY_EXIT OR DOLIR_EFFECT_MAY_RAISE OR DOLIR_EFFECT_BARRIER"

definition require_supervisor :: "PPCInst \<Rightarrow> unit lowering" where
  "require_supervisor i = do {
     v \<leftarrow> read_slot i DOLIR_STATE_MSR;
     v \<leftarrow> binary_c32 i DOLIR_OP_AND v (shl 1 14);
     z \<leftarrow> c32 i 0;
     user \<leftarrow> binary i DOLIR_OP_ICMP_NE DOLIR_TYPE_I1 v z;
     _ \<leftarrow> emit i DOLIR_OP_HELPER_CALL DOLIR_TYPE_VOID [user] DOLIR_PROGRAM_PRIV
       DOLIR_HELPER_PROGRAM_EXCEPTION
       (DOLIR_EFFECT_READ_STATE OR DOLIR_EFFECT_WRITE_STATE OR raising);
     ret ()
   }"

definition record_if_needed :: "PPCInst \<Rightarrow> DolIRValue \<Rightarrow> unit lowering" where
  "record_if_needed i v = (if inst_rc i then set_cr0 i v else ret ())"

definition set_xer_ca :: "PPCInst \<Rightarrow> DolIRValue \<Rightarrow> unit lowering" where
  "set_xer_ca i carry = write_slot i DOLIR_STATE_XER_CA carry"

definition xer_ca :: "PPCInst \<Rightarrow> DolIRValue lowering" where
  "xer_ca i = do { v \<leftarrow> read_slot i DOLIR_STATE_XER_CA; zext_value i DOLIR_TYPE_I32 v }"

definition add_wide_with_carry :: "PPCInst \<Rightarrow> DolIRValue \<Rightarrow> DolIRValue \<Rightarrow> DolIRValue \<Rightarrow> DolIRValue lowering" where
  "add_wide_with_carry i a c carry = do {
     a \<leftarrow> zext_value i DOLIR_TYPE_I64 a;
     c \<leftarrow> zext_value i DOLIR_TYPE_I64 c;
     wide \<leftarrow> binary i DOLIR_OP_ADD DOLIR_TYPE_I64 a c;
     if carry \<noteq> 0 then do {
       v \<leftarrow> zext_value i DOLIR_TYPE_I64 carry;
       binary i DOLIR_OP_ADD DOLIR_TYPE_I64 wide v
     } else ret wide
   }"

text \<open>\<open>trunc_value(b, I1, binary(b, LSHR, I64, wide, c64(b, 32)))\<close>\<close>

definition carry_out :: "PPCInst \<Rightarrow> DolIRValue \<Rightarrow> DolIRValue lowering" where
  "carry_out i wide = do {
     c \<leftarrow> c64 i 32;
     v \<leftarrow> binary i DOLIR_OP_LSHR DOLIR_TYPE_I64 wide c;
     trunc_value i DOLIR_TYPE_I1 v
   }"

definition write_carry_result :: "PPCInst \<Rightarrow> u8 \<Rightarrow> DolIRValue \<Rightarrow> bool \<Rightarrow> unit lowering" where
  "write_carry_result i reg wide rec = do {
     result \<leftarrow> trunc_value i DOLIR_TYPE_I32 wide;
     carry \<leftarrow> carry_out i wide;
     set_gpr i reg result;
     set_xer_ca i carry;
     if rec then set_cr0 i result else ret ()
   }"

definition branch_condition :: "PPCInst \<Rightarrow> DolIRValue lowering" where
  "branch_condition i = do {
     ctr_ok \<leftarrow> c1 i True;
     cr_ok \<leftarrow> c1 i True;
     ctr_ok \<leftarrow> (if inst_bo i AND 0x04 = 0 then do {
         v \<leftarrow> read_slot i DOLIR_STATE_CTR;
         ctr \<leftarrow> binary_c32 i DOLIR_OP_SUB v 1;
         write_slot i DOLIR_STATE_CTR ctr;
         z \<leftarrow> c32 i 0;
         nz \<leftarrow> binary i DOLIR_OP_ICMP_NE DOLIR_TYPE_I1 ctr z;
         if shr (inst_bo i) 1 AND 1 \<noteq> 0 then unary i DOLIR_OP_NOT DOLIR_TYPE_I1 nz else ret nz
       } else ret ctr_ok);
     cr_ok \<leftarrow> (if inst_bo i AND 0x10 = 0 then do {
         field \<leftarrow> read_cr_field i (inst_bi i div 4);
         bit \<leftarrow> binary_c32 i DOLIR_OP_AND field (shr 8 (unat (inst_bi i AND 3)));
         z \<leftarrow> c32 i 0;
         set \<leftarrow> binary i DOLIR_OP_ICMP_NE DOLIR_TYPE_I1 bit z;
         if shr (inst_bo i) 3 AND 1 \<noteq> 0 then ret set else unary i DOLIR_OP_NOT DOLIR_TYPE_I1 set
       } else ret cr_ok);
     binary i DOLIR_OP_AND DOLIR_TYPE_I1 ctr_ok cr_ok
   }"

section \<open>Guest memory\<close>

definition effective_address :: "PPCInst \<Rightarrow> bool \<Rightarrow> bool \<Rightarrow> DolIRValue lowering" where
  "effective_address i indexed update = do {
     base \<leftarrow> (if inst_rA i = 0 \<and> \<not> update then c32 i 0 else get_gpr i (inst_rA i));
     offset \<leftarrow> (if indexed then get_gpr i (inst_rB i) else c32 i (scast (inst_simm i)));
     binary i DOLIR_OP_ADD DOLIR_TYPE_I32 base offset
   }"

definition guest_load_typed :: "PPCInst \<Rightarrow> DolIRValue \<Rightarrow> DolIRType \<Rightarrow> u8 \<Rightarrow> bool \<Rightarrow> DolIRValue lowering" where
  "guest_load_typed i address ty width sign =
     emit i DOLIR_OP_GUEST_LOAD ty [address] 0 (ucast width OR (if sign then 0x100 else 0))
       (DOLIR_EFFECT_READ_MEMORY OR DOLIR_EFFECT_MAY_EXIT)"

definition guest_load :: "PPCInst \<Rightarrow> DolIRValue \<Rightarrow> u8 \<Rightarrow> bool \<Rightarrow> DolIRValue lowering" where
  "guest_load i address width sign = guest_load_typed i address DOLIR_TYPE_I32 width sign"

definition guest_store :: "PPCInst \<Rightarrow> DolIRValue \<Rightarrow> DolIRValue \<Rightarrow> u8 \<Rightarrow> unit lowering" where
  "guest_store i address v width = do {
     _ \<leftarrow> emit i DOLIR_OP_GUEST_STORE DOLIR_TYPE_VOID [address, v] 0 (ucast width)
       (DOLIR_EFFECT_WRITE_MEMORY OR DOLIR_EFFECT_MAY_EXIT);
     ret ()
   }"

definition pair_value :: "PPCInst \<Rightarrow> u8 \<Rightarrow> DolIRValue lowering" where
  "pair_value i reg = do {
     a \<leftarrow> get_fpr i reg;
     c \<leftarrow> get_ps1 i reg;
     binary i DOLIR_OP_VECTOR_BUILD DOLIR_TYPE_V2F64 a c
   }"

definition vector_lane :: "PPCInst \<Rightarrow> DolIRValue \<Rightarrow> u32 \<Rightarrow> DolIRValue lowering" where
  "vector_lane i pair lane =
     emit i DOLIR_OP_VECTOR_EXTRACT DOLIR_TYPE_F64 [pair] 0 lane DOLIR_EFFECT_NONE"

definition set_pair :: "PPCInst \<Rightarrow> u8 \<Rightarrow> DolIRValue \<Rightarrow> unit lowering" where
  "set_pair i reg pair = do {
     a \<leftarrow> emit i DOLIR_OP_VECTOR_EXTRACT DOLIR_TYPE_F64 [pair] 0 0 DOLIR_EFFECT_NONE;
     c \<leftarrow> emit i DOLIR_OP_VECTOR_EXTRACT DOLIR_TYPE_F64 [pair] 0 1 DOLIR_EFFECT_NONE;
     set_fpr i reg a;
     set_ps1 i reg c
   }"

section \<open>Cycle costs\<close>

definition dolir_instruction_cycle_cost :: "PPCInst \<Rightarrow> u32" where
  "dolir_instruction_cycle_cost i =
     (if inst_embedded_data i then 0
      else switch_in (inst_op i)
       [([PPC_OP_UNKNOWN], 0),
        ([PPC_OP_DCBST, PPC_OP_DCBF, PPC_OP_DCBI], 5),
        ([PPC_OP_ICBI], 4),
        ([PPC_OP_MULLI], 3),
        ([PPC_OP_SC, PPC_OP_RFI, PPC_OP_TW], 2),
        ([PPC_OP_LMW, PPC_OP_STMW], 11),
        ([PPC_OP_MULLW, PPC_OP_MULLWO, PPC_OP_MULHW, PPC_OP_MULHWU], 5),
        ([PPC_OP_DIVW, PPC_OP_DIVWO, PPC_OP_DIVWU, PPC_OP_DIVWUO], 40),
        ([PPC_OP_DCBZ], 5),
        ([PPC_OP_DCBTST, PPC_OP_DCBT], 2),
        ([PPC_OP_MFSR, PPC_OP_MFSRIN], 3),
        ([PPC_OP_MTSPR], 2),
        ([PPC_OP_SYNC], 3),
        ([PPC_OP_MTFSB0, PPC_OP_MTFSB1, PPC_OP_MTFSF, PPC_OP_MTFSFI], 3),
        ([PPC_OP_FDIVS], 17),
        ([PPC_OP_FDIV], 31),
        ([PPC_OP_PS_DIV], 17),
        ([PPC_OP_PS_RSQRTE], 2)]
       1)"

definition normal_fallthrough :: "PPCInst \<Rightarrow> nat \<Rightarrow> nat \<Rightarrow> unit lowering" where
  "normal_fallthrough i index count =
     set_term (\<lambda>t. t\<lparr>term_kind := DOLIR_TERM_FALLTHROUGH,
       term_targets := (if index + 1 < count then of_nat (index + 1) else DOLIR_NO_BLOCK, snd (term_targets t)),
       term_target_addresses := (inst_address i + 4, snd (term_target_addresses t)),
       term_guest_pc := inst_address i\<rparr>)"

end
