(* ===== verification/IrAddress.thy ===== *)
theory IrAddress
  imports DolIR CpuState
begin

text \<open>
  \<open>src/ir/dolir_address.c\<close>: an interval analysis of the values of a function that classifies the guest
  addresses of its loads and stores.
\<close>

section \<open>Abstract values\<close>

record AbstractValue =
  av_lower :: u64
  av_upper :: u64
  av_bounded :: bool

definition type_width :: "DolIRType \<Rightarrow> nat" where
  "type_width ty = (case ty of
     DOLIR_TYPE_I1 \<Rightarrow> 1 | DOLIR_TYPE_I8 \<Rightarrow> 8 | DOLIR_TYPE_I16 \<Rightarrow> 16
   | DOLIR_TYPE_I32 \<Rightarrow> 32 | DOLIR_TYPE_I64 \<Rightarrow> 64 | _ \<Rightarrow> 0)"

text \<open>\<open>width == 64 ? UINT64_MAX : (1ull << width) - 1ull\<close>\<close>

definition width_maximum :: "nat \<Rightarrow> u64" where
  "width_maximum width = (if width = 64 then 0xFFFFFFFFFFFFFFFF else shl 1 width - 1)"

definition truncate_bits :: "u64 \<Rightarrow> nat \<Rightarrow> u64" where
  "truncate_bits v width = (if width = 64 then v else v AND (shl 1 width - 1))"

definition unknown_value :: AbstractValue where
  "unknown_value = \<lparr>av_lower = 0, av_upper = 0, av_bounded = False\<rparr>"

definition range_value :: "u64 \<Rightarrow> u64 \<Rightarrow> nat \<Rightarrow> AbstractValue" where
  "range_value lower upper width =
     (if lower > upper \<or> upper > width_maximum width then unknown_value
      else \<lparr>av_lower = lower, av_upper = upper, av_bounded = True\<rparr>)"

definition known_value :: "u64 \<Rightarrow> nat \<Rightarrow> AbstractValue" where
  "known_value bits width =
     (let v = truncate_bits bits width in range_value v v width)"

definition exact_value :: "AbstractValue \<Rightarrow> bool" where
  "exact_value v \<longleftrightarrow> av_bounded v \<and> av_lower v = av_upper v"

text \<open>The loop that counts leading zeros: \<open>count\<close> steps are left.\<close>

fun clz_loop :: "u64 \<Rightarrow> nat \<Rightarrow> nat \<Rightarrow> nat" where
  "clz_loop v width 0 = width"
| "clz_loop v width (Suc n) = (if v AND shl 1 n = 0 then clz_loop v width n else width - Suc n)"

definition unary_value :: "DolIRInstruction \<Rightarrow> AbstractValue \<Rightarrow> AbstractValue" where
  "unary_value i operand =
     (let width = type_width (ir_type i)
      in if width = 0 then unknown_value
         else case ir_op i of
             DOLIR_OP_NOT \<Rightarrow>
               if exact_value operand then known_value (NOT (av_lower operand)) width else unknown_value
           | DOLIR_OP_TRUNC \<Rightarrow>
               if av_bounded operand then range_value (av_lower operand) (av_upper operand) width
               else unknown_value
           | DOLIR_OP_ZEXT \<Rightarrow>
               if av_bounded operand then range_value (av_lower operand) (av_upper operand) width
               else unknown_value
           | DOLIR_OP_CLZ \<Rightarrow>
               if \<not> exact_value operand then unknown_value
               else known_value (of_nat (clz_loop (av_lower operand) width width)) width
           | _ \<Rightarrow> unknown_value)"

text \<open>The ranges that need no exact operand.\<close>

definition binary_range :: "DolIROp \<Rightarrow> nat \<Rightarrow> AbstractValue \<Rightarrow> AbstractValue \<Rightarrow> AbstractValue option" where
  "binary_range op width left right =
     (let maximum = width_maximum width
      in case op of
          DOLIR_OP_ADD \<Rightarrow>
            if av_upper left \<le> maximum - av_upper right
            then Some (range_value (av_lower left + av_lower right) (av_upper left + av_upper right) width)
            else None
        | DOLIR_OP_SUB \<Rightarrow>
            if av_lower left \<ge> av_upper right
            then Some (range_value (av_lower left - av_upper right) (av_upper left - av_lower right) width)
            else None
        | DOLIR_OP_LSHR \<Rightarrow>
            if exact_value right \<and> av_lower right < of_nat width
            then let n = unat (av_lower right)
                 in Some (range_value (shr (av_lower left) n) (shr (av_upper left) n) width)
            else None
        | DOLIR_OP_SHL \<Rightarrow>
            if exact_value right \<and> av_lower right < of_nat width \<and>
               av_upper left \<le> shr maximum (unat (av_lower right))
            then let n = unat (av_lower right)
                 in Some (range_value (shl (av_lower left) n) (shl (av_upper left) n) width)
            else None
        | _ \<Rightarrow> None)"

text \<open>The operations on two exact operands.\<close>

definition binary_exact :: "DolIROp \<Rightarrow> nat \<Rightarrow> u64 \<Rightarrow> u64 \<Rightarrow> AbstractValue" where
  "binary_exact op width l r =
     (case op of
        DOLIR_OP_ADD \<Rightarrow> known_value (l + r) width
      | DOLIR_OP_SUB \<Rightarrow> known_value (l - r) width
      | DOLIR_OP_MUL \<Rightarrow> known_value (l * r) width
      | DOLIR_OP_UDIV \<Rightarrow> if r \<noteq> 0 then known_value (l div r) width else unknown_value
      | DOLIR_OP_AND \<Rightarrow> known_value (l AND r) width
      | DOLIR_OP_OR \<Rightarrow> known_value (l OR r) width
      | DOLIR_OP_XOR \<Rightarrow> known_value (l XOR r) width
      | DOLIR_OP_SHL \<Rightarrow> if r < of_nat width then known_value (shl l (unat r)) width else unknown_value
      | DOLIR_OP_LSHR \<Rightarrow> if r < of_nat width then known_value (shr l (unat r)) width else unknown_value
      | DOLIR_OP_ROTL \<Rightarrow>
          let shift = unat ((ucast r :: u32) AND (of_nat width - 1))
          in if shift = 0 then known_value l width
             else known_value (shl l shift OR shr l (width - shift)) width
      | DOLIR_OP_ICMP_EQ \<Rightarrow> known_value (of_bool (l = r)) 1
      | DOLIR_OP_ICMP_NE \<Rightarrow> known_value (of_bool (l \<noteq> r)) 1
      | DOLIR_OP_ICMP_ULT \<Rightarrow> known_value (of_bool (l < r)) 1
      | DOLIR_OP_ICMP_ULE \<Rightarrow> known_value (of_bool (l \<le> r)) 1
      | _ \<Rightarrow> unknown_value)"

definition binary_value :: "DolIRInstruction \<Rightarrow> AbstractValue \<Rightarrow> AbstractValue \<Rightarrow> AbstractValue" where
  "binary_value i left right =
     (let width = type_width (ir_type i); maximum = width_maximum width
      in if width = 0 then unknown_value
         else if ir_op i = DOLIR_OP_AND \<and> \<not> (exact_value left \<and> exact_value right) \<and> exact_value left
           then range_value 0 (av_lower left AND maximum) width
         else if ir_op i = DOLIR_OP_AND \<and> \<not> (exact_value left \<and> exact_value right) \<and> exact_value right
           then range_value 0 (av_lower right AND maximum) width
         else case (if av_bounded left \<and> av_bounded right then binary_range (ir_op i) width left right
                    else None) of
             Some v \<Rightarrow> v
           | None \<Rightarrow>
               if \<not> exact_value left \<or> \<not> exact_value right then unknown_value
               else binary_exact (ir_op i) width (av_lower left) (av_lower right))"

section \<open>Address domains\<close>

definition classify_address :: "u32 \<Rightarrow> DolIRAddressDomain" where
  "classify_address address =
     (if 0xCC008000 \<le> address \<and> address < 0xCC009000 then DOLIR_ADDRESS_FIFO
      else if 0xCC000000 \<le> address \<and> address < 0xCE000000 then DOLIR_ADDRESS_MMIO
      else let normalized = address AND NOT 0x40000000
           in if GC_RAM_BASE \<le> normalized \<and> normalized < GC_RAM_BASE + GC_MAIN_RAM_SIZE
                then DOLIR_ADDRESS_MEM1
              else if WII_MEM2_BASE \<le> normalized \<and> normalized < WII_MEM2_BASE + WII_MEM2_SIZE
                then DOLIR_ADDRESS_MEM2
              else if address < GC_RAM_BASE then DOLIR_ADDRESS_PHYSICAL
              else if address < 0xE0000000 then DOLIR_ADDRESS_GUEST_DATA
              else DOLIR_ADDRESS_UNKNOWN)"

definition range_in_window :: "u32 \<Rightarrow> u32 \<Rightarrow> u32 \<Rightarrow> u32 \<Rightarrow> bool" where
  "range_in_window lower upper base sz \<longleftrightarrow>
     sz \<noteq> 0 \<and> lower \<ge> base \<and> upper \<ge> lower \<and> lower - base < sz \<and> upper - base < sz"

text \<open>The loop runs for the aliases 0 and \<open>0x40000000\<close>.\<close>

definition window_domain :: "u32 \<Rightarrow> u32 \<Rightarrow> u32 \<Rightarrow> DolIRAddressDomain option" where
  "window_domain lower upper alias =
     (if range_in_window lower upper (GC_RAM_BASE OR alias) GC_MAIN_RAM_SIZE then Some DOLIR_ADDRESS_MEM1
      else if range_in_window lower upper (WII_MEM2_BASE OR alias) WII_MEM2_SIZE then Some DOLIR_ADDRESS_MEM2
      else None)"

definition classify_range :: "u32 \<Rightarrow> u32 \<Rightarrow> DolIRAddressDomain" where
  "classify_range lower upper =
     (if lower = upper then classify_address lower
      else case window_domain lower upper 0 of
          Some d \<Rightarrow> d
        | None \<Rightarrow> (case window_domain lower upper 0x40000000 of
              Some d \<Rightarrow> d
            | None \<Rightarrow> DOLIR_ADDRESS_UNKNOWN))"

section \<open>Regions\<close>

definition terminator_target_count :: "DolIRTerminatorKind \<Rightarrow> nat" where
  "terminator_target_count kind =
     (if kind = DOLIR_TERM_COND_BRANCH \<or> kind = DOLIR_TERM_INDIRECT then 2
      else if kind = DOLIR_TERM_BRANCH then 1 else 0)"

definition term_target :: "DolIRTerminator \<Rightarrow> nat \<Rightarrow> u32" where
  "term_target t slot = (if slot = 0 then fst (term_targets t) else snd (term_targets t))"

definition leader_body :: "DolIRFunction \<Rightarrow> nat \<Rightarrow> bool list \<Rightarrow> bool list option" where
  "leader_body f index leaders = do {
     blk \<leftarrow> arr_get (fn_blocks f) index;
     let t = blk_terminator blk;
     leaders \<leftarrow> (if term_kind t = DOLIR_TERM_FALLBACK then arr_set leaders index True else Some leaders);
     leaders \<leftarrow> (if index + 1 < length (fn_blocks f) \<and> term_kind t \<noteq> DOLIR_TERM_FALLTHROUGH
                 then arr_set leaders (index + 1) True else Some leaders);
     for_each [0..<terminator_target_count (term_kind t)] (\<lambda>slot leaders.
       if term_target t slot \<noteq> DOLIR_NO_BLOCK then arr_set leaders (unat (term_target t slot)) True
       else Some leaders) leaders
   }"

definition find_region_leaders :: "DolIRFunction \<Rightarrow> bool list \<Rightarrow> bool list option" where
  "find_region_leaders f leaders = do {
     leaders \<leftarrow> arr_set leaders 0 True;
     for_each [0..<length (fn_blocks f)] (leader_body f) leaders
   }"

section \<open>The analysis\<close>

text \<open>Operands that an instruction does not have are zero.\<close>

definition operand :: "DolIRInstruction \<Rightarrow> nat \<Rightarrow> DolIRValue" where
  "operand i n = (if n < length (ir_operands i) then ir_operands i ! n else 0)"

definition instruction_value ::
    "DolIRInstruction \<Rightarrow> AbstractValue list \<Rightarrow> AbstractValue list \<Rightarrow> AbstractValue option" where
  "instruction_value i vs st =
     (let width = type_width (ir_type i); count = length (ir_operands i)
      in if ir_op i = DOLIR_OP_CONSTANT \<and> width \<noteq> 0 then Some (known_value (ir_immediate i) width)
         else if ir_op i = DOLIR_OP_STATE_READ then arr_get st (unat (ir_aux i))
         else if count = 1 then do { v \<leftarrow> arr_get vs (operand i 0); Some (unary_value i v) }
         else if count = 2 then do {
           l \<leftarrow> arr_get vs (operand i 0);
           r \<leftarrow> arr_get vs (operand i 1);
           Some (binary_value i l r)
         }
         else if ir_op i = DOLIR_OP_SELECT \<and> count = 3 then do {
           condition \<leftarrow> arr_get vs (operand i 0);
           yes \<leftarrow> arr_get vs (operand i 1);
           no \<leftarrow> arr_get vs (operand i 2);
           Some (if exact_value condition then (if av_lower condition \<noteq> 0 then yes else no)
                 else if av_bounded yes \<and> av_bounded no
                   then range_value (if av_lower yes < av_lower no then av_lower yes else av_lower no)
                          (if av_upper yes > av_upper no then av_upper yes else av_upper no) width
                 else unknown_value)
         }
         else Some unknown_value)"

definition annotate :: "DolIRInstruction \<Rightarrow> AbstractValue list \<Rightarrow> DolIRInstruction option" where
  "annotate i vs =
     (let i = i\<lparr>ir_address_domain := DOLIR_ADDRESS_UNKNOWN, ir_address_lower := 0, ir_address_upper := 0\<rparr>
      in if ir_op i = DOLIR_OP_GUEST_LOAD \<or> ir_op i = DOLIR_OP_GUEST_STORE then do {
           v \<leftarrow> arr_get vs (operand i 0);
           if av_bounded v \<and> av_upper v \<le> 0xFFFFFFFF then
             let lower = ucast (av_lower v); upper = ucast (av_upper v);
                 domain = classify_range lower upper
             in Some (if domain \<noteq> DOLIR_ADDRESS_UNKNOWN
                  then i\<lparr>ir_address_domain := domain, ir_address_lower := lower, ir_address_upper := upper\<rparr>
                  else i\<lparr>ir_address_domain := domain\<rparr>)
           else Some i
         } else Some i)"

type_synonym analysis = "AbstractValue list \<times> AbstractValue list" \<comment> \<open>\<open>values\<close> and \<open>state\<close>\<close>

definition analyze_instruction :: "DolIRInstruction \<Rightarrow> analysis \<Rightarrow> (DolIRInstruction \<times> analysis) option" where
  "analyze_instruction i a = (case a of (vs, st) \<Rightarrow> do {
     i \<leftarrow> annotate i vs;
     result \<leftarrow> instruction_value i vs st;
     vs \<leftarrow> (if ir_result i \<noteq> 0 then arr_set vs (ir_result i) result else Some vs);
     st \<leftarrow> (if ir_op i = DOLIR_OP_STATE_WRITE then do {
              v \<leftarrow> arr_get vs (operand i 0);
              arr_set st (unat (ir_aux i)) v
            } else Some st);
     st \<leftarrow> for_each [0..<DOLIR_STATE_COUNT] (\<lambda>slot st. do {
         defined \<leftarrow> dolir_state_mask_test (ir_state_defs i) slot;
         if defined \<and> \<not> (ir_op i = DOLIR_OP_STATE_WRITE \<and> unat (ir_aux i) = slot)
         then arr_set st slot unknown_value else Some st }) st;
     Some (i, vs, st)
   })"

fun analyze_instructions ::
    "DolIRInstruction list \<Rightarrow> analysis \<Rightarrow> (DolIRInstruction list \<times> analysis) option" where
  "analyze_instructions [] a = Some ([], a)"
| "analyze_instructions (i # is) a = do {
     (i, a) \<leftarrow> analyze_instruction i a;
     (is, a) \<leftarrow> analyze_instructions is a;
     Some (i # is, a)
   }"

definition unknown_state :: "AbstractValue list" where
  "unknown_state = replicate DOLIR_STATE_COUNT unknown_value"

fun analyze_blocks :: "bool list \<Rightarrow> DolIRBlock list \<Rightarrow> analysis \<Rightarrow> (DolIRBlock list \<times> analysis) option" where
  "analyze_blocks (leader # ls) (blk # bs) (vs, st) = do {
     let st = (if leader then unknown_state else st);
     (is, a) \<leftarrow> analyze_instructions (blk_instructions blk) (vs, st);
     (bs, a) \<leftarrow> analyze_blocks ls bs a;
     Some (blk\<lparr>blk_instructions := is\<rparr> # bs, a)
   }"
| "analyze_blocks _ bs a = Some (bs, a)"

text \<open>\<open>alloc1\<close> and \<open>alloc2\<close> are the outcomes of the two \<open>calloc\<close> calls.\<close>

definition dolir_analyze_addresses :: "bool \<Rightarrow> bool \<Rightarrow> DolIRFunction \<Rightarrow> DolIRFunction option" where
  "dolir_analyze_addresses alloc1 alloc2 f =
     (if fn_blocks f = [] \<or> fn_value_types f = [] then Some f
      else if \<not> alloc1 \<or> \<not> alloc2 then Some f
      else do {
        leaders \<leftarrow> find_region_leaders f (replicate (length (fn_blocks f)) False);
        (bs, _) \<leftarrow> analyze_blocks leaders (fn_blocks f)
          (replicate (length (fn_value_types f)) unknown_value, unknown_state);
        Some (f\<lparr>fn_blocks := bs\<rparr>)
      })"

end
