(* ===== verification/Lowering.thy ===== *)
theory Lowering
  imports Lower IrAddress
begin

text \<open>
  The second half of \<open>src/ir/dolir_builder.c\<close>: one lowering per group of instructions, each telling
  whether it knew the instruction, and \<open>dolir_build_chunk\<close>, which lowers every instruction of a chunk
  into a block of its own.
\<close>

section \<open>Integer instructions\<close>

definition simm32 :: "PPCInst \<Rightarrow> u32" where "simm32 i = scast (inst_simm i)"

definition trap_condition :: "PPCInst \<Rightarrow> DolIRValue \<Rightarrow> DolIRValue \<Rightarrow> DolIRValue lowering" where
  "trap_condition i a c = do {
     condition \<leftarrow> c1 i False;
     fold_m (\<lambda>(flag, op, x, y) condition.
         if inst_to i AND flag \<noteq> 0 then do {
           v \<leftarrow> binary i op DOLIR_TYPE_I1 x y;
           binary i DOLIR_OP_OR DOLIR_TYPE_I1 condition v
         } else ret condition)
       [(0x10, DOLIR_OP_ICMP_SLT, a, c), (0x08, DOLIR_OP_ICMP_SLT, c, a),
        (0x04, DOLIR_OP_ICMP_EQ, a, c), (0x02, DOLIR_OP_ICMP_ULT, a, c),
        (0x01, DOLIR_OP_ICMP_ULT, c, a)] condition
   }"

definition lower_trap :: "PPCInst \<Rightarrow> bool lowering" where
  "lower_trap i = do {
     a \<leftarrow> get_gpr i (inst_rA i);
     c \<leftarrow> (if inst_op i = PPC_OP_TWI then c32 i (simm32 i) else get_gpr i (inst_rB i));
     condition \<leftarrow> trap_condition i a c;
     _ \<leftarrow> emit i DOLIR_OP_HELPER_CALL DOLIR_TYPE_VOID [condition] DOLIR_PROGRAM_TRAP
       DOLIR_HELPER_PROGRAM_EXCEPTION
       (DOLIR_EFFECT_READ_STATE OR DOLIR_EFFECT_WRITE_STATE OR raising);
     ret True
   }"

definition lower_mulli :: "PPCInst \<Rightarrow> bool lowering" where
  "lower_mulli i = do {
     a \<leftarrow> get_gpr i (inst_rA i);
     a \<leftarrow> sext_value i DOLIR_TYPE_I64 a;
     c \<leftarrow> c64 i (scast (inst_simm i));
     wide \<leftarrow> binary i DOLIR_OP_MUL DOLIR_TYPE_I64 a c;
     result \<leftarrow> trunc_value i DOLIR_TYPE_I32 wide;
     set_gpr i (inst_rD i) result;
     ret True
   }"

definition lower_subfic :: "PPCInst \<Rightarrow> bool lowering" where
  "lower_subfic i = do {
     a \<leftarrow> get_gpr i (inst_rA i);
     a \<leftarrow> unary i DOLIR_OP_NOT DOLIR_TYPE_I32 a;
     c \<leftarrow> c32 i (simm32 i);
     one \<leftarrow> c32 i 1;
     wide \<leftarrow> add_wide_with_carry i a c one;
     write_carry_result i (inst_rD i) wide False;
     ret True
   }"

definition lower_addic :: "PPCInst \<Rightarrow> bool lowering" where
  "lower_addic i = do {
     a \<leftarrow> get_gpr i (inst_rA i);
     c \<leftarrow> c32 i (simm32 i);
     wide \<leftarrow> add_wide_with_carry i a c 0;
     write_carry_result i (inst_rD i) wide (inst_op i = PPC_OP_ADDIC_DOT);
     ret True
   }"

definition lower_addi :: "PPCInst \<Rightarrow> bool lowering" where
  "lower_addi i = do {
     a \<leftarrow> (if inst_rA i \<noteq> 0 then get_gpr i (inst_rA i) else c32 i 0);
     c \<leftarrow> c32 i (if inst_op i = PPC_OP_ADDIS then shl (simm32 i) 16 else simm32 i);
     v \<leftarrow> binary i DOLIR_OP_ADD DOLIR_TYPE_I32 a c;
     set_gpr i (inst_rD i) v;
     ret True
   }"

definition lower_logical_imm :: "PPCInst \<Rightarrow> bool lowering" where
  "lower_logical_imm i = do {
     let imm = (if inst_op i \<in> {PPC_OP_ORIS, PPC_OP_XORIS, PPC_OP_ANDIS}
                then shl (ucast (inst_uimm i)) 16 else ucast (inst_uimm i));
     let op = (if inst_op i \<in> {PPC_OP_ORI, PPC_OP_ORIS} then DOLIR_OP_OR
               else if inst_op i \<in> {PPC_OP_XORI, PPC_OP_XORIS} then DOLIR_OP_XOR else DOLIR_OP_AND);
     s \<leftarrow> get_gpr i (inst_rS i);
     result \<leftarrow> binary_c32 i op s imm;
     set_gpr i (inst_rA i) result;
     (if op = DOLIR_OP_AND then set_cr0 i result else ret ());
     ret True
   }"

definition lower_compare :: "PPCInst \<Rightarrow> bool lowering" where
  "lower_compare i = do {
     a \<leftarrow> get_gpr i (inst_rA i);
     c \<leftarrow> (if inst_op i = PPC_OP_CMPI then c32 i (simm32 i)
           else if inst_op i = PPC_OP_CMPLI then c32 i (ucast (inst_uimm i))
           else get_gpr i (inst_rB i));
     set_cr_field i (inst_crfD i) a c (inst_op i \<in> {PPC_OP_CMPI, PPC_OP_CMP});
     ret True
   }"

definition lower_add :: "PPCInst \<Rightarrow> bool lowering" where
  "lower_add i =
     (if inst_oe i then ret False
      else do {
        a \<leftarrow> get_gpr i (inst_rA i);
        c \<leftarrow> get_gpr i (inst_rB i);
        result \<leftarrow> (if inst_op i \<in> {PPC_OP_ADDC, PPC_OP_ADDCO, PPC_OP_ADDE, PPC_OP_ADDEO} then do {
            za \<leftarrow> zext_value i DOLIR_TYPE_I64 a;
            zc \<leftarrow> zext_value i DOLIR_TYPE_I64 c;
            wide \<leftarrow> binary i DOLIR_OP_ADD DOLIR_TYPE_I64 za zc;
            wide \<leftarrow> (if inst_op i \<in> {PPC_OP_ADDE, PPC_OP_ADDEO} then do {
                ca \<leftarrow> xer_ca i;
                ca \<leftarrow> zext_value i DOLIR_TYPE_I64 ca;
                binary i DOLIR_OP_ADD DOLIR_TYPE_I64 wide ca
              } else ret wide);
            result \<leftarrow> trunc_value i DOLIR_TYPE_I32 wide;
            carry \<leftarrow> carry_out i wide;
            set_xer_ca i carry;
            ret result
          } else binary i DOLIR_OP_ADD DOLIR_TYPE_I32 a c);
        set_gpr i (inst_rD i) result;
        record_if_needed i result;
        ret True
      })"

definition lower_subf :: "PPCInst \<Rightarrow> bool lowering" where
  "lower_subf i =
     (if inst_oe i then ret False
      else do {
        a \<leftarrow> get_gpr i (inst_rA i);
        c \<leftarrow> get_gpr i (inst_rB i);
        result \<leftarrow> (if inst_op i \<in> {PPC_OP_SUBFC, PPC_OP_SUBFCO, PPC_OP_SUBFE, PPC_OP_SUBFEO} then do {
            not_a \<leftarrow> unary i DOLIR_OP_NOT DOLIR_TYPE_I32 a;
            za \<leftarrow> zext_value i DOLIR_TYPE_I64 not_a;
            zc \<leftarrow> zext_value i DOLIR_TYPE_I64 c;
            wide \<leftarrow> binary i DOLIR_OP_ADD DOLIR_TYPE_I64 za zc;
            carry_in \<leftarrow> c32 i (if inst_op i \<in> {PPC_OP_SUBFC, PPC_OP_SUBFCO} then 1 else 0);
            carry_in \<leftarrow> (if inst_op i \<in> {PPC_OP_SUBFE, PPC_OP_SUBFEO} then xer_ca i else ret carry_in);
            zi \<leftarrow> zext_value i DOLIR_TYPE_I64 carry_in;
            wide \<leftarrow> binary i DOLIR_OP_ADD DOLIR_TYPE_I64 wide zi;
            result \<leftarrow> trunc_value i DOLIR_TYPE_I32 wide;
            carry \<leftarrow> carry_out i wide;
            set_xer_ca i carry;
            ret result
          } else binary i DOLIR_OP_SUB DOLIR_TYPE_I32 c a);
        set_gpr i (inst_rD i) result;
        record_if_needed i result;
        ret True
      })"

definition lower_neg :: "PPCInst \<Rightarrow> bool lowering" where
  "lower_neg i = do {
     z \<leftarrow> c32 i 0;
     a \<leftarrow> get_gpr i (inst_rA i);
     result \<leftarrow> binary i DOLIR_OP_SUB DOLIR_TYPE_I32 z a;
     set_gpr i (inst_rD i) result;
     record_if_needed i result;
     ret True
   }"

definition lower_extended :: "PPCInst \<Rightarrow> bool lowering" where
  "lower_extended i = do {
     a \<leftarrow> get_gpr i (inst_rA i);
     a \<leftarrow> (if inst_op i \<in> {PPC_OP_SUBFME, PPC_OP_SUBFZE}
           then unary i DOLIR_OP_NOT DOLIR_TYPE_I32 a else ret a);
     c \<leftarrow> c32 i (if inst_op i \<in> {PPC_OP_ADDME, PPC_OP_SUBFME} then 0xFFFFFFFF else 0);
     ca \<leftarrow> xer_ca i;
     wide \<leftarrow> add_wide_with_carry i a c ca;
     write_carry_result i (inst_rD i) wide (inst_rc i);
     ret True
   }"

definition lower_logical :: "PPCInst \<Rightarrow> bool lowering" where
  "lower_logical i = do {
     a \<leftarrow> get_gpr i (inst_rS i);
     c \<leftarrow> get_gpr i (inst_rB i);
     c \<leftarrow> (if inst_op i \<in> {PPC_OP_ANDC, PPC_OP_ORC}
           then unary i DOLIR_OP_NOT DOLIR_TYPE_I32 c else ret c);
     let op = (if inst_op i \<in> {PPC_OP_AND, PPC_OP_ANDC, PPC_OP_NAND} then DOLIR_OP_AND
               else if inst_op i \<in> {PPC_OP_OR, PPC_OP_ORC, PPC_OP_NOR} then DOLIR_OP_OR
               else DOLIR_OP_XOR);
     result \<leftarrow> binary i op DOLIR_TYPE_I32 a c;
     result \<leftarrow> (if inst_op i \<in> {PPC_OP_NAND, PPC_OP_NOR, PPC_OP_EQV}
           then unary i DOLIR_OP_NOT DOLIR_TYPE_I32 result else ret result);
     set_gpr i (inst_rA i) result;
     record_if_needed i result;
     ret True
   }"

definition lower_exts :: "PPCInst \<Rightarrow> bool lowering" where
  "lower_exts i = do {
     s \<leftarrow> get_gpr i (inst_rS i);
     a \<leftarrow> trunc_value i (if inst_op i = PPC_OP_EXTSB then DOLIR_TYPE_I8 else DOLIR_TYPE_I16) s;
     result \<leftarrow> sext_value i DOLIR_TYPE_I32 a;
     set_gpr i (inst_rA i) result;
     record_if_needed i result;
     ret True
   }"

definition lower_cntlzw :: "PPCInst \<Rightarrow> bool lowering" where
  "lower_cntlzw i = do {
     s \<leftarrow> get_gpr i (inst_rS i);
     result \<leftarrow> unary i DOLIR_OP_CLZ DOLIR_TYPE_I32 s;
     set_gpr i (inst_rA i) result;
     record_if_needed i result;
     ret True
   }"

definition lower_rotate :: "PPCInst \<Rightarrow> bool lowering" where
  "lower_rotate i = do {
     shift \<leftarrow> (if inst_op i = PPC_OP_RLWNM then get_gpr i (inst_rB i) else c32 i (ucast (inst_sh i)));
     s \<leftarrow> get_gpr i (inst_rS i);
     result \<leftarrow> binary i DOLIR_OP_ROTL DOLIR_TYPE_I32 s shift;
     m \<leftarrow> outside (ppc_mask32 (inst_mb i) (inst_me i));
     result \<leftarrow> binary_c32 i DOLIR_OP_AND result m;
     result \<leftarrow> (if inst_op i = PPC_OP_RLWIMI then do {
         a \<leftarrow> get_gpr i (inst_rA i);
         kept \<leftarrow> binary_c32 i DOLIR_OP_AND a (NOT m);
         binary i DOLIR_OP_OR DOLIR_TYPE_I32 kept result
       } else ret result);
     set_gpr i (inst_rA i) result;
     record_if_needed i result;
     ret True
   }"

definition lower_shift :: "PPCInst \<Rightarrow> bool lowering" where
  "lower_shift i = do {
     b \<leftarrow> get_gpr i (inst_rB i);
     sh \<leftarrow> binary_c32 i DOLIR_OP_AND b 0x3F;
     limit \<leftarrow> c32 i 31;
     too_big \<leftarrow> binary i DOLIR_OP_ICMP_ULT DOLIR_TYPE_I1 limit sh;
     s \<leftarrow> get_gpr i (inst_rS i);
     safe \<leftarrow> binary_c32 i DOLIR_OP_AND sh 31;
     result \<leftarrow> binary i (if inst_op i = PPC_OP_SLW then DOLIR_OP_SHL else DOLIR_OP_LSHR) DOLIR_TYPE_I32 s safe;
     z \<leftarrow> c32 i 0;
     result \<leftarrow> select_value i DOLIR_TYPE_I32 too_big z result;
     set_gpr i (inst_rA i) result;
     record_if_needed i result;
     ret True
   }"

definition lower_sraw :: "PPCInst \<Rightarrow> bool lowering" where
  "lower_sraw i = do {
     v \<leftarrow> get_gpr i (inst_rS i);
     sh \<leftarrow> (if inst_op i = PPC_OP_SRAWI then c32 i (ucast (inst_sh i))
            else do { b \<leftarrow> get_gpr i (inst_rB i); binary_c32 i DOLIR_OP_AND b 0x3F });
     safe_sh \<leftarrow> binary_c32 i DOLIR_OP_AND sh 31;
     z \<leftarrow> c32 i 0;
     sign \<leftarrow> binary i DOLIR_OP_ICMP_SLT DOLIR_TYPE_I1 v z;
     limit \<leftarrow> c32 i 31;
     too_big \<leftarrow> binary i DOLIR_OP_ICMP_ULT DOLIR_TYPE_I1 limit sh;
     shifted \<leftarrow> binary i DOLIR_OP_ASHR DOLIR_TYPE_I32 v safe_sh;
     fill \<leftarrow> select_c32 i sign 0xFFFFFFFF 0;
     result \<leftarrow> select_value i DOLIR_TYPE_I32 too_big fill shifted;
     one \<leftarrow> c32 i 1;
     power \<leftarrow> binary i DOLIR_OP_SHL DOLIR_TYPE_I32 one safe_sh;
     low_mask \<leftarrow> binary_c32 i DOLIR_OP_SUB power 1;
     lost \<leftarrow> binary i DOLIR_OP_AND DOLIR_TYPE_I32 v low_mask;
     z \<leftarrow> c32 i 0;
     lost \<leftarrow> binary i DOLIR_OP_ICMP_NE DOLIR_TYPE_I1 lost z;
     ca \<leftarrow> binary i DOLIR_OP_AND DOLIR_TYPE_I1 sign lost;
     ca \<leftarrow> select_value i DOLIR_TYPE_I1 too_big sign ca;
     set_gpr i (inst_rA i) result;
     set_xer_ca i ca;
     record_if_needed i result;
     ret True
   }"

definition lower_mul :: "PPCInst \<Rightarrow> bool lowering" where
  "lower_mul i = do {
     let ext = (if inst_op i = PPC_OP_MULHWU then zext_value i DOLIR_TYPE_I64 else sext_value i DOLIR_TYPE_I64);
     a \<leftarrow> get_gpr i (inst_rA i);
     a \<leftarrow> ext a;
     c \<leftarrow> get_gpr i (inst_rB i);
     c \<leftarrow> ext c;
     result \<leftarrow> binary i DOLIR_OP_MUL DOLIR_TYPE_I64 a c;
     result \<leftarrow> (if inst_op i \<noteq> PPC_OP_MULLW
       then do { k \<leftarrow> c64 i 32; binary i DOLIR_OP_LSHR DOLIR_TYPE_I64 result k } else ret result);
     result \<leftarrow> trunc_value i DOLIR_TYPE_I32 result;
     set_gpr i (inst_rD i) result;
     record_if_needed i result;
     ret True
   }"

definition lower_div :: "PPCInst \<Rightarrow> bool lowering" where
  "lower_div i = do {
     a \<leftarrow> get_gpr i (inst_rA i);
     c \<leftarrow> get_gpr i (inst_rB i);
     z \<leftarrow> c32 i 0;
     zero \<leftarrow> binary i DOLIR_OP_ICMP_EQ DOLIR_TYPE_I1 c z;
     invalid \<leftarrow> (if inst_op i = PPC_OP_DIVW then do {
         k \<leftarrow> c32 i 0x80000000;
         min \<leftarrow> binary i DOLIR_OP_ICMP_EQ DOLIR_TYPE_I1 a k;
         k \<leftarrow> c32 i 0xFFFFFFFF;
         neg_one \<leftarrow> binary i DOLIR_OP_ICMP_EQ DOLIR_TYPE_I1 c k;
         both \<leftarrow> binary i DOLIR_OP_AND DOLIR_TYPE_I1 min neg_one;
         binary i DOLIR_OP_OR DOLIR_TYPE_I1 zero both
       } else ret zero);
     one \<leftarrow> c32 i 1;
     safe_divisor \<leftarrow> select_value i DOLIR_TYPE_I32 invalid one c;
     result \<leftarrow> binary i (if inst_op i = PPC_OP_DIVW then DOLIR_OP_SDIV else DOLIR_OP_UDIV)
       DOLIR_TYPE_I32 a safe_divisor;
     result \<leftarrow> (if inst_op i = PPC_OP_DIVW then do {
         z \<leftarrow> c32 i 0;
         negative \<leftarrow> binary i DOLIR_OP_ICMP_SLT DOLIR_TYPE_I1 a z;
         fill \<leftarrow> select_c32 i negative 0xFFFFFFFF 0;
         select_value i DOLIR_TYPE_I32 invalid fill result
       } else do { z \<leftarrow> c32 i 0; select_value i DOLIR_TYPE_I32 invalid z result });
     set_gpr i (inst_rD i) result;
     record_if_needed i result;
     ret True
   }"

definition lower_integer :: "PPCInst \<Rightarrow> bool lowering" where
  "lower_integer i = switch_in (inst_op i)
     [([PPC_OP_TWI, PPC_OP_TW], lower_trap i),
      ([PPC_OP_MULLI], lower_mulli i),
      ([PPC_OP_SUBFIC], lower_subfic i),
      ([PPC_OP_ADDIC, PPC_OP_ADDIC_DOT], lower_addic i),
      ([PPC_OP_ADDI, PPC_OP_ADDIS], lower_addi i),
      ([PPC_OP_ORI, PPC_OP_ORIS, PPC_OP_XORI, PPC_OP_XORIS, PPC_OP_ANDI, PPC_OP_ANDIS], lower_logical_imm i),
      ([PPC_OP_CMPI, PPC_OP_CMPLI, PPC_OP_CMP, PPC_OP_CMPL], lower_compare i),
      ([PPC_OP_ADD, PPC_OP_ADDC, PPC_OP_ADDE, PPC_OP_ADDCO, PPC_OP_ADDEO], lower_add i),
      ([PPC_OP_SUBF, PPC_OP_SUBFC, PPC_OP_SUBFE, PPC_OP_SUBFO, PPC_OP_SUBFCO, PPC_OP_SUBFEO], lower_subf i),
      ([PPC_OP_NEG], lower_neg i),
      ([PPC_OP_ADDME, PPC_OP_ADDZE, PPC_OP_SUBFME, PPC_OP_SUBFZE], lower_extended i),
      ([PPC_OP_AND, PPC_OP_ANDC, PPC_OP_OR, PPC_OP_ORC, PPC_OP_XOR, PPC_OP_NAND, PPC_OP_NOR, PPC_OP_EQV],
        lower_logical i),
      ([PPC_OP_EXTSB, PPC_OP_EXTSH], lower_exts i),
      ([PPC_OP_CNTLZW], lower_cntlzw i),
      ([PPC_OP_RLWINM, PPC_OP_RLWNM, PPC_OP_RLWIMI], lower_rotate i),
      ([PPC_OP_SLW, PPC_OP_SRW], lower_shift i),
      ([PPC_OP_SRAW, PPC_OP_SRAWI], lower_sraw i),
      ([PPC_OP_MULLW, PPC_OP_MULHW, PPC_OP_MULHWU], lower_mul i),
      ([PPC_OP_DIVW, PPC_OP_DIVWU], lower_div i)]
     (ret False)"

section \<open>Memory instructions\<close>

text \<open>The first switch of \<open>lower_memory\<close>: load, width, sign, reverse, indexed, update.\<close>

definition memory_form :: "PPCOpcode \<Rightarrow> (bool \<times> u8 \<times> bool \<times> bool \<times> bool \<times> bool) option" where
  "memory_form op = switch_in op
     [([PPC_OP_LWZ], Some (True, 4, False, False, False, False)),
      ([PPC_OP_LWZU], Some (True, 4, False, False, False, True)),
      ([PPC_OP_LBZ], Some (True, 1, False, False, False, False)),
      ([PPC_OP_LBZU], Some (True, 1, False, False, False, True)),
      ([PPC_OP_LHZ], Some (True, 2, False, False, False, False)),
      ([PPC_OP_LHZU], Some (True, 2, False, False, False, True)),
      ([PPC_OP_LHA], Some (True, 2, True, False, False, False)),
      ([PPC_OP_LHAU], Some (True, 2, True, False, False, True)),
      ([PPC_OP_LWZX], Some (True, 4, False, False, True, False)),
      ([PPC_OP_LWZUX], Some (True, 4, False, False, True, True)),
      ([PPC_OP_LBZX], Some (True, 1, False, False, True, False)),
      ([PPC_OP_LBZUX], Some (True, 1, False, False, True, True)),
      ([PPC_OP_LHZX], Some (True, 2, False, False, True, False)),
      ([PPC_OP_LHZUX], Some (True, 2, False, False, True, True)),
      ([PPC_OP_LHAX], Some (True, 2, True, False, True, False)),
      ([PPC_OP_LHAUX], Some (True, 2, True, False, True, True)),
      ([PPC_OP_LWBRX], Some (True, 4, False, True, True, False)),
      ([PPC_OP_LHBRX], Some (True, 2, False, True, True, False)),
      ([PPC_OP_STW], Some (False, 4, False, False, False, False)),
      ([PPC_OP_STWU], Some (False, 4, False, False, False, True)),
      ([PPC_OP_STB], Some (False, 1, False, False, False, False)),
      ([PPC_OP_STBU], Some (False, 1, False, False, False, True)),
      ([PPC_OP_STH], Some (False, 2, False, False, False, False)),
      ([PPC_OP_STHU], Some (False, 2, False, False, False, True)),
      ([PPC_OP_STWX], Some (False, 4, False, False, True, False)),
      ([PPC_OP_STWUX], Some (False, 4, False, False, True, True)),
      ([PPC_OP_STBX], Some (False, 1, False, False, True, False)),
      ([PPC_OP_STBUX], Some (False, 1, False, False, True, True)),
      ([PPC_OP_STHX], Some (False, 2, False, False, True, False)),
      ([PPC_OP_STHUX], Some (False, 2, False, False, True, True)),
      ([PPC_OP_STWBRX], Some (False, 4, False, True, True, False)),
      ([PPC_OP_STHBRX], Some (False, 2, False, True, True, False))]
     None"

definition lower_simple_memory :: "PPCInst \<Rightarrow> bool \<times> u8 \<times> bool \<times> bool \<times> bool \<times> bool \<Rightarrow> bool lowering" where
  "lower_simple_memory i form = (case form of (load, width, sign, reverse, indexed, update) \<Rightarrow> do {
     address \<leftarrow> effective_address i indexed update;
     (if load then do {
       v \<leftarrow> guest_load i address width sign;
       v \<leftarrow> (if reverse then unary i DOLIR_OP_BSWAP DOLIR_TYPE_I32 v else ret v);
       set_gpr i (inst_rD i) v
     } else do {
       v \<leftarrow> get_gpr i (inst_rS i);
       v \<leftarrow> (if reverse then unary i DOLIR_OP_BSWAP DOLIR_TYPE_I32 v else ret v);
       guest_store i address v width
     });
     (if update then set_gpr i (inst_rA i) address else ret ());
     ret True
   })"

definition lower_multiple :: "PPCInst \<Rightarrow> bool lowering" where
  "lower_multiple i = do {
     address \<leftarrow> effective_address i False False;
     let first = unat (if inst_op i = PPC_OP_LMW then inst_rD i else inst_rS i);
     loop_m [first..<32] (\<lambda>reg. do {
       ea \<leftarrow> binary_c32 i DOLIR_OP_ADD address (4 * of_nat (reg - first));
       (if inst_op i = PPC_OP_LMW then do {
         v \<leftarrow> guest_load i ea 4 False;
         set_gpr i (of_nat reg) v
       } else do {
         v \<leftarrow> get_gpr i (of_nat reg);
         guest_store i ea v 4
       }) });
     ret True
   }"

definition lower_lwarx :: "PPCInst \<Rightarrow> bool lowering" where
  "lower_lwarx i = do {
     address \<leftarrow> effective_address i True False;
     v \<leftarrow> guest_load i address 4 False;
     set_gpr i (inst_rD i) v;
     write_slot i DOLIR_STATE_RESERVE_ADDR address;
     v \<leftarrow> c1 i True;
     write_slot i DOLIR_STATE_RESERVE_VALID v;
     ret True
   }"

definition lower_stwcx :: "PPCInst \<Rightarrow> bool lowering" where
  "lower_stwcx i = do {
     address \<leftarrow> effective_address i True False;
     s \<leftarrow> get_gpr i (inst_rS i);
     _ \<leftarrow> emit i DOLIR_OP_HELPER_CALL DOLIR_TYPE_VOID [address, s] (ucast (inst_rS i))
       DOLIR_HELPER_STORE_CONDITIONAL
       (DOLIR_EFFECT_READ_STATE OR DOLIR_EFFECT_WRITE_STATE OR DOLIR_EFFECT_WRITE_MEMORY OR raising);
     ret True
   }"

definition lower_dcbz :: "PPCInst \<Rightarrow> bool lowering" where
  "lower_dcbz i = do {
     address \<leftarrow> effective_address i True False;
     address \<leftarrow> binary_c32 i DOLIR_OP_AND address (NOT 31);
     loop_m (map (\<lambda>k. 4 * of_nat k) [0..<8]) (\<lambda>offset. do {
       ea \<leftarrow> binary_c32 i DOLIR_OP_ADD address offset;
       z \<leftarrow> c32 i 0;
       guest_store i ea z 4 });
     ret True
   }"

definition lower_lswx :: "PPCInst \<Rightarrow> bool lowering" where
  "lower_lswx i = do {
     let descriptor = ucast (inst_rD i) OR shl (ucast (inst_rA i)) 8 OR shl (ucast (inst_rB i)) 16;
     _ \<leftarrow> emit i DOLIR_OP_HELPER_CALL DOLIR_TYPE_VOID [] descriptor DOLIR_HELPER_LSWX
       (DOLIR_EFFECT_READ_STATE OR DOLIR_EFFECT_WRITE_STATE OR DOLIR_EFFECT_READ_MEMORY OR raising);
     ret True
   }"

definition lower_dcbz_l :: "PPCInst \<Rightarrow> bool lowering" where
  "lower_dcbz_l i = do {
     address \<leftarrow> effective_address i True False;
     _ \<leftarrow> emit i DOLIR_OP_HELPER_CALL DOLIR_TYPE_VOID [address] 0 DOLIR_HELPER_DCBZ_L
       (DOLIR_EFFECT_READ_STATE OR DOLIR_EFFECT_WRITE_STATE OR DOLIR_EFFECT_WRITE_MEMORY OR raising);
     ret True
   }"

abbreviation (input) memory_effects :: u32 where
  "memory_effects \<equiv> DOLIR_EFFECT_READ_STATE OR DOLIR_EFFECT_WRITE_STATE OR
     DOLIR_EFFECT_READ_MEMORY OR DOLIR_EFFECT_WRITE_MEMORY"

definition lower_external :: "PPCInst \<Rightarrow> bool lowering" where
  "lower_external i = do {
     address \<leftarrow> effective_address i True False;
     operands \<leftarrow> (if inst_op i = PPC_OP_ECOWX
       then do { s \<leftarrow> get_gpr i (inst_rS i); ret [address, s] } else ret [address]);
     v \<leftarrow> emit i DOLIR_OP_HELPER_CALL (if inst_op i = PPC_OP_ECIWX then DOLIR_TYPE_I32 else DOLIR_TYPE_VOID)
       operands 0 (if inst_op i = PPC_OP_ECIWX then DOLIR_HELPER_ECIWX else DOLIR_HELPER_ECOWX)
       (memory_effects OR raising);
     (if inst_op i = PPC_OP_ECIWX then set_gpr i (inst_rD i) v else ret ());
     ret True
   }"

definition lower_cache_control :: "PPCInst \<Rightarrow> bool lowering" where
  "lower_cache_control i = do {
     let operation = (if inst_op i = PPC_OP_DCBST then 0 else if inst_op i = PPC_OP_DCBF then 1
                      else if inst_op i = PPC_OP_DCBI then 2 else 3);
     address \<leftarrow> effective_address i True False;
     _ \<leftarrow> emit i DOLIR_OP_HELPER_CALL DOLIR_TYPE_VOID [address] operation DOLIR_HELPER_CACHE_CONTROL
       (memory_effects OR raising);
     ret True
   }"

definition lower_memory :: "PPCInst \<Rightarrow> bool lowering" where
  "lower_memory i =
     (case memory_form (inst_op i) of
        Some form \<Rightarrow> lower_simple_memory i form
      | None \<Rightarrow> switch_in (inst_op i)
         [([PPC_OP_LMW, PPC_OP_STMW], lower_multiple i),
          ([PPC_OP_LWARX], lower_lwarx i),
          ([PPC_OP_STWCX], lower_stwcx i),
          ([PPC_OP_DCBZ], lower_dcbz i),
          ([PPC_OP_LSWX], lower_lswx i),
          ([PPC_OP_DCBZ_L], lower_dcbz_l i),
          ([PPC_OP_ECIWX, PPC_OP_ECOWX], lower_external i),
          ([PPC_OP_DCBST, PPC_OP_DCBF, PPC_OP_DCBI, PPC_OP_ICBI], lower_cache_control i)]
         (ret (inst_op i = PPC_OP_DCBT \<or> inst_op i = PPC_OP_DCBTST)))"

section \<open>Floating point memory instructions\<close>

definition lower_stfiwx :: "PPCInst \<Rightarrow> bool lowering" where
  "lower_stfiwx i = do {
     address \<leftarrow> effective_address i True False;
     f \<leftarrow> get_fpr i (inst_rS i);
     bits \<leftarrow> unary i DOLIR_OP_BITCAST DOLIR_TYPE_I64 f;
     v \<leftarrow> trunc_value i DOLIR_TYPE_I32 bits;
     guest_store i address v 4;
     ret True
   }"

text \<open>The switch of \<open>lower_float_memory\<close>: load, single, indexed, update.\<close>

definition float_memory_form :: "PPCOpcode \<Rightarrow> (bool \<times> bool \<times> bool \<times> bool) option" where
  "float_memory_form op = switch_in op
     [([PPC_OP_LFS], Some (True, True, False, False)),
      ([PPC_OP_LFSU], Some (True, True, False, True)),
      ([PPC_OP_LFD], Some (True, False, False, False)),
      ([PPC_OP_LFDU], Some (True, False, False, True)),
      ([PPC_OP_LFSX], Some (True, True, True, False)),
      ([PPC_OP_LFSUX], Some (True, True, True, True)),
      ([PPC_OP_LFDX], Some (True, False, True, False)),
      ([PPC_OP_LFDUX], Some (True, False, True, True)),
      ([PPC_OP_STFS], Some (False, True, False, False)),
      ([PPC_OP_STFSU], Some (False, True, False, True)),
      ([PPC_OP_STFD], Some (False, False, False, False)),
      ([PPC_OP_STFDU], Some (False, False, False, True)),
      ([PPC_OP_STFSX], Some (False, True, True, False)),
      ([PPC_OP_STFSUX], Some (False, True, True, True)),
      ([PPC_OP_STFDX], Some (False, False, True, False)),
      ([PPC_OP_STFDUX], Some (False, False, True, True))]
     None"

definition lower_float_access :: "PPCInst \<Rightarrow> bool \<times> bool \<times> bool \<times> bool \<Rightarrow> bool lowering" where
  "lower_float_access i form = (case form of (load, single, indexed, update) \<Rightarrow> do {
     address \<leftarrow> effective_address i indexed update;
     (if load then do {
       bits \<leftarrow> guest_load_typed i address (if single then DOLIR_TYPE_I32 else DOLIR_TYPE_I64)
         (if single then 4 else 8) False;
       v \<leftarrow> unary i DOLIR_OP_BITCAST (if single then DOLIR_TYPE_F32 else DOLIR_TYPE_F64) bits;
       v \<leftarrow> (if single then unary i DOLIR_OP_FPEXT DOLIR_TYPE_F64 v else ret v);
       set_fpr i (inst_rD i) v;
       (if single then set_ps1 i (inst_rD i) v else ret ())
     } else do {
       v \<leftarrow> get_fpr i (inst_rS i);
       v \<leftarrow> (if single then unary i DOLIR_OP_FPTRUNC DOLIR_TYPE_F32 v else ret v);
       bits \<leftarrow> unary i DOLIR_OP_BITCAST (if single then DOLIR_TYPE_I32 else DOLIR_TYPE_I64) v;
       guest_store i address bits (if single then 4 else 8)
     });
     (if update then set_gpr i (inst_rA i) address else ret ());
     ret True
   })"

definition lower_float_memory :: "PPCInst \<Rightarrow> bool lowering" where
  "lower_float_memory i =
     (if inst_op i = PPC_OP_STFIWX then lower_stfiwx i
      else case float_memory_form (inst_op i) of
          None \<Rightarrow> ret False
        | Some form \<Rightarrow> lower_float_access i form)"

text \<open>load, indexed, update\<close>

definition psq_form :: "PPCOpcode \<Rightarrow> (bool \<times> bool \<times> bool) option" where
  "psq_form op = switch_in op
     [([PPC_OP_PSQ_L], Some (True, False, False)),
      ([PPC_OP_PSQ_LU], Some (True, False, True)),
      ([PPC_OP_PSQ_LX], Some (True, True, False)),
      ([PPC_OP_PSQ_LUX], Some (True, True, True)),
      ([PPC_OP_PSQ_ST], Some (False, False, False)),
      ([PPC_OP_PSQ_STU], Some (False, False, True)),
      ([PPC_OP_PSQ_STX], Some (False, True, False)),
      ([PPC_OP_PSQ_STUX], Some (False, True, True))]
     None"

definition psq_descriptor :: "PPCInst \<Rightarrow> bool \<Rightarrow> bool \<Rightarrow> u64" where
  "psq_descriptor i load indexed =
     ucast (if load then inst_rD i else inst_rS i) OR shl (ucast (inst_w i)) 8 OR
     shl (ucast (inst_i i)) 9 OR shl (of_bool indexed) 12"

definition lower_psq :: "PPCInst \<Rightarrow> bool lowering" where
  "lower_psq i = (case psq_form (inst_op i) of
     None \<Rightarrow> ret False
   | Some (load, indexed, update) \<Rightarrow> do {
       address \<leftarrow> effective_address i indexed update;
       success \<leftarrow> emit i DOLIR_OP_HELPER_CALL DOLIR_TYPE_I1 [address] (psq_descriptor i load indexed)
         (if load then DOLIR_HELPER_PSQ_LOAD else DOLIR_HELPER_PSQ_STORE) (memory_effects OR raising);
       (if update then do {
          a \<leftarrow> get_gpr i (inst_rA i);
          v \<leftarrow> select_value i DOLIR_TYPE_I32 success address a;
          set_gpr i (inst_rA i) v
        } else ret ());
       ret True
     })"

section \<open>Floating point instructions\<close>

text \<open>The tail of most floating point cases.\<close>

definition record_cr1 :: "PPCInst \<Rightarrow> unit lowering" where
  "record_cr1 i = (if inst_rc i then set_cr1_from_fpscr i else ret ())"

definition lower_mtfsb :: "PPCInst \<Rightarrow> bool lowering" where
  "lower_mtfsb i = do {
     _ \<leftarrow> emit i DOLIR_OP_HELPER_CALL DOLIR_TYPE_VOID []
       (ucast (inst_rD i) OR shl (of_bool (inst_op i = PPC_OP_MTFSB1)) 8) DOLIR_HELPER_FPSCR_BIT
       (DOLIR_EFFECT_READ_STATE OR DOLIR_EFFECT_WRITE_STATE OR DOLIR_EFFECT_BARRIER);
     record_cr1 i;
     ret True
   }"

definition lower_mffs :: "PPCInst \<Rightarrow> bool lowering" where
  "lower_mffs i = do {
     k \<leftarrow> c64 i 0xFFF8000000000000;
     v \<leftarrow> read_slot i DOLIR_STATE_FPSCR;
     v \<leftarrow> zext_value i DOLIR_TYPE_I64 v;
     bits \<leftarrow> binary i DOLIR_OP_OR DOLIR_TYPE_I64 k v;
     f \<leftarrow> unary i DOLIR_OP_BITCAST DOLIR_TYPE_F64 bits;
     set_fpr i (inst_rD i) f;
     record_cr1 i;
     ret True
   }"

text \<open>\<open>4u * (7u - field)\<close>\<close>

definition field_shift :: "u8 \<Rightarrow> u32" where
  "field_shift field = 4 * (7 - ucast field)"

definition lower_mcrfs :: "PPCInst \<Rightarrow> bool lowering" where
  "lower_mcrfs i = do {
     let source_shift = field_shift (inst_crfS i);
     fps \<leftarrow> read_slot i DOLIR_STATE_FPSCR;
     v \<leftarrow> binary_c32 i DOLIR_OP_LSHR fps source_shift;
     field \<leftarrow> binary_c32 i DOLIR_OP_AND v 0xF;
     v \<leftarrow> binary_c32 i DOLIR_OP_AND fps (NOT (shl 0xF (unat source_shift) AND 0x83F80700));
     write_slot i DOLIR_STATE_FPSCR v;
     fpscr_updated i;
     write_cr_field i (inst_crfD i) field;
     ret True
   }"

definition lower_mtfsfi :: "PPCInst \<Rightarrow> bool lowering" where
  "lower_mtfsfi i = do {
     let shift = unat (field_shift (inst_crfD i));
     v \<leftarrow> c32 i (shl (ucast (inst_imm i)) shift);
     fps \<leftarrow> read_slot i DOLIR_STATE_FPSCR;
     v \<leftarrow> insert_masked i fps v (shl 0xF shift);
     write_slot i DOLIR_STATE_FPSCR v;
     fpscr_updated i;
     record_cr1 i;
     ret True
   }"

definition mtfsf_mask :: "u8 \<Rightarrow> u32" where
  "mtfsf_mask fm = foldl (\<lambda>m field. if fm AND shl 1 field \<noteq> 0 then m OR shl 0xF (field * 4) else m) 0 [0..<8]"

definition lower_mtfsf :: "PPCInst \<Rightarrow> bool lowering" where
  "lower_mtfsf i = do {
     f \<leftarrow> get_fpr i (inst_rB i);
     v \<leftarrow> unary i DOLIR_OP_BITCAST DOLIR_TYPE_I64 f;
     source \<leftarrow> trunc_value i DOLIR_TYPE_I32 v;
     fps \<leftarrow> read_slot i DOLIR_STATE_FPSCR;
     v \<leftarrow> insert_masked i fps source (mtfsf_mask (inst_fm i));
     write_slot i DOLIR_STATE_FPSCR v;
     fpscr_updated i;
     record_cr1 i;
     ret True
   }"

text \<open>The operation byte and the register bytes of the descriptor.\<close>

definition exact_descriptor :: "PPCInst \<Rightarrow> u64 \<Rightarrow> u64" where
  "exact_descriptor i exact =
     exact OR shl (ucast (inst_rD i)) 8 OR shl (ucast (inst_rA i)) 16 OR shl (ucast (inst_rB i)) 24 OR
     shl (ucast (inst_rC i)) 32 OR shl (ucast (inst_crfD i)) 40"

definition exact_float_op :: "PPCOpcode \<Rightarrow> u64 option" where
  "exact_float_op op = switch op
     [(PPC_OP_FRES, Some DOLIR_EXACT_FRES), (PPC_OP_FRSQRTE, Some DOLIR_EXACT_FRSQRTE),
      (PPC_OP_FMADD, Some DOLIR_EXACT_FMADD), (PPC_OP_FMSUB, Some DOLIR_EXACT_FMSUB),
      (PPC_OP_FNMADD, Some DOLIR_EXACT_FNMADD), (PPC_OP_FNMSUB, Some DOLIR_EXACT_FNMSUB),
      (PPC_OP_FMADDS, Some DOLIR_EXACT_FMADDS), (PPC_OP_FMSUBS, Some DOLIR_EXACT_FMSUBS),
      (PPC_OP_FNMADDS, Some DOLIR_EXACT_FNMADDS), (PPC_OP_FNMSUBS, Some DOLIR_EXACT_FNMSUBS),
      (PPC_OP_FCTIW, Some DOLIR_EXACT_FCTIW), (PPC_OP_FCTIWZ, Some DOLIR_EXACT_FCTIWZ),
      (PPC_OP_FCMPU, Some DOLIR_EXACT_FCMPU), (PPC_OP_FCMPO, Some DOLIR_EXACT_FCMPO),
      (PPC_OP_FADDS, Some DOLIR_EXACT_FADDS), (PPC_OP_FSUBS, Some DOLIR_EXACT_FSUBS),
      (PPC_OP_FMULS, Some DOLIR_EXACT_FMULS), (PPC_OP_FDIVS, Some DOLIR_EXACT_FDIVS),
      (PPC_OP_FADD, Some DOLIR_EXACT_FADD), (PPC_OP_FSUB, Some DOLIR_EXACT_FSUB),
      (PPC_OP_FMUL, Some DOLIR_EXACT_FMUL), (PPC_OP_FDIV, Some DOLIR_EXACT_FDIV),
      (PPC_OP_FRSP, Some DOLIR_EXACT_FRSP)]
     None"

definition emit_exact :: "PPCInst \<Rightarrow> u64 \<Rightarrow> u32 \<Rightarrow> bool lowering" where
  "emit_exact i exact helper = do {
     _ \<leftarrow> emit i DOLIR_OP_HELPER_CALL DOLIR_TYPE_VOID [] (exact_descriptor i exact) helper
       (DOLIR_EFFECT_READ_STATE OR DOLIR_EFFECT_WRITE_STATE OR DOLIR_EFFECT_BARRIER);
     record_cr1 i;
     ret True
   }"

text \<open>The moves, negations and selections that follow the exact operations.\<close>

definition float_move_value :: "PPCInst \<Rightarrow> DolIRValue lowering option" where
  "float_move_value i = switch (inst_op i)
     [(PPC_OP_FMR, Some (get_fpr i (inst_rB i))),
      (PPC_OP_FNEG, Some (do { f \<leftarrow> get_fpr i (inst_rB i); unary i DOLIR_OP_FNEG DOLIR_TYPE_F64 f })),
      (PPC_OP_FABS, Some (do { f \<leftarrow> get_fpr i (inst_rB i); unary i DOLIR_OP_FABS DOLIR_TYPE_F64 f })),
      (PPC_OP_FNABS, Some (do {
         f \<leftarrow> get_fpr i (inst_rB i);
         f \<leftarrow> unary i DOLIR_OP_FABS DOLIR_TYPE_F64 f;
         unary i DOLIR_OP_FNEG DOLIR_TYPE_F64 f })),
      (PPC_OP_FSEL, Some (do {
         a \<leftarrow> get_fpr i (inst_rA i);
         z \<leftarrow> c64 i 0;
         z \<leftarrow> unary i DOLIR_OP_BITCAST DOLIR_TYPE_F64 z;
         condition \<leftarrow> binary i DOLIR_OP_FCMP_OGE DOLIR_TYPE_I1 a z;
         c \<leftarrow> get_fpr i (inst_rC i);
         b \<leftarrow> get_fpr i (inst_rB i);
         select_value i DOLIR_TYPE_F64 condition c b }))]
     None"

definition lower_float :: "PPCInst \<Rightarrow> bool lowering" where
  "lower_float i = switch_in (inst_op i)
     [([PPC_OP_MTFSB0, PPC_OP_MTFSB1], lower_mtfsb i),
      ([PPC_OP_MFFS], lower_mffs i),
      ([PPC_OP_MCRFS], lower_mcrfs i),
      ([PPC_OP_MTFSFI], lower_mtfsfi i),
      ([PPC_OP_MTFSF], lower_mtfsf i)]
     (case exact_float_op (inst_op i) of
        Some exact \<Rightarrow> emit_exact i exact DOLIR_HELPER_EXACT_FLOAT
      | None \<Rightarrow> (case float_move_value i of
          None \<Rightarrow> ret False
        | Some act \<Rightarrow> do {
            v \<leftarrow> act;
            set_fpr i (inst_rD i) v;
            record_cr1 i;
            ret True
          }))"

section \<open>Paired single instructions\<close>

definition exact_paired_op :: "PPCOpcode \<Rightarrow> u64 option" where
  "exact_paired_op op = switch op
     [(PPC_OP_PS_ADD, Some DOLIR_EXACT_PS_ADD), (PPC_OP_PS_SUB, Some DOLIR_EXACT_PS_SUB),
      (PPC_OP_PS_MUL, Some DOLIR_EXACT_PS_MUL), (PPC_OP_PS_DIV, Some DOLIR_EXACT_PS_DIV),
      (PPC_OP_PS_MADD, Some DOLIR_EXACT_PS_MADD), (PPC_OP_PS_MSUB, Some DOLIR_EXACT_PS_MSUB),
      (PPC_OP_PS_NMADD, Some DOLIR_EXACT_PS_NMADD), (PPC_OP_PS_NMSUB, Some DOLIR_EXACT_PS_NMSUB),
      (PPC_OP_PS_MADDS0, Some DOLIR_EXACT_PS_MADDS0), (PPC_OP_PS_MADDS1, Some DOLIR_EXACT_PS_MADDS1),
      (PPC_OP_PS_SUM0, Some DOLIR_EXACT_PS_SUM0), (PPC_OP_PS_SUM1, Some DOLIR_EXACT_PS_SUM1),
      (PPC_OP_PS_MULS0, Some DOLIR_EXACT_PS_MULS0), (PPC_OP_PS_MULS1, Some DOLIR_EXACT_PS_MULS1),
      (PPC_OP_PS_RES, Some DOLIR_EXACT_PS_RES), (PPC_OP_PS_RSQRTE, Some DOLIR_EXACT_PS_RSQRTE),
      (PPC_OP_PS_CMPU0, Some DOLIR_EXACT_PS_CMPU0), (PPC_OP_PS_CMPO0, Some DOLIR_EXACT_PS_CMPO0),
      (PPC_OP_PS_CMPU1, Some DOLIR_EXACT_PS_CMPU1), (PPC_OP_PS_CMPO1, Some DOLIR_EXACT_PS_CMPO1)]
     None"

definition paired_merge :: "PPCInst \<Rightarrow> DolIRValue lowering" where
  "paired_merge i = do {
     let left = of_bool (inst_op i \<in> {PPC_OP_PS_MERGE10, PPC_OP_PS_MERGE11});
     let right = of_bool (inst_op i \<in> {PPC_OP_PS_MERGE01, PPC_OP_PS_MERGE11});
     a \<leftarrow> pair_value i (inst_rA i);
     b \<leftarrow> pair_value i (inst_rB i);
     emit i DOLIR_OP_VECTOR_SHUFFLE DOLIR_TYPE_V2F64 [a, b] 0 (left OR shl (right + 2) 8) DOLIR_EFFECT_NONE
   }"

text \<open>One lane of \<open>ps_sel\<close>.\<close>

definition paired_sel_lane :: "PPCInst \<Rightarrow> DolIRValue \<Rightarrow> DolIRValue \<Rightarrow> DolIRValue \<Rightarrow> DolIRValue \<Rightarrow> u32 \<Rightarrow> DolIRValue lowering" where
  "paired_sel_lane i va vb vc zero lane = do {
     a \<leftarrow> vector_lane i va lane;
     condition \<leftarrow> binary i DOLIR_OP_FCMP_OGE DOLIR_TYPE_I1 a zero;
     c \<leftarrow> vector_lane i vc lane;
     b \<leftarrow> vector_lane i vb lane;
     select_value i DOLIR_TYPE_F64 condition c b
   }"

definition paired_sel :: "PPCInst \<Rightarrow> DolIRValue lowering" where
  "paired_sel i = do {
     va \<leftarrow> pair_value i (inst_rA i);
     vb \<leftarrow> pair_value i (inst_rB i);
     vc \<leftarrow> pair_value i (inst_rC i);
     z \<leftarrow> c64 i 0;
     zero \<leftarrow> unary i DOLIR_OP_BITCAST DOLIR_TYPE_F64 z;
     lo \<leftarrow> paired_sel_lane i va vb vc zero 0;
     hi \<leftarrow> paired_sel_lane i va vb vc zero 1;
     binary i DOLIR_OP_VECTOR_BUILD DOLIR_TYPE_V2F64 lo hi
   }"

definition paired_move_value :: "PPCInst \<Rightarrow> DolIRValue lowering option" where
  "paired_move_value i = switch_in (inst_op i)
     [([PPC_OP_PS_NEG], Some (do { p \<leftarrow> pair_value i (inst_rB i); unary i DOLIR_OP_FNEG DOLIR_TYPE_V2F64 p })),
      ([PPC_OP_PS_ABS], Some (do { p \<leftarrow> pair_value i (inst_rB i); unary i DOLIR_OP_FABS DOLIR_TYPE_V2F64 p })),
      ([PPC_OP_PS_NABS], Some (do {
         p \<leftarrow> pair_value i (inst_rB i);
         p \<leftarrow> unary i DOLIR_OP_FABS DOLIR_TYPE_V2F64 p;
         unary i DOLIR_OP_FNEG DOLIR_TYPE_V2F64 p })),
      ([PPC_OP_PS_MR], Some (pair_value i (inst_rB i))),
      ([PPC_OP_PS_MERGE00, PPC_OP_PS_MERGE01, PPC_OP_PS_MERGE10, PPC_OP_PS_MERGE11], Some (paired_merge i)),
      ([PPC_OP_PS_SEL], Some (paired_sel i))]
     None"

definition lower_paired :: "PPCInst \<Rightarrow> bool lowering" where
  "lower_paired i =
     (case exact_paired_op (inst_op i) of
        Some exact \<Rightarrow> emit_exact i exact DOLIR_HELPER_EXACT_PAIRED
      | None \<Rightarrow> (case paired_move_value i of
          None \<Rightarrow> ret False
        | Some act \<Rightarrow> do {
            v \<leftarrow> act;
            set_pair i (inst_rD i) v;
            record_cr1 i;
            ret True
          }))"

section \<open>System state instructions\<close>

definition spr_slot :: "u16 \<Rightarrow> DolIRStateSlot option" where
  "spr_slot spr = switch spr
     [(8, Some DOLIR_STATE_LR), (9, Some DOLIR_STATE_CTR), (18, Some DOLIR_STATE_DSISR),
      (19, Some DOLIR_STATE_DAR), (26, Some DOLIR_STATE_SRR0), (27, Some DOLIR_STATE_SRR1),
      (282, Some DOLIR_STATE_EAR), (920, Some DOLIR_STATE_HID2)]
     (if 912 \<le> spr \<and> spr \<le> 919 then Some (DOLIR_STATE_GQR0 + unat (spr - 912)) else None)"

definition lower_mtcrf :: "PPCInst \<Rightarrow> bool lowering" where
  "lower_mtcrf i = do {
     loop_m [0..<8] (\<lambda>field.
       if inst_crm i AND shr 0x80 field \<noteq> 0 then do {
         s \<leftarrow> get_gpr i (inst_rS i);
         v \<leftarrow> binary_c32 i DOLIR_OP_LSHR s (28 - 4 * of_nat field);
         write_cr_field i (of_nat field) v
       } else ret ());
     ret True
   }"

definition lower_mcrf :: "PPCInst \<Rightarrow> bool lowering" where
  "lower_mcrf i = do {
     v \<leftarrow> read_cr_field i (inst_crfS i);
     write_cr_field i (inst_crfD i) v;
     ret True
   }"

text \<open>\<open>binary(b, SHL, I32, zext_value(b, I32, read_slot(b, slot)), c32(b, shift))\<close>\<close>

definition shifted_flag :: "PPCInst \<Rightarrow> DolIRStateSlot \<Rightarrow> u32 \<Rightarrow> DolIRValue lowering" where
  "shifted_flag i slot shift = do {
     v \<leftarrow> read_slot i slot;
     v \<leftarrow> zext_value i DOLIR_TYPE_I32 v;
     binary_c32 i DOLIR_OP_SHL v shift
   }"

definition clear_flag :: "PPCInst \<Rightarrow> DolIRStateSlot \<Rightarrow> unit lowering" where
  "clear_flag i slot = do { v \<leftarrow> c1 i False; write_slot i slot v }"

definition lower_mcrxr :: "PPCInst \<Rightarrow> bool lowering" where
  "lower_mcrxr i = do {
     field \<leftarrow> shifted_flag i DOLIR_STATE_XER_SO 3;
     v \<leftarrow> shifted_flag i DOLIR_STATE_XER_OV 2;
     field \<leftarrow> binary i DOLIR_OP_OR DOLIR_TYPE_I32 field v;
     v \<leftarrow> shifted_flag i DOLIR_STATE_XER_CA 1;
     field \<leftarrow> binary i DOLIR_OP_OR DOLIR_TYPE_I32 field v;
     write_cr_field i (inst_crfD i) field;
     clear_flag i DOLIR_STATE_XER_CA;
     clear_flag i DOLIR_STATE_XER_OV;
     clear_flag i DOLIR_STATE_XER_SO;
     ret True
   }"

text \<open>A bit of the condition register as a value.\<close>

definition cr_bit :: "PPCInst \<Rightarrow> u8 \<Rightarrow> DolIRValue lowering" where
  "cr_bit i reg = do {
     field \<leftarrow> read_cr_field i (reg div 4);
     v \<leftarrow> binary_c32 i DOLIR_OP_LSHR field (3 - (ucast reg AND 3));
     binary_c32 i DOLIR_OP_AND v 1
   }"

definition lower_cr_logical :: "PPCInst \<Rightarrow> bool lowering" where
  "lower_cr_logical i = do {
     av \<leftarrow> cr_bit i (inst_rA i);
     bv \<leftarrow> cr_bit i (inst_rB i);
     bv \<leftarrow> (if inst_op i \<in> {PPC_OP_CRANDC, PPC_OP_CRORC} then binary_c32 i DOLIR_OP_XOR bv 1 else ret bv);
     let op = (if inst_op i \<in> {PPC_OP_CRAND, PPC_OP_CRANDC, PPC_OP_CRNAND} then DOLIR_OP_AND
               else if inst_op i \<in> {PPC_OP_CROR, PPC_OP_CRORC, PPC_OP_CRNOR} then DOLIR_OP_OR
               else DOLIR_OP_XOR);
     v \<leftarrow> binary i op DOLIR_TYPE_I32 av bv;
     v \<leftarrow> (if inst_op i \<in> {PPC_OP_CREQV, PPC_OP_CRNAND, PPC_OP_CRNOR}
             then binary_c32 i DOLIR_OP_XOR v 1 else ret v);
     let field = inst_rD i div 4;
     let shift = (3 - (ucast (inst_rD i) AND 3) :: u32);
     v \<leftarrow> binary_c32 i DOLIR_OP_SHL v shift;
     old \<leftarrow> read_cr_field i field;
     v \<leftarrow> insert_masked i old v (shl 1 (unat shift));
     write_cr_field i field v;
     ret True
   }"

definition spr_read_helper :: "PPCInst \<Rightarrow> DolIRValue lowering" where
  "spr_read_helper i =
     emit i DOLIR_OP_HELPER_CALL DOLIR_TYPE_I32 [] (ucast (inst_spr i)) DOLIR_HELPER_SPR_READ
       (DOLIR_EFFECT_READ_STATE OR DOLIR_EFFECT_WRITE_STATE OR raising)"

definition timebase_read_helper :: "PPCInst \<Rightarrow> DolIRValue lowering" where
  "timebase_read_helper i =
     emit i DOLIR_OP_HELPER_CALL DOLIR_TYPE_I64 [] 0 DOLIR_HELPER_TIMEBASE_READ DOLIR_EFFECT_READ_STATE"

definition lower_mfspr :: "PPCInst \<Rightarrow> bool lowering" where
  "lower_mfspr i = do {
     (if inst_spr i \<notin> {1, 8, 9, 268, 269} then require_supervisor i else ret ());
     if inst_spr i = 1 then do { v \<leftarrow> pack_xer i; set_gpr i (inst_rD i) v; ret True }
     else case spr_slot (inst_spr i) of
         Some slot \<Rightarrow> do { v \<leftarrow> read_slot i slot; set_gpr i (inst_rD i) v; ret True }
       | None \<Rightarrow> do { v \<leftarrow> spr_read_helper i; set_gpr i (inst_rD i) v; ret True }
   }"

definition lower_mttb :: "PPCInst \<Rightarrow> bool lowering" where
  "lower_mttb i = do {
     old \<leftarrow> timebase_read_helper i;
     s \<leftarrow> get_gpr i (inst_rS i);
     v \<leftarrow> zext_value i DOLIR_TYPE_I64 s;
     (old, v) \<leftarrow> (if inst_spr i = 284 then do {
         k \<leftarrow> c64 i 0xFFFFFFFF00000000;
         old \<leftarrow> binary i DOLIR_OP_AND DOLIR_TYPE_I64 old k;
         ret (old, v)
       } else do {
         k \<leftarrow> c64 i 0xFFFFFFFF;
         old \<leftarrow> binary i DOLIR_OP_AND DOLIR_TYPE_I64 old k;
         k \<leftarrow> c64 i 32;
         v \<leftarrow> binary i DOLIR_OP_SHL DOLIR_TYPE_I64 v k;
         ret (old, v)
       });
     v \<leftarrow> binary i DOLIR_OP_OR DOLIR_TYPE_I64 old v;
     _ \<leftarrow> emit i DOLIR_OP_HELPER_CALL DOLIR_TYPE_VOID [v] 0 DOLIR_HELPER_TIMEBASE_WRITE
       (DOLIR_EFFECT_WRITE_STATE OR DOLIR_EFFECT_MAY_EXIT OR DOLIR_EFFECT_BARRIER);
     ret True
   }"

definition lower_mtspr :: "PPCInst \<Rightarrow> bool lowering" where
  "lower_mtspr i = do {
     (if inst_spr i \<notin> {1, 8, 9} then require_supervisor i else ret ());
     if inst_spr i = 1 then do { s \<leftarrow> get_gpr i (inst_rS i); unpack_xer i s; ret True }
     else if inst_spr i = 284 \<or> inst_spr i = 285 then lower_mttb i
     else case spr_slot (inst_spr i) of
         Some slot \<Rightarrow> do { s \<leftarrow> get_gpr i (inst_rS i); write_slot i slot s; ret True }
       | None \<Rightarrow> do {
           s \<leftarrow> get_gpr i (inst_rS i);
           _ \<leftarrow> emit i DOLIR_OP_HELPER_CALL DOLIR_TYPE_VOID [s] (ucast (inst_spr i)) DOLIR_HELPER_SPR_WRITE
             (DOLIR_EFFECT_READ_STATE OR DOLIR_EFFECT_WRITE_STATE OR raising);
           ret True
         }
   }"

definition sr_slot :: "u8 \<Rightarrow> DolIRStateSlot" where "sr_slot n = DOLIR_STATE_SR0 + unat n"

text \<open>The segment register index in the top bits of \<open>rB\<close>.\<close>

definition sr_index :: "PPCInst \<Rightarrow> DolIRValue lowering" where
  "sr_index i = do {
     b \<leftarrow> get_gpr i (inst_rB i);
     v \<leftarrow> binary_c32 i DOLIR_OP_LSHR b 28;
     binary_c32 i DOLIR_OP_AND v 15
   }"

definition index_is :: "PPCInst \<Rightarrow> DolIRValue \<Rightarrow> nat \<Rightarrow> DolIRValue lowering" where
  "index_is i index k = do { c \<leftarrow> c32 i (of_nat k); binary i DOLIR_OP_ICMP_EQ DOLIR_TYPE_I1 index c }"

definition lower_mfsrin :: "PPCInst \<Rightarrow> bool lowering" where
  "lower_mfsrin i = do {
     require_supervisor i;
     index \<leftarrow> sr_index i;
     v \<leftarrow> read_slot i DOLIR_STATE_SR0;
     v \<leftarrow> fold_m (\<lambda>k v. do {
         is \<leftarrow> index_is i index k;
         s \<leftarrow> read_slot i (DOLIR_STATE_SR0 + k);
         select_value i DOLIR_TYPE_I32 is s v }) [1..<16] v;
     set_gpr i (inst_rD i) v;
     ret True
   }"

definition lower_mtsrin :: "PPCInst \<Rightarrow> bool lowering" where
  "lower_mtsrin i = do {
     require_supervisor i;
     index \<leftarrow> sr_index i;
     s \<leftarrow> get_gpr i (inst_rS i);
     loop_m [0..<16] (\<lambda>k. do {
       is \<leftarrow> index_is i index k;
       old \<leftarrow> read_slot i (DOLIR_STATE_SR0 + k);
       v \<leftarrow> select_value i DOLIR_TYPE_I32 is s old;
       write_slot i (DOLIR_STATE_SR0 + k) v });
     ret True
   }"

definition lower_mftb :: "PPCInst \<Rightarrow> bool lowering" where
  "lower_mftb i =
     (if inst_spr i \<noteq> 268 \<and> inst_spr i \<noteq> 269
      then do { v \<leftarrow> spr_read_helper i; set_gpr i (inst_rD i) v; ret True }
      else do {
        tb \<leftarrow> timebase_read_helper i;
        tb \<leftarrow> (if inst_spr i = 269
          then do { k \<leftarrow> c64 i 32; binary i DOLIR_OP_LSHR DOLIR_TYPE_I64 tb k } else ret tb);
        v \<leftarrow> trunc_value i DOLIR_TYPE_I32 tb;
        set_gpr i (inst_rD i) v;
        ret True
      })"

definition lower_tlbie :: "PPCInst \<Rightarrow> bool lowering" where
  "lower_tlbie i = do {
     address \<leftarrow> get_gpr i (inst_rB i);
     _ \<leftarrow> emit i DOLIR_OP_HELPER_CALL DOLIR_TYPE_VOID [address] 0 DOLIR_HELPER_TLBIE
       (DOLIR_EFFECT_READ_STATE OR DOLIR_EFFECT_WRITE_STATE OR raising);
     ret True
   }"

definition lower_fence :: "PPCInst \<Rightarrow> bool lowering" where
  "lower_fence i = do {
     _ \<leftarrow> emit i DOLIR_OP_HELPER_CALL DOLIR_TYPE_VOID [] 0 DOLIR_HELPER_MEMORY_FENCE
       (DOLIR_EFFECT_BARRIER OR DOLIR_EFFECT_READ_MEMORY OR DOLIR_EFFECT_WRITE_MEMORY);
     ret True
   }"

definition lower_state :: "PPCInst \<Rightarrow> bool lowering" where
  "lower_state i = switch_in (inst_op i)
     [([PPC_OP_MFCR], do { v \<leftarrow> pack_cr i; set_gpr i (inst_rD i) v; ret True }),
      ([PPC_OP_MTCRF], lower_mtcrf i),
      ([PPC_OP_MCRF], lower_mcrf i),
      ([PPC_OP_MCRXR], lower_mcrxr i),
      ([PPC_OP_CRAND, PPC_OP_CRANDC, PPC_OP_CREQV, PPC_OP_CRNAND,
        PPC_OP_CRNOR, PPC_OP_CROR, PPC_OP_CRORC, PPC_OP_CRXOR], lower_cr_logical i),
      ([PPC_OP_MFSPR], lower_mfspr i),
      ([PPC_OP_MTSPR], lower_mtspr i),
      ([PPC_OP_MFMSR], do {
         require_supervisor i; v \<leftarrow> read_slot i DOLIR_STATE_MSR; set_gpr i (inst_rD i) v; ret True }),
      ([PPC_OP_MTMSR], do {
         require_supervisor i; s \<leftarrow> get_gpr i (inst_rS i); write_slot i DOLIR_STATE_MSR s; ret True }),
      ([PPC_OP_MFSR], do {
         require_supervisor i; v \<leftarrow> read_slot i (sr_slot (inst_sr i)); set_gpr i (inst_rD i) v; ret True }),
      ([PPC_OP_MTSR], do {
         require_supervisor i; s \<leftarrow> get_gpr i (inst_rS i); write_slot i (sr_slot (inst_sr i)) s; ret True }),
      ([PPC_OP_MFSRIN], lower_mfsrin i),
      ([PPC_OP_MTSRIN], lower_mtsrin i),
      ([PPC_OP_MFTB], lower_mftb i),
      ([PPC_OP_TLBIE], lower_tlbie i),
      ([PPC_OP_SYNC, PPC_OP_EIEIO, PPC_OP_ISYNC, PPC_OP_TLBSYNC], lower_fence i)]
     (ret False)"

section \<open>Branches\<close>

definition block_for_address :: "DolIRFunction \<Rightarrow> u32 \<Rightarrow> u32 option" where
  "block_for_address f address =
     (if address < fn_guest_start f \<or> address \<ge> fn_guest_end f \<or>
         (address - fn_guest_start f) AND 3 \<noteq> 0 then None
      else let index = (address - fn_guest_start f) div 4
           in if unat index \<ge> length (fn_blocks f) then None else Some index)"

definition put_slot :: "nat \<Rightarrow> 'a \<Rightarrow> 'a \<times> 'a \<Rightarrow> 'a \<times> 'a" where
  "put_slot slot v p = (if slot = 0 then (v, snd p) else (fst p, v))"

definition direct_target :: "u32 \<Rightarrow> nat \<Rightarrow> unit lowering" where
  "direct_target address slot = do {
     f \<leftarrow> get_function;
     set_term (\<lambda>t. t\<lparr>term_target_addresses := put_slot slot address (term_target_addresses t),
       term_targets := put_slot slot
         (case block_for_address f address of Some index \<Rightarrow> index | None \<Rightarrow> DOLIR_NO_BLOCK)
         (term_targets t)\<rparr>)
   }"

definition write_link :: "PPCInst \<Rightarrow> unit lowering" where
  "write_link i =
     (if inst_lk i then do { v \<leftarrow> c32 i (inst_address i + 4); write_slot i DOLIR_STATE_LR v } else ret ())"

definition lower_b :: "PPCInst \<Rightarrow> bool lowering" where
  "lower_b i = do {
     write_link i;
     set_term (\<lambda>t. t\<lparr>term_kind := DOLIR_TERM_BRANCH, term_linked := inst_lk i, term_guest_pc := inst_address i\<rparr>);
     direct_target (inst_branch_target i) 0;
     ret True
   }"

definition lower_bc :: "PPCInst \<Rightarrow> bool lowering" where
  "lower_bc i = do {
     write_link i;
     condition \<leftarrow> branch_condition i;
     set_term (\<lambda>t. t\<lparr>term_kind := DOLIR_TERM_COND_BRANCH, term_condition := condition,
       term_linked := inst_lk i, term_guest_pc := inst_address i\<rparr>);
     direct_target (inst_branch_target i) 0;
     direct_target (inst_address i + 4) 1;
     ret True
   }"

definition lower_indirect :: "PPCInst \<Rightarrow> bool lowering" where
  "lower_indirect i = do {
     condition \<leftarrow> branch_condition i;
     v \<leftarrow> read_slot i (if inst_op i = PPC_OP_BCLR then DOLIR_STATE_LR else DOLIR_STATE_CTR);
     target \<leftarrow> binary_c32 i DOLIR_OP_AND v (NOT 3);
     set_term (\<lambda>t. t\<lparr>term_kind := DOLIR_TERM_INDIRECT, term_condition := condition,
       term_target_value := target\<rparr>);
     write_link i;
     set_term (\<lambda>t. t\<lparr>term_linked := inst_lk i, term_guest_pc := inst_address i\<rparr>);
     direct_target (inst_address i + 4) 1;
     ret True
   }"

definition lower_control :: "PPCInst \<Rightarrow> bool lowering" where
  "lower_control i = switch_in (inst_op i)
     [([PPC_OP_B], lower_b i),
      ([PPC_OP_BC], lower_bc i),
      ([PPC_OP_BCLR, PPC_OP_BCCTR], lower_indirect i),
      ([PPC_OP_SC], do {
         set_term (\<lambda>t. t\<lparr>term_kind := DOLIR_TERM_SYSTEM_CALL, term_guest_pc := inst_address i\<rparr>);
         ret True }),
      ([PPC_OP_RFI], do {
         set_term (\<lambda>t. t\<lparr>term_kind := DOLIR_TERM_RFI, term_guest_pc := inst_address i\<rparr>);
         ret True })]
     (ret False)"

section \<open>Building a chunk\<close>

definition or_else :: "bool lowering \<Rightarrow> bool lowering \<Rightarrow> bool lowering" where
  "or_else m n = do { r \<leftarrow> m; if r then ret True else n }"

definition lower_body :: "PPCInst \<Rightarrow> bool lowering" where
  "lower_body i =
     or_else (lower_integer i) (or_else (lower_memory i) (or_else (lower_float_memory i)
       (or_else (lower_psq i) (or_else (lower_float i) (or_else (lower_paired i) (lower_state i))))))"

definition set_fallback :: "PPCInst \<Rightarrow> unit lowering" where
  "set_fallback i = set_term (\<lambda>t. t\<lparr>term_kind := DOLIR_TERM_FALLBACK, term_guest_pc := inst_address i,
     term_raw := inst_raw i\<rparr>)"

definition set_cost :: "PPCInst \<Rightarrow> unit lowering" where
  "set_cost i = State (\<lambda>b. ((), b\<lparr>b_block := (b_block b)\<lparr>blk_raw := inst_raw i,
     blk_cycle_cost := dolir_instruction_cycle_cost i\<rparr>\<rparr>))"

text \<open>The body of the loop over the instructions of a chunk.\<close>

definition lower_instruction :: "PPCInst \<Rightarrow> nat \<Rightarrow> nat \<Rightarrow> unit lowering" where
  "lower_instruction i n count = do {
     set_cost i;
     if inst_embedded_data i then set_fallback i
     else do {
       (if ppc_op_uses_fpu (inst_op i) then do {
          _ \<leftarrow> emit i DOLIR_OP_HELPER_CALL DOLIR_TYPE_I1 [] (ucast (inst_address i)) DOLIR_HELPER_FP_AVAILABLE
            (DOLIR_EFFECT_READ_STATE OR DOLIR_EFFECT_WRITE_STATE OR DOLIR_EFFECT_MAY_EXIT OR
             DOLIR_EFFECT_MAY_RAISE);
          ret ()
        } else ret ());
       control \<leftarrow> lower_control i;
       if control then ret ()
       else do {
         lowered \<leftarrow> lower_body i;
         if lowered then normal_fallthrough i n count else set_fallback i
       }
     }
   }"

text \<open>\<open>blocks[n]\<close> is taken out, filled and put back.\<close>

definition lower_block :: "PPCInst \<Rightarrow> nat \<Rightarrow> nat \<Rightarrow> DolIRFunction \<Rightarrow> heap \<Rightarrow> (DolIRFunction \<times> heap) option" where
  "lower_block i n count f h = do {
     blk \<leftarrow> arr_get (fn_blocks f) n;
     let b = snd (run_state (lower_instruction i n count)
       \<lparr>b_function = f, b_block = blk, b_heap = h, b_undefined = False\<rparr>);
     if b_undefined b then None
     else do {
       bs \<leftarrow> arr_set (fn_blocks (b_function b)) n (b_block b);
       Some ((b_function b)\<lparr>fn_blocks := bs\<rparr>, b_heap b)
     }
   }"

fun add_blocks :: "PPCInst list \<Rightarrow> DolIRFunction \<Rightarrow> heap \<Rightarrow> bool \<times> DolIRFunction \<times> heap" where
  "add_blocks [] f h = (True, f, h)"
| "add_blocks (i # is) f h =
     (let (ok, f, h) = dolir_add_block f (inst_address i) h
      in if \<not> ok then (False, f, h) else add_blocks is f h)"

text \<open>\<open>func_%08X\<close>\<close>

definition hex_digit :: "u32 \<Rightarrow> char" where
  "hex_digit v = ''0123456789ABCDEF'' ! unat v"

definition chunk_name :: "u32 \<Rightarrow> string" where
  "chunk_name a = ''func_'' @ map (\<lambda>k. hex_digit (shr a (28 - 4 * k) AND 15)) [0..<8]"

definition put_function :: "DolIRFunction \<Rightarrow> DolIRModule \<Rightarrow> DolIRModule" where
  "put_function f m = m\<lparr>mod_functions := butlast (mod_functions m) @ [f]\<rparr>"

text \<open>The function built is the last one of the module; \<open>None\<close> is an undefined access.\<close>

definition dolir_build_chunk ::
    "DolIRModule \<Rightarrow> PPCInst list \<Rightarrow> u32 \<Rightarrow> heap \<Rightarrow> (bool \<times> DolIRModule \<times> heap) option" where
  "dolir_build_chunk m insts guest_start h =
     (if insts = [] then Some (False, m, h)
      else let count = length insts;
               (f, m, h) = dolir_add_function m (chunk_name guest_start) guest_start
                 (guest_start + of_nat count * 4) h
           in case f of
               None \<Rightarrow> Some (False, m, h)
             | Some f \<Rightarrow>
                 let (ok, f, h) = add_blocks insts f h
                 in if \<not> ok then Some (False, put_function f m, h)
                    else do {
                      (f, h) \<leftarrow> for_each [0..<count] (\<lambda>n (f, h). do {
                          i \<leftarrow> arr_get insts n;
                          lower_block i n count f h }) (f, h);
                      let (alloc1, h) = realloc_ok h;
                      let (alloc2, h) = realloc_ok h;
                      f \<leftarrow> dolir_analyze_addresses alloc1 alloc2 f;
                      Some (True, put_function f m, h)
                    })"

end
