(* ===== verification/IrSem.thy ===== *)
theory IrSem
  imports Lowering CpuExc "HOL-Library.Signed_Division"
begin

text \<open>
  The meaning of the intermediate representation, as the native back end compiles it
  (\<open>src/backend/llvm/instructions.cpp\<close>, \<open>state_access.cpp\<close>, \<open>state_write.cpp\<close>): typed values, an
  evaluator for one instruction, and a state slot as a view of the machine state.

  A division by zero, a shift by the width or more, an operand of the wrong type have no value, so an
  evaluation that returns shows the emitted code free of them.  What a helper call does is the
  parameter \<open>hp\<close>; the conversions and comparisons of floating point numbers have no value here.
\<close>

section \<open>Values\<close>

datatype irval = V1 bool | V8 u8 | V16 u16 | V32 u32 | V64 u64 | VF32 u32 | VF64 u64 | VPair u64 u64

definition clz32 :: "u32 \<Rightarrow> nat" where
  "clz32 x = length (takeWhile (\<lambda>k. \<not> bit x (31 - k)) [0..<32])"

definition sdiv32 :: "u32 \<Rightarrow> u32 \<Rightarrow> u32" where
  "sdiv32 x y = word_of_int (sint x sdiv sint y)"

definition const_value :: "DolIRType \<Rightarrow> u64 \<Rightarrow> irval option" where
  "const_value ty v = (case ty of
       DOLIR_TYPE_I1 \<Rightarrow> Some (V1 (bit v 0))
     | DOLIR_TYPE_I8 \<Rightarrow> Some (V8 (ucast v))
     | DOLIR_TYPE_I16 \<Rightarrow> Some (V16 (ucast v))
     | DOLIR_TYPE_I32 \<Rightarrow> Some (V32 (ucast v))
     | DOLIR_TYPE_I64 \<Rightarrow> Some (V64 v)
     | _ \<Rightarrow> None)"

definition fneg64 :: "u64 \<Rightarrow> u64" where "fneg64 x = x XOR shl 1 63"
definition fabs64 :: "u64 \<Rightarrow> u64" where "fabs64 x = x AND NOT (shl 1 63)"

definition ir_unary :: "DolIROp \<Rightarrow> DolIRType \<Rightarrow> irval \<Rightarrow> irval option" where
  "ir_unary op ty v = (case v of
       V1 x \<Rightarrow> switch (op, ty)
         [((DOLIR_OP_NOT, DOLIR_TYPE_I1), Some (V1 (\<not> x))),
          ((DOLIR_OP_ZEXT, DOLIR_TYPE_I32), Some (V32 (of_bool x)))] None
     | V8 x \<Rightarrow> switch (op, ty) [((DOLIR_OP_SEXT, DOLIR_TYPE_I32), Some (V32 (scast x)))] None
     | V16 x \<Rightarrow> switch (op, ty) [((DOLIR_OP_SEXT, DOLIR_TYPE_I32), Some (V32 (scast x)))] None
     | V32 x \<Rightarrow> switch (op, ty)
         [((DOLIR_OP_NOT, DOLIR_TYPE_I32), Some (V32 (NOT x))),
          ((DOLIR_OP_CLZ, DOLIR_TYPE_I32), Some (V32 (of_nat (clz32 x)))),
          ((DOLIR_OP_BSWAP, DOLIR_TYPE_I32), Some (V32 (bswap32 x))),
          ((DOLIR_OP_TRUNC, DOLIR_TYPE_I1), Some (V1 (bit x 0))),
          ((DOLIR_OP_TRUNC, DOLIR_TYPE_I8), Some (V8 (ucast x))),
          ((DOLIR_OP_TRUNC, DOLIR_TYPE_I16), Some (V16 (ucast x))),
          ((DOLIR_OP_ZEXT, DOLIR_TYPE_I64), Some (V64 (ucast x))),
          ((DOLIR_OP_SEXT, DOLIR_TYPE_I64), Some (V64 (scast x))),
          ((DOLIR_OP_BITCAST, DOLIR_TYPE_F32), Some (VF32 x))] None
     | V64 x \<Rightarrow> switch (op, ty)
         [((DOLIR_OP_TRUNC, DOLIR_TYPE_I32), Some (V32 (ucast x))),
          ((DOLIR_OP_TRUNC, DOLIR_TYPE_I1), Some (V1 (bit x 0))),
          ((DOLIR_OP_BITCAST, DOLIR_TYPE_F64), Some (VF64 x))] None
     | VF32 x \<Rightarrow> switch (op, ty) [((DOLIR_OP_BITCAST, DOLIR_TYPE_I32), Some (V32 x))] None
     | VF64 x \<Rightarrow> switch (op, ty)
         [((DOLIR_OP_BITCAST, DOLIR_TYPE_I64), Some (V64 x)),
          ((DOLIR_OP_FNEG, DOLIR_TYPE_F64), Some (VF64 (fneg64 x))),
          ((DOLIR_OP_FABS, DOLIR_TYPE_F64), Some (VF64 (fabs64 x)))] None
     | VPair x y \<Rightarrow> switch (op, ty)
         [((DOLIR_OP_FNEG, DOLIR_TYPE_V2F64), Some (VPair (fneg64 x) (fneg64 y))),
          ((DOLIR_OP_FABS, DOLIR_TYPE_V2F64), Some (VPair (fabs64 x) (fabs64 y)))] None)"

definition int_op :: "DolIROp \<Rightarrow> 'a::len word \<Rightarrow> 'a word \<Rightarrow> 'a word option" where
  "int_op op x y = switch op
     [(DOLIR_OP_ADD, Some (x + y)), (DOLIR_OP_SUB, Some (x - y)), (DOLIR_OP_MUL, Some (x * y)),
      (DOLIR_OP_AND, Some (x AND y)), (DOLIR_OP_OR, Some (x OR y)), (DOLIR_OP_XOR, Some (x XOR y)),
      (DOLIR_OP_SHL, if unat y < LENGTH('a) then Some (shl x (unat y)) else None),
      (DOLIR_OP_LSHR, if unat y < LENGTH('a) then Some (shr x (unat y)) else None),
      (DOLIR_OP_ASHR, if unat y < LENGTH('a) then Some (signed_drop_bit (unat y) x) else None),
      (DOLIR_OP_ROTL, Some (word_rotl (unat y) x)),
      (DOLIR_OP_UDIV, if y = 0 then None else Some (x div y))] None"

definition int_cmp :: "DolIROp \<Rightarrow> 'a::len word \<Rightarrow> 'a word \<Rightarrow> bool option" where
  "int_cmp op x y = switch op
     [(DOLIR_OP_ICMP_EQ, Some (x = y)), (DOLIR_OP_ICMP_NE, Some (x \<noteq> y)),
      (DOLIR_OP_ICMP_ULT, Some (x < y)), (DOLIR_OP_ICMP_ULE, Some (x \<le> y)),
      (DOLIR_OP_ICMP_SLT, Some (sint x < sint y)), (DOLIR_OP_ICMP_SLE, Some (sint x \<le> sint y))] None"

text \<open>Neither a division by zero nor the one quotient that overflows.\<close>

definition sdiv_defined :: "u32 \<Rightarrow> u32 \<Rightarrow> bool" where
  "sdiv_defined x y \<longleftrightarrow> y \<noteq> 0 \<and> \<not> (x = 0x80000000 \<and> y = 0xFFFFFFFF)"

definition ir_binary :: "DolIROp \<Rightarrow> DolIRType \<Rightarrow> irval \<Rightarrow> irval \<Rightarrow> irval option" where
  "ir_binary op ty v w = (case (v, w) of
       (V1 x, V1 y) \<Rightarrow> switch (op, ty)
         [((DOLIR_OP_AND, DOLIR_TYPE_I1), Some (V1 (x \<and> y))),
          ((DOLIR_OP_OR, DOLIR_TYPE_I1), Some (V1 (x \<or> y))),
          ((DOLIR_OP_XOR, DOLIR_TYPE_I1), Some (V1 (x \<noteq> y)))] None
     | (V32 x, V32 y) \<Rightarrow>
         if ty = DOLIR_TYPE_I1 then map_option V1 (int_cmp op x y)
         else if ty \<noteq> DOLIR_TYPE_I32 then None
         else if op = DOLIR_OP_SDIV then if sdiv_defined x y then Some (V32 (sdiv32 x y)) else None
         else map_option V32 (int_op op x y)
     | (V64 x, V64 y) \<Rightarrow>
         if ty = DOLIR_TYPE_I1 then map_option V1 (int_cmp op x y)
         else if ty = DOLIR_TYPE_I64 then map_option V64 (int_op op x y)
         else None
     | (VF64 x, VF64 y) \<Rightarrow>
         if op = DOLIR_OP_VECTOR_BUILD \<and> ty = DOLIR_TYPE_V2F64 then Some (VPair x y) else None
     | _ \<Rightarrow> None)"

section \<open>State slots\<close>

text \<open>The condition register is its eight fields and the exception register its three flags and the
  rest; the packed condition register is no slot of its own.\<close>

definition cr_shift :: "nat \<Rightarrow> nat" where "cr_shift field = 28 - 4 * field"

definition get_cr_field :: "u32 \<Rightarrow> nat \<Rightarrow> u32" where
  "get_cr_field w field = shr w (cr_shift field) AND 0xF"

definition put_cr_field :: "u32 \<Rightarrow> nat \<Rightarrow> u32 \<Rightarrow> u32" where
  "put_cr_field w field v =
     (w AND NOT (shl 0xF (cr_shift field))) OR shl (v AND 0xF) (cr_shift field)"

definition put_flag :: "u32 \<Rightarrow> nat \<Rightarrow> bool \<Rightarrow> u32" where
  "put_flag w n v = (w AND NOT (shl 1 n)) OR shl (of_bool v) n"

definition slot_read :: "CPUState \<Rightarrow> DolIRStateSlot \<Rightarrow> irval option" where
  "slot_read c s =
     (if s < 32 then map_option V32 (arr_get (gpr c) s)
      else if s < 64 then map_option VF64 (arr_get (fpr c) (s - 32))
      else if s < 96 then map_option VF64 (arr_get (ps1 c) (s - 64))
      else if DOLIR_STATE_CR0 \<le> s \<and> s \<le> DOLIR_STATE_CR7 then
        Some (V32 (get_cr_field (cr c) (s - DOLIR_STATE_CR0)))
      else if DOLIR_STATE_XER_CA \<le> s \<and> s \<le> DOLIR_STATE_XER_SO then
        Some (V1 (bit (xer c) (29 + (s - DOLIR_STATE_XER_CA))))
      else if DOLIR_STATE_SR0 \<le> s \<and> s \<le> DOLIR_STATE_SR15 then
        map_option V32 (arr_get (sr c) (s - DOLIR_STATE_SR0))
      else if DOLIR_STATE_GQR0 \<le> s \<and> s \<le> DOLIR_STATE_GQR7 then
        map_option V32 (arr_get (gqr c) (s - DOLIR_STATE_GQR0))
      else switch s
       [(DOLIR_STATE_PC, Some (V32 (pc c))), (DOLIR_STATE_LR, Some (V32 (lr c))),
        (DOLIR_STATE_CTR, Some (V32 (ctr c))),
        (DOLIR_STATE_XER, Some (V32 (xer c AND 0x1FFFFFFF))),
        (DOLIR_STATE_FPSCR, Some (V32 (fpscr c))), (DOLIR_STATE_MSR, Some (V32 (msr c))),
        (DOLIR_STATE_SRR0, Some (V32 (srr0 c))), (DOLIR_STATE_SRR1, Some (V32 (srr1 c))),
        (DOLIR_STATE_DAR, Some (V32 (dar c))), (DOLIR_STATE_DSISR, Some (V32 (dsisr c))),
        (DOLIR_STATE_EAR, Some (V32 (ear c))), (DOLIR_STATE_HID2, Some (V32 (hid2 c))),
        (DOLIR_STATE_TIMEBASE, Some (V64 (timebase c))),
        (DOLIR_STATE_EXCEPTION, Some (V32 (exception c))),
        (DOLIR_STATE_PROGRAM_EXCEPTION, Some (V32 (program_exception c))),
        (DOLIR_STATE_RESERVE_ADDR, Some (V32 (reserve_addr c))),
        (DOLIR_STATE_RESERVE_VALID, Some (V1 (reserve_valid c))),
        (DOLIR_STATE_DOWNCOUNT, Some (V64 (downcount c)))]
       None)"

definition slot_write32 :: "CPUState \<Rightarrow> DolIRStateSlot \<Rightarrow> u32 \<Rightarrow> CPUState option" where
  "slot_write32 c s v =
     (if s < 32 then map_option (\<lambda>xs. c\<lparr>gpr := xs\<rparr>) (arr_set (gpr c) s v)
      else if DOLIR_STATE_CR0 \<le> s \<and> s \<le> DOLIR_STATE_CR7 then
        Some (c\<lparr>cr := put_cr_field (cr c) (s - DOLIR_STATE_CR0) v\<rparr>)
      else if DOLIR_STATE_SR0 \<le> s \<and> s \<le> DOLIR_STATE_SR15 then
        map_option (\<lambda>xs. c\<lparr>sr := xs\<rparr>) (arr_set (sr c) (s - DOLIR_STATE_SR0) v)
      else if DOLIR_STATE_GQR0 \<le> s \<and> s \<le> DOLIR_STATE_GQR7 then
        map_option (\<lambda>xs. c\<lparr>gqr := xs\<rparr>) (arr_set (gqr c) (s - DOLIR_STATE_GQR0) v)
      else switch s
       [(DOLIR_STATE_PC, Some (c\<lparr>pc := v\<rparr>)), (DOLIR_STATE_LR, Some (c\<lparr>lr := v\<rparr>)),
        (DOLIR_STATE_CTR, Some (c\<lparr>ctr := v\<rparr>)),
        (DOLIR_STATE_XER, Some (c\<lparr>xer := (xer c AND 0xE0000000) OR (v AND 0x1FFFFFFF)\<rparr>)),
        (DOLIR_STATE_FPSCR, Some (c\<lparr>fpscr := v\<rparr>)), (DOLIR_STATE_MSR, Some (c\<lparr>msr := v\<rparr>)),
        (DOLIR_STATE_SRR0, Some (c\<lparr>srr0 := v\<rparr>)), (DOLIR_STATE_SRR1, Some (c\<lparr>srr1 := v\<rparr>)),
        (DOLIR_STATE_DAR, Some (c\<lparr>dar := v\<rparr>)), (DOLIR_STATE_DSISR, Some (c\<lparr>dsisr := v\<rparr>)),
        (DOLIR_STATE_EAR, Some (c\<lparr>ear := v\<rparr>)), (DOLIR_STATE_HID2, Some (c\<lparr>hid2 := v\<rparr>)),
        (DOLIR_STATE_EXCEPTION, Some (c\<lparr>exception := v\<rparr>)),
        (DOLIR_STATE_PROGRAM_EXCEPTION, Some (c\<lparr>program_exception := v\<rparr>)),
        (DOLIR_STATE_RESERVE_ADDR, Some (c\<lparr>reserve_addr := v\<rparr>))]
       None)"

definition slot_write :: "CPUState \<Rightarrow> DolIRStateSlot \<Rightarrow> irval \<Rightarrow> CPUState option" where
  "slot_write c s x =
     (case x of
        V32 v \<Rightarrow> slot_write32 c s v
      | V1 v \<Rightarrow>
          if DOLIR_STATE_XER_CA \<le> s \<and> s \<le> DOLIR_STATE_XER_SO
          then Some (c\<lparr>xer := put_flag (xer c) (29 + (s - DOLIR_STATE_XER_CA)) v\<rparr>)
          else if s = DOLIR_STATE_RESERVE_VALID then Some (c\<lparr>reserve_valid := v\<rparr>) else None
      | VF64 v \<Rightarrow>
          if 32 \<le> s \<and> s < 64 then map_option (\<lambda>xs. c\<lparr>fpr := xs\<rparr>) (arr_set (fpr c) (s - 32) v)
          else if 64 \<le> s \<and> s < 96 then map_option (\<lambda>xs. c\<lparr>ps1 := xs\<rparr>) (arr_set (ps1 c) (s - 64) v)
          else None
      | V64 v \<Rightarrow>
          if s = DOLIR_STATE_TIMEBASE then Some (c\<lparr>timebase := v\<rparr>)
          else if s = DOLIR_STATE_DOWNCOUNT then Some (c\<lparr>downcount := v\<rparr>) else None
      | _ \<Rightarrow> None)"

section \<open>Guest memory\<close>

definition guest_read :: "host \<Rightarrow> CPUState \<Rightarrow> u32 \<Rightarrow> DolIRType \<Rightarrow> u32 \<Rightarrow> (irval \<times> CPUState) option" where
  "guest_read H c ea ty aux =
     (let width = aux AND 0xFF; sign = (aux AND 0x100 \<noteq> 0)
      in if ty = DOLIR_TYPE_I32 \<and> width = 4 then do {
           (v, c) \<leftarrow> mem_read32 H c ea; Some (V32 v, c) }
         else if ty = DOLIR_TYPE_I32 \<and> width = 2 then do {
           (v, c) \<leftarrow> mem_read16 H c ea; Some (V32 (if sign then scast v else ucast v), c) }
         else if ty = DOLIR_TYPE_I32 \<and> width = 1 then do {
           (v, c) \<leftarrow> mem_read8 H c ea; Some (V32 (if sign then scast v else ucast v), c) }
         else if ty = DOLIR_TYPE_I64 \<and> width = 8 then do {
           (v, c) \<leftarrow> mem_read64 H c ea; Some (V64 v, c) }
         else None)"

definition guest_write :: "host \<Rightarrow> CPUState \<Rightarrow> u32 \<Rightarrow> irval \<Rightarrow> u32 \<Rightarrow> CPUState option" where
  "guest_write H c ea x aux =
     (let width = aux AND 0xFF
      in case x of
          V32 v \<Rightarrow>
            if width = 4 then mem_write32 H c ea v
            else if width = 2 then mem_write16 H c ea (ucast v)
            else if width = 1 then mem_write8 H c ea (ucast v) else None
        | V64 v \<Rightarrow> if width = 8 then mem_write64 H c ea v else None
        | _ \<Rightarrow> None)"

section \<open>Instructions\<close>

type_synonym ir_state = "(nat \<Rightarrow> irval) \<times> CPUState"
type_synonym helper = "DolIRInstruction \<Rightarrow> irval list \<Rightarrow> CPUState \<Rightarrow> (irval \<times> CPUState) option"

definition lane :: "irval \<Rightarrow> u32 \<Rightarrow> u64 option" where
  "lane x n = (case x of VPair a b \<Rightarrow> if n = 0 then Some a else if n = 1 then Some b else None | _ \<Rightarrow> None)"

text \<open>Lanes 0 and 1 are those of the first vector, 2 and 3 those of the second.\<close>

definition shuffle_lane :: "irval \<Rightarrow> irval \<Rightarrow> u32 \<Rightarrow> u64 option" where
  "shuffle_lane x y n = (if n < 2 then lane x n else lane y (n - 2))"

definition pure_value :: "DolIROp \<Rightarrow> DolIRType \<Rightarrow> u32 \<Rightarrow> irval list \<Rightarrow> irval option" where
  "pure_value op ty aux xs = (case xs of
       [x] \<Rightarrow> if op = DOLIR_OP_VECTOR_EXTRACT then map_option VF64 (lane x aux) else ir_unary op ty x
     | [x, y] \<Rightarrow>
         if op = DOLIR_OP_VECTOR_SHUFFLE then do {
           a \<leftarrow> shuffle_lane x y (aux AND 0xFF);
           b \<leftarrow> shuffle_lane x y (shr aux 8 AND 0xFF);
           Some (VPair a b)
         } else ir_binary op ty x y
     | [p, x, y] \<Rightarrow> if op = DOLIR_OP_SELECT then
           (case p of V1 b \<Rightarrow> Some (if b then x else y) | _ \<Rightarrow> None) else None
     | _ \<Rightarrow> None)"

definition ir_step :: "host \<Rightarrow> helper \<Rightarrow> DolIRInstruction \<Rightarrow> ir_state \<Rightarrow> ir_state option" where
  "ir_step H hp i s = (case s of (E, c) \<Rightarrow>
     let xs = map E (ir_operands i); put = (\<lambda>v. E(ir_result i := v))
     in switch (ir_op i)
         [(DOLIR_OP_CONSTANT, do { v \<leftarrow> const_value (ir_type i) (ir_immediate i); Some (put v, c) }),
          (DOLIR_OP_STATE_READ, do { v \<leftarrow> slot_read c (unat (ir_aux i)); Some (put v, c) }),
          (DOLIR_OP_STATE_WRITE, (case xs of
             [v] \<Rightarrow> do { c \<leftarrow> slot_write c (unat (ir_aux i)) v; Some (E, c) } | _ \<Rightarrow> None)),
          (DOLIR_OP_GUEST_LOAD, (case xs of
             [V32 ea] \<Rightarrow> do { (v, c) \<leftarrow> guest_read H c ea (ir_type i) (ir_aux i); Some (put v, c) } | _ \<Rightarrow> None)),
          (DOLIR_OP_GUEST_STORE, (case xs of
             [V32 ea, v] \<Rightarrow> do { c \<leftarrow> guest_write H c ea v (ir_aux i); Some (E, c) } | _ \<Rightarrow> None)),
          (DOLIR_OP_HELPER_CALL, do {
             (v, c) \<leftarrow> hp i xs c;
             Some (if ir_type i = DOLIR_TYPE_VOID then E else put v, c) })]
         (do { v \<leftarrow> pure_value (ir_op i) (ir_type i) (ir_aux i) xs; Some (put v, c) }))"

fun ir_run :: "host \<Rightarrow> helper \<Rightarrow> DolIRInstruction list \<Rightarrow> ir_state \<Rightarrow> ir_state option" where
  "ir_run H hp [] s = Some s"
| "ir_run H hp (i # is) s = do { s \<leftarrow> ir_step H hp i s; ir_run H hp is s }"

lemma ir_run_append: "ir_run H hp (is @ js) s = do { s \<leftarrow> ir_run H hp is s; ir_run H hp js s }"
  by (induction "is" arbitrary: s) (simp_all split: bind_split)

end
