(* ===== verification/LowerSem.thy ===== *)
theory LowerSem
  imports IrSem
begin

text \<open>
  Symbolic execution of the lowering.  \<open>holds R n E c\<close> describes a builder that has allocated the
  values below \<open>n\<close> and whose block so far takes the start state of \<open>R\<close> to the values \<open>E\<close> and the
  state \<open>c\<close>; the rules \<open>runs_...\<close> execute one emitting operation of the lowering each.
\<close>

section \<open>Effects never change what an instruction does\<close>

definition same_code :: "DolIRInstruction \<Rightarrow> DolIRInstruction \<Rightarrow> bool" where
  "same_code i j \<longleftrightarrow> ir_op j = ir_op i \<and> ir_type j = ir_type i \<and> ir_result j = ir_result i \<and>
     ir_operands j = ir_operands i \<and> ir_aux j = ir_aux i \<and> ir_immediate j = ir_immediate i \<and>
     ir_guest_pc j = ir_guest_pc i \<and> ir_address_domain j = ir_address_domain i \<and>
     ir_address_lower j = ir_address_lower i \<and> ir_address_upper j = ir_address_upper i"

lemma same_code_refl [simp]: "same_code i i"
  by (simp add: same_code_def)

lemma same_code_trans: "same_code i j \<Longrightarrow> same_code j k \<Longrightarrow> same_code i k"
  by (simp add: same_code_def)

text \<open>A result, if there is one, has the code of an instruction.\<close>

definition code_of :: "DolIRInstruction option \<Rightarrow> DolIRInstruction \<Rightarrow> bool" where
  "code_of x i \<longleftrightarrow> (\<forall>j. x = Some j \<longrightarrow> same_code i j)"

named_theorems code_intros \<open>the marking operations keep the code\<close>

lemma code_of_Some [code_intros]: "same_code i j \<Longrightarrow> code_of (Some j) i"
  by (simp add: code_of_def)

lemma code_of_bind [code_intros]:
  "code_of m i \<Longrightarrow> (\<And>j. same_code i j \<Longrightarrow> code_of (g j) i) \<Longrightarrow> code_of (m \<bind> g) i"
  by (auto simp: code_of_def bind_eq_Some_conv)

lemma code_of_if [code_intros]: "(P \<Longrightarrow> code_of x i) \<Longrightarrow> (\<not> P \<Longrightarrow> code_of y i) \<Longrightarrow> code_of (if P then x else y) i"
  by simp

lemma code_of_slots [code_intros]:
  "same_code i j \<Longrightarrow> code_of (uses_slot s j) i" "same_code i j \<Longrightarrow> code_of (defines_slot s j) i"
  by (auto simp: code_of_def uses_slot_def defines_slot_def bind_eq_Some_conv same_code_def)

lemma code_of_pairs [code_intros]:
  "same_code i j \<Longrightarrow> code_of (use_pair r j) i" "same_code i j \<Longrightarrow> code_of (define_pair r j) i"
  unfolding use_pair_def define_pair_def by (intro code_intros; assumption)+

lemma same_code_exact [code_intros]: "same_code i j \<Longrightarrow> same_code i (j\<lparr>ir_exact_fp := e\<rparr>)"
  by (simp add: same_code_def)

lemma code_of_for_each [code_intros]:
  "(\<And>x j. same_code i j \<Longrightarrow> code_of (f x j) i) \<Longrightarrow> same_code i j \<Longrightarrow> code_of (for_each xs f j) i"
  by (induction xs arbitrary: j) (auto intro!: code_intros)

lemma code_of_exact [code_intros]:
  "same_code i j \<Longrightarrow> code_of (exact_float j) i" "same_code i j \<Longrightarrow> code_of (exact_paired j) i"
  unfolding exact_float_def exact_paired_def Let_def by (intro code_intros; assumption)+

lemma code_of_helper_self: "code_of (helper_effects i) i"
  unfolding helper_effects_def Let_def
  by (rule switch_in_all) (auto intro!: code_intros simp del: for_each.simps upt_Suc)

lemma code_of_helper [code_intros]: "same_code i j \<Longrightarrow> code_of (helper_effects j) i"
  using code_of_helper_self [of j] same_code_trans unfolding code_of_def by blast

lemma populate_same_code:
  assumes "dolir_populate_effects i = Some j"
  shows "same_code i j"
proof -
  define k where "k = i\<lparr>ir_state_uses := replicate DOLIR_STATE_MASK_WORDS 0,
    ir_state_defs := replicate DOLIR_STATE_MASK_WORDS 0, ir_exact_fp := False\<rparr>"
  have k: "same_code i k"
    by (simp add: k_def same_code_def)
  have "code_of (dolir_populate_effects i) i"
    unfolding dolir_populate_effects_def Let_def k_def [symmetric]
    by (intro code_intros; (assumption | rule k)?)
  with assms show ?thesis
    by (simp add: code_of_def)
qed

text \<open>Where the effects are defined.\<close>

lemma mark_total: "s < 64 * length ms \<Longrightarrow> mark ms s \<noteq> None"
  using mark_has [of s ms] by auto

lemma uses_slot_total:
  "s < 192 \<Longrightarrow> length (ir_state_uses i) = 3 \<Longrightarrow>
   \<exists>j. uses_slot s i = Some j \<and> length (ir_state_uses j) = 3 \<and> length (ir_state_defs j) = length (ir_state_defs i) \<and> same_code i j"
  using mark_has [of s "ir_state_uses i"] by (auto simp: uses_slot_def same_code_def)

lemma defines_slot_total:
  "s < 192 \<Longrightarrow> length (ir_state_defs i) = 3 \<Longrightarrow>
   \<exists>j. defines_slot s i = Some j \<and> length (ir_state_defs j) = 3 \<and> length (ir_state_uses j) = length (ir_state_uses i) \<and> same_code i j"
  using mark_has [of s "ir_state_defs i"] by (auto simp: defines_slot_def same_code_def)

lemma populate_plain:
  assumes "ir_op i \<noteq> DOLIR_OP_HELPER_CALL"
    and "ir_op i = DOLIR_OP_STATE_READ \<or> ir_op i = DOLIR_OP_STATE_WRITE \<Longrightarrow> ir_aux i < 192"
  shows "\<exists>j. dolir_populate_effects i = Some j \<and> same_code i j"
proof -
  have "\<exists>j. dolir_populate_effects i = Some j"
  proof (cases "ir_op i = DOLIR_OP_GUEST_STORE")
    case True
    show ?thesis
      by (simp add: dolir_populate_effects_def True uses_slot_def defines_slot_def mark_def arr_get_def arr_set_def
        DOLIR_STATE_MASK_WORDS_def)
  next
    case False
    let ?i = "i\<lparr>ir_state_uses := replicate DOLIR_STATE_MASK_WORDS 0,
      ir_state_defs := replicate DOLIR_STATE_MASK_WORDS 0, ir_exact_fp := False\<rparr>"
    have l: "length (ir_state_uses ?i) = 3" "length (ir_state_defs ?i) = 3"
      by (simp_all add: DOLIR_STATE_MASK_WORDS_def)
    show ?thesis
    proof (cases "ir_op i = DOLIR_OP_STATE_READ \<or> ir_op i = DOLIR_OP_STATE_WRITE")
      case True
      then have "unat (ir_aux i) < 192" using assms(2) by (simp add: word_less_nat_alt)
      then show ?thesis
        using True uses_slot_total [OF _ l(1)] defines_slot_total [OF _ l(2)]
        by (fastforce simp: dolir_populate_effects_def Let_def same_code_def)
    next
      case False
      then show ?thesis using assms(1) \<open>ir_op i \<noteq> DOLIR_OP_GUEST_STORE\<close>
        by (simp add: dolir_populate_effects_def Let_def)
    qed
  qed
  then show ?thesis using populate_same_code by blast
qed

section \<open>The builder's block as a program\<close>

record lowering_env =
  env_host :: host
  env_helper :: helper
  env_start :: ir_state
  env_blocks :: "DolIRBlock list"

definition holds :: "lowering_env \<Rightarrow> nat \<Rightarrow> (nat \<Rightarrow> irval) \<Rightarrow> CPUState \<Rightarrow> Builder \<Rightarrow> bool" where
  "holds R n E c b \<longleftrightarrow> \<not> b_undefined b \<and> (\<forall>k. allocs (b_heap b) k) \<and>
     length (fn_value_types (b_function b)) = n \<and> 0 < n \<and> fn_blocks (b_function b) = env_blocks R \<and>
     ir_run (env_host R) (env_helper R) (blk_instructions (b_block b)) (env_start R) = Some (E, c)"

definition runs :: "(Builder \<Rightarrow> bool) \<Rightarrow> 'a lowering \<Rightarrow> ('a \<Rightarrow> Builder \<Rightarrow> bool) \<Rightarrow> bool" where
  "runs P m Q \<longleftrightarrow> (\<forall>b. P b \<longrightarrow> (case run_state m b of (v, b') \<Rightarrow> Q v b'))"

lemma runs_bind: "runs P m R \<Longrightarrow> (\<And>v. runs (R v) (f v) Q) \<Longrightarrow> runs P (m \<bind> f) Q"
  unfolding runs_def by (fastforce split: prod.splits)

lemma runs_ret: "(\<And>b. P b \<Longrightarrow> Q v b) \<Longrightarrow> runs P (ret v) Q"
  by (simp add: runs_def)

lemma runs_post: "runs P m R \<Longrightarrow> (\<And>v b. R v b \<Longrightarrow> Q v b) \<Longrightarrow> runs P m Q"
  unfolding runs_def by (fastforce split: prod.splits)

lemma runs_pre: "runs R m Q \<Longrightarrow> (\<And>b. P b \<Longrightarrow> R b) \<Longrightarrow> runs P m Q"
  unfolding runs_def by fastforce

lemma runs_known: "runs (\<lambda>b. v = k \<and> P b) (f v) Q" if "runs P (f k) Q"
  using that by (auto simp: runs_def)

text \<open>A computation whose value is known, followed by another one.\<close>

lemma runs_bind_known:
  "runs P m (\<lambda>v b. v = k \<and> R b) \<Longrightarrow> runs R (f k) Q \<Longrightarrow> runs P (m \<bind> f) Q"
  by (rule runs_bind, assumption, rule runs_known)

lemma grow_ok:
  assumes "\<forall>k. allocs h k" shows "\<exists>cap h'. grow_array c n h = (True, cap, h') \<and> (\<forall>k. allocs h' k)"
  using assms by (simp add: grow_array_def realloc_ok_def Let_def)

lemma ir_step_same:
  "same_code i j \<Longrightarrow> ir_op i \<noteq> DOLIR_OP_HELPER_CALL \<Longrightarrow> ir_step H hp j s = ir_step H hp i s"
  by (cases s; cases i; cases j) (clarsimp simp: ir_step_def same_code_def Let_def cong: list.case_cong irval.case_cong if_cong)

definition plain ::
    "DolIROp \<Rightarrow> DolIRType \<Rightarrow> DolIRValue \<Rightarrow> DolIRValue list \<Rightarrow> u64 \<Rightarrow> u32 \<Rightarrow> u32 \<Rightarrow> u32 \<Rightarrow> DolIRInstruction" where
  "plain op ty r xs imm aux gpc eff = zero_instruction\<lparr>ir_op := op, ir_type := ty, ir_result := r,
     ir_operands := xs, ir_immediate := imm, ir_aux := aux, ir_guest_pc := gpc, ir_effects := eff\<rparr>"

lemma append_runs:
  assumes xs: "length xs \<le> 4" and op: "op \<noteq> DOLIR_OP_HELPER_CALL"
    and aux: "op = DOLIR_OP_STATE_READ \<or> op = DOLIR_OP_STATE_WRITE \<Longrightarrow> aux < 192"
    and b: "holds R n E c b"
    and step: "ir_step (env_host R) (env_helper R) (plain op ty (if ty = DOLIR_TYPE_VOID then 0 else n) xs imm aux gpc eff) (E, c) = Some (E', c')"
  shows "\<exists>f blk h. dolir_append (b_function b) (b_block b) (b_heap b) op ty xs imm aux gpc eff =
      Some (if ty = DOLIR_TYPE_VOID then 0 else n, f, blk, h) \<and>
    holds R (if ty = DOLIR_TYPE_VOID then n else Suc n) E' c'
      (b\<lparr>b_function := f, b_block := blk, b_heap := h\<rparr>) \<and>
    blk_instructions blk \<noteq> []"
proof -
  let ?i = "plain op ty (if ty = DOLIR_TYPE_VOID then 0 else n) xs imm aux gpc eff"
  obtain j where j: "dolir_populate_effects ?i = Some j" "same_code ?i j"
    using populate_plain [of ?i] op aux by (auto simp: plain_def)
  have run: "ir_run (env_host R) (env_helper R) (blk_instructions (b_block b) @ [j]) (env_start R) = Some (E', c')"
    using b step ir_step_same [OF j(2)] op by (simp add: ir_run_append holds_def plain_def)
  have new: "new_instruction op ty (if ty = DOLIR_TYPE_VOID then 0 else n) xs imm aux gpc eff = Some j"
    using j(1) by (simp add: new_instruction_def plain_def)
  obtain cap h where g: "grow_array (blk_capacity (b_block b)) (of_nat (length (blk_instructions (b_block b)))) (b_heap b) = (True, cap, h)"
    "\<forall>k. allocs h k"
    using grow_ok b by (metis holds_def)
  obtain cap' h' where g': "grow_array (fn_value_capacity (b_function b)) (of_nat (length (fn_value_types (b_function b)))) h = (True, cap', h')"
    "\<forall>k. allocs h' k"
    using grow_ok g(2) by metis
  show ?thesis
    using b run new g g' xs by (auto simp: dolir_append_def holds_def)
qed

lemma emit_runs:
  assumes "length xs \<le> 4" "op \<noteq> DOLIR_OP_HELPER_CALL" "op \<noteq> DOLIR_OP_STATE_READ" "op \<noteq> DOLIR_OP_STATE_WRITE"
    and "ir_step (env_host R) (env_helper R) (plain op ty (if ty = DOLIR_TYPE_VOID then 0 else n) xs imm aux (inst_address i) eff) (E, c) = Some (E', c')"
  shows "runs (holds R n E c) (emit i op ty xs imm aux eff)
    (\<lambda>v b. v = (if ty = DOLIR_TYPE_VOID then 0 else n) \<and>
      holds R (if ty = DOLIR_TYPE_VOID then n else Suc n) E' c' b)"
  unfolding runs_def
proof (intro allI impI)
  fix b assume b: "holds R n E c b"
  show "case run_state (emit i op ty xs imm aux eff) b of (v, b') \<Rightarrow> v = (if ty = DOLIR_TYPE_VOID then 0 else n) \<and>
      holds R (if ty = DOLIR_TYPE_VOID then n else Suc n) E' c' b'"
    using append_runs [OF assms(1,2) _ b assms(5)] assms(3,4) b
    by (auto simp: emit_def on_block_def holds_def)
qed

end
