(* ===== verification/CEmit.thy ===== *)
theory CEmit
  imports CpuExc Lower "HOL-Library.Signed_Division"
begin

text \<open>
  \<open>src/backend/emitter.c\<close>: the C back end.  The emitter prints C statements; the model of a printing
  function is the effect of the statements it prints, as a function of the machine state \<open>ctx\<close> points
  to.  \<open>None\<close> is an undefined access of the generated code.

  A statement sequence ends in one of the ways of \<open>flow\<close>: it runs into the next one, jumps to the label
  of an address, returns to the caller of the chunk with \<open>ctx->pc\<close> set, jumps to the return
  dispatcher of the function, or calls the chunk at a start address and resumes at a continuation.
\<close>

section \<open>Control flow of the generated code\<close>

datatype flow = Next | Goto u32 | Return | ReturnDispatch | CallChunk u32 u32

type_synonym effect = "CPUState \<Rightarrow> CPUState option"

abbreviation goes_on :: "CPUState option \<Rightarrow> (flow \<times> CPUState) option" where
  "goes_on x \<equiv> map_option (Pair Next) x"

section \<open>Reading and writing the register file\<close>

definition rd :: "CPUState \<Rightarrow> u8 \<Rightarrow> u32 option" where
  "rd c reg = arr_get (gpr c) (unat reg)"

definition wr :: "CPUState \<Rightarrow> u8 \<Rightarrow> u32 \<Rightarrow> CPUState option" where
  "wr c reg v = map_option (\<lambda>xs. c\<lparr>gpr := xs\<rparr>) (arr_set (gpr c) (unat reg) v)"

definition rd_f :: "CPUState \<Rightarrow> u8 \<Rightarrow> u64 option" where
  "rd_f c reg = arr_get (fpr c) (unat reg)"

definition wr_f :: "CPUState \<Rightarrow> u8 \<Rightarrow> u64 \<Rightarrow> CPUState option" where
  "wr_f c reg v = map_option (\<lambda>xs. c\<lparr>fpr := xs\<rparr>) (arr_set (fpr c) (unat reg) v)"

definition rd_p :: "CPUState \<Rightarrow> u8 \<Rightarrow> u64 option" where
  "rd_p c reg = arr_get (ps1 c) (unat reg)"

definition wr_p :: "CPUState \<Rightarrow> u8 \<Rightarrow> u64 \<Rightarrow> CPUState option" where
  "wr_p c reg v = map_option (\<lambda>xs. c\<lparr>ps1 := xs\<rparr>) (arr_set (ps1 c) (unat reg) v)"

section \<open>Condition register\<close>

definition cr_field_shift :: "u8 \<Rightarrow> nat" where
  "cr_field_shift crf = 4 * (7 - unat crf)"

text \<open>The emitter's own copy of the rotate mask.\<close>

definition emit_mask32 :: "u8 \<Rightarrow> u8 \<Rightarrow> u32 option" where
  "emit_mask32 mb me = mask_loop mb me 0"

definition cr_bits :: "bool \<Rightarrow> bool \<Rightarrow> bool \<Rightarrow> u32 \<Rightarrow> u32" where
  "cr_bits lt gt eq xr =
     (let b = (if lt then 0x8 else 0);
          b = (if gt then b OR 0x4 else b);
          b = (if eq then b OR 0x2 else b)
      in b OR (shr xr 31 AND 1))"

definition emit_set_cr0_from_gpr :: "u8 \<Rightarrow> effect" where
  "emit_set_cr0_from_gpr reg c = do {
     v \<leftarrow> rd c reg;
     let b = cr_bits (sint v < 0) (sint v > 0) (sint v = 0) (xer c);
     Some (c\<lparr>cr := (cr c AND 0x0FFFFFFF) OR shl b 28\<rparr>)
   }"

definition emit_set_cr1_from_fpscr :: "CPUState \<Rightarrow> CPUState" where
  "emit_set_cr1_from_fpscr c = c\<lparr>cr := (cr c AND 0xF0FFFFFF) OR (shr (fpscr c) 4 AND 0x0F000000)\<rparr>"

definition put_cr :: "u8 \<Rightarrow> u32 \<Rightarrow> CPUState \<Rightarrow> CPUState" where
  "put_cr crf b c =
     c\<lparr>cr := (cr c AND NOT (shl 0xF (cr_field_shift crf))) OR shl b (cr_field_shift crf)\<rparr>"

definition emit_compare_s32 :: "u8 \<Rightarrow> u32 \<Rightarrow> u32 \<Rightarrow> CPUState \<Rightarrow> CPUState" where
  "emit_compare_s32 crf a b c =
     put_cr crf (cr_bits (sint a < sint b) (sint a > sint b) (sint a = sint b) (xer c)) c"

definition emit_compare_u32 :: "u8 \<Rightarrow> u32 \<Rightarrow> u32 \<Rightarrow> CPUState \<Rightarrow> CPUState" where
  "emit_compare_u32 crf a b c = put_cr crf (cr_bits (a < b) (a > b) (a = b) (xer c)) c"

definition emit_record_if_needed :: "PPCInst \<Rightarrow> u8 \<Rightarrow> effect" where
  "emit_record_if_needed i reg c = (if inst_rc i then emit_set_cr0_from_gpr reg c else Some c)"

definition emit_cr_logical :: "PPCInst \<Rightarrow> (bool \<Rightarrow> bool \<Rightarrow> bool) \<Rightarrow> CPUState \<Rightarrow> CPUState" where
  "emit_cr_logical i expr c =
     (let a = bit (cr c) (31 - unat (inst_rA i)); b = bit (cr c) (31 - unat (inst_rB i));
          m = shr 0x80000000 (unat (inst_rD i))
      in c\<lparr>cr := (cr c AND NOT m) OR (if expr a b then m else 0)\<rparr>)"

section \<open>Effective addresses, loads and stores\<close>

definition emit_dform_ea :: "PPCInst \<Rightarrow> bool \<Rightarrow> CPUState \<Rightarrow> u32 option" where
  "emit_dform_ea i update c =
     (if inst_rA i = 0 \<and> \<not> update then Some (scast (inst_simm i))
      else do { a \<leftarrow> rd c (inst_rA i); Some (a + scast (inst_simm i)) })"

definition emit_xform_ea :: "PPCInst \<Rightarrow> bool \<Rightarrow> CPUState \<Rightarrow> u32 option" where
  "emit_xform_ea i update c =
     (if inst_rA i = 0 \<and> \<not> update then rd c (inst_rB i)
      else do { a \<leftarrow> rd c (inst_rA i); b \<leftarrow> rd c (inst_rB i); Some (a + b) })"

definition emit_ea :: "PPCInst \<Rightarrow> bool \<Rightarrow> bool \<Rightarrow> CPUState \<Rightarrow> u32 option" where
  "emit_ea i indexed update c = (if indexed then emit_xform_ea i update c else emit_dform_ea i update c)"

definition emit_update :: "PPCInst \<Rightarrow> bool \<Rightarrow> u32 \<Rightarrow> effect" where
  "emit_update i update ea c = (if update then wr c (inst_rA i) ea else Some c)"

text \<open>The read expressions of \<open>emit_load\<close> and \<open>emit_loadx\<close>.\<close>

definition read_word :: "host \<Rightarrow> CPUState \<Rightarrow> u32 \<Rightarrow> (u32 \<times> CPUState) option" where
  "read_word H c ea = mem_read32 H c ea"
definition read_byte :: "host \<Rightarrow> CPUState \<Rightarrow> u32 \<Rightarrow> (u32 \<times> CPUState) option" where
  "read_byte H c ea = map_option (\<lambda>(v, c). (ucast v, c)) (mem_read8 H c ea)"
definition read_half :: "host \<Rightarrow> CPUState \<Rightarrow> u32 \<Rightarrow> (u32 \<times> CPUState) option" where
  "read_half H c ea = map_option (\<lambda>(v, c). (ucast v, c)) (mem_read16 H c ea)"
definition read_half_signed :: "host \<Rightarrow> CPUState \<Rightarrow> u32 \<Rightarrow> (u32 \<times> CPUState) option" where
  "read_half_signed H c ea = map_option (\<lambda>(v, c). (scast v, c)) (mem_read16 H c ea)"
definition read_word_reversed :: "host \<Rightarrow> CPUState \<Rightarrow> u32 \<Rightarrow> (u32 \<times> CPUState) option" where
  "read_word_reversed H c ea = map_option (\<lambda>(v, c). (bswap32 v, c)) (mem_read32 H c ea)"
definition read_half_reversed :: "host \<Rightarrow> CPUState \<Rightarrow> u32 \<Rightarrow> (u32 \<times> CPUState) option" where
  "read_half_reversed H c ea = map_option (\<lambda>(v, c). (ucast (bswap16 v), c)) (mem_read16 H c ea)"

type_synonym reader = "host \<Rightarrow> CPUState \<Rightarrow> u32 \<Rightarrow> (u32 \<times> CPUState) option"
type_synonym writer = "host \<Rightarrow> CPUState \<Rightarrow> u32 \<Rightarrow> u32 \<Rightarrow> CPUState option"

definition emit_load :: "host \<Rightarrow> PPCInst \<Rightarrow> reader \<Rightarrow> bool \<Rightarrow> bool \<Rightarrow> effect" where
  "emit_load H i read indexed update c = do {
     ea \<leftarrow> emit_ea i indexed update c;
     (v, c) \<leftarrow> read H c ea;
     c \<leftarrow> wr c (inst_rD i) v;
     emit_update i update ea c
   }"

definition write_word :: writer where "write_word H c ea v = mem_write32 H c ea v"
definition write_half :: writer where "write_half H c ea v = mem_write16 H c ea (ucast v)"
definition write_byte :: writer where "write_byte H c ea v = mem_write8 H c ea (ucast v)"
definition write_word_reversed :: writer where "write_word_reversed H c ea v = mem_write32 H c ea (bswap32 v)"
definition write_half_reversed :: writer where
  "write_half_reversed H c ea v = mem_write16 H c ea (bswap16 (ucast v))"

definition emit_store :: "host \<Rightarrow> PPCInst \<Rightarrow> writer \<Rightarrow> bool \<Rightarrow> bool \<Rightarrow> effect" where
  "emit_store H i write indexed update c = do {
     ea \<leftarrow> emit_ea i indexed update c;
     v \<leftarrow> rd c (inst_rS i);
     c \<leftarrow> write H c ea v;
     emit_update i update ea c
   }"

text \<open>\<open>dolrecomp_f32_from_bits\<close> and \<open>dolrecomp_f32_to_bits\<close> of the generated header.  The loop that
  normalises a denormal number shifts its fraction at most 23 times.\<close>

function normalise :: "u64 \<Rightarrow> u64 \<Rightarrow> nat \<Rightarrow> u64 \<times> u64" where
  "normalise frac ex 0 = (frac, ex)"
| "normalise frac ex (Suc n) =
     (let frac = shl frac 1; ex = ex - 1
      in if frac AND 0x00800000 = 0 then normalise frac ex n else (frac, ex))"
  by pat_completeness auto
termination by (relation "measure (\<lambda>(_, _, n). n)") auto

definition spread_exponent :: "u64 \<Rightarrow> u64" where
  "spread_exponent y = shl y 61 OR shl y 60 OR shl y 59"

definition dolrecomp_f32_from_bits :: "u32 \<Rightarrow> u64" where
  "dolrecomp_f32_from_bits bits =
     (let x = ucast bits; ex = shr x 23 AND 0xFF; frac = x AND 0x007FFFFF
      in if ex > 0 \<and> ex < 255 then
           shl (x AND 0xC0000000) 32 OR spread_exponent (of_bool (shr ex 7 = 0)) OR shl (x AND 0x3FFFFFFF) 29
         else if ex = 0 \<and> frac \<noteq> 0 then
           let (frac, ex) = normalise frac (1023 - 126) 23
           in shl (x AND 0x80000000) 32 OR shl ex 52 OR shl (frac AND 0x007FFFFF) 29
         else
           shl (x AND 0xC0000000) 32 OR spread_exponent (shr ex 7) OR shl (x AND 0x3FFFFFFF) 29)"

definition dolrecomp_f32_to_bits :: "u64 \<Rightarrow> u32" where
  "dolrecomp_f32_to_bits bits =
     (let ex = ucast (shr bits 52 AND 0x7FF) :: u32
      in if ex > 896 \<or> bits AND 0x7FFFFFFFFFFFFFFF = 0 then
           ucast ((shr bits 32 AND 0xC0000000) OR (shr bits 29 AND 0x3FFFFFFF))
         else if ex \<ge> 874 then
           let result = ucast (0x80000000 OR shr (bits AND 0x000FFFFFFFFFFFFF) 21);
               result = shr result (unat (905 - ex))
           in result OR ucast (shr bits 32 AND 0x80000000)
         else ucast ((shr bits 32 AND 0xC0000000) OR (shr bits 29 AND 0x3FFFFFFF)))"

definition emit_fload :: "host \<Rightarrow> PPCInst \<Rightarrow> bool \<Rightarrow> bool \<Rightarrow> bool \<Rightarrow> effect" where
  "emit_fload H i single indexed update c = do {
     ea \<leftarrow> emit_ea i indexed update c;
     c \<leftarrow> (if single then do {
         (bits, c) \<leftarrow> mem_read32 H c ea;
         let v = dolrecomp_f32_from_bits bits;
         c \<leftarrow> wr_f c (inst_rD i) v;
         wr_p c (inst_rD i) v
       } else do {
         (bits, c) \<leftarrow> mem_read64 H c ea;
         wr_f c (inst_rD i) bits
       });
     emit_update i update ea c
   }"

definition emit_fstore :: "host \<Rightarrow> PPCInst \<Rightarrow> bool \<Rightarrow> bool \<Rightarrow> bool \<Rightarrow> effect" where
  "emit_fstore H i single indexed update c = do {
     ea \<leftarrow> emit_ea i indexed update c;
     f \<leftarrow> rd_f c (inst_rS i);
     c \<leftarrow> (if single then mem_write32 H c ea (dolrecomp_f32_to_bits f) else mem_write64 H c ea f);
     emit_update i update ea c
   }"

definition emit_dcbz :: "host \<Rightarrow> PPCInst \<Rightarrow> effect" where
  "emit_dcbz H i c = do {
     ea \<leftarrow> emit_xform_ea i False c;
     let ea = ea AND NOT 31;
     for_each [0..<8] (\<lambda>k c. mem_write32 H c (ea + 4 * of_nat k) 0) c
   }"

section \<open>Branches\<close>

definition emit_branch_condition :: "PPCInst \<Rightarrow> CPUState \<Rightarrow> bool \<times> CPUState" where
  "emit_branch_condition i c =
     (let bo = inst_bo i; bi = inst_bi i;
          ctr_ignored = (bo AND 0x04 \<noteq> 0); cond_ignored = (bo AND 0x10 \<noteq> 0);
          c = (if \<not> ctr_ignored then c\<lparr>ctr := ctr c - 1\<rparr> else c);
          ctr_ok = (if \<not> ctr_ignored then (ctr c \<noteq> 0) \<noteq> (shr bo 1 AND 1 \<noteq> 0) else True);
          cr_ok = (if \<not> cond_ignored
                   then (cr c AND shr 0x80000000 (unat bi) \<noteq> 0) = (shr bo 3 AND 1 \<noteq> 0) else True)
      in (ctr_ok \<and> cr_ok, c))"

definition branch_target_is_local :: "u32 \<Rightarrow> u32 \<Rightarrow> u32 \<Rightarrow> bool" where
  "branch_target_is_local func_start func_end target \<longleftrightarrow>
     target \<ge> func_start \<and> target < func_end \<and> (target - func_start) AND 3 = 0"

text \<open>\<open>emit_set_chunk_table\<close> sets the table; an empty one is no table.  The binary search.\<close>

function chunk_search :: "u32 list \<Rightarrow> u32 \<Rightarrow> nat \<Rightarrow> nat \<Rightarrow> nat option" where
  "chunk_search starts addr lo hi =
     (if lo < hi then do {
        let mid = lo + (hi - lo) div 2;
        s \<leftarrow> arr_get starts mid;
        if s \<le> addr then chunk_search starts addr (mid + 1) hi else chunk_search starts addr lo mid
      } else Some lo)"
  by pat_completeness auto
termination
  by (relation "measure (\<lambda>(_, _, lo, hi). hi - lo)") auto

definition chunk_start_for :: "u32 list \<Rightarrow> u32 \<Rightarrow> u32 option" where
  "chunk_start_for starts addr =
     (if starts = [] then Some 0
      else do {
        lo \<leftarrow> chunk_search starts addr 0 (length starts);
        if lo \<noteq> 0 then arr_get starts (lo - 1) else Some 0
      })"

record emit_context =
  chunk_starts :: "u32 list" \<comment> \<open>\<open>g_chunk_starts\<close>\<close>
  func_start :: u32
  func_end :: u32
  direct_backedge :: bool
  route_local_returns :: bool

abbreviation (input) LOOP_CYCLE_BUDGET :: u64 where "LOOP_CYCLE_BUDGET \<equiv> 256"

text \<open>The call the generated code makes to the chunk of the target; \<open>None\<close> when it makes none.  An
  undefined access of the table is the outer \<open>None\<close>.\<close>

definition emit_cross_chunk_call :: "emit_context \<Rightarrow> PPCInst \<Rightarrow> CPUState \<Rightarrow> (flow \<times> CPUState) option option" where
  "emit_cross_chunk_call x i c = do {
     target_chunk \<leftarrow> chunk_start_for (chunk_starts x) (inst_branch_target i);
     let continuation = inst_address i + 4;
     if target_chunk = 0 then Some None
     else if \<not> branch_target_is_local (func_start x) (func_end x) continuation then Some None
     else Some (Some (CallChunk target_chunk continuation, c\<lparr>pc := inst_branch_target i\<rparr>))
   }"

definition leave_to :: "u32 \<Rightarrow> CPUState \<Rightarrow> flow \<times> CPUState" where
  "leave_to target c = (Return, c\<lparr>pc := target\<rparr>)"

text \<open>A backward jump leaves the function once the cycle budget is used up.\<close>

definition jump_back :: "u32 \<Rightarrow> CPUState \<Rightarrow> flow \<times> CPUState" where
  "jump_back target c =
     (if sint (downcount c) \<le> - sint LOOP_CYCLE_BUDGET then leave_to target c else (Goto target, c))"

definition emit_direct_branch :: "emit_context \<Rightarrow> PPCInst \<Rightarrow> CPUState \<Rightarrow> (flow \<times> CPUState) option" where
  "emit_direct_branch x i c =
     (let target = inst_branch_target i;
          local_target = branch_target_is_local (func_start x) (func_end x) target;
          local_backward = (local_target \<and> target \<le> inst_address i)
      in if inst_lk i then
           let c = c\<lparr>lr := inst_address i + 4\<rparr>
           in if local_target then Some (if local_backward then jump_back target c else (Goto target, c))
              else do {
                call \<leftarrow> emit_cross_chunk_call x i c;
                case call of Some r \<Rightarrow> Some r | None \<Rightarrow> Some (leave_to target c)
              }
         else if local_backward then
           Some (if direct_backedge x then jump_back target c else leave_to target c)
         else if local_target then Some (Goto target, c)
         else Some (leave_to target c))"

definition emit_dynamic_branch :: "PPCInst \<Rightarrow> u32 \<Rightarrow> bool \<Rightarrow> CPUState \<Rightarrow> flow \<times> CPUState" where
  "emit_dynamic_branch i target route c =
     (let (taken, c) = emit_branch_condition i c
      in if taken then
           let c = (if inst_lk i then c\<lparr>lr := inst_address i + 4\<rparr> else c);
               c = c\<lparr>pc := target\<rparr>
           in (if route then ReturnDispatch else Return, c)
         else (Next, c))"

end
