(* ===== verification/CExec.thy ===== *)
theory CExec
  imports CEmit
begin

text \<open>
  \<open>emit_instruction_with_range\<close> of \<open>src/backend/emitter.c\<close>: the effect of the statements printed for
  one instruction.  Instructions whose statement is one call of a floating point routine
  (\<open>ppc_fadds\<close>, \<open>ppc_fma\<close>, \<open>ppc_fcmp\<close>, \<open>ppc_psq_load_inline\<close>, ...) are listed in
  \<open>float_calls\<close>; those routines are not modelled and the effect is \<open>None\<close>.
\<close>

section \<open>Integer instructions\<close>

definition put_ca :: "CPUState \<Rightarrow> bool \<Rightarrow> CPUState" where
  "put_ca c ca = c\<lparr>xer := (xer c AND NOT 0x20000000) OR (if ca then 0x20000000 else 0)\<rparr>"

text \<open>\<open>ctx->xer = (ctx->xer & ~0x20000000u) | (((u32)(res >> 32) & 1u) << 29)\<close>\<close>

definition put_ca_of :: "CPUState \<Rightarrow> u64 \<Rightarrow> CPUState" where
  "put_ca_of c res =
     c\<lparr>xer := (xer c AND NOT 0x20000000) OR shl (ucast (shr res 32) AND 1) 29\<rparr>"

definition overflow_if :: "PPCInst \<Rightarrow> bool \<Rightarrow> CPUState \<Rightarrow> CPUState" where
  "overflow_if i ov c = (if inst_oe i then ppc_set_xer_ov c ov else c)"

definition simm64 :: "PPCInst \<Rightarrow> u64" where "simm64 i = scast (inst_simm i)"

definition c_mulli :: "PPCInst \<Rightarrow> effect" where
  "c_mulli i c = do { a \<leftarrow> rd c (inst_rA i); wr c (inst_rD i) (ucast (scast a * simm64 i)) }"

definition c_subfic :: "PPCInst \<Rightarrow> effect" where
  "c_subfic i c = do {
     a \<leftarrow> rd c (inst_rA i);
     let res = ucast (scast (inst_simm i) :: u32) + ucast (NOT a) + (1 :: u64);
     c \<leftarrow> wr c (inst_rD i) (ucast res);
     Some (put_ca_of c res)
   }"

definition c_addi :: "PPCInst \<Rightarrow> u32 \<Rightarrow> effect" where
  "c_addi i imm c =
     (if inst_rA i = 0 then wr c (inst_rD i) imm
      else do { a \<leftarrow> rd c (inst_rA i); wr c (inst_rD i) (a + imm) })"

definition c_addic :: "PPCInst \<Rightarrow> effect" where
  "c_addic i c = do {
     a \<leftarrow> rd c (inst_rA i);
     let res = (ucast a + ucast (scast (inst_simm i) :: u32) :: u64);
     c \<leftarrow> wr c (inst_rD i) (ucast res);
     let c = put_ca_of c res;
     if inst_op i = PPC_OP_ADDIC_DOT then emit_set_cr0_from_gpr (inst_rD i) c else Some c
   }"

definition c_logical_imm :: "PPCInst \<Rightarrow> (u32 \<Rightarrow> u32) \<Rightarrow> bool \<Rightarrow> effect" where
  "c_logical_imm i f record_cr0 c = do {
     s \<leftarrow> rd c (inst_rS i);
     c \<leftarrow> wr c (inst_rA i) (f s);
     if record_cr0 then emit_set_cr0_from_gpr (inst_rA i) c else Some c
   }"

definition c_ori :: "PPCInst \<Rightarrow> effect" where
  "c_ori i c =
     (if inst_rS i = 0 \<and> inst_rA i = 0 \<and> inst_uimm i = 0 then Some c
      else c_logical_imm i (\<lambda>s. s OR ucast (inst_uimm i)) False c)"

definition c_compare_imm :: "PPCInst \<Rightarrow> effect" where
  "c_compare_imm i c = do {
     a \<leftarrow> rd c (inst_rA i);
     Some (if inst_op i = PPC_OP_CMPI then emit_compare_s32 (inst_crfD i) a (scast (inst_simm i)) c
           else emit_compare_u32 (inst_crfD i) a (ucast (inst_uimm i)) c)
   }"

definition c_compare :: "PPCInst \<Rightarrow> effect" where
  "c_compare i c = do {
     a \<leftarrow> rd c (inst_rA i);
     b \<leftarrow> rd c (inst_rB i);
     Some (if inst_op i = PPC_OP_CMP then emit_compare_s32 (inst_crfD i) a b c
           else emit_compare_u32 (inst_crfD i) a b c)
   }"

definition c_add :: "PPCInst \<Rightarrow> effect" where
  "c_add i c = do {
     a \<leftarrow> rd c (inst_rA i);
     b \<leftarrow> rd c (inst_rB i);
     let res = a + b;
     c \<leftarrow> wr c (inst_rD i) res;
     let c = overflow_if i (ppc_add_overflowed a b res) c;
     emit_record_if_needed i (inst_rD i) c
   }"

text \<open>The carrying additions: of the two inputs and a carry.\<close>

definition c_wide_add :: "PPCInst \<Rightarrow> u32 \<Rightarrow> u32 \<Rightarrow> u64 \<Rightarrow> effect" where
  "c_wide_add i a b carry c = do {
     let wide = ucast a + ucast b + carry;
     let res = ucast wide;
     c \<leftarrow> wr c (inst_rD i) res;
     let c = put_ca_of c wide;
     let c = overflow_if i (ppc_add_overflowed a b res) c;
     emit_record_if_needed i (inst_rD i) c
   }"

definition carry_in :: "CPUState \<Rightarrow> u64" where
  "carry_in c = ucast (shr (xer c) 29 AND 1)"

definition c_addc :: "PPCInst \<Rightarrow> effect" where
  "c_addc i c = do { a \<leftarrow> rd c (inst_rA i); b \<leftarrow> rd c (inst_rB i); c_wide_add i a b 0 c }"

definition c_adde :: "PPCInst \<Rightarrow> effect" where
  "c_adde i c = do { a \<leftarrow> rd c (inst_rA i); b \<leftarrow> rd c (inst_rB i); c_wide_add i a b (carry_in c) c }"

definition c_addze :: "PPCInst \<Rightarrow> effect" where
  "c_addze i c = do { a \<leftarrow> rd c (inst_rA i); c_wide_add i a 0 (carry_in c) c }"

definition c_subf :: "PPCInst \<Rightarrow> effect" where
  "c_subf i c = do {
     a \<leftarrow> rd c (inst_rA i);
     b \<leftarrow> rd c (inst_rB i);
     let a = NOT a;
     let res = a + b + 1;
     c \<leftarrow> wr c (inst_rD i) res;
     let c = overflow_if i (ppc_add_overflowed a b res) c;
     emit_record_if_needed i (inst_rD i) c
   }"

definition c_subfc :: "PPCInst \<Rightarrow> effect" where
  "c_subfc i c = do { a \<leftarrow> rd c (inst_rA i); b \<leftarrow> rd c (inst_rB i); c_wide_add i (NOT a) b 1 c }"

definition c_subfe :: "PPCInst \<Rightarrow> effect" where
  "c_subfe i c = do { a \<leftarrow> rd c (inst_rA i); b \<leftarrow> rd c (inst_rB i); c_wide_add i (NOT a) b (carry_in c) c }"

definition c_subfze :: "PPCInst \<Rightarrow> effect" where
  "c_subfze i c = do { a \<leftarrow> rd c (inst_rA i); c_wide_add i (NOT a) 0 (carry_in c) c }"

text \<open>\<open>addme\<close> and \<open>subfme\<close> test the upper half of the sum instead of one bit.\<close>

definition c_minus_one :: "PPCInst \<Rightarrow> u32 \<Rightarrow> effect" where
  "c_minus_one i input c = do {
     let res = ucast input + 0xFFFFFFFF + carry_in c;
     c \<leftarrow> wr c (inst_rD i) (ucast res);
     let c = put_ca c (shr res 32 \<noteq> 0);
     let c = overflow_if i (ppc_add_overflowed input 0xFFFFFFFF (ucast res)) c;
     emit_record_if_needed i (inst_rD i) c
   }"

definition c_addme :: "PPCInst \<Rightarrow> effect" where
  "c_addme i c = do { a \<leftarrow> rd c (inst_rA i); c_minus_one i a c }"

definition c_subfme :: "PPCInst \<Rightarrow> effect" where
  "c_subfme i c = do { a \<leftarrow> rd c (inst_rA i); c_minus_one i (NOT a) c }"

definition c_neg :: "PPCInst \<Rightarrow> effect" where
  "c_neg i c = do {
     a \<leftarrow> rd c (inst_rA i);
     c \<leftarrow> wr c (inst_rD i) (NOT a + 1);
     let c = overflow_if i (a = 0x80000000) c;
     emit_record_if_needed i (inst_rD i) c
   }"

definition c_mullw :: "PPCInst \<Rightarrow> effect" where
  "c_mullw i c = do {
     a \<leftarrow> rd c (inst_rA i);
     b \<leftarrow> rd c (inst_rB i);
     let product = (scast a * scast b :: u64);
     c \<leftarrow> wr c (inst_rD i) (ucast product);
     let c = overflow_if i (sint product < - 0x80000000 \<or> sint product > 0x7FFFFFFF) c;
     emit_record_if_needed i (inst_rD i) c
   }"

definition c_mulhw :: "PPCInst \<Rightarrow> effect" where
  "c_mulhw i c = do {
     a \<leftarrow> rd c (inst_rA i);
     b \<leftarrow> rd c (inst_rB i);
     let product = (scast a * scast b :: u64);
     c \<leftarrow> wr c (inst_rD i) (ucast (signed_drop_bit 32 product));
     emit_record_if_needed i (inst_rD i) c
   }"

definition c_mulhwu :: "PPCInst \<Rightarrow> effect" where
  "c_mulhwu i c = do {
     a \<leftarrow> rd c (inst_rA i);
     b \<leftarrow> rd c (inst_rB i);
     let product = (ucast a * ucast b :: u64);
     c \<leftarrow> wr c (inst_rD i) (ucast (shr product 32));
     emit_record_if_needed i (inst_rD i) c
   }"

definition c_divw :: "PPCInst \<Rightarrow> effect" where
  "c_divw i c = do {
     dividend \<leftarrow> rd c (inst_rA i);
     divisor \<leftarrow> rd c (inst_rB i);
     let ov = (divisor = 0 \<or> (dividend = 0x80000000 \<and> sint divisor = - 1));
     c \<leftarrow> wr c (inst_rD i) (if ov then (if sint dividend < 0 then 0xFFFFFFFF else 0)
                           else word_of_int (sint dividend sdiv sint divisor));
     let c = overflow_if i ov c;
     emit_record_if_needed i (inst_rD i) c
   }"

definition c_divwu :: "PPCInst \<Rightarrow> effect" where
  "c_divwu i c = do {
     dividend \<leftarrow> rd c (inst_rA i);
     divisor \<leftarrow> rd c (inst_rB i);
     c \<leftarrow> wr c (inst_rD i) (if divisor = 0 then 0 else dividend div divisor);
     let c = overflow_if i (divisor = 0) c;
     emit_record_if_needed i (inst_rD i) c
   }"

text \<open>The instructions that compute \<open>rA\<close> from \<open>rS\<close> and \<open>rB\<close>.\<close>

definition c_logical :: "PPCInst \<Rightarrow> (u32 \<Rightarrow> u32 \<Rightarrow> u32) \<Rightarrow> effect" where
  "c_logical i f c = do {
     s \<leftarrow> rd c (inst_rS i);
     b \<leftarrow> rd c (inst_rB i);
     c \<leftarrow> wr c (inst_rA i) (f s b);
     emit_record_if_needed i (inst_rA i) c
   }"

definition c_unary :: "PPCInst \<Rightarrow> (u32 \<Rightarrow> u32) \<Rightarrow> effect" where
  "c_unary i f c = do {
     s \<leftarrow> rd c (inst_rS i);
     c \<leftarrow> wr c (inst_rA i) (f s);
     emit_record_if_needed i (inst_rA i) c
   }"

text \<open>\<open>while (n < 32 && ((v & (0x80000000u >> n)) == 0)) n++\<close>, with \<open>left\<close> steps to go\<close>

fun cntlzw_loop :: "u32 \<Rightarrow> nat \<Rightarrow> nat" where
  "cntlzw_loop v 0 = 32"
| "cntlzw_loop v (Suc left) =
     (if v AND shr 0x80000000 (31 - left) = 0 then cntlzw_loop v left else 31 - left)"

definition c_slw :: "u32 \<Rightarrow> u32 \<Rightarrow> u32" where
  "c_slw s b = (let sh = b AND 0x3F in if sh > 31 then 0 else shl s (unat sh))"

definition c_srw :: "u32 \<Rightarrow> u32 \<Rightarrow> u32" where
  "c_srw s b = (let sh = b AND 0x3F in if sh > 31 then 0 else shr s (unat sh))"

definition c_sraw :: "PPCInst \<Rightarrow> effect" where
  "c_sraw i c = do {
     sh \<leftarrow> (if inst_op i = PPC_OP_SRAWI then Some (ucast (inst_sh i))
           else do { b \<leftarrow> rd c (inst_rB i); Some (b AND 0x3F) });
     v \<leftarrow> rd c (inst_rS i);
     let (result, ca) =
       (if sh = 0 then (v, False)
        else if sh > 31 then (if v AND 0x80000000 \<noteq> 0 then 0xFFFFFFFF else 0, v AND 0x80000000 \<noteq> 0)
        else (signed_drop_bit (unat sh) v,
              v AND 0x80000000 \<noteq> 0 \<and> shl v (unat (32 - sh)) \<noteq> 0));
     c \<leftarrow> wr c (inst_rA i) result;
     let c = put_ca c ca;
     emit_record_if_needed i (inst_rA i) c
   }"

definition dolrecomp_rotl32 :: "u32 \<Rightarrow> u32 \<Rightarrow> u32" where
  "dolrecomp_rotl32 v sh =
     (let sh = sh AND 31 in if sh \<noteq> 0 then shl v (unat sh) OR shr v (unat (32 - sh)) else v)"

definition c_rlwinm :: "PPCInst \<Rightarrow> effect" where
  "c_rlwinm i c = do {
     m \<leftarrow> emit_mask32 (inst_mb i) (inst_me i);
     s \<leftarrow> rd c (inst_rS i);
     sh \<leftarrow> (if inst_op i = PPC_OP_RLWNM then rd c (inst_rB i) else Some (ucast (inst_sh i)));
     c \<leftarrow> wr c (inst_rA i) (dolrecomp_rotl32 s sh AND m);
     emit_record_if_needed i (inst_rA i) c
   }"

definition c_rlwimi :: "PPCInst \<Rightarrow> effect" where
  "c_rlwimi i c = do {
     m \<leftarrow> emit_mask32 (inst_mb i) (inst_me i);
     s \<leftarrow> rd c (inst_rS i);
     let rot = dolrecomp_rotl32 s (ucast (inst_sh i));
     a \<leftarrow> rd c (inst_rA i);
     c \<leftarrow> wr c (inst_rA i) ((a AND NOT m) OR (rot AND m));
     emit_record_if_needed i (inst_rA i) c
   }"

definition c_integer :: "PPCInst \<Rightarrow> effect option" where
  "c_integer i = switch_in (inst_op i)
     [([PPC_OP_MULLI], Some (c_mulli i)),
      ([PPC_OP_SUBFIC], Some (c_subfic i)),
      ([PPC_OP_ADDI], Some (c_addi i (scast (inst_simm i)))),
      ([PPC_OP_ADDIC, PPC_OP_ADDIC_DOT], Some (c_addic i)),
      ([PPC_OP_ADDIS], Some (c_addi i (shl (scast (inst_simm i)) 16))),
      ([PPC_OP_CMPI, PPC_OP_CMPLI], Some (c_compare_imm i)),
      ([PPC_OP_CMP, PPC_OP_CMPL], Some (c_compare i)),
      ([PPC_OP_ORI], Some (c_ori i)),
      ([PPC_OP_ORIS], Some (c_logical_imm i (\<lambda>s. s OR shl (ucast (inst_uimm i)) 16) False)),
      ([PPC_OP_XORI], Some (c_logical_imm i (\<lambda>s. s XOR ucast (inst_uimm i)) False)),
      ([PPC_OP_XORIS], Some (c_logical_imm i (\<lambda>s. s XOR shl (ucast (inst_uimm i)) 16) False)),
      ([PPC_OP_ANDI], Some (c_logical_imm i (\<lambda>s. s AND ucast (inst_uimm i)) True)),
      ([PPC_OP_ANDIS], Some (c_logical_imm i (\<lambda>s. s AND shl (ucast (inst_uimm i)) 16) True)),
      ([PPC_OP_ADD, PPC_OP_ADDO], Some (c_add i)),
      ([PPC_OP_ADDC, PPC_OP_ADDCO], Some (c_addc i)),
      ([PPC_OP_ADDE, PPC_OP_ADDEO], Some (c_adde i)),
      ([PPC_OP_ADDME, PPC_OP_ADDMEO], Some (c_addme i)),
      ([PPC_OP_ADDZE, PPC_OP_ADDZEO], Some (c_addze i)),
      ([PPC_OP_SUBF, PPC_OP_SUBFO], Some (c_subf i)),
      ([PPC_OP_SUBFC, PPC_OP_SUBFCO], Some (c_subfc i)),
      ([PPC_OP_SUBFE, PPC_OP_SUBFEO], Some (c_subfe i)),
      ([PPC_OP_SUBFME, PPC_OP_SUBFMEO], Some (c_subfme i)),
      ([PPC_OP_SUBFZE, PPC_OP_SUBFZEO], Some (c_subfze i)),
      ([PPC_OP_NEG, PPC_OP_NEGO], Some (c_neg i)),
      ([PPC_OP_MULLW, PPC_OP_MULLWO], Some (c_mullw i)),
      ([PPC_OP_MULHW], Some (c_mulhw i)),
      ([PPC_OP_MULHWU], Some (c_mulhwu i)),
      ([PPC_OP_DIVW, PPC_OP_DIVWO], Some (c_divw i)),
      ([PPC_OP_DIVWU, PPC_OP_DIVWUO], Some (c_divwu i)),
      ([PPC_OP_AND], Some (c_logical i (\<lambda>s b. s AND b))),
      ([PPC_OP_ANDC], Some (c_logical i (\<lambda>s b. s AND NOT b))),
      ([PPC_OP_OR], Some (c_logical i (\<lambda>s b. s OR b))),
      ([PPC_OP_ORC], Some (c_logical i (\<lambda>s b. s OR NOT b))),
      ([PPC_OP_XOR], Some (c_logical i (\<lambda>s b. s XOR b))),
      ([PPC_OP_NAND], Some (c_logical i (\<lambda>s b. NOT (s AND b)))),
      ([PPC_OP_NOR], Some (c_logical i (\<lambda>s b. NOT (s OR b)))),
      ([PPC_OP_EQV], Some (c_logical i (\<lambda>s b. NOT (s XOR b)))),
      ([PPC_OP_CNTLZW], Some (c_unary i (\<lambda>v. of_nat (cntlzw_loop v 32)))),
      ([PPC_OP_EXTSB], Some (c_unary i (\<lambda>s. scast (ucast s :: u8)))),
      ([PPC_OP_EXTSH], Some (c_unary i (\<lambda>s. scast (ucast s :: u16)))),
      ([PPC_OP_SLW], Some (c_logical i c_slw)),
      ([PPC_OP_SRW], Some (c_logical i c_srw)),
      ([PPC_OP_SRAW, PPC_OP_SRAWI], Some (c_sraw i)),
      ([PPC_OP_RLWINM, PPC_OP_RLWNM], Some (c_rlwinm i)),
      ([PPC_OP_RLWIMI], Some (c_rlwimi i))]
     None"

section \<open>Floating point instructions without arithmetic\<close>

definition cr1_if :: "PPCInst \<Rightarrow> CPUState \<Rightarrow> CPUState" where
  "cr1_if i c = (if inst_rc i then emit_set_cr1_from_fpscr c else c)"

definition c_fmove :: "PPCInst \<Rightarrow> (u64 \<Rightarrow> u64) \<Rightarrow> effect" where
  "c_fmove i f c = do { b \<leftarrow> rd_f c (inst_rB i); c \<leftarrow> wr_f c (inst_rD i) (f b); Some (cr1_if i c) }"

text \<open>\<open>x >= 0.0\<close> on the bits of a double: no NaN, and positive or a zero.\<close>

definition ge_zero :: "u64 \<Rightarrow> bool" where
  "ge_zero x \<longleftrightarrow> x AND 0x7FFFFFFFFFFFFFFF \<le> 0x7FF0000000000000 \<and>
     (\<not> bit x 63 \<or> x AND 0x7FFFFFFFFFFFFFFF = 0)"

definition c_fsel :: "PPCInst \<Rightarrow> effect" where
  "c_fsel i c = do {
     a \<leftarrow> rd_f c (inst_rA i);
     v \<leftarrow> (if ge_zero a then rd_f c (inst_rC i) else rd_f c (inst_rB i));
     c \<leftarrow> wr_f c (inst_rD i) v;
     Some (cr1_if i c)
   }"

text \<open>The generated code changes the bit itself; bits 1 and 2 stay.\<close>

definition c_mtfsb :: "PPCInst \<Rightarrow> CPUState \<Rightarrow> CPUState" where
  "c_mtfsb i c =
     (let m = shr 0x80000000 (unat (inst_rD i));
          c = (if inst_rD i \<noteq> 1 \<and> inst_rD i \<noteq> 2
               then c\<lparr>fpscr := if inst_op i = PPC_OP_MTFSB0 then fpscr c AND NOT m else fpscr c OR m\<rparr>
               else c)
      in cr1_if i c)"

definition c_mffs :: "PPCInst \<Rightarrow> effect" where
  "c_mffs i c = do {
     c \<leftarrow> wr_f c (inst_rD i) (0xFFF8000000000000 OR ucast (fpscr c));
     Some (cr1_if i c)
   }"

definition c_mcrfs :: "PPCInst \<Rightarrow> CPUState \<Rightarrow> CPUState" where
  "c_mcrfs i c =
     (let shift = cr_field_shift (inst_crfS i);
          field = shr (fpscr c) shift AND 0xF;
          c = c\<lparr>fpscr := fpscr c AND NOT (shl 0xF shift AND 0x83F80700)\<rparr>;
          c = ppc_fpscr_updated c
      in put_cr (inst_crfD i) field c)"

definition c_mtfsfi :: "PPCInst \<Rightarrow> CPUState \<Rightarrow> CPUState" where
  "c_mtfsfi i c =
     (let shift = cr_field_shift (inst_crfD i);
          c = c\<lparr>fpscr := (fpscr c AND NOT (shl 0xF shift)) OR shl (ucast (inst_imm i)) shift\<rparr>;
          c = ppc_fpscr_updated c
      in cr1_if i c)"

definition c_mtfsf :: "PPCInst \<Rightarrow> effect" where
  "c_mtfsf i c = do {
     let m = foldl (\<lambda>m k. if inst_fm i AND shl 1 k \<noteq> 0 then m OR shl 0xF (k * 4) else m) 0 [0..<8];
     b \<leftarrow> rd_f c (inst_rB i);
     let source = ucast b;
     let c = c\<lparr>fpscr := (fpscr c AND NOT m) OR (source AND m)\<rparr>;
     let c = ppc_fpscr_updated c;
     Some (cr1_if i c)
   }"

text \<open>\<open>ps_neg\<close>, \<open>ps_abs\<close> and \<open>ps_nabs\<close> change the sign of the single precision image of each lane.\<close>

definition c_ps_sign :: "PPCInst \<Rightarrow> (u32 \<Rightarrow> u32) \<Rightarrow> effect" where
  "c_ps_sign i f c = do {
     a \<leftarrow> rd_f c (inst_rB i);
     c \<leftarrow> wr_f c (inst_rD i) (dolrecomp_f32_from_bits (f (dolrecomp_f32_to_bits a)));
     b \<leftarrow> rd_p c (inst_rB i);
     c \<leftarrow> wr_p c (inst_rD i) (dolrecomp_f32_from_bits (f (dolrecomp_f32_to_bits b)));
     Some (cr1_if i c)
   }"

definition c_ps_mr :: "PPCInst \<Rightarrow> effect" where
  "c_ps_mr i c = do {
     a \<leftarrow> rd_f c (inst_rB i);
     c \<leftarrow> wr_f c (inst_rD i) a;
     b \<leftarrow> rd_p c (inst_rB i);
     c \<leftarrow> wr_p c (inst_rD i) b;
     Some (cr1_if i c)
   }"

definition emit_ps_merge :: "PPCInst \<Rightarrow> bool \<Rightarrow> bool \<Rightarrow> effect" where
  "emit_ps_merge i use_a_ps1 use_b_ps1 c = do {
     a \<leftarrow> (if use_a_ps1 then rd_p c (inst_rA i) else rd_f c (inst_rA i));
     b \<leftarrow> (if use_b_ps1 then rd_p c (inst_rB i) else rd_f c (inst_rB i));
     c \<leftarrow> wr_f c (inst_rD i) a;
     wr_p c (inst_rD i) b
   }"

definition c_ps_merge :: "PPCInst \<Rightarrow> bool \<Rightarrow> bool \<Rightarrow> effect" where
  "c_ps_merge i a b c = map_option (cr1_if i) (emit_ps_merge i a b c)"

definition c_float :: "PPCInst \<Rightarrow> effect option" where
  "c_float i = switch_in (inst_op i)
     [([PPC_OP_FMR], Some (c_fmove i (\<lambda>b. b))),
      ([PPC_OP_FNEG], Some (c_fmove i (\<lambda>b. b XOR 0x8000000000000000))),
      ([PPC_OP_FABS], Some (c_fmove i (\<lambda>b. b AND 0x7FFFFFFFFFFFFFFF))),
      ([PPC_OP_FNABS], Some (c_fmove i (\<lambda>b. b OR 0x8000000000000000))),
      ([PPC_OP_FSEL], Some (c_fsel i)),
      ([PPC_OP_MTFSB0, PPC_OP_MTFSB1], Some (Some \<circ> c_mtfsb i)),
      ([PPC_OP_MFFS], Some (c_mffs i)),
      ([PPC_OP_MCRFS], Some (Some \<circ> c_mcrfs i)),
      ([PPC_OP_MTFSFI], Some (Some \<circ> c_mtfsfi i)),
      ([PPC_OP_MTFSF], Some (c_mtfsf i)),
      ([PPC_OP_PS_NEG], Some (c_ps_sign i (\<lambda>b. b XOR 0x80000000))),
      ([PPC_OP_PS_ABS], Some (c_ps_sign i (\<lambda>b. b AND 0x7FFFFFFF))),
      ([PPC_OP_PS_NABS], Some (c_ps_sign i (\<lambda>b. b OR 0x80000000))),
      ([PPC_OP_PS_MR], Some (c_ps_mr i)),
      ([PPC_OP_PS_MERGE00], Some (c_ps_merge i False False)),
      ([PPC_OP_PS_MERGE01], Some (c_ps_merge i False True)),
      ([PPC_OP_PS_MERGE10], Some (c_ps_merge i True False)),
      ([PPC_OP_PS_MERGE11], Some (c_ps_merge i True True))]
     None"

section \<open>Memory instructions\<close>

text \<open>\<open>lswi\<close> and \<open>lswx\<close> fill registers byte by byte.\<close>

definition load_string :: "host \<Rightarrow> u8 \<Rightarrow> u32 \<Rightarrow> nat \<Rightarrow> effect" where
  "load_string H first ea count c =
     for_each [0..<count] (\<lambda>n c. do {
       let reg = (first + of_nat (n div 4)) AND 31;
       c \<leftarrow> (if n mod 4 = 0 then wr c reg 0 else Some c);
       old \<leftarrow> rd c reg;
       (v, c) \<leftarrow> mem_read8 H c (ea + of_nat n);
       wr c reg (old OR shl (ucast v) (24 - 8 * (n mod 4))) }) c"

definition store_string :: "host \<Rightarrow> u8 \<Rightarrow> u32 \<Rightarrow> nat \<Rightarrow> effect" where
  "store_string H first ea count c =
     for_each [0..<count] (\<lambda>n c. do {
       let reg = (first + of_nat (n div 4)) AND 31;
       v \<leftarrow> rd c reg;
       mem_write8 H c (ea + of_nat n) (ucast (shr v (24 - 8 * (n mod 4)))) }) c"

definition base_or_zero :: "PPCInst \<Rightarrow> CPUState \<Rightarrow> u32 option" where
  "base_or_zero i c = (if inst_rA i \<noteq> 0 then rd c (inst_rA i) else Some 0)"

definition immediate_count :: "PPCInst \<Rightarrow> nat" where
  "immediate_count i = (if inst_nb i \<noteq> 0 then unat (inst_nb i) else 32)"

definition c_lswi :: "host \<Rightarrow> PPCInst \<Rightarrow> effect" where
  "c_lswi H i c = do { ea \<leftarrow> base_or_zero i c; load_string H (inst_rD i) ea (immediate_count i) c }"

definition c_stswi :: "host \<Rightarrow> PPCInst \<Rightarrow> effect" where
  "c_stswi H i c = do { ea \<leftarrow> base_or_zero i c; store_string H (inst_rS i) ea (immediate_count i) c }"

definition indexed_or_base :: "PPCInst \<Rightarrow> CPUState \<Rightarrow> u32 option" where
  "indexed_or_base i c = do {
     b \<leftarrow> rd c (inst_rB i);
     a \<leftarrow> base_or_zero i c;
     Some (b + a)
   }"

text \<open>A loaded register that is one of the address registers raises a program exception.\<close>

definition c_lswx :: "host \<Rightarrow> PPCInst \<Rightarrow> CPUState \<Rightarrow> (flow \<times> CPUState) option" where
  "c_lswx H i c = do {
     ea \<leftarrow> indexed_or_base i c;
     let count = unat (xer c AND 0x7F);
     let reg_count = (count + 3) div 4;
     if \<exists>r \<in> set [0..<reg_count]. let reg = (inst_rD i + of_nat r) AND 31 in reg = inst_rA i \<or> reg = inst_rB i
     then Some (Return, ppc_program_exception c PPC_PROGRAM_ILLEGAL (inst_address i))
     else goes_on (load_string H (inst_rD i) ea count c)
   }"

definition c_stswx :: "host \<Rightarrow> PPCInst \<Rightarrow> effect" where
  "c_stswx H i c = do {
     ea \<leftarrow> indexed_or_base i c;
     store_string H (inst_rS i) ea (unat (xer c AND 0x7F)) c
   }"

definition c_lwarx :: "host \<Rightarrow> PPCInst \<Rightarrow> effect" where
  "c_lwarx H i c = do {
     ea \<leftarrow> emit_xform_ea i False c;
     (v, c) \<leftarrow> mem_read32 H c ea;
     c \<leftarrow> wr c (inst_rD i) v;
     Some (c\<lparr>reserve_addr := ea, reserve_valid := True\<rparr>)
   }"

definition c_stwcx :: "host \<Rightarrow> PPCInst \<Rightarrow> effect" where
  "c_stwcx H i c = do {
     ea \<leftarrow> emit_xform_ea i False c;
     let success = (reserve_valid c \<and> ea = reserve_addr c);
     c \<leftarrow> (if success then do {
         v \<leftarrow> rd c (inst_rS i);
         c \<leftarrow> mem_write32 H c ea v;
         Some (c\<lparr>reserve_valid := False\<rparr>)
       } else Some c);
     Some (c\<lparr>cr := (cr c AND 0x0FFFFFFF) OR shl (if success then 2 else 0) 28 OR
       (shr (xer c) 3 AND 0x10000000)\<rparr>)
   }"

definition c_stfiwx :: "host \<Rightarrow> PPCInst \<Rightarrow> effect" where
  "c_stfiwx H i c = do {
     ea \<leftarrow> emit_xform_ea i False c;
     f \<leftarrow> rd_f c (inst_rS i);
     mem_write32 H c ea (ucast f)
   }"

text \<open>The loop runs \<open>r\<close> to 31 and the address along.\<close>

definition c_lmw :: "host \<Rightarrow> PPCInst \<Rightarrow> effect" where
  "c_lmw H i c = do {
     ea \<leftarrow> emit_dform_ea i False c;
     (c, _) \<leftarrow> for_each [unat (inst_rD i)..<32] (\<lambda>r (c, ea). do {
         (v, c) \<leftarrow> mem_read32 H c ea;
         c \<leftarrow> wr c (of_nat r) v;
         Some (c, ea + 4) }) (c, ea);
     Some c
   }"

definition c_stmw :: "host \<Rightarrow> PPCInst \<Rightarrow> effect" where
  "c_stmw H i c = do {
     ea \<leftarrow> emit_dform_ea i False c;
     (c, _) \<leftarrow> for_each [unat (inst_rS i)..<32] (\<lambda>r (c, ea). do {
         v \<leftarrow> rd c (of_nat r);
         c \<leftarrow> mem_write32 H c ea v;
         Some (c, ea + 4) }) (c, ea);
     Some c
   }"

definition c_memory :: "host \<Rightarrow> PPCInst \<Rightarrow> effect option" where
  "c_memory H i = switch_in (inst_op i)
     [([PPC_OP_LWZ], Some (emit_load H i read_word False False)),
      ([PPC_OP_LWZU], Some (emit_load H i read_word False True)),
      ([PPC_OP_LBZ], Some (emit_load H i read_byte False False)),
      ([PPC_OP_LBZU], Some (emit_load H i read_byte False True)),
      ([PPC_OP_LHZ], Some (emit_load H i read_half False False)),
      ([PPC_OP_LHZU], Some (emit_load H i read_half False True)),
      ([PPC_OP_LHA], Some (emit_load H i read_half_signed False False)),
      ([PPC_OP_LHAU], Some (emit_load H i read_half_signed False True)),
      ([PPC_OP_LWZX], Some (emit_load H i read_word True False)),
      ([PPC_OP_LWZUX], Some (emit_load H i read_word True True)),
      ([PPC_OP_LBZX], Some (emit_load H i read_byte True False)),
      ([PPC_OP_LBZUX], Some (emit_load H i read_byte True True)),
      ([PPC_OP_LHZX], Some (emit_load H i read_half True False)),
      ([PPC_OP_LHZUX], Some (emit_load H i read_half True True)),
      ([PPC_OP_LHAX], Some (emit_load H i read_half_signed True False)),
      ([PPC_OP_LHAUX], Some (emit_load H i read_half_signed True True)),
      ([PPC_OP_LWBRX], Some (emit_load H i read_word_reversed True False)),
      ([PPC_OP_LHBRX], Some (emit_load H i read_half_reversed True False)),
      ([PPC_OP_LFS], Some (emit_fload H i True False False)),
      ([PPC_OP_LFSU], Some (emit_fload H i True False True)),
      ([PPC_OP_LFD], Some (emit_fload H i False False False)),
      ([PPC_OP_LFDU], Some (emit_fload H i False False True)),
      ([PPC_OP_LFSX], Some (emit_fload H i True True False)),
      ([PPC_OP_LFSUX], Some (emit_fload H i True True True)),
      ([PPC_OP_LFDX], Some (emit_fload H i False True False)),
      ([PPC_OP_LFDUX], Some (emit_fload H i False True True)),
      ([PPC_OP_STW], Some (emit_store H i write_word False False)),
      ([PPC_OP_STWU], Some (emit_store H i write_word False True)),
      ([PPC_OP_STB], Some (emit_store H i write_byte False False)),
      ([PPC_OP_STBU], Some (emit_store H i write_byte False True)),
      ([PPC_OP_STH], Some (emit_store H i write_half False False)),
      ([PPC_OP_STHU], Some (emit_store H i write_half False True)),
      ([PPC_OP_STWX], Some (emit_store H i write_word True False)),
      ([PPC_OP_STWUX], Some (emit_store H i write_word True True)),
      ([PPC_OP_STBX], Some (emit_store H i write_byte True False)),
      ([PPC_OP_STBUX], Some (emit_store H i write_byte True True)),
      ([PPC_OP_STHX], Some (emit_store H i write_half True False)),
      ([PPC_OP_STHUX], Some (emit_store H i write_half True True)),
      ([PPC_OP_STFS], Some (emit_fstore H i True False False)),
      ([PPC_OP_STFSU], Some (emit_fstore H i True False True)),
      ([PPC_OP_STFD], Some (emit_fstore H i False False False)),
      ([PPC_OP_STFDU], Some (emit_fstore H i False False True)),
      ([PPC_OP_STFSX], Some (emit_fstore H i True True False)),
      ([PPC_OP_STFSUX], Some (emit_fstore H i True True True)),
      ([PPC_OP_STFDX], Some (emit_fstore H i False True False)),
      ([PPC_OP_STFDUX], Some (emit_fstore H i False True True)),
      ([PPC_OP_STWBRX], Some (emit_store H i write_word_reversed True False)),
      ([PPC_OP_STHBRX], Some (emit_store H i write_half_reversed True False)),
      ([PPC_OP_LSWI], Some (c_lswi H i)),
      ([PPC_OP_STSWI], Some (c_stswi H i)),
      ([PPC_OP_STSWX], Some (c_stswx H i)),
      ([PPC_OP_LWARX], Some (c_lwarx H i)),
      ([PPC_OP_STWCX], Some (c_stwcx H i)),
      ([PPC_OP_STFIWX], Some (c_stfiwx H i)),
      ([PPC_OP_DCBZ], Some (emit_dcbz H i)),
      ([PPC_OP_DCBTST, PPC_OP_DCBT], Some Some),
      ([PPC_OP_LMW], Some (c_lmw H i)),
      ([PPC_OP_STMW], Some (c_stmw H i))]
     None"

section \<open>System state\<close>

definition c_mcrf :: "PPCInst \<Rightarrow> CPUState \<Rightarrow> CPUState" where
  "c_mcrf i c = put_cr (inst_crfD i) (shr (cr c) (cr_field_shift (inst_crfS i)) AND 0xF) c"

definition c_mcrxr :: "PPCInst \<Rightarrow> CPUState \<Rightarrow> CPUState" where
  "c_mcrxr i c =
     (let c = put_cr (inst_crfD i) (shr (xer c) 28 AND 0xF) c
      in c\<lparr>xer := xer c AND NOT 0xE0000000\<rparr>)"

definition mtcrf_mask :: "u8 \<Rightarrow> u32" where
  "mtcrf_mask crm =
     foldl (\<lambda>m crf. if crm AND shr 0x80 crf \<noteq> 0 then m OR shl 0xF (cr_field_shift (of_nat crf)) else m) 0 [0..<8]"

definition c_mtcrf :: "PPCInst \<Rightarrow> effect" where
  "c_mtcrf i c =
     (let m = mtcrf_mask (inst_crm i)
      in if m \<noteq> 0 then do {
           s \<leftarrow> rd c (inst_rS i);
           Some (c\<lparr>cr := (cr c AND NOT m) OR (s AND m)\<rparr>)
         } else Some c)"

definition sr_of :: "u32 \<Rightarrow> nat" where "sr_of w = unat (shr w 28 AND 0xF)"

definition c_mfsr :: "PPCInst \<Rightarrow> effect" where
  "c_mfsr i c = do { v \<leftarrow> arr_get (sr c) (unat (inst_sr i)); wr c (inst_rD i) v }"

definition c_mfsrin :: "PPCInst \<Rightarrow> effect" where
  "c_mfsrin i c = do { b \<leftarrow> rd c (inst_rB i); v \<leftarrow> arr_get (sr c) (sr_of b); wr c (inst_rD i) v }"

definition wr_sr :: "CPUState \<Rightarrow> nat \<Rightarrow> u32 \<Rightarrow> CPUState option" where
  "wr_sr c n v = map_option (\<lambda>xs. c\<lparr>sr := xs\<rparr>) (arr_set (sr c) n v)"

definition c_mtsr :: "PPCInst \<Rightarrow> effect" where
  "c_mtsr i c = do { s \<leftarrow> rd c (inst_rS i); wr_sr c (unat (inst_sr i)) s }"

definition c_mtsrin :: "PPCInst \<Rightarrow> effect" where
  "c_mtsrin i c = do { b \<leftarrow> rd c (inst_rB i); s \<leftarrow> rd c (inst_rS i); wr_sr c (sr_of b) s }"

text \<open>\<open>if (ctx->exception) return;\<close>\<close>

definition exit_on_exception :: "CPUState \<Rightarrow> flow \<times> CPUState" where
  "exit_on_exception c = (if exception c \<noteq> 0 then Return else Next, c)"

definition c_fallback :: "host \<Rightarrow> PPCInst \<Rightarrow> CPUState \<Rightarrow> flow \<times> CPUState" where
  "c_fallback H i c = (Return, ppc_fallback_instruction H c (inst_raw i) (inst_address i))"

definition c_mftb :: "PPCInst \<Rightarrow> CPUState \<Rightarrow> (flow \<times> CPUState) option" where
  "c_mftb i c =
     (let (v, c) = ppc_mftb c (inst_spr i) (inst_address i)
      in map_option exit_on_exception (wr c (inst_rD i) v))"

definition c_mfspr :: "host \<Rightarrow> PPCInst \<Rightarrow> CPUState \<Rightarrow> (flow \<times> CPUState) option" where
  "c_mfspr H i c =
     (let get = (\<lambda>v. goes_on (wr c (inst_rD i) v))
      in switch_in (inst_spr i)
       [([1], get (xer c)), ([8], get (lr c)), ([9], get (ctr c)), ([26], get (srr0 c)), ([27], get (srr1 c)),
        ([268, 269], c_mftb i c),
        ([912, 913, 914, 915, 916, 917, 918, 919],
          do { v \<leftarrow> arr_get (gqr c) (unat (inst_spr i - 912)); get v }),
        ([282], get (ear c)), ([920], get (hid2 c))]
       (Some (c_fallback H i c)))"

definition c_mtspr :: "host \<Rightarrow> PPCInst \<Rightarrow> CPUState \<Rightarrow> (flow \<times> CPUState) option" where
  "c_mtspr H i c =
     (let put = (\<lambda>f. do { s \<leftarrow> rd c (inst_rS i); Some (Next, f s) })
      in switch_in (inst_spr i)
       [([1], put (\<lambda>v. c\<lparr>xer := v\<rparr>)), ([8], put (\<lambda>v. c\<lparr>lr := v\<rparr>)), ([9], put (\<lambda>v. c\<lparr>ctr := v\<rparr>)),
        ([26], put (\<lambda>v. c\<lparr>srr0 := v\<rparr>)), ([27], put (\<lambda>v. c\<lparr>srr1 := v\<rparr>)), ([282], put (\<lambda>v. c\<lparr>ear := v\<rparr>)),
        ([912, 913, 914, 915, 916, 917, 918, 919], do {
           s \<leftarrow> rd c (inst_rS i);
           xs \<leftarrow> arr_set (gqr c) (unat (inst_spr i - 912)) s;
           Some (Next, c\<lparr>gqr := xs\<rparr>) }),
        ([920], put (\<lambda>v. c\<lparr>hid2 := v\<rparr>))]
       (Some (c_fallback H i c)))"

definition c_state :: "PPCInst \<Rightarrow> effect option" where
  "c_state i = switch_in (inst_op i)
     [([PPC_OP_CRAND], Some (Some \<circ> emit_cr_logical i (\<lambda>a b. a \<and> b))),
      ([PPC_OP_CRANDC], Some (Some \<circ> emit_cr_logical i (\<lambda>a b. a \<and> \<not> b))),
      ([PPC_OP_CREQV], Some (Some \<circ> emit_cr_logical i (\<lambda>a b. a = b))),
      ([PPC_OP_CRNAND], Some (Some \<circ> emit_cr_logical i (\<lambda>a b. \<not> (a \<and> b)))),
      ([PPC_OP_CRNOR], Some (Some \<circ> emit_cr_logical i (\<lambda>a b. \<not> (a \<or> b)))),
      ([PPC_OP_CROR], Some (Some \<circ> emit_cr_logical i (\<lambda>a b. a \<or> b))),
      ([PPC_OP_CRORC], Some (Some \<circ> emit_cr_logical i (\<lambda>a b. a \<or> \<not> b))),
      ([PPC_OP_CRXOR], Some (Some \<circ> emit_cr_logical i (\<lambda>a b. a \<noteq> b))),
      ([PPC_OP_MCRF], Some (Some \<circ> c_mcrf i)),
      ([PPC_OP_MCRXR], Some (Some \<circ> c_mcrxr i)),
      ([PPC_OP_MFCR], Some (\<lambda>c. wr c (inst_rD i) (cr c))),
      ([PPC_OP_MTCRF], Some (c_mtcrf i)),
      ([PPC_OP_MFMSR], Some (\<lambda>c. wr c (inst_rD i) (msr c))),
      ([PPC_OP_MTMSR], Some (\<lambda>c. do { s \<leftarrow> rd c (inst_rS i); Some (c\<lparr>msr := s\<rparr>) })),
      ([PPC_OP_MFSR], Some (c_mfsr i)),
      ([PPC_OP_MFSRIN], Some (c_mfsrin i)),
      ([PPC_OP_MTSR], Some (c_mtsr i)),
      ([PPC_OP_MTSRIN], Some (c_mtsrin i)),
      ([PPC_OP_SYNC, PPC_OP_EIEIO, PPC_OP_ISYNC, PPC_OP_TLBSYNC], Some Some)]
     None"

section \<open>Instructions that may leave the function\<close>

definition c_trap :: "PPCInst \<Rightarrow> CPUState \<Rightarrow> (flow \<times> CPUState) option" where
  "c_trap i c = do {
     a \<leftarrow> rd c (inst_rA i);
     b \<leftarrow> (if inst_op i = PPC_OP_TWI then Some (scast (inst_simm i)) else rd c (inst_rB i));
     Some (if ppc_trap_condition (inst_to i) a b
           then (Return, ppc_program_exception c PPC_PROGRAM_TRAP (inst_address i)) else (Next, c))
   }"

definition c_bc :: "emit_context \<Rightarrow> PPCInst \<Rightarrow> CPUState \<Rightarrow> (flow \<times> CPUState) option" where
  "c_bc x i c =
     (let (taken, c) = emit_branch_condition i c
      in if taken then emit_direct_branch x i c else Some (Next, c))"

definition c_eciwx :: "host \<Rightarrow> PPCInst \<Rightarrow> CPUState \<Rightarrow> (flow \<times> CPUState) option" where
  "c_eciwx H i c = do {
     ea \<leftarrow> emit_xform_ea i False c;
     let (v, c) = ppc_eciwx H c ea (inst_address i);
     if exception c \<noteq> 0 then Some (Return, c) else goes_on (wr c (inst_rD i) v)
   }"

definition c_ecowx :: "host \<Rightarrow> PPCInst \<Rightarrow> CPUState \<Rightarrow> (flow \<times> CPUState) option" where
  "c_ecowx H i c = do {
     ea \<leftarrow> emit_xform_ea i False c;
     s \<leftarrow> rd c (inst_rS i);
     Some (exit_on_exception (ppc_ecowx H c ea s (inst_address i)))
   }"

definition c_control :: "host \<Rightarrow> emit_context \<Rightarrow> PPCInst \<Rightarrow> CPUState \<Rightarrow> (flow \<times> CPUState) option" where
  "c_control H x i c = switch_in (inst_op i)
     [([PPC_OP_B], emit_direct_branch x i c),
      ([PPC_OP_BC], c_bc x i c),
      ([PPC_OP_BCLR], Some (emit_dynamic_branch i (lr c AND NOT 3) (route_local_returns x) c)),
      ([PPC_OP_BCCTR], Some (emit_dynamic_branch i (ctr c AND NOT 3) False c)),
      ([PPC_OP_TWI, PPC_OP_TW], c_trap i c),
      ([PPC_OP_SC], Some (Return, ppc_system_call_exception c (inst_address i))),
      ([PPC_OP_RFI], Some (Return, ppc_rfi c (inst_address i))),
      ([PPC_OP_LSWX], c_lswx H i c),
      ([PPC_OP_DCBZ_L], do {
         ea \<leftarrow> emit_xform_ea i False c;
         c \<leftarrow> ppc_dcbz_l H c ea (inst_address i);
         Some (exit_on_exception c) }),
      ([PPC_OP_MFTB], c_mftb i c),
      ([PPC_OP_MFSPR], c_mfspr H i c),
      ([PPC_OP_MTSPR], c_mtspr H i c),
      ([PPC_OP_TLBIE], do {
         b \<leftarrow> rd c (inst_rB i);
         Some (exit_on_exception (ppc_tlbie c b (inst_address i))) }),
      ([PPC_OP_ECIWX], c_eciwx H i c),
      ([PPC_OP_ECOWX], c_ecowx H i c)]
     (Some (c_fallback H i c))"

definition float_calls :: "PPCOpcode list" where
  "float_calls =
     [PPC_OP_FADDS, PPC_OP_FSUBS, PPC_OP_FMULS, PPC_OP_FDIVS, PPC_OP_FRES, PPC_OP_FMADDS, PPC_OP_FMSUBS,
      PPC_OP_FNMADDS, PPC_OP_FNMSUBS, PPC_OP_FADD, PPC_OP_FSUB, PPC_OP_FMUL, PPC_OP_FDIV, PPC_OP_FRSQRTE,
      PPC_OP_FMADD, PPC_OP_FMSUB, PPC_OP_FNMADD, PPC_OP_FNMSUB, PPC_OP_FCTIW, PPC_OP_FCTIWZ, PPC_OP_FRSP,
      PPC_OP_FCMPU, PPC_OP_FCMPO, PPC_OP_PSQ_L, PPC_OP_PSQ_LU, PPC_OP_PSQ_ST, PPC_OP_PSQ_STU, PPC_OP_PSQ_LX,
      PPC_OP_PSQ_LUX, PPC_OP_PSQ_STX, PPC_OP_PSQ_STUX, PPC_OP_PS_ADD, PPC_OP_PS_SUB, PPC_OP_PS_MUL,
      PPC_OP_PS_DIV, PPC_OP_PS_RES, PPC_OP_PS_RSQRTE, PPC_OP_PS_MADD, PPC_OP_PS_MSUB, PPC_OP_PS_NMADD,
      PPC_OP_PS_NMSUB, PPC_OP_PS_SUM0, PPC_OP_PS_SUM1, PPC_OP_PS_MULS0, PPC_OP_PS_MULS1, PPC_OP_PS_MADDS0,
      PPC_OP_PS_MADDS1, PPC_OP_PS_CMPU0, PPC_OP_PS_CMPO0, PPC_OP_PS_CMPU1, PPC_OP_PS_CMPO1, PPC_OP_PS_SEL]"

text \<open>\<open>emit_instruction_with_range\<close>\<close>

definition c_exec :: "host \<Rightarrow> emit_context \<Rightarrow> PPCInst \<Rightarrow> CPUState \<Rightarrow> (flow \<times> CPUState) option" where
  "c_exec H x i c =
     (if inst_embedded_data i then Some (Next, c)
      else let (available, c) = (if ppc_op_uses_fpu (inst_op i)
                                 then ppc_fp_available_inline c (inst_address i) else (True, c))
           in if \<not> available then Some (Return, c)
              else if inst_op i \<in> set float_calls then None
              else case c_integer i of Some act \<Rightarrow> goes_on (act c)
                 | None \<Rightarrow> (case c_float i of Some act \<Rightarrow> goes_on (act c)
                 | None \<Rightarrow> (case c_memory H i of Some act \<Rightarrow> goes_on (act c)
                 | None \<Rightarrow> (case c_state i of Some act \<Rightarrow> goes_on (act c)
                 | None \<Rightarrow> c_control H x i c))))"

end
