(* ===== verification/LowerRules.thy ===== *)
theory LowerRules
  imports LowerSem CExec
begin

text \<open>
  One rule per emitting operation of the lowering, in the form of a symbolic execution step: the rule
  for an operation followed by \<open>f\<close> asks for the value it computes and goes on with \<open>f\<close>.  A lowering
  is executed by applying the rules in turn, the side conditions evaluated by the simplifier.
\<close>

named_theorems steps \<open>symbolic execution of one operation\<close>
named_theorems ir_eval \<open>values of the operations\<close>

section \<open>Control\<close>

lemma step_assoc [steps]: "runs P (m \<bind> (\<lambda>x. g x \<bind> f)) Q \<Longrightarrow> runs P ((m \<bind> g) \<bind> f) Q"
  by (simp add: State_Monad.bind_assoc)

lemma step_ret [steps]: "runs P (f v) Q \<Longrightarrow> runs P (ret v \<bind> f) Q"
  by simp

lemma step_if [steps]:
  "(p \<Longrightarrow> runs P (m \<bind> f) Q) \<Longrightarrow> (\<not> p \<Longrightarrow> runs P (m' \<bind> f) Q) \<Longrightarrow> runs P ((if p then m else m') \<bind> f) Q"
  by simp

lemma step_outside [steps]: "x = Some v \<Longrightarrow> runs P (f v) Q \<Longrightarrow> runs P (outside x \<bind> f) Q"
  by (simp add: runs_def outside_def)

text \<open>The end of a lowering: it knew the instruction and the machine state is \<open>c'\<close>.\<close>

definition reaches :: "lowering_env \<Rightarrow> CPUState \<Rightarrow> bool \<Rightarrow> Builder \<Rightarrow> bool" where
  "reaches R c' ok b \<longleftrightarrow> ok \<and> (\<exists>n E. holds R n E c' b)"

lemma step_done [steps]: "c = c' \<Longrightarrow> runs (holds R n E c) (ret True) (reaches R c')"
  by (auto simp: runs_def reaches_def)

lemma runs_pos: "(0 < n \<Longrightarrow> runs (holds R n E c) m Q) \<Longrightarrow> runs (holds R n E c) m Q"
  by (auto simp: runs_def holds_def)

lemma runs_state: "c = c' \<Longrightarrow> runs (holds R n E c') m Q \<Longrightarrow> runs (holds R n E c) m Q"
  by simp

section \<open>Instructions\<close>

definition pure_ops :: "DolIROp set" where
  "pure_ops = - {DOLIR_OP_CONSTANT, DOLIR_OP_STATE_READ, DOLIR_OP_STATE_WRITE, DOLIR_OP_GUEST_LOAD,
     DOLIR_OP_GUEST_STORE, DOLIR_OP_HELPER_CALL}"

lemma emit_step:
  assumes "length xs \<le> 4" "op \<noteq> DOLIR_OP_HELPER_CALL" "op \<noteq> DOLIR_OP_STATE_READ" "op \<noteq> DOLIR_OP_STATE_WRITE"
    and "ty \<noteq> DOLIR_TYPE_VOID"
    and "ir_step (env_host R) (env_helper R) (plain op ty n xs imm aux (inst_address i) eff) (E, c) = Some (E', c')"
    and "runs (holds R (Suc n) E' c') (f n) Q"
  shows "runs (holds R n E c) (emit i op ty xs imm aux eff \<bind> f) Q"
  using runs_bind_known [OF emit_runs [of xs op _ ty n imm aux i eff E c E' c']] assms by simp

lemma step_constant [steps]:
  assumes "const_value ty bits = Some v" "ty \<noteq> DOLIR_TYPE_VOID"
    and "runs (holds R (Suc n) (E(n := v)) c) (f n) Q"
  shows "runs (holds R n E c) (constant_value i ty bits \<bind> f) Q"
proof -
  have e: "constant_value i ty bits = emit i DOLIR_OP_CONSTANT ty [] bits 0 DOLIR_EFFECT_NONE"
    by (simp add: constant_value_def emit_def dolir_constant_def)
  show ?thesis
    unfolding e by (rule emit_step [where E' = "E(n := v)" and c' = c]) (use assms in \<open>simp_all add: ir_step_def plain_def\<close>)
qed

lemma step_c32 [steps]:
  "runs (holds R (Suc n) (E(n := V32 k)) c) (f n) Q \<Longrightarrow> runs (holds R n E c) (c32 i k \<bind> f) Q"
  unfolding c32_def by (rule step_constant [where v = "V32 k"]) (simp_all add: const_value_def unsigned_ucast_eq take_bit_word_eq_self)

lemma step_c64 [steps]:
  "runs (holds R (Suc n) (E(n := V64 k)) c) (f n) Q \<Longrightarrow> runs (holds R n E c) (c64 i k \<bind> f) Q"
  unfolding c64_def by (rule step_constant [where v = "V64 k"]) (simp_all add: const_value_def)

lemma step_c1 [steps]:
  "runs (holds R (Suc n) (E(n := V1 k)) c) (f n) Q \<Longrightarrow> runs (holds R n E c) (c1 i k \<bind> f) Q"
  unfolding c1_def by (rule step_constant [where v = "V1 k"]) (simp_all add: const_value_def)

lemma slot_word: "s < 192 \<Longrightarrow> unat (of_nat s :: u32) = s"
  by (simp add: unat_of_nat take_bit_nat_eq_self)

lemma slot_word_less: "s < 192 \<Longrightarrow> (of_nat s :: u32) < 192"
  by (simp add: word_less_nat_alt slot_word)

lemma not_void [simp]: "dolir_state_type s \<noteq> DOLIR_TYPE_VOID"
  by (simp add: dolir_state_type_def)

lemma step_read_slot:
  assumes "s < 192" "slot_read c s = Some v" "runs (holds R (Suc n) (E(n := v)) c) (f n) Q"
  shows "runs (holds R n E c) (read_slot i s \<bind> f) Q"
proof (rule runs_bind_known [where f = f, OF _ assms(3)], unfold runs_def, intro allI impI)
  fix b assume b: "holds R n E c b"
  have "ir_step (env_host R) (env_helper R) (plain DOLIR_OP_STATE_READ (dolir_state_type s)
      (if dolir_state_type s = DOLIR_TYPE_VOID then 0 else n) [] 0 (of_nat s) (inst_address i)
      DOLIR_EFFECT_READ_STATE) (E, c) = Some (E(n := v), c)"
    using assms(1,2) by (simp add: ir_step_def plain_def slot_word)
  from append_runs [OF _ _ _ b this] slot_word_less [OF assms(1)] b
  show "case run_state (read_slot i s) b of (w, b') \<Rightarrow> w = n \<and> holds R (Suc n) (E(n := v)) c b'"
    by (auto simp: read_slot_def on_block_def dolir_state_read_def holds_def)
qed

lemma step_write_slot:
  assumes "s < 192" "slot_write c s (E v) = Some c'" "runs (holds R n E c') (f ()) Q"
  shows "runs (holds R n E c) (write_slot i s v \<bind> f) Q"
proof (rule runs_bind_known [where f = f, OF _ assms(3)], unfold runs_def, intro allI impI)
  fix b assume b: "holds R n E c b"
  have "ir_step (env_host R) (env_helper R) (plain DOLIR_OP_STATE_WRITE DOLIR_TYPE_VOID
      (if DOLIR_TYPE_VOID = DOLIR_TYPE_VOID then 0 else n) [v] 0 (of_nat s) (inst_address i)
      DOLIR_EFFECT_WRITE_STATE) (E, c) = Some (E, c')"
    using assms(1,2) by (simp add: ir_step_def plain_def slot_word)
  from append_runs [OF _ _ _ b this] slot_word_less [OF assms(1)] b
  show "case run_state (write_slot i s v) b of (w, b') \<Rightarrow> w = () \<and> holds R n E c' b'"
    by (auto simp: write_slot_def on_block_def dolir_state_write_def holds_def)
qed

lemma step_get_gpr [steps]:
  "unat r < 32 \<Longrightarrow> length (gpr c) = 32 \<Longrightarrow> runs (holds R (Suc n) (E(n := V32 (gpr c ! unat r))) c) (f n) Q \<Longrightarrow>
   runs (holds R n E c) (get_gpr i r \<bind> f) Q"
  unfolding get_gpr_def by (rule step_read_slot) (simp_all add: slot_read_def arr_get_def)

lemma step_set_gpr [steps]:
  "unat r < 32 \<Longrightarrow> length (gpr c) = 32 \<Longrightarrow> E v = V32 x \<Longrightarrow>
   runs (holds R n E (c\<lparr>gpr := (gpr c)[unat r := x]\<rparr>)) (f ()) Q \<Longrightarrow>
   runs (holds R n E c) (set_gpr i r v \<bind> f) Q"
  unfolding set_gpr_def
  by (rule step_write_slot) (simp_all add: slot_write_def slot_write32_def arr_set_def)

lemma step_pure:
  assumes "length xs \<le> 4" "op \<in> pure_ops" "ty \<noteq> DOLIR_TYPE_VOID"
    and "pure_value op ty aux (map E xs) = Some v"
    and "runs (holds R (Suc n) (E(n := v)) c) (f n) Q"
  shows "runs (holds R n E c) (emit i op ty xs imm aux eff \<bind> f) Q"
  by (rule emit_step [where E' = "E(n := v)" and c' = c])
    (use assms in \<open>simp_all add: ir_step_def pure_ops_def plain_def\<close>)

lemma step_binary [steps]:
  assumes "op \<in> pure_ops - {DOLIR_OP_VECTOR_SHUFFLE}" "ty \<noteq> DOLIR_TYPE_VOID" "y \<noteq> 0"
    and "ir_binary op ty (E x) (E y) = Some v"
    and "runs (holds R (Suc n) (E(n := v)) c) (f n) Q"
  shows "runs (holds R n E c) (binary i op ty x y \<bind> f) Q"
  unfolding binary_def emit_op_def using assms
  by (intro step_pure [where v = v]) (simp_all add: pure_value_def)

lemma step_unary [steps]:
  assumes "op \<in> pure_ops - {DOLIR_OP_VECTOR_EXTRACT}" "ty \<noteq> DOLIR_TYPE_VOID"
    and "ir_unary op ty (E x) = Some v"
    and "runs (holds R (Suc n) (E(n := v)) c) (f n) Q"
  shows "runs (holds R n E c) (unary i op ty x \<bind> f) Q"
  unfolding unary_def emit_op_def using assms
  by (intro step_pure [where v = v]) (simp_all add: pure_value_def)

lemma step_select [steps]:
  "E p = V1 q \<Longrightarrow> E x = V32 u \<Longrightarrow> E y = V32 v \<Longrightarrow>
   runs (holds R (Suc n) (E(n := V32 (if q then u else v))) c) (f n) Q \<Longrightarrow>
   runs (holds R n E c) (select_value i DOLIR_TYPE_I32 p x y \<bind> f) Q"
  "E p = V1 q \<Longrightarrow> E x = V1 l \<Longrightarrow> E y = V1 r \<Longrightarrow>
   runs (holds R (Suc n) (E(n := V1 (if q then l else r))) c) (f n) Q \<Longrightarrow>
   runs (holds R n E c) (select_value i DOLIR_TYPE_I1 p x y \<bind> f) Q"
  unfolding select_value_def
  by (rule step_pure; simp add: pure_value_def pure_ops_def)+

section \<open>Values\<close>

lemma pure_ops [simp]:
  "DOLIR_OP_ADD \<in> pure_ops" "DOLIR_OP_SUB \<in> pure_ops" "DOLIR_OP_MUL \<in> pure_ops" "DOLIR_OP_AND \<in> pure_ops"
  "DOLIR_OP_OR \<in> pure_ops" "DOLIR_OP_XOR \<in> pure_ops" "DOLIR_OP_NOT \<in> pure_ops" "DOLIR_OP_SHL \<in> pure_ops"
  "DOLIR_OP_LSHR \<in> pure_ops" "DOLIR_OP_ASHR \<in> pure_ops" "DOLIR_OP_ROTL \<in> pure_ops" "DOLIR_OP_CLZ \<in> pure_ops"
  "DOLIR_OP_BSWAP \<in> pure_ops" "DOLIR_OP_SEXT \<in> pure_ops" "DOLIR_OP_ZEXT \<in> pure_ops" "DOLIR_OP_TRUNC \<in> pure_ops"
  "DOLIR_OP_ICMP_EQ \<in> pure_ops" "DOLIR_OP_ICMP_NE \<in> pure_ops" "DOLIR_OP_ICMP_ULT \<in> pure_ops"
  "DOLIR_OP_ICMP_SLT \<in> pure_ops" "DOLIR_OP_UDIV \<in> pure_ops" "DOLIR_OP_SDIV \<in> pure_ops"
  by (simp_all add: pure_ops_def)

lemma ir_binary_32 [ir_eval]:
  "ir_binary DOLIR_OP_ADD DOLIR_TYPE_I32 (V32 x) (V32 y) = Some (V32 (x + y))"
  "ir_binary DOLIR_OP_SUB DOLIR_TYPE_I32 (V32 x) (V32 y) = Some (V32 (x - y))"
  "ir_binary DOLIR_OP_AND DOLIR_TYPE_I32 (V32 x) (V32 y) = Some (V32 (x AND y))"
  "ir_binary DOLIR_OP_OR DOLIR_TYPE_I32 (V32 x) (V32 y) = Some (V32 (x OR y))"
  "ir_binary DOLIR_OP_XOR DOLIR_TYPE_I32 (V32 x) (V32 y) = Some (V32 (x XOR y))"
  "ir_binary DOLIR_OP_ROTL DOLIR_TYPE_I32 (V32 x) (V32 y) = Some (V32 (word_rotl (unat y) x))"
  "unat y < 32 \<Longrightarrow> ir_binary DOLIR_OP_SHL DOLIR_TYPE_I32 (V32 x) (V32 y) = Some (V32 (shl x (unat y)))"
  "unat y < 32 \<Longrightarrow> ir_binary DOLIR_OP_LSHR DOLIR_TYPE_I32 (V32 x) (V32 y) = Some (V32 (shr x (unat y)))"
  "unat y < 32 \<Longrightarrow> ir_binary DOLIR_OP_ASHR DOLIR_TYPE_I32 (V32 x) (V32 y) = Some (V32 (signed_drop_bit (unat y) x))"
  "y \<noteq> 0 \<Longrightarrow> ir_binary DOLIR_OP_UDIV DOLIR_TYPE_I32 (V32 x) (V32 y) = Some (V32 (x div y))"
  "sdiv_defined x y \<Longrightarrow> ir_binary DOLIR_OP_SDIV DOLIR_TYPE_I32 (V32 x) (V32 y) = Some (V32 (sdiv32 x y))"
  by (simp_all add: ir_binary_def int_op_def)

lemma ir_binary_64 [ir_eval]:
  "ir_binary DOLIR_OP_ADD DOLIR_TYPE_I64 (V64 v) (V64 w) = Some (V64 (v + w))"
  "ir_binary DOLIR_OP_MUL DOLIR_TYPE_I64 (V64 v) (V64 w) = Some (V64 (v * w))"
  "unat w < 64 \<Longrightarrow> ir_binary DOLIR_OP_LSHR DOLIR_TYPE_I64 (V64 v) (V64 w) = Some (V64 (shr v (unat w)))"
  by (simp_all add: ir_binary_def int_op_def)

lemma ir_binary_1 [ir_eval]:
  "ir_binary DOLIR_OP_ICMP_EQ DOLIR_TYPE_I1 (V32 x) (V32 y) = Some (V1 (x = y))"
  "ir_binary DOLIR_OP_ICMP_NE DOLIR_TYPE_I1 (V32 x) (V32 y) = Some (V1 (x \<noteq> y))"
  "ir_binary DOLIR_OP_ICMP_ULT DOLIR_TYPE_I1 (V32 x) (V32 y) = Some (V1 (x < y))"
  "ir_binary DOLIR_OP_ICMP_SLT DOLIR_TYPE_I1 (V32 x) (V32 y) = Some (V1 (sint x < sint y))"
  "ir_binary DOLIR_OP_AND DOLIR_TYPE_I1 (V1 p) (V1 q) = Some (V1 (p \<and> q))"
  "ir_binary DOLIR_OP_OR DOLIR_TYPE_I1 (V1 p) (V1 q) = Some (V1 (p \<or> q))"
  by (simp_all add: ir_binary_def int_cmp_def)

lemma ir_unary_eval [ir_eval]:
  "ir_unary DOLIR_OP_NOT DOLIR_TYPE_I1 (V1 p) = Some (V1 (\<not> p))"
  "ir_unary DOLIR_OP_ZEXT DOLIR_TYPE_I32 (V1 p) = Some (V32 (of_bool p))"
  "ir_unary DOLIR_OP_SEXT DOLIR_TYPE_I32 (V8 b) = Some (V32 (scast b))"
  "ir_unary DOLIR_OP_SEXT DOLIR_TYPE_I32 (V16 h) = Some (V32 (scast h))"
  "ir_unary DOLIR_OP_NOT DOLIR_TYPE_I32 (V32 x) = Some (V32 (NOT x))"
  "ir_unary DOLIR_OP_CLZ DOLIR_TYPE_I32 (V32 x) = Some (V32 (of_nat (clz32 x)))"
  "ir_unary DOLIR_OP_BSWAP DOLIR_TYPE_I32 (V32 x) = Some (V32 (bswap32 x))"
  "ir_unary DOLIR_OP_TRUNC DOLIR_TYPE_I1 (V32 x) = Some (V1 (bit x 0))"
  "ir_unary DOLIR_OP_TRUNC DOLIR_TYPE_I8 (V32 x) = Some (V8 (ucast x))"
  "ir_unary DOLIR_OP_TRUNC DOLIR_TYPE_I16 (V32 x) = Some (V16 (ucast x))"
  "ir_unary DOLIR_OP_ZEXT DOLIR_TYPE_I64 (V32 x) = Some (V64 (ucast x))"
  "ir_unary DOLIR_OP_SEXT DOLIR_TYPE_I64 (V32 x) = Some (V64 (scast x))"
  "ir_unary DOLIR_OP_TRUNC DOLIR_TYPE_I32 (V64 w) = Some (V32 (ucast w))"
  "ir_unary DOLIR_OP_TRUNC DOLIR_TYPE_I1 (V64 w) = Some (V1 (bit w 0))"
  by (simp_all add: ir_unary_def)

text \<open>The operations that are compositions of the ones with a rule.\<close>

lemmas compositions = binary_c32_def select_c32_def trunc_value_def zext_value_def sext_value_def xer_ca_def
  set_xer_ca_def carry_out_def add_wide_with_carry_def write_cr_field_def read_cr_field_def insert_masked_def

section \<open>Status registers\<close>

lemma step_read_xer_flag [steps]:
  "runs (holds R (Suc n) (E(n := V1 (bit (xer c) 29))) c) (f n) Q \<Longrightarrow>
   runs (holds R n E c) (read_slot i DOLIR_STATE_XER_CA \<bind> f) Q"
  "runs (holds R (Suc n) (E(n := V1 (bit (xer c) 30))) c) (f n) Q \<Longrightarrow>
   runs (holds R n E c) (read_slot i DOLIR_STATE_XER_OV \<bind> f) Q"
  "runs (holds R (Suc n) (E(n := V1 (bit (xer c) 31))) c) (f n) Q \<Longrightarrow>
   runs (holds R n E c) (read_slot i DOLIR_STATE_XER_SO \<bind> f) Q"
  by (rule step_read_slot; simp add: slot_read_def)+

lemma step_write_ca [steps]:
  "E v = V1 q \<Longrightarrow> runs (holds R n E (put_ca c q)) (f ()) Q \<Longrightarrow>
   runs (holds R n E c) (write_slot i DOLIR_STATE_XER_CA v \<bind> f) Q"
  by (rule step_write_slot) (simp_all add: slot_write_def put_flag_def put_ca_def)

lemma step_read_cr [steps]:
  "unat k < 8 \<Longrightarrow> runs (holds R (Suc n) (E(n := V32 (shr (cr c) (cr_field_shift k) AND 0xF))) c) (f n) Q \<Longrightarrow>
   runs (holds R n E c) (read_slot i (cr_field_slot k) \<bind> f) Q"
  by (rule step_read_slot) (simp_all add: cr_field_slot_def slot_read_def get_cr_field_def cr_shift_def
    cr_field_shift_def diff_mult_distrib2)

lemma step_write_cr [steps]:
  "unat k < 8 \<Longrightarrow> E v = V32 x \<Longrightarrow> runs (holds R n E (put_cr k (x AND 0xF) c)) (f ()) Q \<Longrightarrow>
   runs (holds R n E c) (write_slot i (cr_field_slot k) v \<bind> f) Q"
  by (rule step_write_slot) (simp_all add: cr_field_slot_def slot_write_def slot_write32_def put_cr_field_def
    put_cr_def cr_shift_def cr_field_shift_def diff_mult_distrib2)

text \<open>Comparing two values into a field: what the other back end's statements do.\<close>

definition compared :: "bool \<Rightarrow> u8 \<Rightarrow> u32 \<Rightarrow> u32 \<Rightarrow> CPUState \<Rightarrow> CPUState" where
  "compared is_signed k x y c = (if is_signed then emit_compare_s32 k x y c else emit_compare_u32 k x y c)"

lemma flag_of_shr: "shr w n mod 2 = of_bool (bit w n)" "shr w n AND 1 = of_bool (bit w n)" for w :: "'a::len word"
  by (simp_all add: mod_2_eq_odd bit_iff_odd_drop_bit and_one_eq)

lemma cr_bits_eq:
  "cr_bits l g e w = (if l then 8 else 0) OR (if g then 4 else 0) OR (if e then 2 else 0) OR of_bool (bit w 31)"
  by (simp add: cr_bits_def flag_of_shr del: and_one_eq)

lemma cr_bits_nibble: "cr_bits l g e w AND 0xF = cr_bits l g e w"
  by (simp add: cr_bits_eq of_bool_def)

lemma sint_eq_iff: "sint v = sint w \<longleftrightarrow> v = w" for v :: "'a::len word"
  by (auto intro: signed_word_eqI)

lemma step_set_cr_field [steps]:
  assumes "unat k < 8" "x \<noteq> 0" "y \<noteq> 0" "E x = V32 v" "E y = V32 w" "x < n" "y < n"
    and "\<And>n E. 0 < n \<Longrightarrow> runs (holds R n E (compared sg k v w c)) (f ()) Q"
  shows "runs (holds R n E c) (set_cr_field i k x y sg \<bind> f) Q"
proof -
  have "0 < n" using assms by simp
  have bits: "put_cr k (((((if l then 8 else 0) OR (if g then 4 else 0)) OR (if e then 2 else 0)) OR
      of_bool (bit (xer c) 31)) AND 0xF) c = put_cr k (cr_bits l g e (xer c)) c" for l g e
    using cr_bits_nibble [of l g e "xer c"] by (simp add: cr_bits_eq or.assoc)
  have ne: "x \<noteq> n" "x \<noteq> Suc n" "y \<noteq> n" "y \<noteq> Suc n"
    using assms by simp_all
  note facts = ir_eval assms(1-5) ne \<open>0 < n\<close>
  show ?thesis
  proof (cases sg)
    case True
    then have sg: "sg = True" by simp
    show ?thesis
      unfolding set_cr_field_def compositions Let_def sg if_True
      by ((rule steps | simp add: facts; fail)+, rule runs_state [OF _ assms(8)])
        (simp_all add: bits compared_def emit_compare_s32_def emit_compare_u32_def sint_eq_iff sg)
  next
    case False
    then have sg: "sg = False" by simp
    show ?thesis
      unfolding set_cr_field_def compositions Let_def sg if_False
      by ((rule steps | simp add: facts; fail)+, rule runs_state [OF _ assms(8)])
        (simp_all add: bits compared_def emit_compare_s32_def emit_compare_u32_def sint_eq_iff sg)
  qed
qed

lemma step_set_cr0 [steps]:
  assumes "x \<noteq> 0" "E x = V32 v" "x < n"
    and "\<And>n E. 0 < n \<Longrightarrow> runs (holds R n E (emit_compare_s32 0 v 0 c)) (f ()) Q"
  shows "runs (holds R n E c) (set_cr0 i x \<bind> f) Q"
proof -
  have "0 < n" using assms(3) by simp
  have "compared True 0 v 0 c = emit_compare_s32 0 v 0 c"
    by (simp add: compared_def)
  note facts = this assms \<open>0 < n\<close>
  show ?thesis
    unfolding set_cr0_def by ((rule steps | simp add: facts less_imp_neq less_SucI; fail)+)
qed

text \<open>The record bit: \<open>CR0\<close> describes the result.\<close>

definition recorded :: "PPCInst \<Rightarrow> u32 \<Rightarrow> CPUState \<Rightarrow> CPUState" where
  "recorded i v c = (if inst_rc i then emit_compare_s32 0 v 0 c else c)"

lemma step_record [steps]:
  assumes "x \<noteq> 0" "E x = V32 v" "x < n"
    and "\<And>n E. 0 < n \<Longrightarrow> runs (holds R n E (recorded i v c)) (f ()) Q"
  shows "runs (holds R n E c) (record_if_needed i x \<bind> f) Q"
  unfolding record_if_needed_def using assms
  by (auto simp: recorded_def intro: step_set_cr0)

lemma cr_low_mask: "cr c AND - 4026531841 = cr c AND 0x0FFFFFFF"
  by (rule arg_cong [where f = "(AND) (cr c)"]) simp

lemma emit_set_cr0_eq: "emit_set_cr0_from_gpr r c = map_option (\<lambda>v. emit_compare_s32 0 v 0 c) (rd c r)"
  by (simp add: emit_set_cr0_from_gpr_def emit_compare_s32_def put_cr_def cr_field_shift_def map_conv_bind_option comp_def cr_low_mask)

lemma emit_record_eq: "rd c r = Some v \<Longrightarrow> emit_record_if_needed i r c = Some (recorded i v c)"
  by (simp add: emit_record_if_needed_def recorded_def emit_set_cr0_eq)

end
