(* ===== verification/Backends.thy ===== *)
theory Backends
  imports LowerRules
begin

text \<open>
  The two back ends do the same.  For the integer instructions the values and the machine state a
  lowered block computes (\<open>Lowering\<close>, \<open>IrSem\<close>) are those of the statements the C emitter prints
  (\<open>CExec\<close>).  One lemma per group of instructions, each a symbolic execution of its lowering.
\<close>

definition agree :: "bool lowering \<Rightarrow> effect \<Rightarrow> bool" where
  "agree m act \<longleftrightarrow> (\<forall>R n E c. wf_regs c \<longrightarrow> (\<exists>c'. act c = Some c' \<and> runs (holds R n E c) m (reaches R c')))"

lemma agreeI:
  assumes "\<And>R n E c. length (gpr c) = 32 \<Longrightarrow> 0 < n \<Longrightarrow> \<exists>c'. act c = Some c' \<and> runs (holds R n E c) m (reaches R c')"
  shows "agree m act"
  unfolding agree_def
proof (intro allI impI)
  fix R n E c assume c: "wf_regs c"
  show "\<exists>c'. act c = Some c' \<and> runs (holds R n E c) m (reaches R c')"
  proof (cases "0 < n")
    case True
    then show ?thesis using assms c by (simp add: wf_regs_def)
  next
    case False
    obtain c' where "act c = Some c'" using assms [of c 1 R E] c by (auto simp: wf_regs_def)
    with False show ?thesis by (auto simp: runs_def holds_def)
  qed
qed

section \<open>Registers\<close>

named_theorems machine \<open>the machine state of the emitted statements\<close>

lemma rd_ok [machine]: "unat r < 32 \<Longrightarrow> length (gpr c) = 32 \<Longrightarrow> rd c r = Some (gpr c ! unat r)"
  by (simp add: rd_def arr_get_def)

lemma wr_ok [machine]: "unat r < 32 \<Longrightarrow> length (gpr c) = 32 \<Longrightarrow> wr c r v = Some (c\<lparr>gpr := (gpr c)[unat r := v]\<rparr>)"
  by (simp add: wr_def arr_set_def)

lemma put_ca_fields [machine]: "gpr (put_ca c q) = gpr c"
  by (simp add: put_ca_def)

lemma fields_of_bound:
  assumes "wf_fields i"
  shows "unat (inst_rD i) < 32 \<and> unat (inst_rA i) < 32 \<and> unat (inst_rS i) < 32 \<and> unat (inst_rB i) < 32 \<and>
    unat (inst_crfD i) < 8 \<and> unat (inst_crfS i) < 8 \<and> unat (inst_sh i) < 32 \<and> unat (inst_mb i) < 32 \<and>
    unat (inst_me i) < 32"
  using assms by (simp_all add: wf_fields_def word_less_nat_alt)

lemma put_ca_of_eq [machine]: "put_ca_of c w = put_ca c (bit (shr w 32) 0)"
proof -
  have "(ucast (shr w 32) AND 1 :: u32) = of_bool (bit (shr w 32) 0)"
    by (rule bit_word_eqI) (auto simp: bit_simps bit_1_iff)
  then show ?thesis
    by (simp add: put_ca_of_def put_ca_def del: and_one_eq)
qed

lemma carry_in_eq [machine]: "carry_in c = of_bool (bit (xer c) 29)"
  by (simp add: carry_in_def flag_of_shr del: and_one_eq)

lemma ucast_of_bool [simp]: "ucast (of_bool b :: 'a::len word) = (of_bool b :: 'b::len word)"
  by (cases b) simp_all

lemma sub_as_add: "NOT a + b + 1 = b - (a :: 'a::len word)"
  by (simp add: not_eq_complement)

lemma neg_as_add: "NOT a + 1 = - (a :: 'a::len word)"
  by (simp add: not_eq_complement)

section \<open>Arithmetic\<close>

lemma agree_mulli: "wf_fields i \<Longrightarrow> agree (lower_mulli i) (c_mulli i)"
  unfolding lower_mulli_def compositions
  by (drule fields_of_bound, rule agreeI, rule exI, rule conjI, simp add: c_mulli_def machine,
      (rule steps | simp add: ir_eval simm64_def; fail)+)

lemma step_write_carry [steps]:
  assumes "unat r < 32" "length (gpr c) = 32" "E w = V64 v" "0 < n" "w < n"
    and "\<And>n E. 0 < n \<Longrightarrow> runs (holds R n E
      (let c = put_ca (c\<lparr>gpr := (gpr c)[unat r := ucast v]\<rparr>) (bit (shr v 32) 0)
       in if rec then emit_compare_s32 0 (ucast v) 0 c else c)) (f ()) Q"
  shows "runs (holds R n E c) (write_carry_result i r w rec \<bind> f) Q"
  using assms unfolding write_carry_result_def compositions
  by - ((rule steps | simp add: ir_eval; fail)+)

lemma agree_subfic: "wf_fields i \<Longrightarrow> agree (lower_subfic i) (c_subfic i)"
  unfolding lower_subfic_def compositions Let_def
  by (drule fields_of_bound, rule agreeI, rule exI, rule conjI, simp add: c_subfic_def machine Let_def,
      (rule steps | simp add: ir_eval simm32_def ac_simps; fail)+)

lemma agree_addic: "wf_fields i \<Longrightarrow> agree (lower_addic i) (c_addic i)"
  unfolding lower_addic_def compositions Let_def
  by (cases "inst_op i = PPC_OP_ADDIC_DOT"; (drule fields_of_bound, rule agreeI, rule exI, rule conjI, simp add: c_addic_def emit_set_cr0_eq machine Let_def,
      (rule steps | simp add: ir_eval simm32_def; fail)+))

lemma agree_addi: "wf_fields i \<Longrightarrow> inst_op i = PPC_OP_ADDI \<Longrightarrow> agree (lower_addi i) (c_addi i (scast (inst_simm i)))"
  unfolding lower_addi_def compositions Let_def
  by (cases "inst_rA i = 0"; (drule fields_of_bound, rule agreeI, rule exI, rule conjI, simp add: c_addi_def machine Let_def,
      (rule steps | simp add: ir_eval simm32_def; fail)+))

lemma agree_addis: "wf_fields i \<Longrightarrow> inst_op i = PPC_OP_ADDIS \<Longrightarrow> agree (lower_addi i) (c_addi i (shl (scast (inst_simm i)) 16))"
  unfolding lower_addi_def compositions Let_def
  by (cases "inst_rA i = 0"; (drule fields_of_bound, rule agreeI, rule exI, rule conjI, simp add: c_addi_def machine Let_def,
      (rule steps | simp add: ir_eval simm32_def; fail)+))

lemma gpr_self [simp]: "c\<lparr>gpr := gpr c\<rparr> = c"
  by (cases c) simp

lemma c_ori_eq: "length (gpr c) = 32 \<Longrightarrow> c_ori i c = c_logical_imm i (\<lambda>s. s OR ucast (inst_uimm i)) False c"
  by (auto simp: c_ori_def c_logical_imm_def machine)

lemma agree_ori: "wf_fields i \<Longrightarrow> inst_op i = PPC_OP_ORI \<Longrightarrow> agree (lower_logical_imm i) (c_ori i)"
  unfolding lower_logical_imm_def compositions Let_def
  by (drule fields_of_bound, rule agreeI, rule exI, rule conjI, simp add: c_ori_eq c_logical_imm_def machine Let_def,
      (rule steps | simp add: ir_eval ; fail)+)

lemma agree_oris: "wf_fields i \<Longrightarrow> inst_op i = PPC_OP_ORIS \<Longrightarrow> agree (lower_logical_imm i) (c_logical_imm i (\<lambda>s. s OR shl (ucast (inst_uimm i)) 16) False)"
  unfolding lower_logical_imm_def compositions Let_def
  by (drule fields_of_bound, rule agreeI, rule exI, rule conjI, simp add: c_logical_imm_def emit_set_cr0_eq machine Let_def,
      (rule steps | simp add: ir_eval ; fail)+)

lemma agree_xori: "wf_fields i \<Longrightarrow> inst_op i = PPC_OP_XORI \<Longrightarrow> agree (lower_logical_imm i) (c_logical_imm i (\<lambda>s. s XOR ucast (inst_uimm i)) False)"
  unfolding lower_logical_imm_def compositions Let_def
  by (drule fields_of_bound, rule agreeI, rule exI, rule conjI, simp add: c_logical_imm_def emit_set_cr0_eq machine Let_def,
      (rule steps | simp add: ir_eval ; fail)+)

lemma agree_xoris: "wf_fields i \<Longrightarrow> inst_op i = PPC_OP_XORIS \<Longrightarrow> agree (lower_logical_imm i) (c_logical_imm i (\<lambda>s. s XOR shl (ucast (inst_uimm i)) 16) False)"
  unfolding lower_logical_imm_def compositions Let_def
  by (drule fields_of_bound, rule agreeI, rule exI, rule conjI, simp add: c_logical_imm_def emit_set_cr0_eq machine Let_def,
      (rule steps | simp add: ir_eval ; fail)+)

lemma agree_andi: "wf_fields i \<Longrightarrow> inst_op i = PPC_OP_ANDI \<Longrightarrow> agree (lower_logical_imm i) (c_logical_imm i (\<lambda>s. s AND ucast (inst_uimm i)) True)"
  unfolding lower_logical_imm_def compositions Let_def
  by (drule fields_of_bound, rule agreeI, rule exI, rule conjI, simp add: c_logical_imm_def emit_set_cr0_eq machine Let_def,
      (rule steps | simp add: ir_eval ; fail)+)

lemma agree_andis: "wf_fields i \<Longrightarrow> inst_op i = PPC_OP_ANDIS \<Longrightarrow> agree (lower_logical_imm i) (c_logical_imm i (\<lambda>s. s AND shl (ucast (inst_uimm i)) 16) True)"
  unfolding lower_logical_imm_def compositions Let_def
  by (drule fields_of_bound, rule agreeI, rule exI, rule conjI, simp add: c_logical_imm_def emit_set_cr0_eq machine Let_def,
      (rule steps | simp add: ir_eval ; fail)+)

lemma agree_compare_imm: "wf_fields i \<Longrightarrow> inst_op i \<in> {PPC_OP_CMPI, PPC_OP_CMPLI} \<Longrightarrow> agree (lower_compare i) (c_compare_imm i)"
  unfolding lower_compare_def compositions Let_def
  by (cases "inst_op i = PPC_OP_CMPI"; (drule fields_of_bound, rule agreeI, rule exI, rule conjI, simp add: c_compare_imm_def machine Let_def,
      (rule steps | simp add: ir_eval simm32_def compared_def; fail)+))

lemma agree_compare: "wf_fields i \<Longrightarrow> inst_op i \<in> {PPC_OP_CMP, PPC_OP_CMPL} \<Longrightarrow> agree (lower_compare i) (c_compare i)"
  unfolding lower_compare_def compositions Let_def
  by (cases "inst_op i = PPC_OP_CMP"; (drule fields_of_bound, rule agreeI, rule exI, rule conjI, simp add: c_compare_def machine Let_def,
      (rule steps | simp add: ir_eval simm32_def compared_def; fail)+))

lemma agree_neg: "wf_fields i \<Longrightarrow> \<not> inst_oe i \<Longrightarrow> agree (lower_neg i) (c_neg i)"
  unfolding lower_neg_def compositions Let_def
  by (drule fields_of_bound, rule agreeI, rule exI, rule conjI, simp add: c_neg_def overflow_if_def emit_record_eq neg_as_add machine Let_def,
      (rule steps | simp add: ir_eval ; fail)+)

lemma put_ca_gpr [machine]: "put_ca (c\<lparr>gpr := xs\<rparr>) q = (put_ca c q)\<lparr>gpr := xs\<rparr>"
  by (simp add: put_ca_def)

lemma step_if_not [steps]: "\<not> p \<Longrightarrow> runs P m' Q \<Longrightarrow> runs P (if p then m else m') Q"
  by simp

lemma unat_widen: "unat (ucast (a :: u32) :: u64) = unat a"
proof -
  have "unat a < 2 ^ 64"
    using unsigned_less [of a, where 'a = nat] by simp
  then show ?thesis
    by (simp add: unsigned_ucast_eq take_bit_nat_eq_self)
qed

lemma minus_one_carry:
  "shr (ucast (a :: u32) + (0xFFFFFFFF + of_bool p) :: u64) 32 = 0 \<longleftrightarrow>
   \<not> bit (shr (ucast a + (0xFFFFFFFF + of_bool p) :: u64) 32) 0"
proof -
  define w where "w = ucast a + (0xFFFFFFFF + of_bool p :: u64)"
  have a: "unat a < 2 ^ 32"
    using unsigned_less [of a, where 'a = nat] by simp
  have "unat w = unat a + (0xFFFFFFFF + of_bool p)"
    using a by (cases p) (simp_all add: w_def unat_word_ariths(1) unat_widen)
  moreover have "unat (shr w 32) = unat w div 2 ^ 32"
    by (simp only: unat_drop_bit_eq drop_bit_eq_div [where 'a = nat])
  ultimately have "unat (shr w 32) < 2"
    using a by (cases p) simp_all
  then have "shr w 32 = 0 \<or> shr w 32 = 1"
    by (metis less_2_cases unat_0 unat_1 word_unat_eq_iff One_nat_def)
  then show ?thesis
    unfolding w_def [symmetric] by (elim disjE) simp_all
qed

lemma agree_add: "wf_fields i \<Longrightarrow> inst_op i = PPC_OP_ADD \<Longrightarrow> \<not> inst_oe i \<Longrightarrow> agree (lower_add i) (c_add i)"
  unfolding lower_add_def compositions Let_def
  by (drule fields_of_bound, rule agreeI, rule exI, rule conjI, simp add: c_add_def overflow_if_def emit_record_eq c_wide_add_def add.assoc  machine Let_def,
      (rule steps | simp add: ir_eval machine add.assoc; fail)+)

lemma agree_addc: "wf_fields i \<Longrightarrow> inst_op i = PPC_OP_ADDC \<Longrightarrow> \<not> inst_oe i \<Longrightarrow> agree (lower_add i) (c_addc i)"
  unfolding lower_add_def compositions Let_def
  by (drule fields_of_bound, rule agreeI, rule exI, rule conjI, simp add: c_addc_def overflow_if_def emit_record_eq c_wide_add_def add.assoc  machine Let_def,
      (rule steps | simp add: ir_eval machine add.assoc; fail)+)

lemma agree_adde: "wf_fields i \<Longrightarrow> inst_op i = PPC_OP_ADDE \<Longrightarrow> \<not> inst_oe i \<Longrightarrow> agree (lower_add i) (c_adde i)"
  unfolding lower_add_def compositions Let_def
  by (drule fields_of_bound, rule agreeI, rule exI, rule conjI, simp add: c_adde_def overflow_if_def emit_record_eq c_wide_add_def add.assoc  machine Let_def,
      (rule steps | simp add: ir_eval machine add.assoc; fail)+)

lemma agree_subf: "wf_fields i \<Longrightarrow> inst_op i = PPC_OP_SUBF \<Longrightarrow> \<not> inst_oe i \<Longrightarrow> agree (lower_subf i) (c_subf i)"
  unfolding lower_subf_def compositions Let_def
  by (drule fields_of_bound, rule agreeI, rule exI, rule conjI, simp add: c_subf_def overflow_if_def emit_record_eq c_wide_add_def add.assoc sub_as_add [unfolded add.assoc] machine Let_def,
      (rule steps | simp add: ir_eval machine add.assoc; fail)+)

lemma agree_subfc: "wf_fields i \<Longrightarrow> inst_op i = PPC_OP_SUBFC \<Longrightarrow> \<not> inst_oe i \<Longrightarrow> agree (lower_subf i) (c_subfc i)"
  unfolding lower_subf_def compositions Let_def
  by (drule fields_of_bound, rule agreeI, rule exI, rule conjI, simp add: c_subfc_def overflow_if_def emit_record_eq c_wide_add_def add.assoc  machine Let_def,
      (rule steps | simp add: ir_eval machine add.assoc; fail)+)

lemma agree_subfe: "wf_fields i \<Longrightarrow> inst_op i = PPC_OP_SUBFE \<Longrightarrow> \<not> inst_oe i \<Longrightarrow> agree (lower_subf i) (c_subfe i)"
  unfolding lower_subf_def compositions Let_def
  by (drule fields_of_bound, rule agreeI, rule exI, rule conjI, simp add: c_subfe_def overflow_if_def emit_record_eq c_wide_add_def add.assoc  machine Let_def,
      (rule steps | simp add: ir_eval machine add.assoc; fail)+)

lemma agree_addze: "wf_fields i \<Longrightarrow> inst_op i = PPC_OP_ADDZE \<Longrightarrow> \<not> inst_oe i \<Longrightarrow> agree (lower_extended i) (c_addze i)"
  unfolding lower_extended_def compositions Let_def
  by (drule fields_of_bound, rule agreeI, rule exI, rule conjI, simp add: c_addze_def overflow_if_def emit_record_eq c_wide_add_def add.assoc  machine Let_def,
      (rule steps | simp add: ir_eval machine add.assoc Let_def recorded_def; fail)+)

lemma agree_subfze: "wf_fields i \<Longrightarrow> inst_op i = PPC_OP_SUBFZE \<Longrightarrow> \<not> inst_oe i \<Longrightarrow> agree (lower_extended i) (c_subfze i)"
  unfolding lower_extended_def compositions Let_def
  by (drule fields_of_bound, rule agreeI, rule exI, rule conjI, simp add: c_subfze_def overflow_if_def emit_record_eq c_wide_add_def add.assoc  machine Let_def,
      (rule steps | simp add: ir_eval machine add.assoc Let_def recorded_def; fail)+)

lemma agree_addme: "wf_fields i \<Longrightarrow> inst_op i = PPC_OP_ADDME \<Longrightarrow> \<not> inst_oe i \<Longrightarrow> agree (lower_extended i) (c_addme i)"
  unfolding lower_extended_def compositions Let_def
  by (drule fields_of_bound, rule agreeI, rule exI, rule conjI, simp add: c_addme_def overflow_if_def emit_record_eq c_wide_add_def add.assoc c_minus_one_def minus_one_carry machine Let_def,
      (rule steps | simp add: ir_eval machine add.assoc Let_def recorded_def; fail)+)

lemma agree_subfme: "wf_fields i \<Longrightarrow> inst_op i = PPC_OP_SUBFME \<Longrightarrow> \<not> inst_oe i \<Longrightarrow> agree (lower_extended i) (c_subfme i)"
  unfolding lower_extended_def compositions Let_def
  by (drule fields_of_bound, rule agreeI, rule exI, rule conjI, simp add: c_subfme_def overflow_if_def emit_record_eq c_wide_add_def add.assoc c_minus_one_def minus_one_carry machine Let_def,
      (rule steps | simp add: ir_eval machine add.assoc Let_def recorded_def; fail)+)

section \<open>Bit by bit\<close>

lemma bit_top: "bit (0x80000000 :: u32) m \<longleftrightarrow> m = 31"
proof -
  have "(0x80000000 :: u32) = 2 ^ 31" by simp
  then show ?thesis by (simp only: bit_exp_iff) auto
qed

lemma top_bit: "k < 32 \<Longrightarrow> shr (0x80000000 :: u32) k = shl 1 (31 - k)"
  by (rule bit_word_eqI) (auto simp: bit_drop_bit_eq bit_top bit_push_bit_iff bit_1_iff simp del: push_bit_of_1 bit_numeral_word_iff)

lemma and_top_bit: "k < 32 \<Longrightarrow> v AND shr 0x80000000 k = 0 \<longleftrightarrow> \<not> bit (v :: u32) (31 - k)"
  using and_one_shl [of "31 - k" v] by (cases "31 - k < LENGTH(32)") (auto simp: top_bit simp del: push_bit_of_1)

lemma sint_neg_iff: "sint v < 0 \<longleftrightarrow> bit v 31" for v :: u32
  using bit_last_iff [of v] by simp

lemma cntlzw_eq: "n \<le> 32 \<Longrightarrow> cntlzw_loop v n = 32 - n + length (takeWhile (\<lambda>k. \<not> bit v (31 - k)) [32 - n..<32])"
proof (induction n)
  case (Suc n)
  then have "[32 - Suc n..<32] = (31 - n) # [32 - n..<32]"
    by (simp add: upt_conv_Cons Suc_diff_le [of n 31, simplified] del: upt_Suc)
  with Suc show ?case
    by (simp add: and_top_bit del: upt_Suc)
qed simp

lemma clz_eq: "cntlzw_loop v 32 = clz32 v"
  by (simp add: cntlzw_eq clz32_def del: cntlzw_loop.simps)

lemma unat_and_31: "unat (s AND 31) = unat s mod 32" for s :: u32
proof -
  have "s AND 31 = take_bit 5 s"
    by (simp add: take_bit_eq_mask mask_numeral)
  then show ?thesis
    by (simp add: take_bit_eq_mod unat_mod_distrib)
qed

lemma rotl_eq: "dolrecomp_rotl32 v s = word_rotl (unat s) v"
proof -
  define r where "r = unat s mod 32"
  have r: "unat (s AND 31) = r" "r < 32"
    using unat_and_31 [of s] by (simp_all add: r_def)
  have m: "(n + (32 - r)) mod 32 = (if n < r then 32 + n - r else n - r)" if "n < 32" "0 < r" for n
    using that r(2) by (auto simp: le_mod_geq)
  show ?thesis
  proof (cases "r = 0")
    case True
    then have "s AND 31 = 0" using r(1) by (simp add: unat_eq_0)
    with True show ?thesis
      by (intro bit_word_eqI) (auto simp: dolrecomp_rotl32_def bit_word_rotl_iff r_def)
  next
    case False
    then have "s AND 31 \<noteq> 0" using r(1) by auto
    moreover have "unat (32 - (s AND 31)) = 32 - r"
      using r by (simp add: unat_sub_if_size word_size)
    ultimately have d: "dolrecomp_rotl32 v s = shl v r OR shr v (32 - r)"
      using r by (simp add: dolrecomp_rotl32_def Let_def)
    show ?thesis
    proof (rule bit_word_eqI)
      fix n assume n: "n < LENGTH(32)"
      have "bit (word_rotl (unat s) v) n = bit v (if n < r then 32 + n - r else n - r)"
        using n m [of n] False by (simp add: bit_word_rotl_iff r_def)
      moreover have "bit (dolrecomp_rotl32 v s) n = bit v (if n < r then 32 + n - r else n - r)"
        using n r(2) bit_imp_le_length [of v "32 - r + n"]
        by (auto simp: d bit_or_iff bit_push_bit_iff bit_drop_bit_eq)
      ultimately show "bit (dolrecomp_rotl32 v s) n = bit (word_rotl (unat s) v) n" by simp
    qed
  qed
qed
lemma agree_and: "wf_fields i \<Longrightarrow> inst_op i = PPC_OP_AND \<Longrightarrow> agree (lower_logical i) (c_logical i (\<lambda>s b. s AND b))"
  unfolding lower_logical_def compositions Let_def
  by (drule fields_of_bound, rule agreeI, rule exI, rule conjI, simp add: c_logical_def emit_record_eq machine Let_def,
      (rule steps | simp add: ir_eval machine; fail)+)

lemma agree_andc: "wf_fields i \<Longrightarrow> inst_op i = PPC_OP_ANDC \<Longrightarrow> agree (lower_logical i) (c_logical i (\<lambda>s b. s AND NOT b))"
  unfolding lower_logical_def compositions Let_def
  by (drule fields_of_bound, rule agreeI, rule exI, rule conjI, simp add: c_logical_def emit_record_eq machine Let_def,
      (rule steps | simp add: ir_eval machine; fail)+)

lemma agree_or: "wf_fields i \<Longrightarrow> inst_op i = PPC_OP_OR \<Longrightarrow> agree (lower_logical i) (c_logical i (\<lambda>s b. s OR b))"
  unfolding lower_logical_def compositions Let_def
  by (drule fields_of_bound, rule agreeI, rule exI, rule conjI, simp add: c_logical_def emit_record_eq machine Let_def,
      (rule steps | simp add: ir_eval machine; fail)+)

lemma agree_orc: "wf_fields i \<Longrightarrow> inst_op i = PPC_OP_ORC \<Longrightarrow> agree (lower_logical i) (c_logical i (\<lambda>s b. s OR NOT b))"
  unfolding lower_logical_def compositions Let_def
  by (drule fields_of_bound, rule agreeI, rule exI, rule conjI, simp add: c_logical_def emit_record_eq machine Let_def,
      (rule steps | simp add: ir_eval machine; fail)+)

lemma agree_xor: "wf_fields i \<Longrightarrow> inst_op i = PPC_OP_XOR \<Longrightarrow> agree (lower_logical i) (c_logical i (\<lambda>s b. s XOR b))"
  unfolding lower_logical_def compositions Let_def
  by (drule fields_of_bound, rule agreeI, rule exI, rule conjI, simp add: c_logical_def emit_record_eq machine Let_def,
      (rule steps | simp add: ir_eval machine; fail)+)

lemma agree_nand: "wf_fields i \<Longrightarrow> inst_op i = PPC_OP_NAND \<Longrightarrow> agree (lower_logical i) (c_logical i (\<lambda>s b. NOT (s AND b)))"
  unfolding lower_logical_def compositions Let_def
  by (drule fields_of_bound, rule agreeI, rule exI, rule conjI, simp add: c_logical_def emit_record_eq machine Let_def,
      (rule steps | simp add: ir_eval machine; fail)+)

lemma agree_nor: "wf_fields i \<Longrightarrow> inst_op i = PPC_OP_NOR \<Longrightarrow> agree (lower_logical i) (c_logical i (\<lambda>s b. NOT (s OR b)))"
  unfolding lower_logical_def compositions Let_def
  by (drule fields_of_bound, rule agreeI, rule exI, rule conjI, simp add: c_logical_def emit_record_eq machine Let_def,
      (rule steps | simp add: ir_eval machine; fail)+)

lemma agree_eqv: "wf_fields i \<Longrightarrow> inst_op i = PPC_OP_EQV \<Longrightarrow> agree (lower_logical i) (c_logical i (\<lambda>s b. NOT (s XOR b)))"
  unfolding lower_logical_def compositions Let_def
  by (drule fields_of_bound, rule agreeI, rule exI, rule conjI, simp add: c_logical_def emit_record_eq machine Let_def,
      (rule steps | simp add: ir_eval machine; fail)+)

lemma agree_extsb: "wf_fields i \<Longrightarrow> inst_op i = PPC_OP_EXTSB \<Longrightarrow> agree (lower_exts i) (c_unary i (\<lambda>s. scast (ucast s :: u8)))"
  unfolding lower_exts_def compositions Let_def
  by (drule fields_of_bound, rule agreeI, rule exI, rule conjI, simp add: c_unary_def emit_record_eq machine Let_def,
      (rule steps | simp add: ir_eval machine; fail)+)

lemma agree_extsh: "wf_fields i \<Longrightarrow> inst_op i = PPC_OP_EXTSH \<Longrightarrow> agree (lower_exts i) (c_unary i (\<lambda>s. scast (ucast s :: u16)))"
  unfolding lower_exts_def compositions Let_def
  by (drule fields_of_bound, rule agreeI, rule exI, rule conjI, simp add: c_unary_def emit_record_eq machine Let_def,
      (rule steps | simp add: ir_eval machine; fail)+)

lemma agree_cntlzw: "wf_fields i \<Longrightarrow> agree (lower_cntlzw i) (c_unary i (\<lambda>v. of_nat (cntlzw_loop v 32)))"
  unfolding lower_cntlzw_def compositions Let_def
  by (drule fields_of_bound, rule agreeI, rule exI, rule conjI, simp add: c_unary_def emit_record_eq clz_eq machine Let_def,
      (rule steps | simp add: ir_eval machine; fail)+)

section \<open>The rotate mask\<close>

text \<open>The distance to the last bit, which every iteration decreases.\<close>

definition mask_steps :: "u8 \<Rightarrow> u8 \<Rightarrow> nat" where
  "mask_steps b me = (if b \<le> me then unat me - unat b else unat me + 32 - unat b)"

lemma unat_next_bit: "unat ((b + 1) AND 31) = (if unat b = 31 then 0 else unat b + 1)" if "unat b < 32" for b :: u8
proof -
  have "(b + 1) AND 31 = take_bit 5 (b + 1)"
    by (simp add: take_bit_eq_mask mask_numeral)
  then have "unat ((b + 1) AND 31) = unat (b + 1) mod 32"
    by (simp add: take_bit_eq_mod unat_mod_distrib)
  also have "\<dots> = (unat b + 1) mod 32"
    using that by (simp add: unat_word_ariths(1))
  finally show ?thesis
    using that by auto
qed

lemma mask_steps_Suc:
  assumes "unat b < 32" "unat me < 32" "b \<noteq> me"
  shows "mask_steps b me = Suc (mask_steps ((b + 1) AND 31) me)"
  using assms unat_next_bit [OF assms(1)]
  by (auto simp: mask_steps_def word_le_nat_alt word_unat_eq_iff split: if_splits)

lemma mask_loop_bits:
  assumes "unat b < 32" "unat me < 32"
  shows "\<exists>r. mask_loop b me m = Some r \<and>
    (\<forall>n < 32. bit r n \<longleftrightarrow> bit m n \<or> (\<exists>j \<le> mask_steps b me. (unat b + j) mod 32 = 31 - n))"
  using assms
proof (induction "mask_steps b me" arbitrary: b m)
  case 0
  then have "unat b = unat me"
    by (auto simp: mask_steps_def word_le_nat_alt split: if_splits)
  then have "b = me" by (simp add: word_unat_eq_iff)
  with 0 show ?case
    by (subst mask_loop.simps) (auto simp: top_bit bit_or_iff bit_push_bit_iff bit_1_iff mask_steps_def simp del: push_bit_of_1)
next
  case (Suc d)
  then have ne: "b \<noteq> me"
    by (auto simp: mask_steps_def)
  let ?b = "(b + 1) AND 31" and ?m = "m OR shr 0x80000000 (unat b)"
  have b: "unat ?b < 32" "unat ?b = (unat b + 1) mod 32"
    using unat_next_bit [OF Suc.prems(1)] Suc.prems(1) by auto
  have d: "d = mask_steps ?b me"
    using Suc.hyps(2) mask_steps_Suc [OF Suc.prems ne] by simp
  obtain r where r: "mask_loop ?b me ?m = Some r"
    "\<forall>n < 32. bit r n \<longleftrightarrow> bit ?m n \<or> (\<exists>j \<le> mask_steps ?b me. (unat ?b + j) mod 32 = 31 - n)"
    using Suc.hyps(1) [OF d b(1) Suc.prems(2)] by blast
  have split: "(\<exists>j \<le> Suc d. (unat b + j) mod 32 = k) \<longleftrightarrow> unat b = k \<or> (\<exists>j \<le> d. (unat ?b + j) mod 32 = k)" for k
  proof -
    have "(\<exists>j \<le> Suc d. Q j) \<longleftrightarrow> Q 0 \<or> (\<exists>j \<le> d. Q (Suc j))" for Q
      by (metis Suc_le_mono not0_implies_Suc zero_le)
    moreover have "(unat ?b + j) mod 32 = (unat b + Suc j) mod 32" for j
      by (simp add: b(2) mod_simps)
    ultimately show ?thesis
      using Suc.prems(1) by simp
  qed
  have "mask_loop b me m = Some r"
    using r(1) ne by (subst mask_loop.simps) (simp add: Let_def)
  moreover have "bit r n \<longleftrightarrow> bit m n \<or> (\<exists>j \<le> Suc d. (unat b + j) mod 32 = 31 - n)" if n: "n < 32" for n
  proof -
    have "bit ?m n \<longleftrightarrow> bit m n \<or> unat b = 31 - n"
      using n Suc.prems(1) by (auto simp: top_bit bit_or_iff bit_push_bit_iff bit_1_iff simp del: push_bit_of_1)
    then show ?thesis
      using r(2) n unfolding d [symmetric] split by simp
  qed
  ultimately show ?case
    using Suc.hyps(2) by auto
qed

text \<open>With a last bit above 31 the loop does not return.\<close>

lemma mask_loop_stuck:
  assumes "unat b < 32" "32 \<le> unat me"
  shows "mask_loop b me m = None"
proof -
  have step: "unat ((b + 1) AND 31) < 32" for b :: u8
    using word_and_le1 [of "b + 1" 31] by (simp add: word_le_nat_alt)
  have "unat b < 32 \<Longrightarrow> 32 \<le> unat me \<Longrightarrow> False" if "mask_loop b me m = Some r" for b m r
    by (rule mask_loop.raw_induct [where P = "\<lambda>b me m r. unat b < 32 \<longrightarrow> 32 \<le> unat me \<longrightarrow> False", OF _ that, rule_format])
      (use step in \<open>fastforce simp: Let_def split: if_splits\<close>)
  then show ?thesis
    using assms by (cases "mask_loop b me m") auto
qed

lemma ppc_mask32_bits:
  assumes "unat mb < 32" "unat me < 32"
  shows "\<exists>r. ppc_mask32 mb me = Some r \<and> (\<forall>k < 32. bit r (31 - k) \<longleftrightarrow>
    (if mb \<le> me then unat mb \<le> k \<and> k \<le> unat me else unat mb \<le> k \<or> k \<le> unat me))"
proof -
  obtain r where r: "mask_loop mb me 0 = Some r"
    "\<forall>n < 32. bit r n \<longleftrightarrow> (\<exists>j \<le> mask_steps mb me. (unat mb + j) mod 32 = 31 - n)"
    using mask_loop_bits [OF assms, of 0] by auto
  have "(\<exists>j \<le> mask_steps mb me. (unat mb + j) mod 32 = k) \<longleftrightarrow>
      (if mb \<le> me then unat mb \<le> k \<and> k \<le> unat me else unat mb \<le> k \<or> k \<le> unat me)" if k: "k < 32" for k
  proof (intro iffI)
    assume "\<exists>j \<le> mask_steps mb me. (unat mb + j) mod 32 = k"
    then obtain j where j: "j \<le> mask_steps mb me" "(unat mb + j) mod 32 = k" by blast
    have "k = (if unat mb + j < 32 then unat mb + j else unat mb + j - 32)"
      using j assms by (auto simp: le_mod_geq mask_steps_def split: if_splits)
    with j(1) show "if mb \<le> me then unat mb \<le> k \<and> k \<le> unat me else unat mb \<le> k \<or> k \<le> unat me"
      using assms by (auto simp: mask_steps_def word_le_nat_alt split: if_splits)
  next
    assume a: "if mb \<le> me then unat mb \<le> k \<and> k \<le> unat me else unat mb \<le> k \<or> k \<le> unat me"
    show "\<exists>j \<le> mask_steps mb me. (unat mb + j) mod 32 = k"
      using a k assms
      by (intro exI [of _ "if unat mb \<le> k then k - unat mb else k + 32 - unat mb"])
        (auto simp: mask_steps_def word_le_nat_alt split: if_splits)
  qed
  then show ?thesis
    using r by (intro exI [of _ r]) (auto simp: ppc_mask32_def)
qed

section \<open>Rotates, shifts, products and quotients\<close>

lemma low_bits_shift: "n \<le> 32 \<Longrightarrow> shl v (32 - n) = 0 \<longleftrightarrow> take_bit n v = 0" for v :: u32
proof -
  assume n: "n \<le> 32"
  have "shl v (32 - n) = shl (take_bit n v) (32 - n)"
    using n by (intro bit_word_eqI) (auto simp: bit_push_bit_iff bit_take_bit_iff)
  moreover have "take_bit n v = shr (shl v (32 - n)) (32 - n)"
    using n by (intro bit_word_eqI) (auto simp: bit_push_bit_iff bit_take_bit_iff bit_drop_bit_eq)
  ultimately show ?thesis
    by (metis drop_bit_of_0 push_bit_of_0)
qed

lemma and_low_mask: "v AND (shl 1 n - 1) = take_bit n v" for v :: u32
  by (simp add: take_bit_eq_mask mask_eq_exp_minus_1)

lemma small_and_31: "unat t \<le> 31 \<Longrightarrow> t AND 31 = t" for t :: u32
  by (simp add: word_unat_eq_iff unat_and_31)

lemma unat_and_31_less [simp]: "unat (t AND 31) < 32" for t :: u32
  by (simp add: unat_and_31)

lemma shift_eq:
  "c_slw s b = (if 31 < b AND 0x3F then 0 else shl s (unat ((b AND 0x3F) AND 31)))"
  "c_srw s b = (if 31 < b AND 0x3F then 0 else shr s (unat ((b AND 0x3F) AND 31)))"
  using small_and_31 [of "b AND 0x3F"]
  by (simp_all add: c_slw_def c_srw_def Let_def word_less_nat_alt)

lemma sraw_eq:
  "(if sh = (0 :: u32) then (v :: u32, False)
    else if sh > 31 then (if v AND 0x80000000 \<noteq> 0 then 0xFFFFFFFF else 0, v AND 0x80000000 \<noteq> 0)
    else (signed_drop_bit (unat sh) v, v AND 0x80000000 \<noteq> 0 \<and> shl v (unat (32 - sh)) \<noteq> 0)) =
   (if 31 < sh then (if sint v < 0 then 0xFFFFFFFF else 0) else signed_drop_bit (unat (sh AND 31)) v,
    if 31 < sh then sint v < 0 else sint v < 0 \<and> v AND (shl 1 (unat (sh AND 31)) - 1) \<noteq> 0)"
proof -
  have sign: "v AND 0x80000000 \<noteq> 0 \<longleftrightarrow> sint v < 0"
    using and_top_bit [of 0 v] by (simp add: sint_neg_iff)
  have d: "unat (32 - sh) = 32 - unat sh" if "\<not> 31 < sh"
    using that by (simp add: unat_sub_if_size word_size word_less_nat_alt)
  show ?thesis
    using small_and_31 [of sh]
    by (auto simp: sign d low_bits_shift and_low_mask word_less_nat_alt simp del: push_bit_of_1)
qed

lemma step_if_app [steps]:
  "(p \<Longrightarrow> runs P (m x \<bind> f) Q) \<Longrightarrow> (\<not> p \<Longrightarrow> runs P (m' x \<bind> f) Q) \<Longrightarrow> runs P ((if p then m else m') x \<bind> f) Q"
  by simp

lemma high_half: "ucast (signed_drop_bit 32 p) = (ucast (shr p 32) :: u32)" for p :: u64
  by (rule bit_word_eqI) (auto simp: bit_simps)
lemma agree_mullw: "wf_fields i \<Longrightarrow> inst_op i = PPC_OP_MULLW \<Longrightarrow> \<not> inst_oe i \<Longrightarrow> agree (lower_mul i) (c_mullw i)"
  unfolding lower_mul_def compositions Let_def
  by (drule fields_of_bound, rule agreeI, rule exI, rule conjI, simp add: c_mullw_def emit_record_eq overflow_if_def machine Let_def,
      (rule steps | simp add: ir_eval machine; fail)+)

lemma agree_mulhw: "wf_fields i \<Longrightarrow> inst_op i = PPC_OP_MULHW \<Longrightarrow> agree (lower_mul i) (c_mulhw i)"
  unfolding lower_mul_def compositions Let_def
  by (drule fields_of_bound, rule agreeI, rule exI, rule conjI, simp add: c_mulhw_def emit_record_eq high_half machine Let_def,
      (rule steps | simp add: ir_eval machine; fail)+)

lemma agree_mulhwu: "wf_fields i \<Longrightarrow> inst_op i = PPC_OP_MULHWU \<Longrightarrow> agree (lower_mul i) (c_mulhwu i)"
  unfolding lower_mul_def compositions Let_def
  by (drule fields_of_bound, rule agreeI, rule exI, rule conjI, simp add: c_mulhwu_def emit_record_eq machine Let_def,
      (rule steps | simp add: ir_eval machine; fail)+)

lemma agree_slw: "wf_fields i \<Longrightarrow> inst_op i = PPC_OP_SLW \<Longrightarrow> agree (lower_shift i) (c_logical i c_slw)"
  unfolding lower_shift_def compositions Let_def
  by (drule fields_of_bound, rule agreeI, rule exI, rule conjI, simp add: c_logical_def emit_record_eq shift_eq machine Let_def,
      (rule steps | simp add: ir_eval machine; fail)+)

lemma agree_srw: "wf_fields i \<Longrightarrow> inst_op i = PPC_OP_SRW \<Longrightarrow> agree (lower_shift i) (c_logical i c_srw)"
  unfolding lower_shift_def compositions Let_def
  by (drule fields_of_bound, rule agreeI, rule exI, rule conjI, simp add: c_logical_def emit_record_eq shift_eq machine Let_def,
      (rule steps | simp add: ir_eval machine; fail)+)

lemma agree_sraw: "wf_fields i \<Longrightarrow> inst_op i = PPC_OP_SRAW \<Longrightarrow> agree (lower_sraw i) (c_sraw i)"
  unfolding lower_sraw_def compositions Let_def
  by (drule fields_of_bound, rule agreeI, rule exI, rule conjI, simp add: c_sraw_def emit_record_eq sraw_eq machine Let_def,
      (rule steps | simp add: ir_eval machine; fail)+)

lemma agree_srawi: "wf_fields i \<Longrightarrow> inst_op i = PPC_OP_SRAWI \<Longrightarrow> agree (lower_sraw i) (c_sraw i)"
  unfolding lower_sraw_def compositions Let_def
  by (drule fields_of_bound, rule agreeI, rule exI, rule conjI, simp add: c_sraw_def emit_record_eq sraw_eq machine Let_def,
      (rule steps | simp add: ir_eval machine; fail)+)


lemma rotate_mask:
  assumes "wf_fields i"
  obtains m where "ppc_mask32 (inst_mb i) (inst_me i) = Some m" "emit_mask32 (inst_mb i) (inst_me i) = Some m"
proof -
  have "unat (inst_mb i) < 32" "unat (inst_me i) < 32"
    using fields_of_bound [OF assms] by simp_all
  from ppc_mask32_bits [OF this] that show ?thesis
    by (auto simp: emit_mask32_def ppc_mask32_def)
qed

lemma agree_rlwinm: "wf_fields i \<Longrightarrow> inst_op i = PPC_OP_RLWINM \<Longrightarrow> agree (lower_rotate i) (c_rlwinm i)"
  unfolding lower_rotate_def compositions Let_def
  by (frule fields_of_bound, erule rotate_mask, rule agreeI, rule exI, rule conjI,
      simp add: c_rlwinm_def emit_record_eq rotl_eq machine Let_def,
      (rule steps | simp add: ir_eval machine; fail)+)

lemma agree_rlwnm: "wf_fields i \<Longrightarrow> inst_op i = PPC_OP_RLWNM \<Longrightarrow> agree (lower_rotate i) (c_rlwinm i)"
  unfolding lower_rotate_def compositions Let_def
  by (frule fields_of_bound, erule rotate_mask, rule agreeI, rule exI, rule conjI,
      simp add: c_rlwinm_def emit_record_eq rotl_eq machine Let_def,
      (rule steps | simp add: ir_eval machine; fail)+)

lemma agree_rlwimi: "wf_fields i \<Longrightarrow> inst_op i = PPC_OP_RLWIMI \<Longrightarrow> agree (lower_rotate i) (c_rlwimi i)"
  unfolding lower_rotate_def compositions Let_def
  by (frule fields_of_bound, erule rotate_mask, rule agreeI, rule exI, rule conjI,
      simp add: c_rlwimi_def emit_record_eq rotl_eq machine Let_def,
      (rule steps | simp add: ir_eval machine; fail)+)

lemma divw_eq:
  "(if y = 0 \<or> (x = 0x80000000 \<and> sint y = - 1) then (if sint x < 0 then 0xFFFFFFFF else 0)
    else word_of_int (sint x sdiv sint y)) =
   (if y = 0 \<or> (x = 0x80000000 \<and> y = 0xFFFFFFFF) then (if sint x < 0 then 0xFFFFFFFF else 0)
    else sdiv32 x (if y = 0 \<or> (x = 0x80000000 \<and> y = 0xFFFFFFFF) then 1 else y))" for x y :: u32
proof -
  have "sint y = - 1 \<longleftrightarrow> y = 0xFFFFFFFF"
    using sint_eq_iff [of y "0xFFFFFFFF"] by simp
  then show ?thesis by (simp add: sdiv32_def)
qed

lemma agree_divw: "wf_fields i \<Longrightarrow> inst_op i = PPC_OP_DIVW \<Longrightarrow> \<not> inst_oe i \<Longrightarrow> agree (lower_div i) (c_divw i)"
  unfolding lower_div_def compositions Let_def
  by (drule fields_of_bound, rule agreeI, rule exI, rule conjI, simp add: c_divw_def divw_eq emit_record_eq overflow_if_def machine Let_def,
      (rule steps | simp add: ir_eval machine sdiv_defined_def; fail)+)

lemma agree_divwu: "wf_fields i \<Longrightarrow> inst_op i = PPC_OP_DIVWU \<Longrightarrow> \<not> inst_oe i \<Longrightarrow> agree (lower_div i) (c_divwu i)"
  unfolding lower_div_def compositions Let_def
  by (drule fields_of_bound, rule agreeI, rule exI, rule conjI, simp add: c_divwu_def emit_record_eq overflow_if_def machine Let_def,
      (rule steps | simp add: ir_eval machine; fail)+)

section \<open>Properties\<close>

text \<open>C39 The loop that makes a rotate mask returns exactly when the last bit is below 32,
  and then sets the bits from the first to the last one, counted from the top and around the end
  when the last lies before the first.\<close>

theorem rotate_mask_exact:
  assumes "unat mb < 32"
  shows "case ppc_mask32 mb me of
      None \<Rightarrow> 32 \<le> unat me
    | Some r \<Rightarrow> unat me < 32 \<and> (\<forall>k < 32. bit r (31 - k) =
        (if mb \<le> me then unat mb \<le> k \<and> k \<le> unat me else unat mb \<le> k \<or> k \<le> unat me))"
proof (cases "unat me < 32")
  case True
  then show ?thesis
    using ppc_mask32_bits [OF assms] by (fastforce split: option.split)
next
  case False
  then show ?thesis
    using mask_loop_stuck [OF assms, of me 0] by (simp add: ppc_mask32_def)
qed

theorem rotate_mask_exact_witness: "ppc_mask32 30 1 \<noteq> None \<and> ppc_mask32 0 32 = None"
  using rotate_mask_exact [of 30 1] rotate_mask_exact [of 0 32] by (auto split: option.splits)

end
