(* ===== verification/IrTyped.thy ===== *)
theory IrTyped
  imports Backends
begin

text \<open>
  The lowering makes well-typed code.  An invariant of the builder says that the block so far is code
  \<open>dolir_verify\<close> accepts; one rule per emitting operation of the lowering keeps it, and the rules are
  put together along the syntax of every lowering.  With failing allocations (\<open>z\<close>) the operands may
  be \<open>DOLIR_NO_VALUE\<close>, but nothing leaves its array.
\<close>

section \<open>Effects stay in the masks\<close>

definition masks_ok :: "DolIRInstruction \<Rightarrow> bool" where
  "masks_ok i \<longleftrightarrow> length (ir_state_uses i) = 3 \<and> length (ir_state_defs i) = 3"

definition marks :: "DolIRInstruction option \<Rightarrow> bool" where
  "marks x \<longleftrightarrow> (\<exists>j. x = Some j \<and> masks_ok j)"

named_theorems mark_intros \<open>the marking operations stay in the masks\<close>

lemma marks_Some [mark_intros]: "masks_ok i \<Longrightarrow> marks (Some i)"
  by (simp add: marks_def)

lemma marks_bind [mark_intros]: "marks x \<Longrightarrow> (\<And>j. masks_ok j \<Longrightarrow> marks (g j)) \<Longrightarrow> marks (x \<bind> g)"
  by (auto simp: marks_def)

lemma marks_if [mark_intros]: "(P \<Longrightarrow> marks x) \<Longrightarrow> (\<not> P \<Longrightarrow> marks y) \<Longrightarrow> marks (if P then x else y)"
  by simp

lemma marks_slot [mark_intros]:
  "masks_ok i \<Longrightarrow> s < 192 \<Longrightarrow> marks (uses_slot s i)"
  "masks_ok i \<Longrightarrow> s < 192 \<Longrightarrow> marks (defines_slot s i)"
  using mark_has [of s "ir_state_uses i"] mark_has [of s "ir_state_defs i"]
  by (auto simp: marks_def masks_ok_def uses_slot_def defines_slot_def)

lemma marks_pair [mark_intros]:
  "masks_ok i \<Longrightarrow> r < 32 \<Longrightarrow> marks (use_pair r i)" "masks_ok i \<Longrightarrow> r < 32 \<Longrightarrow> marks (define_pair r i)"
  unfolding use_pair_def define_pair_def by (intro mark_intros; simp)+

lemma marks_for_each [mark_intros]:
  "(\<And>x j. x \<in> set xs \<Longrightarrow> masks_ok j \<Longrightarrow> marks (f x j)) \<Longrightarrow> masks_ok i \<Longrightarrow> marks (for_each xs f i)"
  by (induction xs arbitrary: i) (auto intro!: mark_intros)

lemma masks_ok_exact [mark_intros]: "masks_ok i \<Longrightarrow> masks_ok (i\<lparr>ir_exact_fp := e\<rparr>)"
  by (simp add: masks_ok_def)

text \<open>The immediates of the helper calls that name registers.\<close>

definition descriptor_ok :: "u64 \<Rightarrow> bool" where
  "descriptor_ok d \<longleftrightarrow> desc_byte d 8 < 32 \<and> desc_byte d 16 < 32 \<and> desc_byte d 24 < 32 \<and>
     desc_byte d 32 < 32 \<and> desc_byte d 40 < 8"

definition helper_ok :: "u32 \<Rightarrow> u64 \<Rightarrow> bool" where
  "helper_ok aux imm \<longleftrightarrow>
     (aux = DOLIR_HELPER_EXACT_FLOAT \<or> aux = DOLIR_HELPER_EXACT_PAIRED \<longrightarrow> descriptor_ok imm) \<and>
     (aux = DOLIR_HELPER_PSQ_LOAD \<or> aux = DOLIR_HELPER_PSQ_STORE \<longrightarrow> unat (imm AND 0xFF) < 32)"

lemma marks_exact:
  assumes "masks_ok i" "descriptor_ok (ir_immediate i)"
  shows "marks (exact_float i)" "marks (exact_paired i)"
proof -
  note d = assms(2) [unfolded descriptor_ok_def]
  show "marks (exact_float i)"
    unfolding exact_float_def Let_def by (intro mark_intros; use d assms(1) in \<open>simp\<close>)
  show "marks (exact_paired i)"
    unfolding exact_paired_def Let_def by (intro mark_intros; use d assms(1) in \<open>simp\<close>)
qed

lemma gqr_bound: "unat (shr w 9 AND 7 :: u64) < 8"
  using word_and_le1 [of "shr w 9" 7] by (simp add: word_le_nat_alt)

lemma marks_helper:
  assumes "masks_ok i" "helper_ok (ir_aux i) (ir_immediate i)"
  shows "marks (helper_effects i)"
proof -
  have "ir_aux i = DOLIR_HELPER_EXACT_FLOAT \<or> ir_aux i = DOLIR_HELPER_EXACT_PAIRED \<Longrightarrow> descriptor_ok (ir_immediate i)"
    "ir_aux i = DOLIR_HELPER_PSQ_LOAD \<or> ir_aux i = DOLIR_HELPER_PSQ_STORE \<Longrightarrow> unat (ir_immediate i AND 0xFF) < 32"
    using assms(2) by (auto simp: helper_ok_def)
  then show ?thesis
    unfolding helper_effects_def Let_def switch_in.simps
    by (intro mark_intros marks_exact; use assms(1) gqr_bound [of "ir_immediate i"] in \<open>simp\<close>)
qed

lemma populate_total:
  assumes "ir_op i = DOLIR_OP_STATE_READ \<or> ir_op i = DOLIR_OP_STATE_WRITE \<Longrightarrow> unat (ir_aux i) < 192"
    and "ir_op i = DOLIR_OP_HELPER_CALL \<Longrightarrow> helper_ok (ir_aux i) (ir_immediate i)"
  shows "\<exists>j. dolir_populate_effects i = Some j \<and> masks_ok j \<and> same_code i j"
proof -
  have "marks (dolir_populate_effects i)"
    unfolding dolir_populate_effects_def Let_def
    by (intro mark_intros marks_helper; use assms in \<open>simp add: masks_ok_def DOLIR_STATE_MASK_WORDS_def\<close>)
  then show ?thesis
    using populate_same_code by (auto simp: marks_def)
qed

section \<open>The invariant of the builder\<close>

text \<open>A value an instruction may use, and an instruction \<open>dolir_verify\<close> and the analysis accept, in
  a function with \<open>n\<close> values.\<close>

definition good_value :: "bool \<Rightarrow> nat \<Rightarrow> DolIRValue \<Rightarrow> bool" where
  "good_value z n v \<longleftrightarrow> v < n \<and> (z \<or> v \<noteq> DOLIR_NO_VALUE)"

definition typed_instruction :: "bool \<Rightarrow> nat \<Rightarrow> DolIRInstruction \<Rightarrow> bool" where
  "typed_instruction z n i \<longleftrightarrow>
     ir_result i < n \<and> length (ir_operands i) \<le> 4 \<and> list_all (good_value z n) (ir_operands i) \<and>
     (ir_op i = DOLIR_OP_STATE_READ \<or> ir_op i = DOLIR_OP_STATE_WRITE \<longrightarrow> unat (ir_aux i) < DOLIR_STATE_COUNT) \<and>
     ir_address_domain i = DOLIR_ADDRESS_UNKNOWN \<and> masks_ok i"

text \<open>Targets are blocks of the function or none.\<close>

definition targets_ok :: "nat \<Rightarrow> DolIRTerminator \<Rightarrow> bool" where
  "targets_ok count t \<longleftrightarrow> target_ok count (fst (term_targets t)) \<and> target_ok count (snd (term_targets t))"

text \<open>\<open>f\<close> is the function the block was taken from, \<open>c\<close> tells whether the block has got its
  terminator, \<open>G\<close> are values the lowering may use.\<close>

definition typed :: "bool \<Rightarrow> DolIRFunction \<Rightarrow> bool \<Rightarrow> DolIRValue set \<Rightarrow> Builder \<Rightarrow> bool" where
  "typed z f c G b \<longleftrightarrow>
     \<not> b_undefined b \<and> (z \<or> (\<forall>k. allocs (b_heap b) k)) \<and> 0 < length (fn_value_types (b_function b)) \<and>
     length (fn_value_types f) \<le> length (fn_value_types (b_function b)) \<and>
     fn_blocks (b_function b) = fn_blocks f \<and> fn_guest_start (b_function b) = fn_guest_start f \<and>
     fn_guest_end (b_function b) = fn_guest_end f \<and>
     list_all (typed_instruction z (length (fn_value_types (b_function b)))) (blk_instructions (b_block b)) \<and>
     targets_ok (length (fn_blocks f)) (blk_terminator (b_block b)) \<and>
     (c \<longrightarrow> term_kind (blk_terminator (b_block b)) \<noteq> DOLIR_TERM_NONE) \<and>
     (\<forall>v \<in> G. good_value z (length (fn_value_types (b_function b))) v)"

lemma typed_weaken: "typed z f c G b \<Longrightarrow> G' \<subseteq> G \<Longrightarrow> (c' \<Longrightarrow> c) \<Longrightarrow> typed z f c' G' b"
  by (auto simp: typed_def)

lemma good_value_mono: "good_value z n v \<Longrightarrow> n \<le> k \<Longrightarrow> good_value z k v"
  by (simp add: good_value_def)

lemma typed_instruction_mono: "typed_instruction z n i \<Longrightarrow> n \<le> k \<Longrightarrow> typed_instruction z k i"
  by (auto simp: typed_instruction_def list_all_iff intro: good_value_mono)

lemma typed_instructions_mono: "list_all (typed_instruction z n) is \<Longrightarrow> n \<le> k \<Longrightarrow> list_all (typed_instruction z k) is"
  by (auto simp: list_all_iff intro: typed_instruction_mono)

section \<open>Appending\<close>

text \<open>The operations an instruction of the lowering may have with these operands.\<close>

definition emit_ok :: "DolIROp \<Rightarrow> u64 \<Rightarrow> u32 \<Rightarrow> bool" where
  "emit_ok op imm aux \<longleftrightarrow> op \<noteq> DOLIR_OP_STATE_READ \<and> op \<noteq> DOLIR_OP_STATE_WRITE \<and>
     (op = DOLIR_OP_HELPER_CALL \<longrightarrow> helper_ok aux imm)"

lemma append_typed:
  assumes b: "typed z f c G b" and xs: "length xs \<le> 4" "set xs \<subseteq> G"
    and op: "op = DOLIR_OP_STATE_READ \<or> op = DOLIR_OP_STATE_WRITE \<Longrightarrow> unat aux < DOLIR_STATE_COUNT"
      "op = DOLIR_OP_HELPER_CALL \<Longrightarrow> helper_ok aux imm"
  shows "\<exists>v g blk h. dolir_append (b_function b) (b_block b) (b_heap b) op ty xs imm aux gpc eff = Some (v, g, blk, h) \<and>
    typed z f c (if ty = DOLIR_TYPE_VOID then G else insert v G) (b\<lparr>b_function := g, b_block := blk, b_heap := h\<rparr>)"
proof -
  let ?n = "length (fn_value_types (b_function b))"
  let ?i = "\<lambda>r. zero_instruction\<lparr>ir_op := op, ir_type := ty, ir_result := r, ir_operands := xs,
          ir_immediate := imm, ir_aux := aux, ir_guest_pc := gpc, ir_effects := eff\<rparr>"
  note b = b [unfolded typed_def]
  obtain ok cap h where g: "grow_array (blk_capacity (b_block b)) (of_nat (length (blk_instructions (b_block b)))) (b_heap b) = (ok, cap, h)"
    by (metis surj_pair)
  obtain ok' cap' h' where g': "grow_array (fn_value_capacity (b_function b)) (of_nat ?n) h = (ok', cap', h')"
    by (metis surj_pair)
  have h1: "z \<or> (ok \<and> (\<forall>k. allocs h k))"
    using b grow_ok [of "b_heap b" "blk_capacity (b_block b)" "of_nat (length (blk_instructions (b_block b)))"] g by auto
  then have h: "z \<or> (ok \<and> (\<forall>k. allocs h k))" "z \<or> (ok' \<and> (\<forall>k. allocs h' k))"
    using grow_ok [of h "fn_value_capacity (b_function b)" "of_nat ?n"] g' by auto
  have "\<forall>r. \<exists>j. new_instruction op ty r xs imm aux gpc eff = Some j \<and> masks_ok j \<and> same_code (?i r) j"
  proof
    fix r
    show "\<exists>j. new_instruction op ty r xs imm aux gpc eff = Some j \<and> masks_ok j \<and> same_code (?i r) j"
      unfolding new_instruction_def by (rule populate_total) (use op in simp_all)
  qed
  from choice [OF this] obtain j where
    j: "\<And>r. new_instruction op ty r xs imm aux gpc eff = Some (j r) \<and> masks_ok (j r) \<and> same_code (?i r) (j r)"
    by blast
  have t: "typed_instruction z (Suc ?n) (j ?n)" "typed_instruction z ?n (j 0)"
    using j xs op b by (auto simp: typed_instruction_def same_code_def zero_instruction_def list_all_iff
      good_value_def subset_iff less_Suc_eq)
  have mono: "list_all (typed_instruction z (Suc ?n)) (blk_instructions (b_block b))"
    "\<forall>v \<in> G. good_value z (Suc ?n) v"
    using b typed_instructions_mono good_value_mono [of z ?n _ "Suc ?n"] by auto
  consider "\<not> ok" | "ok" "ty = DOLIR_TYPE_VOID" | "ok" "ty \<noteq> DOLIR_TYPE_VOID" "\<not> ok'"
    | "ok" "ty \<noteq> DOLIR_TYPE_VOID" "ok'" by blast
  then show ?thesis
  proof cases
    case 1
    then show ?thesis
      using b xs(1) h(1) by (simp add: dolir_append_def g typed_def good_value_def)
  next
    case 2
    then show ?thesis
      using b xs(1) h(1) t(2) j [of 0] by (simp add: dolir_append_def g typed_def)
  next
    case 3
    then show ?thesis
      using b xs(1) h(2) g' by (simp add: dolir_append_def g typed_def good_value_def)
  next
    case 4
    then show ?thesis
      using b xs(1) h(2) g' t(1) j [of ?n] mono by (simp add: dolir_append_def g typed_def good_value_def Let_def)
  qed
qed

section \<open>Rules along the syntax of a lowering\<close>

named_theorems typed_rules \<open>the operations of the lowering keep the invariant\<close>

lemma typed_drop:
  "runs (typed z f c G) m (\<lambda>_. typed z f c G) \<Longrightarrow> runs (typed z f c G) k Q \<Longrightarrow>
   runs (typed z f c G) (m \<bind> (\<lambda>_. k)) Q"
  by (rule runs_bind)

lemma typed_value:
  "runs (typed z f c G) m (\<lambda>v. typed z f c (insert v G)) \<Longrightarrow>
   (\<And>v. runs (typed z f c (insert v G)) (k v) Q) \<Longrightarrow> runs (typed z f c G) (m \<bind> k) Q" for m :: "DolIRValue lowering"
  by (rule runs_bind)

lemma typed_if [typed_rules]:
  "(p \<Longrightarrow> runs P m Q) \<Longrightarrow> (\<not> p \<Longrightarrow> runs P m' Q) \<Longrightarrow> runs P (if p then m else m') Q"
  by simp

lemma typed_if_apply [typed_rules]:
  "(p \<Longrightarrow> runs P (m v) Q) \<Longrightarrow> (\<not> p \<Longrightarrow> runs P (m' v) Q) \<Longrightarrow> runs P ((if p then m else m') v) Q"
  by simp

lemma typed_option [typed_rules]:
  "(x = None \<Longrightarrow> runs P m Q) \<Longrightarrow> (\<And>v. x = Some v \<Longrightarrow> runs P (k v) Q) \<Longrightarrow>
   runs P (case x of None \<Rightarrow> m | Some v \<Rightarrow> k v) Q"
  by (cases x) simp_all

lemma typed_ret_drop [typed_rules]: "G \<subseteq> G' \<Longrightarrow> runs (typed z f c G') (ret v) (\<lambda>_. typed z f c G)"
  by (auto simp: runs_def intro: typed_weaken)

lemma typed_ret_value [typed_rules]:
  "v \<in> G' \<Longrightarrow> G \<subseteq> G' \<Longrightarrow> runs (typed z f c G') (ret v) (\<lambda>v. typed z f c (insert v G))"
  by (auto simp: runs_def intro: typed_weaken)

lemma typed_outside [typed_rules]: "x = Some v \<Longrightarrow> runs P (k v) Q \<Longrightarrow> runs P (outside x \<bind> k) Q"
  by (simp add: runs_def outside_def bind_def)

lemma typed_fold:
  assumes "\<And>x v. x \<in> set xs \<Longrightarrow> runs (typed z f c (insert v G)) (g x v) (\<lambda>v. typed z f c (insert v G))"
  shows "runs (typed z f c (insert v G)) (fold_m g xs v) (\<lambda>v. typed z f c (insert v G))"
  using assms
proof (induction xs arbitrary: v)
  case Nil
  then show ?case by (simp add: runs_def)
next
  case (Cons x xs)
  show ?case
    unfolding fold_m.simps by (rule runs_bind [OF Cons.prems]) (use Cons in simp_all)
qed

lemma typed_loop:
  assumes "\<And>x. x \<in> set xs \<Longrightarrow> runs (typed z f c G) (g x) (\<lambda>_. typed z f c G)"
  shows "runs (typed z f c G) (loop_m xs g) (\<lambda>_. typed z f c G)"
  using assms
proof (induction xs)
  case Nil
  then show ?case by (simp add: runs_def)
next
  case (Cons x xs)
  show ?case
    unfolding loop_m.simps by (rule runs_bind [OF Cons.prems]) (use Cons in simp_all)
qed

text \<open>The folds and loops may forget values they do not use.\<close>

lemma typed_fold_weak [typed_rules]:
  assumes "\<And>x v. x \<in> set xs \<Longrightarrow> runs (typed z f c (insert v G')) (g x v) (\<lambda>v. typed z f c (insert v G'))"
    and "v \<in> G'" "G \<subseteq> G'"
  shows "runs (typed z f c G') (fold_m g xs v) (\<lambda>v. typed z f c (insert v G))"
proof -
  have "runs (typed z f c (insert v G')) (fold_m g xs v) (\<lambda>v. typed z f c (insert v G'))"
    by (rule typed_fold, rule assms(1))
  then show ?thesis
    unfolding insert_absorb [OF assms(2)] by (rule runs_post, elim typed_weaken) (use assms(3) in auto)
qed

lemma typed_loop_weak [typed_rules]:
  assumes "\<And>x. x \<in> set xs \<Longrightarrow> runs (typed z f c G') (g x) (\<lambda>_. typed z f c G')" "G \<subseteq> G'"
  shows "runs (typed z f c G') (loop_m xs g) (\<lambda>_. typed z f c G)"
  by (rule runs_post, rule typed_loop, rule assms(1), assumption, elim typed_weaken) (use assms(2) in auto)

section \<open>Rules for the operations\<close>

lemma typed_append:
  assumes "length xs \<le> 4" "set xs \<subseteq> G'" "G \<subseteq> G'"
    and "op = DOLIR_OP_STATE_READ \<or> op = DOLIR_OP_STATE_WRITE \<Longrightarrow> unat aux < DOLIR_STATE_COUNT"
    and "op = DOLIR_OP_HELPER_CALL \<Longrightarrow> helper_ok aux imm"
  shows "runs (typed z f c G') (on_block d (\<lambda>f blk h. dolir_append f blk h op ty xs imm aux gpc eff))
      (\<lambda>_. typed z f c G)"
    and "ty \<noteq> DOLIR_TYPE_VOID \<Longrightarrow>
      runs (typed z f c G') (on_block d (\<lambda>f blk h. dolir_append f blk h op ty xs imm aux gpc eff))
      (\<lambda>v. typed z f c (insert v G))"
proof -
  have *: "\<exists>v b'. run_state (on_block d (\<lambda>f blk h. dolir_append f blk h op ty xs imm aux gpc eff)) b = (v, b') \<and>
      typed z f c (if ty = DOLIR_TYPE_VOID then G' else insert v G') b'" if "typed z f c G' b" for b
  proof -
    have "\<not> b_undefined b" using that by (simp add: typed_def)
    moreover obtain v g blk h where
      "dolir_append (b_function b) (b_block b) (b_heap b) op ty xs imm aux gpc eff = Some (v, g, blk, h)"
      "typed z f c (if ty = DOLIR_TYPE_VOID then G' else insert v G') (b\<lparr>b_function := g, b_block := blk, b_heap := h\<rparr>)"
      using append_typed [OF \<open>typed z f c G' b\<close> assms(1,2,4,5)] by blast
    ultimately show ?thesis
      by (simp add: on_block_def)
  qed
  show "runs (typed z f c G') (on_block d (\<lambda>f blk h. dolir_append f blk h op ty xs imm aux gpc eff)) (\<lambda>_. typed z f c G)"
    unfolding runs_def
  proof (intro allI impI)
    fix b assume "typed z f c G' b"
    from * [OF this] assms(3) typed_weaken [of z f c _ _ G c]
    show "case run_state (on_block d (\<lambda>f blk h. dolir_append f blk h op ty xs imm aux gpc eff)) b of
        (v, b) \<Rightarrow> typed z f c G b"
      by (fastforce split: if_splits)
  qed
  show "runs (typed z f c G') (on_block d (\<lambda>f blk h. dolir_append f blk h op ty xs imm aux gpc eff))
      (\<lambda>v. typed z f c (insert v G))" if "ty \<noteq> DOLIR_TYPE_VOID"
    unfolding runs_def
  proof (intro allI impI)
    fix b assume "typed z f c G' b"
    from * [OF this] assms(3) that typed_weaken [of z f c "insert v G'" _ "insert v G" c for v]
    show "case run_state (on_block d (\<lambda>f blk h. dolir_append f blk h op ty xs imm aux gpc eff)) b of
        (v, b) \<Rightarrow> typed z f c (insert v G) b"
      by fastforce
  qed
qed

lemma typed_emit [typed_rules]:
  assumes "emit_ok op imm aux" "length xs \<le> 4" "set xs \<subseteq> G'" "G \<subseteq> G'"
  shows "runs (typed z f c G') (emit i op ty xs imm aux eff) (\<lambda>_. typed z f c G)"
    and "ty \<noteq> DOLIR_TYPE_VOID \<Longrightarrow> runs (typed z f c G') (emit i op ty xs imm aux eff) (\<lambda>v. typed z f c (insert v G))"
  unfolding emit_def by (intro typed_append; use assms in \<open>simp add: emit_ok_def\<close>)+

lemma typed_constant [typed_rules]:
  assumes "G \<subseteq> G'"
  shows "runs (typed z f c G') (c32 i k) (\<lambda>v. typed z f c (insert v G))"
    and "runs (typed z f c G') (c64 i k') (\<lambda>v. typed z f c (insert v G))"
    and "runs (typed z f c G') (c1 i p) (\<lambda>v. typed z f c (insert v G))"
  unfolding c32_def c64_def c1_def constant_value_def dolir_constant_def
  by (intro typed_append; use assms in simp)+

lemma state_type_not_void: "dolir_state_type slot \<noteq> DOLIR_TYPE_VOID"
  by (simp add: dolir_state_type_def)

lemma typed_read_slot [typed_rules]:
  assumes "slot < DOLIR_STATE_COUNT" "G \<subseteq> G'"
  shows "runs (typed z f c G') (read_slot i slot) (\<lambda>v. typed z f c (insert v G))"
  unfolding read_slot_def dolir_state_read_def
  by (intro typed_append state_type_not_void; use assms in \<open>simp add: unat_of_nat\<close>)

lemma on_block_state_write:
  "run_state (on_block False (\<lambda>f blk h. dolir_state_write f blk h slot v gpc)) b =
     (let (r, b') = run_state (on_block 0 (\<lambda>f blk h. dolir_append f blk h DOLIR_OP_STATE_WRITE DOLIR_TYPE_VOID [v] 0
        (of_nat slot) gpc DOLIR_EFFECT_WRITE_STATE)) b
      in (\<not> b_undefined b \<and> \<not> b_undefined b' \<and> blk_instructions (b_block b') \<noteq> [], b'))"
  by (auto simp: on_block_def dolir_state_write_def Let_def split: option.splits prod.splits bind_splits)

lemma typed_write_slot [typed_rules]:
  assumes "slot < DOLIR_STATE_COUNT" "v \<in> G'" "G \<subseteq> G'"
  shows "runs (typed z f c G') (write_slot i slot v) (\<lambda>_. typed z f c G)"
proof -
  have "runs (typed z f c G') (on_block 0 (\<lambda>f blk h. dolir_append f blk h DOLIR_OP_STATE_WRITE DOLIR_TYPE_VOID [v] 0
      (of_nat slot) (inst_address i) DOLIR_EFFECT_WRITE_STATE)) (\<lambda>_. typed z f c G)"
    by (intro typed_append; use assms in \<open>simp add: unat_of_nat\<close>)
  then have "runs (typed z f c G') (on_block False (\<lambda>f blk h. dolir_state_write f blk h slot v (inst_address i)))
      (\<lambda>_. typed z f c G)"
    unfolding runs_def on_block_state_write by (fastforce simp: Let_def split: prod.splits)
  then show ?thesis
    unfolding write_slot_def by (rule runs_bind) (rule typed_ret_drop, simp)
qed

lemma typed_gpr [typed_rules]:
  assumes "unat r < 32" "G \<subseteq> G'"
  shows "runs (typed z f c G') (get_gpr i r) (\<lambda>v. typed z f c (insert v G))"
    and "runs (typed z f c G') (get_fpr i r) (\<lambda>v. typed z f c (insert v G))"
    and "runs (typed z f c G') (get_ps1 i r) (\<lambda>v. typed z f c (insert v G))"
    and "v \<in> G' \<Longrightarrow> runs (typed z f c G') (set_gpr i r v) (\<lambda>_. typed z f c G)"
    and "v \<in> G' \<Longrightarrow> runs (typed z f c G') (set_fpr i r v) (\<lambda>_. typed z f c G)"
    and "v \<in> G' \<Longrightarrow> runs (typed z f c G') (set_ps1 i r v) (\<lambda>_. typed z f c G)"
  unfolding get_gpr_def get_fpr_def get_ps1_def set_gpr_def set_fpr_def set_ps1_def
  by (intro typed_read_slot typed_write_slot; use assms in simp)+

text \<open>The pure operations.\<close>

definition pure_op :: "DolIROp \<Rightarrow> bool" where
  "pure_op op \<longleftrightarrow> op \<noteq> DOLIR_OP_STATE_READ \<and> op \<noteq> DOLIR_OP_STATE_WRITE \<and> op \<noteq> DOLIR_OP_HELPER_CALL"

lemma typed_pure [typed_rules]:
  assumes "pure_op op" "ty \<noteq> DOLIR_TYPE_VOID" "x \<in> G'" "G \<subseteq> G'"
  shows "runs (typed z f c G') (unary i op ty x) (\<lambda>v. typed z f c (insert v G))"
    and "y \<in> G' \<Longrightarrow> runs (typed z f c G') (binary i op ty x y) (\<lambda>v. typed z f c (insert v G))"
  unfolding unary_def binary_def emit_op_def
  by (intro typed_emit; use assms in \<open>simp add: pure_op_def emit_ok_def\<close>)+

lemma typed_convert [typed_rules]:
  assumes "ty \<noteq> DOLIR_TYPE_VOID" "x \<in> G'" "G \<subseteq> G'"
  shows "runs (typed z f c G') (trunc_value i ty x) (\<lambda>v. typed z f c (insert v G))"
    and "runs (typed z f c G') (zext_value i ty x) (\<lambda>v. typed z f c (insert v G))"
    and "runs (typed z f c G') (sext_value i ty x) (\<lambda>v. typed z f c (insert v G))"
    and "y \<in> G' \<Longrightarrow> w \<in> G' \<Longrightarrow> runs (typed z f c G') (select_value i ty x y w) (\<lambda>v. typed z f c (insert v G))"
  unfolding trunc_value_def zext_value_def sext_value_def select_value_def
  by (intro typed_pure typed_emit; use assms in \<open>simp add: pure_op_def emit_ok_def\<close>)+

lemma typed_binary_c32 [typed_rules]:
  assumes "pure_op op" "x \<in> G'" "G \<subseteq> G'"
  shows "runs (typed z f c G') (binary_c32 i op x k) (\<lambda>v. typed z f c (insert v G))"
  unfolding binary_c32_def
  by (rule typed_value typed_rules subset_refl | use assms in \<open>blast intro: subset_insertI2\<close>)+

lemma div_four_bound: "unat r < 32 \<Longrightarrow> unat (r div 4) < 8" for r :: u8
  by (simp add: unat_div)

lemma field_ranges:
  assumes "wf_fields i"
  shows "unat (inst_rD i) < 32" "unat (inst_rA i) < 32" "unat (inst_rS i) < 32" "unat (inst_rB i) < 32"
    "unat (inst_rC i) < 32" "unat (inst_crfD i) < 8" "unat (inst_crfS i) < 8" "unat (inst_sr i) < 16"
    "unat (inst_bi i) < 32" "unat (inst_mb i) < 32" "unat (inst_me i) < 32"
  using assms by (simp_all add: wf_fields_def word_less_nat_alt)

section \<open>Rules for the shared parts of the lowerings\<close>

lemma typed_select_c32 [typed_rules]:
  assumes "x \<in> G'" "G \<subseteq> G'"
  shows "runs (typed z f c G') (select_c32 i x k n) (\<lambda>v. typed z f c (insert v G))"
  unfolding select_c32_def Let_def
  by (insert assms, (rule typed_drop typed_value typed_rules subset_refl | assumption | simp add: pure_op_def emit_ok_def field_ranges div_four_bound; fail | rule subset_insertI2)+)

lemma typed_insert_masked [typed_rules]:
  assumes "x \<in> G'" "y \<in> G'" "G \<subseteq> G'"
  shows "runs (typed z f c G') (insert_masked i x y m) (\<lambda>v. typed z f c (insert v G))"
  unfolding insert_masked_def Let_def
  by (insert assms, (rule typed_drop typed_value typed_rules subset_refl | assumption | simp add: pure_op_def emit_ok_def field_ranges div_four_bound; fail | rule subset_insertI2)+)

lemma typed_cr_field [typed_rules]:
  assumes "unat field < 8" "G \<subseteq> G'"
  shows "runs (typed z f c G') (read_cr_field i field) (\<lambda>v. typed z f c (insert v G))"
    and "v \<in> G' \<Longrightarrow> runs (typed z f c G') (write_cr_field i field v) (\<lambda>_. typed z f c G)"
  unfolding read_cr_field_def write_cr_field_def cr_field_slot_def Let_def
  by (insert assms, (rule typed_drop typed_value typed_rules subset_refl | assumption | simp add: pure_op_def emit_ok_def field_ranges div_four_bound; fail | rule subset_insertI2)+)

lemma typed_set_cr_field [typed_rules]:
  assumes "unat field < 8" "x \<in> G'" "y \<in> G'" "G \<subseteq> G'"
  shows "runs (typed z f c G') (set_cr_field i field x y sg) (\<lambda>_. typed z f c G)"
  unfolding set_cr_field_def Let_def
  by (insert assms, (rule typed_drop typed_value typed_rules subset_refl | assumption | simp add: pure_op_def emit_ok_def field_ranges div_four_bound; fail | rule subset_insertI2)+)

lemma typed_set_cr0 [typed_rules]:
  assumes "x \<in> G'" "G \<subseteq> G'"
  shows "runs (typed z f c G') (set_cr0 i x) (\<lambda>_. typed z f c G)"
    and "runs (typed z f c G') (record_if_needed i x) (\<lambda>_. typed z f c G)"
  unfolding set_cr0_def record_if_needed_def Let_def
  by (insert assms, (rule typed_drop typed_value typed_rules subset_refl | assumption | simp add: pure_op_def emit_ok_def field_ranges div_four_bound; fail | rule subset_insertI2)+)

lemma typed_pack [typed_rules]:
  assumes "G \<subseteq> G'"
  shows "runs (typed z f c G') (pack_xer i) (\<lambda>v. typed z f c (insert v G))"
    and "runs (typed z f c G') (xer_ca i) (\<lambda>v. typed z f c (insert v G))"
    and "runs (typed z f c G') (set_cr1_from_fpscr i) (\<lambda>_. typed z f c G)"
    and "runs (typed z f c G') (record_cr1 i) (\<lambda>_. typed z f c G)"
  unfolding pack_xer_def fold_m.simps prod.case xer_ca_def record_cr1_def set_cr1_from_fpscr_def Let_def
  by (insert assms, (rule typed_drop typed_value typed_rules subset_refl | assumption | simp add: pure_op_def emit_ok_def field_ranges div_four_bound; fail | rule subset_insertI2)+)

lemma typed_pack_cr [typed_rules]:
  assumes "G \<subseteq> G'"
  shows "runs (typed z f c G') (pack_cr i) (\<lambda>v. typed z f c (insert v G))"
  unfolding pack_cr_def Let_def
  by (insert assms, (rule typed_drop typed_value typed_rules subset_refl | assumption | simp add: pure_op_def emit_ok_def field_ranges div_four_bound unat_of_nat; fail | rule subset_insertI2)+)

lemma typed_unpack [typed_rules]:
  assumes "x \<in> G'" "G \<subseteq> G'"
  shows "runs (typed z f c G') (unpack_xer i x) (\<lambda>_. typed z f c G)"
    and "runs (typed z f c G') (set_xer_ca i x) (\<lambda>_. typed z f c G)"
  unfolding unpack_xer_def set_xer_ca_def Let_def
  by (insert assms, (rule typed_drop typed_value typed_rules subset_refl | assumption | simp add: pure_op_def emit_ok_def field_ranges div_four_bound; fail | rule subset_insertI2)+)

lemma typed_add_wide [typed_rules]:
  assumes "x \<in> G'" "y \<in> G'" "w = 0 \<or> w \<in> G'" "G \<subseteq> G'"
  shows "runs (typed z f c G') (add_wide_with_carry i x y w) (\<lambda>v. typed z f c (insert v G))"
  unfolding add_wide_with_carry_def Let_def
  by (insert assms, (rule typed_drop typed_value typed_rules subset_refl | assumption | simp add: pure_op_def emit_ok_def field_ranges div_four_bound; fail | rule subset_insertI2)+)

lemma typed_carry [typed_rules]:
  assumes "x \<in> G'" "G \<subseteq> G'"
  shows "runs (typed z f c G') (carry_out i x) (\<lambda>v. typed z f c (insert v G))"
    and "unat r < 32 \<Longrightarrow> runs (typed z f c G') (write_carry_result i r x rec) (\<lambda>_. typed z f c G)"
  unfolding carry_out_def write_carry_result_def Let_def
  by (insert assms, (rule typed_drop typed_value typed_rules subset_refl | assumption | simp add: pure_op_def emit_ok_def field_ranges div_four_bound; fail | rule subset_insertI2)+)

lemma typed_exceptions [typed_rules]:
  assumes "G \<subseteq> G'"
  shows "runs (typed z f c G') (fpscr_updated i) (\<lambda>_. typed z f c G)"
    and "runs (typed z f c G') (require_supervisor i) (\<lambda>_. typed z f c G)"
  unfolding fpscr_updated_def require_supervisor_def Let_def
  by (insert assms, (rule typed_drop typed_value typed_rules subset_refl | assumption | simp add: pure_op_def emit_ok_def field_ranges div_four_bound helper_ok_def; fail | rule subset_insertI2)+)

lemma typed_guest_memory [typed_rules]:
  assumes "x \<in> G'" "G \<subseteq> G'"
  shows "ty \<noteq> DOLIR_TYPE_VOID \<Longrightarrow> runs (typed z f c G') (guest_load_typed i x ty w sg) (\<lambda>v. typed z f c (insert v G))"
    and "runs (typed z f c G') (guest_load i x w sg) (\<lambda>v. typed z f c (insert v G))"
    and "y \<in> G' \<Longrightarrow> runs (typed z f c G') (guest_store i x y w) (\<lambda>_. typed z f c G)"
  unfolding guest_load_typed_def guest_load_def guest_store_def Let_def
  by (insert assms, (rule typed_drop typed_value typed_rules subset_refl | assumption | simp add: pure_op_def emit_ok_def field_ranges div_four_bound; fail | rule subset_insertI2)+)

lemma typed_address [typed_rules]:
  assumes "wf_fields i" "G \<subseteq> G'"
  shows "runs (typed z f c G') (effective_address i indexed update) (\<lambda>v. typed z f c (insert v G))"
  unfolding effective_address_def Let_def
  by (insert assms, (rule typed_drop typed_value typed_rules subset_refl | assumption | simp add: pure_op_def emit_ok_def field_ranges div_four_bound; fail | rule subset_insertI2)+)

lemma typed_vector_lane [typed_rules]:
  assumes "x \<in> G'" "G \<subseteq> G'"
  shows "runs (typed z f c G') (vector_lane i x k) (\<lambda>v. typed z f c (insert v G))"
  unfolding vector_lane_def Let_def
  by (insert assms, (rule typed_drop typed_value typed_rules subset_refl | assumption | simp add: pure_op_def emit_ok_def field_ranges div_four_bound; fail | rule subset_insertI2)+)

lemma typed_pairs [typed_rules]:
  assumes "unat r < 32" "G \<subseteq> G'"
  shows "runs (typed z f c G') (pair_value i r) (\<lambda>v. typed z f c (insert v G))"
    and "x \<in> G' \<Longrightarrow> runs (typed z f c G') (set_pair i r x) (\<lambda>_. typed z f c G)"
  unfolding pair_value_def set_pair_def Let_def
  by (insert assms, (rule typed_drop typed_value typed_rules subset_refl | assumption | simp add: pure_op_def emit_ok_def field_ranges div_four_bound; fail | rule subset_insertI2)+)

lemma typed_condition [typed_rules]:
  assumes "wf_fields i" "G \<subseteq> G'"
  shows "runs (typed z f c G') (branch_condition i) (\<lambda>v. typed z f c (insert v G))"
  unfolding branch_condition_def Let_def
  by (insert assms, (rule typed_drop typed_value typed_rules subset_refl | assumption | simp add: pure_op_def emit_ok_def field_ranges div_four_bound; fail | rule subset_insertI2)+)

section \<open>Rules for the lowerings\<close>

lemma typed_trap_condition [typed_rules]:
  assumes "x \<in> G'" "y \<in> G'" "G \<subseteq> G'"
  shows "runs (typed z f c G') (trap_condition i x y) (\<lambda>v. typed z f c (insert v G))"
  unfolding trap_condition_def fold_m.simps prod.case Let_def
  by (insert assms, (rule typed_drop typed_value typed_rules subset_refl | assumption | simp add: pure_op_def emit_ok_def field_ranges div_four_bound; fail | rule subset_insertI2)+)

lemma typed_trap [typed_rules]:
  assumes "wf_fields i" "G \<subseteq> G'"
  shows "runs (typed z f c G') (lower_trap i) (\<lambda>_. typed z f c G)"
  unfolding lower_trap_def Let_def
  by (insert assms, (rule typed_drop typed_value typed_rules subset_refl | assumption | simp add: pure_op_def emit_ok_def field_ranges div_four_bound helper_ok_def; fail | rule subset_insertI2)+)

lemma typed_mulli [typed_rules]:
  assumes "wf_fields i" "G \<subseteq> G'"
  shows "runs (typed z f c G') (lower_mulli i) (\<lambda>_. typed z f c G)"
  unfolding lower_mulli_def Let_def
  by (insert assms, (rule typed_drop typed_value typed_rules subset_refl | assumption | simp add: pure_op_def emit_ok_def field_ranges div_four_bound; fail | rule subset_insertI2)+)

lemma typed_subfic [typed_rules]:
  assumes "wf_fields i" "G \<subseteq> G'"
  shows "runs (typed z f c G') (lower_subfic i) (\<lambda>_. typed z f c G)"
  unfolding lower_subfic_def Let_def
  by (insert assms, (rule typed_drop typed_value typed_rules subset_refl | assumption | simp add: pure_op_def emit_ok_def field_ranges div_four_bound; fail | rule subset_insertI2)+)

lemma typed_addic [typed_rules]:
  assumes "wf_fields i" "G \<subseteq> G'"
  shows "runs (typed z f c G') (lower_addic i) (\<lambda>_. typed z f c G)"
  unfolding lower_addic_def Let_def
  by (insert assms, (rule typed_drop typed_value typed_rules subset_refl | assumption | simp add: pure_op_def emit_ok_def field_ranges div_four_bound; fail | rule subset_insertI2)+)

lemma typed_addi [typed_rules]:
  assumes "wf_fields i" "G \<subseteq> G'"
  shows "runs (typed z f c G') (lower_addi i) (\<lambda>_. typed z f c G)"
  unfolding lower_addi_def Let_def
  by (insert assms, (rule typed_drop typed_value typed_rules subset_refl | assumption | simp add: pure_op_def emit_ok_def field_ranges div_four_bound; fail | rule subset_insertI2)+)

lemma typed_logical_imm [typed_rules]:
  assumes "wf_fields i" "G \<subseteq> G'"
  shows "runs (typed z f c G') (lower_logical_imm i) (\<lambda>_. typed z f c G)"
  unfolding lower_logical_imm_def Let_def
  by (insert assms, (rule typed_drop typed_value typed_rules subset_refl | assumption | simp add: pure_op_def emit_ok_def field_ranges div_four_bound; fail | rule subset_insertI2)+)

lemma typed_compare [typed_rules]:
  assumes "wf_fields i" "G \<subseteq> G'"
  shows "runs (typed z f c G') (lower_compare i) (\<lambda>_. typed z f c G)"
  unfolding lower_compare_def Let_def
  by (insert assms, (rule typed_drop typed_value typed_rules subset_refl | assumption | simp add: pure_op_def emit_ok_def field_ranges div_four_bound; fail | rule subset_insertI2)+)

lemma typed_add [typed_rules]:
  assumes "wf_fields i" "G \<subseteq> G'"
  shows "runs (typed z f c G') (lower_add i) (\<lambda>_. typed z f c G)"
  unfolding lower_add_def Let_def
  by (insert assms, (rule typed_drop typed_value typed_rules subset_refl | assumption | simp add: pure_op_def emit_ok_def field_ranges div_four_bound; fail | rule subset_insertI2)+)

lemma typed_subf [typed_rules]:
  assumes "wf_fields i" "G \<subseteq> G'"
  shows "runs (typed z f c G') (lower_subf i) (\<lambda>_. typed z f c G)"
  unfolding lower_subf_def Let_def
  by (insert assms, (rule typed_drop typed_value typed_rules subset_refl | assumption | simp add: pure_op_def emit_ok_def field_ranges div_four_bound; fail | rule subset_insertI2)+)

lemma typed_neg [typed_rules]:
  assumes "wf_fields i" "G \<subseteq> G'"
  shows "runs (typed z f c G') (lower_neg i) (\<lambda>_. typed z f c G)"
  unfolding lower_neg_def Let_def
  by (insert assms, (rule typed_drop typed_value typed_rules subset_refl | assumption | simp add: pure_op_def emit_ok_def field_ranges div_four_bound; fail | rule subset_insertI2)+)

lemma typed_extended [typed_rules]:
  assumes "wf_fields i" "G \<subseteq> G'"
  shows "runs (typed z f c G') (lower_extended i) (\<lambda>_. typed z f c G)"
  unfolding lower_extended_def Let_def
  by (insert assms, (rule typed_drop typed_value typed_rules subset_refl | assumption | simp add: pure_op_def emit_ok_def field_ranges div_four_bound; fail | rule subset_insertI2)+)

lemma typed_logical [typed_rules]:
  assumes "wf_fields i" "G \<subseteq> G'"
  shows "runs (typed z f c G') (lower_logical i) (\<lambda>_. typed z f c G)"
  unfolding lower_logical_def Let_def
  by (insert assms, (rule typed_drop typed_value typed_rules subset_refl | assumption | simp add: pure_op_def emit_ok_def field_ranges div_four_bound; fail | rule subset_insertI2)+)

lemma typed_exts [typed_rules]:
  assumes "wf_fields i" "G \<subseteq> G'"
  shows "runs (typed z f c G') (lower_exts i) (\<lambda>_. typed z f c G)"
  unfolding lower_exts_def Let_def
  by (insert assms, (rule typed_drop typed_value typed_rules subset_refl | assumption | simp add: pure_op_def emit_ok_def field_ranges div_four_bound; fail | rule subset_insertI2)+)

lemma typed_cntlzw [typed_rules]:
  assumes "wf_fields i" "G \<subseteq> G'"
  shows "runs (typed z f c G') (lower_cntlzw i) (\<lambda>_. typed z f c G)"
  unfolding lower_cntlzw_def Let_def
  by (insert assms, (rule typed_drop typed_value typed_rules subset_refl | assumption | simp add: pure_op_def emit_ok_def field_ranges div_four_bound; fail | rule subset_insertI2)+)

lemma typed_shift [typed_rules]:
  assumes "wf_fields i" "G \<subseteq> G'"
  shows "runs (typed z f c G') (lower_shift i) (\<lambda>_. typed z f c G)"
  unfolding lower_shift_def Let_def
  by (insert assms, (rule typed_drop typed_value typed_rules subset_refl | assumption | simp add: pure_op_def emit_ok_def field_ranges div_four_bound; fail | rule subset_insertI2)+)

lemma typed_sraw [typed_rules]:
  assumes "wf_fields i" "G \<subseteq> G'"
  shows "runs (typed z f c G') (lower_sraw i) (\<lambda>_. typed z f c G)"
  unfolding lower_sraw_def Let_def
  by (insert assms, (rule typed_drop typed_value typed_rules subset_refl | assumption | simp add: pure_op_def emit_ok_def field_ranges div_four_bound; fail | rule subset_insertI2)+)

lemma typed_mul [typed_rules]:
  assumes "wf_fields i" "G \<subseteq> G'"
  shows "runs (typed z f c G') (lower_mul i) (\<lambda>_. typed z f c G)"
  unfolding lower_mul_def Let_def
  by (insert assms, (rule typed_drop typed_value typed_rules subset_refl | assumption | simp add: pure_op_def emit_ok_def field_ranges div_four_bound; fail | rule subset_insertI2)+)

lemma typed_div [typed_rules]:
  assumes "wf_fields i" "G \<subseteq> G'"
  shows "runs (typed z f c G') (lower_div i) (\<lambda>_. typed z f c G)"
  unfolding lower_div_def Let_def
  by (insert assms, (rule typed_drop typed_value typed_rules subset_refl | assumption | simp add: pure_op_def emit_ok_def field_ranges div_four_bound; fail | rule subset_insertI2)+)

lemma typed_simple_memory [typed_rules]:
  assumes "wf_fields i" "G \<subseteq> G'"
  shows "runs (typed z f c G') (lower_simple_memory i form) (\<lambda>_. typed z f c G)"
  unfolding lower_simple_memory_def split_beta Let_def
  by (insert assms, (rule typed_drop typed_value typed_rules subset_refl | assumption | simp add: pure_op_def emit_ok_def field_ranges div_four_bound; fail | rule subset_insertI2)+)

lemma typed_multiple [typed_rules]:
  assumes "wf_fields i" "G \<subseteq> G'"
  shows "runs (typed z f c G') (lower_multiple i) (\<lambda>_. typed z f c G)"
  unfolding lower_multiple_def Let_def
  by (insert assms, (rule typed_drop typed_value typed_rules subset_refl | assumption | simp add: pure_op_def emit_ok_def field_ranges div_four_bound unat_of_nat; fail | rule subset_insertI2)+)

lemma typed_lwarx [typed_rules]:
  assumes "wf_fields i" "G \<subseteq> G'"
  shows "runs (typed z f c G') (lower_lwarx i) (\<lambda>_. typed z f c G)"
  unfolding lower_lwarx_def Let_def
  by (insert assms, (rule typed_drop typed_value typed_rules subset_refl | assumption | simp add: pure_op_def emit_ok_def field_ranges div_four_bound; fail | rule subset_insertI2)+)

lemma typed_stwcx [typed_rules]:
  assumes "wf_fields i" "G \<subseteq> G'"
  shows "runs (typed z f c G') (lower_stwcx i) (\<lambda>_. typed z f c G)"
  unfolding lower_stwcx_def Let_def
  by (insert assms, (rule typed_drop typed_value typed_rules subset_refl | assumption | simp add: pure_op_def emit_ok_def field_ranges div_four_bound helper_ok_def; fail | rule subset_insertI2)+)

lemma typed_dcbz [typed_rules]:
  assumes "wf_fields i" "G \<subseteq> G'"
  shows "runs (typed z f c G') (lower_dcbz i) (\<lambda>_. typed z f c G)"
  unfolding lower_dcbz_def Let_def
  by (insert assms, (rule typed_drop typed_value typed_rules subset_refl | assumption | simp add: pure_op_def emit_ok_def field_ranges div_four_bound; fail | rule subset_insertI2)+)

lemma typed_lswx [typed_rules]:
  assumes "wf_fields i" "G \<subseteq> G'"
  shows "runs (typed z f c G') (lower_lswx i) (\<lambda>_. typed z f c G)"
  unfolding lower_lswx_def Let_def
  by (insert assms, (rule typed_drop typed_value typed_rules subset_refl | assumption | simp add: pure_op_def emit_ok_def field_ranges div_four_bound helper_ok_def; fail | rule subset_insertI2)+)

lemma typed_dcbz_l [typed_rules]:
  assumes "wf_fields i" "G \<subseteq> G'"
  shows "runs (typed z f c G') (lower_dcbz_l i) (\<lambda>_. typed z f c G)"
  unfolding lower_dcbz_l_def Let_def
  by (insert assms, (rule typed_drop typed_value typed_rules subset_refl | assumption | simp add: pure_op_def emit_ok_def field_ranges div_four_bound helper_ok_def; fail | rule subset_insertI2)+)

lemma typed_cache_control [typed_rules]:
  assumes "wf_fields i" "G \<subseteq> G'"
  shows "runs (typed z f c G') (lower_cache_control i) (\<lambda>_. typed z f c G)"
  unfolding lower_cache_control_def Let_def
  by (insert assms, (rule typed_drop typed_value typed_rules subset_refl | assumption | simp add: pure_op_def emit_ok_def field_ranges div_four_bound helper_ok_def; fail | rule subset_insertI2)+)

lemma typed_stfiwx [typed_rules]:
  assumes "wf_fields i" "G \<subseteq> G'"
  shows "runs (typed z f c G') (lower_stfiwx i) (\<lambda>_. typed z f c G)"
  unfolding lower_stfiwx_def Let_def
  by (insert assms, (rule typed_drop typed_value typed_rules subset_refl | assumption | simp add: pure_op_def emit_ok_def field_ranges div_four_bound; fail | rule subset_insertI2)+)

lemma typed_float_access [typed_rules]:
  assumes "wf_fields i" "G \<subseteq> G'"
  shows "runs (typed z f c G') (lower_float_access i form) (\<lambda>_. typed z f c G)"
  unfolding lower_float_access_def split_beta Let_def
  by (insert assms, (rule typed_drop typed_value typed_rules subset_refl | assumption | simp add: pure_op_def emit_ok_def field_ranges div_four_bound; fail | rule subset_insertI2)+)

lemma typed_mtfsb [typed_rules]:
  assumes "wf_fields i" "G \<subseteq> G'"
  shows "runs (typed z f c G') (lower_mtfsb i) (\<lambda>_. typed z f c G)"
  unfolding lower_mtfsb_def Let_def
  by (insert assms, (rule typed_drop typed_value typed_rules subset_refl | assumption | simp add: pure_op_def emit_ok_def field_ranges div_four_bound helper_ok_def; fail | rule subset_insertI2)+)

lemma typed_mffs [typed_rules]:
  assumes "wf_fields i" "G \<subseteq> G'"
  shows "runs (typed z f c G') (lower_mffs i) (\<lambda>_. typed z f c G)"
  unfolding lower_mffs_def Let_def
  by (insert assms, (rule typed_drop typed_value typed_rules subset_refl | assumption | simp add: pure_op_def emit_ok_def field_ranges div_four_bound; fail | rule subset_insertI2)+)

lemma typed_mcrfs [typed_rules]:
  assumes "wf_fields i" "G \<subseteq> G'"
  shows "runs (typed z f c G') (lower_mcrfs i) (\<lambda>_. typed z f c G)"
  unfolding lower_mcrfs_def Let_def
  by (insert assms, (rule typed_drop typed_value typed_rules subset_refl | assumption | simp add: pure_op_def emit_ok_def field_ranges div_four_bound; fail | rule subset_insertI2)+)

lemma typed_mtfsfi [typed_rules]:
  assumes "wf_fields i" "G \<subseteq> G'"
  shows "runs (typed z f c G') (lower_mtfsfi i) (\<lambda>_. typed z f c G)"
  unfolding lower_mtfsfi_def Let_def
  by (insert assms, (rule typed_drop typed_value typed_rules subset_refl | assumption | simp add: pure_op_def emit_ok_def field_ranges div_four_bound; fail | rule subset_insertI2)+)

lemma typed_mtfsf [typed_rules]:
  assumes "wf_fields i" "G \<subseteq> G'"
  shows "runs (typed z f c G') (lower_mtfsf i) (\<lambda>_. typed z f c G)"
  unfolding lower_mtfsf_def Let_def
  by (insert assms, (rule typed_drop typed_value typed_rules subset_refl | assumption | simp add: pure_op_def emit_ok_def field_ranges div_four_bound; fail | rule subset_insertI2)+)

lemma typed_mtcrf [typed_rules]:
  assumes "wf_fields i" "G \<subseteq> G'"
  shows "runs (typed z f c G') (lower_mtcrf i) (\<lambda>_. typed z f c G)"
  unfolding lower_mtcrf_def Let_def
  by (insert assms, (rule typed_drop typed_value typed_rules subset_refl | assumption | simp add: pure_op_def emit_ok_def field_ranges div_four_bound unat_of_nat; fail | rule subset_insertI2)+)

lemma typed_mcrf [typed_rules]:
  assumes "wf_fields i" "G \<subseteq> G'"
  shows "runs (typed z f c G') (lower_mcrf i) (\<lambda>_. typed z f c G)"
  unfolding lower_mcrf_def Let_def
  by (insert assms, (rule typed_drop typed_value typed_rules subset_refl | assumption | simp add: pure_op_def emit_ok_def field_ranges div_four_bound; fail | rule subset_insertI2)+)

lemma typed_mcrxr [typed_rules]:
  assumes "wf_fields i" "G \<subseteq> G'"
  shows "runs (typed z f c G') (lower_mcrxr i) (\<lambda>_. typed z f c G)"
  unfolding lower_mcrxr_def shifted_flag_def clear_flag_def Let_def
  by (insert assms, (rule typed_drop typed_value typed_rules subset_refl | assumption | simp add: pure_op_def emit_ok_def field_ranges div_four_bound; fail | rule subset_insertI2)+)

lemma typed_cr_logical [typed_rules]:
  assumes "wf_fields i" "G \<subseteq> G'"
  shows "runs (typed z f c G') (lower_cr_logical i) (\<lambda>_. typed z f c G)"
  unfolding lower_cr_logical_def cr_bit_def Let_def
  by (insert assms, (rule typed_drop typed_value typed_rules subset_refl | assumption | simp add: pure_op_def emit_ok_def field_ranges div_four_bound; fail | rule subset_insertI2)+)

lemma typed_mfsrin [typed_rules]:
  assumes "wf_fields i" "G \<subseteq> G'"
  shows "runs (typed z f c G') (lower_mfsrin i) (\<lambda>_. typed z f c G)"
  unfolding lower_mfsrin_def sr_index_def index_is_def Let_def
  by (insert assms, (rule typed_drop typed_value typed_rules subset_refl | assumption | simp add: pure_op_def emit_ok_def field_ranges div_four_bound; fail | rule subset_insertI2)+)

lemma typed_mtsrin [typed_rules]:
  assumes "wf_fields i" "G \<subseteq> G'"
  shows "runs (typed z f c G') (lower_mtsrin i) (\<lambda>_. typed z f c G)"
  unfolding lower_mtsrin_def sr_index_def index_is_def Let_def
  by (insert assms, (rule typed_drop typed_value typed_rules subset_refl | assumption | simp add: pure_op_def emit_ok_def field_ranges div_four_bound; fail | rule subset_insertI2)+)

lemma typed_mftb [typed_rules]:
  assumes "wf_fields i" "G \<subseteq> G'"
  shows "runs (typed z f c G') (lower_mftb i) (\<lambda>_. typed z f c G)"
  unfolding lower_mftb_def spr_read_helper_def timebase_read_helper_def Let_def
  by (insert assms, (rule typed_drop typed_value typed_rules subset_refl | assumption | simp add: pure_op_def emit_ok_def field_ranges div_four_bound helper_ok_def; fail | rule subset_insertI2)+)

lemma typed_tlbie [typed_rules]:
  assumes "wf_fields i" "G \<subseteq> G'"
  shows "runs (typed z f c G') (lower_tlbie i) (\<lambda>_. typed z f c G)"
  unfolding lower_tlbie_def Let_def
  by (insert assms, (rule typed_drop typed_value typed_rules subset_refl | assumption | simp add: pure_op_def emit_ok_def field_ranges div_four_bound helper_ok_def; fail | rule subset_insertI2)+)

lemma typed_fence [typed_rules]:
  assumes "wf_fields i" "G \<subseteq> G'"
  shows "runs (typed z f c G') (lower_fence i) (\<lambda>_. typed z f c G)"
  unfolding lower_fence_def Let_def
  by (insert assms, (rule typed_drop typed_value typed_rules subset_refl | assumption | simp add: pure_op_def emit_ok_def field_ranges div_four_bound helper_ok_def; fail | rule subset_insertI2)+)

lemma typed_paired_moves [typed_rules]:
  assumes "wf_fields i" "G \<subseteq> G'"
  shows "runs (typed z f c G') (paired_merge i) (\<lambda>v. typed z f c (insert v G))"
    and "{a, b, d, e} \<subseteq> G' \<Longrightarrow> runs (typed z f c G') (paired_sel_lane i a b d e k) (\<lambda>v. typed z f c (insert v G))"
  unfolding paired_merge_def paired_sel_lane_def Let_def
  by (insert assms, (rule typed_drop typed_value typed_rules subset_refl | assumption | simp add: pure_op_def emit_ok_def field_ranges div_four_bound; fail | rule subset_insertI2)+)

lemma typed_paired_sel [typed_rules]:
  assumes "wf_fields i" "G \<subseteq> G'"
  shows "runs (typed z f c G') (paired_sel i) (\<lambda>v. typed z f c (insert v G))"
  unfolding paired_sel_def Let_def
  by (insert assms, (rule typed_drop typed_value typed_rules subset_refl | assumption | simp add: pure_op_def emit_ok_def field_ranges div_four_bound; fail | rule subset_insertI2)+)

lemma rotate_mask_total: "unat mb < 32 \<Longrightarrow> unat me < 32 \<Longrightarrow> \<exists>m. ppc_mask32 mb me = Some m"
  using ppc_mask32_bits [of mb me] by blast

lemma typed_rotate [typed_rules]:
  assumes "wf_fields i" "G \<subseteq> G'"
  shows "runs (typed z f c G') (lower_rotate i) (\<lambda>_. typed z f c G)"
proof -
  obtain m where m: "ppc_mask32 (inst_mb i) (inst_me i) = Some m"
    using rotate_mask_total field_ranges [OF assms(1)] by blast
  show ?thesis
    unfolding lower_rotate_def
    by (insert assms m, (rule typed_drop typed_value typed_rules subset_refl | assumption | simp add: pure_op_def emit_ok_def field_ranges; fail | rule subset_insertI2)+)
qed

lemma typed_external [typed_rules]:
  assumes "wf_fields i" "G \<subseteq> G'"
  shows "runs (typed z f c G') (lower_external i) (\<lambda>_. typed z f c G)"
  by (cases "inst_op i = PPC_OP_ECIWX"; cases "inst_op i = PPC_OP_ECOWX"; simp add: lower_external_def;
    insert assms, (rule typed_drop typed_value typed_rules subset_refl | assumption | simp add: pure_op_def emit_ok_def field_ranges helper_ok_def; fail | rule subset_insertI2)+)

lemma desc_byte_eqI:
  assumes "\<And>k. k < 8 \<Longrightarrow> bit w (n + k) = bit x k"
  shows "desc_byte w n = unat (x :: u8)"
proof -
  have m: "(0xFF :: u64) = mask 8" by (simp add: mask_numeral)
  have "shr w n AND 0xFF = (ucast x :: u64)"
    unfolding m by (rule bit_word_eqI) (use assms bit_imp_le_length [of x] in \<open>auto simp: bit_simps\<close>)
  then show ?thesis
    by (simp add: desc_byte_def unsigned_ucast_eq take_bit_nat_eq_self less_le_trans [OF unsigned_less])
qed

lemma descriptor_ok_pieces:
  assumes "unat d < 32" "unat a < 32" "unat b < 32" "unat c < 32" "unat r < 8" "e < 256"
  shows "descriptor_ok (e OR shl (ucast (d :: u8)) 8 OR shl (ucast (a :: u8)) 16 OR shl (ucast (b :: u8)) 24 OR
      shl (ucast (c :: u8)) 32 OR shl (ucast (r :: u8)) 40)" (is "descriptor_ok ?w")
proof -
  have e: "\<not> bit e k" if "8 \<le> k" for k
  proof -
    have "unat (take_bit 8 e) = unat e"
      using assms(6) by (simp add: unsigned_take_bit_eq take_bit_nat_eq_self word_less_nat_alt)
    then have "take_bit 8 e = e" by (simp add: word_unat_eq_iff)
    then show ?thesis using that by (metis bit_take_bit_iff not_le)
  qed
  note l = bit_imp_le_length
  have "desc_byte ?w 8 = unat d" "desc_byte ?w 16 = unat a" "desc_byte ?w 24 = unat b"
    "desc_byte ?w 32 = unat c" "desc_byte ?w 40 = unat r"
    by (rule desc_byte_eqI, auto simp: bit_simps e dest: l)+
  with assms(1-5) show ?thesis by (simp add: descriptor_ok_def)
qed

lemma psq_descriptor_ok:
  assumes "wf_fields i"
  shows "unat (psq_descriptor i load indexed AND 0xFF) < 32"
proof -
  have "desc_byte (psq_descriptor i load indexed) 0 = unat (if load then inst_rD i else inst_rS i)"
    unfolding psq_descriptor_def
    by (rule desc_byte_eqI) (auto simp: bit_simps dest: bit_imp_le_length)
  then show ?thesis
    using field_ranges [OF assms] by (simp add: desc_byte_def split: if_splits)
qed

lemma helper_ok_psq: "wf_fields i \<Longrightarrow> helper_ok (if load then DOLIR_HELPER_PSQ_LOAD else DOLIR_HELPER_PSQ_STORE) (psq_descriptor i load indexed)"
  by (simp add: helper_ok_def psq_descriptor_ok)

lemma helper_ok_exact: "wf_fields i \<Longrightarrow> e < 256 \<Longrightarrow> helper_ok h (exact_descriptor i e)" if "h \<noteq> DOLIR_HELPER_PSQ_LOAD" "h \<noteq> DOLIR_HELPER_PSQ_STORE"
  using that by (simp add: helper_ok_def exact_descriptor_def descriptor_ok_pieces field_ranges)

lemma exact_ops_small:
  "exact_float_op op = Some e \<Longrightarrow> e < 256" "exact_paired_op op = Some e \<Longrightarrow> e < 256"
proof -
  have "pred_option (\<lambda>e. e < 256) (exact_float_op op)"
    unfolding exact_float_op_def by (rule switch_all_at [where P = "\<lambda>_. pred_option (\<lambda>e. e < 256)"]; simp)
  moreover have "pred_option (\<lambda>e. e < 256) (exact_paired_op op)"
    unfolding exact_paired_op_def by (rule switch_all_at [where P = "\<lambda>_. pred_option (\<lambda>e. e < 256)"]; simp)
  ultimately show "exact_float_op op = Some e \<Longrightarrow> e < 256" "exact_paired_op op = Some e \<Longrightarrow> e < 256"
    by simp_all
qed

lemma typed_exact [typed_rules]:
  assumes "wf_fields i" "e < 256" "h \<noteq> DOLIR_HELPER_PSQ_LOAD" "h \<noteq> DOLIR_HELPER_PSQ_STORE" "G \<subseteq> G'"
  shows "runs (typed z f c G') (emit_exact i e h) (\<lambda>_. typed z f c G)"
  unfolding emit_exact_def
  by (insert assms, (rule typed_drop typed_value typed_rules subset_refl | assumption | simp add: pure_op_def emit_ok_def field_ranges helper_ok_exact; fail | rule subset_insertI2)+)

text \<open>A lowering that may be missing.\<close>

definition typed_choice :: "DolIRValue lowering option \<Rightarrow> bool" where
  "typed_choice x \<longleftrightarrow> (\<forall>m z f c G G'. x = Some m \<longrightarrow> G \<subseteq> G' \<longrightarrow>
     runs (typed z f c G') m (\<lambda>v. typed z f c (insert v G)))"

lemma float_moves:
  assumes "wf_fields i" shows "typed_choice (float_move_value i)"
  unfolding float_move_value_def
  by (rule switch_all_at [where P = "\<lambda>_. typed_choice"]; simp add: typed_choice_def; intro allI impI conjI;
    insert assms, (rule typed_drop typed_value typed_rules subset_refl | assumption | simp add: pure_op_def emit_ok_def field_ranges helper_ok_exact; fail | rule subset_insertI2)+)

lemma paired_moves:
  assumes "wf_fields i" shows "typed_choice (paired_move_value i)"
  unfolding paired_move_value_def
  by (rule switch_in_all [where P = typed_choice]; simp add: typed_choice_def; intro allI impI conjI;
    insert assms, (rule typed_drop typed_value typed_rules subset_refl | assumption | simp add: pure_op_def emit_ok_def field_ranges helper_ok_exact; fail | rule subset_insertI2)+)

lemma typed_choiceD:
  "typed_choice x \<Longrightarrow> x = Some m \<Longrightarrow> G \<subseteq> G' \<Longrightarrow> runs (typed z f c G') m (\<lambda>v. typed z f c (insert v G))"
  by (simp add: typed_choice_def)

lemma typed_psq [typed_rules]:
  assumes "wf_fields i" "G \<subseteq> G'"
  shows "runs (typed z f c G') (lower_psq i) (\<lambda>_. typed z f c G)"
  unfolding lower_psq_def split_beta Let_def
  by (insert assms, (rule typed_drop typed_value typed_rules subset_refl | assumption | simp add: pure_op_def emit_ok_def field_ranges div_four_bound helper_ok_psq; fail | rule subset_insertI2)+)

lemma typed_float [typed_rules]:
  assumes "wf_fields i" "G \<subseteq> G'"
  shows "runs (typed z f c G') (lower_float i) (\<lambda>_. typed z f c G)"
  unfolding lower_float_def switch_in.simps Let_def
  by (insert assms, (rule typed_drop typed_value typed_rules subset_refl | assumption | simp add: pure_op_def emit_ok_def field_ranges div_four_bound exact_ops_small; fail | rule subset_insertI2 | rule typed_choiceD [OF float_moves] typed_choiceD [OF paired_moves])+)

lemma typed_paired [typed_rules]:
  assumes "wf_fields i" "G \<subseteq> G'"
  shows "runs (typed z f c G') (lower_paired i) (\<lambda>_. typed z f c G)"
  unfolding lower_paired_def Let_def
  by (insert assms, (rule typed_drop typed_value typed_rules subset_refl | assumption | simp add: pure_op_def emit_ok_def field_ranges div_four_bound exact_ops_small; fail | rule subset_insertI2 | rule typed_choiceD [OF float_moves] typed_choiceD [OF paired_moves])+)

lemma spr_slot_bound: "spr_slot spr = Some s \<Longrightarrow> s < DOLIR_STATE_COUNT"
  using unat_sub [of 912 spr]
  by (auto simp: spr_slot_def word_le_nat_alt split: if_splits)

lemma sr_slot_bound: "wf_fields i \<Longrightarrow> sr_slot (inst_sr i) < DOLIR_STATE_COUNT"
  using field_ranges(8) [of i] by (simp add: sr_slot_def)

lemma typed_spr_helpers [typed_rules]:
  assumes "G \<subseteq> G'"
  shows "runs (typed z f c G') (spr_read_helper i) (\<lambda>v. typed z f c (insert v G))"
    and "runs (typed z f c G') (timebase_read_helper i) (\<lambda>v. typed z f c (insert v G))"
  unfolding spr_read_helper_def timebase_read_helper_def 
  by (insert assms, (rule typed_drop typed_value typed_rules subset_refl | assumption | simp add: pure_op_def emit_ok_def field_ranges div_four_bound helper_ok_def; fail | rule subset_insertI2)+)

lemma typed_mfspr [typed_rules]:
  assumes "wf_fields i" "G \<subseteq> G'"
  shows "runs (typed z f c G') (lower_mfspr i) (\<lambda>_. typed z f c G)"
  unfolding lower_mfspr_def Let_def
  by (insert assms, (rule typed_drop typed_value typed_rules subset_refl | assumption | simp add: pure_op_def emit_ok_def field_ranges div_four_bound spr_slot_bound; fail | rule subset_insertI2)+)

lemma typed_mttb [typed_rules]:
  assumes "wf_fields i" "G \<subseteq> G'"
  shows "runs (typed z f c G') (lower_mttb i) (\<lambda>_. typed z f c G)"
  by (cases "inst_spr i = 284"; simp add: lower_mttb_def; insert assms, (rule typed_drop typed_value typed_rules subset_refl | assumption | simp add: pure_op_def emit_ok_def field_ranges helper_ok_def; fail | rule subset_insertI2)+)

lemma typed_mtspr [typed_rules]:
  assumes "wf_fields i" "G \<subseteq> G'"
  shows "runs (typed z f c G') (lower_mtspr i) (\<lambda>_. typed z f c G)"
  unfolding lower_mtspr_def Let_def
  by (insert assms, (rule typed_drop typed_value typed_rules subset_refl | assumption | simp add: pure_op_def emit_ok_def field_ranges div_four_bound spr_slot_bound helper_ok_def; fail | rule subset_insertI2)+)

lemma typed_integer [typed_rules]:
  assumes "wf_fields i" "G \<subseteq> G'"
  shows "runs (typed z f c G') (lower_integer i) (\<lambda>_. typed z f c G)"
  unfolding lower_integer_def switch_in.simps Let_def
  by (insert assms, (rule typed_drop typed_value typed_rules subset_refl | assumption | simp add: pure_op_def emit_ok_def field_ranges div_four_bound; fail | rule subset_insertI2)+)

lemma typed_memory [typed_rules]:
  assumes "wf_fields i" "G \<subseteq> G'"
  shows "runs (typed z f c G') (lower_memory i) (\<lambda>_. typed z f c G)"
  unfolding lower_memory_def switch_in.simps Let_def
  by (insert assms, (rule typed_drop typed_value typed_rules subset_refl | assumption | simp add: pure_op_def emit_ok_def field_ranges div_four_bound; fail | rule subset_insertI2)+)

lemma typed_float_memory [typed_rules]:
  assumes "wf_fields i" "G \<subseteq> G'"
  shows "runs (typed z f c G') (lower_float_memory i) (\<lambda>_. typed z f c G)"
  unfolding lower_float_memory_def Let_def
  by (insert assms, (rule typed_drop typed_value typed_rules subset_refl | assumption | simp add: pure_op_def emit_ok_def field_ranges div_four_bound; fail | rule subset_insertI2)+)

lemma typed_state [typed_rules]:
  assumes "wf_fields i" "G \<subseteq> G'"
  shows "runs (typed z f c G') (lower_state i) (\<lambda>_. typed z f c G)"
  unfolding lower_state_def switch_in.simps Let_def
  by (insert assms, (rule typed_drop typed_value typed_rules subset_refl | assumption | simp add: pure_op_def emit_ok_def field_ranges div_four_bound sr_slot_bound; fail | rule subset_insertI2)+)

lemma typed_or_else [typed_rules]:
  assumes "runs (typed z f c G) m (\<lambda>_. typed z f c G)" "runs (typed z f c G) m' Q" "\<And>b. typed z f c G b \<Longrightarrow> Q True b"
  shows "runs (typed z f c G) (or_else m m') Q"
  unfolding or_else_def by (rule runs_bind [OF assms(1)], rule typed_if, rule runs_ret) (use assms(2,3) in auto)

lemma typed_body:
  assumes "wf_fields i"
  shows "runs (typed z f c G) (lower_body i) (\<lambda>_. typed z f c G)"
  unfolding lower_body_def by (intro typed_or_else; (rule typed_rules)?; use assms in simp)

section \<open>Terminators\<close>

lemma typed_set_term:
  assumes "\<And>t. targets_ok (length (fn_blocks f)) t \<Longrightarrow> targets_ok (length (fn_blocks f)) (upd t)"
  shows "(\<And>t. term_kind t \<noteq> DOLIR_TERM_NONE \<Longrightarrow> term_kind (upd t) \<noteq> DOLIR_TERM_NONE) \<Longrightarrow>
      runs (typed z f c G) (set_term upd) (\<lambda>_. typed z f c G)"
    and "(\<And>t. term_kind (upd t) \<noteq> DOLIR_TERM_NONE) \<Longrightarrow> runs (typed z f c G) (set_term upd) (\<lambda>_. typed z f True G)"
  using assms by (auto simp: runs_def set_term_def typed_def)

lemma typed_close:
  "runs (typed z f c G) m (\<lambda>_. typed z f True G) \<Longrightarrow> runs (typed z f True G) k Q \<Longrightarrow>
   runs (typed z f c G) (m \<bind> (\<lambda>_. k)) Q"
  by (rule runs_bind)

lemma block_for_address_ok:
  "target_ok (length (fn_blocks f)) (case block_for_address f a of Some index \<Rightarrow> index | None \<Rightarrow> DOLIR_NO_BLOCK)"
  by (auto simp: block_for_address_def target_ok_def Let_def)

lemma block_for_address_cong:
  "fn_blocks g = fn_blocks f \<Longrightarrow> fn_guest_start g = fn_guest_start f \<Longrightarrow> fn_guest_end g = fn_guest_end f \<Longrightarrow>
   block_for_address g a = block_for_address f a"
  by (simp add: block_for_address_def)

lemma typed_direct_target:
  "runs (typed z f c G) (direct_target a slot) (\<lambda>_. typed z f c G)"
proof -
  have "runs (\<lambda>b. g = b_function b \<and> typed z f c G b)
      (set_term (\<lambda>t. t\<lparr>term_target_addresses := put_slot slot a (term_target_addresses t),
       term_targets := put_slot slot
         (case block_for_address g a of Some index \<Rightarrow> index | None \<Rightarrow> DOLIR_NO_BLOCK)
         (term_targets t)\<rparr>)) (\<lambda>_. typed z f c G)" for g
  proof (cases "fn_blocks g = fn_blocks f \<and> fn_guest_start g = fn_guest_start f \<and> fn_guest_end g = fn_guest_end f")
    case True
    have "runs (typed z f c G)
        (set_term (\<lambda>t. t\<lparr>term_target_addresses := put_slot slot a (term_target_addresses t),
         term_targets := put_slot slot
           (case block_for_address g a of Some index \<Rightarrow> index | None \<Rightarrow> DOLIR_NO_BLOCK)
           (term_targets t)\<rparr>)) (\<lambda>_. typed z f c G)"
      using block_for_address_ok [of f a] block_for_address_cong [of g f a] True
      by (intro typed_set_term) (simp_all add: targets_ok_def put_slot_def)
    then show ?thesis by (rule runs_pre) simp
  next
    case False
    then show ?thesis by (auto simp: runs_def typed_def)
  qed
  then show ?thesis
    unfolding direct_target_def
    by (intro runs_bind [where R = "\<lambda>g b. g = b_function b \<and> typed z f c G b"]) (simp_all add: runs_def get_function_def)
qed

lemma typed_write_link [typed_rules]:
  assumes "G \<subseteq> G'"
  shows "runs (typed z f c G') (write_link i) (\<lambda>_. typed z f c G)"
  unfolding write_link_def
  by (insert assms, (rule typed_drop typed_value typed_rules subset_refl | assumption | simp; fail | rule subset_insertI2)+)

lemma typed_link_condition:
  assumes "wf_fields i" "\<And>v. runs (typed z f c (insert v G)) (k v) Q"
  shows "runs (typed z f c G) (branch_condition i \<bind> k) Q"
  by (rule typed_value, rule typed_condition, rule assms(1), rule subset_refl, rule assms(2))

lemma typed_done: "runs (typed z f True G) (ret True) (\<lambda>r. typed z f r {})"
  by (auto simp: runs_def intro: typed_weaken)

lemma typed_control:
  assumes "wf_fields i"
  shows "runs (typed z f False {}) (lower_control i) (\<lambda>r. typed z f r {})"
proof -
  note close = typed_close [OF typed_set_term(2)] typed_drop [OF typed_direct_target]
    typed_drop [OF typed_write_link [OF subset_refl]] typed_link_condition [OF assms] typed_done
  have b: "runs (typed z f False {}) (lower_b i) (\<lambda>r. typed z f r {})"
    unfolding lower_b_def by (rule close | simp add: targets_ok_def; fail)+
  have bc: "runs (typed z f False {}) (lower_bc i) (\<lambda>r. typed z f r {})"
    unfolding lower_bc_def by (rule close | simp add: targets_ok_def; fail)+
  have indirect: "runs (typed z f False {}) (lower_indirect i) (\<lambda>r. typed z f r {})"
    unfolding lower_indirect_def
    by ((rule typed_link_condition [OF assms] typed_done typed_drop [OF typed_direct_target]
          typed_drop [OF typed_write_link [OF subset_refl]] |
        (rule typed_close [OF typed_set_term(2)], simp add: targets_ok_def, (simp; fail)) |
        (rule typed_drop [OF typed_set_term(1)], simp add: targets_ok_def, simp) |
        rule typed_value typed_rules subset_refl | simp add: pure_op_def; fail)+)
  show ?thesis
    unfolding lower_control_def switch_in.simps
    by (rule typed_if b bc indirect close | simp add: targets_ok_def runs_def; fail)+
qed

lemma typed_instruction:
  assumes "wf_fields i" "n < length (fn_blocks f)"
  shows "runs (typed z f False {}) (lower_instruction i n (length (fn_blocks f))) (\<lambda>_. typed z f True {})"
proof -
  have fallback: "runs (typed z f c G) (set_fallback i) (\<lambda>_. typed z f True G)" for c G
    unfolding set_fallback_def by (rule typed_set_term(2)) (simp_all add: targets_ok_def)
  have of_nat_small: "n + 1 < length (fn_blocks f) \<Longrightarrow> unat (of_nat (n + 1) :: u32) < length (fn_blocks f)"
    using mod_less_eq_dividend [of "n + 1" "2 ^ 32"] by (simp add: unat_of_nat del: of_nat_Suc of_nat_add)
  have fall: "runs (typed z f c G) (normal_fallthrough i n (length (fn_blocks f))) (\<lambda>_. typed z f True G)" for c G
    unfolding normal_fallthrough_def
    using of_nat_small by (intro typed_set_term(2)) (auto simp: targets_ok_def target_ok_def)
  have cost: "runs (typed z f c G) (set_cost i) (\<lambda>_. typed z f c G)" for c G
    by (simp add: runs_def set_cost_def typed_def)
  show ?thesis
    unfolding lower_instruction_def
  proof (rule typed_drop [OF cost], rule typed_if)
    show "runs (typed z f False {}) (set_fallback i) (\<lambda>_. typed z f True {})"
      by (rule fallback)
  next
    let ?rest = "lower_control i \<bind> (\<lambda>control. if control then ret () else lower_body i \<bind>
      (\<lambda>lowered. if lowered then normal_fallthrough i n (length (fn_blocks f)) else set_fallback i))"
    have "runs (typed z f r {}) (if r then ret () else lower_body i \<bind>
        (\<lambda>lowered. if lowered then normal_fallthrough i n (length (fn_blocks f)) else set_fallback i))
      (\<lambda>_. typed z f True {})" for r
      by (rule typed_if, simp add: runs_def, rule runs_bind, rule typed_body [OF assms(1)], rule typed_if,
        rule fall, rule fallback)
    then have rest: "runs (typed z f False {}) ?rest (\<lambda>_. typed z f True {})"
      by (rule runs_bind [OF typed_control [OF assms(1)]])
    show "runs (typed z f False {}) ((if ppc_op_uses_fpu (inst_op i) then
        emit i DOLIR_OP_HELPER_CALL DOLIR_TYPE_I1 [] (ucast (inst_address i)) DOLIR_HELPER_FP_AVAILABLE
            (DOLIR_EFFECT_READ_STATE OR DOLIR_EFFECT_WRITE_STATE OR DOLIR_EFFECT_MAY_EXIT OR
             DOLIR_EFFECT_MAY_RAISE) \<bind> (\<lambda>_. ret ()) else ret ()) \<bind> (\<lambda>_. ?rest)) (\<lambda>_. typed z f True {})"
      by (rule typed_drop [OF _ rest], rule typed_if)
        ((rule typed_drop typed_rules subset_refl | simp add: emit_ok_def helper_ok_def; fail)+)
  qed
qed

end
