(* ===== verification/Agreement.thy ===== *)
theory Agreement
  imports Backends
begin

text \<open>
  The agreement of the back ends lifted from the lowering of one instruction to the block
  \<open>dolir_build_chunk\<close> makes of it (\<open>lower_block\<close>) and to the statements the C emitter prints for it
  (\<open>c_exec\<close>).
\<close>

section \<open>The integer group\<close>

definition agreed_integer_ops :: "PPCOpcode list" where
  "agreed_integer_ops =
     [PPC_OP_MULLI, PPC_OP_SUBFIC, PPC_OP_ADDIC, PPC_OP_ADDIC_DOT, PPC_OP_ADDI, PPC_OP_ADDIS, PPC_OP_ORI,
      PPC_OP_ORIS, PPC_OP_XORI, PPC_OP_XORIS, PPC_OP_ANDI, PPC_OP_ANDIS, PPC_OP_CMPI, PPC_OP_CMPLI, PPC_OP_CMP,
      PPC_OP_CMPL, PPC_OP_ADD, PPC_OP_ADDC, PPC_OP_ADDE, PPC_OP_ADDME, PPC_OP_ADDZE, PPC_OP_SUBF, PPC_OP_SUBFC,
      PPC_OP_SUBFE, PPC_OP_SUBFME, PPC_OP_SUBFZE, PPC_OP_NEG, PPC_OP_MULLW, PPC_OP_MULHW, PPC_OP_MULHWU,
      PPC_OP_DIVW, PPC_OP_DIVWU, PPC_OP_AND, PPC_OP_ANDC, PPC_OP_OR, PPC_OP_ORC, PPC_OP_XOR, PPC_OP_NAND,
      PPC_OP_NOR, PPC_OP_EQV, PPC_OP_EXTSB, PPC_OP_EXTSH, PPC_OP_CNTLZW, PPC_OP_SLW, PPC_OP_SRW, PPC_OP_SRAW,
      PPC_OP_SRAWI, PPC_OP_RLWINM, PPC_OP_RLWNM, PPC_OP_RLWIMI]"

lemmas agree_integer_ops = agree_mulli agree_subfic agree_addic agree_addi agree_addis agree_ori agree_oris agree_xori
  agree_xoris agree_andi agree_andis agree_compare_imm agree_compare agree_neg agree_add agree_addc agree_adde
  agree_subf agree_subfc agree_subfe agree_addze agree_subfze agree_addme agree_subfme agree_and agree_andc
  agree_or agree_orc agree_xor agree_nand agree_nor agree_eqv agree_extsb agree_extsh agree_cntlzw agree_mullw
  agree_mulhw agree_mulhwu agree_slw agree_srw agree_sraw agree_srawi agree_rlwinm agree_rlwnm agree_rlwimi
  agree_divw agree_divwu

lemma agree_integer:
  assumes "wf_fields i" "\<not> inst_oe i" "inst_op i \<in> set agreed_integer_ops"
  shows "\<exists>act. c_integer i = Some act \<and> agree (lower_integer i) act"
  using assms(3) unfolding agreed_integer_ops_def
  by (simp only: list.set insert_iff empty_iff simp_thms, elim disjE;
      simp add: c_integer_def lower_integer_def agree_integer_ops assms(1,2) del: bit.de_Morgan_conj bit.de_Morgan_disj)

lemma integer_ops_plain:
  assumes "inst_op i \<in> set agreed_integer_ops"
  shows "lower_control i = ret False" "\<not> ppc_op_uses_fpu (inst_op i)" "inst_op i \<notin> set float_calls"
  using assms unfolding agreed_integer_ops_def
  by (simp only: list.set insert_iff empty_iff simp_thms, elim disjE;
      simp add: lower_control_def ppc_op_uses_fpu_def float_calls_def)+

section \<open>From a lowering to its block\<close>

lemma runs_or_else: "runs P m (reaches R c') \<Longrightarrow> runs P (or_else m m') (reaches R c')"
  by (fastforce simp: runs_def or_else_def reaches_def split: prod.splits)

lemma or_else_False [simp]: "or_else (ret False) m = m"
  by (simp add: or_else_def)

definition block_start :: "host \<Rightarrow> helper \<Rightarrow> (nat \<Rightarrow> irval) \<Rightarrow> CPUState \<Rightarrow> DolIRFunction \<Rightarrow> lowering_env" where
  "block_start H hp E c f =
     \<lparr>env_host = H, env_helper = hp, env_start = (E, c), env_blocks = fn_blocks f\<rparr>"

text \<open>Block \<open>n\<close> of \<open>count\<close> computes \<open>c'\<close> from \<open>c\<close> and falls through to the next one, if there is one.\<close>

definition block_computes ::
    "host \<Rightarrow> helper \<Rightarrow> (nat \<Rightarrow> irval) \<Rightarrow> CPUState \<Rightarrow> nat \<Rightarrow> nat \<Rightarrow> DolIRBlock \<Rightarrow> CPUState \<Rightarrow> bool" where
  "block_computes H hp E c n count blk c' \<longleftrightarrow>
     (\<exists>E'. ir_run H hp (blk_instructions blk) (E, c) = Some (E', c')) \<and>
     term_kind (blk_terminator blk) = DOLIR_TERM_FALLTHROUGH \<and>
     fst (term_targets (blk_terminator blk)) = (if n + 1 < count then of_nat (n + 1) else DOLIR_NO_BLOCK)"

lemma lower_block_runs:
  assumes "lower_control i = ret False" "\<not> ppc_op_uses_fpu (inst_op i)" "\<not> inst_embedded_data i"
    and run: "runs (holds (block_start H hp E c f) (length (fn_value_types f)) E c) (lower_body i)
      (reaches (block_start H hp E c f) c')"
    and ok: "n < length (fn_blocks f)" "blk_instructions (fn_blocks f ! n) = []" "fn_value_types f \<noteq> []"
      "\<forall>k. allocs h k"
  shows "\<exists>f' h'. lower_block i n count f h = Some (f', h') \<and> n < length (fn_blocks f') \<and>
    block_computes H hp E c n count (fn_blocks f' ! n) c'"
proof -
  let ?b = "\<lparr>b_function = f, b_block = fn_blocks f ! n, b_heap = h, b_undefined = False\<rparr>"
  let ?b1 = "?b\<lparr>b_block := (fn_blocks f ! n)\<lparr>blk_raw := inst_raw i, blk_cycle_cost := dolir_instruction_cycle_cost i\<rparr>\<rparr>"
  have "holds (block_start H hp E c f) (length (fn_value_types f)) E c ?b1"
    using ok by (simp add: holds_def block_start_def)
  then obtain v b2 where b2: "run_state (lower_body i) ?b1 = (v, b2)" "reaches (block_start H hp E c f) c' v b2"
    using run by (fastforce simp: runs_def split: prod.splits)
  have i: "run_state (lower_instruction i n count) ?b = run_state (normal_fallthrough i n count) b2"
    using assms(1-3) b2 by (simp add: lower_instruction_def set_cost_def reaches_def)
  show ?thesis
    using ok(1) b2(2)
    by (auto simp: lower_block_def i arr_get_def arr_set_def reaches_def holds_def block_start_def block_computes_def
      normal_fallthrough_def set_term_def)
qed

lemma agree_block:
  assumes "agree (lower_body i) act" "lower_control i = ret False" "\<not> ppc_op_uses_fpu (inst_op i)"
    and "\<not> inst_embedded_data i" "wf_regs c" "n < length (fn_blocks f)" "blk_instructions (fn_blocks f ! n) = []"
    and "fn_value_types f \<noteq> []" "\<forall>k. allocs h k"
  shows "\<exists>f' h' c'. act c = Some c' \<and> lower_block i n count f h = Some (f', h') \<and> n < length (fn_blocks f') \<and>
    block_computes H hp E c n count (fn_blocks f' ! n) c'"
proof -
  obtain c' where c': "act c = Some c'" "runs (holds (block_start H hp E c f) (length (fn_value_types f)) E c)
      (lower_body i) (reaches (block_start H hp E c f) c')"
    using assms(1,5) unfolding agree_def by blast
  show ?thesis
    using lower_block_runs [OF assms(2-4) c'(2) assms(6-9)] c'(1) by blast
qed

text \<open>A builder ready to fill block \<open>n\<close>: the block is empty and no allocation fails.\<close>

definition block_ready :: "DolIRFunction \<Rightarrow> nat \<Rightarrow> heap \<Rightarrow> bool" where
  "block_ready f n h \<longleftrightarrow> n < length (fn_blocks f) \<and> blk_instructions (fn_blocks f ! n) = [] \<and>
     fn_value_types f \<noteq> [] \<and> (\<forall>k. allocs h k)"

text \<open>A function of one empty block on a heap that never fails.\<close>

definition fresh_function :: DolIRFunction where
  "fresh_function = zero_function\<lparr>fn_value_types := [DOLIR_TYPE_VOID], fn_blocks := [empty_block]\<rparr>"

definition good_heap :: heap where
  "good_heap = \<lparr>allocs = \<lambda>_. True, tick = 0\<rparr>"

lemma fresh_ready: "block_ready fresh_function 0 good_heap"
  by (simp add: block_ready_def fresh_function_def good_heap_def empty_block_def)

section \<open>Properties\<close>

text \<open>C4 The two back ends agree on the fifty integer instructions without an overflow
  bit: on every machine the statements the C emitter prints run to the end, the block
  \<open>dolir_build_chunk\<close> makes of the instruction runs too, falls through, and leaves the machine in
  the same state.\<close>

theorem integer_backends_agree:
  assumes "wf_fields i" "\<not> inst_oe i" "\<not> inst_embedded_data i" "inst_op i \<in> set agreed_integer_ops"
    and "wf_regs c" "block_ready f n h"
  shows "\<exists>f' h' c'. c_exec H x i c = Some (Next, c') \<and> lower_block i n count f h = Some (f', h') \<and>
    block_computes H hp E c n count (fn_blocks f' ! n) c'"
proof -
  obtain act where act: "c_integer i = Some act" "agree (lower_integer i) act"
    using agree_integer [OF assms(1,2,4)] by blast
  note plain = integer_ops_plain [OF assms(4)]
  have "agree (lower_body i) act"
    using act(2) unfolding agree_def lower_body_def by (metis runs_or_else)
  then obtain f' h' c' where "act c = Some c'" "lower_block i n count f h = Some (f', h')"
    "block_computes H hp E c n count (fn_blocks f' ! n) c'"
    using agree_block [OF _ plain(1,2) assms(3,5)] assms(6) unfolding block_ready_def by blast
  then show ?thesis
    using act(1) plain(2,3) assms(3) by (auto simp: c_exec_def)
qed

text \<open>\<open>add. r3,r4,r5\<close>\<close>

theorem integer_backends_agree_witness:
  "\<forall>x hp E. \<exists>f' h' c'. c_exec no_host x (ppc_decode 0x7C642A15 0x80003100) (zero_cpu []) = Some (Next, c') \<and>
    lower_block (ppc_decode 0x7C642A15 0x80003100) 0 1 fresh_function good_heap = Some (f', h') \<and>
    block_computes no_host hp E (zero_cpu []) 0 1 (fn_blocks f' ! 0) c'"
proof -
  have i: "ppc_decode 0x7C642A15 0x80003100 = zero_inst\<lparr>inst_op := PPC_OP_ADD, inst_raw := 0x7C642A15,
      inst_address := 0x80003100, inst_rD := 3, inst_rA := 4, inst_rB := 5, inst_rc := True\<rparr>"
    by code_simp
  have "wf_regs (zero_cpu [])"
    by (simp add: wf_regs_def zero_cpu_def)
  then show ?thesis
    using fresh_ready by (intro allI integer_backends_agree)
      (simp_all add: i zero_inst_def wf_fields_def agreed_integer_ops_def)
qed

end
