(* ===== verification/MemAgreement.thy ===== *)
theory MemAgreement
  imports Agreement
begin

text \<open>
  The agreement of the back ends on guest memory: a locale \<open>load_form\<close> and a locale \<open>store_form\<close> for
  what the two share (width, sign, byte order), proved once inside and interpreted for every access
  of the code.
\<close>

section \<open>Accesses keep the machine sane\<close>

context guest_port begin

lemma load_sane:
  assumes "sane cpu" "host_sane h"
  shows "\<exists>v cpu'. load h cpu a = Some (v, cpu') \<and> sane cpu'"
proof -
  from assms(1) have wf: "wf_mem cpu" by (simp add: sane_def)
  obtain p avail where res: "resolve_addr cpu a = Some (p, avail)"
    using resolve_addr_total [OF wf] by blast
  obtain v cpu' where ld: "load h cpu a = Some (v, cpu')"
    using load_total [OF wf] by blast
  have "sane cpu'"
  proof (cases "p = None \<or> unat avail < width")
    case True
    with ld assms show ?thesis
      by (auto simp: load_miss [OF res] host_sane_def split: option.splits)
  next
    case False
    then obtain r off where "p = Some (r, off)" by auto
    with False ld res assms(1) show ?thesis
      using load_hit [of cpu a r off avail h] by (auto simp: bind_eq_Some_conv)
  qed
  with ld show ?thesis by blast
qed

lemma store_sane:
  assumes "sane cpu" "host_sane h"
  shows "\<exists>cpu'. store h cpu a v = Some cpu' \<and> sane cpu'"
proof -
  from assms(1) have "wf_mem cpu" by (simp add: sane_def)
  then show ?thesis
  proof (cases rule: store_cases [of cpu a v h])
    case (hit r off bs bs')
    then have "sane (stored h cpu a r off (of_nat width) bs')"
      using assms(1) wf_mem_stored [of cpu r bs bs'] wr_length [of bs _ v bs']
      by (simp add: sane_def)
    with hit show ?thesis by blast
  next
    case miss
    then show ?thesis
      using assms by (auto simp: host_sane_def split: option.split)
  qed
qed

end

section \<open>Steps\<close>

lemma step_guest_load:
  assumes "E a = V32 ea" "guest_read (env_host R) c ea DOLIR_TYPE_I32 (ucast width OR (if sign then 0x100 else 0)) = Some (v, c')"
    and "runs (holds R (Suc n) (E(n := v)) c') (f n) Q"
  shows "runs (holds R n E c) (guest_load i a width sign \<bind> f) Q"
  unfolding guest_load_def guest_load_typed_def
  by (rule emit_step [where E' = "E(n := v)" and c' = c']) (use assms in \<open>simp_all add: ir_step_def plain_def\<close>)

lemma step_guest_store:
  assumes "E a = V32 ea" "guest_write (env_host R) c ea (E v) (ucast width) = Some c'"
    and "runs (holds R n E c') (f ()) Q"
  shows "runs (holds R n E c) (guest_store i a v width \<bind> f) Q"
proof -
  have "runs (holds R n E c) (emit i DOLIR_OP_GUEST_STORE DOLIR_TYPE_VOID [a, v] 0 (ucast width)
      (DOLIR_EFFECT_WRITE_MEMORY OR DOLIR_EFFECT_MAY_EXIT) \<bind> (\<lambda>_. f ())) Q"
    by (rule runs_bind_known [OF emit_runs [where E' = E and c' = c']])
      (use assms in \<open>simp_all add: ir_step_def plain_def\<close>)
  then show ?thesis
    unfolding guest_store_def State_Monad.bind_assoc by simp
qed

lemma step_effective_address:
  assumes "emit_ea i indexed update c = Some ea" "0 < n" "unat (inst_rA i) < 32" "unat (inst_rB i) < 32" "length (gpr c) = 32"
    and "\<And>n E k. 0 < k \<Longrightarrow> k < n \<Longrightarrow> E k = V32 ea \<Longrightarrow> runs (holds R n E c) (f k) Q"
  shows "runs (holds R n E c) (effective_address i indexed update \<bind> f) Q"
  using assms(1-5) unfolding effective_address_def
  by (cases indexed; cases "inst_rA i = 0 \<and> \<not> update")
    ((auto simp: emit_ea_def emit_dform_ea_def emit_xform_ea_def machine)[1],
     ((rule steps assms(6) | simp add: ir_eval; fail)+)?)+

section \<open>Loads and stores\<close>

text \<open>Two computations of the machine state agree on every sane machine whose host keeps it sane.\<close>

definition mem_agree :: "bool lowering \<Rightarrow> (host \<Rightarrow> effect) \<Rightarrow> bool" where
  "mem_agree m act \<longleftrightarrow> (\<forall>R n E c. sane c \<longrightarrow> host_sane (env_host R) \<longrightarrow> 0 < n \<longrightarrow>
     (\<exists>c'. act (env_host R) c = Some c' \<and> sane c' \<and> runs (holds R n E c) m (reaches R c')))"

lemma sane_gpr:
  "sane c \<Longrightarrow> length (gpr c) = 32" "sane c \<Longrightarrow> length xs = 32 \<Longrightarrow> sane (c\<lparr>gpr := xs\<rparr>)"
  by (simp_all add: sane_def wf_regs_def wf_mem_def)

lemma emit_ea_total:
  "sane c \<Longrightarrow> wf_fields i \<Longrightarrow> \<exists>ea. emit_ea i indexed update c = Some ea"
  using fields_of_bound [of i] sane_gpr(1) [of c]
  by (simp add: emit_ea_def emit_dform_ea_def emit_xform_ea_def machine)

text \<open>A load the code reads with \<open>read\<close>: the lowering reads with the width and the sign, and
  reverses the bytes of the word it got.\<close>

locale load_form =
  fixes width :: u8 and sign reverse :: bool and raw read :: reader
  assumes raw: "guest_read h c ea DOLIR_TYPE_I32 (ucast width OR (if sign then 0x100 else 0)) =
      map_option (\<lambda>(v, c). (V32 v, c)) (raw h c ea)"
    and read: "read h c ea = map_option (\<lambda>(v, c). (if reverse then bswap32 v else v, c)) (raw h c ea)"
    and raw_sane: "sane c \<Longrightarrow> host_sane h \<Longrightarrow> \<exists>v c'. raw h c ea = Some (v, c') \<and> sane c'"
begin

lemma agrees:
  assumes "wf_fields i"
  shows "mem_agree (lower_simple_memory i (True, width, sign, reverse, indexed, update))
    (\<lambda>h. emit_load h i read indexed update)"
  unfolding mem_agree_def
proof (intro allI impI)
  fix R :: lowering_env and n :: nat and E c
  assume c: "sane c" "host_sane (env_host R)" and n: "0 < n"
  note w = fields_of_bound [OF assms] sane_gpr(1) [OF c(1)]
  obtain ea where ea: "emit_ea i indexed update c = Some ea"
    using emit_ea_total [OF c(1) assms] by blast
  obtain v c1 where v: "raw (env_host R) c ea = Some (v, c1)" "sane c1"
    using raw_sane [OF c] by blast
  let ?v = "if reverse then bswap32 v else v"
  let ?c2 = "c1\<lparr>gpr := (gpr c1)[unat (inst_rD i) := ?v]\<rparr>"
  let ?c' = "if update then ?c2\<lparr>gpr := (gpr ?c2)[unat (inst_rA i) := ea]\<rparr> else ?c2"
  have act: "emit_load (env_host R) i read indexed update c = Some ?c'"
    using w sane_gpr(1) [OF v(2)] ea v(1)
    by (simp add: emit_load_def read emit_update_def machine)
  have "runs (holds R n E c) (lower_simple_memory i (True, width, sign, reverse, indexed, update)) (reaches R ?c')"
    unfolding lower_simple_memory_def prod.case if_True
    using w sane_gpr(1) [OF v(2)] v(1) ea n
    by - ((rule steps step_effective_address step_guest_load | simp add: raw ir_eval; fail)+)
  moreover have "sane ?c'"
    using v(2) sane_gpr(1) [OF v(2)] by (simp add: sane_gpr(2))
  ultimately show "\<exists>c'. emit_load (env_host R) i read indexed update c = Some c' \<and> sane c' \<and>
      runs (holds R n E c) (lower_simple_memory i (True, width, sign, reverse, indexed, update)) (reaches R c')"
    using act by blast
qed

end

locale store_form =
  fixes width :: u8 and reverse :: bool and put :: writer
  assumes put: "guest_write h c ea (V32 (if reverse then bswap32 v else v)) (ucast width) = put h c ea v"
    and put_sane: "sane c \<Longrightarrow> host_sane h \<Longrightarrow> \<exists>c'. put h c ea v = Some c' \<and> sane c'"
begin

lemma agrees:
  assumes "wf_fields i"
  shows "mem_agree (lower_simple_memory i (False, width, sign, reverse, indexed, update))
    (\<lambda>h. emit_store h i put indexed update)"
  unfolding mem_agree_def
proof (intro allI impI)
  fix R :: lowering_env and n :: nat and E c
  assume c: "sane c" "host_sane (env_host R)" and n: "0 < n"
  note w = fields_of_bound [OF assms] sane_gpr(1) [OF c(1)]
  obtain ea where ea: "emit_ea i indexed update c = Some ea"
    using emit_ea_total [OF c(1) assms] by blast
  let ?v = "gpr c ! unat (inst_rS i)"
  obtain c1 where c1: "put (env_host R) c ea ?v = Some c1" "sane c1"
    using put_sane [OF c] by blast
  let ?c' = "if update then c1\<lparr>gpr := (gpr c1)[unat (inst_rA i) := ea]\<rparr> else c1"
  have act: "emit_store (env_host R) i put indexed update c = Some ?c'"
    using w sane_gpr(1) [OF c1(2)] ea c1(1)
    by (simp add: emit_store_def emit_update_def machine)
  have "runs (holds R n E c) (lower_simple_memory i (False, width, sign, reverse, indexed, update)) (reaches R ?c')"
    unfolding lower_simple_memory_def prod.case if_False
    using w sane_gpr(1) [OF c1(2)] c1(1) ea n put [of "env_host R" c ea ?v]
    by - ((rule steps step_effective_address step_guest_store | simp add: ir_eval; fail)+)
  moreover have "sane ?c'"
    using c1(2) sane_gpr(1) [OF c1(2)] by (simp add: sane_gpr(2))
  ultimately show "\<exists>c'. emit_store (env_host R) i put indexed update c = Some c' \<and> sane c' \<and>
      runs (holds R n E c) (lower_simple_memory i (False, width, sign, reverse, indexed, update)) (reaches R c')"
    using act by blast
qed

end

text \<open>The forms of the code.  There is none for the byte-reversed halfwords: the lowering reverses a
  whole word.\<close>

named_theorems access_defs \<open>how the two back ends access guest memory\<close>

lemmas [access_defs] = guest_read_def guest_write_def read_word_def read_byte_def read_half_def
  read_half_signed_def read_word_reversed_def write_word_def write_half_def write_byte_def
  write_word_reversed_def map_conv_bind_option comp_def

interpretation word_load: load_form 4 False False read_word read_word
  by unfold_locales (auto simp: access_defs intro: port32.load_sane split: bind_splits)

interpretation byte_load: load_form 1 False False read_byte read_byte
  by unfold_locales (use port8.load_sane in \<open>fastforce simp: access_defs split: bind_splits\<close>)+

interpretation half_load: load_form 2 False False read_half read_half
  by unfold_locales (use port16.load_sane in \<open>fastforce simp: access_defs split: bind_splits\<close>)+

interpretation half_signed_load: load_form 2 True False read_half_signed read_half_signed
  by unfold_locales (use port16.load_sane in \<open>fastforce simp: access_defs split: bind_splits\<close>)+

interpretation word_reversed_load: load_form 4 False True read_word read_word_reversed
  by unfold_locales (auto simp: access_defs intro: port32.load_sane split: bind_splits)

interpretation word_store: store_form 4 False write_word
  by unfold_locales (auto simp: access_defs intro: port32.store_sane)

interpretation half_store: store_form 2 False write_half
  by unfold_locales (auto simp: access_defs intro: port16.store_sane)

interpretation byte_store: store_form 1 False write_byte
  by unfold_locales (auto simp: access_defs intro: port8.store_sane)

interpretation word_reversed_store: store_form 4 True write_word_reversed
  by unfold_locales (auto simp: access_defs intro: port32.store_sane)

definition agreed_memory_ops :: "PPCOpcode list" where
  "agreed_memory_ops =
     [PPC_OP_LWZ, PPC_OP_LWZU, PPC_OP_LBZ, PPC_OP_LBZU, PPC_OP_LHZ, PPC_OP_LHZU, PPC_OP_LHA, PPC_OP_LHAU,
      PPC_OP_LWZX, PPC_OP_LWZUX, PPC_OP_LBZX, PPC_OP_LBZUX, PPC_OP_LHZX, PPC_OP_LHZUX, PPC_OP_LHAX,
      PPC_OP_LHAUX, PPC_OP_LWBRX, PPC_OP_STW, PPC_OP_STWU, PPC_OP_STB, PPC_OP_STBU, PPC_OP_STH, PPC_OP_STHU,
      PPC_OP_STWX, PPC_OP_STWUX, PPC_OP_STBX, PPC_OP_STBUX, PPC_OP_STHX, PPC_OP_STHUX, PPC_OP_STWBRX]"

lemmas access_agrees = word_load.agrees byte_load.agrees half_load.agrees half_signed_load.agrees
  word_reversed_load.agrees word_store.agrees half_store.agrees byte_store.agrees word_reversed_store.agrees

lemma agree_memory:
  assumes "wf_fields i" "inst_op i \<in> set agreed_memory_ops"
  shows "\<exists>act. (\<forall>h. c_memory h i = Some (act h)) \<and> mem_agree (lower_memory i) act"
proof -
  have "\<exists>form act. memory_form (inst_op i) = Some form \<and> (\<forall>h. c_memory h i = Some (act h)) \<and>
      mem_agree (lower_simple_memory i form) act"
    using assms(2) unfolding agreed_memory_ops_def
    by (simp only: list.set insert_iff empty_iff simp_thms, elim disjE)
      (simp add: memory_form_def c_memory_def; intro exI conjI, (rule allI, rule refl); rule access_agrees [OF assms(1)])+
  then show ?thesis
    by (auto simp: lower_memory_def)
qed

lemma memory_ops_plain:
  assumes "inst_op i \<in> set agreed_memory_ops"
  shows "lower_control i = ret False" "\<not> ppc_op_uses_fpu (inst_op i)" "inst_op i \<notin> set float_calls"
    "lower_integer i = ret False" "c_integer i = None" "c_float i = None"
  using assms unfolding agreed_memory_ops_def
  by (simp only: list.set insert_iff empty_iff simp_thms, elim disjE;
      simp add: lower_control_def ppc_op_uses_fpu_def float_calls_def lower_integer_def c_integer_def c_float_def)+

lemma mem_agree_or_else:
  assumes "mem_agree m act" shows "mem_agree (or_else m m') act"
  using assms runs_or_else unfolding mem_agree_def by metis

lemma mem_agree_block:
  assumes "mem_agree (lower_body i) act" "lower_control i = ret False" "\<not> ppc_op_uses_fpu (inst_op i)"
    and "\<not> inst_embedded_data i" "sane c" "host_sane H" "block_ready f n h"
  shows "\<exists>f' h' c'. act H c = Some c' \<and> sane c' \<and> lower_block i n count f h = Some (f', h') \<and>
    n < length (fn_blocks f') \<and> block_computes H hp E c n count (fn_blocks f' ! n) c'"
proof -
  have H: "host_sane (env_host (block_start H hp E c f))" "env_host (block_start H hp E c f) = H"
    "0 < length (fn_value_types f)"
    using assms(6,7) by (simp_all add: block_start_def block_ready_def)
  then obtain c' where c': "act H c = Some c'" "sane c'"
    "runs (holds (block_start H hp E c f) (length (fn_value_types f)) E c) (lower_body i) (reaches (block_start H hp E c f) c')"
    using assms(1,5) unfolding mem_agree_def by metis
  show ?thesis
    using lower_block_runs [OF assms(2-4) c'(3)] c'(1,2) assms(7) unfolding block_ready_def by blast
qed

section \<open>The byte-reversed halfword\<close>

text \<open>What the lowering reads for \<open>lhbrx\<close>: the halfword, zero extended, with all four bytes reversed.\<close>

definition read_half_as_word_reversed :: reader where
  "read_half_as_word_reversed H c ea = map_option (\<lambda>(v, c). (bswap32 v, c)) (read_half H c ea)"

interpretation half_as_word_load: load_form 2 False True read_half read_half_as_word_reversed
  by unfold_locales
    (simp_all add: read_half_as_word_reversed_def half_load.raw [simplified] half_load.raw_sane)

lemma bswap32_half: "bswap32 (ucast (w :: u16)) = (shl (ucast (bswap16 w)) 16 :: u32)"
proof (rule bit_word_eqI)
  fix n assume n: "n < LENGTH(32)"
  consider "n < 8" | "8 \<le> n" "n < 16" | "16 \<le> n" "n < 24" | "24 \<le> n" by linarith
  then show "bit (bswap32 (ucast w)) n = bit (shl (ucast (bswap16 w)) 16 :: u32) n"
    unfolding bswap32_def byte_masks bswap16_def
    using n by cases (auto simp: bit_simps dest: bit_imp_le_length)
qed

lemma emit_load_half:
  assumes "wf_fields i" "emit_ea i True False c = Some ea" "mem_read16 H c ea = Some (w, d)" "sane d"
  shows "emit_load H i read_half_reversed True False c = Some (d\<lparr>gpr := (gpr d)[unat (inst_rD i) := ucast (bswap16 w)]\<rparr>)"
    and "emit_load H i read_half_as_word_reversed True False c =
      Some (d\<lparr>gpr := (gpr d)[unat (inst_rD i) := shl (ucast (bswap16 w)) 16]\<rparr>)"
  using fields_of_bound [OF assms(1)] sane_gpr(1) [OF assms(4)] assms(2,3)
  by (auto simp: emit_load_def emit_update_def machine read_half_reversed_def read_half_def
      read_half_as_word_reversed_def bswap32_half)

section \<open>Properties\<close>


text \<open>A machine with 64 bytes of memory.\<close>

definition memory_cpu :: CPUState where
  "memory_cpu = (zero_cpu [])\<lparr>ram := Some (replicate 64 0), ram_size := 64\<rparr>"

lemma memory_cpu_ok: "sane memory_cpu" "host_sane no_host"
  by (simp_all add: sane_def memory_cpu_def wf_mem_def wf_regs_def zero_cpu_def host_sane_def no_host_def)


text \<open>C38 The two back ends do not agree on \<open>lhbrx\<close>: both read the halfword \<open>w\<close>, the emitted
  code puts its reversed bytes into the lower half of the register, the block of the lowering, which
  reverses the zero extended word, into the upper half.\<close>

theorem lhbrx_diverges:
  assumes "wf_fields i" "\<not> inst_embedded_data i" "inst_op i = PPC_OP_LHBRX"
    and "sane c" "host_sane H" "block_ready f n h"
  shows "\<exists>ea w d f' h'. emit_ea i True False c = Some ea \<and> mem_read16 H c ea = Some (w, d) \<and>
    c_exec H x i c = Some (Next, d\<lparr>gpr := (gpr d)[unat (inst_rD i) := ucast (bswap16 w)]\<rparr>) \<and>
    lower_block i n count f h = Some (f', h') \<and>
    block_computes H hp E c n count (fn_blocks f' ! n)
      (d\<lparr>gpr := (gpr d)[unat (inst_rD i) := shl (ucast (bswap16 w)) 16]\<rparr>)"
proof -
  obtain ea where ea: "emit_ea i True False c = Some ea"
    using emit_ea_total [OF assms(4,1)] by blast
  obtain w d where w: "mem_read16 H c ea = Some (w, d)" "sane d"
    using port16.load_sane [OF assms(4,5)] by blast
  note loads = emit_load_half [OF assms(1) ea w]
  have plain: "lower_control i = ret False" "\<not> ppc_op_uses_fpu (inst_op i)"
    by (simp_all add: lower_control_def ppc_op_uses_fpu_def assms(3))
  have "mem_agree (lower_body i) (\<lambda>h. emit_load h i read_half_as_word_reversed True False)"
    using mem_agree_or_else [OF half_as_word_load.agrees [OF assms(1)]]
    by (simp add: lower_body_def lower_integer_def lower_memory_def memory_form_def assms(3))
  from mem_agree_block [OF this plain assms(2,4,5,6)] loads(2)
  obtain f' h' where "lower_block i n count f h = Some (f', h')" "block_computes H hp E c n count (fn_blocks f' ! n)
      (d\<lparr>gpr := (gpr d)[unat (inst_rD i) := shl (ucast (bswap16 w)) 16]\<rparr>)"
    by fastforce
  moreover have "c_exec H x i c = Some (Next, d\<lparr>gpr := (gpr d)[unat (inst_rD i) := ucast (bswap16 w)]\<rparr>)"
    using loads(1) assms(2,3) plain
    by (simp add: c_exec_def float_calls_def c_integer_def c_float_def c_memory_def)
  ultimately show ?thesis
    using ea w(1) by blast
qed

theorem lhbrx_diverges_witness:
  "\<exists>ea w d. emit_ea (ppc_decode 0x7C642E2C 0x80003100) True False memory_cpu = Some ea \<and>
    mem_read16 no_host memory_cpu ea = Some (w, d)"
proof -
  have i: "ppc_decode 0x7C642E2C 0x80003100 = zero_inst\<lparr>inst_op := PPC_OP_LHBRX, inst_raw := 0x7C642E2C,
      inst_address := 0x80003100, inst_rD := 3, inst_rA := 4, inst_rB := 5\<rparr>"
    by code_simp
  have w: "wf_fields (ppc_decode 0x7C642E2C 0x80003100)" "\<not> inst_embedded_data (ppc_decode 0x7C642E2C 0x80003100)"
    "inst_op (ppc_decode 0x7C642E2C 0x80003100) = PPC_OP_LHBRX"
    by (simp_all add: i zero_inst_def wf_fields_def)
  show ?thesis
    using lhbrx_diverges [OF w memory_cpu_ok fresh_ready] by blast
qed

end
