(* ===== verification/Chunk.thy ===== *)
theory Chunk
  imports IrTyped MemAgreement
begin

text \<open>
  Whole chunks: \<open>dolir_build_chunk\<close> stays inside its arrays on every heap, and what it builds passes
  \<open>dolir_verify\<close> when no allocation fails.
\<close>

section \<open>Functions under construction\<close>

definition block_typed :: "bool \<Rightarrow> nat \<Rightarrow> nat \<Rightarrow> bool \<Rightarrow> DolIRBlock \<Rightarrow> bool" where
  "block_typed z values count c blk \<longleftrightarrow>
     list_all (typed_instruction z values) (blk_instructions blk) \<and> targets_ok count (blk_terminator blk) \<and>
     (c \<longrightarrow> term_kind (blk_terminator blk) \<noteq> DOLIR_TERM_NONE)"

text \<open>The first \<open>n\<close> blocks are done.\<close>

definition function_typed :: "bool \<Rightarrow> nat \<Rightarrow> DolIRFunction \<Rightarrow> bool" where
  "function_typed z n f \<longleftrightarrow> fn_value_types f \<noteq> [] \<and>
     (\<forall>k < length (fn_blocks f). block_typed z (length (fn_value_types f)) (length (fn_blocks f)) (k < n) (fn_blocks f ! k))"

definition heap_ok :: "bool \<Rightarrow> heap \<Rightarrow> bool" where
  "heap_ok z h \<longleftrightarrow> z \<or> (\<forall>k. allocs h k)"

definition same_extent :: "DolIRFunction \<Rightarrow> DolIRFunction \<Rightarrow> bool" where
  "same_extent f g \<longleftrightarrow> length (fn_blocks g) = length (fn_blocks f) \<and>
     fn_guest_start g = fn_guest_start f \<and> fn_guest_end g = fn_guest_end f"

lemma block_typed_mono: "block_typed z n count c blk \<Longrightarrow> n \<le> k \<Longrightarrow> block_typed z k count c blk"
  by (auto simp: block_typed_def intro: typed_instructions_mono)

lemma runs_snd: "runs P m (\<lambda>_. Q) \<Longrightarrow> P b \<Longrightarrow> Q (snd (run_state m b))"
  by (cases "run_state m b") (fastforce simp: runs_def)

lemma lower_block_typed:
  assumes f: "function_typed z n f" and n: "n < length (fn_blocks f)" and i: "wf_fields i" and h: "heap_ok z h"
  shows "\<exists>g h'. lower_block i n (length (fn_blocks f)) f h = Some (g, h') \<and> function_typed z (Suc n) g \<and>
    same_extent f g \<and> heap_ok z h' \<and> (\<forall>k. k \<noteq> n \<longrightarrow> fn_blocks g ! k = fn_blocks f ! k)"
proof -
  let ?b = "\<lparr>b_function = f, b_block = fn_blocks f ! n, b_heap = h, b_undefined = False\<rparr>"
  have "typed z f False {} ?b"
    using f n h by (auto simp: typed_def function_typed_def block_typed_def heap_ok_def)
  then obtain b where b: "snd (run_state (lower_instruction i n (length (fn_blocks f))) ?b) = b" "typed z f True {} b"
    using runs_snd [OF typed_instruction [OF i n]] by blast
  note t = b(2) [unfolded typed_def]
  let ?g = "(b_function b)\<lparr>fn_blocks := (fn_blocks f)[n := b_block b]\<rparr>"
  have "function_typed z (Suc n) ?g"
    unfolding function_typed_def
  proof (intro conjI allI impI)
    fix k assume k: "k < length (fn_blocks ?g)"
    show "block_typed z (length (fn_value_types ?g)) (length (fn_blocks ?g)) (k < Suc n) (fn_blocks ?g ! k)"
    proof (cases "k = n")
      case True
      then show ?thesis using t n by (simp add: block_typed_def)
    next
      case False
      then have "block_typed z (length (fn_value_types f)) (length (fn_blocks f)) (k < n) (fn_blocks f ! k)"
        using f k by (simp add: function_typed_def)
      moreover have "(k < Suc n) = (k < n)" using False by auto
      ultimately show ?thesis
        using False t by (auto intro: block_typed_mono)
    qed
  qed (use t in auto)
  then show ?thesis
    using t n by (auto simp: lower_block_def b(1) arr_get_def arr_set_def same_extent_def heap_ok_def)
qed

text \<open>The loop over the instructions; \<open>Q\<close> is what it makes of the single blocks.\<close>

lemma lower_blocks_each:
  assumes "function_typed z 0 f" "length insts = length (fn_blocks f)" "list_all wf_fields insts" "heap_ok z h"
    and Q: "\<And>n g h g' h'. n < length insts \<Longrightarrow> function_typed z n g \<Longrightarrow> heap_ok z h \<Longrightarrow> same_extent f g \<Longrightarrow>
      fn_blocks g ! n = fn_blocks f ! n \<Longrightarrow> lower_block (insts ! n) n (length insts) g h = Some (g', h') \<Longrightarrow>
      Q n (fn_blocks g' ! n)"
  shows "\<exists>g h'. for_each [0..<length insts] (\<lambda>n (f, h). do {
      i \<leftarrow> arr_get insts n; lower_block i n (length insts) f h }) (f, h) = Some (g, h') \<and>
    function_typed z (length insts) g \<and> same_extent f g \<and> heap_ok z h' \<and> (\<forall>k < length insts. Q k (fn_blocks g ! k))"
proof -
  let ?P = "\<lambda>n (g, h'). function_typed z n g \<and> same_extent f g \<and> heap_ok z h' \<and>
    (\<forall>k < n. Q k (fn_blocks g ! k)) \<and> (\<forall>k \<ge> n. fn_blocks g ! k = fn_blocks f ! k)"
  have "\<exists>s'. for_each [0..<length insts] (\<lambda>n (f, h). do {
      i \<leftarrow> arr_get insts n; lower_block i n (length insts) f h }) (f, h) = Some s' \<and> ?P (length insts) s'"
  proof (rule for_each_inv)
    show "?P 0 (f, h)" using assms by (simp add: same_extent_def)
  next
    fix n s assume n: "n < length insts" and s: "?P n s"
    obtain g h' where gh: "s = (g, h')" by (cases s)
    then have g: "function_typed z n g" "same_extent f g" "heap_ok z h'" "\<forall>k < n. Q k (fn_blocks g ! k)"
      "\<forall>k \<ge> n. fn_blocks g ! k = fn_blocks f ! k" using s by simp_all
    have l: "length insts = length (fn_blocks g)" "n < length (fn_blocks g)" "wf_fields (insts ! n)"
      using g(2) n assms(2,3) by (simp_all add: same_extent_def list_all_length)
    obtain g1 h1 where g1: "lower_block (insts ! n) n (length insts) g h' = Some (g1, h1)" "function_typed z (Suc n) g1"
      "same_extent g g1" "heap_ok z h1" "\<forall>k. k \<noteq> n \<longrightarrow> fn_blocks g1 ! k = fn_blocks g ! k"
      using lower_block_typed [OF g(1) l(2,3) g(3)] l(1) by auto
    have "Q n (fn_blocks g1 ! n)"
      using Q [OF n g(1,3,2) _ g1(1)] g(5) by simp
    then have "\<forall>k < Suc n. Q k (fn_blocks g1 ! k)"
      using g(4) g1(5) by (auto simp: less_Suc_eq)
    then have "?P (Suc n) (g1, h1)"
      using g g1 by (auto simp: same_extent_def)
    moreover have "(case s of (f, h) \<Rightarrow> do { i \<leftarrow> arr_get insts n; lower_block i n (length insts) f h }) = Some (g1, h1)"
      using g1(1) n by (simp add: gh arr_get_def)
    ultimately show "\<exists>s'. (case s of (f, h) \<Rightarrow> do { i \<leftarrow> arr_get insts n; lower_block i n (length insts) f h }) = Some s' \<and>
        ?P (Suc n) s'"
      by blast
  qed simp
  then show ?thesis by auto
qed

section \<open>The empty blocks\<close>

definition fresh_block :: "u32 \<Rightarrow> DolIRBlock" where
  "fresh_block a = empty_block\<lparr>blk_guest_address := a,
     blk_terminator := zero_terminator\<lparr>term_targets := (DOLIR_NO_BLOCK, DOLIR_NO_BLOCK)\<rparr>\<rparr>"

lemma grow_heap: "grow_array c n h = (ok, cap, h') \<Longrightarrow> heap_ok z h \<Longrightarrow> heap_ok z h' \<and> (z \<or> ok)"
  by (auto simp: grow_array_def realloc_ok_def heap_ok_def Let_def split: if_splits)

lemma add_blocks_shape:
  assumes "add_blocks is f h = (ok, g, h')" "heap_ok z h"
  shows "heap_ok z h' \<and> (z \<or> ok) \<and>
    (ok \<longrightarrow> fn_blocks g = fn_blocks f @ map (fresh_block \<circ> inst_address) is) \<and>
    fn_value_types g = fn_value_types f \<and> fn_guest_start g = fn_guest_start f \<and> fn_guest_end g = fn_guest_end f"
  using assms
proof (induction "is" arbitrary: f h)
  case Nil
  then show ?case by (simp add: heap_ok_def)
next
  case (Cons i "is")
  obtain ok1 cap h1 where g: "grow_array (fn_block_capacity f) (of_nat (length (fn_blocks f))) h = (ok1, cap, h1)"
    by (metis surj_pair)
  note gh = grow_heap [OF g Cons.prems(2)]
  show ?case
  proof (cases ok1)
    case True
    let ?f = "f\<lparr>fn_block_capacity := cap, fn_blocks := fn_blocks f @ [fresh_block (inst_address i)]\<rparr>"
    have "add_blocks is ?f h1 = (ok, g, h')"
      using Cons.prems(1) g True by (simp add: dolir_add_block_def fresh_block_def Let_def)
    from Cons.IH [OF this] gh show ?thesis by simp
  next
    case False
    then show ?thesis
      using Cons.prems(1) g gh by (auto simp: dolir_add_block_def Let_def)
  qed
qed

section \<open>The address analysis\<close>

definition annotated :: "DolIRInstruction \<Rightarrow> DolIRInstruction \<Rightarrow> bool" where
  "annotated i j \<longleftrightarrow> (\<exists>d l u. j = i\<lparr>ir_address_domain := d, ir_address_lower := l, ir_address_upper := u\<rparr> \<and>
     (d \<noteq> DOLIR_ADDRESS_UNKNOWN \<longrightarrow> l \<le> u))"

definition analysis_ok :: "nat \<Rightarrow> analysis \<Rightarrow> bool" where
  "analysis_ok n a \<longleftrightarrow> length (fst a) = n \<and> length (snd a) = DOLIR_STATE_COUNT"

lemma classify_range_order: "classify_range l u \<noteq> DOLIR_ADDRESS_UNKNOWN \<Longrightarrow> l \<le> u"
  by (auto simp: classify_range_def window_domain_def range_in_window_def split: if_splits option.splits)

lemma operand_bound: "typed_instruction z n i \<Longrightarrow> 0 < n \<Longrightarrow> operand i k < n"
  by (auto simp: operand_def typed_instruction_def list_all_length good_value_def)

lemma annotatedI:
  "(d \<noteq> DOLIR_ADDRESS_UNKNOWN \<Longrightarrow> l \<le> u) \<Longrightarrow>
   annotated i (i\<lparr>ir_address_domain := d, ir_address_lower := l, ir_address_upper := u\<rparr>)"
  by (auto simp: annotated_def)

lemma unannotated: "annotated i (i\<lparr>ir_address_lower := l, ir_address_upper := u, ir_address_domain := DOLIR_ADDRESS_UNKNOWN\<rparr>)"
  unfolding annotated_def
  by (rule exI [of _ DOLIR_ADDRESS_UNKNOWN], rule exI [of _ l], rule exI [of _ u], cases i) simp

lemma annotate_total:
  assumes "typed_instruction z n i" "0 < n" "length vs = n"
  shows "\<exists>j. annotate i vs = Some j \<and> annotated i j"
proof -
  have v: "arr_get vs (operand i 0) = Some (vs ! operand i 0)"
    using operand_bound [OF assms(1,2), of 0] assms(3) by (simp add: arr_get_def)
  have o: "operand (i\<lparr>ir_address_domain := d, ir_address_lower := l, ir_address_upper := u\<rparr>) 0 = operand i 0" for d l u
    by (simp add: operand_def)
  show ?thesis
    unfolding annotate_def Let_def o
    by (simp add: v annotatedI unannotated classify_range_order)
qed

lemma instruction_value_total:
  assumes "typed_instruction z n i" "0 < n" "length vs = n" "length st = DOLIR_STATE_COUNT" "annotated i j"
  shows "\<exists>v. instruction_value j vs st = Some v"
proof -
  have same: "ir_type j = ir_type i" "ir_op j = ir_op i" "ir_operands j = ir_operands i" "ir_aux j = ir_aux i"
    "operand j k = operand i k" for k
    using assms(5) by (auto simp: annotated_def operand_def)
  have b: "operand i k < n" "ir_op i = DOLIR_OP_STATE_READ \<Longrightarrow> unat (ir_aux i) < DOLIR_STATE_COUNT" for k
    using operand_bound [OF assms(1,2)] assms(1) by (simp_all add: typed_instruction_def)
  show ?thesis
    unfolding instruction_value_def same Let_def arr_get_def assms(3,4)
    by (simp add: b)
qed

lemma forget_total:
  assumes "masks_ok i" "length st = DOLIR_STATE_COUNT"
  shows "\<exists>st'. for_each [0..<DOLIR_STATE_COUNT] (\<lambda>slot st. do {
         defined \<leftarrow> dolir_state_mask_test (ir_state_defs i) slot;
         if defined \<and> \<not> (ir_op i = DOLIR_OP_STATE_WRITE \<and> unat (ir_aux i) = slot)
         then arr_set st slot unknown_value else Some st }) st = Some st' \<and> length st' = DOLIR_STATE_COUNT"
  by (rule for_each_inv [where P = "\<lambda>_ st. length st = DOLIR_STATE_COUNT"])
    (use assms in \<open>auto simp: masks_ok_def mask_test_iff arr_set_def\<close>)

lemma analyze_instruction_total:
  assumes "typed_instruction z n i" "0 < n" "analysis_ok n a"
  shows "\<exists>j a'. analyze_instruction i a = Some (j, a') \<and> annotated i j \<and> analysis_ok n a'"
proof -
  obtain vs st where a: "a = (vs, st)" by (cases a)
  with assms(3) have l: "length vs = n" "length st = DOLIR_STATE_COUNT" by (simp_all add: analysis_ok_def)
  obtain j where j: "annotate i vs = Some j" "annotated i j"
    using annotate_total [OF assms(1,2) l(1)] by blast
  obtain v where v: "instruction_value j vs st = Some v"
    using instruction_value_total [OF assms(1,2) l j(2)] by blast
  have same: "ir_op j = ir_op i" "ir_aux j = ir_aux i" "ir_result j = ir_result i" "operand j 0 = operand i 0"
    "ir_state_defs j = ir_state_defs i" "masks_ok j"
    using j(2) assms(1) by (auto simp: annotated_def operand_def masks_ok_def typed_instruction_def)
  let ?vs = "if ir_result i \<noteq> 0 then vs[ir_result i := v] else vs"
  let ?st = "if ir_op i = DOLIR_OP_STATE_WRITE then st[unat (ir_aux i) := ?vs ! operand i 0] else st"
  have "length ?st = DOLIR_STATE_COUNT"
    using l(2) by simp
  from forget_total [OF same(6) this] obtain st' where st': "for_each [0..<DOLIR_STATE_COUNT] (\<lambda>slot st. do {
         defined \<leftarrow> dolir_state_mask_test (ir_state_defs j) slot;
         if defined \<and> \<not> (ir_op j = DOLIR_OP_STATE_WRITE \<and> unat (ir_aux j) = slot)
         then arr_set st slot unknown_value else Some st }) ?st = Some st'" "length st' = DOLIR_STATE_COUNT"
    by blast
  have b: "ir_result i < n" "ir_op i = DOLIR_OP_STATE_WRITE \<Longrightarrow> unat (ir_aux i) < DOLIR_STATE_COUNT"
    "operand i 0 < n"
    using assms(1) operand_bound [OF assms(1,2)] by (auto simp: typed_instruction_def)
  have "analyze_instruction i a = Some (j, ?vs, st')"
    using l j(1) v b st'(1)
    by (cases "ir_result i = 0"; cases "ir_op i = DOLIR_OP_STATE_WRITE")
      (simp_all add: analyze_instruction_def a same arr_get_def arr_set_def del: for_each.simps upt_Suc)
  then show ?thesis
    using j(2) l st'(2) by (auto simp: analysis_ok_def)
qed

lemma analyze_instructions_total:
  assumes "list_all (typed_instruction z n) is" "0 < n" "analysis_ok n a"
  shows "\<exists>js a'. analyze_instructions is a = Some (js, a') \<and> list_all2 annotated is js \<and> analysis_ok n a'"
  using assms
proof (induction "is" arbitrary: a)
  case (Cons i "is")
  obtain j a1 where j: "analyze_instruction i a = Some (j, a1)" "annotated i j" "analysis_ok n a1"
    using analyze_instruction_total [of z n i a] Cons.prems by auto
  obtain js a2 where "analyze_instructions is a1 = Some (js, a2)" "list_all2 annotated is js" "analysis_ok n a2"
    using Cons.IH [OF _ _ j(3)] Cons.prems by auto
  with j show ?case by auto
qed simp

definition annotated_block :: "DolIRBlock \<Rightarrow> DolIRBlock \<Rightarrow> bool" where
  "annotated_block b c \<longleftrightarrow> (\<exists>is. c = b\<lparr>blk_instructions := is\<rparr> \<and> list_all2 annotated (blk_instructions b) is)"

lemma analyze_blocks_total:
  assumes "length ls = length bs" "\<forall>b \<in> set bs. list_all (typed_instruction z n) (blk_instructions b)" "0 < n" "analysis_ok n a"
  shows "\<exists>cs a'. analyze_blocks ls bs a = Some (cs, a') \<and> list_all2 annotated_block bs cs"
  using assms
proof (induction ls bs arbitrary: a rule: list_induct2)
  case (Cons l ls b bs)
  obtain vs st where a: "a = (vs, st)" by (cases a)
  let ?st = "if l then unknown_state else st"
  have "analysis_ok n (vs, ?st)"
    using Cons.prems(3) by (simp add: a analysis_ok_def unknown_state_def)
  then obtain js a1 where j: "analyze_instructions (blk_instructions b) (vs, ?st) = Some (js, a1)"
    "list_all2 annotated (blk_instructions b) js" "analysis_ok n a1"
    using analyze_instructions_total [of z n "blk_instructions b" "(vs, ?st)"] Cons.prems by auto
  obtain cs a2 where "analyze_blocks ls bs a1 = Some (cs, a2)" "list_all2 annotated_block bs cs"
    using Cons.IH [OF _ _ j(3)] Cons.prems by auto
  moreover have "annotated_block b (b\<lparr>blk_instructions := js\<rparr>)"
    using j(2) by (auto simp: annotated_block_def)
  ultimately show ?case using j(1) by (simp add: a)
qed simp

lemma find_region_leaders_total:
  assumes "fn_blocks f \<noteq> []" "\<forall>b \<in> set (fn_blocks f). targets_ok (length (fn_blocks f)) (blk_terminator b)"
  shows "\<exists>ls. find_region_leaders f (replicate (length (fn_blocks f)) False) = Some ls \<and> length ls = length (fn_blocks f)"
proof -
  let ?n = "length (fn_blocks f)"
  have body: "\<exists>ls'. leader_body f k ls = Some ls' \<and> length ls' = ?n" if k: "k < ?n" and ls: "length ls = ?n" for k ls
  proof -
    have t: "targets_ok ?n (blk_terminator (fn_blocks f ! k))" using assms(2) k by simp
    have "\<exists>ls'. for_each [0..<c] (\<lambda>slot leaders.
       if term_target t slot \<noteq> DOLIR_NO_BLOCK then arr_set leaders (unat (term_target t slot)) True
       else Some leaders) ls = Some ls' \<and> length ls' = ?n"
      if "targets_ok ?n t" "length ls = ?n" for c ls t
      by (rule for_each_inv [where P = "\<lambda>_ ls. length ls = ?n"])
        (use that in \<open>auto simp: targets_ok_def target_ok_def term_target_def arr_set_def\<close>)
    from this [OF t] show ?thesis
      using k ls by (simp add: leader_body_def Let_def arr_get_def arr_set_def)
  qed
  show ?thesis
    unfolding find_region_leaders_def
    using assms(1) body
    by (simp add: arr_set_def for_each_inv [where P = "\<lambda>_ ls. length ls = ?n"])
qed

text \<open>The analysis of a finished function.\<close>

lemma analyze_addresses_total:
  assumes "function_typed z (length (fn_blocks f)) f"
  shows "\<exists>bs. dolir_analyze_addresses alloc1 alloc2 f = Some (f\<lparr>fn_blocks := bs\<rparr>) \<and> list_all2 annotated_block (fn_blocks f) bs"
proof (cases "fn_blocks f = [] \<or> \<not> alloc1 \<or> \<not> alloc2")
  case True
  have "annotated i i" if "typed_instruction z n i" for n i
    unfolding annotated_def
    by (rule exI [of _ "ir_address_domain i"], rule exI [of _ "ir_address_lower i"], rule exI [of _ "ir_address_upper i"])
      (use that in \<open>simp add: typed_instruction_def\<close>)
  then have "annotated_block b b" if "b \<in> set (fn_blocks f)" for b
    using assms that unfolding annotated_block_def
    by (intro exI [of _ "blk_instructions b"])
      (auto simp: function_typed_def block_typed_def in_set_conv_nth list_all_iff intro!: list.rel_refl_strong)
  then have "list_all2 annotated_block (fn_blocks f) (fn_blocks f)"
    by (rule list.rel_refl_strong)
  moreover have "dolir_analyze_addresses alloc1 alloc2 f = Some (f\<lparr>fn_blocks := fn_blocks f\<rparr>)"
    using True by (auto simp: dolir_analyze_addresses_def)
  ultimately show ?thesis by blast
next
  case False
  have n: "0 < length (fn_value_types f)"
    and b: "\<forall>b \<in> set (fn_blocks f). targets_ok (length (fn_blocks f)) (blk_terminator b)"
      "\<forall>b \<in> set (fn_blocks f). list_all (typed_instruction z (length (fn_value_types f))) (blk_instructions b)"
    using assms by (auto simp: function_typed_def block_typed_def in_set_conv_nth)
  obtain ls where ls: "find_region_leaders f (replicate (length (fn_blocks f)) False) = Some ls"
    "length ls = length (fn_blocks f)"
    using find_region_leaders_total [OF _ b(1)] False by blast
  obtain cs a where cs: "analyze_blocks ls (fn_blocks f)
      (replicate (length (fn_value_types f)) unknown_value, unknown_state) = Some (cs, a)"
    "list_all2 annotated_block (fn_blocks f) cs"
    using analyze_blocks_total [OF ls(2) b(2) n] by (force simp: analysis_ok_def unknown_state_def)
  show ?thesis
    using False n ls(1) cs by (auto simp: dolir_analyze_addresses_def)
qed

section \<open>The chunk\<close>

lemma fresh_typed:
  assumes "fn_value_types f \<noteq> []" "fn_blocks f = map fresh_block as"
  shows "function_typed z 0 f"
  using assms by (auto simp: function_typed_def block_typed_def fresh_block_def empty_block_def targets_ok_def target_ok_def)

lemma annotated_ok: "typed_instruction False n i \<Longrightarrow> annotated i j \<Longrightarrow> instruction_ok n j"
  by (auto simp: typed_instruction_def annotated_def instruction_ok_def good_value_def list_all_iff not_le not_less)

lemma annotated_blocks_ok:
  assumes "block_typed False n count True b" "annotated_block b c"
  shows "block_ok n count c"
proof -
  obtain js where js: "c = b\<lparr>blk_instructions := js\<rparr>" "list_all2 annotated (blk_instructions b) js"
    using assms(2) by (auto simp: annotated_block_def)
  have "list_all (instruction_ok n) js"
    using js(2) assms(1) annotated_ok
    by (auto simp: block_typed_def list_all_length list_all2_conv_all_nth)
  then show ?thesis
    using assms(1) by (simp add: js(1) block_ok_def block_typed_def targets_ok_def)
qed

lemma analyzed_function_ok:
  assumes "function_typed False (length (fn_blocks f)) f" "list_all2 annotated_block (fn_blocks f) bs"
    and "fn_guest_start f < fn_guest_end f" "fn_blocks f \<noteq> []"
  shows "verify_function (f\<lparr>fn_blocks := bs\<rparr>)"
proof -
  have l: "length bs = length (fn_blocks f)"
    using assms(2) by (simp add: list_all2_lengthD)
  have "block_ok (length (fn_value_types f)) (length bs) (bs ! k)" if "k < length bs" for k
    using assms(1,2) that l annotated_blocks_ok [of _ _ "fn_blocks f ! k"]
    by (auto simp: function_typed_def list_all2_conv_all_nth)
  then show ?thesis
    using assms(3,4) l by (auto simp: verify_function_def list_all_length)
qed

text \<open>What \<open>dolir_build_chunk\<close> does with the heap of kind \<open>z\<close>; \<open>Q\<close> is what it makes of the single instructions.\<close>

lemma build_chunk_shape:
  assumes "insts \<noteq> []" "list_all wf_fields insts" "heap_ok z h"
    and Q: "\<And>n g h g' h'. n < length insts \<Longrightarrow> function_typed z n g \<Longrightarrow> heap_ok z h \<Longrightarrow>
      fn_guest_start g = gs \<Longrightarrow> fn_guest_end g = gs + of_nat (length insts) * 4 \<Longrightarrow>
      length (fn_blocks g) = length insts \<Longrightarrow> fn_blocks g ! n = fresh_block (inst_address (insts ! n)) \<Longrightarrow>
      lower_block (insts ! n) n (length insts) g h = Some (g', h') \<Longrightarrow> Q n (fn_blocks g' ! n)"
  shows "\<exists>ok m' h'. dolir_build_chunk m insts gs h = Some (ok, m', h') \<and> (z \<or> ok) \<and>
    (ok \<longrightarrow> (\<exists>g bs.
       (\<forall>k < length insts. Q k (fn_blocks g ! k)) \<and>
       function_typed z (length (fn_blocks g)) g \<and> length (fn_blocks g) = length insts \<and>
       fn_guest_start g = gs \<and> fn_guest_end g = gs + of_nat (length insts) * 4 \<and>
       list_all2 annotated_block (fn_blocks g) bs \<and>
       mod_functions m' = mod_functions m @ [g\<lparr>fn_blocks := bs\<rparr>]))"
proof -
  let ?n = "length insts"
  obtain fo m1 h1 where add: "dolir_add_function m (chunk_name gs) gs (gs + of_nat ?n * 4) h = (fo, m1, h1)"
    by (metis surj_pair)
  obtain ok1 cap1 h01 where g1: "grow_array (mod_capacity m) (of_nat (length (mod_functions m))) h = (ok1, cap1, h01)"
    by (metis surj_pair)
  obtain ok2 cap2 h02 where g2: "grow_array 0 0 h01 = (ok2, cap2, h02)"
    by (metis surj_pair)
  note h01 = grow_heap [OF g1 assms(3)]
  note h02 = grow_heap [OF g2 conjunct1 [OF h01]]
  have fo: "fo = None \<and> z \<or> (\<exists>f. fo = Some f \<and> fn_blocks f = [] \<and> fn_value_types f \<noteq> [] \<and> fn_guest_start f = gs \<and>
      fn_guest_end f = gs + of_nat ?n * 4 \<and> mod_functions m1 = mod_functions m @ [f] \<and> heap_ok z h1)"
    using add g1 g2 h01 h02
    by (auto simp: dolir_add_function_def zero_function_def Let_def split: if_splits)
  show ?thesis
  proof (cases fo)
    case None
    then have "dolir_build_chunk m insts gs h = Some (False, m1, h1)" "z"
      using fo assms(1) add by (simp_all add: dolir_build_chunk_def Let_def)
    then show ?thesis by blast
  next
    case (Some f)
    then have f: "fn_blocks f = []" "fn_value_types f \<noteq> []" "fn_guest_start f = gs"
      "fn_guest_end f = gs + of_nat ?n * 4" "mod_functions m1 = mod_functions m @ [f]" "heap_ok z h1"
      using fo by auto
    obtain ok f2 h2 where blocks: "add_blocks insts f h1 = (ok, f2, h2)"
      by (metis surj_pair)
    note shape = add_blocks_shape [OF blocks f(6)]
    show ?thesis
    proof (cases ok)
      case False
      then have "dolir_build_chunk m insts gs h = Some (False, put_function f2 m1, h2)" "z"
        using shape assms(1) add Some blocks by (simp_all add: dolir_build_chunk_def Let_def)
      then show ?thesis by blast
    next
      case True
      have f2: "fn_blocks f2 = map (fresh_block \<circ> inst_address) insts" "fn_value_types f2 \<noteq> []"
        using shape True f by simp_all
      have t0: "function_typed z 0 f2"
        using fresh_typed [of f2 "map inst_address insts"] f2 by simp
      obtain g h3 where g: "for_each [0..<?n] (\<lambda>n (f, h). do {
          i \<leftarrow> arr_get insts n; lower_block i n ?n f h }) (f2, h2) = Some (g, h3)"
        "function_typed z ?n g" "same_extent f2 g" "heap_ok z h3" "\<forall>k < ?n. Q k (fn_blocks g ! k)"
      proof -
        have "Q n (fn_blocks g' ! n)" if "n < ?n" "function_typed z n g" "heap_ok z h" "same_extent f2 g"
          "fn_blocks g ! n = fn_blocks f2 ! n" "lower_block (insts ! n) n ?n g h = Some (g', h')" for n g h g' h'
          using Q [OF that(1-3) _ _ _ _ that(6)] that(1,4,5) f2(1) shape f by (simp add: same_extent_def)
        then show ?thesis
          using lower_blocks_each [OF t0 _ assms(2), of h2 Q] shape f2(1) that by auto
      qed
      have ng: "length (fn_blocks g) = ?n"
        using g(3) f2(1) by (simp add: same_extent_def)
      obtain alloc1 h4 where a1: "realloc_ok h3 = (alloc1, h4)" by (metis surj_pair)
      obtain alloc2 h5 where a2: "realloc_ok h4 = (alloc2, h5)" by (metis surj_pair)
      obtain bs where bs: "dolir_analyze_addresses alloc1 alloc2 g = Some (g\<lparr>fn_blocks := bs\<rparr>)"
        "list_all2 annotated_block (fn_blocks g) bs"
        using analyze_addresses_total [of z g alloc1 alloc2] g(2) ng by auto
      let ?m = "put_function (g\<lparr>fn_blocks := bs\<rparr>) m1"
      have res: "dolir_build_chunk m insts gs h = Some (True, ?m, h5)"
        using assms(1) add Some blocks True g(1) a1 a2 bs(1)
        by (simp add: dolir_build_chunk_def Let_def del: for_each.simps upt_Suc)
      have parts: "mod_functions ?m = mod_functions m @ [g\<lparr>fn_blocks := bs\<rparr>]"
        "fn_guest_start g = gs" "fn_guest_end g = gs + of_nat ?n * 4"
        "function_typed z (length (fn_blocks g)) g"
        using f g(2,3) shape ng by (simp_all add: put_function_def same_extent_def)
      show ?thesis
        by (rule exI [of _ True], rule exI [of _ ?m], rule exI [of _ h5], intro conjI impI, rule res, simp,
          rule exI [of _ g], rule exI [of _ bs])
          (intro conjI g(5) parts ng bs(2))
    qed
  qed
qed

lemma chunk_extent:
  assumes "unat gs + 4 * n < 2 ^ 32" "0 < n"
  shows "(gs :: u32) < gs + of_nat n * 4"
proof -
  have "unat (of_nat n * 4 :: u32) = 4 * n"
    using assms(1) by (simp add: unat_word_ariths unat_of_nat)
  then have "unat (gs + of_nat n * 4) = unat gs + 4 * n"
    using assms(1) by (simp add: unat_word_ariths(1))
  then show ?thesis
    using assms(2) by (simp add: word_less_nat_alt)
qed

end
