(* ===== verification/ChunkRun.thy ===== *)
theory ChunkRun
  imports Chunk
begin

text \<open>
  Running a chunk.  The blocks of a chunk of straight-line code, executed one after the other, compute
  what the C emitter's statements for its instructions compute.
\<close>

section \<open>Straight-line code\<close>

definition straight :: "PPCInst \<Rightarrow> bool" where
  "straight i \<longleftrightarrow> wf_fields i \<and> \<not> inst_embedded_data i \<and>
     (inst_op i \<in> set agreed_integer_ops \<and> \<not> inst_oe i \<or> inst_op i \<in> set agreed_memory_ops)"

text \<open>The statements of the instructions, as long as they fall through.\<close>

fun c_run :: "host \<Rightarrow> emit_context \<Rightarrow> PPCInst list \<Rightarrow> CPUState \<Rightarrow> CPUState option" where
  "c_run H x [] c = Some c"
| "c_run H x (i # is) c = do {
     (flow, c) \<leftarrow> c_exec H x i c;
     if flow = Next then c_run H x is c else None
   }"

text \<open>The blocks from block \<open>n\<close> on, as long as they fall through; the last one falls out of the function.\<close>

fun ir_fall :: "host \<Rightarrow> helper \<Rightarrow> DolIRFunction \<Rightarrow> nat \<Rightarrow> nat \<Rightarrow> ir_state \<Rightarrow> ir_state option" where
  "ir_fall H hp f 0 n s = None"
| "ir_fall H hp f (Suc k) n s = do {
     blk \<leftarrow> arr_get (fn_blocks f) n;
     s \<leftarrow> ir_run H hp (blk_instructions blk) s;
     let next = fst (term_targets (blk_terminator blk));
     if term_kind (blk_terminator blk) \<noteq> DOLIR_TERM_FALLTHROUGH then None
     else if next = DOLIR_NO_BLOCK then Some s
     else ir_fall H hp f k (unat next) s
   }"

section \<open>Invariants along the intermediate code\<close>

text \<open>A helper that is never called.\<close>

definition no_helper :: helper where
  "no_helper i xs c = None"

lemma sane_scalars [simp]:
  "sane (c\<lparr>pc := v\<rparr>) = sane c" "sane (c\<lparr>lr := v\<rparr>) = sane c" "sane (c\<lparr>ctr := v\<rparr>) = sane c"
  "sane (c\<lparr>cr := v\<rparr>) = sane c" "sane (c\<lparr>xer := v\<rparr>) = sane c" "sane (c\<lparr>fpscr := v\<rparr>) = sane c"
  "sane (c\<lparr>msr := v\<rparr>) = sane c" "sane (c\<lparr>srr0 := v\<rparr>) = sane c" "sane (c\<lparr>srr1 := v\<rparr>) = sane c"
  "sane (c\<lparr>dar := v\<rparr>) = sane c" "sane (c\<lparr>dsisr := v\<rparr>) = sane c" "sane (c\<lparr>ear := v\<rparr>) = sane c"
  "sane (c\<lparr>hid2 := v\<rparr>) = sane c" "sane (c\<lparr>exception := v\<rparr>) = sane c" "sane (c\<lparr>program_exception := v\<rparr>) = sane c"
  "sane (c\<lparr>reserve_addr := v\<rparr>) = sane c" "sane (c\<lparr>reserve_valid := r\<rparr>) = sane c"
  "sane (c\<lparr>timebase := w\<rparr>) = sane c" "sane (c\<lparr>downcount := w\<rparr>) = sane c"
  by (simp_all add: sane_def wf_mem_def wf_regs_def)

lemma sane_arrays:
  "sane c \<Longrightarrow> arr_set (gpr c) k v = Some xs \<Longrightarrow> sane (c\<lparr>gpr := xs\<rparr>)"
  "sane c \<Longrightarrow> arr_set (sr c) k v = Some xs \<Longrightarrow> sane (c\<lparr>sr := xs\<rparr>)"
  "sane c \<Longrightarrow> arr_set (gqr c) k v = Some xs \<Longrightarrow> sane (c\<lparr>gqr := xs\<rparr>)"
  "sane c \<Longrightarrow> arr_set (fpr c) k w = Some ys \<Longrightarrow> sane (c\<lparr>fpr := ys\<rparr>)"
  "sane c \<Longrightarrow> arr_set (ps1 c) k w = Some ys \<Longrightarrow> sane (c\<lparr>ps1 := ys\<rparr>)"
  by (auto simp: sane_def wf_mem_def wf_regs_def arr_set_eq_Some_iff)

text \<open>A result, if there is one, is sane.\<close>

definition sane_result :: "CPUState option \<Rightarrow> bool" where
  "sane_result x \<longleftrightarrow> (\<forall>c. x = Some c \<longrightarrow> sane c)"

lemma sane_result_simps [simp]: "sane_result (Some c) = sane c" "sane_result None"
  by (simp_all add: sane_result_def)

lemma sane_result_map:
  "(\<And>xs. x = Some xs \<Longrightarrow> sane (g xs)) \<Longrightarrow> sane_result (map_option g x)"
  by (auto simp: sane_result_def)

lemma slot_write_sane:
  assumes "sane c" shows "sane_result (slot_write c s v)"
proof -
  have "sane_result (slot_write32 c s v)" for v
    unfolding slot_write32_def
    using assms by (auto intro!: sane_result_map switch_all_at [where P = "\<lambda>_. sane_result"] dest: sane_arrays)
  then show ?thesis
    using assms by (cases v) (auto simp: slot_write_def intro!: sane_result_map dest: sane_arrays)
qed

context guest_port begin

lemma load_sane': "load H c a = Some (v, c') \<Longrightarrow> sane c \<Longrightarrow> host_sane H \<Longrightarrow> sane c'"
  using load_sane [of c H a] by auto

lemma store_sane': "store H c a v = Some c' \<Longrightarrow> sane c \<Longrightarrow> host_sane H \<Longrightarrow> sane c'"
  using store_sane [of c H a v] by auto

end

lemma guest_read_sane: "guest_read H c ea ty aux = Some (v, c') \<Longrightarrow> sane c \<Longrightarrow> host_sane H \<Longrightarrow> sane c'"
  by (auto simp: guest_read_def Let_def split: if_splits bind_splits
    intro: port8.load_sane' port16.load_sane' port32.load_sane' port64.load_sane')

lemma guest_write_sane: "guest_write H c ea v aux = Some c' \<Longrightarrow> sane c \<Longrightarrow> host_sane H \<Longrightarrow> sane c'"
  by (cases v) (auto simp: guest_write_def Let_def split: if_splits
    intro: port8.store_sane' port16.store_sane' port32.store_sane' port64.store_sane')

text \<open>Without helpers every step keeps the machine sane.\<close>

lemma ir_step_sane:
  assumes "ir_step H no_helper i (E, c) = Some (E', c')" "sane c" "host_sane H"
  shows "sane c'"
proof -
  have w: "sane d" if "slot_write c s v = Some d" for s v d
    using slot_write_sane [OF assms(2), of s v] that by (simp add: sane_result_def)
  show ?thesis
    using assms w
    by (auto simp: ir_step_def no_helper_def Let_def split: if_splits bind_splits list.splits irval.splits
      intro: guest_read_sane guest_write_sane)
qed

lemma ir_run_sane:
  "ir_run H no_helper is (E, c) = Some (E', c') \<Longrightarrow> sane c \<Longrightarrow> host_sane H \<Longrightarrow> sane c'"
  by (induction "is" arbitrary: E c) (auto split: bind_splits dest: ir_step_sane)

text \<open>A step that called no helper is a step with any helper, of the annotated instruction too.\<close>

lemma annotated_step:
  assumes "ir_step H no_helper i s = Some s'" "annotated i j"
  shows "ir_step H hp j s = Some s'"
proof -
  have op: "ir_op i \<noteq> DOLIR_OP_HELPER_CALL"
    using assms(1) by (auto simp: ir_step_def no_helper_def split: prod.splits)
  then have "ir_step H hp j s = ir_step H no_helper i s"
    using assms(2)
    by (cases s) (auto simp: ir_step_def annotated_def Let_def cong: list.case_cong irval.case_cong if_cong)
  with assms(1) show ?thesis by simp
qed

lemma annotated_run:
  "list_all2 annotated is js \<Longrightarrow> ir_run H no_helper is s = Some s' \<Longrightarrow> ir_run H hp js s = Some s'"
proof (induction "is" js arbitrary: s rule: list_all2_induct)
  case (Cons i "is" j js)
  from Cons.prems obtain s1 where s1: "ir_step H no_helper i s = Some s1" "ir_run H no_helper is s1 = Some s'"
    by (auto simp: bind_eq_Some_conv)
  show ?case
    using annotated_step [OF s1(1) Cons.hyps(1), of hp] Cons.IH [OF s1(2)] by simp
qed simp

section \<open>The block of a straight-line instruction\<close>

definition does :: "emit_context \<Rightarrow> PPCInst \<Rightarrow> nat \<Rightarrow> nat \<Rightarrow> DolIRBlock \<Rightarrow> bool" where
  "does x i n count blk \<longleftrightarrow> (\<forall>H E c. sane c \<longrightarrow> host_sane H \<longrightarrow>
     (\<exists>c'. c_exec H x i c = Some (Next, c') \<and> sane c' \<and> block_computes H no_helper E c n count blk c'))"

lemma block_computes_sane:
  "block_computes H no_helper E c n count blk c' \<Longrightarrow> sane c \<Longrightarrow> host_sane H \<Longrightarrow> sane c'"
  by (auto simp: block_computes_def dest: ir_run_sane)

lemma straight_block:
  assumes "straight i" "block_ready f n h" "lower_block i n count f h = Some (f', h')"
  shows "does x i n count (fn_blocks f' ! n)"
  unfolding does_def
proof (intro allI impI)
  fix H :: host and E and c :: CPUState
  assume c: "sane c" "host_sane H"
  have wf: "wf_fields i" "\<not> inst_embedded_data i" using assms(1) by (simp_all add: straight_def)
  note ready = assms(2) [unfolded block_ready_def]
  show "\<exists>c'. c_exec H x i c = Some (Next, c') \<and> sane c' \<and> block_computes H no_helper E c n count (fn_blocks f' ! n) c'"
  proof (cases "inst_op i \<in> set agreed_integer_ops \<and> \<not> inst_oe i")
    case True
    then obtain act where act: "c_integer i = Some act" "agree (lower_integer i) act"
      using agree_integer [OF wf(1)] by blast
    note plain = integer_ops_plain [OF conjunct1 [OF True]]
    have b: "agree (lower_body i) act"
      using act(2) unfolding agree_def lower_body_def by (metis runs_or_else)
    have "wf_regs c" using c(1) by (simp add: sane_def)
    from agree_block [OF b plain(1,2) wf(2) this, of n f h count H no_helper E] ready assms(3)
    obtain c' where c': "act c = Some c'" "block_computes H no_helper E c n count (fn_blocks f' ! n) c'"
      by auto
    moreover have "c_exec H x i c = Some (Next, c')"
      using act(1) c'(1) plain(2,3) wf(2) by (simp add: c_exec_def)
    ultimately show ?thesis
      using block_computes_sane c by blast
  next
    case False
    then have m: "inst_op i \<in> set agreed_memory_ops" using assms(1) unfolding straight_def by blast
    obtain act where act: "\<forall>h. c_memory h i = Some (act h)" "mem_agree (lower_memory i) act"
      using agree_memory [OF wf(1) m] by blast
    note plain = memory_ops_plain [OF m]
    have "mem_agree (lower_body i) act"
      using mem_agree_or_else [OF act(2)] by (simp add: lower_body_def plain(4))
    then obtain c' where c': "act H c = Some c'" "sane c'" "block_computes H no_helper E c n count (fn_blocks f' ! n) c'"
      using mem_agree_block [where E = E and hp = no_helper and count = count, OF _ plain(1,2) wf(2) c assms(2)] assms(3) by auto
    moreover have "c_exec H x i c = Some (Next, c')"
      using act(1) c'(1) plain wf(2) by (simp add: c_exec_def)
    ultimately show ?thesis by blast
  qed
qed

section \<open>The chunk\<close>

lemma straight_fall:
  assumes len: "length bs = length insts" "length (fn_blocks g) = length insts" "length insts < 2 ^ 32 - 1"
    and blocks: "\<forall>k < length insts. does x (insts ! k) k (length insts) (fn_blocks g ! k)"
    and ann: "list_all2 annotated_block (fn_blocks g) bs"
    and c: "sane c" "host_sane H"
  shows "n < length insts \<Longrightarrow> \<exists>c'. c_run H x (drop n insts) c = Some c' \<and> sane c' \<and>
    (\<exists>E'. ir_fall H hp (g\<lparr>fn_blocks := bs\<rparr>) (length insts - n) n (E, c) = Some (E', c'))"
  using c(1)
proof (induction "length insts - n" arbitrary: n c E)
  case (Suc d)
  let ?blk = "fn_blocks g ! n"
  have n: "n < length insts" using Suc.hyps(2) by linarith
  obtain c1 where c1: "c_exec H x (insts ! n) c = Some (Next, c1)" "sane c1"
    "block_computes H no_helper E c n (length insts) ?blk c1"
    using blocks n Suc.prems(2) c(2) unfolding does_def by blast
  then obtain E1 where E1: "ir_run H no_helper (blk_instructions ?blk) (E, c) = Some (E1, c1)"
    "term_kind (blk_terminator ?blk) = DOLIR_TERM_FALLTHROUGH"
    "fst (term_targets (blk_terminator ?blk)) = (if n + 1 < length insts then of_nat (n + 1) else DOLIR_NO_BLOCK)"
    by (auto simp: block_computes_def)
  have ab: "annotated_block ?blk (bs ! n)"
    using ann n len by (simp add: list_all2_conv_all_nth)
  have run: "ir_run H hp (blk_instructions (bs ! n)) (E, c) = Some (E1, c1)" "blk_terminator (bs ! n) = blk_terminator ?blk"
    using ab annotated_run [OF _ E1(1)] by (auto simp: annotated_block_def)
  have drop: "drop n insts = insts ! n # drop (n + 1) insts"
    using n by (simp add: Cons_nth_drop_Suc)
  have step: "length insts - n = Suc d" and d: "d = length insts - (n + 1)" using Suc.hyps(2) by simp_all
  show ?case
  proof (cases "n + 1 < length insts")
    case True
    have "unat (of_nat (n + 1) :: u32) = n + 1"
      using True len(3) by (simp add: unat_of_nat del: of_nat_Suc of_nat_add)
    then have k: "of_nat (n + 1) \<noteq> DOLIR_NO_BLOCK" "unat (of_nat (n + 1) :: u32) = n + 1"
      using True len(3) by (auto simp: word_unat_eq_iff simp del: of_nat_Suc of_nat_add)
    obtain c' E' where c': "c_run H x (drop (n + 1) insts) c1 = Some c'" "sane c'"
      "ir_fall H hp (g\<lparr>fn_blocks := bs\<rparr>) d (n + 1) (E1, c1) = Some (E', c')"
      using Suc.hyps(1) [OF d True c1(2), of E1] unfolding d [symmetric] by blast
    have "ir_fall H hp (g\<lparr>fn_blocks := bs\<rparr>) (Suc d) n (E, c) = Some (E', c')"
      using run E1(2,3) True k c'(3) n len by (simp add: arr_get_def Let_def del: of_nat_Suc of_nat_add)
    then show ?thesis
      using c' c1(1) by (auto simp: drop step)
  next
    case False
    then have "ir_fall H hp (g\<lparr>fn_blocks := bs\<rparr>) (Suc d) n (E, c) = Some (E1, c1)"
      using run E1(2,3) n len by (simp add: arr_get_def Let_def)
    then show ?thesis
      using False n c1(1,2) by (auto simp: drop step)
  qed
qed simp

text \<open>Two instructions: \<open>add. r3,r4,r5\<close> and \<open>lhax r3,r4,r5\<close>.\<close>

definition two_instructions :: "PPCInst list" where
  "two_instructions = [ppc_decode 0x7C642A15 0x80003100, ppc_decode 0x7C642AAE 0x80003104]"

lemma two_decoded:
  "two_instructions =
    [zero_inst\<lparr>inst_op := PPC_OP_ADD, inst_raw := 0x7C642A15, inst_address := 0x80003100, inst_rD := 3,
       inst_rA := 4, inst_rB := 5, inst_rc := True\<rparr>,
     zero_inst\<lparr>inst_op := PPC_OP_LHAX, inst_raw := 0x7C642AAE, inst_address := 0x80003104, inst_rD := 3,
       inst_rA := 4, inst_rB := 5\<rparr>]"
  unfolding two_instructions_def by (simp; intro conjI; code_simp)

lemma two_straight: "list_all straight two_instructions" "list_all wf_fields two_instructions"
    "two_instructions \<noteq> []" "length two_instructions = 2"
  by (simp_all add: two_decoded straight_def zero_inst_def wf_fields_def agreed_integer_ops_def agreed_memory_ops_def)

lemma good_heap_ok: "\<forall>k. allocs good_heap k"
  by (simp add: good_heap_def)

section \<open>Properties\<close>

text \<open>C3 For every chunk of decoded instructions, when no allocation fails,
  \<open>dolir_build_chunk\<close> returns a module that \<open>dolir_verify\<close> accepts: the functions built before and a
  new one with one block per instruction, every operand a value of the function, every state slot in
  range, every block terminated and every target a block.\<close>

theorem build_chunk_verified:
  assumes "insts \<noteq> []" "list_all wf_fields insts" "unat gs + 4 * length insts < 2 ^ 32" "\<forall>k. allocs h k"
    and "list_all verify_function (mod_functions m)"
  shows "\<exists>m' h' f. dolir_build_chunk m insts gs h = Some (True, m', h') \<and> dolir_verify m' \<and>
    mod_functions m' = mod_functions m @ [f] \<and> length (fn_blocks f) = length insts"
proof -
  have "heap_ok False h" using assms(4) by (simp add: heap_ok_def)
  from build_chunk_shape [OF assms(1,2) this, of gs "\<lambda>_ _. True" m]
  obtain m' h' g bs where b: "dolir_build_chunk m insts gs h = Some (True, m', h')"
    "function_typed False (length (fn_blocks g)) g" "length (fn_blocks g) = length insts" "fn_guest_start g = gs"
    "fn_guest_end g = gs + of_nat (length insts) * 4" "list_all2 annotated_block (fn_blocks g) bs"
    "mod_functions m' = mod_functions m @ [g\<lparr>fn_blocks := bs\<rparr>]"
    by auto
  have "verify_function (g\<lparr>fn_blocks := bs\<rparr>)"
  proof (rule analyzed_function_ok [OF b(2,6)])
    show "fn_guest_start g < fn_guest_end g"
      using chunk_extent [OF assms(3)] assms(1) b(4,5) by simp
    show "fn_blocks g \<noteq> []"
      using assms(1) b(3) by auto
  qed
  then have "dolir_verify m'"
    using assms(5) b(7) by (simp add: dolir_verify_def)
  then show ?thesis
    using b(1,3,6,7) by (auto dest: list_all2_lengthD)
qed

theorem build_chunk_verified_witness:
  "\<exists>m' h'. dolir_build_chunk dolir_module_init two_instructions 0x80003100 good_heap = Some (True, m', h') \<and> dolir_verify m'"
proof -
  have "unat (0x80003100 :: u32) + 4 * length two_instructions < 2 ^ 32"
    "list_all verify_function (mod_functions dolir_module_init)"
    by (simp_all add: two_straight(4) dolir_module_init_def)
  then show ?thesis
    using build_chunk_verified [OF two_straight(3,2) _ good_heap_ok] by blast
qed




text \<open>A machine with 64 bytes of memory.\<close>

definition chunk_cpu :: CPUState where
  "chunk_cpu = (zero_cpu [])\<lparr>ram := Some (replicate 64 0), ram_size := 64\<rparr>"


end
