(* ===== verification/Branches.thy ===== *)
theory Branches
  imports ChunkRun
begin

text \<open>
  Branches.  The terminator of a block is given the meaning \<open>emitTerminator\<close> of
  \<open>src/backend/llvm/control_flow.cpp\<close> compiles it with, and the two back ends are compared on where a
  branch goes and what it does to the machine.
\<close>

section \<open>Leaving a block\<close>

datatype exit_kind = To_block nat | Leave u32 | Jump u32

definition slot_exit :: "DolIRTerminator \<Rightarrow> nat \<Rightarrow> exit_kind" where
  "slot_exit t k =
     (if term_target t k = DOLIR_NO_BLOCK
      then Leave (if k = 0 then fst (term_target_addresses t) else snd (term_target_addresses t))
      else To_block (unat (term_target t k)))"

definition ir_exit :: "DolIRTerminator \<Rightarrow> (nat \<Rightarrow> irval) \<Rightarrow> exit_kind option" where
  "ir_exit t E =
     (if term_kind t = DOLIR_TERM_FALLTHROUGH \<or> term_kind t = DOLIR_TERM_BRANCH then Some (slot_exit t 0)
      else if term_kind t = DOLIR_TERM_COND_BRANCH then
        (case E (term_condition t) of V1 p \<Rightarrow> Some (slot_exit t (if p then 0 else 1)) | _ \<Rightarrow> None)
      else if term_kind t = DOLIR_TERM_INDIRECT then
        (case E (term_condition t) of
           V1 p \<Rightarrow> if p then (case E (term_target_value t) of V32 a \<Rightarrow> Some (Jump a) | _ \<Rightarrow> None)
                   else Some (slot_exit t 1)
         | _ \<Rightarrow> None)
      else None)"

text \<open>The guest address an exit goes to.\<close>

definition exit_pc :: "DolIRFunction \<Rightarrow> exit_kind \<Rightarrow> u32" where
  "exit_pc f e = (case e of To_block k \<Rightarrow> fn_guest_start f + 4 * of_nat k | Leave a \<Rightarrow> a | Jump a \<Rightarrow> a)"

text \<open>The guest address the emitted statements go to.\<close>

definition flow_pc :: "PPCInst \<Rightarrow> flow \<Rightarrow> CPUState \<Rightarrow> u32" where
  "flow_pc i r c = (case r of
     Next \<Rightarrow> inst_address i + 4 | Goto a \<Rightarrow> a | Return \<Rightarrow> pc c | ReturnDispatch \<Rightarrow> pc c | CallChunk _ _ \<Rightarrow> pc c)"

section \<open>What the emitting operations leave alone\<close>

definition frame :: "Builder \<Rightarrow> DolIRTerminator \<times> u32 \<times> u32" where
  "frame b = (blk_terminator (b_block b), fn_guest_start (b_function b), fn_guest_end (b_function b))"

definition keeps :: "'a lowering \<Rightarrow> bool" where
  "keeps m \<longleftrightarrow> (\<forall>b. frame (snd (run_state m b)) = frame b)"

named_theorems keep_intros \<open>operations that keep the frame\<close>

lemma keeps_ret [keep_intros]: "keeps (ret v)"
  by (simp add: keeps_def)

lemma keeps_bind [keep_intros]: "keeps m \<Longrightarrow> (\<And>v. keeps (k v)) \<Longrightarrow> keeps (m \<bind> k)"
  unfolding keeps_def by (simp add: State_Monad.bind_def split: prod.splits) (metis snd_conv)

lemma keeps_if [keep_intros]: "keeps m \<Longrightarrow> keeps m' \<Longrightarrow> keeps (if p then m else m')"
  by simp

lemma append_keeps:
  "dolir_append f blk h op ty xs imm aux gpc eff = Some (v, g, blk', h') \<Longrightarrow>
   blk_terminator blk' = blk_terminator blk \<and> fn_guest_start g = fn_guest_start f \<and> fn_guest_end g = fn_guest_end f"
  by (auto simp: dolir_append_def Let_def bind_eq_Some_conv split: if_splits prod.splits)

lemma keeps_append [keep_intros]:
  "keeps (on_block d (\<lambda>f blk h. dolir_append f blk h op ty xs imm aux gpc eff))"
  by (auto simp: keeps_def on_block_def frame_def split: option.splits dest: append_keeps)

lemma keeps_write_slot [keep_intros]: "keeps (write_slot i s v)"
  unfolding write_slot_def
proof (rule keeps_bind)
  show "keeps (on_block False (\<lambda>f blk h. dolir_state_write f blk h s v (inst_address i)))"
    using keeps_append unfolding keeps_def on_block_state_write by (simp add: Let_def split_beta)
qed (rule keeps_ret)

lemma keeps_read [keep_intros]: "keeps (read_slot i s)" "keeps (c32 i k)" "keeps (c1 i p)"
  unfolding read_slot_def dolir_state_read_def c32_def c1_def constant_value_def dolir_constant_def
  by (intro keep_intros)+

lemma keeps_binary [keep_intros]: "keeps (binary i op ty x y)" "keeps (unary i op ty x)" "keeps (binary_c32 i op x k)"
  unfolding binary_def unary_def binary_c32_def emit_op_def emit_def by (intro keep_intros)+

lemma keeps_condition [keep_intros]: "keeps (branch_condition i)"
  unfolding branch_condition_def read_cr_field_def Let_def by (intro keep_intros)

lemma keeps_write_link [keep_intros]: "keeps (write_link i)"
  unfolding write_link_def by (intro keep_intros)

lemma runs_framed:
  assumes "runs P m Q" "keeps m"
  shows "runs (\<lambda>b. P b \<and> frame b = a) m (\<lambda>v b. Q v b \<and> frame b = a)"
  using assms unfolding runs_def keeps_def by (simp add: split_beta)

section \<open>The condition\<close>

lemma unat_and_3: "unat (w AND 3) = unat w mod 4" for w :: u8
proof -
  have "w AND 3 = take_bit 2 w"
    by (simp add: take_bit_eq_mask mask_numeral)
  then show ?thesis
    by (simp add: unsigned_take_bit_eq take_bit_eq_mod unat_mod)
qed

lemma shr_8: "j < 4 \<Longrightarrow> shr (8 :: u32) j = shl 1 (3 - j)"
proof -
  assume "j < 4"
  then have "j = 0 \<or> j = 1 \<or> j = 2 \<or> j = 3" by auto
  then show ?thesis by (elim disjE) simp_all
qed

lemma cr_bit_test:
  assumes "unat bi < 32"
  shows "get_cr_field w (unat (bi div 4)) AND shr 8 (unat (bi AND 3)) \<noteq> 0 \<longleftrightarrow> w AND shr 0x80000000 (unat (bi :: u8)) \<noteq> 0"
proof -
  let ?k = "unat bi div 4" and ?j = "unat bi mod 4"
  have k: "unat (bi div 4) = ?k" by (simp add: unat_div)
  have n: "28 - 4 * ?k + (3 - ?j) = 31 - unat bi" using assms by presburger
  have f: "bit (0xF :: u32) (3 - ?j)"
    by (cases "?j = 0"; cases "?j = 1"; cases "?j = 2") auto
  have "get_cr_field w ?k AND shr 8 ?j \<noteq> 0 \<longleftrightarrow> bit (get_cr_field w ?k) (3 - ?j)"
    by (subst shr_8) (auto simp: and_one_shl simp del: push_bit_of_1)
  also have "\<dots> \<longleftrightarrow> bit w (31 - unat bi)"
    using f by (simp add: get_cr_field_def cr_shift_def bit_and_iff bit_drop_bit_eq n [symmetric])
  finally show ?thesis
    using assms by (simp add: k unat_and_3 and_top_bit)
qed

lemma step_branch_condition:
  assumes c: "emit_branch_condition i c = (taken, c')" and wf: "unat (inst_bi i) < 32" and n: "0 < n"
    and k: "\<And>m F v. v < m \<Longrightarrow> 0 < m \<Longrightarrow> F v = V1 taken \<Longrightarrow> runs (holds R m F c') (f v) Q"
  shows "runs (holds R n E c) (branch_condition i \<bind> f) Q"
proof -
  have bi: "unat (inst_bi i div 4) < 8" using wf by (simp add: unat_div)
  show ?thesis
    unfolding branch_condition_def compositions Let_def cr_field_slot_def
    by (insert c n wf bi cr_bit_test [OF wf, of "cr c"],
      cases "inst_bo i AND 0x04 = 0"; cases "inst_bo i AND 0x10 = 0";
       simp only: if_True if_False simp_thms;
       ((rule steps k step_read_slot step_write_slot | simp add: ir_eval slot_read_def slot_write_def slot_write32_def emit_branch_condition_def; fail |
         (auto simp: ir_eval emit_branch_condition_def; fail) | rule runs_state [where c' = c'])+))
qed

section \<open>Setting the terminator\<close>

definition retarget :: "DolIRTerminator \<Rightarrow> Builder \<Rightarrow> Builder" where
  "retarget t b = b\<lparr>b_block := (b_block b)\<lparr>blk_terminator := t\<rparr>\<rparr>"

abbreviation (input) b_term :: "Builder \<Rightarrow> DolIRTerminator" where
  "b_term b \<equiv> blk_terminator (b_block b)"

definition aim :: "DolIRFunction \<Rightarrow> u32 \<Rightarrow> nat \<Rightarrow> DolIRTerminator \<Rightarrow> DolIRTerminator" where
  "aim f a slot t = t\<lparr>term_target_addresses := put_slot slot a (term_target_addresses t),
     term_targets := put_slot slot
       (case block_for_address f a of Some index \<Rightarrow> index | None \<Rightarrow> DOLIR_NO_BLOCK) (term_targets t)\<rparr>"

lemma retarget_simps [simp]:
  "b_undefined (retarget t b) = b_undefined b" "b_function (retarget t b) = b_function b"
  "blk_terminator (b_block (retarget t b)) = t" "retarget t (retarget u b) = retarget t b"
  "holds R n E c (retarget t b) = holds R n E c b"
  by (simp_all add: retarget_def holds_def)

lemma run_set_term: "\<not> b_undefined b \<Longrightarrow> run_state (set_term u) b = ((), retarget (u (b_term b)) b)"
  by (simp add: set_term_def retarget_def)

lemma run_direct_target:
  "\<not> b_undefined b \<Longrightarrow> run_state (direct_target a slot) b = ((), retarget (aim (b_function b) a slot (b_term b)) b)"
  by (simp add: direct_target_def get_function_def set_term_def retarget_def aim_def State_Monad.bind_def)

text \<open>Where a direct branch to \<open>a\<close> goes.\<close>

definition target_exit :: "DolIRFunction \<Rightarrow> u32 \<Rightarrow> exit_kind" where
  "target_exit f a = (case block_for_address f a of Some k \<Rightarrow> To_block (unat k) | None \<Rightarrow> Leave a)"

lemma block_index_small: "block_for_address f a = Some k \<Longrightarrow> k \<noteq> DOLIR_NO_BLOCK"
proof -
  assume "block_for_address f a = Some k"
  then have "k = (a - fn_guest_start f) div 4"
    by (auto simp: block_for_address_def Let_def split: if_splits)
  moreover have "unat ((a - fn_guest_start f) div 4) < 2 ^ 32 - 1"
    using unsigned_less [of "a - fn_guest_start f", where 'a = nat] by (simp add: unat_div)
  ultimately show ?thesis
    by (auto simp: word_unat_eq_iff)
qed

lemma slot_exit_aim:
  "k < 2 \<Longrightarrow> slot_exit (aim f a k t) k = target_exit f a"
  "slot_exit (aim f a (Suc 0) t) 0 = slot_exit t 0"
  using block_index_small [of f a]
  by (auto simp: slot_exit_def aim_def put_slot_def term_target_def target_exit_def split: option.splits)

lemma aim_fields [simp]:
  "term_kind (aim f a k t) = term_kind t" "term_condition (aim f a k t) = term_condition t"
  "term_target_value (aim f a k t) = term_target_value t"
  by (simp_all add: aim_def)

text \<open>A target inside the function is the address of its block.\<close>

lemma exit_pc_target: "exit_pc f (target_exit f a) = a"
proof (cases "block_for_address f a")
  case None
  then show ?thesis by (simp add: target_exit_def exit_pc_def)
next
  case (Some k)
  let ?d = "a - fn_guest_start f"
  have k: "k = ?d div 4" "?d AND 3 = 0"
    using Some by (auto simp: block_for_address_def Let_def split: if_splits)
  have "?d AND 3 = take_bit 2 ?d"
    by (simp add: take_bit_eq_mask mask_numeral)
  also have "\<dots> = ?d mod 4"
    by (simp add: take_bit_eq_mod)
  finally have "?d AND 3 = ?d mod 4" .
  then have "4 * (?d div 4) = ?d"
    using k(2) by (metis add.right_neutral mult_div_mod_eq)
  then show ?thesis
    by (simp add: target_exit_def exit_pc_def Some k(1))
qed

section \<open>The lowerings\<close>

definition linked :: "PPCInst \<Rightarrow> CPUState \<Rightarrow> CPUState" where
  "linked i c = (if inst_lk i then c\<lparr>lr := inst_address i + 4\<rparr> else c)"

lemma run_write_link:
  assumes "0 < n"
  shows "runs (holds R n E c) (write_link i) (\<lambda>_ b. \<exists>m F. holds R m F (linked i c) b \<and> (\<forall>k < n. F k = E k))"
proof -
  have "runs (holds R n E c) (write_link i \<bind> (\<lambda>_. ret ())) (\<lambda>_ b. \<exists>m F. holds R m F (linked i c) b \<and> (\<forall>k < n. F k = E k))"
  proof (cases "inst_lk i")
    case True
    show ?thesis
      unfolding write_link_def
      by (simp only: True if_True,
        (rule steps step_write_slot | simp add: slot_write_def slot_write32_def; fail)+)
        (auto simp: runs_def linked_def True intro!: exI [of _ "Suc n"] exI [of _ "E(n := V32 (inst_address i + 4))"])
  next
    case False
    then show ?thesis by (auto simp: write_link_def runs_def linked_def)
  qed
  then show ?thesis by simp
qed

text \<open>The block goes to \<open>e\<close> in state \<open>c\<close>.\<close>

definition goes :: "lowering_env \<Rightarrow> CPUState \<Rightarrow> exit_kind \<Rightarrow> bool \<Rightarrow> Builder \<Rightarrow> bool" where
  "goes R c e ok b \<longleftrightarrow> ok \<and> (\<exists>n E. holds R n E c b \<and> ir_exit (b_term b) E = Some e)"

text \<open>Functions of the same extent.\<close>

definition extent :: "DolIRFunction \<Rightarrow> Builder \<Rightarrow> bool" where
  "extent f b \<longleftrightarrow> fn_blocks (b_function b) = fn_blocks f \<and> fn_guest_start (b_function b) = fn_guest_start f \<and>
     fn_guest_end (b_function b) = fn_guest_end f"

lemma extent_target: "extent f b \<Longrightarrow> target_exit (b_function b) a = target_exit f a"
  using block_for_address_cong [of "b_function b" f a] by (simp add: extent_def target_exit_def)

lemma extent_retarget [simp]: "extent f (retarget t b) = extent f b"
  by (simp add: extent_def)

lemma holds_blocks: "holds R n E c b \<Longrightarrow> fn_blocks (b_function b) = env_blocks R"
  by (simp add: holds_def)

lemma holds_defined: "holds R n E c b \<Longrightarrow> \<not> b_undefined b"
  by (simp add: holds_def)

lemma goesI: "holds R n E c b \<Longrightarrow> ir_exit (b_term b) E = Some e \<Longrightarrow> goes R c e True b"
  by (auto simp: goes_def)

lemmas run_tail_simps = State_Monad.bind_def run_set_term run_direct_target

text \<open>The state a terminator is set in.\<close>

definition ready :: "lowering_env \<Rightarrow> DolIRFunction \<Rightarrow> DolIRTerminator \<Rightarrow> CPUState \<Rightarrow> (nat \<Rightarrow> (nat \<Rightarrow> irval) \<Rightarrow> bool) \<Rightarrow> Builder \<Rightarrow> bool" where
  "ready R f t c P b \<longleftrightarrow> (\<exists>n E. holds R n E c b \<and> P n E) \<and> extent f b \<and> b_term b = t"

lemma ready_tail:
  assumes "\<And>b n E. \<not> b_undefined b \<Longrightarrow> P n E \<Longrightarrow> extent f b \<Longrightarrow> b_term b = t \<Longrightarrow>
    (case run_state m b of (v, b') \<Rightarrow> v \<and> b' = retarget (b_term b') b \<and> ir_exit (b_term b') E = Some e)"
  shows "runs (ready R f t c P) m (goes R c e)"
  unfolding runs_def
proof (intro allI impI)
  fix b assume b: "ready R f t c P b"
  then obtain n E where h: "holds R n E c b" "P n E" "extent f b" "b_term b = t" by (auto simp: ready_def)
  obtain v b' where r: "run_state m b = (v, b')" by (cases "run_state m b")
  then have b': "v" "b' = retarget (b_term b') b" "ir_exit (b_term b') E = Some e"
    using assms [OF holds_defined [OF h(1)] h(2,3,4)] by simp_all
  then have "holds R n E c b'"
    using h(1) by (metis retarget_simps(5))
  then show "case run_state m b of (v, b') \<Rightarrow> goes R c e v b'"
    using b' r by (auto simp: goes_def)
qed

lemma ready_frame:
  assumes "fn_blocks f = env_blocks R" "keeps m"
    and "\<And>n E. 0 < n \<Longrightarrow> P n E \<Longrightarrow> runs (holds R n E c) m (\<lambda>v b. \<exists>n E. holds R n E c' b \<and> Q v n E)"
  shows "runs (\<lambda>b. (\<exists>n E. holds R n E c b \<and> P n E) \<and> extent f b \<and> b_term b = t) m (\<lambda>v. ready R f t c' (Q v))"
  unfolding runs_def
proof (intro allI impI)
  fix b assume b: "(\<exists>n E. holds R n E c b \<and> P n E) \<and> extent f b \<and> b_term b = t"
  then obtain n E where h: "holds R n E c b" "P n E" by blast
  then have n: "0 < n" by (simp add: holds_def)
  have "frame b = (t, fn_guest_start f, fn_guest_end f)"
    using b by (simp add: frame_def extent_def)
  with runs_framed [OF assms(3) [OF n h(2)] assms(2), of "(t, fn_guest_start f, fn_guest_end f)"] h(1)
  have "case run_state m b of (v, b') \<Rightarrow> (\<exists>n E. holds R n E c' b' \<and> Q v n E) \<and> frame b' = (t, fn_guest_start f, fn_guest_end f)"
    by (simp add: runs_def)
  then show "case run_state m b of (v, b') \<Rightarrow> ready R f t c' (Q v) b'"
    using assms(1) by (auto simp: ready_def extent_def frame_def holds_blocks split: prod.splits)
qed

lemma ready_link:
  assumes "fn_blocks f = env_blocks R" "\<And>n E m F. P n E \<Longrightarrow> (\<forall>k < n. F k = E k) \<Longrightarrow> Q m F"
  shows "runs (ready R f t c P) (write_link i) (\<lambda>_. ready R f t (linked i c) Q)"
  unfolding ready_def [of R f t c]
proof (rule ready_frame [OF assms(1) keeps_write_link])
  fix n E assume p: "0 < n" "P n E"
  show "runs (holds R n E c) (write_link i) (\<lambda>_ b. \<exists>n E. holds R n E (linked i c) b \<and> Q n E)"
    by (rule runs_post [OF run_write_link [OF p(1)]]) (use assms(2) [OF p(2)] in blast)
qed

lemma ready_set:
  "runs (ready R f t c P) (set_term u) (\<lambda>_. ready R f (u t) c P)"
  unfolding runs_def
proof (intro allI impI)
  fix b assume b: "ready R f t c P b"
  then have "\<not> b_undefined b" by (auto simp: ready_def dest: holds_defined)
  with b show "case run_state (set_term u) b of (_, b) \<Rightarrow> ready R f (u t) c P b"
    by (simp add: ready_def run_set_term)
qed

lemma ready_start:
  assumes "\<And>t. runs (ready R f t c (\<lambda>m F. m = n \<and> F = E)) m Q"
  shows "runs (\<lambda>b. holds R n E c b \<and> extent f b) m Q"
  using assms by (auto simp: runs_def ready_def)

lemma goes_b:
  assumes f: "fn_blocks f = env_blocks R" and n: "0 < n"
  shows "runs (\<lambda>b. holds R n E c b \<and> extent f b) (lower_b i) (goes R (linked i c) (target_exit f (inst_branch_target i)))"
proof -
  have "runs (ready R f t c (\<lambda>m F. m = n \<and> F = E)) (lower_b i)
      (goes R (linked i c) (target_exit f (inst_branch_target i)))" for t
    unfolding lower_b_def
  proof (rule runs_bind)
    show "runs (ready R f t c (\<lambda>m F. m = n \<and> F = E)) (write_link i) (\<lambda>_. ready R f t (linked i c) (\<lambda>_ _. True))"
      by (rule ready_link [OF f]) simp
  next
    fix v
    show "runs (ready R f t (linked i c) (\<lambda>_ _. True))
       (set_term (\<lambda>t. t\<lparr>term_kind := DOLIR_TERM_BRANCH, term_linked := inst_lk i, term_guest_pc := inst_address i\<rparr>) \<bind>
        (\<lambda>_. direct_target (inst_branch_target i) 0 \<bind> (\<lambda>_. ret True)))
       (goes R (linked i c) (target_exit f (inst_branch_target i)))"
      by (rule ready_tail) (auto simp: run_tail_simps ir_exit_def slot_exit_aim extent_target)
  qed
  then show ?thesis by (rule ready_start)
qed

lemma goes_bc:
  assumes f: "fn_blocks f = env_blocks R" and n: "0 < n" and bi: "unat (inst_bi i) < 32"
    and c: "emit_branch_condition i (linked i c) = (taken, c')"
  shows "runs (\<lambda>b. holds R n E c b \<and> extent f b) (lower_bc i)
    (goes R c' (target_exit f (if taken then inst_branch_target i else inst_address i + 4)))" (is "runs _ _ ?Q")
proof -
  have "runs (ready R f t c (\<lambda>m F. m = n \<and> F = E)) (lower_bc i) ?Q" for t
    unfolding lower_bc_def
  proof (rule runs_bind)
    show "runs (ready R f t c (\<lambda>m F. m = n \<and> F = E)) (write_link i) (\<lambda>_. ready R f t (linked i c) (\<lambda>_ _. True))"
      by (rule ready_link [OF f]) simp
  next
    fix u :: unit
    show "runs (ready R f t (linked i c) (\<lambda>_ _. True)) (branch_condition i \<bind> (\<lambda>condition.
        set_term (\<lambda>t. t\<lparr>term_kind := DOLIR_TERM_COND_BRANCH, term_condition := condition,
          term_linked := inst_lk i, term_guest_pc := inst_address i\<rparr>) \<bind> (\<lambda>_.
        direct_target (inst_branch_target i) 0 \<bind> (\<lambda>_. direct_target (inst_address i + 4) 1 \<bind> (\<lambda>_. ret True))))) ?Q"
    proof (rule runs_bind)
      have "runs (holds R m F (linked i c)) (branch_condition i \<bind> ret) (\<lambda>v b. \<exists>n E. holds R n E c' b \<and> E v = V1 taken)"
        if "0 < m" for m F
        by (rule step_branch_condition [OF c bi that]) (auto simp: runs_def)
      then show "runs (ready R f t (linked i c) (\<lambda>_ _. True)) (branch_condition i) (\<lambda>v. ready R f t c' (\<lambda>_ E. E v = V1 taken))"
        unfolding ready_def [of R f t "linked i c"]
        by (intro ready_frame [OF f keeps_condition]) simp
    next
      fix v
      show "runs (ready R f t c' (\<lambda>_ E. E v = V1 taken)) (set_term (\<lambda>t. t\<lparr>term_kind := DOLIR_TERM_COND_BRANCH, term_condition := v,
          term_linked := inst_lk i, term_guest_pc := inst_address i\<rparr>) \<bind> (\<lambda>_.
        direct_target (inst_branch_target i) 0 \<bind> (\<lambda>_. direct_target (inst_address i + 4) 1 \<bind> (\<lambda>_. ret True)))) ?Q"
        by (rule ready_tail) (auto simp: run_tail_simps ir_exit_def slot_exit_aim extent_target)
    qed
  qed
  then show ?thesis by (rule ready_start)
qed

text \<open>The part of \<open>lower_indirect\<close> in front of its terminator.\<close>

lemma run_indirect_target:
  assumes c: "emit_branch_condition i c = (taken, c')" and bi: "unat (inst_bi i) < 32" and n: "0 < n"
  shows "runs (holds R n E c) (branch_condition i \<bind> (\<lambda>p. read_slot i (if inst_op i = PPC_OP_BCLR then DOLIR_STATE_LR else DOLIR_STATE_CTR) \<bind>
      (\<lambda>v. binary_c32 i DOLIR_OP_AND v (NOT 3) \<bind> (\<lambda>t. ret (p, t)))))
    (\<lambda>r b. \<exists>n E. holds R n E c' b \<and> fst r < n \<and> snd r < n \<and> E (fst r) = V1 taken \<and>
      E (snd r) = V32 ((if inst_op i = PPC_OP_BCLR then lr c' else ctr c') AND NOT 3))"
proof (rule step_branch_condition [OF c bi n], goal_cases)
  case (1 m F v)
  show ?case
    unfolding compositions
    by (insert 1, (rule steps step_read_slot [where v = "V32 (if inst_op i = PPC_OP_BCLR then lr c' else ctr c')"] | simp add: ir_eval slot_read_def; fail)+) (fastforce simp: runs_def)
qed

lemma goes_indirect:
  assumes f: "fn_blocks f = env_blocks R" and n: "0 < n" and bi: "unat (inst_bi i) < 32"
    and c: "emit_branch_condition i c = (taken, c')"
  shows "runs (\<lambda>b. holds R n E c b \<and> extent f b) (lower_indirect i)
    (goes R (linked i c') (if taken then Jump ((if inst_op i = PPC_OP_BCLR then lr c' else ctr c') AND NOT 3)
       else target_exit f (inst_address i + 4)))" (is "runs _ _ ?Q")
proof -
  let ?a = "(if inst_op i = PPC_OP_BCLR then lr c' else ctr c') AND NOT 3"
  let ?A = "branch_condition i \<bind> (\<lambda>p. read_slot i (if inst_op i = PPC_OP_BCLR then DOLIR_STATE_LR else DOLIR_STATE_CTR) \<bind>
      (\<lambda>v. binary_c32 i DOLIR_OP_AND v (NOT 3) \<bind> (\<lambda>t. ret (p, t))))"
  let ?kind = "\<lambda>p q t. t\<lparr>term_kind := DOLIR_TERM_INDIRECT, term_condition := p, term_target_value := q\<rparr>"
  let ?link = "\<lambda>t. t\<lparr>term_linked := inst_lk i, term_guest_pc := inst_address i\<rparr>"
  have split: "lower_indirect i = ?A \<bind> (\<lambda>(p, q). set_term (?kind p q) \<bind> (\<lambda>_. write_link i \<bind> (\<lambda>_.
      set_term ?link \<bind> (\<lambda>_. direct_target (inst_address i + 4) 1 \<bind> (\<lambda>_. ret True)))))"
    unfolding lower_indirect_def by simp
  have "runs (ready R f t c (\<lambda>m F. m = n \<and> F = E)) (lower_indirect i) ?Q" for t
    unfolding split
  proof (rule runs_bind)
    have "keeps ?A" by (intro keep_intros)
    then show "runs (ready R f t c (\<lambda>m F. m = n \<and> F = E)) ?A
        (\<lambda>r. ready R f t c' (\<lambda>m F. fst r < m \<and> snd r < m \<and> F (fst r) = V1 taken \<and> F (snd r) = V32 ?a))"
      unfolding ready_def [of R f t c]
      by (rule ready_frame [OF f]) (rule run_indirect_target [OF c bi])
  next
    fix v :: "DolIRValue \<times> DolIRValue"
    obtain p q where v: "v = (p, q)" by (cases v)
    let ?P = "\<lambda>m F. p < m \<and> q < m \<and> F p = V1 taken \<and> F q = V32 ?a"
    have "runs (ready R f t c' ?P) (set_term (?kind p q) \<bind> (\<lambda>_. write_link i \<bind> (\<lambda>_.
      set_term ?link \<bind> (\<lambda>_. direct_target (inst_address i + 4) 1 \<bind> (\<lambda>_. ret True))))) ?Q"
    proof (rule runs_bind [OF ready_set], rule runs_bind [OF ready_link [OF f]])
      show "F p = V1 taken \<and> F q = V32 ?a" if "?P n E" "\<forall>k < n. F k = E k" for n E and m :: nat and F
        using that by simp
      show "runs (ready R f (?kind p q t) (linked i c') (\<lambda>m F. F p = V1 taken \<and> F q = V32 ?a))
          (set_term ?link \<bind> (\<lambda>_. direct_target (inst_address i + 4) 1 \<bind> (\<lambda>_. ret True))) ?Q"
        by (rule ready_tail) (auto simp: run_tail_simps ir_exit_def slot_exit_aim extent_target)
    qed
    then show "runs (ready R f t c' (\<lambda>m F. fst v < m \<and> snd v < m \<and> F (fst v) = V1 taken \<and> F (snd v) = V32 ?a))
        (case v of (p, q) \<Rightarrow> set_term (?kind p q) \<bind> (\<lambda>_. write_link i \<bind> (\<lambda>_.
      set_term ?link \<bind> (\<lambda>_. direct_target (inst_address i + 4) 1 \<bind> (\<lambda>_. ret True))))) ?Q"
      by (simp add: v)
  qed
  then show ?thesis by (rule ready_start)
qed

section \<open>The block of a branch\<close>

definition block_goes :: "host \<Rightarrow> helper \<Rightarrow> (nat \<Rightarrow> irval) \<Rightarrow> CPUState \<Rightarrow> DolIRBlock \<Rightarrow> CPUState \<Rightarrow> exit_kind \<Rightarrow> bool" where
  "block_goes H hp E c blk c' e \<longleftrightarrow>
     (\<exists>E'. ir_run H hp (blk_instructions blk) (E, c) = Some (E', c') \<and> ir_exit (blk_terminator blk) E' = Some e)"

lemma branch_block:
  assumes "\<not> ppc_op_uses_fpu (inst_op i)" "\<not> inst_embedded_data i" "block_ready f n h"
    and run: "runs (\<lambda>b. holds (block_start H hp E c f) (length (fn_value_types f)) E c b \<and> extent f b) (lower_control i)
      (goes (block_start H hp E c f) c' e)"
  shows "\<exists>f' h'. lower_block i n count f h = Some (f', h') \<and> block_goes H hp E c (fn_blocks f' ! n) c' e"
proof -
  let ?b = "\<lparr>b_function = f, b_block = fn_blocks f ! n, b_heap = h, b_undefined = False\<rparr>"
  let ?b1 = "?b\<lparr>b_block := (fn_blocks f ! n)\<lparr>blk_raw := inst_raw i, blk_cycle_cost := dolir_instruction_cycle_cost i\<rparr>\<rparr>"
  note ok = assms(3) [unfolded block_ready_def]
  have "holds (block_start H hp E c f) (length (fn_value_types f)) E c ?b1 \<and> extent f ?b1"
    using ok by (simp add: holds_def block_start_def extent_def)
  then have "case run_state (lower_control i) ?b1 of (v, b) \<Rightarrow> goes (block_start H hp E c f) c' e v b"
    by (rule run [unfolded runs_def, rule_format])
  moreover obtain ok' b2 where b2': "run_state (lower_control i) ?b1 = (ok', b2)" by (rule prod.exhaust)
  ultimately have g: "goes (block_start H hp E c f) c' e ok' b2" by (simp only: prod.case)
  then have "ok'" by (simp only: goes_def)
  with b2' g have b2: "run_state (lower_control i) ?b1 = (True, b2)" "goes (block_start H hp E c f) c' e True b2"
    by (simp_all only: simp_thms)
  obtain m F where h': "holds (block_start H hp E c f) m F c' b2" "ir_exit (b_term b2) F = Some e"
    using b2(2) by (auto simp: goes_def)
  have i: "run_state (lower_instruction i n count) ?b = ((), b2)"
    using assms(1,2) b2(1) by (simp add: lower_instruction_def set_cost_def)
  have l: "lower_block i n count f h = Some ((b_function b2)\<lparr>fn_blocks := (fn_blocks f)[n := b_block b2]\<rparr>, b_heap b2)"
    using ok h'(1) by (simp add: lower_block_def i arr_get_def arr_set_def holds_def block_start_def)
  have "block_goes H hp E c (b_block b2) c' e"
    using h' by (auto simp: block_goes_def holds_def block_start_def)
  then show ?thesis
    using l ok by simp
qed

lemma condition_linked:
  "emit_branch_condition i (linked i c) =
     (fst (emit_branch_condition i c), linked i (snd (emit_branch_condition i c)))"
  by (simp add: emit_branch_condition_def linked_def Let_def)

lemma condition_keeps:
  "lr (snd (emit_branch_condition i c)) = lr c" "pc (snd (emit_branch_condition i c)) = pc c"
  "inst_bo i AND 4 \<noteq> 0 \<Longrightarrow> ctr (snd (emit_branch_condition i c)) = ctr c"
  by (simp_all add: emit_branch_condition_def Let_def)

section \<open>The chunk table\<close>

text \<open>The binary search ends, in range, at the first start above the address.\<close>

lemma mid_between: "lo < hi \<Longrightarrow> lo \<le> lo + (hi - lo) div 2 \<and> lo + (hi - lo) div 2 < hi" for lo hi :: nat
  by presburger

lemma chunk_search_step:
  "lo < hi \<Longrightarrow> hi \<le> length starts \<Longrightarrow> chunk_search starts a lo hi =
     (if starts ! (lo + (hi - lo) div 2) \<le> a then chunk_search starts a (lo + (hi - lo) div 2 + 1) hi
      else chunk_search starts a lo (lo + (hi - lo) div 2))"
  "\<not> lo < hi \<Longrightarrow> chunk_search starts a lo hi = Some lo"
  by (subst chunk_search.simps, use mid_between [of lo hi] in \<open>simp add: Let_def arr_get_def del: chunk_search.simps\<close>)
    (subst chunk_search.simps, simp del: chunk_search.simps)

lemma chunk_search_total:
  "lo \<le> hi \<Longrightarrow> hi \<le> length starts \<Longrightarrow> \<exists>r. chunk_search starts a lo hi = Some r \<and> lo \<le> r \<and> r \<le> hi"
proof (induction "hi - lo" arbitrary: lo hi rule: less_induct)
  case less
  show ?case
  proof (cases "lo < hi")
    case True
    define m where "m = lo + (hi - lo) div 2"
    have m: "lo \<le> m" "m < hi" using mid_between [OF True] by (simp_all add: m_def)
    have "\<exists>r. chunk_search starts a (m + 1) hi = Some r \<and> m + 1 \<le> r \<and> r \<le> hi"
      by (rule less(1)) (use m less(3) in auto)
    moreover have "\<exists>r. chunk_search starts a lo m = Some r \<and> lo \<le> r \<and> r \<le> m"
      by (rule less(1)) (use m less(3) in auto)
    ultimately show ?thesis
      using m by (simp only: chunk_search_step(1) [OF True less(3)] m_def [symmetric] split: if_splits) fastforce
  qed (use less in \<open>simp add: chunk_search_step(2) del: chunk_search.simps\<close>)
qed

text \<open>On a sorted table it separates the starts up to the address from those above it.\<close>

definition splits_at :: "u32 list \<Rightarrow> u32 \<Rightarrow> nat \<Rightarrow> nat \<Rightarrow> bool" where
  "splits_at starts a lo hi \<longleftrightarrow> (\<forall>k < lo. starts ! k \<le> a) \<and> (\<forall>k < length starts. hi \<le> k \<longrightarrow> a < starts ! k)"

lemma splits_low: "sorted starts \<Longrightarrow> m < length starts \<Longrightarrow> starts ! m \<le> a \<Longrightarrow> splits_at starts a lo hi \<Longrightarrow> splits_at starts a (m + 1) hi"
  by (auto simp: splits_at_def less_Suc_eq_le intro: order_trans [OF sorted_nth_mono])

lemma splits_high: "sorted starts \<Longrightarrow> \<not> starts ! m \<le> a \<Longrightarrow> splits_at starts a lo hi \<Longrightarrow> splits_at starts a lo m"
  by (auto simp: splits_at_def not_le intro: less_le_trans [OF _ sorted_nth_mono])

lemma chunk_search_exact:
  "sorted starts \<Longrightarrow> lo \<le> hi \<Longrightarrow> hi \<le> length starts \<Longrightarrow> splits_at starts a lo hi \<Longrightarrow>
   chunk_search starts a lo hi = Some r \<Longrightarrow> splits_at starts a r r"
proof (induction "hi - lo" arbitrary: lo hi rule: less_induct)
  case less
  show ?case
  proof (cases "lo < hi")
    case True
    define m where "m = lo + (hi - lo) div 2"
    have m: "lo \<le> m" "m < hi" using mid_between [OF True] by (simp_all add: m_def)
    note step = less(6) [unfolded chunk_search_step(1) [OF True less(4)] m_def [symmetric]]
    show ?thesis
    proof (cases "starts ! m \<le> a")
      case low: True
      have s: "splits_at starts a (m + 1) hi"
        by (rule splits_low [OF less(2) _ low less(5)]) (use m less(4) in simp)
      show ?thesis
        by (rule less(1) [OF _ less(2) _ less(4) s]) (use m step low in auto)
    next
      case high: False
      show ?thesis
        by (rule less(1) [OF _ less(2) _ _ splits_high [OF less(2) high less(5)]]) (use m step high less(4) in auto)
    qed
  next
    case False
    with less(3,5,6) show ?thesis by (simp add: chunk_search_step(2) del: chunk_search.simps)
  qed
qed

lemma chunk_start_total: "\<exists>s. chunk_start_for starts a = Some s"
  using chunk_search_total [of 0 "length starts" starts a] by (auto simp: chunk_start_for_def arr_get_def)

section \<open>The emitted statements\<close>

lemma direct_branch_shape:
  "\<exists>r d. emit_direct_branch x i c = Some (r, d) \<and> flow_pc i r d = inst_branch_target i \<and> d\<lparr>pc := pc c\<rparr> = linked i c"
  using chunk_start_total [of "chunk_starts x" "inst_branch_target i"]
  by (auto simp: emit_direct_branch_def emit_cross_chunk_call_def leave_to_def jump_back_def flow_pc_def linked_def Let_def)

lemma dynamic_branch_shape:
  assumes "emit_branch_condition i c = (taken, c')" "emit_dynamic_branch i a route c = (r, d)"
  shows "flow_pc i r d = (if taken then a else inst_address i + 4) \<and>
    d\<lparr>pc := pc c'\<rparr> = (if taken then linked i c' else c')"
  using assms by (auto simp: emit_dynamic_branch_def flow_pc_def linked_def Let_def split: if_splits)

lemma filter_splits: "splits_at starts a r r \<Longrightarrow> r \<le> length starts \<Longrightarrow> filter (\<lambda>s. s \<le> a) starts = take r starts"
proof -
  assume s: "splits_at starts a r r" "r \<le> length starts"
  have "filter (\<lambda>s. s \<le> a) (take r starts) = take r starts"
    using s by (auto simp: splits_at_def in_set_conv_nth intro!: filter_True)
  moreover have "filter (\<lambda>s. s \<le> a) (drop r starts) = []"
  proof (rule filter_False, intro ballI)
    fix t assume "t \<in> set (drop r starts)"
    then obtain k where "k < length starts - r" "t = starts ! (r + k)" by (auto simp: in_set_conv_nth)
    then show "\<not> t \<le> a" using s(1) by (simp add: splits_at_def not_le)
  qed
  ultimately show ?thesis
    by (metis append_Nil2 append_take_drop_id filter_append)
qed

lemma last_take_nth: "0 < r \<Longrightarrow> r \<le> length xs \<Longrightarrow> last (take r xs) = xs ! (r - 1)"
  by (subst last_conv_nth) auto

text \<open>\<open>c_exec\<close> on a branch.\<close>

lemma c_exec_branch_simps:
  "\<not> inst_embedded_data i \<Longrightarrow> inst_op i = PPC_OP_B \<Longrightarrow> c_exec H x i c = emit_direct_branch x i c"
  "\<not> inst_embedded_data i \<Longrightarrow> inst_op i = PPC_OP_BC \<Longrightarrow> c_exec H x i c =
     (case emit_branch_condition i c of (taken, c) \<Rightarrow> if taken then emit_direct_branch x i c else Some (Next, c))"
  "\<not> inst_embedded_data i \<Longrightarrow> inst_op i = PPC_OP_BCLR \<Longrightarrow>
     c_exec H x i c = Some (emit_dynamic_branch i (lr c AND NOT 3) (route_local_returns x) c)"
  "\<not> inst_embedded_data i \<Longrightarrow> inst_op i = PPC_OP_BCCTR \<Longrightarrow>
     c_exec H x i c = Some (emit_dynamic_branch i (ctr c AND NOT 3) False c)"
  by (simp_all add: c_exec_def ppc_op_uses_fpu_def float_calls_def c_integer_def c_float_def c_memory_def c_state_def
    c_control_def c_bc_def)

section \<open>Properties\<close>

text \<open>The instructions compared: the branch forms the decoder produces; a \<open>bcctr\<close> that counts is not one.\<close>

definition branches :: "PPCInst \<Rightarrow> bool" where
  "branches i \<longleftrightarrow> wf_fields i \<and> \<not> inst_embedded_data i \<and>
     (inst_op i \<in> {PPC_OP_B, PPC_OP_BC, PPC_OP_BCLR} \<or> inst_op i = PPC_OP_BCCTR \<and> inst_bo i AND 4 \<noteq> 0)"

definition branch_outcome :: "PPCInst \<Rightarrow> CPUState \<Rightarrow> bool \<times> CPUState" where
  "branch_outcome i c = (if inst_op i = PPC_OP_B then (True, c) else emit_branch_condition i c)"

definition branch_destination :: "PPCInst \<Rightarrow> CPUState \<Rightarrow> u32" where
  "branch_destination i c =
     (if inst_op i = PPC_OP_BCLR then lr c AND NOT 3 else if inst_op i = PPC_OP_BCCTR then ctr c AND NOT 3
      else inst_branch_target i)"

lemma c_exec_branch:
  assumes "branches i" "branch_outcome i c = (taken, c')"
  obtains r d where "c_exec H x i c = Some (r, d)" "d\<lparr>pc := pc c\<rparr> = (if taken then linked i c' else c')"
    "flow_pc i r d = (if taken then branch_destination i c else inst_address i + 4)"
proof -
  note goal = that
  have d: "\<exists>r d. emit_direct_branch x i c' = Some (r, d) \<and> flow_pc i r d = inst_branch_target i \<and> d\<lparr>pc := pc c'\<rparr> = linked i c'"
    by (rule direct_branch_shape)
  have p: "pc c' = pc c"
    using assms(2) condition_keeps(2) [of i c] by (auto simp: branch_outcome_def split: if_splits)
  have ne: "\<not> inst_embedded_data i" using assms(1) by (simp add: branches_def)
  have dynamic: thesis
    if e: "c_exec H x i c = Some (emit_dynamic_branch i (branch_destination i c) route c)"
      and c: "emit_branch_condition i c = (taken, c')" for route
  proof -
    obtain r d where rd: "emit_dynamic_branch i (branch_destination i c) route c = (r, d)" by (rule prod.exhaust)
    show thesis
      by (rule goal [of r d]) (use e dynamic_branch_shape [OF c rd] in \<open>simp_all add: rd p\<close>)
  qed
  have direct: thesis
    if "c_exec H x i c = emit_direct_branch x i c'" "branch_destination i c = inst_branch_target i" taken
    using d that goal
    by (auto simp: p)
  consider (b) "inst_op i = PPC_OP_B" | (bc) "inst_op i = PPC_OP_BC" | (bclr) "inst_op i = PPC_OP_BCLR" |
    (bcctr) "inst_op i = PPC_OP_BCCTR"
    using assms(1) by (auto simp: branches_def)
  then show thesis
  proof cases
    case b
    then show thesis
      using assms(2) by (intro direct) (simp_all add: branch_outcome_def branch_destination_def c_exec_branch_simps(1) [OF ne b])
  next
    case bc
    then have c: "emit_branch_condition i c = (taken, c')" using assms(2) by (simp add: branch_outcome_def)
    show thesis
    proof (cases taken)
      case True
      with bc c show thesis
        by (intro direct) (simp_all add: branch_destination_def c_exec_branch_simps(2) [OF ne bc])
    next
      case False
      show thesis
        by (rule that [of Next c'])
          (use False c in \<open>simp_all add: p [symmetric] c_exec_branch_simps(2) [OF ne bc] flow_pc_def\<close>)
    qed
  next
    case bclr
    then show thesis
      using assms(2) by (intro dynamic) (simp_all add: branch_outcome_def branch_destination_def c_exec_branch_simps(3) [OF ne bclr])
  next
    case bcctr
    then show thesis
      using assms(2) by (intro dynamic) (simp_all add: branch_outcome_def branch_destination_def c_exec_branch_simps(4) [OF ne bcctr])
  qed
qed

lemma exit_pc_indirect: "exit_pc f (if taken then Jump t else target_exit f a) = (if taken then t else a)"
  by (simp add: exit_pc_target) (simp add: exit_pc_def)

lemma lower_branch:
  assumes "branches i" "branch_outcome i c = (taken, c')" "block_ready f n h"
  obtains f' h' e where "lower_block i n count f h = Some (f', h')"
    "block_goes H hp E c (fn_blocks f' ! n) (linked i c') e"
    "exit_pc f e = (if taken then branch_destination i c else inst_address i + 4)"
proof -
  let ?R = "block_start H hp E c f"
  have R: "fn_blocks f = env_blocks ?R" by (simp add: block_start_def)
  have n: "0 < length (fn_value_types f)" using assms(3) by (simp add: block_ready_def)
  have bi: "unat (inst_bi i) < 32"
    using assms(1) by (simp add: branches_def wf_fields_def word_less_nat_alt)
  have plain: "\<not> ppc_op_uses_fpu (inst_op i)" "\<not> inst_embedded_data i"
    using assms(1) by (auto simp: branches_def ppc_op_uses_fpu_def)
  note block = branch_block [OF plain assms(3), of H hp E c _ _ count]
  consider "inst_op i = PPC_OP_B" | "inst_op i = PPC_OP_BC" | "inst_op i \<in> {PPC_OP_BCLR, PPC_OP_BCCTR}"
    using assms(1) by (auto simp: branches_def)
  then show thesis
  proof cases
    case 1
    have "runs (\<lambda>b. holds ?R (length (fn_value_types f)) E c b \<and> extent f b) (lower_control i)
        (goes ?R (linked i c) (target_exit f (inst_branch_target i)))"
      using goes_b [OF R n] 1 by (simp add: lower_control_def)
    from block [OF this] 1 assms(2) that show thesis
      by (auto simp: branch_outcome_def branch_destination_def exit_pc_target)
  next
    case 2
    then have "emit_branch_condition i (linked i c) = (taken, linked i c')"
      using assms(2) by (simp add: branch_outcome_def condition_linked)
    then have "runs (\<lambda>b. holds ?R (length (fn_value_types f)) E c b \<and> extent f b) (lower_control i)
        (goes ?R (linked i c') (target_exit f (if taken then inst_branch_target i else inst_address i + 4)))"
      using goes_bc [OF R n bi] 2 by (simp add: lower_control_def)
    from block [OF this] 2 that show thesis
      by (auto simp: branch_destination_def exit_pc_target)
  next
    case 3
    then have c: "emit_branch_condition i c = (taken, c')"
      using assms(2) by (auto simp: branch_outcome_def)
    have a: "(if inst_op i = PPC_OP_BCLR then lr c' else ctr c') AND NOT 3 = branch_destination i c"
      using 3 c assms(1) condition_keeps(1,3) [of i c] by (auto simp: branches_def branch_destination_def)
    have "runs (\<lambda>b. holds ?R (length (fn_value_types f)) E c b \<and> extent f b) (lower_control i)
        (goes ?R (linked i c') (if taken then Jump (branch_destination i c) else target_exit f (inst_address i + 4)))"
      using goes_indirect [OF R n bi c, of E] 3 unfolding a by (auto simp: lower_control_def)
    from block [OF this] that show thesis
      by (auto simp: exit_pc_indirect)
  qed
qed

text \<open>C8 The two back ends agree on where a branch goes, on whether it is
  taken and on the count register: \<open>b\<close>, \<open>bc\<close>, \<open>bclr\<close> and a \<open>bcctr\<close> that does not count, taken or not,
  inside the function or out of it, by a jump, a return or a call of another chunk.  The link register
  agrees too, except after a linked branch that is not taken: there the terminator's block has written
  it and the emitted statements have not.\<close>

theorem branch_backends_agree:
  assumes "branches i" "block_ready f n h" "branch_outcome i c = (taken, c')"
  shows "\<exists>r d f' h' e. c_exec H x i c = Some (r, d) \<and> lower_block i n count f h = Some (f', h') \<and>
    block_goes H hp E c (fn_blocks f' ! n) (linked i c') e \<and> d\<lparr>pc := pc c\<rparr> = (if taken then linked i c' else c') \<and>
    exit_pc f e = flow_pc i r d \<and> flow_pc i r d = (if taken then branch_destination i c else inst_address i + 4)"
proof -
  obtain r d where c: "c_exec H x i c = Some (r, d)" "d\<lparr>pc := pc c\<rparr> = (if taken then linked i c' else c')"
    "flow_pc i r d = (if taken then branch_destination i c else inst_address i + 4)"
    by (rule c_exec_branch [OF assms(1,3)])
  obtain f' h' e where l: "lower_block i n count f h = Some (f', h')"
    "block_goes H hp E c (fn_blocks f' ! n) (linked i c') e"
    "exit_pc f e = (if taken then branch_destination i c else inst_address i + 4)"
    by (rule lower_branch [OF assms(1,3,2)])
  have "exit_pc f e = flow_pc i r d" by (simp only: c(3) l(3))
  with c l(1,2) show ?thesis by blast
qed

text \<open>\<open>bdnzl\<close> with a count of one: not taken, and the link registers differ.\<close>

theorem branch_backends_agree_witness:
  "\<forall>x hp E. \<exists>r d f' h' e.
    c_exec no_host x (ppc_decode 0x42000009 0x80003100) ((zero_cpu [])\<lparr>ctr := 1\<rparr>) = Some (r, d) \<and>
    lower_block (ppc_decode 0x42000009 0x80003100) 0 1 fresh_function good_heap = Some (f', h') \<and>
    block_goes no_host hp E ((zero_cpu [])\<lparr>ctr := 1\<rparr>) (fn_blocks f' ! 0) ((zero_cpu [])\<lparr>lr := 0x80003104\<rparr>) e \<and>
    d\<lparr>pc := 0\<rparr> = zero_cpu [] \<and> exit_pc fresh_function e = 0x80003104"
proof (intro allI)
  fix x hp E
  let ?i = "ppc_decode 0x42000009 0x80003100" and ?c = "(zero_cpu [])\<lparr>ctr := 1\<rparr>"
  have i: "?i = zero_inst\<lparr>inst_op := PPC_OP_BC, inst_raw := 0x42000009, inst_address := 0x80003100,
      inst_bo := 16, inst_branch_target := 0x80003108, inst_lk := True\<rparr>"
    by code_simp
  have "branches ?i" by (simp add: i branches_def zero_inst_def wf_fields_def)
  moreover have "branch_outcome ?i ?c = (False, zero_cpu [])"
    by (simp add: i branch_outcome_def emit_branch_condition_def zero_inst_def zero_cpu_def)
  moreover have "linked ?i (zero_cpu []) = (zero_cpu [])\<lparr>lr := 0x80003104\<rparr>" "inst_address ?i + 4 = 0x80003104"
    "pc ?c = 0"
    by (simp_all add: i linked_def zero_inst_def zero_cpu_def)
  ultimately show "\<exists>r d f' h' e. c_exec no_host x ?i ?c = Some (r, d) \<and>
      lower_block ?i 0 1 fresh_function good_heap = Some (f', h') \<and>
      block_goes no_host hp E ?c (fn_blocks f' ! 0) ((zero_cpu [])\<lparr>lr := 0x80003104\<rparr>) e \<and>
      d\<lparr>pc := 0\<rparr> = zero_cpu [] \<and> exit_pc fresh_function e = 0x80003104"
    using branch_backends_agree [OF _ fresh_ready, of ?i ?c False "zero_cpu []" no_host x 1 hp E] by metis
qed

text \<open>C40 The start of the chunk of an address, in a sorted table: \<open>chunk_start_for\<close> returns
  the last start that is not above the address, and 0 when there is none; every access of its search
  is in the table.\<close>

theorem chunk_start_exact:
  assumes "sorted starts"
  shows "chunk_start_for starts a =
    Some (let below = filter (\<lambda>s. s \<le> a) starts in if below = [] then 0 else last below)"
proof -
  obtain r where r: "chunk_search starts a 0 (length starts) = Some r" "r \<le> length starts"
    using chunk_search_total [of 0 "length starts" starts a] by auto
  have "splits_at starts a r r"
    by (rule chunk_search_exact [OF assms _ _ _ r(1)]) (simp_all add: splits_at_def)
  then have f: "filter (\<lambda>s. s \<le> a) starts = take r starts"
    using r(2) by (rule filter_splits)
  show ?thesis
    using r by (cases "r = 0") (auto simp: f chunk_start_for_def arr_get_def last_take_nth)
qed

theorem chunk_start_exact_witness:
  "chunk_start_for [0x80003000, 0x80003100, 0x80004000] 0x80003ffc = Some 0x80003100"
  using chunk_start_exact [where starts = "[0x80003000, 0x80003100, 0x80004000]" and a = "0x80003ffc"] by simp

end
