(* ===== verification/CSafe.thy ===== *)
theory CSafe
  imports Branches
begin

text \<open>
  The emitted statements of every instruction but the floating point calls: they run to the end on every
  machine that satisfies the invariants, keep the invariants, and leave the cycle counter alone.
\<close>

section \<open>Machines with a given cycle count\<close>

definition steady :: "u64 \<Rightarrow> CPUState \<Rightarrow> bool" where
  "steady d c \<longleftrightarrow> sane c \<and> downcount c = d"

text \<open>What the host callbacks keep.\<close>

definition host_steady :: "host \<Rightarrow> bool" where
  "host_steady H \<longleftrightarrow>
     (\<forall>f. external_write H = Some f \<longrightarrow> (\<forall>d c a v n. steady d c \<longrightarrow> steady d (f c a v n))) \<and>
     (\<forall>f. external_read H = Some f \<longrightarrow> (\<forall>d c a n. steady d c \<longrightarrow> steady d (snd (f c a n)))) \<and>
     (\<forall>f. external_write32 H = Some f \<longrightarrow> (\<forall>d c a v n. steady d c \<longrightarrow> steady d (f c a v n))) \<and>
     (\<forall>f. external_read32 H = Some f \<longrightarrow> (\<forall>d c a n. steady d c \<longrightarrow> steady d (snd (f c a n)))) \<and>
     (\<forall>f. instruction_fallback H = Some f \<longrightarrow> (\<forall>d c raw cia. steady d c \<longrightarrow> steady d (f c raw cia)))"

lemma steady_simps [simp]:
  "steady d (c\<lparr>pc := v\<rparr>) = steady d c" "steady d (c\<lparr>lr := v\<rparr>) = steady d c" "steady d (c\<lparr>ctr := v\<rparr>) = steady d c"
  "steady d (c\<lparr>cr := v\<rparr>) = steady d c" "steady d (c\<lparr>xer := v\<rparr>) = steady d c" "steady d (c\<lparr>fpscr := v\<rparr>) = steady d c"
  "steady d (c\<lparr>msr := v\<rparr>) = steady d c" "steady d (c\<lparr>srr0 := v\<rparr>) = steady d c" "steady d (c\<lparr>srr1 := v\<rparr>) = steady d c"
  "steady d (c\<lparr>dar := v\<rparr>) = steady d c" "steady d (c\<lparr>dsisr := v\<rparr>) = steady d c" "steady d (c\<lparr>ear := v\<rparr>) = steady d c"
  "steady d (c\<lparr>hid2 := v\<rparr>) = steady d c" "steady d (c\<lparr>exception := v\<rparr>) = steady d c"
  "steady d (c\<lparr>program_exception := v\<rparr>) = steady d c" "steady d (c\<lparr>reserve_addr := v\<rparr>) = steady d c"
  "steady d (c\<lparr>reserve_valid := r\<rparr>) = steady d c" "steady d (c\<lparr>external_addr := v\<rparr>) = steady d c"
  "steady d (c\<lparr>external_value := v\<rparr>) = steady d c" "steady d (c\<lparr>external_rid := b\<rparr>) = steady d c"
  "steady d (c\<lparr>external_read_count := n\<rparr>) = steady d c" "steady d (c\<lparr>external_write_count := n\<rparr>) = steady d c"
  "steady d (c\<lparr>tlb_last_vps := v\<rparr>) = steady d c" "steady d (c\<lparr>tlb_last_index := v\<rparr>) = steady d c"
  "steady d (c\<lparr>tlb_invalidate_count := n'\<rparr>) = steady d c"
  by (simp_all add: steady_def sane_def wf_mem_def wf_regs_def)

lemma steady_arrays:
  "steady d c \<Longrightarrow> steady d (c\<lparr>gpr := (gpr c)[k := v]\<rparr>)" "steady d c \<Longrightarrow> steady d (c\<lparr>sr := (sr c)[k := v]\<rparr>)"
  "steady d c \<Longrightarrow> steady d (c\<lparr>gqr := (gqr c)[k := v]\<rparr>)" "steady d c \<Longrightarrow> steady d (c\<lparr>fpr := (fpr c)[k := w]\<rparr>)"
  "steady d c \<Longrightarrow> steady d (c\<lparr>ps1 := (ps1 c)[k := w]\<rparr>)"
  "steady d c \<Longrightarrow> steady d (c\<lparr>locked_cache_valid := (locked_cache_valid c)[k := b], locked_cache_tag := (locked_cache_tag c)[k := v]\<rparr>)"
  by (simp_all add: steady_def sane_def wf_mem_def wf_regs_def)

lemma steady_lengths:
  "steady d c \<Longrightarrow> length (gpr c) = 32" "steady d c \<Longrightarrow> length (fpr c) = 32" "steady d c \<Longrightarrow> length (ps1 c) = 32"
  "steady d c \<Longrightarrow> length (sr c) = 16" "steady d c \<Longrightarrow> length (gqr c) = 8"
  "steady d c \<Longrightarrow> length (locked_cache_valid c) = 512" "steady d c \<Longrightarrow> length (locked_cache_tag c) = 512"
  by (simp_all add: steady_def sane_def wf_regs_def)

lemma steady_exceptions [simp]:
  "steady d (ppc_take_exception c exc vec s info) = steady d c"
  "steady d (ppc_program_exception c cause cia) = steady d c"
  "steady d (ppc_dsi_exception c ea cia x) = steady d c"
  "steady d (ppc_alignment_exception c ea cia) = steady d c"
  "steady d (ppc_system_call_exception c cia) = steady d c"
  "steady d (ppc_rfi c cia) = steady d c"
  by (simp_all add: ppc_take_exception_def ppc_program_exception_def ppc_dsi_exception_def ppc_alignment_exception_def
    ppc_system_call_exception_def ppc_rfi_def Let_def)

lemma downcount_stored [simp]: "downcount (stored h c a r off n bs) = downcount c"
  by (cases r) (simp_all add: stored_def journal_write_def clear_matching_reservation_def Let_def)

section \<open>Statements that end with a result\<close>

definition gives :: "('a \<Rightarrow> bool) \<Rightarrow> 'a option \<Rightarrow> bool" where
  "gives Q x \<longleftrightarrow> (\<exists>v. x = Some v \<and> Q v)"

named_theorems gives_rules \<open>what the emitted statements end with\<close>

lemma gives_Some [simp]: "gives Q (Some v) = Q v"
  by (simp add: gives_def)

lemma gives_bind: "gives R m \<Longrightarrow> (\<And>v. R v \<Longrightarrow> gives Q (k v)) \<Longrightarrow> gives Q (m \<bind> k)"
  by (auto simp: gives_def)

lemma gives_map: "gives (\<lambda>v. Q (f v)) m \<Longrightarrow> gives Q (map_option f m)"
  by (auto simp: gives_def)

lemma gives_mono: "gives R m \<Longrightarrow> (\<And>v. R v \<Longrightarrow> Q v) \<Longrightarrow> gives Q m"
  by (auto simp: gives_def)

lemma gives_if: "(p \<Longrightarrow> gives Q x) \<Longrightarrow> (\<not> p \<Longrightarrow> gives Q y) \<Longrightarrow> gives Q (if p then x else y)"
  by simp

lemma gives_get: "k < length xs \<Longrightarrow> gives (\<lambda>_. True) (arr_get xs k)"
  by (simp add: gives_def arr_get_Some)

lemma gives_rd:
  "steady d c \<Longrightarrow> r < 32 \<Longrightarrow> gives (\<lambda>_. True) (rd c r)" "steady d c \<Longrightarrow> r < 32 \<Longrightarrow> gives (\<lambda>_. True) (rd_f c r)"
  "steady d c \<Longrightarrow> r < 32 \<Longrightarrow> gives (\<lambda>_. True) (rd_p c r)"
  by (simp_all add: rd_def rd_f_def rd_p_def gives_get steady_lengths word_less_nat_alt)

lemma gives_wr:
  "steady d c \<Longrightarrow> r < 32 \<Longrightarrow> gives (steady d) (wr c r v)" "steady d c \<Longrightarrow> r < 32 \<Longrightarrow> gives (steady d) (wr_f c r w)"
  "steady d c \<Longrightarrow> r < 32 \<Longrightarrow> gives (steady d) (wr_p c r w)"
  by (simp_all add: wr_def wr_f_def wr_p_def arr_set_Some steady_lengths steady_arrays word_less_nat_alt)

lemma gives_for_each:
  "(\<And>k s. P s \<Longrightarrow> gives P (f k s)) \<Longrightarrow> P s \<Longrightarrow> gives P (for_each ks f s)"
  by (induction ks arbitrary: s) (auto intro: gives_bind)

section \<open>Memory\<close>

context guest_port begin

lemma load_steady:
  assumes "steady d c" "host_steady h"
  shows "gives (\<lambda>r. steady d (snd r)) (load h c a)"
proof -
  from assms(1) have wf: "wf_mem c" by (simp add: steady_def sane_def)
  obtain p avail where res: "resolve_addr c a = Some (p, avail)"
    using resolve_addr_total [OF wf] by blast
  obtain v c' where ld: "load h c a = Some (v, c')"
    using load_total [OF wf] by blast
  have "steady d c'"
  proof (cases "p = None \<or> unat avail < width")
    case True
    with ld assms show ?thesis
      by (auto simp: load_miss [OF res] host_steady_def split: option.splits)
  next
    case False
    then obtain r off where "p = Some (r, off)" by auto
    with False ld res assms(1) show ?thesis
      using load_hit [of c a r off avail h] by (auto simp: bind_eq_Some_conv)
  qed
  with ld show ?thesis by simp
qed

lemma store_steady:
  assumes "steady d c" "host_steady h"
  shows "gives (steady d) (store h c a v)"
proof -
  from assms(1) have "wf_mem c" by (simp add: steady_def sane_def)
  then show ?thesis
  proof (cases rule: store_cases [of c a v h])
    case (hit r off bs bs')
    then have "steady d (stored h c a r off (of_nat width) bs')"
      using assms(1) wf_mem_stored [of c r bs bs'] wr_length [of bs _ v bs']
      by (simp add: steady_def sane_def)
    with hit show ?thesis by simp
  next
    case miss
    then show ?thesis
      using assms by (auto simp: host_steady_def split: option.split)
  qed
qed

end

lemmas gives_mem = port8.load_steady port16.load_steady port32.load_steady port64.load_steady
  port8.store_steady port16.store_steady port32.store_steady port64.store_steady

lemma gives_read:
  assumes "steady d c" "host_steady H"
  shows "gives (\<lambda>r. steady d (snd r)) (read_word H c ea)" "gives (\<lambda>r. steady d (snd r)) (read_byte H c ea)"
    "gives (\<lambda>r. steady d (snd r)) (read_half H c ea)" "gives (\<lambda>r. steady d (snd r)) (read_half_signed H c ea)"
    "gives (\<lambda>r. steady d (snd r)) (read_word_reversed H c ea)" "gives (\<lambda>r. steady d (snd r)) (read_half_reversed H c ea)"
  unfolding read_word_def read_byte_def read_half_def read_half_signed_def read_word_reversed_def read_half_reversed_def
  by (auto intro!: gives_map intro: gives_mono [OF gives_mem(1) [OF assms]] gives_mono [OF gives_mem(2) [OF assms]]
    gives_mono [OF gives_mem(3) [OF assms]])

lemma gives_write:
  assumes "steady d c" "host_steady H"
  shows "gives (steady d) (write_word H c ea v)" "gives (steady d) (write_half H c ea v)"
    "gives (steady d) (write_byte H c ea v)" "gives (steady d) (write_word_reversed H c ea v)"
    "gives (steady d) (write_half_reversed H c ea v)"
  using assms by (simp_all add: write_word_def write_half_def write_byte_def write_word_reversed_def write_half_reversed_def
    gives_mem)

section \<open>The parts of the emitted statements\<close>

lemma steady_flags [simp]:
  "steady d (put_ca c ca) = steady d c" "steady d (put_ca_of c w) = steady d c" "steady d (ppc_set_xer_ov c ov) = steady d c"
  "steady d (overflow_if i ov c) = steady d c" "steady d (emit_set_cr1_from_fpscr c) = steady d c"
  "steady d (cr1_if i c) = steady d c" "steady d (put_cr crf v c) = steady d c"
  "steady d (emit_compare_s32 crf x y c) = steady d c" "steady d (emit_compare_u32 crf x y c) = steady d c"
  "steady d (emit_cr_logical i expr c) = steady d c" "steady d (ppc_fpscr_updated c) = steady d c"
  "steady d (c_mtfsb i c) = steady d c" "steady d (c_mcrfs i c) = steady d c" "steady d (c_mtfsfi i c) = steady d c"
  "steady d (c_mcrf i c) = steady d c" "steady d (c_mcrxr i c) = steady d c"
  by (simp_all add: put_ca_def put_ca_of_def ppc_set_xer_ov_def overflow_if_def emit_set_cr1_from_fpscr_def cr1_if_def
    put_cr_def emit_compare_s32_def emit_compare_u32_def emit_cr_logical_def ppc_fpscr_updated_def c_mtfsb_def c_mcrfs_def
    c_mtfsfi_def c_mcrf_def c_mcrxr_def Let_def)

lemma wf_field_bounds:
  assumes "wf_fields i"
  shows "inst_rD i < 32" "inst_rA i < 32" "inst_rS i < 32" "inst_rB i < 32" "inst_rC i < 32" "inst_me i < 32"
    "inst_mb i < 32"
  using assms by (simp_all add: wf_fields_def)

lemma gives_cr0: "steady d c \<Longrightarrow> r < 32 \<Longrightarrow> gives (steady d) (emit_set_cr0_from_gpr r c)"
  unfolding emit_set_cr0_from_gpr_def Let_def by (rule gives_bind, rule gives_rd, assumption+, simp)

lemma gives_record: "steady d c \<Longrightarrow> r < 32 \<Longrightarrow> gives (steady d) (emit_record_if_needed i r c)"
  by (simp add: emit_record_if_needed_def gives_cr0)

lemma gives_pair: "(\<And>a b. r = (a, b) \<Longrightarrow> gives Q (f a b)) \<Longrightarrow> gives Q (case r of (a, b) \<Rightarrow> f a b)"
  by (cases r) simp

lemma gives_update: "steady d c \<Longrightarrow> wf_fields i \<Longrightarrow> gives (steady d) (emit_update i update ea c)"
  by (simp add: emit_update_def gives_wr wf_field_bounds)

lemma gives_ea:
  assumes "steady d c" "wf_fields i"
  shows "gives (\<lambda>_. True) (emit_dform_ea i update c)" "gives (\<lambda>_. True) (emit_xform_ea i update c)"
    "gives (\<lambda>_. True) (emit_ea i indexed update c)" "gives (\<lambda>_. True) (base_or_zero i c)"
    "gives (\<lambda>_. True) (indexed_or_base i c)"
proof -
  note rules = gives_rd(1) [OF assms(1)] wf_field_bounds [OF assms(2)]
  show 1: "gives (\<lambda>_. True) (emit_dform_ea i update c)" "gives (\<lambda>_. True) (emit_xform_ea i update c)"
    "gives (\<lambda>_. True) (base_or_zero i c)"
    unfolding emit_dform_ea_def emit_xform_ea_def base_or_zero_def
    by (rule gives_if gives_bind rules | (simp add: rules; fail))+
  then show "gives (\<lambda>_. True) (emit_ea i indexed update c)" by (simp add: emit_ea_def)
  show "gives (\<lambda>_. True) (indexed_or_base i c)"
    unfolding indexed_or_base_def by (rule gives_bind 1 rules | (simp add: rules; fail))+
qed

lemmas gives_ctl = gives_if gives_bind gives_pair gives_map

lemmas gives_ops = gives_rd gives_wr gives_cr0 gives_record gives_update gives_ea gives_read
  gives_write gives_mem

section \<open>Integer instructions\<close>

lemma gives_wide:
  assumes "steady d c" "wf_fields i"
  shows "gives (steady d) (c_wide_add i x y k c)" "gives (steady d) (c_minus_one i x c)"
  unfolding c_wide_add_def c_minus_one_def Let_def
  by (rule gives_ctl gives_ops [where d = d] | (simp add: assms wf_field_bounds [OF assms(2)]; fail))+

lemma gives_arith:
  assumes "steady d c" "wf_fields i"
  shows "gives (steady d) (c_mulli i c)" "gives (steady d) (c_subfic i c)" "gives (steady d) (c_addi i v c)"
    "gives (steady d) (c_addic i c)" "gives (steady d) (c_logical_imm i f r c)" "gives (steady d) (c_ori i c)"
    "gives (steady d) (c_compare_imm i c)" "gives (steady d) (c_compare i c)" "gives (steady d) (c_add i c)"
    "gives (steady d) (c_addc i c)" "gives (steady d) (c_adde i c)" "gives (steady d) (c_addze i c)"
    "gives (steady d) (c_addme i c)" "gives (steady d) (c_subf i c)" "gives (steady d) (c_subfc i c)"
    "gives (steady d) (c_subfe i c)" "gives (steady d) (c_subfze i c)" "gives (steady d) (c_subfme i c)"
    "gives (steady d) (c_neg i c)" "gives (steady d) (c_mullw i c)" "gives (steady d) (c_mulhw i c)"
    "gives (steady d) (c_mulhwu i c)" "gives (steady d) (c_divw i c)" "gives (steady d) (c_divwu i c)"
    "gives (steady d) (c_logical i g c)" "gives (steady d) (c_unary i f c)"
  unfolding c_mulli_def c_subfic_def c_addi_def c_addic_def c_ori_def c_logical_imm_def c_compare_imm_def c_compare_def
    c_add_def c_addc_def c_adde_def c_addze_def c_addme_def c_subf_def c_subfc_def c_subfe_def c_subfze_def c_subfme_def
    c_neg_def c_mullw_def c_mulhw_def c_mulhwu_def c_divw_def c_divwu_def c_logical_def c_unary_def Let_def
  by (rule gives_ctl gives_ops [where d = d] gives_wide [where d = d] | (simp add: assms wf_field_bounds [OF assms(2)]; fail))+

lemma gives_mask: "wf_fields i \<Longrightarrow> gives (\<lambda>_. True) (emit_mask32 (inst_mb i) (inst_me i))"
  by (elim rotate_mask) (simp add: gives_def)

lemma gives_shift:
  assumes "steady d c" "wf_fields i"
  shows "gives (steady d) (c_sraw i c)" "gives (steady d) (c_rlwinm i c)" "gives (steady d) (c_rlwimi i c)"
  unfolding c_sraw_def c_rlwinm_def c_rlwimi_def Let_def
  by (rule gives_ctl gives_ops [where d = d] gives_mask | (simp add: assms wf_field_bounds [OF assms(2)]; fail))+

definition table_gives :: "u64 \<Rightarrow> CPUState \<Rightarrow> effect option \<Rightarrow> bool" where
  "table_gives d c t \<longleftrightarrow> (case t of None \<Rightarrow> True | Some act \<Rightarrow> gives (steady d) (act c))"

lemma table_gives_simps [simp]:
  "table_gives d c None" "table_gives d c (Some act) = gives (steady d) (act c)"
  by (simp_all add: table_gives_def)

lemma integer_gives: "steady d c \<Longrightarrow> wf_fields i \<Longrightarrow> table_gives d c (c_integer i)"
  unfolding c_integer_def by (rule switch_in_all) (simp_all add: gives_arith gives_shift)

section \<open>Floating point moves\<close>

lemma float_gives:
  assumes "steady d c" "wf_fields i"
  shows "table_gives d c (c_float i)"
proof -
  have ops: "gives (steady d) (c_fmove i f c)" "gives (steady d) (c_fsel i c)" "gives (steady d) (c_mffs i c)"
    "gives (steady d) (c_mtfsf i c)" "gives (steady d) (c_ps_sign i g c)" "gives (steady d) (c_ps_mr i c)"
    "gives (steady d) (emit_ps_merge i p q c)" for f g p q
    unfolding c_fmove_def c_fsel_def c_mffs_def c_mtfsf_def c_ps_sign_def c_ps_mr_def emit_ps_merge_def Let_def
    by (rule gives_ctl gives_ops [where d = d] | (simp add: assms wf_field_bounds [OF assms(2)]; fail))+
  have merge: "gives (steady d) (c_ps_merge i p q c)" for p q
    unfolding c_ps_merge_def by (rule gives_map, rule gives_mono [OF ops(7)]) simp
  show ?thesis
    unfolding c_float_def by (rule switch_in_all) (simp_all add: ops merge assms)
qed

section \<open>Loads and stores\<close>

lemma gives_load:
  assumes "steady d c" "wf_fields i" and r: "\<And>c ea. steady d c \<Longrightarrow> gives (\<lambda>r. steady d (snd r)) (read H c ea)"
  shows "gives (steady d) (emit_load H i read indexed update c)"
  unfolding emit_load_def
  by (rule gives_ctl r gives_ops [where d = d] | (simp add: assms(1,2) wf_field_bounds [OF assms(2)]; fail))+

lemma gives_store:
  assumes "steady d c" "wf_fields i" and w: "\<And>c ea v. steady d c \<Longrightarrow> gives (steady d) (write' H c ea v)"
  shows "gives (steady d) (emit_store H i write' indexed update c)"
  unfolding emit_store_def
  by (rule gives_ctl w gives_ops [where d = d] | (simp add: assms(1,2) wf_field_bounds [OF assms(2)]; fail))+

lemma gives_simple:
  assumes "steady d c" "wf_fields i" "host_steady H"
  shows "gives (steady d) (emit_fload H i single indexed update c)" "gives (steady d) (emit_fstore H i single indexed update c)"
    "gives (steady d) (emit_dcbz H i c)" "gives (steady d) (c_lwarx H i c)" "gives (steady d) (c_stfiwx H i c)"
  unfolding emit_fload_def emit_fstore_def emit_dcbz_def c_lwarx_def c_stfiwx_def Let_def
  by (rule gives_ctl gives_for_each [where P = "steady d"] gives_ops [where d = d] |
    (simp add: assms wf_field_bounds [OF assms(2)] del: for_each.simps upt_Suc; fail))+

lemma gives_stwcx:
  assumes "steady d c" "wf_fields i" "host_steady H"
  shows "gives (steady d) (c_stwcx H i c)"
  unfolding c_stwcx_def Let_def
  by (rule gives_bind [OF gives_ea(2) [OF assms(1,2)]], rule gives_bind [where R = "steady d"])
    (rule gives_ctl gives_ops [where d = d] | (simp add: assms wf_field_bounds [OF assms(2)]; fail))+

lemma reg_31: "(x :: u8) AND 31 < 32"
  by (rule and_field_bound) simp

lemma gives_string:
  assumes "steady d c" "host_steady H"
  shows "gives (steady d) (load_string H first ea count c)" "gives (steady d) (store_string H first ea count c)"
  unfolding load_string_def store_string_def Let_def
  by (rule gives_ctl gives_for_each [where P = "steady d"] gives_ops [where d = d] |
    (simp add: assms reg_31; fail))+

lemma gives_strings:
  assumes "steady d c" "wf_fields i" "host_steady H"
  shows "gives (steady d) (c_lswi H i c)" "gives (steady d) (c_stswi H i c)" "gives (steady d) (c_stswx H i c)"
  unfolding c_lswi_def c_stswi_def c_stswx_def
  by (rule gives_ctl gives_string gives_ops [where d = d] | (simp add: assms wf_field_bounds [OF assms(2)]; fail))+

lemma gives_for_each_in:
  "(\<And>k s. k \<in> set ks \<Longrightarrow> P s \<Longrightarrow> gives P (f k s)) \<Longrightarrow> P s \<Longrightarrow> gives P (for_each ks f s)"
  by (induction ks arbitrary: s) (auto intro: gives_bind)

lemma reg_of: "r < 32 \<Longrightarrow> (of_nat r :: u8) < 32"
  by (simp add: word_less_nat_alt unat_of_nat)

lemma gives_multiple:
  assumes "steady d c" "wf_fields i" "host_steady H"
  shows "gives (steady d) (c_lmw H i c)" "gives (steady d) (c_stmw H i c)"
  unfolding c_lmw_def c_stmw_def
  by (rule gives_ctl gives_for_each_in [where P = "\<lambda>s. steady d (fst s)"] gives_ops [where d = d] |
    (simp add: assms wf_field_bounds [OF assms(2)] reg_of del: of_nat_Suc; fail))+

lemma memory_gives:
  assumes "steady d c" "wf_fields i" "host_steady H"
  shows "table_gives d c (c_memory H i)"
  unfolding c_memory_def
  by (rule switch_in_all) (simp_all add: gives_load gives_store gives_simple gives_stwcx gives_strings gives_multiple gives_read gives_write assms)

section \<open>System state\<close>

lemma wf_more_bounds:
  assumes "wf_fields i"
  shows "inst_sr i < 16"
  using assms by (simp add: wf_fields_def)

lemma sr_bound: "sr_of w < 16"
proof -
  have "sr_of w \<le> unat (0xF :: u32)" unfolding sr_of_def by (rule unat_and_le_right)
  then show ?thesis by simp
qed

lemma gives_sr:
  assumes "steady d c"
  shows "k < 16 \<Longrightarrow> gives (\<lambda>_. True) (arr_get (sr c) k)" "k < 16 \<Longrightarrow> gives (steady d) (wr_sr c k v)"
  by (simp_all add: gives_get steady_lengths [OF assms] wr_sr_def arr_set_Some steady_arrays assms)

lemma state_gives:
  assumes "steady d c" "wf_fields i"
  shows "table_gives d c (c_state i)"
proof -
  have "unat (inst_sr i) < 16" using wf_more_bounds [OF assms(2)] by (simp add: word_less_nat_alt)
  note sr = this
  have ops: "gives (steady d) (c_mtcrf i c)" "gives (steady d) (c_mfsr i c)" "gives (steady d) (c_mfsrin i c)"
    "gives (steady d) (c_mtsr i c)" "gives (steady d) (c_mtsrin i c)" "gives (steady d) (wr c (inst_rD i) v)"
    "gives (steady d) (do { s \<leftarrow> rd c (inst_rS i); Some (c\<lparr>msr := s\<rparr>) })" for v
    unfolding c_mtcrf_def c_mfsr_def c_mfsrin_def c_mtsr_def c_mtsrin_def Let_def
    by (rule gives_ctl gives_sr [where d = d] gives_ops [where d = d] | (simp add: assms sr sr_bound wf_field_bounds [OF assms(2)]; fail))+
  show ?thesis
    unfolding c_state_def by (rule switch_in_all) (simp_all add: ops assms)
qed

section \<open>Control flow\<close>

text \<open>How the statements of an instruction end, besides keeping the machine steady: a jump goes to the branch
  target, backwards only while the cycle budget is not used up; a call resumes at the next instruction.\<close>

definition branch_op :: "PPCInst \<Rightarrow> bool" where
  "branch_op i \<longleftrightarrow> inst_op i = PPC_OP_B \<or> inst_op i = PPC_OP_BC"

definition local :: "emit_context \<Rightarrow> u32 \<Rightarrow> bool" where
  "local x a \<longleftrightarrow> branch_target_is_local (func_start x) (func_end x) a"

definition flow_ok :: "emit_context \<Rightarrow> PPCInst \<Rightarrow> u64 \<Rightarrow> flow \<times> CPUState \<Rightarrow> bool" where
  "flow_ok x i d r \<longleftrightarrow> steady d (snd r) \<and>
     (case fst r of
        Goto a \<Rightarrow> branch_op i \<and> a = inst_branch_target i \<and> local x a \<and>
          (a \<le> inst_address i \<longrightarrow> - 256 < sint d \<and> (inst_lk i \<or> direct_backedge x))
      | CallChunk s k \<Rightarrow> branch_op i \<and> inst_lk i \<and> s \<in> set (chunk_starts x) \<and> k = inst_address i + 4 \<and> local x k
      | ReturnDispatch \<Rightarrow> inst_op i = PPC_OP_BCLR \<and> route_local_returns x
      | _ \<Rightarrow> True)"

lemma flow_ok_plain: "steady d c \<Longrightarrow> flow_ok x i d (Next, c)" "steady d c \<Longrightarrow> flow_ok x i d (Return, c)"
  by (simp_all add: flow_ok_def)

lemma gives_next: "gives (steady d) m \<Longrightarrow> gives (flow_ok x i d) (goes_on m)"
  by (auto simp: gives_def flow_ok_def)

lemma flow_ok_exit: "steady d c \<Longrightarrow> flow_ok x i d (exit_on_exception c)"
  by (simp add: exit_on_exception_def flow_ok_def)

lemma steady_fallback: "steady d c \<Longrightarrow> host_steady H \<Longrightarrow> steady d (ppc_fallback_instruction H c raw cia)"
  by (auto simp: ppc_fallback_instruction_def host_steady_def split: option.split)

lemma flow_ok_fallback: "steady d c \<Longrightarrow> host_steady H \<Longrightarrow> flow_ok x i d (c_fallback H i c)"
  by (simp add: c_fallback_def flow_ok_def steady_fallback)

lemma steady_mftb: "steady d (snd (ppc_mftb c tbr cia)) = steady d c"
  by (simp add: ppc_mftb_def)

lemma steady_tlbie [simp]: "steady d (ppc_tlbie c ea cia) = steady d c"
  by (simp add: ppc_tlbie_def)

lemma steady_eciwx: "steady d c \<Longrightarrow> host_steady H \<Longrightarrow> steady d (snd (ppc_eciwx H c ea cia))"
  by (auto simp: ppc_eciwx_def host_steady_def Let_def split: option.split)

lemma steady_ecowx: "steady d c \<Longrightarrow> host_steady H \<Longrightarrow> steady d (ppc_ecowx H c ea v cia)"
  by (auto simp: ppc_ecowx_def host_steady_def Let_def split: option.split)

lemma steady_condition: "steady d (snd (emit_branch_condition i c)) = steady d c"
  by (simp add: emit_branch_condition_def Let_def)

lemma chunk_start_member: "chunk_start_for starts a = Some s \<Longrightarrow> s \<noteq> 0 \<Longrightarrow> s \<in> set starts"
  by (auto simp: chunk_start_for_def arr_get_def split: if_splits bind_splits)

lemma gives_direct_branch:
  assumes "steady d c" "branch_op i"
  shows "gives (flow_ok x i d) (emit_direct_branch x i c)"
proof -
  have d: "downcount c = d" using assms(1) by (simp add: steady_def)
  show ?thesis
    using chunk_start_total [of "chunk_starts x" "inst_branch_target i"] assms d
    by (auto dest: chunk_start_member simp: emit_direct_branch_def emit_cross_chunk_call_def leave_to_def jump_back_def flow_ok_def local_def Let_def not_le)
qed

lemma flow_ok_dynamic:
  assumes "steady d c" "inst_op i = PPC_OP_BCLR \<or> \<not> route" "route \<longrightarrow> route_local_returns x"
  shows "flow_ok x i d (emit_dynamic_branch i target route c)"
  using assms steady_condition [of d i c]
  by (cases "emit_branch_condition i c") (auto simp: emit_dynamic_branch_def flow_ok_def Let_def)

text \<open>The remaining operations.\<close>

lemma zero_block_gives: "steady d c \<Longrightarrow> host_steady H \<Longrightarrow> gives (steady d) (zero_block H c a k)"
proof (induction k arbitrary: c a)
  case (Suc k)
  then show ?case by (auto intro: gives_bind [OF gives_mem(7)])
qed simp

lemma gives_dcbz_l:
  assumes "steady d c" "host_steady H"
  shows "gives (steady d) (ppc_dcbz_l H c ea cia)"
proof -
  let ?slot = "unat (shr (ea AND NOT 31) 5 AND 511)"
  have len: "?slot < length (locked_cache_valid c)" "?slot < length (locked_cache_tag c)"
    using slot_bound by (simp_all add: steady_lengths [OF assms(1)])
  then show ?thesis
    by (simp add: ppc_dcbz_l_def Let_def arr_get_Some arr_set_Some zero_block_gives assms steady_arrays)
qed

lemma gives_trap: "steady d c \<Longrightarrow> wf_fields i \<Longrightarrow> gives (flow_ok x i d) (c_trap i c)"
  unfolding c_trap_def
  by (rule gives_ctl gives_ops [where d = d] | (simp add: wf_field_bounds flow_ok_plain; fail))+

lemma gives_bc:
  assumes "steady d c" "inst_op i = PPC_OP_BC"
  shows "gives (flow_ok x i d) (c_bc x i c)"
proof -
  obtain taken c' where b: "emit_branch_condition i c = (taken, c')" by (rule prod.exhaust)
  then have "steady d c'" using steady_condition [of d i c] assms(1) by simp
  then show ?thesis
    using assms(2) by (simp add: c_bc_def b gives_direct_branch branch_op_def flow_ok_plain)
qed

lemma gives_lswx:
  assumes "steady d c" "wf_fields i" "host_steady H"
  shows "gives (flow_ok x i d) (c_lswx H i c)"
  unfolding c_lswx_def Let_def
  by (rule gives_bind [OF gives_ea(5) [OF assms(1,2)]])
    (simp add: assms(1) flow_ok_plain gives_next gives_string [OF assms(1,3)])

lemma gives_mftb: "steady d c \<Longrightarrow> wf_fields i \<Longrightarrow> gives (flow_ok x i d) (c_mftb i c)"
proof -
  assume a: "steady d c" "wf_fields i"
  obtain v c' where m: "ppc_mftb c (inst_spr i) (inst_address i) = (v, c')" by (rule prod.exhaust)
  then have "steady d c'" using steady_mftb [of d c "inst_spr i" "inst_address i"] a(1) by simp
  then have "gives (steady d) (wr c' (inst_rD i) v)" using a(2) by (simp add: gives_wr wf_field_bounds)
  then show ?thesis
    unfolding c_mftb_def m Let_def prod.case by (intro gives_map) (auto elim: gives_mono simp: flow_ok_exit)
qed

lemma gives_spr:
  assumes "steady d c" "wf_fields i" "host_steady H"
  shows "gives (flow_ok x i d) (c_mfspr H i c)" "gives (flow_ok x i d) (c_mtspr H i c)"
proof -
  have w: "gives (flow_ok x i d) (goes_on (wr c (inst_rD i) v))" for v
    using assms by (simp add: gives_next gives_wr wf_field_bounds)
  have r: "gives Q (rd c (inst_rS i) \<bind> k)" if "\<And>v. gives Q (k v)" for Q :: "flow \<times> CPUState \<Rightarrow> bool" and k
    using that by (rule gives_bind [OF gives_rd(1) [OF assms(1) wf_field_bounds(3) [OF assms(2)]]])
  have g: "gives (flow_ok x i d) (arr_get (gqr c) n \<bind> (\<lambda>v. goes_on (wr c (inst_rD i) v)))"
    "gives (flow_ok x i d) (arr_set (gqr c) n s \<bind> (\<lambda>xs. Some (Next, c\<lparr>gqr := xs\<rparr>)))" if "n < 8" for s n
    using that assms(1) by (simp_all add: arr_get_Some arr_set_Some steady_lengths steady_arrays flow_ok_plain w)
  show "gives (flow_ok x i d) (c_mfspr H i c)"
    unfolding c_mfspr_def Let_def
    by (cases "inst_spr i \<in> {912, 913, 914, 915, 916, 917, 918, 919}")
      (auto simp: g(1) w gives_mftb flow_ok_fallback assms)
  show "gives (flow_ok x i d) (c_mtspr H i c)"
    unfolding c_mtspr_def Let_def
    by (cases "inst_spr i \<in> {912, 913, 914, 915, 916, 917, 918, 919}")
      (auto intro!: r simp: g(2) flow_ok_plain flow_ok_fallback assms)
qed

lemma control_gives:
  assumes "steady d c" "wf_fields i" "host_steady H"
  shows "gives (flow_ok x i d) (c_control H x i c)"
proof -
  note [simp] = wf_field_bounds [OF assms(2)]
  have ec: "gives (flow_ok x i d) (c_eciwx H i c)"
    unfolding c_eciwx_def
  proof (rule gives_bind [OF gives_ea(2) [OF assms(1,2)]])
    fix ea
    obtain v c' where e: "ppc_eciwx H c ea (inst_address i) = (v, c')" by (rule prod.exhaust)
    then have "steady d c'" using steady_eciwx [OF assms(1,3), of ea "inst_address i"] by simp
    then show "gives (flow_ok x i d) (let (v, c) = ppc_eciwx H c ea (inst_address i)
        in if exception c \<noteq> 0 then Some (Return, c) else goes_on (wr c (inst_rD i) v))"
      by (simp add: e flow_ok_plain gives_next gives_wr)
  qed
  have ow: "gives (flow_ok x i d) (c_ecowx H i c)"
    unfolding c_ecowx_def
    by (rule gives_ctl gives_ops [where d = d] | (simp add: assms flow_ok_exit steady_ecowx; fail))+
  have dz: "gives (flow_ok x i d) (do { ea \<leftarrow> emit_xform_ea i False c; c \<leftarrow> ppc_dcbz_l H c ea (inst_address i);
      Some (exit_on_exception c) })"
    by (rule gives_ctl gives_ea(2) [OF assms(1,2)] gives_dcbz_l [where d = d] | (simp add: assms flow_ok_exit; fail))+
  have tl: "gives (flow_ok x i d) (do { b \<leftarrow> rd c (inst_rB i); Some (exit_on_exception (ppc_tlbie c b (inst_address i))) })"
    by (rule gives_ctl gives_ops [where d = d] | (simp add: assms flow_ok_exit; fail))+
  show ?thesis
    unfolding c_control_def
    by (cases "inst_op i = PPC_OP_B \<or> inst_op i = PPC_OP_BC \<or> inst_op i = PPC_OP_BCLR")
      (auto simp: gives_direct_branch branch_op_def gives_bc flow_ok_dynamic gives_trap flow_ok_plain gives_lswx gives_mftb
        gives_spr ec ow dz tl flow_ok_fallback assms)
qed

text \<open>Together: the statements of an instruction run to the end.\<close>

lemma c_exec_gives:
  assumes "steady d c" "wf_fields i" "host_steady H" "inst_op i \<notin> set float_calls"
  shows "gives (flow_ok x i d) (c_exec H x i c)"
proof (cases "inst_embedded_data i")
  case True
  then show ?thesis using assms(1) by (simp add: c_exec_def flow_ok_plain)
next
  case False
  obtain a c' where f: "(if ppc_op_uses_fpu (inst_op i) then ppc_fp_available_inline c (inst_address i) else (True, c)) = (a, c')"
    by (rule prod.exhaust)
  then have c': "steady d c'"
    using assms(1) by (auto simp: ppc_fp_available_inline_def ppc_fp_available_def split: if_splits)
  have t: "gives (flow_ok x i d) (goes_on (act c'))" if "table_gives d c' (Some act)" for act
    using that by (simp add: gives_next)
  show ?thesis
    using False assms(4) integer_gives [OF c' assms(2)] float_gives [OF c' assms(2)] memory_gives [OF c' assms(2,3)]
      state_gives [OF c' assms(2)] control_gives [OF c' assms(2,3), of x]
    by (auto simp: c_exec_def f flow_ok_plain c' gives_next simp del: set_simps split: option.split)
qed

section \<open>Property\<close>

text \<open>C10 The statements printed for an instruction, of any operation that is not one of the
  floating point calls, run to their end on every machine that keeps the invariants: every access is in its
  array, the invariants hold after it and the cycle counter is untouched.  They leave by a local \<open>goto\<close>
  only to the target of a branch, and backwards only within the budget; by a call only to a chunk of the
  table, and only when the continuation is local.\<close>

theorem emitted_code_safe:
  assumes "sane c" "wf_fields i" "host_steady H" "inst_op i \<notin> set float_calls"
  shows "\<exists>r c'. c_exec H x i c = Some (r, c') \<and> sane c' \<and> downcount c' = downcount c \<and>
    (case r of
       Goto a \<Rightarrow> branch_op i \<and> a = inst_branch_target i \<and> local x a \<and>
         (a \<le> inst_address i \<longrightarrow> - 256 < sint (downcount c))
     | CallChunk s k \<Rightarrow> inst_lk i \<and> s \<in> set (chunk_starts x) \<and> k = inst_address i + 4 \<and> local x k
     | ReturnDispatch \<Rightarrow> inst_op i = PPC_OP_BCLR \<and> route_local_returns x
     | _ \<Rightarrow> True)"
proof -
  have "gives (flow_ok x i (downcount c)) (c_exec H x i c)"
    using assms by (intro c_exec_gives) (simp_all add: steady_def)
  then obtain r c' where "c_exec H x i c = Some (r, c')" "flow_ok x i (downcount c) (r, c')"
    by (auto simp: gives_def)
  then show ?thesis
    by (intro exI [of _ r] exI [of _ c']) (auto simp: flow_ok_def steady_def split: flow.splits)
qed

text \<open>\<open>lwz r3,0(0)\<close> on a machine with 64 bytes of memory.\<close>

theorem emitted_code_safe_witness:
  "\<forall>x. \<exists>r c'. c_exec no_host x (ppc_decode 0x80600000 0x80003100) ((zero_cpu [])\<lparr>ram := Some (replicate 64 0), ram_size := 64\<rparr>) = Some (r, c') \<and>
    sane c' \<and> downcount c' = 0"
proof
  fix x
  let ?c = "(zero_cpu [])\<lparr>ram := Some (replicate 64 0), ram_size := 64\<rparr>"
  have c: "sane ?c" "host_steady no_host" and d: "downcount ?c = 0"
    by (simp_all add: sane_def wf_mem_def wf_regs_def zero_cpu_def host_steady_def no_host_def)
  have i: "inst_op (ppc_decode 0x80600000 0x80003100) \<notin> set float_calls" "wf_fields (ppc_decode 0x80600000 0x80003100)"
    by code_simp+
  from emitted_code_safe [OF c(1) i(2) c(2) i(1), of x] d
  show "\<exists>r c'. c_exec no_host x (ppc_decode 0x80600000 0x80003100) ?c = Some (r, c') \<and> sane c' \<and> downcount c' = 0"
    by metis
qed

end
