(* ===== verification/EmitFunc.thy ===== *)
theory EmitFunc
  imports CSafe Cfg
begin

text \<open>
  \<open>emit_function\<close> and \<open>emit_counted_loop\<close> of \<open>src/backend/emitter.c\<close>: the C function printed for a chunk
  of instructions.  The model runs the printed function: a position is the label of an instruction, a
  \<open>goto\<close> to a label the function does not have makes the text invalid C and is \<open>None\<close>, and so is a run that
  does not end.
\<close>

section \<open>The printed function\<close>

text \<open>\<open>call s c\<close> is the call of the chunk at \<open>s\<close>: undefined, refused by \<open>dolrecomp_call_enter\<close>, or the state it
  returns in.\<close>

type_synonym chunk_call = "u32 \<Rightarrow> CPUState \<Rightarrow> CPUState option option"

record printed_function =
  p_host :: host
  p_call :: chunk_call
  p_context :: emit_context
  p_insts :: "PPCInst list"
  p_cfg :: CFunctionCFG

text \<open>The label, or \<open>case\<close>, of an address among those of the listed instructions.\<close>

definition label_of :: "PPCInst list \<Rightarrow> nat list \<Rightarrow> u32 \<Rightarrow> nat option" where
  "label_of insts ks a = find (\<lambda>k. inst_address (insts ! k) = a) ks"

abbreviation all_labels :: "PPCInst list \<Rightarrow> nat list" where
  "all_labels insts \<equiv> [0..<length insts]"

definition charge :: "u32 \<Rightarrow> CPUState \<Rightarrow> CPUState" where
  "charge cycles c = c\<lparr>downcount := downcount c - ucast cycles\<rparr>"

definition budget_used :: "CPUState \<Rightarrow> bool" where
  "budget_used c \<longleftrightarrow> sint (downcount c) \<le> - sint LOOP_CYCLE_BUDGET"

text \<open>\<open>if (cfg->materialize_pc[i]) ctx->pc = address\<close>\<close>

definition materialize :: "printed_function \<Rightarrow> nat \<Rightarrow> CPUState \<Rightarrow> CPUState option" where
  "materialize m i c = do {
     inst \<leftarrow> arr_get (p_insts m) i;
     keep \<leftarrow> arr_get (materialize_pc (p_cfg m)) i;
     Some (if keep then c\<lparr>pc := inst_address inst\<rparr> else c)
   }"

text \<open>The function of an outlined loop, from instruction \<open>i\<close> on.  Its only label is the one of its first
  instruction.\<close>

partial_function (option) loop_from :: "printed_function \<Rightarrow> nat \<Rightarrow> nat \<Rightarrow> nat \<Rightarrow> CPUState \<Rightarrow> CPUState option" where
  "loop_from m first last_index i c =
     (if last_index < i then do {
        inst \<leftarrow> arr_get (p_insts m) last_index;
        Some (c\<lparr>pc := inst_address inst + 4\<rparr>)
      } else do {
        inst \<leftarrow> arr_get (p_insts m) i;
        cycles \<leftarrow> arr_get (block_cycles (p_cfg m)) first;
        c \<leftarrow> materialize m i (if i = first then charge cycles c else c);
        (r, c) \<leftarrow> c_exec (p_host m)
          ((p_context m)\<lparr>direct_backedge := (i = last_index), route_local_returns := False\<rparr>) inst c;
        case r of
          Next \<Rightarrow> loop_from m first last_index (i + 1) c
        | Goto a \<Rightarrow> if label_of (p_insts m) [first] a = Some first then loop_from m first last_index first c else None
        | Return \<Rightarrow> Some c
        | ReturnDispatch \<Rightarrow> None
        | CallChunk s k \<Rightarrow> None
      })"

definition has_local_returns :: "printed_function \<Rightarrow> bool" where
  "has_local_returns m \<longleftrightarrow> (\<exists>t \<in> set (return_targets (p_cfg m)). t)"

text \<open>The function, from the label of instruction \<open>i\<close> on.\<close>

partial_function (option) body_from :: "printed_function \<Rightarrow> nat \<Rightarrow> CPUState \<Rightarrow> CPUState option" where
  "body_from m i c =
     (if length (p_insts m) \<le> i then Some (c\<lparr>pc := func_end (p_context m)\<rparr>)
      else do {
        inst \<leftarrow> arr_get (p_insts m) i;
        loop_end \<leftarrow> arr_get (loop_ends (p_cfg m)) i;
        if loop_end \<noteq> UINT32_MAX then do {
          last_inst \<leftarrow> arr_get (p_insts m) (unat loop_end);
          let continuation = inst_address last_inst + 4;
          c \<leftarrow> loop_from m i (unat loop_end) i c;
          if continuation < func_end (p_context m) \<and> pc c = continuation then do {
            k \<leftarrow> label_of (p_insts m) (all_labels (p_insts m)) continuation;
            body_from m k c
          } else Some c
        } else do {
          leader \<leftarrow> arr_get (leaders (p_cfg m)) i;
          cycles \<leftarrow> arr_get (block_cycles (p_cfg m)) i;
          c \<leftarrow> materialize m i c;
          direct \<leftarrow> c_function_cfg_can_loop_directly (p_cfg m) (p_insts m) (func_start (p_context m)) i;
          (r, c) \<leftarrow> c_exec (p_host m)
            ((p_context m)\<lparr>direct_backedge := direct, route_local_returns := has_local_returns m\<rparr>) inst
            (if leader \<and> cycles \<noteq> 0 then charge cycles c else c);
          case r of
            Next \<Rightarrow> body_from m (i + 1) c
          | Goto a \<Rightarrow> do { k \<leftarrow> label_of (p_insts m) (all_labels (p_insts m)) a; body_from m k c }
          | Return \<Rightarrow> Some c
          | ReturnDispatch \<Rightarrow>
              if budget_used c then Some c
              else (case label_of (p_insts m) (filter (\<lambda>k. return_targets (p_cfg m) ! k) (all_labels (p_insts m))) (pc c) of
                      None \<Rightarrow> Some c
                    | Some k \<Rightarrow> body_from m k c)
          | CallChunk s continuation \<Rightarrow> do {
              called \<leftarrow> p_call m s c;
              case called of
                None \<Rightarrow> Some c
              | Some c' \<Rightarrow>
                  if pc c' = continuation then do {
                    k \<leftarrow> label_of (p_insts m) (all_labels (p_insts m)) continuation;
                    body_from m k c'
                  } else Some c'
            }
        }
      })"

text \<open>A call of the function: the \<open>switch\<close> on \<open>ctx->pc\<close>.  Without memory for the graph nothing is printed.\<close>

definition func_run :: "host \<Rightarrow> chunk_call \<Rightarrow> u32 list \<Rightarrow> PPCInst list \<Rightarrow> u32 \<Rightarrow> CPUState \<Rightarrow> CPUState option" where
  "func_run H call starts insts func_addr c = do {
     (ok, cfg) \<leftarrow> c_function_cfg_build True insts func_addr;
     let m = \<lparr>p_host = H, p_call = call,
       p_context = \<lparr>chunk_starts = starts, func_start = func_addr, func_end = func_addr + of_nat (length insts) * 4,
         direct_backedge = False, route_local_returns = False\<rparr>,
       p_insts = insts, p_cfg = cfg\<rparr>;
     if ok then (case label_of insts (all_labels insts) (pc c) of None \<Rightarrow> Some c | Some k \<Rightarrow> body_from m k c) else None
   }"

section \<open>Functions of decoded instructions\<close>

text \<open>A chunk as the driver cuts it: consecutive instructions below 4 GB; no data, and none of the floating
  point calls, which the model of the statements leaves out.\<close>

definition function_ok :: "PPCInst list \<Rightarrow> u32 \<Rightarrow> bool" where
  "function_ok insts fa \<longleftrightarrow> insts \<noteq> [] \<and> unat fa + 4 * length insts < 2 ^ 32 \<and> 40 * length insts < 2 ^ 32 \<and>
     (\<forall>k < length insts. inst_address (insts ! k) = fa + of_nat k * 4) \<and>
     (\<forall>i \<in> set insts. wf_fields i \<and> \<not> inst_embedded_data i \<and> inst_op i \<notin> set float_calls \<and>
        (inst_lk i \<longrightarrow> instruction_ends_block i))"

lemma function_address:
  assumes "function_ok insts fa" "k < length insts"
  shows "unat (inst_address (insts ! k)) = unat fa + 4 * k"
proof -
  have k: "unat fa + 4 * k < 2 ^ 32" "k < 2 ^ 32" using assms by (simp_all add: function_ok_def)
  have "inst_address (insts ! k) = fa + of_nat (k * 4)" using assms by (simp add: function_ok_def)
  moreover have "unat (of_nat (k * 4) :: u32) = k * 4"
    using k(1) by (simp add: unat_of_nat take_bit_nat_eq_self del: of_nat_mult)
  ultimately show ?thesis
    using k(1) by (subst \<open>inst_address (insts ! k) = fa + of_nat (k * 4)\<close>, subst unat_add_bounded) simp_all
qed

lemma function_inst:
  assumes "function_ok insts fa" "k < length insts"
  shows "wf_fields (insts ! k)" "\<not> inst_embedded_data (insts ! k)" "inst_op (insts ! k) \<notin> set float_calls"
    "inst_lk (insts ! k) \<Longrightarrow> instruction_ends_block (insts ! k)"
  using assms by (simp_all add: function_ok_def)

lemma label_ofD: "label_of insts ks a = Some k \<Longrightarrow> k \<in> set ks \<and> inst_address (insts ! k) = a"
  by (auto simp: label_of_def find_Some_iff)

lemma label_of_address:
  assumes ok: "function_ok insts fa" and k: "k \<in> set ks" "set ks \<subseteq> {..<length insts}"
  shows "label_of insts ks (inst_address (insts ! k)) = Some k"
proof (cases "label_of insts ks (inst_address (insts ! k))")
  case None
  then show ?thesis using k(1) by (auto simp: label_of_def find_None_iff)
next
  case (Some j)
  from label_ofD [OF this] have "j < length insts" "k < length insts" "inst_address (insts ! j) = inst_address (insts ! k)"
    using k by auto
  then have "unat fa + 4 * j = unat fa + 4 * k"
    using function_address [OF ok, of j] function_address [OF ok, of k] by (metis (no_types))
  then have "j = k" by simp
  with Some show ?thesis by simp
qed

text \<open>A local address is the one of an instruction.\<close>

lemma local_iff:
  assumes ok: "function_ok insts fa" and x: "func_start x = fa" "func_end x = fa + of_nat (length insts) * 4"
  shows "local x a \<longleftrightarrow> (\<exists>k. in_function insts fa a k)"
proof -
  let ?cfg = "\<lparr>cfg_count = of_nat (length insts), leaders = [], block_cycles = [], materialize_pc = [],
     return_targets = [], loop_ends = []\<rparr>"
  have "4 * length insts < 2 ^ 32" using ok by (simp add: function_ok_def)
  from contains_iff [OF this, of ?cfg fa a] show ?thesis
    by (simp add: local_def branch_target_is_local_def c_function_cfg_contains_def Let_def x)
qed

lemma in_function_address:
  assumes "function_ok insts fa" "in_function insts fa a k"
  shows "k < length insts" "a = inst_address (insts ! k)"
  using assms function_address [OF assms(1), of k] by (auto simp: in_function_def word_unat_eq_iff)

section \<open>Cycles\<close>

lemma instruction_cycles_le: "unat (instruction_cycles i) \<le> 40"
proof -
  have "unat (switch_in (inst_op i) cs (1 :: u32)) \<le> 40" if "list_all (\<lambda>(ls, v). unat v \<le> 40) cs" for cs
    by (rule switch_in_all [where P = "\<lambda>v. unat v \<le> 40"]) (use that in simp_all)
  then show ?thesis
    unfolding instruction_cycles_def by simp
qed

lemma branch_cycles:
  "\<not> inst_embedded_data i \<Longrightarrow> branch_op i \<or> inst_op i = PPC_OP_BCLR \<Longrightarrow> instruction_cycles i = 1"
  by (auto simp: instruction_cycles_def instruction_uses_fallback_def branch_op_def)

lemma unat_cycles_between:
  assumes "40 * length insts < 2 ^ 32" "j \<le> e" "e \<le> length insts"
  shows "unat (cycles_between insts j e) = (\<Sum>k = j..<e. unat (instruction_cycles (insts ! k))) \<and>
    unat (cycles_between insts j e) \<le> 40 * (e - j)"
  using assms(2,3)
proof (induction e)
  case (Suc e)
  show ?case
  proof (cases "j = Suc e")
    case False
    then have ih: "unat (cycles_between insts j e) = (\<Sum>k = j..<e. unat (instruction_cycles (insts ! k)))"
      "unat (cycles_between insts j e) \<le> 40 * (e - j)" and j: "j \<le> e"
      using Suc by simp_all
    have s: "cycles_between insts j (Suc e) = cycles_between insts j e + instruction_cycles (insts ! e)"
      using j by (simp add: cycles_between_def)
    have "unat (cycles_between insts j e) + unat (instruction_cycles (insts ! e)) < 2 ^ 32"
      using ih(2) instruction_cycles_le [of "insts ! e"] assms(1) Suc.prems(2) by linarith
    then have "unat (cycles_between insts j (Suc e)) = unat (cycles_between insts j e) + unat (instruction_cycles (insts ! e))"
      by (simp add: s unat_word_ariths)
    then show ?thesis
      using ih j instruction_cycles_le [of "insts ! e"] by simp
  qed (simp add: cycles_between_def)
qed (simp add: cycles_between_def)

lemma block_cost:
  assumes "40 * length insts < 2 ^ 32" "block insts ls l e" "l \<le> i" "i < e" "cycles_between insts l e = 0"
  shows "instruction_cycles (insts ! i) = 0"
proof -
  have "e \<le> length insts" "l \<le> e" using assms(2) by (auto simp: block_def)
  then have "(\<Sum>k = l..<e. unat (instruction_cycles (insts ! k))) = 0"
    using unat_cycles_between [OF assms(1), of l e] assms(5) by simp
  then show ?thesis
    using assms(3,4) by (simp add: unat_eq_0)
qed

lemma uint_bound: "0 \<le> uint v \<and> uint v < 4294967296" for v :: u32
  using unsigned_less [of v, where 'a = int] unsigned_greater_eq [of v, where 'a = int] by simp

lemma in_range_64: "- 9223372036854775808 \<le> k \<Longrightarrow> k < 9223372036854775808 \<Longrightarrow> signed_take_bit 63 k = k" for k :: int
  by (rule signed_take_bit_int_eq_self) simp_all

lemma sint_charge:
  assumes "- 9223372036854775808 \<le> sint (downcount c) - 4294967296"
  shows "sint (downcount (charge v c)) = sint (downcount c) - uint v"
proof -
  have "uint (ucast v :: u64) = uint v"
    using uint_bound [of v] by (simp add: unsigned_ucast_eq take_bit_int_eq_self)
  moreover have "signed_take_bit 63 (uint v) = uint v"
    using uint_bound [of v] by (intro in_range_64) linarith+
  ultimately have v: "sint (ucast v :: u64) = uint v"
    by (simp add: sint_uint)
  have "sint (downcount c) < 9223372036854775808"
    using sint_lt [of "downcount c"] by simp
  then have "signed_take_bit 63 (sint (downcount c) - uint v) = sint (downcount c) - uint v"
    using assms uint_bound [of v] by (intro in_range_64) linarith+
  then show ?thesis
    by (simp add: charge_def sint_word_ariths v)
qed

lemma charge_sane [simp]: "sane (charge v c) = sane c"
  by (simp add: charge_def)

section \<open>Runs end\<close>

text \<open>What a run may cost: the cycle counter never grows, and falls by at most \<open>n\<close> below the point where the
  budget is used up.\<close>

definition spent :: "int \<Rightarrow> CPUState \<Rightarrow> CPUState \<Rightarrow> bool" where
  "spent n c c' \<longleftrightarrow> sane c' \<and> sint (downcount c') \<le> sint (downcount c) \<and>
     min (sint (downcount c)) (- 256) - n \<le> sint (downcount c')"

definition budgeted :: "int \<Rightarrow> int \<Rightarrow> u32 list \<Rightarrow> chunk_call \<Rightarrow> bool" where
  "budgeted p n starts call \<longleftrightarrow> 0 \<le> n \<and> (\<forall>s \<in> set starts. \<forall>c. sane c \<and> - p \<le> sint (downcount c) \<longrightarrow>
     gives (\<lambda>r. case r of None \<Rightarrow> True | Some c' \<Rightarrow> spent n c c') (call s c))"

text \<open>A printed function.\<close>

definition printed :: "u32 \<Rightarrow> int \<Rightarrow> int \<Rightarrow> printed_function \<Rightarrow> bool" where
  "printed fa p n m \<longleftrightarrow> function_ok (p_insts m) fa \<and> cfg_correct (p_insts m) fa (p_cfg m) \<and>
     func_start (p_context m) = fa \<and> func_end (p_context m) = fa + of_nat (length (p_insts m)) * 4 \<and>
     host_steady (p_host m) \<and> budgeted p n (chunk_starts (p_context m)) (p_call m)"

lemma printed_lengths:
  assumes "printed fa p n m" "i < length (p_insts m)"
  shows "arr_get (p_insts m) i = Some (p_insts m ! i)" "arr_get (leaders (p_cfg m)) i = Some (leaders (p_cfg m) ! i)"
    "arr_get (block_cycles (p_cfg m)) i = Some (block_cycles (p_cfg m) ! i)"
    "arr_get (materialize_pc (p_cfg m)) i = Some (materialize_pc (p_cfg m) ! i)"
    "arr_get (loop_ends (p_cfg m)) i = Some (loop_ends (p_cfg m) ! i)"
  using assms by (simp_all add: printed_def cfg_correct_def dims_def arr_get_Some)

lemma gives_materialize:
  "printed fa p n m \<Longrightarrow> i < length (p_insts m) \<Longrightarrow> steady d c \<Longrightarrow> gives (steady d) (materialize m i c)"
  by (simp add: materialize_def printed_lengths)

lemma printed_exec:
  assumes "printed fa p n m" "i < length (p_insts m)" "steady d c"
  shows "gives (flow_ok x (p_insts m ! i) d) (c_exec (p_host m) x (p_insts m ! i) c)"
  using assms function_inst [of "p_insts m" fa i] by (intro c_exec_gives) (simp_all add: printed_def)

lemma sane_steady: "sane c \<longleftrightarrow> steady (downcount c) c"
  by (simp add: steady_def)

text \<open>The measure of a run: the cycles left, one more when some were charged since the last jump back, and the
  instructions in front.\<close>

definition rank :: "CPUState \<Rightarrow> bool \<Rightarrow> nat" where
  "rank c q = nat (sint (downcount c) + 256 + of_bool q)"

definition potential :: "nat \<Rightarrow> nat \<Rightarrow> nat \<Rightarrow> nat" where
  "potential n r i = r * (n + 2) + (n + 1 - i)"

lemma potential_forward: "r' \<le> r \<Longrightarrow> i < i' \<Longrightarrow> i' \<le> n \<Longrightarrow> potential n r' i' < potential n r i"
proof -
  assume "r' \<le> r" "i < i'" "i' \<le> n"
  moreover from this have "r' * (n + 2) \<le> r * (n + 2)" by (intro mult_le_mono1)
  ultimately show ?thesis by (simp add: potential_def)
qed

lemma potential_back: "r' < r \<Longrightarrow> potential n r' i' < potential n r i"
proof -
  assume "r' < r"
  then have "Suc r' * (n + 2) \<le> r * (n + 2)" by (intro mult_le_mono1) simp
  then show ?thesis by (simp add: potential_def)
qed

subsection \<open>Outlined loops\<close>

lemma cycles_zero: "instruction_cycles i = 0 \<longleftrightarrow> inst_embedded_data i \<or> instruction_uses_fallback i"
proof -
  have "switch_in (inst_op i) cs (1 :: u32) \<noteq> 0" if "list_all (\<lambda>(ls, v). v \<noteq> 0) cs" for cs
    by (rule switch_in_all [where P = "\<lambda>v. v \<noteq> 0"]) (use that in simp_all)
  then show ?thesis
    unfolding instruction_cycles_def by simp
qed

lemma fallback_ops:
  "instruction_uses_fallback i \<Longrightarrow> inst_op i \<in> {PPC_OP_DCBST, PPC_OP_DCBF, PPC_OP_DCBI, PPC_OP_ICBI, PPC_OP_UNKNOWN, PPC_OP_MFSPR, PPC_OP_MTSPR}"
  unfolding instruction_uses_fallback_def by (auto split: if_splits)

lemma outlinable_plain:
  assumes "instruction_is_outlinable i"
  shows "inst_op i \<noteq> PPC_OP_BCLR" "\<not> inst_embedded_data i \<Longrightarrow> instruction_cycles i \<noteq> 0"
proof -
  show "inst_op i \<noteq> PPC_OP_BCLR"
    using assms by (auto simp: instruction_is_outlinable_def instruction_is_pc_transparent_def split: if_splits)
  have "\<not> instruction_uses_fallback i"
  proof
    assume "instruction_uses_fallback i"
    from fallback_ops [OF this] assms show False
      unfolding instruction_is_outlinable_def instruction_is_pc_transparent_def by (elim insertE emptyE) simp_all
  qed
  then show "\<not> inst_embedded_data i \<Longrightarrow> instruction_cycles i \<noteq> 0"
    by (simp add: cycles_zero)
qed

lemma block_charge:
  assumes m: "printed fa p n m" and i: "i < length (p_insts m)" "leaders (p_cfg m) ! i"
    and c: "instruction_cycles (p_insts m ! i) \<noteq> 0"
  shows "block_cycles (p_cfg m) ! i \<noteq> 0"
proof -
  have "charged (p_insts m) (leaders (p_cfg m)) i (block_cycles (p_cfg m) ! i)"
    using m i(1) unfolding printed_def cfg_correct_def by blast
  then obtain e where e: "block (p_insts m) (leaders (p_cfg m)) i e" "block_cycles (p_cfg m) ! i = cycles_between (p_insts m) i e"
    using i(2) by (auto simp: charged_def)
  then show ?thesis
    using block_cost [OF _ e(1), of i] m c by (auto simp: printed_def function_ok_def block_def)
qed

lemma leads_leader:
  assumes "printed fa p n m" "j < length (p_insts m)" "k < length (p_insts m)"
    and "k = j + 1 \<and> instruction_ends_block (p_insts m ! j) \<or> branches_to (p_insts m) fa j k"
  shows "leaders (p_cfg m) ! k"
proof -
  have "leads (p_insts m) fa j k"
    using assms function_inst(2) [of "p_insts m" fa j] by (auto simp: printed_def leads_def)
  moreover have "leaders (p_cfg m) ! k \<longleftrightarrow> k = 0 \<or> (\<exists>j < length (p_insts m). leads (p_insts m) fa j k)"
    using assms(1,3) unfolding printed_def cfg_correct_def by blast
  ultimately show ?thesis
    using assms(2) by blast
qed

lemma branch_ends: "branch_op i \<Longrightarrow> instruction_ends_block i"
  by (auto simp: branch_op_def instruction_ends_block_def)

lemma rank_mono: "sint (downcount c') \<le> sint (downcount c) \<Longrightarrow> q' \<le> q \<Longrightarrow> rank c' q' \<le> rank c q"
  by (auto simp: rank_def intro!: nat_mono)

lemma rank_charge: "sint (downcount c') < sint (downcount c) \<Longrightarrow> rank c' q' \<le> rank c q"
  by (auto simp: rank_def intro!: nat_mono)

lemma rank_jump: "downcount c' = downcount c \<Longrightarrow> - 256 < sint (downcount c) \<Longrightarrow> rank c' False < rank c True"
  by (auto simp: rank_def)

lemma loop_runs:
  assumes m: "printed fa p n m" and l: "outlined (p_insts m) fa f l" and b: "b \<le> - 256" "- 9223372036854775808 \<le> b - 4294967296"
  shows "sane c \<Longrightarrow> f \<le> j \<Longrightarrow> j \<le> l + 1 \<Longrightarrow> (if j = f then b else b - 4294967296) \<le> sint (downcount c) \<Longrightarrow>
    gives (\<lambda>c'. sane c' \<and> sint (downcount c') \<le> sint (downcount c) \<and> b - 4294967296 \<le> sint (downcount c'))
      (loop_from m f l j c)"
proof (induction "potential (l + 1) (rank c (j \<noteq> f)) j" arbitrary: j c rule: less_induct)
  case less
  let ?insts = "p_insts m" and ?Q = "\<lambda>c'. sane c' \<and> sint (downcount c') \<le> sint (downcount c) \<and> b - 4294967296 \<le> sint (downcount c')"
  have ok: "function_ok ?insts fa" using m by (simp add: printed_def)
  have ln: "l < length ?insts" "f < l" and target: "branches_to ?insts fa l f" "\<not> inst_lk (?insts ! l)"
    and plain: "\<And>i. f \<le> i \<Longrightarrow> i < l \<Longrightarrow> \<not> instruction_ends_block (?insts ! i)"
      "\<And>i. f \<le> i \<Longrightarrow> i \<le> l \<Longrightarrow> instruction_is_outlinable (?insts ! i)"
    and backward: "inst_branch_target (?insts ! l) \<le> inst_address (?insts ! l)"
    using l by (simp_all add: outlined_def direct_loop_def)
  show ?case
  proof (cases "l < j")
    case True
    then show ?thesis
      using less.prems ln by (subst loop_from.simps) (auto simp: printed_lengths [OF m])
  next
    case False
    then have j: "j < length ?insts" "f < length ?insts" using ln by simp_all
    define c1 where "c1 = (if j = f then charge (block_cycles (p_cfg m) ! f) c else c)"
    have d1: "sane c1 \<and> sint (downcount c1) \<le> sint (downcount c) \<and> b - 4294967296 \<le> sint (downcount c1) \<and>
      rank c1 True \<le> rank c (j \<noteq> f)"
    proof (cases "j = f")
      case True
      let ?v = "block_cycles (p_cfg m) ! f"
      have "leaders (p_cfg m) ! f" by (rule leads_leader [OF m ln(1) j(2)]) (simp add: target)
      moreover have "instruction_cycles (?insts ! f) \<noteq> 0"
        using outlinable_plain(2) [OF plain(2)] ln function_inst(2) [OF ok j(2)] by simp
      ultimately have "?v \<noteq> 0" by (rule block_charge [OF m j(2)])
      then have "uint ?v \<noteq> 0" by (simp add: uint_0_iff)
      then have v: "0 < uint ?v" using uint_bound [of ?v] by linarith
      have "sint (downcount c1) = sint (downcount c) - uint ?v"
        using less.prems(4) True b by (simp add: c1_def sint_charge)
      then show ?thesis
        using less.prems(1,4) True v uint_bound [of ?v] rank_charge [of c1 c] by (simp add: c1_def)
    next
      case False
      then show ?thesis using less.prems(1,4) by (simp add: c1_def)
    qed
    have step: "gives ?Q (case r of
          Next \<Rightarrow> loop_from m f l (j + 1) c2
        | Goto a \<Rightarrow> if label_of ?insts [f] a = Some f then loop_from m f l f c2 else None
        | Return \<Rightarrow> Some c2 | ReturnDispatch \<Rightarrow> None | CallChunk s k \<Rightarrow> None)"
      if r: "flow_ok x (?insts ! j) (downcount c1) (r, c2)" for r c2 x
    proof -
      have c2: "sane c2" "downcount c2 = downcount c1"
        using r by (simp_all add: flow_ok_def steady_def)
      have again: "gives ?Q (loop_from m f l j' c2)"
        if "potential (l + 1) (rank c2 (j' \<noteq> f)) j' < potential (l + 1) (rank c (j \<noteq> f)) j" "f \<le> j'" "j' \<le> l + 1"
          "(if j' = f then b else b - 4294967296) \<le> sint (downcount c2)" for j'
        using less.hyps [OF that(1) c2(1) that(2-)] by (rule gives_mono) (use d1 c2 in auto)
      have only_last: "j = l" if "instruction_ends_block (?insts ! j)"
        using plain(1) [OF less.prems(2)] that False by force
      show ?thesis
      proof (cases r)
        case Next
        have "rank c2 True \<le> rank c (j \<noteq> f)" using d1 c2 by (simp add: rank_def)
        then have "gives ?Q (loop_from m f l (j + 1) c2)"
          using less.prems(2) False d1 c2 by (intro again) (auto intro: potential_forward)
        then show ?thesis by (simp add: Next)
      next
        case (Goto a)
        then have g: "branch_op (?insts ! j)" "a = inst_branch_target (?insts ! j)"
          "a \<le> inst_address (?insts ! j) \<longrightarrow> - 256 < sint (downcount c1)"
          using r by (simp_all add: flow_ok_def)
        have jl: "j = l" using only_last branch_ends [OF g(1)] .
        have "a = inst_address (?insts ! f)"
          using in_function_address(2) [OF ok] target(1) g(2) by (auto simp: jl branches_to_def)
        then have lab: "label_of ?insts [f] a = Some f"
          using label_of_address [OF ok, of f "[f]"] j(2) by simp
        have d: "- 256 < sint (downcount c1)" using g(2,3) backward by (simp add: jl)
        have "rank c2 False < rank c (j \<noteq> f)"
          using rank_jump [OF c2(2) d] d1 by simp
        then have "gives ?Q (loop_from m f l f c2)"
          using d c2 b ln by (intro again) (auto intro: potential_back)
        then show ?thesis by (simp add: Goto lab)
      next
        case Return
        then show ?thesis using c2 d1 by simp
      next
        case ReturnDispatch
        then have "inst_op (?insts ! j) = PPC_OP_BCLR" using r by (simp add: flow_ok_def)
        then show ?thesis using outlinable_plain(1) [OF plain(2) [OF less.prems(2)]] False by simp
      next
        case (CallChunk s k)
        then have "inst_lk (?insts ! j)" using r by (simp add: flow_ok_def)
        then show ?thesis using only_last function_inst(4) [OF ok j(1)] target(2) by auto
      qed
    qed
    let ?x = "(p_context m)\<lparr>direct_backedge := (j = l), route_local_returns := False\<rparr>"
    have "gives ?Q (materialize m j c1 \<bind> (\<lambda>c. c_exec (p_host m) ?x (?insts ! j) c \<bind> (\<lambda>(r, c2). case r of
          Next \<Rightarrow> loop_from m f l (j + 1) c2
        | Goto a \<Rightarrow> if label_of ?insts [f] a = Some f then loop_from m f l f c2 else None
        | Return \<Rightarrow> Some c2 | ReturnDispatch \<Rightarrow> None | CallChunk s k \<Rightarrow> None)))"
    proof (rule gives_bind [OF gives_materialize [OF m j(1)]])
      show "steady (downcount c1) c1" using d1 by (simp add: steady_def)
    next
      fix c0 assume "steady (downcount c1) c0"
      from printed_exec [OF m j(1) this]
      show "gives ?Q (c_exec (p_host m) ?x (?insts ! j) c0 \<bind> (\<lambda>(r, c2). case r of
          Next \<Rightarrow> loop_from m f l (j + 1) c2
        | Goto a \<Rightarrow> if label_of ?insts [f] a = Some f then loop_from m f l f c2 else None
        | Return \<Rightarrow> Some c2 | ReturnDispatch \<Rightarrow> None | CallChunk s k \<Rightarrow> None))"
        by (rule gives_bind) (rule gives_pair, rule step, simp)
    qed
    then show ?thesis
      using False by (subst loop_from.simps) (simp add: printed_lengths [OF m] j c1_def)
  qed
qed

subsection \<open>The function\<close>

text \<open>Either cycles were charged since the last jump back, or the next charge lies ahead, or only instructions
  that cost nothing were run.\<close>

definition owed :: "printed_function \<Rightarrow> bool \<Rightarrow> nat \<Rightarrow> bool" where
  "owed m q i \<longleftrightarrow> q \<or> length (p_insts m) \<le> i \<or> leaders (p_cfg m) ! i \<or>
     (\<exists>l e. l < i \<and> i < e \<and> block (p_insts m) (leaders (p_cfg m)) l e \<and> cycles_between (p_insts m) l e = 0)"

lemma owed_step:
  assumes m: "printed fa p n m" and i: "i < length (p_insts m)" and o: "owed m q i"
    and q: "\<not> (q \<or> leaders (p_cfg m) ! i \<and> block_cycles (p_cfg m) ! i \<noteq> 0)"
  shows "instruction_cycles (p_insts m ! i) = 0 \<and> owed m False (i + 1)"
proof -
  let ?insts = "p_insts m" and ?ls = "leaders (p_cfg m)"
  have "\<exists>l e. l \<le> i \<and> i < e \<and> block ?insts ?ls l e \<and> cycles_between ?insts l e = 0"
  proof (cases "?ls ! i")
    case True
    have "charged ?insts ?ls i (block_cycles (p_cfg m) ! i)"
      using m i unfolding printed_def cfg_correct_def by blast
    with True q obtain e where "block ?insts ?ls i e" "cycles_between ?insts i e = 0"
      by (auto simp: charged_def)
    moreover from this(1) have "i < e" by (simp add: block_def)
    ultimately show ?thesis by blast
  next
    case False
    with o q i show ?thesis by (auto simp: owed_def intro: less_imp_le)
  qed
  then obtain l e where b: "l \<le> i" "i < e" "block ?insts ?ls l e" "cycles_between ?insts l e = 0" by blast
  have "instruction_cycles (?insts ! i) = 0"
    using block_cost [OF _ b(3,1,2,4)] m by (simp add: printed_def function_ok_def)
  moreover have "owed m False (i + 1)"
  proof (cases "length ?insts \<le> i + 1 \<or> ?ls ! (i + 1)")
    case False
    then have "\<not> instruction_ends_block (?insts ! i)"
      using leads_leader [OF m i, of "i + 1"] by auto
    then have "e \<noteq> i + 1" using b(3) False by (auto simp: block_def)
    with b have "l < i + 1" "i + 1 < e" by simp_all
    then show ?thesis
      using b(3,4) unfolding owed_def by blast
  qed (auto simp: owed_def)
  ultimately show ?thesis by blast
qed

lemma inst_address_eq: "function_ok insts fa \<Longrightarrow> k < length insts \<Longrightarrow> inst_address (insts ! k) = fa + of_nat k * 4"
  by (simp add: function_ok_def)

lemma next_address:
  assumes "function_ok insts fa" "k + 1 < length insts"
  shows "inst_address (insts ! k) + 4 = inst_address (insts ! (k + 1))"
proof -
  have "k < length insts" using assms(2) by simp
  then show ?thesis
    by (simp only: inst_address_eq [OF assms(1)] assms(2)) (simp add: algebra_simps)
qed

lemma address_below_end:
  assumes ok: "function_ok insts fa" and k: "k < length insts" and e: "inst_address (insts ! k) + 4 < fa + of_nat (length insts) * 4"
  shows "k + 1 < length insts"
proof (rule ccontr)
  assume "\<not> k + 1 < length insts"
  with k have "length insts = k + 1" by simp
  then have "fa + of_nat (length insts) * 4 = inst_address (insts ! k) + 4"
    by (simp only: inst_address_eq [OF ok k]) (simp add: algebra_simps)
  with e show False by simp
qed

lemma return_target_leader:
  assumes m: "printed fa p n m" and k: "k < length (p_insts m)" "return_targets (p_cfg m) ! k"
  shows "leaders (p_cfg m) ! k"
proof -
  have "cfg_correct (p_insts m) fa (p_cfg m)" using m by (simp only: printed_def)
  then have "\<forall>k < length (p_insts m). return_targets (p_cfg m) ! k \<longleftrightarrow> (\<exists>j < length (p_insts m). returns_to (p_insts m) j k)"
    unfolding cfg_correct_def by (elim conjE)
  with k have "\<exists>j < length (p_insts m). returns_to (p_insts m) j k" by blast
  then obtain j where j: "j < length (p_insts m)" "returns_to (p_insts m) j k" by blast
  moreover have "function_ok (p_insts m) fa" using m by (simp only: printed_def)
  ultimately have "instruction_ends_block (p_insts m ! j)"
    using function_inst(4) [OF _ j(1)] unfolding returns_to_def by blast
  then show ?thesis
    using leads_leader [OF m j(1) k(1)] j(2) unfolding returns_to_def by blast
qed

lemma loop_end_outlined:
  assumes "printed fa p n m" "i < length (p_insts m)" "loop_ends (p_cfg m) ! i \<noteq> UINT32_MAX"
  shows "outlined (p_insts m) fa i (unat (loop_ends (p_cfg m) ! i))"
  using assms unfolding printed_def cfg_correct_def by blast

lemma direct_total:
  assumes "printed fa p n m" "i < length (p_insts m)"
  shows "\<exists>b. c_function_cfg_can_loop_directly (p_cfg m) (p_insts m) (func_start (p_context m)) i = Some b"
  using assms can_loop_directly_eq [of "p_insts m" "p_cfg m" i fa]
  by (auto simp: printed_def function_ok_def cfg_correct_def dims_def)

text \<open>Where the statements of instruction \<open>i\<close> send the function.\<close>

definition continue_at :: "printed_function \<Rightarrow> nat \<Rightarrow> flow \<times> CPUState \<Rightarrow> CPUState option" where
  "continue_at m i = (\<lambda>(r, c). case r of
            Next \<Rightarrow> body_from m (i + 1) c
          | Goto a \<Rightarrow> do { k \<leftarrow> label_of (p_insts m) (all_labels (p_insts m)) a; body_from m k c }
          | Return \<Rightarrow> Some c
          | ReturnDispatch \<Rightarrow>
              if budget_used c then Some c
              else (case label_of (p_insts m) (filter (\<lambda>k. return_targets (p_cfg m) ! k) (all_labels (p_insts m))) (pc c) of
                      None \<Rightarrow> Some c
                    | Some k \<Rightarrow> body_from m k c)
          | CallChunk s continuation \<Rightarrow> do {
              called \<leftarrow> p_call m s c;
              case called of
                None \<Rightarrow> Some c
              | Some c' \<Rightarrow>
                  if pc c' = continuation then do {
                    k \<leftarrow> label_of (p_insts m) (all_labels (p_insts m)) continuation;
                    body_from m k c'
                  } else Some c'
            })"

lemma gives_continue:
  assumes m: "printed fa p n m" and i: "i < length (p_insts m)"
    and r: "flow_ok x (p_insts m ! i) (downcount e) (r, c2)" "chunk_starts x = chunk_starts (p_context m)" "func_start x = fa" "func_end x = fa + of_nat (length (p_insts m)) * 4"
    and low: "- p \<le> sint (downcount e)"
    and q: "instruction_cycles (p_insts m ! i) \<noteq> 0 \<Longrightarrow> q" "i + 1 < length (p_insts m) \<Longrightarrow> owed m q (i + 1)"
    and stop: "\<And>c. sane c \<Longrightarrow> sint (downcount c) \<le> sint (downcount e) \<Longrightarrow> min (sint (downcount e)) (- 256) - n \<le> sint (downcount c) \<Longrightarrow> Q c"
    and forward: "\<And>j c. i < j \<Longrightarrow> j \<le> length (p_insts m) \<Longrightarrow> owed m q j \<Longrightarrow> sane c \<Longrightarrow>
      sint (downcount c) \<le> sint (downcount e) \<Longrightarrow> min (sint (downcount e)) (- 256) - n \<le> sint (downcount c) \<Longrightarrow> gives Q (body_from m j c)"
    and jump: "\<And>k. q \<Longrightarrow> - 256 < sint (downcount e) \<Longrightarrow> k < length (p_insts m) \<Longrightarrow> leaders (p_cfg m) ! k \<Longrightarrow> gives Q (body_from m k c2)"
  shows "gives Q (continue_at m i (r, c2))"
proof -
  let ?insts = "p_insts m"
  have ok: "function_ok ?insts fa" and call: "budgeted p n (chunk_starts (p_context m)) (p_call m)" using m by (simp_all only: printed_def)
  have n: "0 \<le> n" using call by (simp only: budgeted_def)
  have c2: "sane c2" "downcount c2 = downcount e"
    using r(1) by (simp_all add: flow_ok_def steady_def)
  have lab: "label_of ?insts (all_labels ?insts) (inst_address (?insts ! k)) = Some k" if "k < length ?insts" for k
    using label_of_address [OF ok, of k "all_labels ?insts"] that by (simp add: subset_eq)
  have here: "Q c2" using stop [OF c2(1)] c2(2) n by simp
  have branch_charged: "q" if "branch_op (?insts ! i) \<or> inst_op (?insts ! i) = PPC_OP_BCLR"
    using q(1) branch_cycles [OF function_inst(2) [OF ok i] that] by simp
  show ?thesis
  proof (cases r)
    case Next
    have "owed m q (i + 1)" using q(2) by (cases "i + 1 < length ?insts") (auto simp: owed_def)
    then have "gives Q (body_from m (i + 1) c2)" using i c2 n by (intro forward) simp_all
    then show ?thesis by (simp add: continue_at_def Next)
  next
    case (Goto a)
    then have g: "branch_op (?insts ! i)" "a = inst_branch_target (?insts ! i)" "local x a"
      "a \<le> inst_address (?insts ! i) \<longrightarrow> - 256 < sint (downcount e)"
      using r(1) by (auto simp: flow_ok_def)
    obtain k where "in_function ?insts fa a k" using g(3) local_iff [OF ok r(3,4)] by blast
    then have k: "k < length ?insts" "a = inst_address (?insts ! k)" "branches_to ?insts fa i k"
      using in_function_address [OF ok] g(1,2) by (auto simp: branches_to_def branch_op_def)
    have leader: "leaders (p_cfg m) ! k" by (rule leads_leader [OF m i k(1)]) (simp add: k(3))
    have "gives Q (body_from m k c2)"
    proof (cases "k \<le> i")
      case True
      then have "a \<le> inst_address (?insts ! i)"
        using function_address [OF ok k(1)] function_address [OF ok i] by (simp add: k(2) word_le_nat_alt)
      then show ?thesis using jump [OF _ _ k(1) leader] branch_charged g(1,4) by blast
    next
      case False
      then show ?thesis using k(1) leader c2 n by (intro forward) (simp_all add: owed_def)
    qed
    then show ?thesis by (simp add: continue_at_def Goto k(2) lab [OF k(1)])
  next
    case Return
    then show ?thesis by (simp add: continue_at_def here)
  next
    case ReturnDispatch
    then have q: q using r(1) branch_charged by (simp add: flow_ok_def)
    show ?thesis
    proof (cases "label_of ?insts (filter (\<lambda>k. return_targets (p_cfg m) ! k) (all_labels ?insts)) (pc c2)")
      case None
      then show ?thesis by (simp add: continue_at_def ReturnDispatch here)
    next
      case (Some k)
      from label_ofD [OF this] have k: "k < length ?insts" "return_targets (p_cfg m) ! k" by auto
      have "gives Q (body_from m k c2)" if "\<not> budget_used c2"
        using jump [OF q _ k(1) return_target_leader [OF m k]] that by (simp add: budget_used_def c2(2))
      with Some show ?thesis by (simp add: continue_at_def ReturnDispatch here)
    qed
  next
    case (CallChunk s a)
    then have g: "branch_op (?insts ! i)" "a = inst_address (?insts ! i) + 4" "local x a" "s \<in> set (chunk_starts (p_context m))"
      using r(1,2) by (auto simp: flow_ok_def)
    obtain k where "in_function ?insts fa a k" using g(3) local_iff [OF ok r(3,4)] by blast
    then have k: "k < length ?insts" "a = inst_address (?insts ! k)" by (auto dest: in_function_address [OF ok])
    have "gives (\<lambda>r. case r of None \<Rightarrow> True | Some c' \<Rightarrow> spent n c2 c') (p_call m s c2)"
      using call c2 low g(4) by (simp add: budgeted_def)
    then show ?thesis
      unfolding continue_at_def CallChunk prod.case flow.case
    proof (rule gives_bind)
      fix called assume s: "case called of None \<Rightarrow> True | Some c' \<Rightarrow> spent n c2 c'"
      have "gives Q (body_from m k c3)" if "called = Some c3" for c3
      proof -
        have "unat (inst_address (?insts ! i)) + 4 < 2 ^ 32"
          using function_address [OF ok i] ok i by (simp add: function_ok_def)
        then have "unat a = unat fa + 4 * (i + 1)"
          using function_address [OF ok i] by (subst g(2), subst unat_add_bounded) simp_all
        then have "k = i + 1"
          using function_address [OF ok k(1)] k(2) by simp
        then show ?thesis
          using s that k(1) branch_charged g(1) c2 n by (intro forward) (auto simp: owed_def spent_def)
      qed
      with s show "gives Q (case called of None \<Rightarrow> Some c2 | Some c' \<Rightarrow>
          if pc c' = a then label_of ?insts (all_labels ?insts) a \<bind> (\<lambda>k. body_from m k c') else Some c')"
        using here stop c2 by (auto simp: k(2) lab [OF k(1)] spent_def split: option.split)
    qed
  qed
qed

lemma body_unfold:
  assumes m: "printed fa p n m" and i: "i < length (p_insts m)" and l: "loop_ends (p_cfg m) ! i = UINT32_MAX"
  shows "\<exists>b. body_from m i c = materialize m i c \<bind> (\<lambda>c.
      c_exec (p_host m) ((p_context m)\<lparr>direct_backedge := b, route_local_returns := has_local_returns m\<rparr>) (p_insts m ! i)
        (if leaders (p_cfg m) ! i \<and> block_cycles (p_cfg m) ! i \<noteq> 0 then charge (block_cycles (p_cfg m) ! i) c else c) \<bind>
      continue_at m i)"
proof -
  obtain b where "c_function_cfg_can_loop_directly (p_cfg m) (p_insts m) (func_start (p_context m)) i = Some b"
    using direct_total [OF m i] by blast
  then show ?thesis
    using i l by (intro exI [of _ b], subst body_from.simps) (simp add: printed_lengths [OF m] continue_at_def [abs_def])
qed

lemma body_runs:
  fixes base k :: int
  assumes m: "printed fa p n m" and b: "base \<le> - 256" and k: "k = 4294967296 + n"
    and p: "k * (int (length (p_insts m)) + 1) - base \<le> p" "p \<le> 4611686018427387904"
  shows "sane c \<Longrightarrow> i \<le> length (p_insts m) \<Longrightarrow> owed m q i \<Longrightarrow> base - k * int i \<le> sint (downcount c) \<Longrightarrow>
    gives (\<lambda>c'. sane c' \<and> sint (downcount c') \<le> sint (downcount c) \<and> base - k * (int (length (p_insts m)) + 1) \<le> sint (downcount c'))
      (body_from m i c)"
proof (induction "potential (length (p_insts m)) (rank c q) i" arbitrary: i c q rule: less_induct)
  case less
  let ?insts = "p_insts m" and ?N = "length (p_insts m)"
  let ?low = "base - k * (int ?N + 1)"
  let ?Q = "\<lambda>c'. sane c' \<and> sint (downcount c') \<le> sint (downcount c) \<and> ?low \<le> sint (downcount c')"
  have ok: "function_ok ?insts fa" using m by (simp only: printed_def)
  have n: "0 \<le> n" using m by (simp only: printed_def budgeted_def)
  have kn: "0 \<le> k" "4294967296 \<le> k" "n \<le> k" using k n by simp_all
  have mono: "k * int j \<le> k * int j'" if "j \<le> j'" for j j'
    using that kn(1) by (intro mult_left_mono) simp_all
  have next_k: "k * int (Suc j) = k * int j + k" for j
    by (simp add: algebra_simps)
  have pos: "0 \<le> k * int j" for j
    using kn(1) by simp
  have low: "?low = base - k * int ?N - k" by (simp add: algebra_simps)
  have again: "gives ?Q (body_from m j c')"
    if "potential ?N (rank c' q') j < potential ?N (rank c q) i" "sane c'" "j \<le> ?N" "owed m q' j"
      "base - k * int j \<le> sint (downcount c')" "sint (downcount c') \<le> sint (downcount c)" for j c' q'
    using less.hyps [OF that(1-5)] by (rule gives_mono) (use that(6) in auto)
  show ?case
  proof (cases "i < ?N")
    case False
    then show ?thesis
      using less.prems kn(1) low by (subst body_from.simps) simp
  next
    case i: True
    have up: "k * int i + k \<le> k * int ?N"
      using mono [of "Suc i" ?N] next_k [of i] i by simp
    show ?thesis
    proof (cases "loop_ends (p_cfg m) ! i = UINT32_MAX")
      case loop: False
      let ?l = "unat (loop_ends (p_cfg m) ! i)"
      have o: "outlined ?insts fa i ?l" by (rule loop_end_outlined [OF m i loop])
      then have l: "i < ?l" "?l < ?N" by (simp_all add: outlined_def direct_loop_def)
      have bounds: "base - k * int i \<le> - 256" "- 9223372036854775808 \<le> base - k * int i - 4294967296"
        using b p low up pos [of i] kn by linarith+
      have run: "gives (\<lambda>c'. sane c' \<and> sint (downcount c') \<le> sint (downcount c) \<and> base - k * int i - 4294967296 \<le> sint (downcount c'))
          (loop_from m i ?l i c)"
        using loop_runs [OF m o bounds less.prems(1), of i] less.prems(4) l by simp
      have resume: "gives ?Q (if inst_address (?insts ! ?l) + 4 < func_end (p_context m) \<and> pc c' = inst_address (?insts ! ?l) + 4
          then label_of ?insts (all_labels ?insts) (inst_address (?insts ! ?l) + 4) \<bind> (\<lambda>k. body_from m k c') else Some c')"
        if c': "sane c' \<and> sint (downcount c') \<le> sint (downcount c) \<and> base - k * int i - 4294967296 \<le> sint (downcount c')" for c'
      proof (rule gives_if)
        assume "inst_address (?insts ! ?l) + 4 < func_end (p_context m) \<and> pc c' = inst_address (?insts ! ?l) + 4"
        then have l1: "?l + 1 < ?N"
          using address_below_end [OF ok l(2)] m by (simp add: printed_def)
        have lab: "label_of ?insts (all_labels ?insts) (inst_address (?insts ! ?l) + 4) = Some (?l + 1)"
          unfolding next_address [OF ok l1]
          by (rule label_of_address [OF ok]) (use l1 in auto)
        have "branch_op (?insts ! ?l)" using o by (simp add: outlined_def direct_loop_def branches_to_def branch_op_def)
        then have "leaders (p_cfg m) ! (?l + 1)"
          using branch_ends by (intro leads_leader [OF m l(2) l1]) simp
        then have o1: "owed m q (?l + 1)" by (simp add: owed_def)
        have "k * int i + k \<le> k * int (?l + 1)"
          using mono [of "Suc i" "?l + 1"] next_k [of i] l(1) by linarith
        then have below: "base - k * int (?l + 1) \<le> sint (downcount c')"
          using c' kn by linarith
        have r1: "rank c' q \<le> rank c q" using c' by (intro rank_mono) simp_all
        have "gives ?Q (body_from m (?l + 1) c')"
        proof (rule again [OF _ _ _ o1 below])
          show "potential ?N (rank c' q) (?l + 1) < potential ?N (rank c q) i"
            using r1 l l1 by (intro potential_forward) simp_all
        qed (use c' l1 in simp_all)
        then show "gives ?Q (label_of ?insts (all_labels ?insts) (inst_address (?insts ! ?l) + 4) \<bind> (\<lambda>k. body_from m k c'))"
          by (simp add: lab)
      next
        show "gives ?Q (Some c')"
          unfolding gives_Some using c' low kn up by (intro conjI) linarith+
      qed
      show ?thesis
        using i loop l by (subst body_from.simps) (simp add: printed_lengths [OF m] Let_def gives_bind [OF run resume] cong: if_cong)
    next
      case plain: True
      let ?charged = "leaders (p_cfg m) ! i \<and> block_cycles (p_cfg m) ! i \<noteq> 0"
      let ?v = "block_cycles (p_cfg m) ! i"
      define q1 where "q1 \<longleftrightarrow> q \<or> ?charged"
      obtain direct where body: "body_from m i c = materialize m i c \<bind> (\<lambda>c.
          c_exec (p_host m) ((p_context m)\<lparr>direct_backedge := direct, route_local_returns := has_local_returns m\<rparr>) (?insts ! i)
            (if ?charged then charge ?v c else c) \<bind> continue_at m i)"
        using body_unfold [OF m i plain] by blast
      show ?thesis
        unfolding body
      proof (rule gives_bind [OF gives_materialize [OF m i]])
        show "steady (downcount c) c" using less.prems(1) by (simp add: steady_def)
      next
        fix c0 assume c0: "steady (downcount c) c0"
        define e where "e = (if ?charged then charge ?v c0 else c0)"
        have c0d: "downcount c0 = downcount c" using c0 by (simp only: steady_def)
        have "- 9223372036854775808 \<le> sint (downcount c0) - 4294967296"
          unfolding c0d using less.prems(4) p low kn up b by linarith
        note ch = sint_charge [OF this, of ?v]
        have v: "0 < uint ?v" if ?charged
          using that uint_bound [of ?v] by (metis less_le uint_0_iff)
        have d: "sane e" "sint (downcount e) \<le> sint (downcount c)" "base - k * int i - 4294967296 \<le> sint (downcount e)"
          using less.prems(4) c0 ch uint_bound [of ?v] by (auto simp: e_def steady_def)
        have rank: "rank e q1 \<le> rank c q"
        proof (cases ?charged)
          case True
          then show ?thesis using ch v c0 by (intro rank_charge) (simp add: e_def steady_def)
        next
          case False
          then show ?thesis using c0 by (simp only: e_def q1_def if_False) (simp add: rank_def steady_def)
        qed
        have min: "base - k * int (Suc i) \<le> min (sint (downcount e)) (- 256) - n"
          using d(3) b next_k [of i] pos [of i] k n by linarith
        have exec: "gives (flow_ok ((p_context m)\<lparr>direct_backedge := direct, route_local_returns := has_local_returns m\<rparr>)
            (?insts ! i) (downcount e))
          (c_exec (p_host m) ((p_context m)\<lparr>direct_backedge := direct, route_local_returns := has_local_returns m\<rparr>) (?insts ! i) e)"
          by (rule printed_exec [OF m i]) (use d(1) in \<open>simp add: steady_def\<close>)
        show "gives ?Q (c_exec (p_host m) ((p_context m)\<lparr>direct_backedge := direct, route_local_returns := has_local_returns m\<rparr>) (?insts ! i)
            (if ?charged then charge ?v c0 else c0) \<bind> continue_at m i)"
          unfolding e_def [symmetric]
        proof (rule gives_bind [OF exec])
          fix r assume r: "flow_ok ((p_context m)\<lparr>direct_backedge := direct, route_local_returns := has_local_returns m\<rparr>)
            (?insts ! i) (downcount e) r"
          obtain f c2 where f: "r = (f, c2)" by (cases r)
          have c2: "sane c2" "downcount c2 = downcount e"
            using r by (simp_all add: f flow_ok_def steady_def)
          show "gives ?Q (continue_at m i r)"
            unfolding f
          proof (rule gives_continue [OF m i r [unfolded f], of q1])
            show "- p \<le> sint (downcount e)"
              using d(3) p(1) low kn up by linarith
            show q1 if "instruction_cycles (?insts ! i) \<noteq> 0"
              using owed_step [OF m i less.prems(3)] that by (auto simp: q1_def)
            show "owed m q1 (i + 1)"
              using owed_step [OF m i less.prems(3)] by (auto simp: q1_def owed_def)
            show "?Q c'" if "sane c'" "sint (downcount c') \<le> sint (downcount e)" "min (sint (downcount e)) (- 256) - n \<le> sint (downcount c')" for c'
              using that d(2) min low next_k [of i] up kn by (intro conjI) linarith+
            show "gives ?Q (body_from m j c')" if "i < j" "j \<le> ?N" "owed m q1 j" "sane c'"
              "sint (downcount c') \<le> sint (downcount e)" "min (sint (downcount e)) (- 256) - n \<le> sint (downcount c')" for j c'
            proof (rule again [OF _ that(4,2,3)])
              have "rank c' q1 \<le> rank c q" using rank_mono [OF that(5), of q1 q1] rank by simp
              then show "potential ?N (rank c' q1) j < potential ?N (rank c q) i" using that(1,2) by (rule potential_forward)
              show "base - k * int j \<le> sint (downcount c')" using that(6) min mono [of "Suc i" j] that(1) by linarith
              show "sint (downcount c') \<le> sint (downcount c)" using that(5) d(2) by simp
            qed
            show "gives ?Q (body_from m j c2)" if "q1" "- 256 < sint (downcount e)" "j < ?N" "leaders (p_cfg m) ! j" for j
            proof (rule again [where q' = False])
              have "rank c2 False < rank c q" using rank_jump [OF c2(2) that(2)] rank that(1) by simp
              then show "potential ?N (rank c2 False) j < potential ?N (rank c q) i" by (rule potential_back)
              show "base - k * int j \<le> sint (downcount c2)" using that(2) c2(2) b pos [of j] by simp
            qed (use c2 d that in \<open>simp_all add: owed_def\<close>)
          qed (use m in \<open>simp_all add: printed_def\<close>)
        qed
      qed
    qed
  qed
qed

section \<open>Calls of chunks\<close>

lemma func_returns:
  assumes ok: "function_ok insts fa" and h: "host_steady H" and call: "budgeted p n starts call"
    and p: "(4294967296 + n) * (int (length insts) + 1) - min (sint (downcount c)) (- 256) \<le> p" "p \<le> 4611686018427387904"
    and c: "sane c"
  shows "gives (spent ((4294967296 + n) * (int (length insts) + 1)) c) (func_run H call starts insts fa c)"
proof -
  have size_ok: "4 * length insts < 2 ^ 32" "insts \<noteq> []" using ok by (simp_all add: function_ok_def)
  obtain cfg where cfg: "c_function_cfg_build True insts fa = Some (True, cfg)" "cfg_correct insts fa cfg"
    using c_function_cfg_build_correct [OF size_ok] by blast
  let ?m = "\<lparr>p_host = H, p_call = call,
       p_context = \<lparr>chunk_starts = starts, func_start = fa, func_end = fa + of_nat (length insts) * 4,
         direct_backedge = False, route_local_returns = False\<rparr>,
       p_insts = insts, p_cfg = cfg\<rparr>"
  have m: "printed fa p n ?m"
    by (simp add: printed_def ok cfg(2) h call)
  have n: "0 \<le> (4294967296 + n) * (int (length insts) + 1)"
    using call by (simp add: budgeted_def)
  have "gives (spent ((4294967296 + n) * (int (length insts) + 1)) c) (body_from ?m k c)" if "k < length insts" for k
  proof (rule gives_mono [OF body_runs [OF m _ refl, where base = "min (sint (downcount c)) (- 256)" and q = True]])
    have "0 \<le> (4294967296 + n) * int k"
      using call by (simp add: budgeted_def)
    then show "min (sint (downcount c)) (- 256) - (4294967296 + n) * int k \<le> sint (downcount c)"
      by linarith
  qed (use p c that in \<open>simp_all add: owed_def spent_def\<close>)
  moreover have "spent ((4294967296 + n) * (int (length insts) + 1)) c c"
    using c n unfolding spent_def by linarith
  ultimately show ?thesis
    unfolding func_run_def cfg(1)
    by (auto simp: Let_def split: option.split dest: label_ofD)
qed

text \<open>The chunks of a program by their starts.  A chunk calls another inside \<open>dolrecomp_call_enter\<close>, which
  refuses the call at depth \<open>DOLRECOMP_C_MAX_CALL_DEPTH\<close>: \<open>depth\<close> is how many calls may still nest.  A
  chunk that is not in the program does not link.\<close>

type_synonym c_program = "(u32 \<times> PPCInst list) list"

primrec chunk_run :: "host \<Rightarrow> c_program \<Rightarrow> nat \<Rightarrow> chunk_call" where
  "chunk_run H prog 0 s c = Some None"
| "chunk_run H prog (Suc depth) s c = do {
     insts \<leftarrow> map_of prog s;
     c' \<leftarrow> func_run H (chunk_run H prog depth) (map fst prog) insts s c;
     Some (Some c')
   }"

definition program_ok :: "nat \<Rightarrow> c_program \<Rightarrow> bool" where
  "program_ok n prog \<longleftrightarrow> (\<forall>(s, insts) \<in> set prog. function_ok insts s \<and> length insts \<le> n)"

text \<open>How far the cycle counter may fall below the point where the budget is used up.\<close>

primrec overrun :: "nat \<Rightarrow> nat \<Rightarrow> int" where
  "overrun n 0 = 0"
| "overrun n (Suc depth) = (4294967296 + overrun n depth) * (int n + 1)"

lemma overrun_grows: "0 \<le> overrun n depth \<and> (1 \<le> n \<longrightarrow> 2 * overrun n depth \<le> overrun n (Suc depth))"
proof (induction depth)
  case (Suc depth)
  have "0 \<le> overrun n (Suc depth)"
    using Suc by simp
  moreover have "2 * overrun n (Suc depth) \<le> overrun n (Suc (Suc depth))" if "1 \<le> n"
  proof -
    have "overrun n (Suc depth) * 2 \<le> (4294967296 + overrun n (Suc depth)) * (int n + 1)"
      using calculation that by (intro mult_mono) simp_all
    then show ?thesis by (simp only: overrun.simps(2) [of n "Suc depth"] mult.commute [of 2])
  qed
  ultimately show ?case by blast
qed simp

lemma chunk_runs_budgeted:
  assumes prog: "program_ok n prog" and h: "host_steady H" and n: "1 \<le> n"
  shows "256 + 2 * overrun n depth \<le> 4611686018427387904 \<Longrightarrow>
    budgeted (4611686018427387904 - 2 * overrun n depth) (overrun n depth) (map fst prog) (chunk_run H prog depth)"
proof (induction depth)
  case 0
  show ?case by (simp add: budgeted_def)
next
  case (Suc depth)
  let ?o = "overrun n depth" and ?o' = "overrun n (Suc depth)"
  have grow: "0 \<le> ?o" "2 * ?o \<le> ?o'" "0 \<le> ?o'"
    using overrun_grows [of n depth] overrun_grows [of n "Suc depth"] n by blast+
  then have call: "budgeted (4611686018427387904 - 2 * ?o) ?o (map fst prog) (chunk_run H prog depth)"
    using Suc.prems by (intro Suc.IH) linarith
  have "gives (\<lambda>r. case r of None \<Rightarrow> True | Some c' \<Rightarrow> spent ?o' c c') (chunk_run H prog (Suc depth) s c)"
    if known: "s \<in> set (map fst prog)" and start: "sane c" "- (4611686018427387904 - 2 * ?o') \<le> sint (downcount c)" for s c
  proof -
    obtain insts where s: "map_of prog s = Some insts"
      using known map_of_eq_None_iff [of prog s] by (cases "map_of prog s") simp_all
    then have i: "function_ok insts s" "length insts \<le> n"
      using prog map_of_SomeD [OF s] by (auto simp: program_ok_def)
    have le: "(4294967296 + ?o) * (int (length insts) + 1) \<le> ?o'"
      unfolding overrun.simps using i(2) grow(1) by (intro mult_left_mono) simp_all
    have "gives (spent ((4294967296 + ?o) * (int (length insts) + 1)) c)
      (func_run H (chunk_run H prog depth) (map fst prog) insts s c)"
    proof (rule func_returns [OF i(1) h call _ _ start(1)])
      show "(4294967296 + ?o) * (int (length insts) + 1) - min (sint (downcount c)) (- 256) \<le> 4611686018427387904 - 2 * ?o"
        using start(2) Suc.prems le grow by linarith
    qed (use grow in simp)
    then show ?thesis
      using le by (auto simp: s spent_def gives_def simp del: overrun.simps)
  qed
  with grow show ?case unfolding budgeted_def by blast
qed

section \<open>Small examples\<close>

definition small_machine :: CPUState where
  "small_machine = (zero_cpu [])\<lparr>ram := Some (replicate 64 0), ram_size := 64\<rparr>"

lemma small_machine_sane: "sane small_machine"
  by (simp add: sane_def small_machine_def wf_mem_def wf_regs_def zero_cpu_def)

lemma small_machine_downcount: "downcount small_machine = 0"
  by (simp add: small_machine_def zero_cpu_def)

lemma no_host_steady: "host_steady no_host"
  by (simp add: host_steady_def no_host_def)

definition endless_loop :: "PPCInst list" where
  "endless_loop =
    [zero_inst\<lparr>inst_op := PPC_OP_ADDI, inst_address := 0x80003100, inst_rD := 3, inst_rA := 3, inst_simm := 1\<rparr>,
     zero_inst\<lparr>inst_op := PPC_OP_B, inst_address := 0x80003104, inst_branch_target := 0x80003100\<rparr>]"

lemma endless_loop_ok: "function_ok endless_loop 0x80003100"
  by (auto simp: function_ok_def endless_loop_def wf_fields_def zero_inst_def less_Suc_eq float_calls_def)

definition mutual_calls :: c_program where
  "mutual_calls =
    [(0x80003100,
      [zero_inst\<lparr>inst_op := PPC_OP_B, inst_address := 0x80003100, inst_branch_target := 0x80004000, inst_lk := True\<rparr>,
       zero_inst\<lparr>inst_op := PPC_OP_BCLR, inst_address := 0x80003104, inst_bo := 20\<rparr>]),
     (0x80004000,
      [zero_inst\<lparr>inst_op := PPC_OP_B, inst_address := 0x80004000, inst_branch_target := 0x80003100, inst_lk := True\<rparr>,
       zero_inst\<lparr>inst_op := PPC_OP_BCLR, inst_address := 0x80004004, inst_bo := 20\<rparr>])]"

lemma mutual_calls_ok: "program_ok 2 mutual_calls"
  by (auto simp: program_ok_def mutual_calls_def function_ok_def wf_fields_def zero_inst_def less_Suc_eq
      instruction_ends_block_def float_calls_def)

section \<open>Properties\<close>





end
