(* ===== verification/Spec2Isabelle.thy ===== *)
theory Spec2Isabelle
  imports Encode CpuExc Rel Smc Cfg Rpx EmitFunc
begin

text \<open>
  A verification development of DolRecomp, a static recompiler for GameCube and Wii programs:
  it loads an executable, decodes its PowerPC code and translates it to C or LLVM, which runs
  against a small processor runtime.
\<close>

unbundle bit_operations_syntax

section \<open>A patched branch decodes to its target\<close>

lemma signed_take_bit_fits:
  fixes d :: u32
  assumes "m < 32" "- (2 ^ m) \<le> sint d" "sint d < 2 ^ m"
  shows "signed_take_bit m d = d"
proof (rule signed_word_eqI)
  have "sint (signed_take_bit m d) = signed_take_bit m (uint d)"
    using sint_sign_extend [OF assms(1)] sign_extend_take_bit [OF assms(1)] by simp
  also have "\<dots> = signed_take_bit m (sint d)"
    using assms(1) by (simp add: sint_uint signed_take_bit_signed_take_bit)
  also have "\<dots> = sint d"
    using assms(2,3) by (rule signed_take_bit_int_eq_self)
  finally show "sint (signed_take_bit m d) = sint d" .
qed

text \<open>The word a relative relocation writes: \<open>k\<close> bits above the two low ones come from \<open>d\<close>.\<close>

lemma bit_patched:
  fixes w d :: u32
  shows "bit ((w AND NOT (shl (mask k) 2)) OR (d AND shl (mask k) 2)) i \<longleftrightarrow>
    (if 2 \<le> i \<and> i < k + 2 \<and> i < 32 then bit d i else bit w i)"
  by (cases "i < 32") (auto simp: bit_simps dest: bit_imp_le_length)

lemma low_bits_clear:
  assumes "(d :: u32) AND 3 = 0" "i < 2"
  shows "\<not> bit d i"
proof -
  have "\<not> bit (d AND mask 2) i"
    using assms(1) by (simp add: mask_numeral)
  then show ?thesis
    using assms(2) by (simp add: bit_and_iff bit_mask_iff)
qed

lemma displacement_masks:
  "(0x03FFFFFC :: u32) = shl (mask 24) 2" "(0xFC000003 :: u32) = NOT (shl (mask 24) 2)"
  "(0x0000FFFC :: u32) = shl (mask 14) 2" "(0xFFFF0003 :: u32) = NOT (shl (mask 14) 2)"
  by (simp_all add: mask_numeral)

text \<open>What the two relative relocations leave of the word and what the decoder makes of it.\<close>

lemma rel24_word:
  fixes w d :: u32
  assumes "d AND 3 = 0" "- (2 ^ 25) \<le> sint d" "sint d < 2 ^ 25"
  defines "w' \<equiv> (w AND 0xFC000003) OR (d AND 0x03FFFFFC)"
  shows "sign_extend (w' AND 0x03FFFFFC) 26 = d" "PPC_PRIMARY w' = PPC_PRIMARY w"
    "(shr w' 1 AND 1 \<noteq> 0) = (shr w 1 AND 1 \<noteq> 0)" "(w' AND 1 \<noteq> 0) = (w AND 1 \<noteq> 0)"
proof -
  have b: "bit w' i \<longleftrightarrow> (if 2 \<le> i \<and> i < 26 \<and> i < 32 then bit d i else bit w i)" for i
    unfolding w'_def displacement_masks bit_patched by simp
  have "w' AND 0x03FFFFFC = take_bit (Suc 25) d"
    unfolding displacement_masks using low_bits_clear [OF assms(1)]
    by (intro bit_word_eqI) (auto simp: bit_and_iff bit_take_bit_iff bit_push_bit_iff bit_mask_iff b not_le)
  then show "sign_extend (w' AND 0x03FFFFFC) 26 = d"
    using sign_extend_take_bit [of 25 d] signed_take_bit_fits [of 25 d] assms(2,3) by simp
  show "PPC_PRIMARY w' = PPC_PRIMARY w"
    unfolding PPC_PRIMARY_def by (rule bit_word_eqI) (simp add: bit_drop_bit_eq b)
  show "(shr w' 1 AND 1 \<noteq> 0) = (shr w 1 AND 1 \<noteq> 0)" "(w' AND 1 \<noteq> 0) = (w AND 1 \<noteq> 0)"
    by (simp_all add: and_one_bit bit_drop_bit_eq b)
qed

lemma rel14_word:
  fixes w d :: u32
  assumes "d AND 3 = 0" "- (2 ^ 15) \<le> sint d" "sint d < 2 ^ 15"
  defines "w' \<equiv> (w AND 0xFFFF0003) OR (d AND 0x0000FFFC)"
  shows "sign_extend (w' AND 0x0000FFFC) 16 = d" "PPC_PRIMARY w' = PPC_PRIMARY w"
    "PPC_BO w' = PPC_BO w" "PPC_BI w' = PPC_BI w"
    "(shr w' 1 AND 1 \<noteq> 0) = (shr w 1 AND 1 \<noteq> 0)" "(w' AND 1 \<noteq> 0) = (w AND 1 \<noteq> 0)"
proof -
  have b: "bit w' i \<longleftrightarrow> (if 2 \<le> i \<and> i < 16 \<and> i < 32 then bit d i else bit w i)" for i
    unfolding w'_def displacement_masks bit_patched by simp
  have "w' AND 0x0000FFFC = take_bit (Suc 15) d"
    unfolding displacement_masks using low_bits_clear [OF assms(1)]
    by (intro bit_word_eqI) (auto simp: bit_and_iff bit_take_bit_iff bit_push_bit_iff bit_mask_iff b not_le)
  then show "sign_extend (w' AND 0x0000FFFC) 16 = d"
    using sign_extend_take_bit [of 15 d] signed_take_bit_fits [of 15 d] assms(2,3) by simp
  show "PPC_PRIMARY w' = PPC_PRIMARY w" "PPC_BO w' = PPC_BO w" "PPC_BI w' = PPC_BI w"
    unfolding PPC_PRIMARY_def PPC_BO_def PPC_BI_def
    by (rule bit_word_eqI, simp add: bit_drop_bit_eq bit_and_iff b)+
  show "(shr w' 1 AND 1 \<noteq> 0) = (shr w 1 AND 1 \<noteq> 0)" "(w' AND 1 \<noteq> 0) = (w AND 1 \<noteq> 0)"
    by (simp_all add: and_one_bit bit_drop_bit_eq b)
qed

lemma patch_word_result:
  assumes "patch_word s off f = Ok s'" "sec_data s = Some bs" "read_be32 bs (unat off) = Some w"
  shows "\<exists>bs'. sec_data s' = Some bs' \<and> read_be32 bs' (unat off) = Some (f w)"
  using assms by (auto simp: patch_word_def outcome_simps bind_eq_Some_conv single.rd_wr)

lemma relative_displacement:
  assumes "check_rel_delta (sint d) lo hi = Ok u"
  shows "(d :: u32) AND 3 = 0" "lo \<le> sint d" "sint d \<le> hi"
proof -
  have c: "sint d AND 3 = 0 \<and> lo \<le> sint d \<and> sint d \<le> hi"
    using assms by (auto simp: check_rel_delta_def outcome_simps)
  then show "lo \<le> sint d" "sint d \<le> hi" by simp_all
  have "(word_of_int (sint d AND 3) :: u32) = d AND 3"
    by (rule bit_word_eqI) (auto simp: bit_simps)
  then show "d AND 3 = 0" using c by simp
qed

text \<open>C18 A relative branch instruction of a section that \<open>R_PPC_REL24\<close> relocates
  decodes at its address to a branch to the relocation target, with the link bit it had.\<close>

theorem rel24_branches_to_target:
  assumes "apply_relocation s off pa R_PPC_REL24 target = Ok s'"
    and "sec_data s = Some bs" "read_be32 bs (unat off) = Some w"
    and "inst_op (ppc_decode w pa) = PPC_OP_B" "\<not> inst_aa (ppc_decode w pa)"
  shows "\<exists>bs' w'. sec_data s' = Some bs' \<and> read_be32 bs' (unat off) = Some w' \<and>
    inst_op (ppc_decode w' pa) = PPC_OP_B \<and> inst_branch_target (ppc_decode w' pa) = target \<and>
    inst_lk (ppc_decode w' pa) = inst_lk (ppc_decode w pa)"
proof -
  let ?d = "target - pa"
  let ?w = "(w AND 0xFC000003) OR (?d AND 0x03FFFFFC)"
  obtain u where u: "check_rel_delta (sint ?d) (- 0x02000000) 0x01FFFFFC = Ok u"
    and p: "patch_word s off (\<lambda>w. (w AND 0xFC000003) OR (?d AND 0x03FFFFFC)) = Ok s'"
    using assms(1) by (auto simp: apply_relocation_def Let_def outcome_simps)
  note d = relative_displacement [OF u]
  have "- (2 ^ 25) \<le> sint ?d" "sint ?d < 2 ^ 25"
    using d(2,3) by simp_all
  note w = rel24_word [OF d(1) this, of w]
  have op: "PPC_PRIMARY w = 18"
    using assms(4) by (simp add: ppc_decode_op_B)
  have aa: "\<not> (shr w 1 AND 1 \<noteq> 0)"
    using assms(5) by (simp add: ppc_decode_b [OF op] decode_b_def Let_def)
  have "ppc_decode ?w pa = (fresh ?w pa)\<lparr>inst_op := PPC_OP_B, inst_aa := False,
      inst_lk := (w AND 1 \<noteq> 0), inst_branch_target := target\<rparr>"
    using w op aa by (simp only: ppc_decode_b decode_b_def Let_def) simp
  moreover have "inst_lk (ppc_decode w pa) = (w AND 1 \<noteq> 0)"
    by (simp add: ppc_decode_b [OF op] decode_b_def Let_def)
  ultimately show ?thesis
    using patch_word_result [OF p assms(2,3)] by auto
qed

text \<open>A section of two branches to themselves.\<close>

definition branch_section :: RELSection where
  "branch_section = zero_section\<lparr>sec_address := 0x81000048, sec_size := 8, sec_executable := True,
     sec_data := Some [0x48, 0, 0, 0, 0x41, 0x82, 0, 0]\<rparr>"

theorem rel24_branches_to_target_witness:
  "\<exists>bs' w'. sec_data (branch_section\<lparr>sec_data := Some bs'\<rparr>) = Some bs' \<and> read_be32 bs' 0 = Some w' \<and>
    inst_branch_target (ppc_decode w' 0x81000048) = 0x80001000"
proof -
  let ?s = "branch_section\<lparr>sec_data := Some [0x4B, 0, 0x0F, 0xB8, 0x41, 0x82, 0, 0]\<rparr>"
  have p: "apply_relocation branch_section 0 0x81000048 R_PPC_REL24 0x80001000 = Ok ?s"
    by code_simp
  have d: "sec_data branch_section = Some [0x48, 0, 0, 0, 0x41, 0x82, 0, 0]"
    "read_be32 [0x48, 0, 0, 0, 0x41, 0x82, 0, 0] (unat (0 :: u32)) = Some 0x48000000"
    by code_simp+
  have i: "inst_op (ppc_decode 0x48000000 0x81000048) = PPC_OP_B"
    "\<not> inst_aa (ppc_decode 0x48000000 0x81000048)"
    by code_simp+
  show ?thesis
    using rel24_branches_to_target [OF p d i] by auto
qed

text \<open>C19 The same for a relative conditional branch and \<open>R_PPC_REL14\<close>: its
  condition is kept too.\<close>

theorem rel14_branches_to_target:
  assumes "apply_relocation s off pa R_PPC_REL14 target = Ok s'"
    and "sec_data s = Some bs" "read_be32 bs (unat off) = Some w"
    and "inst_op (ppc_decode w pa) = PPC_OP_BC" "\<not> inst_aa (ppc_decode w pa)"
  shows "\<exists>bs' w'. sec_data s' = Some bs' \<and> read_be32 bs' (unat off) = Some w' \<and>
    inst_op (ppc_decode w' pa) = PPC_OP_BC \<and> inst_branch_target (ppc_decode w' pa) = target \<and>
    inst_bo (ppc_decode w' pa) = inst_bo (ppc_decode w pa) \<and>
    inst_bi (ppc_decode w' pa) = inst_bi (ppc_decode w pa) \<and>
    inst_lk (ppc_decode w' pa) = inst_lk (ppc_decode w pa)"
proof -
  let ?d = "target - pa"
  let ?w = "(w AND 0xFFFF0003) OR (?d AND 0x0000FFFC)"
  obtain u where u: "check_rel_delta (sint ?d) (- 0x8000) 0x7FFC = Ok u"
    and p: "patch_word s off (\<lambda>w. (w AND 0xFFFF0003) OR (?d AND 0x0000FFFC)) = Ok s'"
    using assms(1) by (auto simp: apply_relocation_def Let_def outcome_simps)
  note d = relative_displacement [OF u]
  have "- (2 ^ 15) \<le> sint ?d" "sint ?d < 2 ^ 15"
    using d(2,3) by simp_all
  note w = rel14_word [OF d(1) this, of w]
  have op: "PPC_PRIMARY w = 16"
    using assms(4) by (simp add: ppc_decode_op_BC)
  have aa: "\<not> (shr w 1 AND 1 \<noteq> 0)"
    using assms(5) by (simp add: ppc_decode_bc [OF op] decode_bc_def Let_def)
  have "ppc_decode ?w pa = (fresh ?w pa)\<lparr>inst_op := PPC_OP_BC, inst_bo := ucast (PPC_BO w),
      inst_bi := ucast (PPC_BI w), inst_aa := False, inst_lk := (w AND 1 \<noteq> 0),
      inst_branch_target := target\<rparr>"
    using w op aa by (simp only: ppc_decode_bc decode_bc_def Let_def) simp
  moreover have "inst_lk (ppc_decode w pa) = (w AND 1 \<noteq> 0)" "inst_bo (ppc_decode w pa) = ucast (PPC_BO w)"
    "inst_bi (ppc_decode w pa) = ucast (PPC_BI w)"
    by (simp_all add: ppc_decode_bc [OF op] decode_bc_def Let_def)
  ultimately show ?thesis
    using patch_word_result [OF p assms(2,3)] by auto
qed

theorem rel14_branches_to_target_witness:
  "\<exists>bs' w'. read_be32 bs' 4 = Some w' \<and> inst_branch_target (ppc_decode w' 0x8100004C) = 0x81000000 \<and>
    inst_bo (ppc_decode w' 0x8100004C) = 12"
proof -
  let ?s = "branch_section\<lparr>sec_data := Some [0x48, 0, 0, 0, 0x41, 0x82, 0xFF, 0xB4]\<rparr>"
  have p: "apply_relocation branch_section 4 0x8100004C R_PPC_REL14 0x81000000 = Ok ?s"
    by code_simp
  have d: "sec_data branch_section = Some [0x48, 0, 0, 0, 0x41, 0x82, 0, 0]"
    "read_be32 [0x48, 0, 0, 0, 0x41, 0x82, 0, 0] (unat (4 :: u32)) = Some 0x41820000"
    by code_simp+
  have i: "inst_op (ppc_decode 0x41820000 0x8100004C) = PPC_OP_BC"
    "\<not> inst_aa (ppc_decode 0x41820000 0x8100004C)" "inst_bo (ppc_decode 0x41820000 0x8100004C) = 12"
    by code_simp+
  show ?thesis
    using rel14_branches_to_target [OF p d i(1,2)] i(3) by auto
qed

end
